(* ===== verification/Prelude.thy ===== *)
theory Prelude
  imports Complex_Main "HOL-Library.Multiset"
begin

text \<open>
  Shared vocabulary of the development: the errors the services throw, the result type every
  fallible operation returns, the operations on database tables (a table is the list of its rows),
  the arithmetic of JavaScript's \<^verbatim>\<open>bigint\<close> and \<^verbatim>\<open>Math.round\<close>, and the lemmas the
  component theories use about them.
\<close>

section \<open>Errors and results\<close>

text \<open>
  The NestJS exceptions the services throw, a plain \<^verbatim>\<open>Error\<close>, and the errors Prisma raises with
  their codes (\<^verbatim>\<open>P2002\<close>: unique constraint violated, \<^verbatim>\<open>P2025\<close>: record not found).  Messages are the
  static part of the source's message; interpolated amounts and names are left out.
\<close>

datatype http_error =
    BadRequest string
  | NotFound string
  | Conflict string
  | Forbidden string
  | Unauthorized string
  | InternalServerError string
  | UnprocessableEntity string
  | ServiceUnavailable string
  | HttpFailure nat string
  | PlainError string
  | PrismaError string

type_synonym 'a result = "http_error + 'a"

definition bindE :: "'a result \<Rightarrow> ('a \<Rightarrow> 'b result) \<Rightarrow> 'b result" where
  "bindE m f = (case m of Inl e \<Rightarrow> Inl e | Inr x \<Rightarrow> f x)"

text \<open>\<^verbatim>\<open>if (!b) throw e\<close> and \<^verbatim>\<open>if (!x) throw e\<close> for a nullable value.\<close>

definition ensure :: "bool \<Rightarrow> http_error \<Rightarrow> unit result" where
  "ensure b e = (if b then Inr () else Inl e)"

definition orThrow :: "http_error \<Rightarrow> 'a option \<Rightarrow> 'a result" where
  "orThrow e x = (case x of None \<Rightarrow> Inl e | Some v \<Rightarrow> Inr v)"

named_theorems result_simps \<open>inversion of the error monad\<close>

lemma bindE_Inr_iff [result_simps]: "bindE m f = Inr y \<longleftrightarrow> (\<exists>x. m = Inr x \<and> f x = Inr y)"
  by (simp add: bindE_def split: sum.splits)

lemma bindE_Inl_iff:
  "bindE m f = Inl e \<longleftrightarrow> m = Inl e \<or> (\<exists>x. m = Inr x \<and> f x = Inl e)"
  by (auto simp: bindE_def split: sum.splits)

lemma bindE_simps [simp]: "bindE (Inr x) f = f x" "bindE (Inl e) f = Inl e"
  by (simp_all add: bindE_def)

lemma ensure_Inr_iff [result_simps]: "ensure b e = Inr u \<longleftrightarrow> b"
  by (simp add: ensure_def)

lemma ensure_Inl_iff: "ensure b e = Inl e' \<longleftrightarrow> \<not> b \<and> e' = e"
  by (auto simp: ensure_def)

lemma ensure_simps [simp]: "ensure True e = Inr ()" "ensure False e = Inl e"
  by (simp_all add: ensure_def)

lemma orThrow_Inr_iff [result_simps]: "orThrow e x = Inr y \<longleftrightarrow> x = Some y"
  by (simp add: orThrow_def split: option.splits)

lemma orThrow_Inl_iff: "orThrow e x = Inl e' \<longleftrightarrow> x = None \<and> e' = e"
  by (auto simp: orThrow_def split: option.splits)

lemma orThrow_simps [simp]: "orThrow e (Some x) = Inr x" "orThrow e None = Inl e"
  by (simp_all add: orThrow_def)

lemma result_not_Inl: "(\<forall>y. m \<noteq> Inr y) \<Longrightarrow> \<exists>e. m = Inl e" for m :: "'a result"
  by (cases m) auto

lemma result_cases_state:
  fixes m :: "('a \<times> 's) result"
  obtains (error) e where "m = Inl e" | (ok) x s where "m = Inr (x, s)"
  by (cases m) auto

text \<open>
  A Prisma \<^verbatim>\<open>$transaction\<close> rolls back when its callback throws: the state of a failed
  transaction is the state it started from.
\<close>

definition transaction :: "('s \<Rightarrow> ('a \<times> 's) result) \<Rightarrow> 's \<Rightarrow> 'a result \<times> 's" where
  "transaction m s = (case m s of Inl e \<Rightarrow> (Inl e, s) | Inr (x, s') \<Rightarrow> (Inr x, s'))"

lemma transaction_rollback: "fst (transaction m s) = Inl e \<Longrightarrow> snd (transaction m s) = s"
  by (auto simp: transaction_def split: sum.splits)

lemma transaction_simps [simp]:
  "m s = Inl e \<Longrightarrow> transaction m s = (Inl e, s)"
  "m s = Inr (x, s') \<Longrightarrow> transaction m s = (Inr x, s')"
  by (simp_all add: transaction_def)

lemma transaction_Inr: "transaction m s = (Inr x, s') \<longleftrightarrow> m s = Inr (x, s')"
  by (auto simp: transaction_def split: sum.splits)

section \<open>Tables\<close>

text \<open>
  \<^verbatim>\<open>findFirst\<close> and \<^verbatim>\<open>findUnique\<close> return the first row that matches; \<^verbatim>\<open>update\<close> on a unique key
  changes the one row that has it; \<^verbatim>\<open>updateMany\<close> is \<open>map\<close>, \<^verbatim>\<open>count\<close> and \<^verbatim>\<open>aggregate\<close> are
  sums over \<open>filter\<close>.
\<close>

abbreviation findFirst :: "('r \<Rightarrow> bool) \<Rightarrow> 'r list \<Rightarrow> 'r option" where
  "findFirst \<equiv> List.find"

primrec updateRow :: "('r \<Rightarrow> bool) \<Rightarrow> ('r \<Rightarrow> 'r) \<Rightarrow> 'r list \<Rightarrow> 'r list" where
  "updateRow P f [] = []"
| "updateRow P f (r # rs) = (if P r then f r # rs else r # updateRow P f rs)"

definition sumBy :: "('r \<Rightarrow> bool) \<Rightarrow> ('r \<Rightarrow> int) \<Rightarrow> 'r list \<Rightarrow> int" where
  "sumBy P g rs = sum_list (map g (filter P rs))"

lemma sumBy_simps [simp]:
  "sumBy P g [] = 0"
  "sumBy P g (r # rs) = (if P r then g r else 0) + sumBy P g rs"
  "sumBy P g (rs @ ts) = sumBy P g rs + sumBy P g ts"
  by (simp_all add: sumBy_def)

lemma find_SomeD: "findFirst P rs = Some r \<Longrightarrow> P r \<and> r \<in> set rs"
  by (induction rs) (auto split: if_splits)

lemma find_NoneD: "findFirst P rs = None \<Longrightarrow> r \<in> set rs \<Longrightarrow> \<not> P r"
  by (induction rs) (auto split: if_splits)

lemma find_None_eq: "findFirst P rs = None \<longleftrightarrow> (\<forall>r \<in> set rs. \<not> P r)"
  by (induction rs) auto

lemma find_cong_P: "(\<And>r. r \<in> set rs \<Longrightarrow> P r = Q r) \<Longrightarrow> findFirst P rs = findFirst Q rs"
  by (induction rs) auto

lemma find_append: "findFirst P (rs @ ts) = (case findFirst P rs of None \<Rightarrow> findFirst P ts | Some r \<Rightarrow> Some r)"
  by (induction rs) auto

lemma find_unique:
  "distinct (map k rs) \<Longrightarrow> r \<in> set rs \<Longrightarrow> findFirst (\<lambda>x. k x = k r) rs = Some r"
  by (induction rs) (auto simp: image_iff)

lemma updateRow_none [simp]: "findFirst P rs = None \<Longrightarrow> updateRow P f rs = rs"
  by (induction rs) (auto split: if_splits)

lemma map_updateRow: "(\<And>r. P r \<Longrightarrow> k (f r) = k r) \<Longrightarrow> map k (updateRow P f rs) = map k rs"
  by (induction rs) auto

lemma length_updateRow [simp]: "length (updateRow P f rs) = length rs"
  by (induction rs) auto

lemma set_updateRow_subset: "set (updateRow P f rs) \<subseteq> set rs \<union> f ` {r \<in> set rs. P r}"
  by (induction rs) auto

lemma in_set_updateRow: "r \<in> set (updateRow P f rs) \<Longrightarrow> r \<in> set rs \<or> (\<exists>q \<in> set rs. P q \<and> r = f q)"
  using set_updateRow_subset[of P f rs] by auto

lemma find_updateRow_same:
  "findFirst P rs = Some r \<Longrightarrow> P (f r) \<Longrightarrow> findFirst P (updateRow P f rs) = Some (f r)"
  by (induction rs) (auto split: if_splits)

lemma find_updateRow_other:
  "(\<And>r. P r \<Longrightarrow> Q (f r) = Q r) \<Longrightarrow> findFirst Q rs = None \<Longrightarrow> findFirst Q (updateRow P f rs) = None"
  by (induction rs) (auto split: if_splits)

lemma find_updateRow_disjoint:
  "(\<And>r. P r \<Longrightarrow> \<not> Q r \<and> \<not> Q (f r)) \<Longrightarrow> findFirst Q (updateRow P f rs) = findFirst Q rs"
  by (induction rs) auto

lemma sumBy_updateRow:
  "(\<And>r. P r \<Longrightarrow> Q (f r) = Q r) \<Longrightarrow>
   sumBy Q g (updateRow P f rs) =
     sumBy Q g rs + (case findFirst P rs of None \<Rightarrow> 0 | Some r \<Rightarrow> if Q r then g (f r) - g r else 0)"
  by (induction rs) (auto split: option.splits)

lemma sumBy_nonneg: "(\<And>r. r \<in> set rs \<Longrightarrow> P r \<Longrightarrow> 0 \<le> g r) \<Longrightarrow> 0 \<le> sumBy P g rs"
  by (induction rs) auto

lemma sumBy_split: "sumBy P (\<lambda>r. g r + h r) rs = sumBy P g rs + sumBy P h rs"
  by (induction rs) auto

lemma filter_updateRow_length:
  "(\<And>r. P r \<Longrightarrow> Q (f r) = Q r) \<Longrightarrow> length (filter Q (updateRow P f rs)) = length (filter Q rs)"
  by (induction rs) auto

section \<open>JavaScript arithmetic\<close>

text \<open>
  \<^verbatim>\<open>bigint\<close> division truncates towards zero, where \<open>div\<close> rounds down; \<^verbatim>\<open>Math.round\<close> rounds a half
  up.  Doubles are modelled by exact rationals: rounding errors of IEEE arithmetic are not.
\<close>

definition bigint_div :: "int \<Rightarrow> int \<Rightarrow> int" where
  "bigint_div a b = sgn a * sgn b * (\<bar>a\<bar> div \<bar>b\<bar>)"

lemma bigint_div_nonneg [simp]: "0 \<le> a \<Longrightarrow> 0 < b \<Longrightarrow> bigint_div a b = a div b"
  by (cases "a = 0") (simp_all add: bigint_div_def)

definition math_round :: "rat \<Rightarrow> int" where
  "math_round x = \<lfloor>x + 1 / 2\<rfloor>"

lemma math_round_of_int [simp]: "math_round (of_int n) = n"
proof -
  have "\<lfloor>of_int n + (1 :: rat) / 2\<rfloor> = n" by linarith
  then show ?thesis by (simp add: math_round_def)
qed

lemma math_round_mono: "x \<le> y \<Longrightarrow> math_round x \<le> math_round y"
  by (simp add: math_round_def floor_mono)

lemma math_round_ge: "of_int n \<le> x \<Longrightarrow> n \<le> math_round x"
  using math_round_mono [of "of_int n" x] by simp

lemma math_round_le: "x \<le> of_int n \<Longrightarrow> math_round x \<le> n"
  using math_round_mono [of x "of_int n"] by simp

text \<open>
  \<^verbatim>\<open>String(n)\<close> of a non-negative integer, and the string functions the services use:
  \<^verbatim>\<open>toLowerCase\<close> and \<^verbatim>\<open>trim\<close> on ASCII text, \<^verbatim>\<open>String.includes\<close>.
\<close>

fun showNat :: "nat \<Rightarrow> string" where
  "showNat n = (if n < 10 then [char_of (48 + n)] else showNat (n div 10) @ [char_of (48 + n mod 10)])"

declare showNat.simps [simp del]

definition showInt :: "int \<Rightarrow> string" where
  "showInt n = (if n < 0 then ''-'' @ showNat (nat (- n)) else showNat (nat n))"

definition lowerChar :: "char \<Rightarrow> char" where
  "lowerChar c = (let n = (of_char c :: nat) in if 65 \<le> n \<and> n \<le> 90 then char_of (n + 32) else c)"

definition toLowerCase :: "string \<Rightarrow> string" where
  "toLowerCase = map lowerChar"

definition isBlank :: "char \<Rightarrow> bool" where
  "isBlank c \<longleftrightarrow> (let n = (of_char c :: nat) in n = 32 \<or> 9 \<le> n \<and> n \<le> 13)"

definition trim :: "string \<Rightarrow> string" where
  "trim x = rev (dropWhile isBlank (rev (dropWhile isBlank x)))"

primrec startsWith :: "string \<Rightarrow> string \<Rightarrow> bool" where
  "startsWith [] x \<longleftrightarrow> True"
| "startsWith (c # cs) x \<longleftrightarrow> (case x of [] \<Rightarrow> False | d # ds \<Rightarrow> c = d \<and> startsWith cs ds)"

fun jsIncludes :: "string \<Rightarrow> string \<Rightarrow> bool" where
  "jsIncludes y [] \<longleftrightarrow> y = []"
| "jsIncludes y (c # cs) \<longleftrightarrow> startsWith y (c # cs) \<or> jsIncludes y cs"

text \<open>
  A trimmed string has no blank at either end, so trimming twice is trimming once.
\<close>

lemma trim_trim [simp]: "trim (trim x) = trim x"
proof -
  define y where "y = dropWhile isBlank x"
  have y: "dropWhile isBlank y = y"
    by (simp add: y_def)
  have "dropWhile isBlank (trim x) = trim x"
  proof (cases "trim x")
    case (Cons c cs)
    have t: "trim x = rev (dropWhile isBlank (rev y))"
      by (simp add: trim_def y_def)
    obtain b where b: "rev y = b @ rev (trim x)"
      unfolding t by (metis rev_rev_ident takeWhile_dropWhile_id)
    then have "y = trim x @ rev b"
      by (metis rev_append rev_rev_ident)
    then have "\<not> isBlank c"
      using y Cons hd_dropWhile [of isBlank y] by simp
    then show ?thesis using Cons by simp
  qed simp
  then show ?thesis
    by (simp add: trim_def [of "trim x"]) (simp add: trim_def)
qed

section \<open>Tables with a unique key\<close>

text \<open>
  The contract of a table whose rows carry a unique key: \<open>create\<close> refuses a row whose key is
  taken and otherwise adds it.  Clients rely on it for idempotency: a key is written at most once.
\<close>

locale keyed_table =
  fixes rows :: "'s \<Rightarrow> 'r list"
    and key :: "'r \<Rightarrow> 'k"
    and create :: "'r \<Rightarrow> 's \<Rightarrow> 's result"
  assumes create_fresh: "create r s = Inr s' \<Longrightarrow> key r \<notin> key ` set (rows s)"
    and create_rows: "create r s = Inr s' \<Longrightarrow> mset (rows s') = add_mset r (mset (rows s))"
begin

lemma created_in: "create r s = Inr s' \<Longrightarrow> r \<in> set (rows s')"
  by (drule create_rows) (metis set_mset_mset union_single_eq_member add_mset_add_single)

lemma create_twice: "create r s = Inr s' \<Longrightarrow> key q = key r \<Longrightarrow> \<exists>e. create q s' = Inl e"
  using created_in create_fresh by (metis image_eqI result_not_Inl)

lemma taken_key_refused: "r \<in> set (rows s) \<Longrightarrow> key q = key r \<Longrightarrow> \<exists>e. create q s = Inl e"
  using create_fresh by (metis image_eqI result_not_Inl)

lemma distinct_keys:
  assumes "create r s = Inr s'" and "distinct (map key (rows s))"
  shows "distinct (map key (rows s'))"
proof -
  have eq: "mset (map key (rows s')) = mset (map key (r # rows s))"
    using create_rows [OF assms(1)] by simp
  have "distinct (map key (r # rows s))"
    using create_fresh [OF assms(1)] assms(2) by simp
  then show ?thesis
    using mset_eq_imp_distinct_iff [OF eq] by simp
qed

lemma keeps_rows: "create r s = Inr s' \<Longrightarrow> set (rows s') = insert r (set (rows s))"
  by (drule create_rows) (metis mset.simps(2) set_mset_mset set_mset_add_mset_insert)

end

end
