(* ===== verification/Schema.thy ===== *)
theory Schema
  imports Prelude
begin

text \<open>
  The data model of \<^verbatim>\<open>prisma/schema.prisma\<close>: one datatype per enum, one record per table (field
  names carry a prefix for their table), and the record \<open>db\<close> of all tables.  Identifiers and
  references are strings, money is an integer number of kobo, a date is its number of milliseconds.

  Conventions.  A table is the list of its rows.  \<open>ledgerEntries\<close> is kept newest first, so the row
  that \<^verbatim>\<open>findFirst\<close> with \<^verbatim>\<open>orderBy createdAt desc\<close> returns is the first one of the wallet in the
  list; the other tables are in order of insertion.  Write-only audit columns (the ledger's JSON
  \<^verbatim>\<open>metadata\<close>, \<^verbatim>\<open>createdAt\<close> and \<^verbatim>\<open>updatedAt\<close> stamps nothing reads) are left out.
  \<open>env\<close> holds what a handler draws from outside: the clock, the offset of the server's time zone
  from UTC, and the UUIDs it generates, where
  \<open>rnd env k\<close> is the \<open>k\<close>-th one (\<^verbatim>\<open>crypto.randomUUID()\<close> or a \<^verbatim>\<open>@default(uuid())\<close> id).
\<close>

section \<open>Enums\<close>

datatype walletStatus = WS_ACTIVE | WS_RESTRICTED | WS_SUSPENDED | WS_CLOSED

datatype entryType = CREDIT | DEBIT | RESERVE | RELEASE

datatype ledgerSourceType =
    ST_TRANSACTION | ST_ROSCA_CIRCLE | ST_CONTRIBUTION | ST_COLLATERAL_RESERVE
  | ST_COLLATERAL_RELEASE | ST_COLLATERAL_SEIZURE | ST_PENALTY | ST_EXIT_PENALTY
  | ST_LIQUIDITY_BRIDGE | ST_BRIDGE_REPAYMENT | ST_DEBT_REPAYMENT | ST_HELD_PAYOUT_DEPOSIT
  | ST_HELD_PAYOUT_RELEASE | ST_TRUST_ADJUSTMENT | ST_ADMIN_ADJUSTMENT | ST_REVERSAL | ST_SYSTEM
  | ST_LOAN | ST_PLATFORM_FEE

datatype bucketType = BT_MAIN | BT_ROSCA | BT_TARGET | BT_FIXED | BT_REMITTANCE | BT_HELD_PAYOUT

datatype movementType = FUNDING | WITHDRAWAL | TRANSFER

datatype transactionType =
    TT_FUNDING | TT_FUNDING_CARD | TT_FUNDING_USSD | TT_FUNDING_BANKTRANSFER
  | TT_FUNDING_ACCOUNT | TT_WITHDRAWAL

datatype transactionStatus = TS_PENDING | TS_SUCCESS | TS_FAILED

datatype systemWalletType = PLATFORM_POOL | RECIPIENT_BASE

datatype cycleFrequency = WEEKLY | BI_WEEKLY | MONTHLY

datatype circleVisibility = VIS_PUBLIC | VIS_PRIVATE

datatype payoutLogic = RANDOM_DRAW | SEQUENTIAL | TRUST_SCORE | COMBINED | ADMIN_ASSIGNED

datatype circleStatus = CS_DRAFT | CS_ACTIVE | CS_COMPLETED | CS_CANCELLED

datatype membershipStatus =
  MS_PENDING | MS_ACTIVE | MS_REJECTED | MS_COMPLETED | MS_EXITED | MS_DEFAULTED

datatype scheduleStatus = SS_UPCOMING | SS_COMPLETED | SS_SKIPPED | SS_CANCELLED

datatype payoutStatus = PS_PENDING | PS_PROCESSING | PS_COMPLETED | PS_FAILED

datatype loanStatus = LS_ACTIVE | LS_REPAID | LS_DEFAULTED | LS_CANCELLED

datatype role = MEMBER | ADMIN | SUPERADMIN

datatype userStatus = US_ACTIVE | US_SUSPENDED | US_BANNED

datatype otpPurpose = OTP_VERIFICATION | OTP_RESET_PASSWORD | OTP_KYC_VERIFICATION | OTP_EMAIL_CHANGE

datatype kycStatus = KS_NOT_SUBMITTED | KS_PENDING | KS_APPROVED | KS_REJECTED

datatype kycStep =
    NIN_REQUIRED | BVN_REQUIRED | NOK_REQUIRED | ADDRESS_REQUIRED | PHOTO_REQUIRED
  | PROOF_OF_ADDRESS_REQUIRED | SUBMITTED

datatype governmentIdType = NIN_SLIP | PASSPORT | DRIVERS_LICENSE | PVC_CARD

datatype proofOfAddressType =
  UTILITY_BILL | BANK_STATEMENT | TENANCY_AGREEMENT | GOVERNMENT_ADDRESS_DOCUMENT

text \<open>
  A JSON value of a \<^verbatim>\<open>metadata\<close> column; an object is the list of its properties.  \<open>JDate t\<close> is the
  string \<^verbatim>\<open>new Date(t).toISOString()\<close> and \<open>JBig n\<close> the string \<^verbatim>\<open>n.toString()\<close> of a bigint.
\<close>

datatype json = JNull | JNum rat | JStr string | JDate int | JBig int

type_synonym jobject = "(string \<times> json) list"

text \<open>\<^verbatim>\<open>{ ...a, ...b }\<close>: the properties of \<open>b\<close> override those of \<open>a\<close>.\<close>

definition spread :: "jobject \<Rightarrow> jobject \<Rightarrow> jobject" where
  "spread a b = filter (\<lambda>p. fst p \<notin> fst ` set b) a @ b"

text \<open>\<^verbatim>\<open>(metadata as object) || {}\<close>, and a property that is left out when its value is undefined.\<close>

definition asObject :: "jobject option \<Rightarrow> jobject" where
  "asObject m = (case m of None \<Rightarrow> [] | Some j \<Rightarrow> j)"

definition optProp :: "string \<Rightarrow> ('a \<Rightarrow> json) \<Rightarrow> 'a option \<Rightarrow> jobject" where
  "optProp k f v = (case v of None \<Rightarrow> [] | Some x \<Rightarrow> [(k, f x)])"

section \<open>Rows\<close>

record user =
  u_id :: string
  u_email :: string
  u_firstName :: string
  u_lastName :: string
  u_transactionPin :: "string option"
  u_role :: role
  u_createdAt :: int
  u_password :: string
  u_pendingEmail :: "string option"
  u_phone :: string
  u_dob :: int
  u_isVerified :: bool
  u_status :: userStatus
  u_suspendedAt :: "int option"
  u_suspensionReason :: "string option"
  u_adminRequestedAt :: "int option"

record wallet =
  w_id :: string
  w_userId :: string
  w_currency :: string
  w_status :: walletStatus

record ledgerEntry =
  le_id :: string
  le_walletId :: string
  le_reference :: string
  le_entryType :: entryType
  le_movementType :: movementType
  le_bucketType :: "bucketType option"
  le_amount :: int
  le_balanceBefore :: int
  le_balanceAfter :: int
  le_sourceType :: ledgerSourceType
  le_sourceId :: string

record walletBucket =
  wb_walletId :: string
  wb_bucketType :: bucketType
  wb_sourceId :: string
  wb_reservedAmount :: int

record transactionRow =
  t_id :: string
  t_walletId :: string
  t_provider :: string
  t_reference :: string
  t_amount :: int
  t_currency :: string
  t_status :: transactionStatus
  t_type :: transactionType
  t_metadata :: "jobject option"
  t_completedAt :: "int option"
  t_createdAt :: int

record webhookEvent =
  we_provider :: string
  we_eventId :: string

record virtualAccount =
  va_id :: string
  va_userId :: string
  va_walletId :: string
  va_txRef :: string
  va_accountNumber :: string
  va_bankName :: string
  va_accountName :: string
  va_flwRef :: string
  va_orderRef :: string
  va_isActive :: bool

record systemWallet =
  sw_type :: systemWalletType
  sw_walletId :: string

record circle =
  c_id :: string
  c_name :: string
  c_adminId :: string
  c_contributionAmount :: int
  c_frequency :: cycleFrequency
  c_durationCycles :: int
  c_currentCycle :: int
  c_maxSlots :: int
  c_filledSlots :: int
  c_visibility :: circleVisibility
  c_payoutLogic :: payoutLogic
  c_status :: circleStatus
  c_initialContributionDeadline :: "int option"
  c_verifiedAt :: "int option"

record invite =
  iv_id :: string
  iv_circleId :: string
  iv_email :: string
  iv_token :: string
  iv_expiresAt :: int
  iv_usedAt :: "int option"

record membership =
  m_id :: string
  m_circleId :: string
  m_userId :: string
  m_status :: membershipStatus
  m_payoutPosition :: "int option"
  m_collateralAmount :: int
  m_collateralReleased :: bool
  m_completedCycles :: int
  m_totalLatePayments :: int
  m_totalPenaltiesPaid :: int
  m_payoutLocked :: bool
  m_circleJoinRestricted :: bool
  m_joinedAt :: "int option"
  m_approvedAt :: "int option"
  m_completedAt :: "int option"
  m_defaultedAt :: "int option"

record schedule =
  cs_id :: string
  cs_circleId :: string
  cs_cycleNumber :: int
  cs_contributionDeadline :: int
  cs_payoutDate :: int
  cs_status :: scheduleStatus
  cs_recipientId :: "string option"
  cs_obsoletedAt :: "int option"

record contribution =
  co_id :: string
  co_circleId :: string
  co_membershipId :: string
  co_userId :: string
  co_cycleNumber :: int
  co_amount :: int
  co_penaltyAmount :: int
  co_ledgerDebitId :: "string option"
  co_transactionReference :: "string option"

record payout =
  po_id :: string
  po_circleId :: string
  po_scheduleId :: string
  po_recipientId :: string
  po_amount :: int
  po_status :: payoutStatus
  po_internalReference :: "string option"
  po_poolDebitId :: "string option"
  po_recipientCreditId :: "string option"
  po_reversalDebitId :: "string option"
  po_reversalCreditId :: "string option"
  po_processedAt :: "int option"
  po_failedAt :: "int option"

record trustStats =
  ts_userId :: string
  ts_trustScore :: int
  ts_totalOnTimePayments :: int
  ts_totalLatePayments :: int
  ts_totalMissedPayments :: int
  ts_totalDefaults :: int
  ts_totalExpectedPayments :: int
  ts_consecutiveLatePayments :: int
  ts_onTimePaymentsLastCycle :: int
  ts_expectedPaymentsLastCycle :: int
  ts_postPayoutOnTimePayments :: int
  ts_expectedPostPayoutPayments :: int
  ts_averagePeerRating :: rat
  ts_totalPeerRatings :: int
  ts_lastUpdated :: int

record auditLog =
  al_actorId :: string
  al_actorType :: string
  al_action :: string
  al_entityType :: string
  al_entityId :: string
  al_reason :: "string option"

record creditScore =
  cr_userId :: string
  cr_externalScore :: int
  cr_trustDisplayScore :: int
  cr_finalScore :: int

record loan =
  ln_id :: string
  ln_userId :: string
  ln_circleId :: string
  ln_payoutAmount :: int
  ln_loanAmount :: int
  ln_companyFee :: int
  ln_finalPayout :: int
  ln_creditScoreUsed :: int
  ln_allowedPercent :: int
  ln_status :: loanStatus
  ln_repaidAt :: "int option"

record kyc =
  k_userId :: string
  k_kycLevel :: int
  k_status :: kycStatus
  k_step :: kycStep
  k_nin :: "string option"
  k_bvn :: "string option"
  k_ninVerifiedAt :: "int option"
  k_bvnVerifiedAt :: "int option"
  k_nextOfKin :: "(string \<times> string \<times> string) option"
  k_address :: "string option"
  k_city :: "string option"
  k_state :: "string option"
  k_lga :: "string option"
  k_country :: "string option"
  k_selfieUrl :: "string option"
  k_governmentIdType :: "governmentIdType option"
  k_governmentIdFrontUrl :: "string option"
  k_governmentIdBackUrl :: "string option"
  k_proofOfAddressType :: "proofOfAddressType option"
  k_proofOfAddressUrl :: "string option"
  k_rejectionReason :: "string option"
  k_submittedAt :: "int option"
  k_reviewedAt :: "int option"
  k_reviewedBy :: "string option"

text \<open>The three columns of the next of kin are written and cleared together.\<close>

record otpCode =
  oc_id :: string
  oc_userId :: string
  oc_purpose :: otpPurpose
  oc_codeHash :: string
  oc_expiresAt :: int
  oc_usedAt :: "int option"

record refreshToken =
  rt_id :: string
  rt_userId :: string
  rt_tokenHash :: string
  rt_expiresAt :: int
  rt_revokedAt :: "int option"

record savedBankAccount =
  sb_userId :: string
  sb_accountNumber :: string
  sb_bankCode :: string

record peerReview =
  pr_id :: string
  pr_circleId :: string
  pr_reviewerId :: string
  pr_revieweeId :: string
  pr_rating :: int
  pr_comment :: "string option"
  pr_createdAt :: int

text \<open>
  A \<^verbatim>\<open>wallet.transaction.completed\<close> job put on the auth-events queue: it tells the user of a
  credit or debit.
\<close>

datatype eventSide = EV_CREDIT | EV_DEBIT

record walletEvent =
  ev_userId :: string
  ev_type :: eventSide
  ev_amountKobo :: int
  ev_reference :: string

text \<open>The other jobs of that queue, and a mail with a one-time code: recipient and code.\<close>

datatype authEvent =
    UserRegistered string
  | EmailVerified string
  | PasswordReset string
  | PasswordChanged string
  | KycStatusChanged string kycStatus

record otpMail =
  om_to :: string
  om_code :: string

text \<open>A job of the funding reconciliation queue, keyed by the reference it verifies.\<close>

record fundingJob =
  fj_reference :: string
  fj_runAt :: int

section \<open>The database\<close>

record db =
  users :: "user list"
  wallets :: "wallet list"
  ledgerEntries :: "ledgerEntry list"
  walletBuckets :: "walletBucket list"
  transactions :: "transactionRow list"
  webhookEvents :: "webhookEvent list"
  virtualAccounts :: "virtualAccount list"
  systemWallets :: "systemWallet list"
  circles :: "circle list"
  invites :: "invite list"
  memberships :: "membership list"
  schedules :: "schedule list"
  contributions :: "contribution list"
  payouts :: "payout list"
  allTrustStats :: "trustStats list"
  auditLogs :: "auditLog list"
  creditScores :: "creditScore list"
  loans :: "loan list"
  kycs :: "kyc list"
  peerReviews :: "peerReview list"
  walletEvents :: "walletEvent list"
  fundingQueue :: "fundingJob list"
  otpCodes :: "otpCode list"
  refreshTokens :: "refreshToken list"
  savedBankAccounts :: "savedBankAccount list"
  userProfiles :: "string list"
  authEvents :: "authEvent list"
  otpMails :: "otpMail list"

definition emptyDb :: db where
  "emptyDb = \<lparr>users = [], wallets = [], ledgerEntries = [], walletBuckets = [], transactions = [],
     webhookEvents = [], virtualAccounts = [], systemWallets = [], circles = [], invites = [],
     memberships = [], schedules = [], contributions = [], payouts = [], allTrustStats = [],
     auditLogs = [], creditScores = [], loans = [], kycs = [], peerReviews = [], walletEvents = [],
     fundingQueue = [], otpCodes = [], refreshTokens = [], savedBankAccounts = [], userProfiles = [],
     authEvents = [], otpMails = []\<rparr>"

record env =
  now :: int
  tz :: int
  rnd :: "nat \<Rightarrow> string"

section \<open>Lookups by unique key\<close>

definition walletOfUser :: "string \<Rightarrow> db \<Rightarrow> wallet option" where
  "walletOfUser uid s = findFirst (\<lambda>w. w_userId w = uid) (wallets s)"

definition walletById :: "string \<Rightarrow> db \<Rightarrow> wallet option" where
  "walletById wid s = findFirst (\<lambda>w. w_id w = wid) (wallets s)"

definition userById :: "string \<Rightarrow> db \<Rightarrow> user option" where
  "userById uid s = findFirst (\<lambda>u. u_id u = uid) (users s)"

definition fullName :: "user \<Rightarrow> string" where
  "fullName u = u_firstName u @ '' '' @ u_lastName u"

text \<open>The name of a row's user, who exists by the foreign key.\<close>

definition nameOf :: "string \<Rightarrow> db \<Rightarrow> string" where
  "nameOf uid s = (case userById uid s of None \<Rightarrow> '''' | Some u \<Rightarrow> fullName u)"

definition circleById :: "string \<Rightarrow> db \<Rightarrow> circle option" where
  "circleById cid s = findFirst (\<lambda>c. c_id c = cid) (circles s)"

definition membershipOf :: "string \<Rightarrow> string \<Rightarrow> db \<Rightarrow> membership option" where
  "membershipOf cid uid s =
     findFirst (\<lambda>m. m_circleId m = cid \<and> m_userId m = uid) (memberships s)"

definition systemWalletOf :: "systemWalletType \<Rightarrow> db \<Rightarrow> systemWallet option" where
  "systemWalletOf ty s = findFirst (\<lambda>w. sw_type w = ty) (systemWallets s)"

text \<open>
  \<^verbatim>\<open>circle.schedules[0]\<close> for \<^verbatim>\<open>where: { cycleNumber, obsoletedAt: null }\<close>, as contributions and
  payouts load it.
\<close>

definition currentSchedule :: "string \<Rightarrow> int \<Rightarrow> db \<Rightarrow> schedule option" where
  "currentSchedule cid n s =
     findFirst (\<lambda>x. cs_circleId x = cid \<and> cs_cycleNumber x = n \<and> cs_obsoletedAt x = None)
       (schedules s)"

definition updateMembership :: "string \<Rightarrow> (membership \<Rightarrow> membership) \<Rightarrow> db \<Rightarrow> db" where
  "updateMembership mid f s = s\<lparr>memberships := updateRow (\<lambda>m. m_id m = mid) f (memberships s)\<rparr>"

definition updateCircleRow :: "string \<Rightarrow> (circle \<Rightarrow> circle) \<Rightarrow> db \<Rightarrow> db" where
  "updateCircleRow cid f s = s\<lparr>circles := updateRow (\<lambda>c. c_id c = cid) f (circles s)\<rparr>"

definition audit :: "auditLog \<Rightarrow> db \<Rightarrow> db" where
  "audit a s = s\<lparr>auditLogs := auditLogs s @ [a]\<rparr>"

text \<open>These updates touch one table each, which the simplifier should know about.\<close>

lemma updateMembership_frame [simp]:
  "ledgerEntries (updateMembership i f s) = ledgerEntries s"
  "walletBuckets (updateMembership i f s) = walletBuckets s"
  "wallets (updateMembership i f s) = wallets s"
  "circles (updateMembership i f s) = circles s"
  "schedules (updateMembership i f s) = schedules s"
  "contributions (updateMembership i f s) = contributions s"
  "payouts (updateMembership i f s) = payouts s"
  "allTrustStats (updateMembership i f s) = allTrustStats s"
  "users (updateMembership i f s) = users s"
  "systemWallets (updateMembership i f s) = systemWallets s"
  "transactions (updateMembership i f s) = transactions s"
  "loans (updateMembership i f s) = loans s"
  "memberships (updateMembership i f s) = updateRow (\<lambda>m. m_id m = i) f (memberships s)"
  by (simp_all add: updateMembership_def)

lemma updateCircleRow_frame [simp]:
  "ledgerEntries (updateCircleRow i g s) = ledgerEntries s"
  "walletBuckets (updateCircleRow i g s) = walletBuckets s"
  "wallets (updateCircleRow i g s) = wallets s"
  "memberships (updateCircleRow i g s) = memberships s"
  "schedules (updateCircleRow i g s) = schedules s"
  "contributions (updateCircleRow i g s) = contributions s"
  "payouts (updateCircleRow i g s) = payouts s"
  "allTrustStats (updateCircleRow i g s) = allTrustStats s"
  "users (updateCircleRow i g s) = users s"
  "systemWallets (updateCircleRow i g s) = systemWallets s"
  "transactions (updateCircleRow i g s) = transactions s"
  "loans (updateCircleRow i g s) = loans s"
  "circles (updateCircleRow i g s) = updateRow (\<lambda>c. c_id c = i) g (circles s)"
  by (simp_all add: updateCircleRow_def)

lemma audit_frame [simp]:
  "ledgerEntries (audit a s) = ledgerEntries s"
  "walletBuckets (audit a s) = walletBuckets s"
  "wallets (audit a s) = wallets s"
  "memberships (audit a s) = memberships s"
  "schedules (audit a s) = schedules s"
  "contributions (audit a s) = contributions s"
  "payouts (audit a s) = payouts s"
  "allTrustStats (audit a s) = allTrustStats s"
  "users (audit a s) = users s"
  "systemWallets (audit a s) = systemWallets s"
  "transactions (audit a s) = transactions s"
  "loans (audit a s) = loans s"
  "circles (audit a s) = circles s"
  by (simp_all add: audit_def)

end
