(* ===== verification/Dates.thy ===== *)
theory Dates
  imports Prelude
begin

text \<open>
  The calendar arithmetic of JavaScript's \<^verbatim>\<open>Date\<close> that the services use, after the ECMAScript
  definitions of \<^verbatim>\<open>DayFromYear\<close>, \<^verbatim>\<open>MakeDay\<close> and the local getters, with a local time zone of a
  fixed offset \<open>tz\<close> (milliseconds ahead of UTC; Lagos and UTC have no daylight saving).  A day is
  its number since 1970-01-01, a month is counted from 0 as \<^verbatim>\<open>getMonth\<close> does.
\<close>

section \<open>Days, months and years\<close>

definition leapYear :: "int \<Rightarrow> bool" where
  "leapYear y \<longleftrightarrow> y mod 4 = 0 \<and> (y mod 100 \<noteq> 0 \<or> y mod 400 = 0)"

definition dayFromYear :: "int \<Rightarrow> int" where
  "dayFromYear y = 365 * (y - 1970) + (y - 1969) div 4 - (y - 1901) div 100 + (y - 1601) div 400"

definition daysInYear :: "int \<Rightarrow> int" where
  "daysInYear y = (if leapYear y then 366 else 365)"

definition daysBeforeMonth :: "int \<Rightarrow> int \<Rightarrow> int" where
  "daysBeforeMonth y m =
     [0, 31, 59, 90, 120, 151, 181, 212, 243, 273, 304, 334] ! nat m
     + (if leapYear y \<and> 2 \<le> m then 1 else 0)"

definition daysInMonth :: "int \<Rightarrow> int \<Rightarrow> int" where
  "daysInMonth y m =
     [31, 28, 31, 30, 31, 30, 31, 31, 30, 31, 30, 31] ! nat m
     + (if leapYear y \<and> m = 1 then 1 else 0)"

definition makeDay :: "int \<Rightarrow> int \<Rightarrow> int \<Rightarrow> int" where
  "makeDay y m d =
     (let ym = y + m div 12; mn = m mod 12
      in dayFromYear ym + daysBeforeMonth ym mn + d - 1)"

definition yearOfDay :: "int \<Rightarrow> int" where
  "yearOfDay d =
     (let y = 1970 + (400 * d) div 146097
      in if d < dayFromYear y then y - 1
         else if dayFromYear (y + 1) \<le> d then y + 1
         else y)"

definition monthInYear :: "int \<Rightarrow> int \<Rightarrow> int" where
  "monthInYear y n =
     (if n < daysBeforeMonth y 1 then 0 else if n < daysBeforeMonth y 2 then 1
      else if n < daysBeforeMonth y 3 then 2 else if n < daysBeforeMonth y 4 then 3
      else if n < daysBeforeMonth y 5 then 4 else if n < daysBeforeMonth y 6 then 5
      else if n < daysBeforeMonth y 7 then 6 else if n < daysBeforeMonth y 8 then 7
      else if n < daysBeforeMonth y 9 then 8 else if n < daysBeforeMonth y 10 then 9
      else if n < daysBeforeMonth y 11 then 10 else 11)"

definition monthOfDay :: "int \<Rightarrow> int" where
  "monthOfDay d = monthInYear (yearOfDay d) (d - dayFromYear (yearOfDay d))"

definition dateOfDay :: "int \<Rightarrow> int" where
  "dateOfDay d =
     d - dayFromYear (yearOfDay d) - daysBeforeMonth (yearOfDay d) (monthOfDay d) + 1"

section \<open>Dates with a time of day\<close>

definition msPerDay :: int where "msPerDay = 86400000"

definition localDay :: "int \<Rightarrow> int \<Rightarrow> int" where "localDay tz t = (t + tz) div msPerDay"

definition localTime :: "int \<Rightarrow> int \<Rightarrow> int" where "localTime tz t = (t + tz) mod msPerDay"

definition getFullYear :: "int \<Rightarrow> int \<Rightarrow> int" where "getFullYear tz t = yearOfDay (localDay tz t)"

definition getMonth :: "int \<Rightarrow> int \<Rightarrow> int" where "getMonth tz t = monthOfDay (localDay tz t)"

definition getDate :: "int \<Rightarrow> int \<Rightarrow> int" where "getDate tz t = dateOfDay (localDay tz t)"

definition atDay :: "int \<Rightarrow> int \<Rightarrow> int \<Rightarrow> int" where
  "atDay tz day time = day * msPerDay + time - tz"

definition setDate :: "int \<Rightarrow> int \<Rightarrow> int \<Rightarrow> int" where
  "setDate tz d t = atDay tz (makeDay (getFullYear tz t) (getMonth tz t) d) (localTime tz t)"

definition setMonth :: "int \<Rightarrow> int \<Rightarrow> int \<Rightarrow> int" where
  "setMonth tz m t = atDay tz (makeDay (getFullYear tz t) m (getDate tz t)) (localTime tz t)"

text \<open>\<^verbatim>\<open>new Date(year, month, day)\<close>: local midnight.\<close>

definition newDate :: "int \<Rightarrow> int \<Rightarrow> int \<Rightarrow> int \<Rightarrow> int" where
  "newDate tz y m d = atDay tz (makeDay y m d) 0"

section \<open>The calendar is consistent\<close>

lemma div_succ:
  fixes x k :: int
  assumes "0 < k"
  shows "(x + 1) div k = x div k + (if (x + 1) mod k = 0 then 1 else 0)"
proof -
  have x: "x = k * (x div k) + x mod k" and r: "0 \<le> x mod k" "x mod k < k"
    using assms by simp_all
  show ?thesis
  proof (cases "x mod k + 1 = k")
    case True
    moreover have "(x div k + 1) * k = k * (x div k) + k"
      by (simp add: algebra_simps)
    ultimately have "x + 1 = (x div k + 1) * k"
      using x by linarith
    then show ?thesis
      using assms by (metis dvd_triv_right mod_0_imp_dvd mod_eq_0_iff_dvd nonzero_mult_div_cancel_right
          less_irrefl)
  next
    case False
    then have lt: "x mod k + 1 < k" using r by linarith
    have "x + 1 = (x mod k + 1) + k * (x div k)" using x by linarith
    then have "(x + 1) div k = (x mod k + 1) div k + x div k"
      and m: "(x + 1) mod k = (x mod k + 1) mod k"
      using assms by (metis div_mult_self2 less_irrefl add.commute, metis mod_mult_self2)
    moreover have "(x mod k + 1) div k = 0" "(x mod k + 1) mod k = x mod k + 1"
      using lt r by (simp_all add: div_pos_pos_trivial)
    ultimately show ?thesis using r by simp
  qed
qed

lemma div_bounds:
  fixes x k :: int
  assumes "0 < k"
  obtains q where "x div k = q" and "k * q \<le> x" and "x < k * q + k"
proof (rule that)
  show "k * (x div k) \<le> x" "x < k * (x div k) + k"
    using assms pos_mod_bound [of k x] pos_mod_sign [of k x] mult_div_mod_eq [of k x] by linarith+
qed simp

lemma mod_shift: "(y - k * c) mod k = y mod k" for y k c :: int
  using mod_mult_self2 [of y k "- c"] by simp

lemma dayFromYear_Suc: "dayFromYear (y + 1) = dayFromYear y + daysInYear y"
proof -
  have a: "(y - 1968) div 4 = (y - 1969) div 4 + (if y mod 4 = 0 then 1 else 0)"
    using div_succ [of 4 "y - 1969"] mod_shift [of y 4 492] by simp
  have b: "(y - 1900) div 100 = (y - 1901) div 100 + (if y mod 100 = 0 then 1 else 0)"
    using div_succ [of 100 "y - 1901"] mod_shift [of y 100 19] by simp
  have c: "(y - 1600) div 400 = (y - 1601) div 400 + (if y mod 400 = 0 then 1 else 0)"
    using div_succ [of 400 "y - 1601"] mod_shift [of y 400 4] by simp
  have m: "y mod 400 = 0 \<Longrightarrow> y mod 100 = 0" "y mod 100 = 0 \<Longrightarrow> y mod 4 = 0"
    using dvd_trans [of 100 400 y] dvd_trans [of 4 100 y] by (simp_all add: mod_eq_0_iff_dvd)
  have "dayFromYear (y + 1) = 365 * (y - 1970) + 365 + (y - 1968) div 4 - (y - 1900) div 100
      + (y - 1600) div 400"
    by (simp add: dayFromYear_def)
  also have "\<dots> = dayFromYear y + 365 + (if y mod 4 = 0 then 1 else 0)
      - (if y mod 100 = 0 then 1 else 0) + (if y mod 400 = 0 then 1 else 0)"
    unfolding a b c dayFromYear_def by simp
  also have "\<dots> = dayFromYear y + daysInYear y"
    using m by (cases "y mod 400 = 0"; cases "y mod 100 = 0"; cases "y mod 4 = 0")
      (simp_all add: daysInYear_def leapYear_def)
  finally show ?thesis .
qed

lemma daysInYear_bounds: "365 \<le> daysInYear y \<and> daysInYear y \<le> 366"
  by (simp add: daysInYear_def)

lemma dayFromYear_estimate:
  shows "146097 * y - 287811690 \<le> 400 * dayFromYear y"
    and "400 * dayFromYear y \<le> 146097 * y - 287810490"
proof -
  obtain a where a: "(y - 1969) div 4 = a" and a': "4 * a \<le> y - 1969" "y - 1969 < 4 * a + 4"
    by (rule div_bounds [of 4 "y - 1969"]) simp_all
  obtain b where b: "(y - 1901) div 100 = b" and b': "100 * b \<le> y - 1901" "y - 1901 < 100 * b + 100"
    by (rule div_bounds [of 100 "y - 1901"]) simp_all
  obtain c where c: "(y - 1601) div 400 = c" and c': "400 * c \<le> y - 1601" "y - 1601 < 400 * c + 400"
    by (rule div_bounds [of 400 "y - 1601"]) simp_all
  have "dayFromYear y = 365 * y - 719050 + a - b + c"
    unfolding dayFromYear_def a b c by simp
  then show "146097 * y - 287811690 \<le> 400 * dayFromYear y"
    and "400 * dayFromYear y \<le> 146097 * y - 287810490"
    using a' b' c' by linarith+
qed

lemma yearOfDay_bounds: "dayFromYear (yearOfDay d) \<le> d \<and> d < dayFromYear (yearOfDay d + 1)"
proof -
  obtain q where q: "(400 * d) div 146097 = q" "146097 * q \<le> 400 * d" "400 * d < 146097 * q + 146097"
    by (rule div_bounds [of 146097 "400 * d"]) simp_all
  have "dayFromYear (1970 + q - 1) \<le> d"
    using dayFromYear_estimate(2) [of "1970 + q - 1"] q(2,3) by (simp add: algebra_simps)
  moreover have "d < dayFromYear (1970 + q + 2)"
    using dayFromYear_estimate(1) [of "1970 + q + 2"] q(2,3) by (simp add: algebra_simps)
  moreover have "1970 + q + 1 + 1 = 1970 + q + 2" by simp
  ultimately show ?thesis
    unfolding yearOfDay_def Let_def q(1) by (auto simp: not_le)
qed

lemma dayFromYear_mono: "a \<le> b \<Longrightarrow> dayFromYear a \<le> dayFromYear b"
proof (induction "nat (b - a)" arbitrary: b)
  case 0
  then show ?case by simp
next
  case (Suc n)
  then have "dayFromYear a \<le> dayFromYear (b - 1)" by simp
  then show ?case
    using dayFromYear_Suc [of "b - 1"] daysInYear_bounds [of "b - 1"] by simp
qed

lemma yearOfDay_unique:
  assumes "dayFromYear y \<le> d" and "d < dayFromYear (y + 1)"
  shows "yearOfDay d = y"
proof (rule ccontr)
  assume "yearOfDay d \<noteq> y"
  then consider "yearOfDay d + 1 \<le> y" | "y + 1 \<le> yearOfDay d" by linarith
  then show False
    using yearOfDay_bounds [of d] dayFromYear_mono [of "yearOfDay d + 1" y]
      dayFromYear_mono [of "y + 1" "yearOfDay d"] assms
    by cases auto
qed

lemma month_cases:
  "0 \<le> (m :: int) \<Longrightarrow> m < 12 \<Longrightarrow>
   m = 0 \<or> m = 1 \<or> m = 2 \<or> m = 3 \<or> m = 4 \<or> m = 5 \<or> m = 6 \<or> m = 7 \<or> m = 8 \<or> m = 9 \<or> m = 10 \<or> m = 11"
  by presburger

lemma daysBeforeMonth_values:
  "daysBeforeMonth y 0 = 0" "daysBeforeMonth y 1 = 31"
  "daysBeforeMonth y 2 = (if leapYear y then 60 else 59)"
  "daysBeforeMonth y 3 = (if leapYear y then 91 else 90)"
  "daysBeforeMonth y 4 = (if leapYear y then 121 else 120)"
  "daysBeforeMonth y 5 = (if leapYear y then 152 else 151)"
  "daysBeforeMonth y 6 = (if leapYear y then 182 else 181)"
  "daysBeforeMonth y 7 = (if leapYear y then 213 else 212)"
  "daysBeforeMonth y 8 = (if leapYear y then 244 else 243)"
  "daysBeforeMonth y 9 = (if leapYear y then 274 else 273)"
  "daysBeforeMonth y 10 = (if leapYear y then 305 else 304)"
  "daysBeforeMonth y 11 = (if leapYear y then 335 else 334)"
  by (simp_all add: daysBeforeMonth_def nth_Cons')

lemma daysInMonth_values:
  "daysInMonth y 0 = 31" "daysInMonth y 1 = (if leapYear y then 29 else 28)"
  "daysInMonth y 2 = 31" "daysInMonth y 3 = 30" "daysInMonth y 4 = 31" "daysInMonth y 5 = 30"
  "daysInMonth y 6 = 31" "daysInMonth y 7 = 31" "daysInMonth y 8 = 30" "daysInMonth y 9 = 31"
  "daysInMonth y 10 = 30" "daysInMonth y 11 = 31"
  by (simp_all add: daysInMonth_def nth_Cons')

lemma daysInMonth_bounds: "0 \<le> m \<Longrightarrow> m < 12 \<Longrightarrow> 28 \<le> daysInMonth y m \<and> daysInMonth y m \<le> 31"
  by (drule (1) month_cases) (auto simp: daysInMonth_values)

lemma daysBeforeMonth_Suc:
  "0 \<le> m \<Longrightarrow> m < 11 \<Longrightarrow> daysBeforeMonth y (m + 1) = daysBeforeMonth y m + daysInMonth y m"
  using month_cases [of m] by (auto simp: daysBeforeMonth_values daysInMonth_values)

lemma daysBeforeMonth_last: "daysBeforeMonth y 11 + daysInMonth y 11 = daysInYear y"
  by (simp add: daysBeforeMonth_values daysInMonth_values daysInYear_def)

lemma monthInYear_bounds:
  assumes "0 \<le> n" and "n < daysInYear y"
  shows "0 \<le> monthInYear y n \<and> monthInYear y n < 12 \<and>
    daysBeforeMonth y (monthInYear y n) \<le> n \<and>
    n < daysBeforeMonth y (monthInYear y n) + daysInMonth y (monthInYear y n)"
  using assms
  by (cases "leapYear y")
    (simp_all add: monthInYear_def daysBeforeMonth_values daysInMonth_values daysInYear_def)

lemma monthInYear_unique:
  assumes "0 \<le> m" and "m < 12" and "daysBeforeMonth y m \<le> n"
    and "n < daysBeforeMonth y m + daysInMonth y m"
  shows "monthInYear y n = m"
  using month_cases [OF assms(1,2)] assms(3,4)
  by (cases "leapYear y")
    (auto simp: monthInYear_def daysBeforeMonth_values daysInMonth_values)

text \<open>Taking a day apart and putting it together again, both ways.\<close>

lemma day_parts:
  "0 \<le> monthOfDay d \<and> monthOfDay d < 12 \<and> 1 \<le> dateOfDay d \<and>
   dateOfDay d \<le> daysInMonth (yearOfDay d) (monthOfDay d) \<and>
   makeDay (yearOfDay d) (monthOfDay d) (dateOfDay d) = d"
proof -
  have "0 \<le> d - dayFromYear (yearOfDay d)"
    "d - dayFromYear (yearOfDay d) < daysInYear (yearOfDay d)"
    using yearOfDay_bounds [of d] dayFromYear_Suc [of "yearOfDay d"] by auto
  from monthInYear_bounds [OF this] show ?thesis
    by (simp add: monthOfDay_def dateOfDay_def makeDay_def Let_def)
qed

lemma makeDay_parts:
  assumes "0 \<le> m" and "m < 12" and "1 \<le> d" and "d \<le> daysInMonth y m"
  shows "yearOfDay (makeDay y m d) = y \<and> monthOfDay (makeDay y m d) = m \<and>
    dateOfDay (makeDay y m d) = d"
proof -
  have eq: "makeDay y m d = dayFromYear y + daysBeforeMonth y m + d - 1"
    using assms by (simp add: makeDay_def Let_def)
  have "0 \<le> daysBeforeMonth y m \<and> daysBeforeMonth y m + daysInMonth y m \<le> daysInYear y"
    using month_cases [OF assms(1,2)]
    by (auto simp: daysBeforeMonth_values daysInMonth_values daysInYear_def)
  then have "dayFromYear y \<le> makeDay y m d" "makeDay y m d < dayFromYear (y + 1)"
    using assms eq dayFromYear_Suc [of y] by auto
  then have y: "yearOfDay (makeDay y m d) = y"
    by (rule yearOfDay_unique)
  have m: "monthInYear y (makeDay y m d - dayFromYear y) = m"
    using assms eq by (intro monthInYear_unique) auto
  show ?thesis
    using y m eq by (simp add: monthOfDay_def dateOfDay_def)
qed

lemma makeDay_shift: "makeDay y m (d + n) = makeDay y m d + n"
  by (simp add: makeDay_def Let_def)

text \<open>Day 0 of a month is the last day of the month before.\<close>

lemma makeDay_zero:
  assumes "0 \<le> m" and "m < 12"
  shows "makeDay y (m + 1) 0 = makeDay y m (daysInMonth y m)"
proof (cases "m = 11")
  case True
  then show ?thesis
    using dayFromYear_Suc [of y] daysBeforeMonth_last [of y]
    by (simp add: makeDay_def Let_def daysBeforeMonth_values(1))
next
  case False
  then show ?thesis
    using assms daysBeforeMonth_Suc [of m y] by (simp add: makeDay_def Let_def)
qed

lemma makeDay_next_month:
  assumes "0 \<le> m" and "m < 12"
  shows "makeDay y (m + 1) 1 = makeDay y m 1 + daysInMonth y m"
  using makeDay_zero [OF assms, of y] makeDay_shift [of y "m + 1" 0 1]
    makeDay_shift [of y m 1 "daysInMonth y m - 1"] by simp

lemma atDay_local [simp]:
  "0 \<le> time \<Longrightarrow> time < msPerDay \<Longrightarrow> localDay tz (atDay tz day time) = day"
  "0 \<le> time \<Longrightarrow> time < msPerDay \<Longrightarrow> localTime tz (atDay tz day time) = time"
  by (simp_all add: localDay_def localTime_def atDay_def msPerDay_def)

lemma localTime_range [simp]: "0 \<le> localTime tz t" "localTime tz t < msPerDay"
  by (simp_all add: localTime_def msPerDay_def)

lemma atDay_same [simp]: "atDay tz (localDay tz t) (localTime tz t) = t"
  by (simp add: atDay_def localDay_def localTime_def)

end
