(* ===== verification/Trust.thy ===== *)
theory Trust
  imports Schema Dates
begin

text \<open>
  \<^verbatim>\<open>src/modules/trust/trust.service.ts\<close> and \<^verbatim>\<open>trust-admin.controller.ts\<close>: the Ajoti trust index, a
  score computed from counters of a user's payments and ratings.  The theory models the counters,
  the formula and every event, and shows that the counters stay consistent, that the score stays
  between 0 and 95, and that paying on time never lowers it while missing or paying late never
  raises it.
\<close>

section \<open>The index\<close>

datatype trustScoreEvent =
    ContributionEv bool bool \<comment> \<open>\<open>onTime\<close>, \<open>isPostPayout\<close>\<close>
  | MissedPayment bool \<comment> \<open>\<open>isPostPayout\<close>\<close>
  | MissedPaymentPostPayoutDefault
  | PeerRating rat
  | CycleReset

definition recentBehavior :: "trustStats \<Rightarrow> rat" where
  "recentBehavior st =
     (if 0 < ts_expectedPaymentsLastCycle st
      then of_int (ts_onTimePaymentsLastCycle st) / of_int (ts_expectedPaymentsLastCycle st) * 100
      else 50)"

definition weightedPenalties :: "trustStats \<Rightarrow> rat" where
  "weightedPenalties st =
     of_int (ts_totalLatePayments st) * (1 / 2) + of_int (ts_totalMissedPayments st) * (3 / 2)
     + of_int (ts_totalDefaults st) * 3"

definition historyBehavior :: "trustStats \<Rightarrow> rat" where
  "historyBehavior st =
     (if 0 < ts_totalExpectedPayments st
      then max 0 ((of_int (ts_totalOnTimePayments st) - weightedPenalties st)
                  / of_int (ts_totalExpectedPayments st) * 100)
      else 50)"

definition payoutReliability :: "trustStats \<Rightarrow> rat" where
  "payoutReliability st =
     (if 0 < ts_expectedPostPayoutPayments st
      then of_int (ts_postPayoutOnTimePayments st) / of_int (ts_expectedPostPayoutPayments st) * 100
      else 70)"

definition peerScore :: "trustStats \<Rightarrow> rat" where
  "peerScore st = (if 0 < ts_totalPeerRatings st then ts_averagePeerRating st / 5 * 100 else 50)"

definition monthsActive :: "env \<Rightarrow> int \<Rightarrow> int" where
  "monthsActive env created =
     (getFullYear (tz env) (now env) - getFullYear (tz env) created) * 12
     + (getMonth (tz env) (now env) - getMonth (tz env) created)"

definition historyLength :: "env \<Rightarrow> int \<Rightarrow> rat" where
  "historyLength env created = min 100 (of_int (monthsActive env created) * (83 / 10))"

definition computeATI :: "env \<Rightarrow> trustStats \<Rightarrow> int \<Rightarrow> int" where
  "computeATI env st created =
     min 95 (math_round (recentBehavior st * (3 / 10) + historyBehavior st * (1 / 4)
       + payoutReliability st * (1 / 5) + peerScore st * (15 / 100)
       + historyLength env created * (1 / 10)))"

text \<open>\<^verbatim>\<open>Math.round(x * 10) / 10\<close>, component by component.\<close>

record atiBreakdown =
  ab_recentBehavior :: rat
  ab_historyBehavior :: rat
  ab_payoutReliability :: rat
  ab_peerScore :: rat
  ab_historyLength :: rat

definition round1 :: "rat \<Rightarrow> rat" where
  "round1 x = of_int (math_round (x * 10)) / 10"

definition computeATIBreakdown :: "env \<Rightarrow> trustStats \<Rightarrow> int \<Rightarrow> atiBreakdown" where
  "computeATIBreakdown env st created =
     \<lparr>ab_recentBehavior = round1 (recentBehavior st),
      ab_historyBehavior = round1 (historyBehavior st),
      ab_payoutReliability = round1 (payoutReliability st),
      ab_peerScore = round1 (peerScore st),
      ab_historyLength = round1 (historyLength env created)\<rparr>"

section \<open>Events\<close>

definition newTrustStats :: "env \<Rightarrow> string \<Rightarrow> trustStats" where
  "newTrustStats env uid =
     \<lparr>ts_userId = uid, ts_trustScore = 50, ts_totalOnTimePayments = 0, ts_totalLatePayments = 0,
      ts_totalMissedPayments = 0, ts_totalDefaults = 0, ts_totalExpectedPayments = 0,
      ts_consecutiveLatePayments = 0, ts_onTimePaymentsLastCycle = 0,
      ts_expectedPaymentsLastCycle = 0, ts_postPayoutOnTimePayments = 0,
      ts_expectedPostPayoutPayments = 0, ts_averagePeerRating = 0, ts_totalPeerRatings = 0,
      ts_lastUpdated = now env\<rparr>"

text \<open>The counter updates of the \<^verbatim>\<open>switch\<close> in \<^verbatim>\<open>updateTrustScore\<close>.\<close>

fun applyTrustEvent :: "trustScoreEvent \<Rightarrow> trustStats \<Rightarrow> trustStats" where
  "applyTrustEvent (ContributionEv onTime isPostPayout) st =
     (let st1 = st\<lparr>ts_totalExpectedPayments := ts_totalExpectedPayments st + 1,
                   ts_expectedPaymentsLastCycle := ts_expectedPaymentsLastCycle st + 1\<rparr>;
          st2 = (if onTime
                 then st1\<lparr>ts_totalOnTimePayments := ts_totalOnTimePayments st1 + 1,
                          ts_onTimePaymentsLastCycle := ts_onTimePaymentsLastCycle st1 + 1,
                          ts_consecutiveLatePayments := 0\<rparr>
                 else st1\<lparr>ts_totalLatePayments := ts_totalLatePayments st1 + 1,
                          ts_consecutiveLatePayments := ts_consecutiveLatePayments st1 + 1\<rparr>)
      in if isPostPayout
         then st2\<lparr>ts_expectedPostPayoutPayments := ts_expectedPostPayoutPayments st2 + 1,
                  ts_postPayoutOnTimePayments :=
                    ts_postPayoutOnTimePayments st2 + (if onTime then 1 else 0)\<rparr>
         else st2)"
| "applyTrustEvent (MissedPayment isPostPayout) st =
     (let st1 = st\<lparr>ts_totalExpectedPayments := ts_totalExpectedPayments st + 1,
                   ts_totalMissedPayments := ts_totalMissedPayments st + 1,
                   ts_expectedPaymentsLastCycle := ts_expectedPaymentsLastCycle st + 1,
                   ts_consecutiveLatePayments := ts_consecutiveLatePayments st + 1\<rparr>
      in if isPostPayout
         then st1\<lparr>ts_expectedPostPayoutPayments := ts_expectedPostPayoutPayments st1 + 1\<rparr>
         else st1)"
| "applyTrustEvent MissedPaymentPostPayoutDefault st =
     st\<lparr>ts_totalExpectedPayments := ts_totalExpectedPayments st + 1,
        ts_totalMissedPayments := ts_totalMissedPayments st + 1,
        ts_totalDefaults := ts_totalDefaults st + 1,
        ts_expectedPaymentsLastCycle := ts_expectedPaymentsLastCycle st + 1,
        ts_expectedPostPayoutPayments := ts_expectedPostPayoutPayments st + 1,
        ts_consecutiveLatePayments := ts_consecutiveLatePayments st + 1\<rparr>"
| "applyTrustEvent (PeerRating rating) st =
     (let newTotal = ts_totalPeerRatings st + 1
      in st\<lparr>ts_totalPeerRatings := newTotal,
            ts_averagePeerRating :=
              (ts_averagePeerRating st * of_int (ts_totalPeerRatings st) + rating)
              / of_int newTotal\<rparr>)"
| "applyTrustEvent CycleReset st =
     st\<lparr>ts_onTimePaymentsLastCycle := 0, ts_expectedPaymentsLastCycle := 0\<rparr>"

definition trustStatsOf :: "string \<Rightarrow> db \<Rightarrow> trustStats option" where
  "trustStatsOf uid s = findFirst (\<lambda>st. ts_userId st = uid) (allTrustStats s)"

definition setTrustStats :: "string \<Rightarrow> trustStats \<Rightarrow> db \<Rightarrow> db" where
  "setTrustStats uid st s =
     s\<lparr>allTrustStats := updateRow (\<lambda>x. ts_userId x = uid) (\<lambda>_. st) (allTrustStats s)\<rparr>"

definition updateTrustScore :: "env \<Rightarrow> string \<Rightarrow> trustScoreEvent \<Rightarrow> db \<Rightarrow> db result" where
  "updateTrustScore env uid ev s =
     (let (current, s1) =
        (case trustStatsOf uid s of
           Some st \<Rightarrow> (st, s)
         | None \<Rightarrow> (newTrustStats env uid,
                    s\<lparr>allTrustStats := allTrustStats s @ [newTrustStats env uid]\<rparr>));
        updatedStats = (applyTrustEvent ev current)\<lparr>ts_lastUpdated := now env\<rparr>;
        s2 = setTrustStats uid updatedStats s1
      in
      bindE (orThrow (PrismaError ''P2025'') (userById uid s2)) (\<lambda>user.
      let newScore = computeATI env updatedStats (u_createdAt user)
      in Inr (setTrustStats uid (updatedStats\<lparr>ts_trustScore := newScore\<rparr>) s2)))"

section \<open>Reading\<close>

definition displayScoreOf :: "int \<Rightarrow> int" where
  "displayScoreOf score = 300 + math_round (of_int score * (11 / 2))"

text \<open>The \<^verbatim>\<open>trustScore\<close> and \<^verbatim>\<open>displayScore\<close> a caller reads.\<close>

definition getTrustScore :: "string \<Rightarrow> db \<Rightarrow> int \<times> int" where
  "getTrustScore uid s =
     (case trustStatsOf uid s of
        None \<Rightarrow> (50, displayScoreOf 50)
      | Some st \<Rightarrow> (ts_trustScore st, displayScoreOf (ts_trustScore st)))"

record trustPage =
  tp_data :: "(trustStats \<times> int) list"
  tp_total :: nat
  tp_page :: nat
  tp_limit :: nat
  tp_totalPages :: nat

definition trustFilter :: "int option \<Rightarrow> int option \<Rightarrow> trustStats \<Rightarrow> bool" where
  "trustFilter minScore maxScore st \<longleftrightarrow>
     (case minScore of None \<Rightarrow> True | Some lo \<Rightarrow> lo \<le> ts_trustScore st) \<and>
     (case maxScore of None \<Rightarrow> True | Some hi \<Rightarrow> ts_trustScore st \<le> hi)"

text \<open>
  Pages count from 1 (the DTO refuses 0) and \<^verbatim>\<open>Math.ceil(total / limit)\<close> is the ceiling of the
  quotient.  The order of rows with equal score is the database's; a stable sort is one such order.
\<close>

definition getAllTrustStats ::
  "nat option \<Rightarrow> nat option \<Rightarrow> int option \<Rightarrow> int option \<Rightarrow> db \<Rightarrow> trustPage" where
  "getAllTrustStats pageO limitO minScore maxScore s =
     (let page = (case pageO of None \<Rightarrow> 1 | Some p \<Rightarrow> p);
          limit = (case limitO of None \<Rightarrow> 20 | Some l \<Rightarrow> l);
          skip = (page - 1) * limit;
          found = filter (trustFilter minScore maxScore) (allTrustStats s);
          rows = take limit (drop skip (sort_key (\<lambda>st. - ts_trustScore st) found));
          total = length found
      in \<lparr>tp_data = map (\<lambda>st. (st, displayScoreOf (ts_trustScore st))) rows, tp_total = total,
          tp_page = page, tp_limit = limit, tp_totalPages = (total + limit - 1) div limit\<rparr>)"

definition getTrustStatsFull ::
  "env \<Rightarrow> string \<Rightarrow> db \<Rightarrow> (trustStats \<times> int \<times> atiBreakdown option) option" where
  "getTrustStatsFull env uid s =
     (case trustStatsOf uid s of
        None \<Rightarrow> None
      | Some st \<Rightarrow> Some (st, displayScoreOf (ts_trustScore st),
          (case userById uid s of
             Some u \<Rightarrow> Some (computeATIBreakdown env st (u_createdAt u))
           | None \<Rightarrow> None)))"

definition getUserTrustStats ::
  "env \<Rightarrow> string \<Rightarrow> db \<Rightarrow> trustStats option \<times> int \<times> int \<times> atiBreakdown option" where
  "getUserTrustStats env uid s =
     (case getTrustStatsFull env uid s of
        None \<Rightarrow> (None, 50, 575, None)
      | Some (st, display, breakdown) \<Rightarrow> (Some st, ts_trustScore st, display, breakdown))"

section \<open>The super-admin's events\<close>

record fireTrustEventDto =
  ft_eventType :: string
  ft_isPostPayout :: "bool option"
  ft_rating :: "rat option"

definition mapDtoToEvent :: "fireTrustEventDto \<Rightarrow> trustScoreEvent result" where
  "mapDtoToEvent d =
     (let post = (case ft_isPostPayout d of None \<Rightarrow> False | Some b \<Rightarrow> b) in
      if ft_eventType d = ''contribution_on_time'' then Inr (ContributionEv True post)
      else if ft_eventType d = ''contribution_late'' then Inr (ContributionEv False post)
      else if ft_eventType d = ''missed_payment'' then Inr (MissedPayment False)
      else if ft_eventType d = ''missed_payment_post_payout'' then Inr (MissedPayment True)
      else if ft_eventType d = ''missed_payment_post_payout_default''
        then Inr MissedPaymentPostPayoutDefault
      else if ft_eventType d = ''peer_rating''
        then (case ft_rating d of
                None \<Rightarrow> Inl (BadRequest ''peer_rating requires a rating between 1 and 5'')
              | Some r \<Rightarrow> if r < 1 \<or> r > 5
                  then Inl (BadRequest ''peer_rating requires a rating between 1 and 5'')
                  else Inr (PeerRating r))
      else if ft_eventType d = ''cycle_reset'' then Inr CycleReset
      else Inl (BadRequest ''Unknown event type''))"

definition fireTrustEvent ::
  "env \<Rightarrow> string \<Rightarrow> fireTrustEventDto \<Rightarrow> db \<Rightarrow> ((int \<times> int) \<times> db) result" where
  "fireTrustEvent env uid d s =
     bindE (mapDtoToEvent d) (\<lambda>ev.
     bindE (updateTrustScore env uid ev s) (\<lambda>s'.
     Inr (getTrustScore uid s', s')))"

section \<open>The counters stay consistent\<close>

definition trustWf :: "trustStats \<Rightarrow> bool" where
  "trustWf st \<longleftrightarrow>
     0 \<le> ts_totalOnTimePayments st \<and> 0 \<le> ts_totalLatePayments st \<and> 0 \<le> ts_totalMissedPayments st \<and>
     0 \<le> ts_totalDefaults st \<and> ts_totalDefaults st \<le> ts_totalMissedPayments st \<and>
     ts_totalExpectedPayments st =
       ts_totalOnTimePayments st + ts_totalLatePayments st + ts_totalMissedPayments st \<and>
     0 \<le> ts_onTimePaymentsLastCycle st \<and>
     ts_onTimePaymentsLastCycle st \<le> ts_expectedPaymentsLastCycle st \<and>
     0 \<le> ts_postPayoutOnTimePayments st \<and>
     ts_postPayoutOnTimePayments st \<le> ts_expectedPostPayoutPayments st \<and>
     0 \<le> ts_totalPeerRatings st \<and> 0 \<le> ts_averagePeerRating st \<and> ts_averagePeerRating st \<le> 5"

definition trustScoreWf :: "trustStats \<Rightarrow> bool" where
  "trustScoreWf st \<longleftrightarrow> trustWf st \<and> 0 \<le> ts_trustScore st \<and> ts_trustScore st \<le> 95"

fun validTrustEvent :: "trustScoreEvent \<Rightarrow> bool" where
  "validTrustEvent (PeerRating r) \<longleftrightarrow> 1 \<le> r \<and> r \<le> 5"
| "validTrustEvent _ \<longleftrightarrow> True"

text \<open>What the super-admin can fire is valid.\<close>

lemma mapDtoToEvent_valid: "mapDtoToEvent d = Inr ev \<Longrightarrow> validTrustEvent ev"
  by (auto simp: mapDtoToEvent_def Let_def split: if_splits option.splits)

lemma newTrustStats_wf: "trustScoreWf (newTrustStats env uid)"
  by (simp add: trustScoreWf_def trustWf_def newTrustStats_def)

lemma average_bounds:
  fixes a r :: rat and n :: int
  assumes "0 \<le> n" "0 \<le> a" "a \<le> 5" "0 \<le> r" "r \<le> 5"
  shows "0 \<le> (a * of_int n + r) / of_int (n + 1)" and "(a * of_int n + r) / of_int (n + 1) \<le> 5"
proof -
  have n: "0 \<le> (of_int n :: rat)" using assms by simp
  show "0 \<le> (a * of_int n + r) / of_int (n + 1)"
    using assms n by (simp add: divide_nonneg_nonneg)
  have "a * of_int n \<le> 5 * of_int n"
    using mult_right_mono [OF assms(3) n] .
  then have "a * of_int n + r \<le> 5 * of_int (n + 1)"
    using assms by simp
  then show "(a * of_int n + r) / of_int (n + 1) \<le> 5"
    using n by (simp add: divide_le_eq)
qed

lemma applyTrustEvent_wf: "trustWf st \<Longrightarrow> validTrustEvent ev \<Longrightarrow> trustWf (applyTrustEvent ev st)"
proof (cases ev)
  case (PeerRating r)
  assume "trustWf st" "validTrustEvent ev"
  with PeerRating show ?thesis
    using average_bounds [of "ts_totalPeerRatings st" "ts_averagePeerRating st" r]
    by (simp add: trustWf_def Let_def)
qed (auto simp: trustWf_def Let_def)

section \<open>The score is bounded\<close>

lemma percent_bounds: "x \<le> 1 \<Longrightarrow> x * 100 \<le> 100" "0 \<le> x \<Longrightarrow> 0 \<le> x * 100" for x :: rat
  by linarith+

lemma ratio_bounds:
  fixes a b :: int
  assumes "0 \<le> a" "a \<le> b" "0 < b"
  shows "0 \<le> (of_int a / of_int b * 100 :: rat)" and "(of_int a / of_int b * 100 :: rat) \<le> 100"
proof -
  have "0 \<le> (of_int a / of_int b :: rat)" "(of_int a / of_int b :: rat) \<le> 1"
    using assms by simp_all
  then show "0 \<le> (of_int a / of_int b * 100 :: rat)" "(of_int a / of_int b * 100 :: rat) \<le> 100"
    using percent_bounds by blast+
qed

lemma recentBehavior_bounds: "trustWf st \<Longrightarrow> 0 \<le> recentBehavior st \<and> recentBehavior st \<le> 100"
  using ratio_bounds [of "ts_onTimePaymentsLastCycle st" "ts_expectedPaymentsLastCycle st"]
  by (auto simp: recentBehavior_def trustWf_def)

lemma payoutReliability_bounds:
  "trustWf st \<Longrightarrow> 0 \<le> payoutReliability st \<and> payoutReliability st \<le> 100"
  using ratio_bounds [of "ts_postPayoutOnTimePayments st" "ts_expectedPostPayoutPayments st"]
  by (auto simp: payoutReliability_def trustWf_def)

lemma peerScore_bounds: "trustWf st \<Longrightarrow> 0 \<le> peerScore st \<and> peerScore st \<le> 100"
  by (auto simp: peerScore_def trustWf_def)

lemma weightedPenalties_nonneg: "trustWf st \<Longrightarrow> 0 \<le> weightedPenalties st"
  by (simp add: weightedPenalties_def trustWf_def)

lemma historyBehavior_bounds: "trustWf st \<Longrightarrow> 0 \<le> historyBehavior st \<and> historyBehavior st \<le> 100"
proof -
  assume wf: "trustWf st"
  show ?thesis
  proof (cases "0 < ts_totalExpectedPayments st")
    case True
    then have e: "0 < (of_int (ts_totalExpectedPayments st) :: rat)" by simp
    have "(of_int (ts_totalOnTimePayments st) :: rat) \<le> of_int (ts_totalExpectedPayments st)"
      using wf by (simp add: trustWf_def)
    then have "(of_int (ts_totalOnTimePayments st) - weightedPenalties st)
        / of_int (ts_totalExpectedPayments st) \<le> 1"
      using weightedPenalties_nonneg [OF wf] e by (simp add: divide_le_eq)
    from percent_bounds(1) [OF this] True show ?thesis
      unfolding historyBehavior_def by (simp only: if_True max.bounded_iff max.cobounded1) simp
  qed (simp add: historyBehavior_def)
qed

text \<open>An account that exists has a non-negative age.\<close>

lemma yearOfDay_mono:
  assumes "a \<le> b"
  shows "yearOfDay a \<le> yearOfDay b"
proof (rule ccontr)
  assume "\<not> yearOfDay a \<le> yearOfDay b"
  then have "dayFromYear (yearOfDay b + 1) \<le> dayFromYear (yearOfDay a)"
    by (intro dayFromYear_mono) linarith
  then show False
    using yearOfDay_bounds [of a] yearOfDay_bounds [of b] assms by linarith
qed

lemma monthInYear_mono: "n \<le> n' \<Longrightarrow> monthInYear y n \<le> monthInYear y n'"
  by (simp add: monthInYear_def daysBeforeMonth_values)

lemma monthCount_mono:
  assumes "a \<le> b"
  shows "yearOfDay a * 12 + monthOfDay a \<le> yearOfDay b * 12 + monthOfDay b"
proof (cases "yearOfDay a = yearOfDay b")
  case True
  then show ?thesis
    using assms monthInYear_mono [of "a - dayFromYear (yearOfDay b)" "b - dayFromYear (yearOfDay b)"]
    by (simp add: monthOfDay_def)
next
  case False
  then have "yearOfDay a + 1 \<le> yearOfDay b"
    using yearOfDay_mono [OF assms] by linarith
  then show ?thesis
    using day_parts [of a] day_parts [of b] by linarith
qed

lemma monthsActive_nonneg:
  assumes "created \<le> now env"
  shows "0 \<le> monthsActive env created"
proof -
  have "localDay (tz env) created \<le> localDay (tz env) (now env)"
    using assms by (simp add: localDay_def msPerDay_def zdiv_mono1)
  from monthCount_mono [OF this] show ?thesis
    by (simp add: monthsActive_def getFullYear_def getMonth_def algebra_simps)
qed

lemma historyLength_bounds:
  "created \<le> now env \<Longrightarrow> 0 \<le> historyLength env created \<and> historyLength env created \<le> 100"
  using monthsActive_nonneg [of created env] by (simp add: historyLength_def)

lemma computeATI_bounds:
  assumes "trustWf st" and "created \<le> now env"
  shows "0 \<le> computeATI env st created \<and> computeATI env st created \<le> 95"
proof -
  have "0 \<le> math_round (recentBehavior st * (3 / 10) + historyBehavior st * (1 / 4)
       + payoutReliability st * (1 / 5) + peerScore st * (15 / 100)
       + historyLength env created * (1 / 10))"
    using recentBehavior_bounds [OF assms(1)] historyBehavior_bounds [OF assms(1)]
      payoutReliability_bounds [OF assms(1)] peerScore_bounds [OF assms(1)]
      historyLength_bounds [OF assms(2)]
    by (intro math_round_ge) simp
  then show ?thesis by (simp add: computeATI_def)
qed

lemma displayScoreOf_bounds: "0 \<le> n \<Longrightarrow> n \<le> 95 \<Longrightarrow> 300 \<le> displayScoreOf n \<and> displayScoreOf n \<le> 823"
proof -
  assume n: "0 \<le> n" "n \<le> 95"
  have "math_round (of_int n * (11 / 2)) \<le> math_round (1045 / 2)"
    using n by (intro math_round_mono) simp
  moreover have "math_round (1045 / 2) = 523"
    by (simp add: math_round_def)
  moreover have "0 \<le> math_round (of_int n * (11 / 2))"
    using n by (intro math_round_ge) simp
  ultimately show ?thesis by (simp add: displayScoreOf_def)
qed

section \<open>Which way the score moves\<close>

lemma ratio_up:
  fixes a b :: rat
  assumes "a \<le> b" "0 < b"
  shows "a / b \<le> (a + 1) / (b + 1)"
  using assms by (simp add: divide_le_eq le_divide_eq field_simps)

lemma ratio_down:
  fixes a b c :: rat
  assumes "0 \<le> c" "0 < b" "0 \<le> a"
  shows "(a - c) / (b + 1) \<le> a / b"
proof -
  have "(a - c) / (b + 1) \<le> a / (b + 1)"
    using assms by (simp add: divide_right_mono)
  also have "\<dots> \<le> a / b"
    using assms by (simp add: frac_le)
  finally show ?thesis .
qed

lemma computeATI_mono:
  assumes "recentBehavior st \<le> recentBehavior st'" "historyBehavior st \<le> historyBehavior st'"
    and "payoutReliability st \<le> payoutReliability st'" "peerScore st \<le> peerScore st'"
  shows "computeATI env st created \<le> computeATI env st' created"
  unfolding computeATI_def
  by (intro min.mono order.refl math_round_mono add_mono mult_right_mono) (simp_all add: assms)

lemma historyBehavior_up:
  assumes "trustWf st"
    and "ts_totalOnTimePayments st' = ts_totalOnTimePayments st + 1"
    and "ts_totalExpectedPayments st' = ts_totalExpectedPayments st + 1"
    and "weightedPenalties st' = weightedPenalties st"
  shows "historyBehavior st \<le> historyBehavior st'"
proof (cases "0 < ts_totalExpectedPayments st")
  case True
  let ?n = "of_int (ts_totalOnTimePayments st) - weightedPenalties st"
  let ?e = "of_int (ts_totalExpectedPayments st) :: rat"
  have "(of_int (ts_totalOnTimePayments st) :: rat) \<le> ?e"
    using assms(1) by (simp add: trustWf_def)
  then have "?n / ?e \<le> (?n + 1) / (?e + 1)"
    using True weightedPenalties_nonneg [OF assms(1)] by (intro ratio_up) linarith+
  then have "?n / ?e * 100 \<le> (?n + 1) / (?e + 1) * 100"
    by (rule mult_right_mono) simp
  moreover have "historyBehavior st' = max 0 ((?n + 1) / (?e + 1) * 100)"
    using assms True by (simp add: historyBehavior_def algebra_simps)
  moreover have "historyBehavior st = max 0 (?n / ?e * 100)"
    using True by (simp add: historyBehavior_def)
  ultimately show ?thesis by linarith
next
  case False
  with assms(1) have "ts_totalExpectedPayments st = 0" "ts_totalOnTimePayments st = 0"
    "weightedPenalties st = 0"
    by (auto simp: trustWf_def weightedPenalties_def)
  with assms show ?thesis by (simp add: historyBehavior_def)
qed

lemma historyBehavior_down:
  assumes "trustWf st"
    and "ts_totalOnTimePayments st' = ts_totalOnTimePayments st"
    and "ts_totalExpectedPayments st' = ts_totalExpectedPayments st + 1"
    and "weightedPenalties st + 1 / 2 \<le> weightedPenalties st'"
  shows "historyBehavior st' \<le> historyBehavior st"
proof (cases "0 < ts_totalExpectedPayments st")
  case True
  let ?n = "of_int (ts_totalOnTimePayments st) - weightedPenalties st"
  let ?m = "of_int (ts_totalOnTimePayments st) - weightedPenalties st'"
  let ?e = "of_int (ts_totalExpectedPayments st) :: rat"
  have st': "historyBehavior st' = max 0 (?m / (?e + 1) * 100)"
    using assms True by (simp add: historyBehavior_def)
  have st: "historyBehavior st = max 0 (?n / ?e * 100)"
    using True by (simp add: historyBehavior_def)
  show ?thesis
  proof (cases "0 \<le> ?n")
    case n: True
    have "(?n - (?n - ?m)) / (?e + 1) \<le> ?n / ?e"
      using True n assms(4) by (intro ratio_down) linarith+
    also have "?n - (?n - ?m) = ?m"
      by simp
    finally have "?m / (?e + 1) * 100 \<le> ?n / ?e * 100"
      by (rule mult_right_mono) simp
    with st st' show ?thesis by linarith
  next
    case n: False
    then have "?m / (?e + 1) \<le> 0"
      using assms(4) True by (simp add: divide_nonpos_pos)
    then have "?m / (?e + 1) * 100 \<le> 0 * 100"
      by (rule mult_right_mono) simp
    with st st' show ?thesis by linarith
  qed
next
  case False
  with assms(1) have z: "ts_totalExpectedPayments st = 0" "ts_totalOnTimePayments st = 0"
    "weightedPenalties st = 0"
    by (auto simp: trustWf_def weightedPenalties_def)
  with assms have "historyBehavior st' = max 0 (- weightedPenalties st' * 100)"
    by (simp add: historyBehavior_def)
  with z assms(4) show ?thesis by (simp add: historyBehavior_def)
qed

definition percentOr :: "rat \<Rightarrow> int \<Rightarrow> int \<Rightarrow> rat" where
  "percentOr d a b = (if 0 < b then of_int a / of_int b * 100 else d)"

lemma recentBehavior_percent:
  "recentBehavior st = percentOr 50 (ts_onTimePaymentsLastCycle st) (ts_expectedPaymentsLastCycle st)"
  "payoutReliability st =
     percentOr 70 (ts_postPayoutOnTimePayments st) (ts_expectedPostPayoutPayments st)"
  by (simp_all add: recentBehavior_def payoutReliability_def percentOr_def)

lemma percentOr_up: "0 \<le> a \<Longrightarrow> a \<le> b \<Longrightarrow> d \<le> 100 \<Longrightarrow> percentOr d a b \<le> percentOr d (a + 1) (b + 1)"
proof -
  assume a: "0 \<le> a" "a \<le> b" "d \<le> 100"
  show ?thesis
  proof (cases "0 < b")
    case True
    with ratio_up [of "of_int a" "of_int b"] a(2) have "of_int a / of_int b * 100
        \<le> (of_int a + 1) / (of_int b + 1) * (100 :: rat)"
      by (intro mult_right_mono) simp_all
    with True a show ?thesis by (simp add: percentOr_def)
  next
    case False
    with a have "a = 0" "b = 0" by auto
    with a show ?thesis by (simp add: percentOr_def)
  qed
qed

lemma percentOr_down: "0 \<le> a \<Longrightarrow> a \<le> b \<Longrightarrow> 0 \<le> d \<Longrightarrow> percentOr d a (b + 1) \<le> percentOr d a b"
proof -
  assume a: "0 \<le> a" "a \<le> b" "0 \<le> d"
  show ?thesis
  proof (cases "0 < b")
    case True
    with ratio_down [of 0 "of_int b" "of_int a"] a(1) have "of_int a / (of_int b + 1) * 100
        \<le> of_int a / of_int b * (100 :: rat)"
      by (intro mult_right_mono) simp_all
    with True a show ?thesis by (simp add: percentOr_def)
  next
    case False
    with a have "a = 0" "b = 0" by auto
    with a show ?thesis by (simp add: percentOr_def)
  qed
qed

lemma onTime_never_lowers:
  assumes "trustWf st"
  shows "computeATI env st created \<le> computeATI env (applyTrustEvent (ContributionEv True post) st) created"
proof (rule computeATI_mono)
  let ?st = "applyTrustEvent (ContributionEv True post) st"
  show "historyBehavior st \<le> historyBehavior ?st"
    by (rule historyBehavior_up [OF assms]) (auto simp: Let_def weightedPenalties_def)
  show "peerScore st \<le> peerScore ?st"
    by (simp add: peerScore_def Let_def)
  show "recentBehavior st \<le> recentBehavior ?st"
    unfolding recentBehavior_percent using assms by (simp add: Let_def percentOr_up trustWf_def)
  show "payoutReliability st \<le> payoutReliability ?st"
    unfolding recentBehavior_percent using assms by (simp add: Let_def percentOr_up trustWf_def)
qed

fun badTrustEvent :: "trustScoreEvent \<Rightarrow> bool" where
  "badTrustEvent (ContributionEv onTime _) \<longleftrightarrow> \<not> onTime"
| "badTrustEvent (MissedPayment _) \<longleftrightarrow> True"
| "badTrustEvent MissedPaymentPostPayoutDefault \<longleftrightarrow> True"
| "badTrustEvent _ \<longleftrightarrow> False"

lemma badEvent_never_raises:
  assumes "trustWf st" and "badTrustEvent ev"
  shows "computeATI env (applyTrustEvent ev st) created \<le> computeATI env st created"
proof (rule computeATI_mono)
  show "historyBehavior (applyTrustEvent ev st) \<le> historyBehavior st"
    using assms(2) by (cases ev; intro historyBehavior_down [OF assms(1)])
      (auto simp: Let_def weightedPenalties_def add_divide_distrib)
  show "peerScore (applyTrustEvent ev st) \<le> peerScore st"
    using assms(2) by (cases ev) (auto simp: peerScore_def Let_def)
  show "recentBehavior (applyTrustEvent ev st) \<le> recentBehavior st"
    unfolding recentBehavior_percent using assms
    by (cases ev) (auto simp: Let_def percentOr_down trustWf_def)
  show "payoutReliability (applyTrustEvent ev st) \<le> payoutReliability st"
    unfolding recentBehavior_percent using assms
    by (cases ev) (auto simp: Let_def percentOr_down trustWf_def)
qed

section \<open>The stored statistics\<close>

text \<open>
  What an update does to the table: one row per user, the user's row becomes the updated one with
  the new score, every other row stays.
\<close>

definition oldStats :: "env \<Rightarrow> string \<Rightarrow> db \<Rightarrow> trustStats" where
  "oldStats env uid s = (case trustStatsOf uid s of Some st \<Rightarrow> st | None \<Rightarrow> newTrustStats env uid)"

lemma applyTrustEvent_userId [simp]:
  "ts_userId (applyTrustEvent ev st) = ts_userId st"
  by (cases ev) (simp_all add: Let_def)

lemma newTrustStats_userId [simp]: "ts_userId (newTrustStats env uid) = uid"
  by (simp add: newTrustStats_def)

lemma trustStatsOf_userId: "trustStatsOf uid s = Some st \<Longrightarrow> ts_userId st = uid \<and> st \<in> set (allTrustStats s)"
  unfolding trustStatsOf_def by (drule find_SomeD) simp

lemma oldStats_userId [simp]: "ts_userId (oldStats env uid s) = uid"
  by (auto simp: oldStats_def dest: trustStatsOf_userId split: option.splits)

definition trustRow :: "env \<Rightarrow> string \<Rightarrow> trustScoreEvent \<Rightarrow> int \<Rightarrow> db \<Rightarrow> trustStats" where
  "trustRow env uid ev created s =
     (let st = (applyTrustEvent ev (oldStats env uid s))\<lparr>ts_lastUpdated := now env\<rparr>
      in st\<lparr>ts_trustScore := computeATI env st created\<rparr>)"

lemma trustRow_userId [simp]: "ts_userId (trustRow env uid ev c s) = uid"
  by (simp add: trustRow_def Let_def)

lemma updateRow_twice:
  "(\<And>r. P (f r)) \<Longrightarrow> updateRow P g (updateRow P f rs) = updateRow P (\<lambda>r. g (f r)) rs"
  by (induction rs) auto

lemma updateRow_append_new:
  "findFirst P rs = None \<Longrightarrow> P r \<Longrightarrow> updateRow P f (rs @ [r]) = rs @ [f r]"
  by (induction rs) (auto split: if_splits)

lemma updateTrustScore_Inr:
  "updateTrustScore env uid ev s = Inr s' \<longleftrightarrow>
     (\<exists>u. userById uid s = Some u \<and>
       s' = s\<lparr>allTrustStats :=
         (case trustStatsOf uid s of
            Some _ \<Rightarrow> updateRow (\<lambda>x. ts_userId x = uid)
              (\<lambda>_. trustRow env uid ev (u_createdAt u) s) (allTrustStats s)
          | None \<Rightarrow> allTrustStats s @ [trustRow env uid ev (u_createdAt u) s])\<rparr>)"
proof (cases "trustStatsOf uid s")
  case None
  then show ?thesis
    by (auto simp: updateTrustScore_def result_simps setTrustStats_def Let_def oldStats_def
        trustRow_def updateRow_append_new trustStatsOf_def userById_def updateRow_twice)
next
  case (Some st)
  from trustStatsOf_userId [OF this] have "ts_userId st = uid" by simp
  with Some show ?thesis
    by (auto simp: updateTrustScore_def result_simps setTrustStats_def Let_def oldStats_def
        trustRow_def userById_def updateRow_twice)
qed

lemma updateTrustScore_frame:
  "updateTrustScore env uid ev s = Inr s' \<Longrightarrow> \<exists>st. s' = s\<lparr>allTrustStats := st\<rparr>"
  by (auto simp: updateTrustScore_Inr)

lemma updateTrustScore_row:
  assumes "updateTrustScore env uid ev s = Inr s'"
  shows "\<exists>u. userById uid s = Some u \<and> trustStatsOf uid s' = Some (trustRow env uid ev (u_createdAt u) s)"
proof -
  from assms obtain u where u: "userById uid s = Some u" and s': "s' = s\<lparr>allTrustStats :=
         (case trustStatsOf uid s of
            Some _ \<Rightarrow> updateRow (\<lambda>x. ts_userId x = uid)
              (\<lambda>_. trustRow env uid ev (u_createdAt u) s) (allTrustStats s)
          | None \<Rightarrow> allTrustStats s @ [trustRow env uid ev (u_createdAt u) s])\<rparr>"
    by (auto simp: updateTrustScore_Inr)
  have "trustStatsOf uid s' = Some (trustRow env uid ev (u_createdAt u) s)"
  proof (cases "trustStatsOf uid s")
    case None
    then show ?thesis unfolding s' by (simp add: trustStatsOf_def find_append)
  next
    case (Some st)
    have "findFirst (\<lambda>x. ts_userId x = uid) (allTrustStats s) = Some st"
      using Some by (simp add: trustStatsOf_def)
    from find_updateRow_same [OF this, of "\<lambda>_. trustRow env uid ev (u_createdAt u) s"] show ?thesis
      unfolding s' using Some by (simp add: trustStatsOf_def)
  qed
  with u show ?thesis by blast
qed

lemma updateTrustScore_other:
  assumes "updateTrustScore env uid ev s = Inr s'" and "uid' \<noteq> uid"
  shows "trustStatsOf uid' s' = trustStatsOf uid' s"
proof -
  have up: "findFirst (\<lambda>x. ts_userId x = uid') (updateRow (\<lambda>x. ts_userId x = uid) f rs)
    = findFirst (\<lambda>x. ts_userId x = uid') rs" if "\<And>r. ts_userId (f r) = uid" for f rs
    by (rule find_updateRow_disjoint) (use assms(2) that in auto)
  from assms show ?thesis
    by (cases "trustStatsOf uid s")
      (auto simp: updateTrustScore_Inr trustStatsOf_def find_append up split: option.split)
qed

definition trustTableWf :: "db \<Rightarrow> bool" where
  "trustTableWf s \<longleftrightarrow> (\<forall>st \<in> set (allTrustStats s). trustScoreWf st)"

lemma trustWf_update [simp]:
  "trustWf (st\<lparr>ts_lastUpdated := t\<rparr>) = trustWf st" "trustWf (st\<lparr>ts_trustScore := n\<rparr>) = trustWf st"
  by (simp_all add: trustWf_def)

lemma oldStats_wf: "trustTableWf s \<Longrightarrow> trustScoreWf (oldStats env uid s)"
  using trustStatsOf_userId [of uid s]
  by (auto simp: oldStats_def newTrustStats_wf trustTableWf_def split: option.splits)

lemma trustRow_wf:
  assumes "trustTableWf s" and "validTrustEvent ev" and "created \<le> now env"
  shows "trustScoreWf (trustRow env uid ev created s)"
  using applyTrustEvent_wf [OF _ assms(2), of "oldStats env uid s"] oldStats_wf [OF assms(1)]
    computeATI_bounds [OF _ assms(3)]
  by (simp add: trustScoreWf_def trustRow_def Let_def)

lemma updateTrustScore_wf:
  assumes "updateTrustScore env uid ev s = Inr s'" and "trustTableWf s" and "validTrustEvent ev"
    and "\<forall>u \<in> set (users s). u_createdAt u \<le> now env"
  shows "trustTableWf s'"
proof -
  from assms(1) obtain u where u: "userById uid s = Some u"
    by (auto simp: updateTrustScore_Inr)
  then have "u_createdAt u \<le> now env"
    using assms(4) find_SomeD [of "\<lambda>u. u_id u = uid" "users s" u] by (auto simp: userById_def)
  note row = trustRow_wf [OF assms(2,3) this, of uid]
  show ?thesis
    unfolding trustTableWf_def
  proof
    fix st assume "st \<in> set (allTrustStats s')"
    then have "st \<in> set (allTrustStats s) \<or> st = trustRow env uid ev (u_createdAt u) s"
      using assms(1) u by (auto simp: updateTrustScore_Inr dest: in_set_updateRow split: option.splits)
    then show "trustScoreWf st"
      using row assms(2) by (auto simp: trustTableWf_def)
  qed
qed

text \<open>
  The running average of the peer ratings is the mean of all ratings received.
\<close>

lemma peer_average:
  assumes "ts_totalPeerRatings st = 0" and "ts_averagePeerRating st = 0"
  shows "ts_totalPeerRatings (fold (\<lambda>r. applyTrustEvent (PeerRating r)) rs st) = int (length rs) \<and>
    ts_averagePeerRating (fold (\<lambda>r. applyTrustEvent (PeerRating r)) rs st) * of_nat (length rs) =
      sum_list rs"
  using assms
proof (induction rs rule: rev_induct)
  case (snoc r rs)
  define st' where "st' = fold (\<lambda>r. applyTrustEvent (PeerRating r)) rs st"
  have n: "ts_totalPeerRatings st' = int (length rs)"
    "ts_averagePeerRating st' * of_nat (length rs) = sum_list rs"
    unfolding st'_def using snoc.IH [OF snoc.prems] by blast+
  have "(1 + of_nat (length rs) :: rat) \<noteq> 0"
    using of_nat_0_le_iff [of "length rs", where ?'a = rat] by linarith
  then show ?case
    unfolding fold_append comp_def fold.simps id_apply st'_def [symmetric]
    using n by (simp add: Let_def add.commute)
qed simp

text \<open>A page lists users in descending order of score, all of them within the bounds asked for.\<close>

lemma getAllTrustStats_rows:
  "sorted_wrt (\<lambda>a b. ts_trustScore (fst b) \<le> ts_trustScore (fst a))
     (tp_data (getAllTrustStats p l lo hi s))"
  "row \<in> set (tp_data (getAllTrustStats p l lo hi s)) \<Longrightarrow>
     fst row \<in> set (allTrustStats s) \<and> trustFilter lo hi (fst row) \<and>
     snd row = displayScoreOf (ts_trustScore (fst row))"
proof -
  have "sorted_wrt (\<lambda>a b. ts_trustScore b \<le> ts_trustScore a) (sort_key (\<lambda>st. - ts_trustScore st) xs)"
    for xs :: "trustStats list"
    using sorted_sort_key [of "\<lambda>st. - ts_trustScore st" xs] by (simp add: sorted_map)
  then show "sorted_wrt (\<lambda>a b. ts_trustScore (fst b) \<le> ts_trustScore (fst a))
     (tp_data (getAllTrustStats p l lo hi s))"
    by (simp add: getAllTrustStats_def Let_def sorted_wrt_map sorted_wrt_take sorted_wrt_drop)
  assume "row \<in> set (tp_data (getAllTrustStats p l lo hi s))"
  then show "fst row \<in> set (allTrustStats s) \<and> trustFilter lo hi (fst row) \<and>
     snd row = displayScoreOf (ts_trustScore (fst row))"
    by (auto simp: getAllTrustStats_def Let_def dest!: in_set_takeD in_set_dropD)
qed

end
