(* ===== verification/Credit.thy ===== *)
theory Credit
  imports Trust
begin

text \<open>
  \<^verbatim>\<open>src/modules/credit/external-credit.service.ts\<close> and \<^verbatim>\<open>credit.service.ts\<close>: the score of the
  external bureau with its retries, the composite credit score and the eligibility for a loan.
  The bureau is simulated in the code and meant to be replaced, so the services take it as the
  argument \<open>bureau\<close>: what attempt \<open>k\<close> for a user returns, \<open>None\<close> when it throws.
\<close>

section \<open>The external bureau\<close>

definition RETRY_ATTEMPTS :: nat where "RETRY_ATTEMPTS = 3"

text \<open>\<^verbatim>\<open>for (attempt = 1; attempt <= RETRY_ATTEMPTS; attempt++) try \<dots>\<close> with \<open>n\<close> attempts left.\<close>

fun retryFrom :: "nat \<Rightarrow> nat \<Rightarrow> (nat \<Rightarrow> 'a option) \<Rightarrow> 'a option" where
  "retryFrom 0 attempt f = None"
| "retryFrom (Suc n) attempt f =
     (case f attempt of Some x \<Rightarrow> Some x | None \<Rightarrow> retryFrom n (attempt + 1) f)"

type_synonym bureau = "nat \<Rightarrow> string \<Rightarrow> int option"

definition getExternalCreditScore :: "bureau \<Rightarrow> string \<Rightarrow> int option" where
  "getExternalCreditScore bureau uid = retryFrom RETRY_ATTEMPTS 1 (\<lambda>attempt. bureau attempt uid)"

text \<open>\<^verbatim>\<open>reportCreditEvent\<close>: whether the event was reported; it never throws.\<close>

definition reportCreditEvent :: "(nat \<Rightarrow> unit option) \<Rightarrow> bool" where
  "reportCreditEvent send = (retryFrom RETRY_ATTEMPTS 1 send \<noteq> None)"

definition simulateBureauScoreFetch :: "string \<Rightarrow> int" where
  "simulateBureauScoreFetch uid =
     (let hash = fold (\<lambda>c acc. acc + int (of_char c :: nat)) uid 0;
          score = 550 + hash mod 250
      in min 850 (max 300 score))"

definition simulatedBureau :: bureau where
  "simulatedBureau attempt uid = Some (simulateBureauScoreFetch uid)"

section \<open>The composite score\<close>

record finalCreditScore =
  fcs_externalScore :: int
  fcs_trustDisplayScore :: int
  fcs_finalScore :: int

definition clampScore :: "int \<Rightarrow> int" where
  "clampScore n = min 850 (max 300 n)"

definition upsertCreditScore :: "creditScore \<Rightarrow> db \<Rightarrow> db" where
  "upsertCreditScore row s =
     s\<lparr>creditScores :=
        (if list_ex (\<lambda>x. cr_userId x = cr_userId row) (creditScores s)
         then updateRow (\<lambda>x. cr_userId x = cr_userId row) (\<lambda>_. row) (creditScores s)
         else creditScores s @ [row])\<rparr>"

definition getFinalCreditScore :: "bureau \<Rightarrow> string \<Rightarrow> db \<Rightarrow> finalCreditScore \<times> db" where
  "getFinalCreditScore bureau uid s =
     (let rawDisplay = snd (getTrustScore uid s);
          trustDisplayScore = clampScore (math_round (of_int rawDisplay));
          (externalScore, score) =
            (case getExternalCreditScore bureau uid of
               Some ext \<Rightarrow>
                 (ext, math_round (of_int ext * (7 / 10) + of_int trustDisplayScore * (3 / 10)))
             | None \<Rightarrow> (trustDisplayScore, trustDisplayScore));
          finalScore = clampScore score
      in (\<lparr>fcs_externalScore = externalScore, fcs_trustDisplayScore = trustDisplayScore,
           fcs_finalScore = finalScore\<rparr>,
          upsertCreditScore \<lparr>cr_userId = uid, cr_externalScore = externalScore,
            cr_trustDisplayScore = trustDisplayScore, cr_finalScore = finalScore\<rparr> s))"

section \<open>Eligibility\<close>

definition CREDIT_TIERS :: "(int \<times> int) list" where
  "CREDIT_TIERS = [(750, 50), (700, 45), (650, 40), (600, 30), (550, 20)]"

record loanEligibility =
  el_eligible :: bool
  el_finalCreditScore :: int
  el_allowedPercent :: int
  el_expectedPayoutKobo :: int
  el_maxLoanAmountKobo :: int
  el_ineligibilityReason :: "string option"

definition ineligible :: "int \<Rightarrow> int \<Rightarrow> string \<Rightarrow> loanEligibility" where
  "ineligible expected score reason =
     \<lparr>el_eligible = False, el_finalCreditScore = score, el_allowedPercent = 0,
      el_expectedPayoutKobo = expected, el_maxLoanAmountKobo = 0,
      el_ineligibilityReason = Some reason\<rparr>"

definition tierEligibility :: "circle \<Rightarrow> int \<Rightarrow> loanEligibility" where
  "tierEligibility c finalScore =
     (case findFirst (\<lambda>t. fst t \<le> finalScore) CREDIT_TIERS of
        None \<Rightarrow> ineligible 0 finalScore ''Credit score too low (minimum 550 required)''
      | Some tier \<Rightarrow>
          (let expected = c_contributionAmount c * c_filledSlots c
           in \<lparr>el_eligible = True, el_finalCreditScore = finalScore,
               el_allowedPercent = snd tier, el_expectedPayoutKobo = expected,
               el_maxLoanAmountKobo = bigint_div (expected * snd tier) 100,
               el_ineligibilityReason = None\<rparr>))"

definition activeMember :: "string \<Rightarrow> string \<Rightarrow> db \<Rightarrow> bool" where
  "activeMember cid uid s =
     (case membershipOf cid uid s of None \<Rightarrow> False | Some m \<Rightarrow> m_status m = MS_ACTIVE)"

definition creditEligibility ::
  "bureau \<Rightarrow> string \<Rightarrow> string \<Rightarrow> db \<Rightarrow> (loanEligibility \<times> db) result" where
  "creditEligibility bureau uid cid s =
     bindE (orThrow (NotFound ''Circle not found'') (circleById cid s)) (\<lambda>c.
     if c_status c \<noteq> CS_ACTIVE then Inr (ineligible 0 0 ''Circle is not active'', s)
     else if \<not> activeMember cid uid s
     then Inr (ineligible 0 0 ''You are not an active member of this circle'', s)
     else let (fcs, s1) = getFinalCreditScore bureau uid s
          in Inr (tierEligibility c (fcs_finalScore fcs), s1))"

section \<open>Correctness\<close>

text \<open>The retry loop returns the first success among the attempts, and fails only when all fail.\<close>

lemma retryFrom_Some:
  "retryFrom n k f = Some x \<longleftrightarrow>
     (\<exists>j < n. f (k + j) = Some x \<and> (\<forall>i < j. f (k + i) = None))"
proof (induction n arbitrary: k)
  case (Suc n)
  show ?case
    by (cases "f k") (simp_all add: Suc.IH Ex_less_Suc2 All_less_Suc2)
qed simp

lemma retryFrom_None: "retryFrom n k f = None \<longleftrightarrow> (\<forall>j < n. f (k + j) = None)"
proof (induction n arbitrary: k)
  case (Suc n)
  show ?case
    by (cases "f k") (simp_all add: Suc.IH All_less_Suc2)
qed simp

lemma simulateBureauScoreFetch_range:
  "550 \<le> simulateBureauScoreFetch uid \<and> simulateBureauScoreFetch uid \<le> 799"
proof -
  have "0 \<le> h mod 250" "h mod 250 < 250" for h :: int
    by simp_all
  then show ?thesis
    unfolding simulateBureauScoreFetch_def Let_def by (smt (verit))
qed

lemma clampScore_range: "300 \<le> clampScore n \<and> clampScore n \<le> 850"
  by (simp add: clampScore_def)

lemma clampScore_mono: "a \<le> b \<Longrightarrow> clampScore a \<le> clampScore b"
  by (simp add: clampScore_def)

lemma finalScore_range:
  "300 \<le> fcs_finalScore (fst (getFinalCreditScore bureau uid s)) \<and>
   fcs_finalScore (fst (getFinalCreditScore bureau uid s)) \<le> 850"
  by (simp add: getFinalCreditScore_def Let_def clampScore_range split: prod.split)

lemma getFinalCreditScore_state: "\<exists>cs. snd (getFinalCreditScore bureau uid s) = s\<lparr>creditScores := cs\<rparr>"
  by (auto simp: getFinalCreditScore_def Let_def upsertCreditScore_def split: prod.split)

lemma creditEligibility_Inr:
  "creditEligibility bureau uid cid s = Inr (el, s') \<longleftrightarrow>
     (\<exists>c. circleById cid s = Some c \<and>
       (if c_status c \<noteq> CS_ACTIVE then el = ineligible 0 0 ''Circle is not active'' \<and> s' = s
        else if \<not> activeMember cid uid s
        then el = ineligible 0 0 ''You are not an active member of this circle'' \<and> s' = s
        else el = tierEligibility c (fcs_finalScore (fst (getFinalCreditScore bureau uid s))) \<and>
             s' = snd (getFinalCreditScore bureau uid s)))"
proof (cases "circleById cid s")
  case (Some c)
  then show ?thesis
    by (cases "getFinalCreditScore bureau uid s") (auto simp: creditEligibility_def)
qed (simp add: creditEligibility_def)

lemma creditEligibility_state:
  assumes "creditEligibility bureau uid cid s = Inr (el, s')"
  shows "\<exists>cs. s' = s\<lparr>creditScores := cs\<rparr>"
proof -
  have "\<exists>cs. s = s\<lparr>creditScores := cs\<rparr>"
    by (rule exI [of _ "creditScores s"]) simp
  with assms getFinalCreditScore_state [of bureau uid s] show ?thesis
    by (auto simp: creditEligibility_Inr split: if_splits)
qed

text \<open>An eligible user has an active membership, a score of 550 or more and a tier's percentage.\<close>

lemma tier_found:
  "findFirst (\<lambda>t. fst t \<le> n) CREDIT_TIERS = Some t \<Longrightarrow> 550 \<le> n \<and> snd t \<in> {20, 30, 40, 45, 50}"
  by (auto simp: CREDIT_TIERS_def split: if_splits)

lemma tierEligibility_eligible:
  assumes "el_eligible (tierEligibility c n)"
  shows "550 \<le> n" and "el_finalCreditScore (tierEligibility c n) = n"
    and "el_allowedPercent (tierEligibility c n) \<in> {20, 30, 40, 45, 50}"
    and "el_expectedPayoutKobo (tierEligibility c n) = c_contributionAmount c * c_filledSlots c"
    and "el_maxLoanAmountKobo (tierEligibility c n) =
      bigint_div (c_contributionAmount c * c_filledSlots c * el_allowedPercent (tierEligibility c n)) 100"
  using assms tier_found [of n]
  by (cases "findFirst (\<lambda>t. fst t \<le> n) CREDIT_TIERS"; simp add: tierEligibility_def ineligible_def Let_def)+

lemma ineligible_simp [simp]: "\<not> el_eligible (ineligible a b r)"
  by (simp add: ineligible_def)

lemma creditEligibility_eligible:
  assumes "creditEligibility bureau uid cid s = Inr (el, s')" and "el_eligible el"
  obtains c where "circleById cid s = Some c" and "c_status c = CS_ACTIVE"
    and "activeMember cid uid s"
    and "el = tierEligibility c (fcs_finalScore (fst (getFinalCreditScore bureau uid s)))"
proof -
  from assms(1) obtain c where c: "circleById cid s = Some c"
    and r: "if c_status c \<noteq> CS_ACTIVE then el = ineligible 0 0 ''Circle is not active'' \<and> s' = s
        else if \<not> activeMember cid uid s
        then el = ineligible 0 0 ''You are not an active member of this circle'' \<and> s' = s
        else el = tierEligibility c (fcs_finalScore (fst (getFinalCreditScore bureau uid s))) \<and>
             s' = snd (getFinalCreditScore bureau uid s)"
    unfolding creditEligibility_Inr by blast
  with assms(2) show thesis
    using that [OF c] by (cases "c_status c = CS_ACTIVE"; cases "activeMember cid uid s") simp_all
qed

text \<open>A higher score never allows a smaller share.\<close>

definition allowedPercentFor :: "int \<Rightarrow> int" where
  "allowedPercentFor score =
     (case findFirst (\<lambda>t. fst t \<le> score) CREDIT_TIERS of None \<Rightarrow> 0 | Some t \<Rightarrow> snd t)"

lemma allowedPercentFor_mono: "a \<le> b \<Longrightarrow> allowedPercentFor a \<le> allowedPercentFor b"
  by (simp add: allowedPercentFor_def CREDIT_TIERS_def)

lemma allowedPercentFor_range: "0 \<le> allowedPercentFor a \<and> allowedPercentFor a \<le> 50"
  by (simp add: allowedPercentFor_def CREDIT_TIERS_def)

end
