(* ===== verification/Ledger.thy ===== *)
theory Ledger
  imports Schema
begin

text \<open>
  \<^verbatim>\<open>src/modules/ledger/ledger.service.ts\<close>: the append-only ledger that is the source of truth of
  every wallet balance.  \<open>writeEntry\<close> is the one gate all internal money movements go through; the
  theory gives its exact success condition and effect, the running-total invariant of the ledger,
  and the contract (locale \<open>ledger_port\<close>) the services above rely on.
\<close>

section \<open>Balances\<close>

definition entriesOf :: "string \<Rightarrow> db \<Rightarrow> ledgerEntry list" where
  "entriesOf wid s = filter (\<lambda>e. le_walletId e = wid) (ledgerEntries s)"

definition computeTotalBalance :: "db \<Rightarrow> string \<Rightarrow> int" where
  "computeTotalBalance s wid =
     (case findFirst (\<lambda>e. le_walletId e = wid) (ledgerEntries s) of
        None \<Rightarrow> 0
      | Some e \<Rightarrow> le_balanceAfter e)"

definition totalReserved :: "db \<Rightarrow> string \<Rightarrow> int" where
  "totalReserved s wid = sumBy (\<lambda>b. wb_walletId b = wid) wb_reservedAmount (walletBuckets s)"

record balance =
  bal_total :: int
  bal_reserved :: int
  bal_available :: int

definition getDetailedBalance :: "db \<Rightarrow> string \<Rightarrow> balance" where
  "getDetailedBalance s wid =
     (let total = computeTotalBalance s wid; reserved = totalReserved s wid
      in \<lparr>bal_total = total, bal_reserved = reserved, bal_available = total - reserved\<rparr>)"

definition available :: "db \<Rightarrow> string \<Rightarrow> int" where
  "available s wid = computeTotalBalance s wid - totalReserved s wid"

lemma getDetailedBalance_available [simp]: "bal_available (getDetailedBalance s wid) = available s wid"
  by (simp add: getDetailedBalance_def available_def Let_def)

section \<open>Writing an entry\<close>

record entryParams =
  wp_walletId :: string
  wp_entryType :: entryType
  wp_movementType :: movementType
  wp_bucketType :: "bucketType option"
  wp_amount :: int
  wp_reference :: string
  wp_sourceType :: ledgerSourceType
  wp_sourceId :: string

definition isBucketOp :: "entryType \<Rightarrow> bool" where
  "isBucketOp t \<longleftrightarrow> t = RESERVE \<or> t = RELEASE"

text \<open>The unique constraint \<^verbatim>\<open>@@unique([walletId, reference, sourceType, sourceId])\<close>.\<close>

definition le_key :: "ledgerEntry \<Rightarrow> string \<times> string \<times> ledgerSourceType \<times> string" where
  "le_key e = (le_walletId e, le_reference e, le_sourceType e, le_sourceId e)"

text \<open>\<^verbatim>\<open>ledgerEntry.create\<close>: the primary key and the unique constraint are enforced.\<close>

definition createLedgerEntry :: "ledgerEntry \<Rightarrow> db \<Rightarrow> db result" where
  "createLedgerEntry e s =
     (if list_ex (\<lambda>x. le_id x = le_id e \<or> le_key x = le_key e) (ledgerEntries s)
      then Inl (PrismaError ''P2002'')
      else Inr (s\<lparr>ledgerEntries := e # ledgerEntries s\<rparr>))"

definition bucketMatches :: "entryParams \<Rightarrow> walletBucket \<Rightarrow> bool" where
  "bucketMatches p b \<longleftrightarrow>
     wb_walletId b = wp_walletId p \<and> Some (wb_bucketType b) = wp_bucketType p \<and>
     wb_sourceId b = wp_sourceId p"

text \<open>
  The bucket \<^verbatim>\<open>upsert\<close>: an existing bucket is incremented by the signed change; a missing one is
  created with \<^verbatim>\<open>reservedAmount: amount\<close>, whatever the entry type.
\<close>

definition upsertBucket :: "entryParams \<Rightarrow> walletBucket list \<Rightarrow> walletBucket list" where
  "upsertBucket p bs =
     (let change = (if wp_entryType p = RESERVE then wp_amount p else - wp_amount p)
      in case findFirst (bucketMatches p) bs of
           Some _ \<Rightarrow> updateRow (bucketMatches p)
             (\<lambda>b. b\<lparr>wb_reservedAmount := wb_reservedAmount b + change\<rparr>) bs
         | None \<Rightarrow> bs @
             [\<lparr>wb_walletId = wp_walletId p,
               wb_bucketType = (case wp_bucketType p of Some t \<Rightarrow> t | None \<Rightarrow> BT_MAIN),
               wb_sourceId = wp_sourceId p, wb_reservedAmount = wp_amount p\<rparr>])"

definition writeEntry :: "string \<Rightarrow> entryParams \<Rightarrow> db \<Rightarrow> (ledgerEntry \<times> db) result" where
  "writeEntry newId p s =
     bindE (ensure (wp_sourceId p \<noteq> '''') (BadRequest ''sourceType and sourceId are required'')) (\<lambda>_.
     bindE (ensure (0 < wp_amount p) (BadRequest ''Amount must be positive'')) (\<lambda>_.
     bindE (ensure (\<not> (isBucketOp (wp_entryType p) \<and>
                       (wp_bucketType p = None \<or> wp_bucketType p = Some BT_MAIN)))
              (BadRequest ''bucketType required and cannot be MAIN'')) (\<lambda>_.
     bindE (ensure (\<not> ((wp_entryType p = CREDIT \<or> wp_entryType p = DEBIT) \<and>
                       wp_bucketType p \<noteq> None \<and> wp_bucketType p \<noteq> Some BT_MAIN))
              (BadRequest ''CREDIT/DEBIT must target MAIN bucket'')) (\<lambda>_.
     let currentTotal = computeTotalBalance s (wp_walletId p);
         currentAvailable = currentTotal - totalReserved s (wp_walletId p)
     in
     bindE (ensure (\<not> ((wp_entryType p = DEBIT \<or> wp_entryType p = RESERVE) \<and>
                       currentAvailable < wp_amount p))
              (BadRequest ''Insufficient available balance'')) (\<lambda>_.
     let s1 = (if isBucketOp (wp_entryType p)
               then s\<lparr>walletBuckets := upsertBucket p (walletBuckets s)\<rparr> else s);
         balanceAfter = (if wp_entryType p = CREDIT then currentTotal + wp_amount p
                         else if wp_entryType p = DEBIT then currentTotal - wp_amount p
                         else currentTotal);
         entry = \<lparr>le_id = newId, le_walletId = wp_walletId p, le_reference = wp_reference p,
                  le_entryType = wp_entryType p, le_movementType = wp_movementType p,
                  le_bucketType = Some (case wp_bucketType p of None \<Rightarrow> BT_MAIN | Some t \<Rightarrow> t),
                  le_amount = wp_amount p, le_balanceBefore = currentTotal,
                  le_balanceAfter = balanceAfter, le_sourceType = wp_sourceType p,
                  le_sourceId = wp_sourceId p\<rparr>
     in
     bindE (ensure (\<not> list_ex (\<lambda>x. le_key x = le_key entry) (ledgerEntries s1))
              (BadRequest ''Duplicate ledger entry detected'')) (\<lambda>_.
     bindE (createLedgerEntry entry s1) (\<lambda>s2. Inr (entry, s2))))))))"

definition createReversalEntry :: "string \<Rightarrow> string \<Rightarrow> db \<Rightarrow> (ledgerEntry \<times> db) result" where
  "createReversalEntry newId originalEntryId s =
     bindE (orThrow (BadRequest ''Original entry not found'')
              (findFirst (\<lambda>e. le_id e = originalEntryId) (ledgerEntries s))) (\<lambda>original.
     writeEntry newId
       \<lparr>wp_walletId = le_walletId original,
        wp_entryType = (if le_entryType original = CREDIT then DEBIT else CREDIT),
        wp_movementType = le_movementType original,
        wp_bucketType = le_bucketType original,
        wp_amount = le_amount original,
        wp_reference = ''REV-'' @ le_reference original,
        wp_sourceType = le_sourceType original,
        wp_sourceId = le_sourceId original\<rparr> s)"

text \<open>\<^verbatim>\<open>getHistory\<close>: newest first, filtered, \<^verbatim>\<open>skip\<close> and \<^verbatim>\<open>take\<close> with their defaults.\<close>

definition getHistory ::
  "string \<Rightarrow> nat option \<Rightarrow> nat option \<Rightarrow> ledgerSourceType option \<Rightarrow> movementType option \<Rightarrow> db
   \<Rightarrow> ledgerEntry list" where
  "getHistory wid limit offset sourceType movementType s =
     take (case limit of None \<Rightarrow> 50 | Some n \<Rightarrow> n)
      (drop (case offset of None \<Rightarrow> 0 | Some n \<Rightarrow> n)
        (filter (\<lambda>e. le_walletId e = wid \<and>
                     (case sourceType of None \<Rightarrow> True | Some t \<Rightarrow> le_sourceType e = t) \<and>
                     (case movementType of None \<Rightarrow> True | Some t \<Rightarrow> le_movementType e = t))
          (ledgerEntries s)))"

section \<open>The exact effect of a write\<close>

definition signedAmount :: "entryType \<Rightarrow> int \<Rightarrow> int" where
  "signedAmount t a = (case t of CREDIT \<Rightarrow> a | DEBIT \<Rightarrow> - a | RESERVE \<Rightarrow> 0 | RELEASE \<Rightarrow> 0)"

definition bucketExists :: "entryParams \<Rightarrow> db \<Rightarrow> bool" where
  "bucketExists p s \<longleftrightarrow> list_ex (bucketMatches p) (walletBuckets s)"

text \<open>
  What a write adds to the wallet's reserved total: a release of a bucket that does not exist adds
  its amount instead of taking it away.
\<close>

definition reserveChange :: "entryParams \<Rightarrow> db \<Rightarrow> int" where
  "reserveChange p s =
     (case wp_entryType p of
        RESERVE \<Rightarrow> wp_amount p
      | RELEASE \<Rightarrow> (if bucketExists p s then - wp_amount p else wp_amount p)
      | _ \<Rightarrow> 0)"

definition writtenEntry :: "string \<Rightarrow> entryParams \<Rightarrow> db \<Rightarrow> ledgerEntry" where
  "writtenEntry newId p s =
     \<lparr>le_id = newId, le_walletId = wp_walletId p, le_reference = wp_reference p,
      le_entryType = wp_entryType p, le_movementType = wp_movementType p,
      le_bucketType = Some (case wp_bucketType p of None \<Rightarrow> BT_MAIN | Some t \<Rightarrow> t),
      le_amount = wp_amount p, le_balanceBefore = computeTotalBalance s (wp_walletId p),
      le_balanceAfter = computeTotalBalance s (wp_walletId p)
        + signedAmount (wp_entryType p) (wp_amount p),
      le_sourceType = wp_sourceType p, le_sourceId = wp_sourceId p\<rparr>"

definition writtenState :: "string \<Rightarrow> entryParams \<Rightarrow> db \<Rightarrow> db" where
  "writtenState newId p s =
     s\<lparr>ledgerEntries := writtenEntry newId p s # ledgerEntries s,
       walletBuckets := (if isBucketOp (wp_entryType p) then upsertBucket p (walletBuckets s)
                         else walletBuckets s)\<rparr>"

definition writeKey :: "entryParams \<Rightarrow> string \<times> string \<times> ledgerSourceType \<times> string" where
  "writeKey p = (wp_walletId p, wp_reference p, wp_sourceType p, wp_sourceId p)"

text \<open>The guards of \<open>writeEntry\<close>, all of them.\<close>

definition writeAllowed :: "string \<Rightarrow> entryParams \<Rightarrow> db \<Rightarrow> bool" where
  "writeAllowed newId p s \<longleftrightarrow>
     wp_sourceId p \<noteq> '''' \<and> 0 < wp_amount p \<and>
     (isBucketOp (wp_entryType p) \<longrightarrow> wp_bucketType p \<noteq> None \<and> wp_bucketType p \<noteq> Some BT_MAIN) \<and>
     (\<not> isBucketOp (wp_entryType p) \<longrightarrow> wp_bucketType p = None \<or> wp_bucketType p = Some BT_MAIN) \<and>
     (wp_entryType p = DEBIT \<or> wp_entryType p = RESERVE \<longrightarrow>
        wp_amount p \<le> available s (wp_walletId p)) \<and>
     writeKey p \<notin> le_key ` set (ledgerEntries s) \<and> newId \<notin> le_id ` set (ledgerEntries s)"

lemma isBucketOp_simps [simp]:
  "isBucketOp RESERVE" "isBucketOp RELEASE" "\<not> isBucketOp CREDIT" "\<not> isBucketOp DEBIT"
  by (simp_all add: isBucketOp_def)

lemma signedAmount_simps [simp]:
  "signedAmount CREDIT a = a" "signedAmount DEBIT a = - a"
  "signedAmount RESERVE a = 0" "signedAmount RELEASE a = 0"
  by (simp_all add: signedAmount_def)

lemma createLedgerEntry_Inr:
  "createLedgerEntry e s = Inr s' \<longleftrightarrow>
     le_id e \<notin> le_id ` set (ledgerEntries s) \<and> le_key e \<notin> le_key ` set (ledgerEntries s) \<and>
     s' = s\<lparr>ledgerEntries := e # ledgerEntries s\<rparr>"
  unfolding createLedgerEntry_def list_ex_iff by (auto simp: image_iff) (metis+)

lemma le_key_writtenEntry [simp]: "le_key (writtenEntry i p s) = writeKey p"
  by (simp add: le_key_def writtenEntry_def writeKey_def)

lemma le_id_writtenEntry [simp]: "le_id (writtenEntry i p s) = i"
  by (simp add: writtenEntry_def)

lemma balanceAfter_cases:
  "(if t = CREDIT then c + a else if t = DEBIT then c - a else c) = c + signedAmount t a"
  by (cases t) simp_all

lemma notBucketOp: "(t = CREDIT \<or> t = DEBIT) = (\<not> isBucketOp t)"
  by (cases t) simp_all

lemma writeEntry_written:
  "writeEntry i p s =
     bindE (ensure (wp_sourceId p \<noteq> '''') (BadRequest ''sourceType and sourceId are required'')) (\<lambda>_.
     bindE (ensure (0 < wp_amount p) (BadRequest ''Amount must be positive'')) (\<lambda>_.
     bindE (ensure (\<not> (isBucketOp (wp_entryType p) \<and>
                       (wp_bucketType p = None \<or> wp_bucketType p = Some BT_MAIN)))
              (BadRequest ''bucketType required and cannot be MAIN'')) (\<lambda>_.
     bindE (ensure (\<not> (\<not> isBucketOp (wp_entryType p) \<and>
                       wp_bucketType p \<noteq> None \<and> wp_bucketType p \<noteq> Some BT_MAIN))
              (BadRequest ''CREDIT/DEBIT must target MAIN bucket'')) (\<lambda>_.
     bindE (ensure (\<not> ((wp_entryType p = DEBIT \<or> wp_entryType p = RESERVE) \<and>
                       available s (wp_walletId p) < wp_amount p))
              (BadRequest ''Insufficient available balance'')) (\<lambda>_.
     bindE (ensure (writeKey p \<notin> le_key ` set (ledgerEntries s))
              (BadRequest ''Duplicate ledger entry detected'')) (\<lambda>_.
     if i \<in> le_id ` set (ledgerEntries s) then Inl (PrismaError ''P2002'')
     else Inr (writtenEntry i p s, writtenState i p s)))))))"
proof -
  have state: "(if isBucketOp (wp_entryType p)
      then s\<lparr>walletBuckets := upsertBucket p (walletBuckets s)\<rparr> else s)
      \<lparr>ledgerEntries := x # ledgerEntries s\<rparr>
      = s\<lparr>ledgerEntries := x # ledgerEntries s,
          walletBuckets := if isBucketOp (wp_entryType p) then upsertBucket p (walletBuckets s)
                           else walletBuckets s\<rparr>" for x
    by simp
  have led: "ledgerEntries (if isBucketOp (wp_entryType p)
      then s\<lparr>walletBuckets := upsertBucket p (walletBuckets s)\<rparr> else s) = ledgerEntries s"
    by simp
  show ?thesis
    unfolding writeEntry_def Let_def available_def [symmetric] balanceAfter_cases notBucketOp
      writtenEntry_def [symmetric] createLedgerEntry_def led state
    by (auto simp: writtenState_def list_ex_iff image_iff bindE_def ensure_def)
qed

lemma writeEntry_Inr_iff:
  "writeEntry i p s = Inr (e, s') \<longleftrightarrow>
     writeAllowed i p s \<and> e = writtenEntry i p s \<and> s' = writtenState i p s"
  unfolding writeEntry_written writeAllowed_def
  by (auto simp: bindE_Inr_iff ensure_Inr_iff split: if_splits)

section \<open>Balances after a write\<close>

lemma computeTotalBalance_Cons [simp]:
  "computeTotalBalance (s\<lparr>ledgerEntries := e # es, walletBuckets := bs\<rparr>) w =
     (if le_walletId e = w then le_balanceAfter e
      else computeTotalBalance (s\<lparr>ledgerEntries := es\<rparr>) w)"
  "computeTotalBalance (s\<lparr>ledgerEntries := e # es\<rparr>) w =
     (if le_walletId e = w then le_balanceAfter e
      else computeTotalBalance (s\<lparr>ledgerEntries := es\<rparr>) w)"
  by (simp_all add: computeTotalBalance_def)

text \<open>
  Balances depend on the ledger and the buckets only, so the updates other services make to their
  own tables leave them alone.
\<close>

lemma computeTotalBalance_cong:
  "ledgerEntries s = ledgerEntries t \<Longrightarrow> computeTotalBalance s = computeTotalBalance t"
  by (rule ext) (simp add: computeTotalBalance_def)

lemma totalReserved_cong: "walletBuckets s = walletBuckets t \<Longrightarrow> totalReserved s = totalReserved t"
  by (rule ext) (simp add: totalReserved_def)

lemma available_cong:
  "ledgerEntries s = ledgerEntries t \<Longrightarrow> walletBuckets s = walletBuckets t \<Longrightarrow>
   available s = available t"
  by (rule ext) (simp add: available_def computeTotalBalance_cong [of s t]
      totalReserved_cong [of s t])

lemma totalReserved_upsert:
  "sumBy (\<lambda>b. wb_walletId b = w) wb_reservedAmount (upsertBucket p bs) =
     sumBy (\<lambda>b. wb_walletId b = w) wb_reservedAmount bs +
     (if w = wp_walletId p
      then (if list_ex (bucketMatches p) bs
            then (if wp_entryType p = RESERVE then wp_amount p else - wp_amount p)
            else wp_amount p)
      else 0)"
proof (cases "findFirst (bucketMatches p) bs")
  case None
  then have "\<not> list_ex (bucketMatches p) bs"
    by (auto simp: find_None_eq list_ex_iff)
  with None show ?thesis by (simp add: upsertBucket_def Let_def)
next
  case (Some b)
  then have "bucketMatches p b" "list_ex (bucketMatches p) bs"
    using find_SomeD [OF Some] by (auto simp: list_ex_iff)
  have "sumBy (\<lambda>b. wb_walletId b = w) wb_reservedAmount
      (updateRow (bucketMatches p) (\<lambda>b. b\<lparr>wb_reservedAmount := wb_reservedAmount b + c\<rparr>) bs)
    = sumBy (\<lambda>b. wb_walletId b = w) wb_reservedAmount bs + (if w = wp_walletId p then c else 0)"
    for c
    using Some \<open>bucketMatches p b\<close> by (subst sumBy_updateRow) (auto simp: bucketMatches_def)
  with Some \<open>list_ex (bucketMatches p) bs\<close> show ?thesis
    by (auto simp: upsertBucket_def Let_def)
qed

lemma writtenState_total:
  "computeTotalBalance (writtenState i p s) w =
     computeTotalBalance s w
     + (if w = wp_walletId p then signedAmount (wp_entryType p) (wp_amount p) else 0)"
  by (auto simp: writtenState_def writtenEntry_def computeTotalBalance_def)

lemma writtenState_reserved:
  "totalReserved (writtenState i p s) w =
     totalReserved s w + (if w = wp_walletId p then reserveChange p s else 0)"
  by (cases "wp_entryType p")
    (auto simp: totalReserved_def writtenState_def totalReserved_upsert reserveChange_def
      bucketExists_def)

lemma writeEntry_total:
  "writeEntry i p s = Inr (e, s') \<Longrightarrow>
   computeTotalBalance s' w =
     computeTotalBalance s w
     + (if w = wp_walletId p then signedAmount (wp_entryType p) (wp_amount p) else 0)"
  by (simp add: writeEntry_Inr_iff writtenState_total)

lemma writeEntry_reserved:
  "writeEntry i p s = Inr (e, s') \<Longrightarrow>
   totalReserved s' w = totalReserved s w + (if w = wp_walletId p then reserveChange p s else 0)"
  by (simp add: writeEntry_Inr_iff writtenState_reserved)

text \<open>A write touches the ledger and, for RESERVE and RELEASE, the buckets.\<close>

lemma writeEntry_frame:
  assumes "writeEntry i p s = Inr (e, s')"
  shows "wallets s' = wallets s" "users s' = users s" "transactions s' = transactions s"
    "systemWallets s' = systemWallets s" "circles s' = circles s" "memberships s' = memberships s"
    "schedules s' = schedules s" "contributions s' = contributions s" "payouts s' = payouts s"
    "allTrustStats s' = allTrustStats s" "loans s' = loans s" "auditLogs s' = auditLogs s"
    "webhookEvents s' = webhookEvents s" "invites s' = invites s" "kycs s' = kycs s"
    "ledgerEntries s' = e # ledgerEntries s"
    "\<not> isBucketOp (wp_entryType p) \<Longrightarrow> walletBuckets s' = walletBuckets s"
  using assms by (simp_all add: writeEntry_Inr_iff writtenState_def)

section \<open>The running total\<close>

text \<open>
  The entries of a wallet, newest first, chain: each starts from the balance the one before left,
  the first from zero, and ends at that balance plus its signed amount.
\<close>

definition topBalance :: "ledgerEntry list \<Rightarrow> int" where
  "topBalance es = (case es of [] \<Rightarrow> 0 | e # _ \<Rightarrow> le_balanceAfter e)"

primrec chain :: "ledgerEntry list \<Rightarrow> bool" where
  "chain [] \<longleftrightarrow> True"
| "chain (e # es) \<longleftrightarrow>
     le_balanceBefore e = topBalance es \<and>
     le_balanceAfter e = le_balanceBefore e + signedAmount (le_entryType e) (le_amount e) \<and>
     chain es"

definition ledgerChained :: "db \<Rightarrow> bool" where
  "ledgerChained s \<longleftrightarrow> (\<forall>w. chain (entriesOf w s))"

definition ledgerUnique :: "db \<Rightarrow> bool" where
  "ledgerUnique s \<longleftrightarrow>
     distinct (map le_id (ledgerEntries s)) \<and> distinct (map le_key (ledgerEntries s))"

definition calculatedTotal :: "string \<Rightarrow> db \<Rightarrow> int" where
  "calculatedTotal w s =
     sumBy (\<lambda>e. le_entryType e = CREDIT) le_amount (entriesOf w s)
     - sumBy (\<lambda>e. le_entryType e = DEBIT) le_amount (entriesOf w s)"

lemma computeTotalBalance_top: "computeTotalBalance s w = topBalance (entriesOf w s)"
proof -
  have "findFirst P es = (case filter P es of [] \<Rightarrow> None | e # _ \<Rightarrow> Some e)"
    for P :: "ledgerEntry \<Rightarrow> bool" and es
    by (induction es) auto
  then show ?thesis
    by (simp add: computeTotalBalance_def entriesOf_def topBalance_def split: list.splits)
qed

lemma chain_calculated:
  "chain es \<Longrightarrow> topBalance es =
     sumBy (\<lambda>e. le_entryType e = CREDIT) le_amount es
     - sumBy (\<lambda>e. le_entryType e = DEBIT) le_amount es"
proof (induction es)
  case Nil
  then show ?case by (simp add: topBalance_def)
next
  case (Cons e es)
  then show ?case
    by (cases "le_entryType e") (simp_all add: topBalance_def)
qed

lemma ledgerChained_calculated: "ledgerChained s \<Longrightarrow> computeTotalBalance s w = calculatedTotal w s"
  by (simp add: ledgerChained_def computeTotalBalance_top chain_calculated calculatedTotal_def)

lemma ledgerChained_cong: "ledgerEntries s = ledgerEntries t \<Longrightarrow> ledgerChained s = ledgerChained t"
  by (simp add: ledgerChained_def entriesOf_def)

lemma ledgerUnique_cong: "ledgerEntries s = ledgerEntries t \<Longrightarrow> ledgerUnique s = ledgerUnique t"
  by (simp add: ledgerUnique_def)

text \<open>Appending an entry that continues the wallet's running total keeps the ledger chained.\<close>

lemma ledgerChained_append:
  assumes "ledgerChained s"
    and "le_balanceBefore e = computeTotalBalance s (le_walletId e)"
    and "le_balanceAfter e = le_balanceBefore e + signedAmount (le_entryType e) (le_amount e)"
    and "ledgerEntries s' = e # ledgerEntries s"
  shows "ledgerChained s'"
  unfolding ledgerChained_def
proof
  fix w
  have "entriesOf w s' = (if le_walletId e = w then e # entriesOf w s else entriesOf w s)"
    using assms(4) by (simp add: entriesOf_def)
  then show "chain (entriesOf w s')"
    using assms by (auto simp: ledgerChained_def computeTotalBalance_top)
qed

lemma writeEntry_chained: "writeEntry i p s = Inr (e, s') \<Longrightarrow> ledgerChained s \<Longrightarrow> ledgerChained s'"
  by (rule ledgerChained_append [of s e])
    (auto simp: writeEntry_Inr_iff writtenState_def writtenEntry_def)

lemma writeEntry_unique: "writeEntry i p s = Inr (e, s') \<Longrightarrow> ledgerUnique s \<Longrightarrow> ledgerUnique s'"
  by (auto simp: writeEntry_Inr_iff writeAllowed_def ledgerUnique_def writtenState_def)

lemma createLedgerEntry_unique: "createLedgerEntry e s = Inr s' \<Longrightarrow> ledgerUnique s \<Longrightarrow> ledgerUnique s'"
  by (auto simp: createLedgerEntry_Inr ledgerUnique_def)

section \<open>Solvency\<close>

text \<open>
  A wallet is solvent when its available balance is not negative.  A write keeps that, unless it
  releases a bucket that was never reserved.
\<close>

definition releaseFound :: "entryParams \<Rightarrow> db \<Rightarrow> bool" where
  "releaseFound p s \<longleftrightarrow> (wp_entryType p = RELEASE \<longrightarrow> bucketExists p s)"

lemma writeEntry_available:
  assumes "writeEntry i p s = Inr (e, s')"
  shows "available s' w = available s w
    + (if w = wp_walletId p
       then signedAmount (wp_entryType p) (wp_amount p) - reserveChange p s else 0)"
  using writeEntry_total [OF assms, of w] writeEntry_reserved [OF assms, of w]
  by (simp add: available_def)

lemma writeEntry_solvent:
  assumes "writeEntry i p s = Inr (e, s')" and "releaseFound p s" and "0 \<le> available s w"
  shows "0 \<le> available s' w"
proof (cases "wp_entryType p")
  case CREDIT
  then show ?thesis
    using assms writeEntry_available [OF assms(1), of w]
    by (auto simp: writeEntry_Inr_iff writeAllowed_def reserveChange_def)
next
  case DEBIT
  then show ?thesis
    using assms writeEntry_available [OF assms(1), of w]
    by (auto simp: writeEntry_Inr_iff writeAllowed_def reserveChange_def)
next
  case RESERVE
  then show ?thesis
    using assms writeEntry_available [OF assms(1), of w]
    by (auto simp: writeEntry_Inr_iff writeAllowed_def reserveChange_def)
next
  case RELEASE
  then show ?thesis
    using assms writeEntry_available [OF assms(1), of w]
    by (auto simp: writeEntry_Inr_iff writeAllowed_def reserveChange_def releaseFound_def)
qed

section \<open>The contract of a ledger\<close>

text \<open>
  What the services rely on when they post to the ledger: a post that succeeds moves the balance of
  its own account by its effect and no other, and one that takes money out is covered by what is
  available.
\<close>

locale ledger_port =
  fixes post :: "'p \<Rightarrow> 's \<Rightarrow> ('r \<times> 's) result"
    and account :: "'p \<Rightarrow> 'w"
    and effect :: "'p \<Rightarrow> int"
    and balance :: "'s \<Rightarrow> 'w \<Rightarrow> int"
  assumes post_balance: "post p s = Inr (r, s') \<Longrightarrow>
    balance s' w = balance s w + (if w = account p then effect p else 0)"
begin

definition funds :: "'w set \<Rightarrow> 's \<Rightarrow> int" where
  "funds W s = (\<Sum>w\<in>W. balance s w)"

lemma post_other: "post p s = Inr (r, s') \<Longrightarrow> w \<noteq> account p \<Longrightarrow> balance s' w = balance s w"
  by (simp add: post_balance)

lemma post_funds:
  assumes "post p s = Inr (r, s')" and "finite W" and "account p \<in> W"
  shows "funds W s' = funds W s + effect p"
proof -
  have "funds W s' = (\<Sum>w\<in>W. balance s w + (if w = account p then effect p else 0))"
    by (simp add: funds_def post_balance [OF assms(1)])
  also have "\<dots> = funds W s + (\<Sum>w\<in>W. if w = account p then effect p else 0)"
    by (simp add: funds_def sum.distrib)
  also have "\<dots> = funds W s + effect p"
    using assms(2,3) by simp
  finally show ?thesis .
qed

lemma post_funds_outside:
  "post p s = Inr (r, s') \<Longrightarrow> account p \<notin> W \<Longrightarrow> funds W s' = funds W s"
  unfolding funds_def by (rule sum.cong [OF refl]) (metis post_other)

text \<open>Two posts with opposite effects are a transfer: no money appears or disappears.\<close>

lemma transfer_funds:
  assumes "post p s = Inr (r, s1)" and "post q s1 = Inr (r', s2)"
    and "effect p + effect q = 0" and "finite W" and "account p \<in> W" and "account q \<in> W"
  shows "funds W s2 = funds W s"
  using post_funds [OF assms(1,4,5)] post_funds [OF assms(2,4,6)] assms(3) by simp

lemma transfer_balance:
  assumes "post p s = Inr (r, s1)" and "post q s1 = Inr (r', s2)"
  shows "balance s2 w = balance s w + (if w = account p then effect p else 0)
    + (if w = account q then effect q else 0)"
  using post_balance [OF assms(1), of w] post_balance [OF assms(2), of w] by simp

end

locale guarded_ledger_port = ledger_port post account effect balance
  for post :: "'p \<Rightarrow> 's \<Rightarrow> ('r \<times> 's) result"
    and account :: "'p \<Rightarrow> 'w"
    and effect :: "'p \<Rightarrow> int"
    and balance :: "'s \<Rightarrow> 'w \<Rightarrow> int" +
  fixes spendable :: "'s \<Rightarrow> 'w \<Rightarrow> int"
  assumes post_covered: "post p s = Inr (r, s') \<Longrightarrow> effect p < 0 \<Longrightarrow> - effect p \<le> spendable s (account p)"
begin

lemma overdraft_refused:
  "effect p < 0 \<Longrightarrow> spendable s (account p) < - effect p \<Longrightarrow> \<exists>e. post p s = Inl e"
  using post_covered by (metis leD result_cases_state)

end

definition postEntry :: "string \<times> entryParams \<Rightarrow> db \<Rightarrow> (ledgerEntry \<times> db) result" where
  "postEntry q s = writeEntry (fst q) (snd q) s"

definition entryEffect :: "entryParams \<Rightarrow> int" where
  "entryEffect p = signedAmount (wp_entryType p) (wp_amount p)"

interpretation ledger: guarded_ledger_port postEntry "\<lambda>q. wp_walletId (snd q)"
  "\<lambda>q. entryEffect (snd q)" computeTotalBalance available
proof unfold_locales
  fix q s r s' w
  assume "postEntry q s = Inr (r, s')"
  then show "computeTotalBalance s' w = computeTotalBalance s w
      + (if w = wp_walletId (snd q) then entryEffect (snd q) else 0)"
    by (simp add: postEntry_def entryEffect_def writeEntry_total)
next
  fix q s r s'
  assume "postEntry q s = Inr (r, s')" and "entryEffect (snd q) < 0"
  then show "- entryEffect (snd q) \<le> available s (wp_walletId (snd q))"
    by (cases "wp_entryType (snd q)")
      (simp_all add: postEntry_def entryEffect_def writeEntry_Inr_iff writeAllowed_def)
qed

text \<open>The money of a set of wallets.\<close>

definition moneyOf :: "string set \<Rightarrow> db \<Rightarrow> int" where
  "moneyOf W s = (\<Sum>w\<in>W. computeTotalBalance s w)"

lemma moneyOf_funds: "ledger.funds W s = moneyOf W s"
  by (simp add: ledger.funds_def moneyOf_def)

lemma moneyOf_cong: "ledgerEntries s = ledgerEntries t \<Longrightarrow> moneyOf W s = moneyOf W t"
  by (simp add: moneyOf_def computeTotalBalance_cong [of s t])

lemma writeEntry_money:
  assumes "writeEntry i p s = Inr (e, s')" and "finite W" and "wp_walletId p \<in> W"
  shows "moneyOf W s' = moneyOf W s + signedAmount (wp_entryType p) (wp_amount p)"
  using ledger.post_funds [of "(i, p)" s e s' W] assms
  by (simp add: postEntry_def moneyOf_funds entryEffect_def)

text \<open>The ledger is a table keyed by its unique constraint, and by its primary key.\<close>

interpretation ledgerByKey: keyed_table ledgerEntries le_key createLedgerEntry
  by unfold_locales (auto simp: createLedgerEntry_Inr)

interpretation ledgerById: keyed_table ledgerEntries le_id createLedgerEntry
  by unfold_locales (auto simp: createLedgerEntry_Inr)

lemma writeEntry_creates:
  "writeEntry i p s = Inr (e, s') \<Longrightarrow>
   le_key e = writeKey p \<and> le_id e = i \<and> e \<in> set (ledgerEntries s')"
  by (auto simp: writeEntry_Inr_iff writtenState_def)

text \<open>A key that is in the ledger is never written again.\<close>

lemma writeEntry_taken_key: "writeKey p \<in> le_key ` set (ledgerEntries s) \<Longrightarrow> \<exists>e. writeEntry i p s = Inl e"
  by (metis result_cases_state writeAllowed_def writeEntry_Inr_iff)

section \<open>Reversals\<close>

text \<open>Reserve and release entries name their bucket, credits and debits the main balance.\<close>

definition entryShaped :: "ledgerEntry \<Rightarrow> bool" where
  "entryShaped e \<longleftrightarrow>
     (isBucketOp (le_entryType e) \<longrightarrow> le_bucketType e \<noteq> None \<and> le_bucketType e \<noteq> Some BT_MAIN)"

lemma writeEntry_shaped: "writeEntry i p s = Inr (e, s') \<Longrightarrow> entryShaped e"
  by (auto simp: writeEntry_Inr_iff writeAllowed_def entryShaped_def writtenEntry_def)

lemma createReversalEntry_Inr:
  assumes "createReversalEntry i eid s = Inr (r, s')"
  obtains original where "findFirst (\<lambda>e. le_id e = eid) (ledgerEntries s) = Some original"
    and "le_id original = eid" and "original \<in> set (ledgerEntries s)"
    and "writeEntry i
       \<lparr>wp_walletId = le_walletId original,
        wp_entryType = (if le_entryType original = CREDIT then DEBIT else CREDIT),
        wp_movementType = le_movementType original, wp_bucketType = le_bucketType original,
        wp_amount = le_amount original, wp_reference = ''REV-'' @ le_reference original,
        wp_sourceType = le_sourceType original, wp_sourceId = le_sourceId original\<rparr> s
     = Inr (r, s')"
proof -
  from assms obtain original
    where o: "findFirst (\<lambda>e. le_id e = eid) (ledgerEntries s) = Some original"
      and w: "writeEntry i
       \<lparr>wp_walletId = le_walletId original,
        wp_entryType = (if le_entryType original = CREDIT then DEBIT else CREDIT),
        wp_movementType = le_movementType original, wp_bucketType = le_bucketType original,
        wp_amount = le_amount original, wp_reference = ''REV-'' @ le_reference original,
        wp_sourceType = le_sourceType original, wp_sourceId = le_sourceId original\<rparr> s
     = Inr (r, s')"
    by (auto simp: createReversalEntry_def result_simps)
  from find_SomeD [OF o] show thesis
    using that o w by auto
qed

lemma createReversalEntry_total:
  assumes "createReversalEntry i eid s = Inr (r, s')"
    and "findFirst (\<lambda>e. le_id e = eid) (ledgerEntries s) = Some original"
    and "entryShaped original"
  shows "\<not> isBucketOp (le_entryType original) \<and>
    computeTotalBalance s' w = computeTotalBalance s w
      - (if w = le_walletId original
         then signedAmount (le_entryType original) (le_amount original) else 0)"
proof -
  from assms(1,2) have w: "writeEntry i
       \<lparr>wp_walletId = le_walletId original,
        wp_entryType = (if le_entryType original = CREDIT then DEBIT else CREDIT),
        wp_movementType = le_movementType original, wp_bucketType = le_bucketType original,
        wp_amount = le_amount original, wp_reference = ''REV-'' @ le_reference original,
        wp_sourceType = le_sourceType original, wp_sourceId = le_sourceId original\<rparr> s
     = Inr (r, s')"
    by (auto elim: createReversalEntry_Inr)
  then have "le_bucketType original = None \<or> le_bucketType original = Some BT_MAIN"
    by (auto simp: writeEntry_Inr_iff writeAllowed_def split: if_splits)
  then have "\<not> isBucketOp (le_entryType original)"
    using assms(3) by (auto simp: entryShaped_def)
  then show ?thesis
    using writeEntry_total [OF w, of w]
    by (cases "le_entryType original") auto
qed

lemma createReversalEntry_once:
  assumes "createReversalEntry i eid s = Inr (r, s')"
  shows "\<exists>e. createReversalEntry j eid s' = Inl e"
proof -
  from assms obtain original
    where o: "findFirst (\<lambda>e. le_id e = eid) (ledgerEntries s) = Some original"
      and oid: "le_id original = eid" "original \<in> set (ledgerEntries s)"
      and w: "writeEntry i
       \<lparr>wp_walletId = le_walletId original,
        wp_entryType = (if le_entryType original = CREDIT then DEBIT else CREDIT),
        wp_movementType = le_movementType original, wp_bucketType = le_bucketType original,
        wp_amount = le_amount original, wp_reference = ''REV-'' @ le_reference original,
        wp_sourceType = le_sourceType original, wp_sourceId = le_sourceId original\<rparr> s
     = Inr (r, s')"
    by (rule createReversalEntry_Inr)
  from w have "i \<noteq> eid" and led: "ledgerEntries s' = r # ledgerEntries s" and "le_id r = i"
    and key: "le_key r = (le_walletId original, ''REV-'' @ le_reference original,
      le_sourceType original, le_sourceId original)"
    using oid by (auto simp: writeEntry_Inr_iff writeAllowed_def writtenState_def writeKey_def)
  then have "findFirst (\<lambda>e. le_id e = eid) (ledgerEntries s') = Some original"
    using o by simp
  then show ?thesis
    using key led writeEntry_taken_key
    by (simp add: createReversalEntry_def writeKey_def)
qed

end
