(* ===== verification/Reconciliation.thy ===== *)
theory Reconciliation
  imports Ledger
begin

text \<open>
  \<^verbatim>\<open>src/modules/reconcilation/reconcilation.service.ts\<close>: the deep audit of one wallet, which
  recomputes its balance and its reservations from the ledger entries and compares them with the
  running total and with the bucket table.  The lemmas say when the audit passes: the ledger half
  always does on a chained ledger, and the bucket half drifts by exactly the releases of buckets
  that did not exist.
\<close>

section \<open>The audit\<close>

text \<open>\<^verbatim>\<open>groupBy\<close> the entry type with the sum of the amounts: one group per type that occurs.\<close>

definition groupByEntryType :: "ledgerEntry list \<Rightarrow> (entryType \<times> int) list" where
  "groupByEntryType es =
     map (\<lambda>t. (t, sumBy (\<lambda>e. le_entryType e = t) le_amount es))
       (filter (\<lambda>t. list_ex (\<lambda>e. le_entryType e = t) es) [CREDIT, DEBIT, RESERVE, RELEASE])"

record integrityReport =
  ir_ledgerValid :: bool
  ir_snapshot :: int
  ir_calculated :: int
  ir_ledgerDrift :: int
  ir_bucketsValid :: bool
  ir_ledgerReserved :: int
  ir_bucketSum :: int
  ir_bucketDrift :: int

fun addCalculated :: "entryType \<times> int \<Rightarrow> int \<Rightarrow> int" where
  "addCalculated (CREDIT, a) acc = acc + a"
| "addCalculated (DEBIT, a) acc = acc - a"
| "addCalculated _ acc = acc"

fun addReserved :: "entryType \<times> int \<Rightarrow> int \<Rightarrow> int" where
  "addReserved (RESERVE, a) acc = acc + a"
| "addReserved (RELEASE, a) acc = acc - a"
| "addReserved _ acc = acc"

definition verifyWalletIntegrity :: "string \<Rightarrow> db \<Rightarrow> integrityReport" where
  "verifyWalletIntegrity wid s =
     (let snapshot = computeTotalBalance s wid;
          aggregates = groupByEntryType (entriesOf wid s);
          calculated = fold addCalculated aggregates 0;
          ledgerDrift = snapshot - calculated;
          ledgerReserved = fold addReserved aggregates 0;
          bucketSum = totalReserved s wid;
          bucketDrift = ledgerReserved - bucketSum
      in \<lparr>ir_ledgerValid = (ledgerDrift = 0), ir_snapshot = snapshot, ir_calculated = calculated,
          ir_ledgerDrift = ledgerDrift, ir_bucketsValid = (bucketDrift = 0),
          ir_ledgerReserved = ledgerReserved, ir_bucketSum = bucketSum,
          ir_bucketDrift = bucketDrift\<rparr>)"

definition auditMultipleWallets :: "string list \<Rightarrow> db \<Rightarrow> (string \<times> integrityReport) list" where
  "auditMultipleWallets ids s = map (\<lambda>i. (i, verifyWalletIntegrity i s)) ids"

section \<open>What the audit computes\<close>

definition reservedByLedger :: "string \<Rightarrow> db \<Rightarrow> int" where
  "reservedByLedger w s =
     sumBy (\<lambda>e. le_entryType e = RESERVE) le_amount (entriesOf w s)
     - sumBy (\<lambda>e. le_entryType e = RELEASE) le_amount (entriesOf w s)"

lemma sumBy_absent:
  "\<not> list_ex (\<lambda>e. le_entryType e = t) es \<Longrightarrow> sumBy (\<lambda>e. le_entryType e = t) g es = 0"
  by (induction es) auto

lemma fold_calculated:
  "fold addCalculated (groupByEntryType es) 0 =
     sumBy (\<lambda>e. le_entryType e = CREDIT) le_amount es
     - sumBy (\<lambda>e. le_entryType e = DEBIT) le_amount es"
  using sumBy_absent [of CREDIT es le_amount] sumBy_absent [of DEBIT es le_amount]
  by (auto simp: groupByEntryType_def)

lemma fold_reserved:
  "fold addReserved (groupByEntryType es) 0 =
     sumBy (\<lambda>e. le_entryType e = RESERVE) le_amount es
     - sumBy (\<lambda>e. le_entryType e = RELEASE) le_amount es"
  using sumBy_absent [of RESERVE es le_amount] sumBy_absent [of RELEASE es le_amount]
  by (auto simp: groupByEntryType_def)

lemma verifyWalletIntegrity_fields:
  "ir_ledgerValid (verifyWalletIntegrity w s) \<longleftrightarrow> computeTotalBalance s w = calculatedTotal w s"
  "ir_bucketDrift (verifyWalletIntegrity w s) = reservedByLedger w s - totalReserved s w"
  "ir_bucketsValid (verifyWalletIntegrity w s) \<longleftrightarrow> reservedByLedger w s = totalReserved s w"
  by (simp_all add: verifyWalletIntegrity_def Let_def fold_calculated fold_reserved
      calculatedTotal_def reservedByLedger_def)

definition ledgerAuditPasses :: "db \<Rightarrow> bool" where
  "ledgerAuditPasses s \<longleftrightarrow> (\<forall>w. ir_ledgerValid (verifyWalletIntegrity w s))"

definition bucketAuditPasses :: "db \<Rightarrow> bool" where
  "bucketAuditPasses s \<longleftrightarrow> (\<forall>w. ir_bucketsValid (verifyWalletIntegrity w s))"

lemma ledgerChained_audit: "ledgerChained s \<Longrightarrow> ledgerAuditPasses s"
  by (simp add: ledgerAuditPasses_def verifyWalletIntegrity_fields ledgerChained_calculated)

lemma bucketAuditPasses_eq: "bucketAuditPasses s \<longleftrightarrow> (\<forall>w. reservedByLedger w s = totalReserved s w)"
  by (simp add: bucketAuditPasses_def verifyWalletIntegrity_fields)

lemma bucketAuditPasses_cong:
  "ledgerEntries s = ledgerEntries t \<Longrightarrow> walletBuckets s = walletBuckets t \<Longrightarrow>
   bucketAuditPasses s = bucketAuditPasses t"
  by (simp add: bucketAuditPasses_eq reservedByLedger_def entriesOf_def totalReserved_cong [of s t])

section \<open>The audit across writes\<close>

definition ledgerReserve :: "entryType \<Rightarrow> int \<Rightarrow> int" where
  "ledgerReserve t a = (case t of RESERVE \<Rightarrow> a | RELEASE \<Rightarrow> - a | _ \<Rightarrow> 0)"

lemma reservedByLedger_append:
  "ledgerEntries s' = e # ledgerEntries s \<Longrightarrow>
   reservedByLedger w s' = reservedByLedger w s
     + (if le_walletId e = w then ledgerReserve (le_entryType e) (le_amount e) else 0)"
  by (cases "le_entryType e") (simp_all add: reservedByLedger_def entriesOf_def ledgerReserve_def)

text \<open>
  The drift of a wallet's buckets grows only by a release whose bucket does not exist, and then by
  twice the amount.
\<close>

lemma writeEntry_drift:
  assumes "writeEntry i p s = Inr (e, s')"
  shows "ir_bucketDrift (verifyWalletIntegrity w s') =
    ir_bucketDrift (verifyWalletIntegrity w s)
    - (if w = wp_walletId p \<and> \<not> releaseFound p s then 2 * wp_amount p else 0)"
proof -
  have e: "ledgerEntries s' = e # ledgerEntries s" "le_walletId e = wp_walletId p"
    "le_entryType e = wp_entryType p" "le_amount e = wp_amount p"
    using assms by (auto simp: writeEntry_Inr_iff writtenState_def writtenEntry_def)
  have "ledgerReserve (wp_entryType p) (wp_amount p) - reserveChange p s
      = - (if \<not> releaseFound p s then 2 * wp_amount p else 0)"
    by (cases "wp_entryType p") (auto simp: ledgerReserve_def reserveChange_def releaseFound_def)
  then show ?thesis
    using reservedByLedger_append [OF e(1), of w] writeEntry_reserved [OF assms, of w]
    by (auto simp: verifyWalletIntegrity_fields e)
qed

lemma writeEntry_bucketAudit:
  assumes "writeEntry i p s = Inr (e, s')" and "releaseFound p s" and "bucketAuditPasses s"
  shows "bucketAuditPasses s'"
proof -
  have "ir_bucketDrift (verifyWalletIntegrity w s') = ir_bucketDrift (verifyWalletIntegrity w s)" for w
    using writeEntry_drift [OF assms(1), of w] assms(2) by simp
  with assms(3) show ?thesis
    by (simp add: bucketAuditPasses_eq verifyWalletIntegrity_fields)
qed

text \<open>An appended credit or debit leaves the reservations alone.\<close>

lemma bucketAudit_append:
  assumes "ledgerEntries s' = e # ledgerEntries s" and "walletBuckets s' = walletBuckets s"
    and "\<not> isBucketOp (le_entryType e)" and "bucketAuditPasses s"
  shows "bucketAuditPasses s'"
  using assms reservedByLedger_append [OF assms(1)]
  by (cases "le_entryType e")
    (auto simp: bucketAuditPasses_eq ledgerReserve_def totalReserved_cong [of s' s])

end
