(* ===== verification/Posting.thy ===== *)
theory Posting
  imports Reconciliation
begin

text \<open>
  The abstract view of what an operation does to money.  A posting is a line of a statement: wallet,
  entry type, amount, and the change of the wallet's reserved total.  \<open>posts s ps s'\<close> says that an
  operation takes the database from \<open>s\<close> to \<open>s'\<close> by the postings \<open>ps\<close>, one ledger entry each, and
  otherwise touches neither the ledger nor the buckets.  Every service operation of the later
  theories refines such a statement; balances, the conservation of money, the running total, the
  uniqueness of keys, the audits and solvency follow here once for all of them.
\<close>

record posting =
  pg_wallet :: string
  pg_type :: entryType
  pg_amount :: int
  pg_reserved :: int

definition postingOf :: "entryParams \<Rightarrow> db \<Rightarrow> posting" where
  "postingOf p s = \<lparr>pg_wallet = wp_walletId p, pg_type = wp_entryType p, pg_amount = wp_amount p,
     pg_reserved = reserveChange p s\<rparr>"

abbreviation creditOf :: "string \<Rightarrow> int \<Rightarrow> posting" where
  "creditOf w a \<equiv> \<lparr>pg_wallet = w, pg_type = CREDIT, pg_amount = a, pg_reserved = 0\<rparr>"

abbreviation debitOf :: "string \<Rightarrow> int \<Rightarrow> posting" where
  "debitOf w a \<equiv> \<lparr>pg_wallet = w, pg_type = DEBIT, pg_amount = a, pg_reserved = 0\<rparr>"

abbreviation reserveOf :: "string \<Rightarrow> int \<Rightarrow> posting" where
  "reserveOf w a \<equiv> \<lparr>pg_wallet = w, pg_type = RESERVE, pg_amount = a, pg_reserved = a\<rparr>"

abbreviation releaseOf :: "string \<Rightarrow> int \<Rightarrow> int \<Rightarrow> posting" where
  "releaseOf w a d \<equiv> \<lparr>pg_wallet = w, pg_type = RELEASE, pg_amount = a, pg_reserved = d\<rparr>"

definition sameLedger :: "db \<Rightarrow> db \<Rightarrow> bool" where
  "sameLedger s t \<longleftrightarrow> ledgerEntries s = ledgerEntries t \<and> walletBuckets s = walletBuckets t"

text \<open>
  Some services append a credit or a debit to the ledger themselves instead of calling
  \<open>writeEntry\<close>; such an entry continues the running total all the same, and a debit is covered by
  what is available.
\<close>

definition directEntry :: "ledgerEntry \<Rightarrow> db \<Rightarrow> db \<Rightarrow> bool" where
  "directEntry e s s' \<longleftrightarrow>
     ledgerEntries s' = e # ledgerEntries s \<and> walletBuckets s' = walletBuckets s \<and>
     \<not> isBucketOp (le_entryType e) \<and> 0 \<le> le_amount e \<and>
     (le_entryType e = DEBIT \<longrightarrow> le_amount e \<le> available s (le_walletId e)) \<and>
     le_balanceBefore e = computeTotalBalance s (le_walletId e) \<and>
     le_balanceAfter e = le_balanceBefore e + signedAmount (le_entryType e) (le_amount e) \<and>
     le_id e \<notin> le_id ` set (ledgerEntries s) \<and> le_key e \<notin> le_key ` set (ledgerEntries s)"

abbreviation entryPosting :: "ledgerEntry \<Rightarrow> posting" where
  "entryPosting e \<equiv> \<lparr>pg_wallet = le_walletId e, pg_type = le_entryType e,
     pg_amount = le_amount e, pg_reserved = 0\<rparr>"

inductive posts :: "db \<Rightarrow> posting list \<Rightarrow> db \<Rightarrow> bool" where
  finished: "posts s [] s"
| silent: "sameLedger s s1 \<Longrightarrow> posts s1 ps s' \<Longrightarrow> posts s ps s'"
| written: "writeEntry i p s = Inr (e, s1) \<Longrightarrow> posts s1 ps s' \<Longrightarrow> posts s (postingOf p s # ps) s'"
| direct: "directEntry e s s1 \<Longrightarrow> posts s1 ps s' \<Longrightarrow> posts s (entryPosting e # ps) s'"

inductive_cases posts_ConsE: "posts s (p # ps) s'"

section \<open>Composition\<close>

lemma sameLedger_refl [simp]: "sameLedger s s"
  by (simp add: sameLedger_def)

lemma sameLedgerI [intro]:
  "ledgerEntries t = ledgerEntries s \<Longrightarrow> walletBuckets t = walletBuckets s \<Longrightarrow> sameLedger s t"
  by (simp add: sameLedger_def)

lemma sameLedger_trans: "sameLedger s t \<Longrightarrow> sameLedger t u \<Longrightarrow> sameLedger s u"
  by (simp add: sameLedger_def)

lemma posts_trans: "posts s ps s1 \<Longrightarrow> posts s1 qs s2 \<Longrightarrow> posts s (ps @ qs) s2"
  by (induction rule: posts.induct) (auto intro: posts.intros)

lemma posts_silent: "sameLedger s s' \<Longrightarrow> posts s [] s'"
  by (auto intro: posts.intros)

lemma posts_then_silent: "posts s ps s1 \<Longrightarrow> sameLedger s1 s2 \<Longrightarrow> posts s ps s2"
  using posts_trans [OF _ posts_silent] by fastforce

lemma posts_one: "writeEntry i p s = Inr (e, s1) \<Longrightarrow> posts s [postingOf p s] s1"
  by (auto intro: posts.intros)

lemma posts_snoc:
  "posts s ps s1 \<Longrightarrow> writeEntry i p s1 = Inr (e, s2) \<Longrightarrow> posts s (ps @ [postingOf p s1]) s2"
  using posts_trans posts_one by blast

lemma postingOf_credit [simp]:
  "wp_entryType p = CREDIT \<Longrightarrow> postingOf p s = creditOf (wp_walletId p) (wp_amount p)"
  by (simp add: postingOf_def reserveChange_def)

lemma postingOf_debit [simp]:
  "wp_entryType p = DEBIT \<Longrightarrow> postingOf p s = debitOf (wp_walletId p) (wp_amount p)"
  by (simp add: postingOf_def reserveChange_def)

lemma postingOf_reserve [simp]:
  "wp_entryType p = RESERVE \<Longrightarrow> postingOf p s = reserveOf (wp_walletId p) (wp_amount p)"
  by (simp add: postingOf_def reserveChange_def)

lemma postingOf_release:
  "wp_entryType p = RELEASE \<Longrightarrow> postingOf p s =
     releaseOf (wp_walletId p) (wp_amount p) (if bucketExists p s then - wp_amount p else wp_amount p)"
  by (simp add: postingOf_def reserveChange_def)

section \<open>What a statement says about balances\<close>

definition effectOf :: "posting \<Rightarrow> int" where
  "effectOf p = signedAmount (pg_type p) (pg_amount p)"

definition effectOn :: "string \<Rightarrow> posting list \<Rightarrow> int" where
  "effectOn w ps = sumBy (\<lambda>p. pg_wallet p = w) effectOf ps"

definition reservedOn :: "string \<Rightarrow> posting list \<Rightarrow> int" where
  "reservedOn w ps = sumBy (\<lambda>p. pg_wallet p = w) pg_reserved ps"

lemma effectOn_simps [simp]:
  "effectOn w [] = 0"
  "effectOn w (p # ps) = (if pg_wallet p = w then effectOf p else 0) + effectOn w ps"
  "effectOn w (ps @ qs) = effectOn w ps + effectOn w qs"
  by (simp_all add: effectOn_def)

lemma reservedOn_simps [simp]:
  "reservedOn w [] = 0"
  "reservedOn w (p # ps) = (if pg_wallet p = w then pg_reserved p else 0) + reservedOn w ps"
  "reservedOn w (ps @ qs) = reservedOn w ps + reservedOn w qs"
  by (simp_all add: reservedOn_def)

lemma effectOf_simps [simp]:
  "effectOf (creditOf w a) = a" "effectOf (debitOf w a) = - a" "effectOf (reserveOf w a) = 0"
  "effectOf (releaseOf w a d) = 0"
  by (simp_all add: effectOf_def)

lemma directEntry_total:
  "directEntry e s s' \<Longrightarrow>
   computeTotalBalance s' w = computeTotalBalance s w
     + (if le_walletId e = w then signedAmount (le_entryType e) (le_amount e) else 0)"
  by (auto simp: directEntry_def computeTotalBalance_def)

lemma posts_total: "posts s ps s' \<Longrightarrow> computeTotalBalance s' w = computeTotalBalance s w + effectOn w ps"
proof (induction rule: posts.induct)
  case (silent s s1 ps s')
  then show ?case by (simp add: sameLedger_def computeTotalBalance_cong [of s s1])
next
  case (written i p s e s1 ps s')
  then show ?case
    using writeEntry_total [OF written.hyps(1), of w] by (auto simp: postingOf_def effectOf_def)
next
  case (direct e s s1 ps s')
  then show ?case using directEntry_total [OF direct.hyps(1), of w] by (auto simp: effectOf_def)
qed simp

lemma posts_reserved: "posts s ps s' \<Longrightarrow> totalReserved s' w = totalReserved s w + reservedOn w ps"
proof (induction rule: posts.induct)
  case (silent s s1 ps s')
  then show ?case by (simp add: sameLedger_def totalReserved_cong [of s s1])
next
  case (written i p s e s1 ps s')
  then show ?case
    using writeEntry_reserved [OF written.hyps(1), of w] by (auto simp: postingOf_def)
next
  case (direct e s s1 ps s')
  then show ?case by (simp add: directEntry_def totalReserved_cong [of s1 s])
qed simp

lemma posts_available:
  "posts s ps s' \<Longrightarrow> available s' w = available s w + effectOn w ps - reservedOn w ps"
  by (simp add: available_def posts_total posts_reserved)

lemma posts_money:
  assumes "posts s ps s'" and "finite W" and "\<forall>p \<in> set ps. pg_wallet p \<in> W"
  shows "moneyOf W s' = moneyOf W s + sum_list (map effectOf ps)"
proof -
  have eff: "(\<Sum>w\<in>W. effectOn w ps) = sum_list (map effectOf ps)"
    if "\<forall>p \<in> set ps. pg_wallet p \<in> W" for ps
    using that assms(2) by (induction ps) (simp_all add: sum.distrib)
  have "moneyOf W s' = (\<Sum>w\<in>W. computeTotalBalance s w + effectOn w ps)"
    by (simp add: moneyOf_def posts_total [OF assms(1)])
  then show ?thesis
    using eff [OF assms(3)] by (simp add: moneyOf_def sum.distrib)
qed

section \<open>Invariants of the ledger\<close>

lemma posts_chained: "posts s ps s' \<Longrightarrow> ledgerChained s \<Longrightarrow> ledgerChained s'"
proof (induction rule: posts.induct)
  case (silent s s1 ps s')
  then show ?case by (simp add: sameLedger_def ledgerChained_cong [of s s1])
next
  case (written i p s e s1 ps s')
  then show ?case using writeEntry_chained by blast
next
  case (direct e s s1 ps s')
  then show ?case
    using ledgerChained_append [of s e s1] by (auto simp: directEntry_def)
qed simp

lemma posts_unique: "posts s ps s' \<Longrightarrow> ledgerUnique s \<Longrightarrow> ledgerUnique s'"
proof (induction rule: posts.induct)
  case (silent s s1 ps s')
  then show ?case by (simp add: sameLedger_def ledgerUnique_cong [of s s1])
next
  case (written i p s e s1 ps s')
  then show ?case using writeEntry_unique by blast
next
  case (direct e s s1 ps s')
  then show ?case by (auto simp: directEntry_def ledgerUnique_def)
qed simp

text \<open>The ledger is append-only: no entry is ever changed or removed.\<close>

lemma posts_appends: "posts s ps s' \<Longrightarrow> \<exists>es. ledgerEntries s' = es @ ledgerEntries s \<and> length es = length ps"
proof (induction rule: posts.induct)
  case (silent s s1 ps s')
  then show ?case by (simp add: sameLedger_def)
next
  case (written i p s e s1 ps s')
  then obtain es where "ledgerEntries s' = (es @ [e]) @ ledgerEntries s" "length es = length ps"
    by (auto simp: writeEntry_frame)
  then show ?case by (metis length_append_singleton length_Cons)
next
  case (direct e s s1 ps s')
  then obtain es where "ledgerEntries s' = (es @ [e]) @ ledgerEntries s" "length es = length ps"
    by (auto simp: directEntry_def)
  then show ?case by (metis length_append_singleton length_Cons)
qed simp

lemma posts_keys_kept: "posts s ps s' \<Longrightarrow> e \<in> set (ledgerEntries s) \<Longrightarrow> e \<in> set (ledgerEntries s')"
  using posts_appends by fastforce

text \<open>A posting is honest when the reserved total moves as the entry says.\<close>

definition honest :: "posting \<Rightarrow> bool" where
  "honest p \<longleftrightarrow> pg_reserved p = ledgerReserve (pg_type p) (pg_amount p)"

lemma honest_simps [simp]:
  "honest (creditOf w a)" "honest (debitOf w a)" "honest (reserveOf w a)"
  "honest (releaseOf w a (- a))"
  by (simp_all add: honest_def ledgerReserve_def)

lemma honest_release_iff [simp]: "honest (releaseOf w a d) \<longleftrightarrow> d = - a"
  by (simp add: honest_def ledgerReserve_def)

lemma honest_postingOf:
  "writeEntry i p s = Inr (e, s') \<Longrightarrow> honest (postingOf p s) \<longleftrightarrow> releaseFound p s"
  by (cases "wp_entryType p")
    (auto simp: honest_def postingOf_def ledgerReserve_def reserveChange_def releaseFound_def
      writeEntry_Inr_iff writeAllowed_def)

lemma posts_bucketAudit:
  "posts s ps s' \<Longrightarrow> list_all honest ps \<Longrightarrow> bucketAuditPasses s \<Longrightarrow> bucketAuditPasses s'"
proof (induction rule: posts.induct)
  case (silent s s1 ps s')
  then show ?case by (simp add: sameLedger_def bucketAuditPasses_cong [of s s1])
next
  case (written i p s e s1 ps s')
  then show ?case
    using honest_postingOf [OF written.hyps(1)] writeEntry_bucketAudit [OF written.hyps(1)] by auto
next
  case (direct e s s1 ps s')
  then show ?case
    using bucketAudit_append [of s1 e s] by (auto simp: directEntry_def)
qed simp

lemma posts_solvent:
  "posts s ps s' \<Longrightarrow> list_all honest ps \<Longrightarrow> 0 \<le> available s w \<Longrightarrow> 0 \<le> available s' w"
proof (induction rule: posts.induct)
  case (silent s s1 ps s')
  then show ?case by (simp add: sameLedger_def available_cong [of s s1])
next
  case (written i p s e s1 ps s')
  then show ?case
    using honest_postingOf [OF written.hyps(1)] writeEntry_solvent [OF written.hyps(1)] by auto
next
  case (direct e s s1 ps s')
  have "available s1 w = available s w
      + (if le_walletId e = w then signedAmount (le_entryType e) (le_amount e) else 0)"
    using directEntry_total [OF direct.hyps(1), of w] direct.hyps(1)
    by (simp add: available_def directEntry_def totalReserved_cong [of s1 s])
  then have "0 \<le> available s1 w"
    using direct.prems direct.hyps(1)
    by (cases "le_entryType e") (auto simp: directEntry_def)
  then show ?case using direct by simp
qed simp

section \<open>Operations that change nothing but the ledger and the buckets\<close>

definition ledgerOnly :: "db \<Rightarrow> db \<Rightarrow> bool" where
  "ledgerOnly s s' \<longleftrightarrow>
     s' = s\<lparr>ledgerEntries := ledgerEntries s', walletBuckets := walletBuckets s'\<rparr>"

lemma ledgerOnly_refl [simp]: "ledgerOnly s s"
  by (simp add: ledgerOnly_def)

lemma ledgerOnly_iff: "ledgerOnly s s' \<longleftrightarrow> (\<exists>es bs. s' = s\<lparr>ledgerEntries := es, walletBuckets := bs\<rparr>)"
  by (auto simp: ledgerOnly_def)

lemma ledgerOnly_trans: "ledgerOnly s t \<Longrightarrow> ledgerOnly t u \<Longrightarrow> ledgerOnly s u"
  unfolding ledgerOnly_iff by fastforce

lemma writeEntry_ledgerOnly: "writeEntry i p s = Inr (e, s') \<Longrightarrow> ledgerOnly s s'"
  by (auto simp: writeEntry_Inr_iff writtenState_def ledgerOnly_def)

lemma ledgerOnly_frame:
  assumes "ledgerOnly s s'"
  shows "wallets s' = wallets s" "users s' = users s" "transactions s' = transactions s"
    "systemWallets s' = systemWallets s" "circles s' = circles s" "memberships s' = memberships s"
    "schedules s' = schedules s" "contributions s' = contributions s" "payouts s' = payouts s"
    "allTrustStats s' = allTrustStats s" "loans s' = loans s" "auditLogs s' = auditLogs s"
    "webhookEvents s' = webhookEvents s" "invites s' = invites s" "kycs s' = kycs s"
    "virtualAccounts s' = virtualAccounts s" "creditScores s' = creditScores s"
    "peerReviews s' = peerReviews s" "walletEvents s' = walletEvents s"
  using assms by (auto simp: ledgerOnly_iff)

lemma ledgerOnly_lookups:
  assumes "ledgerOnly s s'"
  shows "walletOfUser u s' = walletOfUser u s" "walletById i s' = walletById i s"
    "userById u s' = userById u s" "circleById c s' = circleById c s"
    "membershipOf c u s' = membershipOf c u s" "systemWalletOf t s' = systemWalletOf t s"
    "currentSchedule c n s' = currentSchedule c n s"
  using ledgerOnly_frame [OF assms]
  by (simp_all add: walletOfUser_def walletById_def userById_def circleById_def membershipOf_def
      systemWalletOf_def currentSchedule_def)

lemma posts_two:
  "writeEntry i p s = Inr (e, s1) \<Longrightarrow> writeEntry j q s1 = Inr (f, s2) \<Longrightarrow>
   posts s [postingOf p s, postingOf q s1] s2 \<and> ledgerOnly s s2"
  by (auto intro: posts.intros ledgerOnly_trans dest: writeEntry_ledgerOnly)

end
