(* ===== verification/Loans.thy ===== *)
theory Loans
  imports Credit Posting
begin

text \<open>
  \<^verbatim>\<open>src/modules/loans/loans.service.ts\<close>: loans against the expected payout of a circle.  A loan is
  disbursed by crediting the borrower's wallet, and repaid by taking it, with the company's fee,
  out of the borrower's payout.
\<close>

section \<open>The service\<close>

definition COMPANY_FEE_PERCENT :: int where "COMPANY_FEE_PERCENT = 10"

definition activeLoanOf :: "string \<Rightarrow> db \<Rightarrow> loan option" where
  "activeLoanOf uid s = findFirst (\<lambda>l. ln_userId l = uid \<and> ln_status l = LS_ACTIVE) (loans s)"

definition loanEligibilityOf ::
  "bureau \<Rightarrow> string \<Rightarrow> string \<Rightarrow> db \<Rightarrow> (loanEligibility \<times> db) result" where
  "loanEligibilityOf bureau uid cid s =
     (case activeLoanOf uid s of
        Some _ \<Rightarrow> Inr (ineligible 0 0 ''You already have an active loan'', s)
      | None \<Rightarrow> creditEligibility bureau uid cid s)"

definition insertLoan :: "loan \<Rightarrow> db \<Rightarrow> db result" where
  "insertLoan l s =
     (if list_ex (\<lambda>x. ln_id x = ln_id l) (loans s) then Inl (PrismaError ''P2002'')
      else Inr (s\<lparr>loans := loans s @ [l]\<rparr>))"

definition disbursement :: "string \<Rightarrow> loan \<Rightarrow> entryParams" where
  "disbursement wid l =
     \<lparr>wp_walletId = wid, wp_entryType = CREDIT, wp_movementType = TRANSFER, wp_bucketType = None,
      wp_amount = ln_loanAmount l, wp_reference = ''LOAN-DISBURSE-'' @ ln_id l,
      wp_sourceType = ST_LOAN, wp_sourceId = ln_id l\<rparr>"

text \<open>Steps 3 to 8 of \<^verbatim>\<open>applyLoan\<close>: everything after the eligibility check.\<close>

definition issueLoan :: "env \<Rightarrow> string \<Rightarrow> string \<Rightarrow> loanEligibility \<Rightarrow> db \<Rightarrow> (loan \<times> db) result" where
  "issueLoan env uid cid el s =
     bindE (ensure (\<not> list_ex (\<lambda>l. ln_userId l = uid \<and> ln_circleId l = cid \<and>
                                 (ln_status l = LS_ACTIVE \<or> ln_status l = LS_REPAID)) (loans s))
              (Conflict ''A loan has already been taken against this circle'')) (\<lambda>_.
     bindE (orThrow (NotFound ''Wallet not found'') (walletOfUser uid s)) (\<lambda>w.
     let payoutAmount = el_expectedPayoutKobo el;
         loanAmount = el_maxLoanAmountKobo el;
         companyFee = bigint_div (payoutAmount * COMPANY_FEE_PERCENT) 100;
         finalPayout = payoutAmount - loanAmount - companyFee
     in
     bindE (ensure (\<not> finalPayout \<le> 0)
              (BadRequest ''Loan amount + fee would exceed expected payout - loan not available'')) (\<lambda>_.
     let l = \<lparr>ln_id = rnd env 0, ln_userId = uid, ln_circleId = cid, ln_payoutAmount = payoutAmount,
              ln_loanAmount = loanAmount, ln_companyFee = companyFee, ln_finalPayout = finalPayout,
              ln_creditScoreUsed = el_finalCreditScore el, ln_allowedPercent = el_allowedPercent el,
              ln_status = LS_ACTIVE, ln_repaidAt = None\<rparr>
     in
     bindE (insertLoan l s) (\<lambda>s1.
     bindE (writeEntry (rnd env 1) (disbursement (w_id w) l) s1) (\<lambda>(_, s2). Inr (l, s2))))))"

text \<open>
  The eligibility check writes the cached credit score through the service's own client, outside
  the transaction: the cache survives a rollback.
\<close>

definition applyLoan ::
  "env \<Rightarrow> bureau \<Rightarrow> string \<Rightarrow> string \<Rightarrow> db \<Rightarrow> loan result \<times> db" where
  "applyLoan env bureau uid cid s =
     (case activeLoanOf uid s of
        Some _ \<Rightarrow> (Inl (Conflict ''You already have an active loan''), s)
      | None \<Rightarrow>
        (case creditEligibility bureau uid cid s of
           Inl e \<Rightarrow> (Inl e, s)
         | Inr (el, s1) \<Rightarrow>
             if \<not> el_eligible el
             then (Inl (BadRequest (case el_ineligibilityReason el of
                                      Some r \<Rightarrow> r | None \<Rightarrow> ''Not eligible for a loan'')), s1)
             else transaction (issueLoan env uid cid el) s1))"

definition getLoanHistory :: "string \<Rightarrow> db \<Rightarrow> loan list" where
  "getLoanHistory uid s = rev (filter (\<lambda>l. ln_userId l = uid) (loans s))"

text \<open>Called by the payout service inside its transaction: the net payout, and whether a loan was repaid.\<close>

definition processLoanRepaymentInTx ::
  "env \<Rightarrow> string \<Rightarrow> string \<Rightarrow> int \<Rightarrow> db \<Rightarrow> (int \<times> bool) \<times> db" where
  "processLoanRepaymentInTx env uid cid totalPot s =
     (case findFirst (\<lambda>l. ln_userId l = uid \<and> ln_circleId l = cid \<and> ln_status l = LS_ACTIVE) (loans s) of
        None \<Rightarrow> ((totalPot, False), s)
      | Some l \<Rightarrow>
          (let totalDeduction = ln_loanAmount l + ln_companyFee l in
           if totalPot \<le> totalDeduction then ((totalPot, False), s)
           else ((totalPot - totalDeduction, True),
                 s\<lparr>loans := updateRow (\<lambda>x. ln_id x = ln_id l)
                     (\<lambda>x. x\<lparr>ln_status := LS_REPAID, ln_repaidAt := Some (now env)\<rparr>) (loans s)\<rparr>)))"

section \<open>Issuing a loan\<close>

lemma insertLoan_Inr:
  "insertLoan l s = Inr s' \<longleftrightarrow> ln_id l \<notin> ln_id ` set (loans s) \<and> s' = s\<lparr>loans := loans s @ [l]\<rparr>"
  by (auto simp: insertLoan_def list_ex_iff image_iff) metis

interpretation loanById: keyed_table loans ln_id insertLoan
  by unfold_locales (auto simp: insertLoan_Inr)

lemma issueLoan_Inr:
  assumes "issueLoan env uid cid el s = Inr (l, s')"
  obtains w s1 e where "walletOfUser uid s = Some w" and "insertLoan l s = Inr s1"
    and "writeEntry (rnd env 1) (disbursement (w_id w) l) s1 = Inr (e, s')"
    and "ln_userId l = uid" and "ln_circleId l = cid" and "ln_status l = LS_ACTIVE"
    and "ln_payoutAmount l = el_expectedPayoutKobo el" and "ln_loanAmount l = el_maxLoanAmountKobo el"
    and "ln_companyFee l = bigint_div (el_expectedPayoutKobo el * 10) 100"
    and "ln_finalPayout l = ln_payoutAmount l - ln_loanAmount l - ln_companyFee l"
    and "0 < ln_finalPayout l"
    and "\<And>k. k \<in> set (loans s) \<Longrightarrow> ln_userId k = uid \<Longrightarrow> ln_circleId k = cid \<Longrightarrow>
      ln_status k \<noteq> LS_ACTIVE \<and> ln_status k \<noteq> LS_REPAID"
    and "ln_creditScoreUsed l = el_finalCreditScore el"
    and "ln_allowedPercent l = el_allowedPercent el"
  using assms
  by (auto simp: issueLoan_def Let_def result_simps COMPANY_FEE_PERCENT_def list_ex_iff intro!: that)

lemma disbursement_simps [simp]:
  "wp_walletId (disbursement wid l) = wid" "wp_entryType (disbursement wid l) = CREDIT"
  "wp_amount (disbursement wid l) = ln_loanAmount l"
  by (simp_all add: disbursement_def)

text \<open>Issuing a loan credits the borrower and debits nobody.\<close>

lemma issueLoan_posts:
  assumes "issueLoan env uid cid el s = Inr (l, s')"
  obtains w where "walletOfUser uid s = Some w" and "posts s [creditOf (w_id w) (ln_loanAmount l)] s'"
    and "0 < ln_loanAmount l" and "loans s' = loans s @ [l]"
proof -
  from assms obtain w s1 e where w: "walletOfUser uid s = Some w" and i: "insertLoan l s = Inr s1"
    and e: "writeEntry (rnd env 1) (disbursement (w_id w) l) s1 = Inr (e, s')"
    by (rule issueLoan_Inr)
  have "posts s [] s1"
    using i by (auto simp: insertLoan_Inr intro!: posts_silent sameLedgerI)
  with e have "posts s [creditOf (w_id w) (ln_loanAmount l)] s'"
    using posts_snoc by fastforce
  moreover have "0 < ln_loanAmount l"
    using e by (simp add: writeEntry_Inr_iff writeAllowed_def)
  moreover have "loans s' = loans s @ [l]"
    using writeEntry_frame(11) [OF e] i by (simp add: insertLoan_Inr)
  ultimately show thesis using that w by blast
qed

lemma applyLoan_Inr:
  assumes "applyLoan env bureau uid cid s = (Inr l, s')"
  obtains c cs el where "activeLoanOf uid s = None" and "circleById cid s = Some c"
    and "c_status c = CS_ACTIVE" and "activeMember cid uid s" and "el_eligible el"
    and "el = tierEligibility c (fcs_finalScore (fst (getFinalCreditScore bureau uid s)))"
    and "issueLoan env uid cid el (s\<lparr>creditScores := cs\<rparr>) = Inr (l, s')"
proof -
  have none: "activeLoanOf uid s = None"
    using assms by (auto simp: applyLoan_def split: option.splits)
  then obtain el s1 where e: "creditEligibility bureau uid cid s = Inr (el, s1)" and el: "el_eligible el"
    and i: "issueLoan env uid cid el s1 = Inr (l, s')"
    using assms by (auto simp: applyLoan_def transaction_Inr split: sum.splits if_splits)
  from creditEligibility_state [OF e] obtain cs where s1: "s1 = s\<lparr>creditScores := cs\<rparr>" by blast
  from e el obtain c where "circleById cid s = Some c" "c_status c = CS_ACTIVE" "activeMember cid uid s"
    "el = tierEligibility c (fcs_finalScore (fst (getFinalCreditScore bureau uid s)))"
    by (rule creditEligibility_eligible)
  then show thesis using that none el i s1 by blast
qed

text \<open>
  The terms of an approved loan: at most half of the expected payout, a tenth of it as the fee, and
  a positive payout left after both.
\<close>

lemma percent_floor_bound:
  fixes a p :: int
  assumes "0 \<le> a" "0 \<le> p" "p \<le> q"
  shows "100 * ((a * p) div 100) \<le> a * q"
proof -
  have "100 * ((a * p) div 100) \<le> a * p"
    using pos_mod_sign [of 100 "a * p"] mult_div_mod_eq [of 100 "a * p"] by linarith
  also have "\<dots> \<le> a * q"
    using assms by (simp add: mult_left_mono)
  finally show ?thesis .
qed

lemma applyLoan_terms:
  assumes "applyLoan env bureau uid cid s = (Inr l, s')"
  shows "550 \<le> ln_creditScoreUsed l" and "0 < ln_loanAmount l"
    and "2 * ln_loanAmount l \<le> ln_payoutAmount l" and "0 \<le> ln_companyFee l"
    and "10 * ln_companyFee l \<le> ln_payoutAmount l"
    and "ln_loanAmount l + ln_companyFee l < ln_payoutAmount l"
proof -
  from assms obtain c cs el where el: "el_eligible el"
    and t: "el = tierEligibility c (fcs_finalScore (fst (getFinalCreditScore bureau uid s)))"
    and i: "issueLoan env uid cid el (s\<lparr>creditScores := cs\<rparr>) = Inr (l, s')"
    by (rule applyLoan_Inr)
  note tier = tierEligibility_eligible [OF el [unfolded t], folded t]
  from i obtain w s1 e where
    f: "ln_payoutAmount l = el_expectedPayoutKobo el" "ln_loanAmount l = el_maxLoanAmountKobo el"
      "ln_companyFee l = bigint_div (el_expectedPayoutKobo el * 10) 100"
      "ln_finalPayout l = ln_payoutAmount l - ln_loanAmount l - ln_companyFee l"
      "0 < ln_finalPayout l" "ln_creditScoreUsed l = el_finalCreditScore el"
    by (rule issueLoan_Inr)
  from i obtain w' where pos: "0 < ln_loanAmount l" by (rule issueLoan_posts)
  have p: "20 \<le> el_allowedPercent el" "el_allowedPercent el \<le> 50" using tier(3) by auto
  have loan: "ln_loanAmount l = bigint_div (ln_payoutAmount l * el_allowedPercent el) 100"
    using f tier by simp
  have nonneg: "0 \<le> ln_payoutAmount l"
  proof (rule ccontr)
    assume "\<not> 0 \<le> ln_payoutAmount l"
    then have "ln_payoutAmount l * el_allowedPercent el < 0"
      using p by (simp add: mult_neg_pos)
    then have "bigint_div (ln_payoutAmount l * el_allowedPercent el) 100 \<le> 0"
      by (simp add: bigint_div_def)
    with loan pos show False by simp
  qed
  have "0 \<le> ln_payoutAmount l * el_allowedPercent el"
    using nonneg p by simp
  then have loan': "ln_loanAmount l = (ln_payoutAmount l * el_allowedPercent el) div 100"
    using loan by simp
  have fee: "ln_companyFee l = (ln_payoutAmount l * 10) div 100"
    using f nonneg by simp
  show "550 \<le> ln_creditScoreUsed l" using f tier by simp
  show "0 < ln_loanAmount l" by (rule pos)
  show "2 * ln_loanAmount l \<le> ln_payoutAmount l"
    using percent_floor_bound [OF nonneg _ p(2)] p loan' by simp
  show "0 \<le> ln_companyFee l" using fee nonneg by simp
  show "10 * ln_companyFee l \<le> ln_payoutAmount l" using fee by simp
  show "ln_loanAmount l + ln_companyFee l < ln_payoutAmount l" using f by simp
qed

section \<open>One active loan\<close>

text \<open>No user ever has two active loans, and applying keeps it so.\<close>

definition oneActiveLoan :: "db \<Rightarrow> bool" where
  "oneActiveLoan s \<longleftrightarrow>
     (\<forall>uid. length (filter (\<lambda>l. ln_userId l = uid \<and> ln_status l = LS_ACTIVE) (loans s)) \<le> 1)"

lemma applyLoan_oneActive:
  assumes "oneActiveLoan s"
  shows "oneActiveLoan (snd (applyLoan env bureau uid cid s))"
proof (cases "applyLoan env bureau uid cid s")
  case (Pair r s')
  show ?thesis
  proof (cases r)
    case (Inr l)
    from Pair Inr obtain c cs el where none: "activeLoanOf uid s = None"
      and i: "issueLoan env uid cid el (s\<lparr>creditScores := cs\<rparr>) = Inr (l, s')"
      by (auto elim: applyLoan_Inr)
    from i obtain w where l: "loans s' = loans s @ [l]"
      by (elim issueLoan_posts) simp
    from i have uid: "ln_userId l = uid"
      by (elim issueLoan_Inr)
    have "filter (\<lambda>l. ln_userId l = uid \<and> ln_status l = LS_ACTIVE) (loans s) = []"
      using none by (auto simp: activeLoanOf_def find_None_eq filter_empty_conv)
    then have "length (filter (\<lambda>l. ln_userId l = u \<and> ln_status l = LS_ACTIVE) (loans s')) \<le> 1" for u
      using assms uid l by (cases "u = uid") (auto simp: oneActiveLoan_def)
    then show ?thesis by (simp add: Pair oneActiveLoan_def)
  next
    case (Inl e)
    have "loans s' = loans s"
      using Pair Inl creditEligibility_state [of bureau uid cid s]
      by (auto simp: applyLoan_def transaction_def split: option.splits sum.splits if_splits)
    with assms show ?thesis by (simp add: Pair oneActiveLoan_def)
  qed
qed

section \<open>Repayment\<close>

lemma processLoanRepayment_state:
  "\<exists>ls. snd (processLoanRepaymentInTx env uid cid pot s) = s\<lparr>loans := ls\<rparr>"
  by (auto simp: processLoanRepaymentInTx_def Let_def split: option.splits intro: exI [of _ "loans s"])

lemma processLoanRepayment_net:
  "0 < pot \<Longrightarrow> loans s = ls \<Longrightarrow>
   (\<forall>l \<in> set ls. 0 \<le> ln_loanAmount l \<and> 0 \<le> ln_companyFee l) \<Longrightarrow>
   0 < fst (fst (processLoanRepaymentInTx env uid cid pot s)) \<and>
   fst (fst (processLoanRepaymentInTx env uid cid pot s)) \<le> pot"
  by (auto simp: processLoanRepaymentInTx_def Let_def split: option.splits dest!: find_SomeD)

text \<open>A repaid loan is deducted once: the next payout of the circle finds no active loan.\<close>

lemma processLoanRepayment_repaid:
  assumes "processLoanRepaymentInTx env uid cid pot s = ((net, True), s')"
  obtains l where "l \<in> set (loans s)" and "ln_status l = LS_ACTIVE" and "ln_userId l = uid"
    and "ln_circleId l = cid" and "net = pot - (ln_loanAmount l + ln_companyFee l)" and "0 < net"
    and "s' = s\<lparr>loans := updateRow (\<lambda>x. ln_id x = ln_id l)
                     (\<lambda>x. x\<lparr>ln_status := LS_REPAID, ln_repaidAt := Some (now env)\<rparr>) (loans s)\<rparr>"
  using assms
  by (auto simp: processLoanRepaymentInTx_def Let_def split: option.splits if_splits
      dest!: find_SomeD intro!: that)

end
