(* ===== verification/Contribution.thy ===== *)
theory Contribution
  imports Loans
begin

text \<open>
  \<^verbatim>\<open>src/modules/contribution/contribution.service.ts\<close>: a member pays a cycle's contribution from
  the main balance of the member's wallet into the platform pool, with a penalty of 2 percent after
  the deadline.  \<open>makeContribution\<close> is the whole serializable transaction.
\<close>

section \<open>The service\<close>

definition LATE_PENALTY_PERCENT :: int where "LATE_PENALTY_PERCENT = 2"

definition latePenalty :: "circle \<Rightarrow> bool \<Rightarrow> int" where
  "latePenalty c isLate =
     (if isLate then bigint_div (c_contributionAmount c * (LATE_PENALTY_PERCENT * 100)) 10000 else 0)"

text \<open>A debit or credit of the main balance that a contribution writes.\<close>

definition contributionEntry ::
  "entryType \<Rightarrow> string \<Rightarrow> bucketType option \<Rightarrow> int \<Rightarrow> string \<Rightarrow> ledgerSourceType \<Rightarrow> string \<Rightarrow> entryParams" where
  "contributionEntry t wid b amount ref st sid =
     \<lparr>wp_walletId = wid, wp_entryType = t, wp_movementType = TRANSFER, wp_bucketType = b,
      wp_amount = amount, wp_reference = ref, wp_sourceType = st, wp_sourceId = sid\<rparr>"

text \<open>\<^verbatim>\<open>@@unique([circleId, membershipId, cycleNumber])\<close> and the primary key.\<close>

definition co_key :: "contribution \<Rightarrow> string \<times> string \<times> int" where
  "co_key c = (co_circleId c, co_membershipId c, co_cycleNumber c)"

definition insertContribution :: "contribution \<Rightarrow> db \<Rightarrow> db result" where
  "insertContribution c s =
     (if list_ex (\<lambda>x. co_id x = co_id c \<or> co_key x = co_key c) (contributions s)
      then Inl (PrismaError ''P2002'')
      else Inr (s\<lparr>contributions := contributions s @ [c]\<rparr>))"

definition penaltyEntries :: "env \<Rightarrow> string \<Rightarrow> string \<Rightarrow> int \<Rightarrow> string \<Rightarrow> db \<Rightarrow> db result" where
  "penaltyEntries env userWid poolWid penalty contributionId s =
     (if 0 < penalty then
        bindE (writeEntry (rnd env 6)
          (contributionEntry DEBIT userWid None penalty (''PEN-'' @ rnd env 5) ST_PENALTY
             contributionId) s) (\<lambda>(_, s1).
        bindE (writeEntry (rnd env 8)
          (contributionEntry CREDIT poolWid None penalty (''POOL-PEN-'' @ rnd env 7) ST_PENALTY
             contributionId) s1) (\<lambda>(_, s2).
        Inr s2))
      else Inr s)"

definition countContribution :: "bool \<Rightarrow> int \<Rightarrow> membership \<Rightarrow> membership" where
  "countContribution isLate penalty m =
     m\<lparr>m_completedCycles := m_completedCycles m + 1,
       m_totalLatePayments := m_totalLatePayments m + (if isLate then 1 else 0),
       m_totalPenaltiesPaid := m_totalPenaltiesPaid m + (if 0 < penalty then penalty else 0)\<rparr>"

definition makeContribution ::
  "env \<Rightarrow> string \<Rightarrow> string \<Rightarrow> int \<Rightarrow> db \<Rightarrow> (contribution \<times> db) result" where
  "makeContribution env userId circleId cycleNumber s =
     bindE (orThrow (NotFound ''Circle not found'') (circleById circleId s)) (\<lambda>c.
     bindE (ensure (c_status c = CS_ACTIVE) (BadRequest ''Circle is not active'')) (\<lambda>_.
     bindE (orThrow (BadRequest ''Not an active member of this circle'')
              (membershipOf circleId userId s)) (\<lambda>m.
     bindE (ensure (m_status m = MS_ACTIVE) (BadRequest ''Not an active member of this circle'')) (\<lambda>_.
     bindE (orThrow (BadRequest ''No active schedule found'')
              (currentSchedule circleId cycleNumber s)) (\<lambda>sch.
     bindE (ensure (\<not> list_ex (\<lambda>x. co_key x = (circleId, m_id m, cycleNumber)) (contributions s))
              (BadRequest ''You have already contributed for cycle'')) (\<lambda>_.
     bindE (orThrow (InternalServerError ''Platform pool wallet not configured'')
              (systemWalletOf PLATFORM_POOL s)) (\<lambda>sw.
     bindE (orThrow (NotFound ''User wallet not found'') (walletOfUser userId s)) (\<lambda>w.
     bindE (ensure (\<not> cs_payoutDate sch \<le> now env)
              (BadRequest ''Contribution window has closed'')) (\<lambda>_.
     let isLate = cs_contributionDeadline sch < now env;
         penalty = latePenalty c isLate;
         contributionId = rnd env 0;
         debitRef = ''CONTRIB-'' @ rnd env 1
     in
     bindE (writeEntry (rnd env 2)
       (contributionEntry DEBIT (w_id w) (Some BT_MAIN) (c_contributionAmount c) debitRef
          ST_CONTRIBUTION contributionId) s) (\<lambda>(debitEntry, s1).
     bindE (writeEntry (rnd env 4)
       (contributionEntry CREDIT (sw_walletId sw) (Some BT_MAIN) (c_contributionAmount c)
          (''POOL-CRED-'' @ rnd env 3) ST_CONTRIBUTION contributionId) s1) (\<lambda>(_, s2).
     bindE (penaltyEntries env (w_id w) (sw_walletId sw) penalty contributionId s2) (\<lambda>s3.
     let contrib = \<lparr>co_id = contributionId, co_circleId = circleId, co_membershipId = m_id m,
                    co_userId = userId, co_cycleNumber = cycleNumber,
                    co_amount = c_contributionAmount c, co_penaltyAmount = penalty,
                    co_ledgerDebitId = Some (le_id debitEntry),
                    co_transactionReference = Some debitRef\<rparr>
     in
     bindE (insertContribution contrib s3) (\<lambda>s4.
     let s5 = updateMembership (m_id m) (countContribution isLate penalty) s4 in
     bindE (updateTrustScore env userId (ContributionEv (\<not> isLate) False) s5) (\<lambda>s6.
     Inr (contrib, s6)))))))))))))))"

definition getContributions ::
  "string \<Rightarrow> string \<Rightarrow> int option \<Rightarrow> nat option \<Rightarrow> nat option \<Rightarrow> db \<Rightarrow> contribution list" where
  "getContributions circleId userId cycleNumber limit offset s =
     take (case limit of None \<Rightarrow> 20 | Some n \<Rightarrow> n)
      (drop (case offset of None \<Rightarrow> 0 | Some n \<Rightarrow> n)
        (sort_key (\<lambda>c. - co_cycleNumber c)
          (filter (\<lambda>c. co_circleId c = circleId \<and> co_userId c = userId \<and>
                       (case cycleNumber of None \<Rightarrow> True | Some n \<Rightarrow> co_cycleNumber c = n))
            (contributions s))))"

section \<open>What a contribution is\<close>

lemma contributionEntry_simps [simp]:
  "wp_walletId (contributionEntry t w b a r st sid) = w"
  "wp_entryType (contributionEntry t w b a r st sid) = t"
  "wp_amount (contributionEntry t w b a r st sid) = a"
  by (simp_all add: contributionEntry_def)

lemma insertContribution_Inr:
  "insertContribution c s = Inr s' \<longleftrightarrow>
     co_id c \<notin> co_id ` set (contributions s) \<and> co_key c \<notin> co_key ` set (contributions s) \<and>
     s' = s\<lparr>contributions := contributions s @ [c]\<rparr>"
  unfolding insertContribution_def list_ex_iff by (auto simp: image_iff) (metis+)

interpretation contributionByKey: keyed_table contributions co_key insertContribution
  by unfold_locales (auto simp: insertContribution_Inr)

text \<open>The postings of a contribution: amount and penalty leave the member and reach the pool.\<close>

definition contributionPostings :: "string \<Rightarrow> string \<Rightarrow> int \<Rightarrow> int \<Rightarrow> posting list" where
  "contributionPostings userWid poolWid amount penalty =
     [debitOf userWid amount, creditOf poolWid amount]
     @ (if 0 < penalty then [debitOf userWid penalty, creditOf poolWid penalty] else [])"

lemma latePenalty_nonneg: "0 \<le> c_contributionAmount c \<Longrightarrow> 0 \<le> latePenalty c b"
  by (simp add: latePenalty_def LATE_PENALTY_PERCENT_def pos_imp_zdiv_nonneg_iff)

lemma penaltyEntries_posts:
  assumes "penaltyEntries env u p penalty cid s = Inr s'"
  shows "posts s (if 0 < penalty then [debitOf u penalty, creditOf p penalty] else []) s'"
proof (cases "0 < penalty")
  case True
  with assms obtain e1 s1 e2
    where "writeEntry (rnd env 6) (contributionEntry DEBIT u None penalty (''PEN-'' @ rnd env 5)
          ST_PENALTY cid) s = Inr (e1, s1)"
      and "writeEntry (rnd env 8) (contributionEntry CREDIT p None penalty (''POOL-PEN-'' @ rnd env 7)
          ST_PENALTY cid) s1 = Inr (e2, s')"
    by (auto simp: penaltyEntries_def result_simps)
  then show ?thesis
    using True by (auto dest!: posts_one dest: posts_trans)
qed (use assms in \<open>simp add: penaltyEntries_def posts.finished\<close>)

lemma penaltyEntries_frame:
  assumes "penaltyEntries env u p penalty cid s = Inr s'"
  shows "contributions s' = contributions s" "memberships s' = memberships s" "users s' = users s"
    "allTrustStats s' = allTrustStats s" "circles s' = circles s" "schedules s' = schedules s"
    "payouts s' = payouts s" "loans s' = loans s" "wallets s' = wallets s"
    "systemWallets s' = systemWallets s" "auditLogs s' = auditLogs s"
  using assms
  by (auto simp: penaltyEntries_def result_simps writeEntry_frame split: if_splits)

text \<open>Everything a successful contribution implies.\<close>

lemma makeContribution_Inr:
  assumes "makeContribution env userId circleId n s = Inr (contrib, s')"
  obtains c m sch sw w s1 e1 s2 e2 s3 where
    "circleById circleId s = Some c" and "c_status c = CS_ACTIVE"
    and "membershipOf circleId userId s = Some m" and "m_status m = MS_ACTIVE"
    and "currentSchedule circleId n s = Some sch" and "now env < cs_payoutDate sch"
    and "systemWalletOf PLATFORM_POOL s = Some sw" and "walletOfUser userId s = Some w"
    and "writeEntry (rnd env 2) (contributionEntry DEBIT (w_id w) (Some BT_MAIN)
          (c_contributionAmount c) (''CONTRIB-'' @ rnd env 1) ST_CONTRIBUTION (rnd env 0)) s
          = Inr (e1, s1)"
    and "writeEntry (rnd env 4) (contributionEntry CREDIT (sw_walletId sw) (Some BT_MAIN)
          (c_contributionAmount c) (''POOL-CRED-'' @ rnd env 3) ST_CONTRIBUTION (rnd env 0)) s1
          = Inr (e2, s2)"
    and "penaltyEntries env (w_id w) (sw_walletId sw)
          (latePenalty c (cs_contributionDeadline sch < now env)) (rnd env 0) s2 = Inr s3"
    and "contrib = \<lparr>co_id = rnd env 0, co_circleId = circleId, co_membershipId = m_id m,
          co_userId = userId, co_cycleNumber = n, co_amount = c_contributionAmount c,
          co_penaltyAmount = latePenalty c (cs_contributionDeadline sch < now env),
          co_ledgerDebitId = Some (le_id e1),
          co_transactionReference = Some (''CONTRIB-'' @ rnd env 1)\<rparr>"
    and "insertContribution contrib s3 = Inr (s3\<lparr>contributions := contributions s3 @ [contrib]\<rparr>)"
    and "updateTrustScore env userId
          (ContributionEv (\<not> cs_contributionDeadline sch < now env) False)
          (updateMembership (m_id m)
            (countContribution (cs_contributionDeadline sch < now env)
              (latePenalty c (cs_contributionDeadline sch < now env)))
            (s3\<lparr>contributions := contributions s3 @ [contrib]\<rparr>)) = Inr s'"
  using assms unfolding makeContribution_def
  by (auto simp: Let_def bindE_Inr_iff ensure_Inr_iff orThrow_Inr_iff insertContribution_Inr
      intro!: that)

lemma makeContribution_posts:
  assumes "makeContribution env userId circleId n s = Inr (contrib, s')"
  obtains c w sw sch where "circleById circleId s = Some c" and "walletOfUser userId s = Some w"
    and "systemWalletOf PLATFORM_POOL s = Some sw" and "currentSchedule circleId n s = Some sch"
    and "posts s (contributionPostings (w_id w) (sw_walletId sw) (co_amount contrib)
          (co_penaltyAmount contrib)) s'"
    and "co_amount contrib = c_contributionAmount c"
    and "co_penaltyAmount contrib = latePenalty c (cs_contributionDeadline sch < now env)"
    and "0 < co_amount contrib"
proof -
  from assms obtain c and m :: membership and sch sw w s1 e1 s2 e2 s3 where
    l: "circleById circleId s = Some c" "currentSchedule circleId n s = Some sch"
      "systemWalletOf PLATFORM_POOL s = Some sw" "walletOfUser userId s = Some w" and
    1: "writeEntry (rnd env 2) (contributionEntry DEBIT (w_id w) (Some BT_MAIN)
          (c_contributionAmount c) (''CONTRIB-'' @ rnd env 1) ST_CONTRIBUTION (rnd env 0)) s
          = Inr (e1, s1)" and
    2: "writeEntry (rnd env 4) (contributionEntry CREDIT (sw_walletId sw) (Some BT_MAIN)
          (c_contributionAmount c) (''POOL-CRED-'' @ rnd env 3) ST_CONTRIBUTION (rnd env 0)) s1
          = Inr (e2, s2)" and
    3: "penaltyEntries env (w_id w) (sw_walletId sw)
          (latePenalty c (cs_contributionDeadline sch < now env)) (rnd env 0) s2 = Inr s3" and
    contrib: "contrib = \<lparr>co_id = rnd env 0, co_circleId = circleId, co_membershipId = m_id m,
          co_userId = userId, co_cycleNumber = n, co_amount = c_contributionAmount c,
          co_penaltyAmount = latePenalty c (cs_contributionDeadline sch < now env),
          co_ledgerDebitId = Some (le_id e1),
          co_transactionReference = Some (''CONTRIB-'' @ rnd env 1)\<rparr>" and
    trust: "updateTrustScore env userId
          (ContributionEv (\<not> cs_contributionDeadline sch < now env) False)
          (updateMembership (m_id m)
            (countContribution (cs_contributionDeadline sch < now env)
              (latePenalty c (cs_contributionDeadline sch < now env)))
            (s3\<lparr>contributions := contributions s3 @ [contrib]\<rparr>)) = Inr s'"
    by (rule makeContribution_Inr) (rule that)
  have "posts s ([debitOf (w_id w) (c_contributionAmount c)]
      @ [creditOf (sw_walletId sw) (c_contributionAmount c)]) s2"
    using posts_one [OF 1] posts_one [OF 2] by (intro posts_trans) simp_all
  from posts_trans [OF this penaltyEntries_posts [OF 3]]
  have p: "posts s (contributionPostings (w_id w) (sw_walletId sw) (co_amount contrib)
          (co_penaltyAmount contrib)) s3"
    by (simp add: contributionPostings_def contrib split: if_splits)
  have "sameLedger s3 s'"
    using updateTrustScore_frame [OF trust] by auto
  moreover have "0 < co_amount contrib"
    using 1 by (simp add: writeEntry_Inr_iff writeAllowed_def contrib)
  ultimately show thesis
    using that [OF l(1,4,3,2)] posts_then_silent [OF p] by (simp add: contrib)
qed

text \<open>A contribution conserves money and moves exactly amount and penalty.\<close>

lemma contributionPostings_effect:
  "sum_list (map effectOf (contributionPostings u p a b)) = 0"
  "u \<noteq> p \<Longrightarrow> effectOn u (contributionPostings u p a b) = - (a + max 0 b)"
  "u \<noteq> p \<Longrightarrow> effectOn p (contributionPostings u p a b) = a + max 0 b"
  "w \<noteq> u \<Longrightarrow> w \<noteq> p \<Longrightarrow> effectOn w (contributionPostings u p a b) = 0"
  "reservedOn w (contributionPostings u p a b) = 0"
  "list_all honest (contributionPostings u p a b)"
  by (simp_all add: contributionPostings_def)

text \<open>A cycle is paid at most once per member.\<close>

lemma makeContribution_table:
  assumes "makeContribution env userId circleId n s = Inr (contrib, s')"
  shows "contributions s' = contributions s @ [contrib]" and "co_key contrib \<notin> co_key ` set (contributions s)"
proof -
  from assms obtain c :: circle and m :: membership and sch :: schedule and sw :: systemWallet
      and w :: wallet and s1 e1 s2 e2 s3 where
    1: "writeEntry (rnd env 2) (contributionEntry DEBIT (w_id w) (Some BT_MAIN)
          (c_contributionAmount c) (''CONTRIB-'' @ rnd env 1) ST_CONTRIBUTION (rnd env 0)) s
          = Inr (e1, s1)" and
    2: "writeEntry (rnd env 4) (contributionEntry CREDIT (sw_walletId sw) (Some BT_MAIN)
          (c_contributionAmount c) (''POOL-CRED-'' @ rnd env 3) ST_CONTRIBUTION (rnd env 0)) s1
          = Inr (e2, s2)" and
    3: "penaltyEntries env (w_id w) (sw_walletId sw)
          (latePenalty c (cs_contributionDeadline sch < now env)) (rnd env 0) s2 = Inr s3" and
    ins: "insertContribution contrib s3 = Inr (s3\<lparr>contributions := contributions s3 @ [contrib]\<rparr>)" and
    trust: "updateTrustScore env userId
          (ContributionEv (\<not> cs_contributionDeadline sch < now env) False)
          (updateMembership (m_id m)
            (countContribution (cs_contributionDeadline sch < now env)
              (latePenalty c (cs_contributionDeadline sch < now env)))
            (s3\<lparr>contributions := contributions s3 @ [contrib]\<rparr>)) = Inr s'"
    by (rule makeContribution_Inr) (rule that)
  have s3: "contributions s3 = contributions s"
    using writeEntry_frame(8) [OF 1] writeEntry_frame(8) [OF 2] penaltyEntries_frame(1) [OF 3] by simp
  show "contributions s' = contributions s @ [contrib]"
    using updateTrustScore_frame [OF trust] s3 by auto
  show "co_key contrib \<notin> co_key ` set (contributions s)"
    using ins s3 contributionByKey.create_fresh by metis
qed

text \<open>The key of a contribution is the member's, whose row stays reachable by circle and user.\<close>

lemma contribution_member:
  assumes "makeContribution env uid cid n s = Inr (k, s')"
  obtains m where "membershipOf cid uid s = Some m" and "co_key k = (cid, m_id m, n)"
    and "\<exists>f. memberships s' = updateRow (\<lambda>x. m_id x = m_id m) f (memberships s) \<and>
      (\<forall>x. m_id (f x) = m_id x \<and> m_circleId (f x) = m_circleId x \<and> m_userId (f x) = m_userId x)"
  using assms
proof (rule makeContribution_Inr)
  fix c and m :: membership and sch sw w s1 e1 s2 e2 s3
  assume m: "membershipOf cid uid s = Some m"
    and w1: "writeEntry (rnd env 2) (contributionEntry DEBIT (w_id w) (Some BT_MAIN)
          (c_contributionAmount c) (''CONTRIB-'' @ rnd env 1) ST_CONTRIBUTION (rnd env 0)) s
          = Inr (e1, s1)"
    and w2: "writeEntry (rnd env 4) (contributionEntry CREDIT (sw_walletId sw) (Some BT_MAIN)
          (c_contributionAmount c) (''POOL-CRED-'' @ rnd env 3) ST_CONTRIBUTION (rnd env 0)) s1
          = Inr (e2, s2)"
    and pen: "penaltyEntries env (w_id w) (sw_walletId sw)
          (latePenalty c (cs_contributionDeadline sch < now env)) (rnd env 0) s2 = Inr s3"
    and k: "k = \<lparr>co_id = rnd env 0, co_circleId = cid, co_membershipId = m_id m,
          co_userId = uid, co_cycleNumber = n, co_amount = c_contributionAmount c,
          co_penaltyAmount = latePenalty c (cs_contributionDeadline sch < now env),
          co_ledgerDebitId = Some (le_id e1),
          co_transactionReference = Some (''CONTRIB-'' @ rnd env 1)\<rparr>"
    and tr: "updateTrustScore env uid
          (ContributionEv (\<not> cs_contributionDeadline sch < now env) False)
          (updateMembership (m_id m)
            (countContribution (cs_contributionDeadline sch < now env)
              (latePenalty c (cs_contributionDeadline sch < now env)))
            (s3\<lparr>contributions := contributions s3 @ [k]\<rparr>)) = Inr s'"
  have "memberships s3 = memberships s"
    using ledgerOnly_frame(6) [OF writeEntry_ledgerOnly [OF w1]]
      ledgerOnly_frame(6) [OF writeEntry_ledgerOnly [OF w2]] penaltyEntries_frame(2) [OF pen] by simp
  then have "memberships s' = updateRow (\<lambda>x. m_id x = m_id m)
      (countContribution (cs_contributionDeadline sch < now env)
        (latePenalty c (cs_contributionDeadline sch < now env))) (memberships s)"
    using updateTrustScore_frame [OF tr] by auto
  then show thesis
    using m k by (intro that [of m]) (auto simp: co_key_def countContribution_def)
qed

end
