(* ===== verification/Payout.thy ===== *)
theory Payout
  imports Contribution
begin

text \<open>
  \<^verbatim>\<open>src/modules/payout/payout.service.ts\<close> and \<^verbatim>\<open>payout-scheduler.service.ts\<close>: the pot of a cycle
  goes from the platform pool to the cycle's recipient, less a loan or a platform fee; after the
  last cycle the circle is completed and every member's collateral released; a payout can be
  reversed, retried, and is triggered by an hourly job.
\<close>

section \<open>The service\<close>

definition PLATFORM_FEE_PERCENT :: int where "PLATFORM_FEE_PERCENT = 2"

definition potOf :: "string \<Rightarrow> int \<Rightarrow> db \<Rightarrow> int" where
  "potOf circleId cycleNumber s =
     sumBy (\<lambda>c. co_circleId c = circleId \<and> co_cycleNumber c = cycleNumber)
       (\<lambda>c. co_amount c + co_penaltyAmount c) (contributions s)"

text \<open>\<^verbatim>\<open>roscaPayout.create\<close>: the primary key and the unique \<^verbatim>\<open>scheduleId\<close>.\<close>

definition insertPayout :: "payout \<Rightarrow> db \<Rightarrow> db result" where
  "insertPayout p s =
     (if list_ex (\<lambda>x. po_id x = po_id p \<or> po_scheduleId x = po_scheduleId p) (payouts s)
      then Inl (PrismaError ''P2002'')
      else Inr (s\<lparr>payouts := payouts s @ [p]\<rparr>))"

definition setScheduleStatus :: "string \<Rightarrow> scheduleStatus \<Rightarrow> db \<Rightarrow> db result" where
  "setScheduleStatus sid st s =
     bindE (ensure (list_ex (\<lambda>x. cs_id x = sid) (schedules s)) (PrismaError ''P2025'')) (\<lambda>_.
     Inr (s\<lparr>schedules := updateRow (\<lambda>x. cs_id x = sid) (\<lambda>x. x\<lparr>cs_status := st\<rparr>) (schedules s)\<rparr>))"

definition poolEntry :: "entryType \<Rightarrow> string \<Rightarrow> int \<Rightarrow> string \<Rightarrow> ledgerSourceType \<Rightarrow> string \<Rightarrow> entryParams" where
  "poolEntry t wid amount ref st sid =
     \<lparr>wp_walletId = wid, wp_entryType = t, wp_movementType = TRANSFER,
      wp_bucketType = Some BT_MAIN, wp_amount = amount, wp_reference = ref, wp_sourceType = st,
      wp_sourceId = sid\<rparr>"

definition releaseEntry :: "string \<Rightarrow> membership \<Rightarrow> string \<Rightarrow> ledgerSourceType \<Rightarrow> entryParams" where
  "releaseEntry wid m ref st =
     \<lparr>wp_walletId = wid, wp_entryType = RELEASE, wp_movementType = TRANSFER,
      wp_bucketType = Some BT_ROSCA, wp_amount = m_collateralAmount m, wp_reference = ref,
      wp_sourceType = st, wp_sourceId = m_id m\<rparr>"

definition completeMember :: "env \<Rightarrow> membership \<Rightarrow> membership" where
  "completeMember env m =
     m\<lparr>m_collateralReleased := True, m_status := MS_COMPLETED, m_completedAt := Some (now env)\<rparr>"

text \<open>
  The loop over the memberships whose collateral is not released; a member without a wallet is
  skipped.  \<open>k\<close> counts the UUIDs drawn so far.
\<close>

fun releaseCollaterals :: "env \<Rightarrow> nat \<Rightarrow> membership list \<Rightarrow> db \<Rightarrow> db result" where
  "releaseCollaterals env k [] s = Inr s"
| "releaseCollaterals env k (m # ms) s =
     (case walletOfUser (m_userId m) s of
        None \<Rightarrow> releaseCollaterals env k ms s
      | Some w \<Rightarrow>
          bindE (writeEntry (rnd env (k + 1))
            (releaseEntry (w_id w) m (''COLL-REL-'' @ rnd env k) ST_COLLATERAL_RELEASE) s) (\<lambda>(_, s1).
          releaseCollaterals env (k + 2) ms (updateMembership (m_id m) (completeMember env) s1)))"

definition systemAudit :: "string \<Rightarrow> string \<Rightarrow> string \<Rightarrow> string \<Rightarrow> auditLog" where
  "systemAudit action entity eid reason =
     \<lparr>al_actorId = ''SYSTEM'', al_actorType = ''SYSTEM'', al_action = action,
      al_entityType = entity, al_entityId = eid, al_reason = Some reason\<rparr>"

definition finalizeCircleAndReleaseCollateral :: "env \<Rightarrow> nat \<Rightarrow> string \<Rightarrow> db \<Rightarrow> db result" where
  "finalizeCircleAndReleaseCollateral env k circleId s =
     bindE (releaseCollaterals env k
              (filter (\<lambda>m. m_circleId m = circleId \<and> \<not> m_collateralReleased m) (memberships s)) s) (\<lambda>s1.
     Inr (audit (systemAudit ''CIRCLE_COMPLETED'' ''ROSCA_CIRCLE'' circleId ''All cycles completed'')
            (updateCircleRow circleId (\<lambda>c. c\<lparr>c_status := CS_COMPLETED\<rparr>) s1)))"

record payoutResult =
  pres_payoutId :: string
  pres_amount :: int
  pres_grossAmount :: int
  pres_platformFee :: int
  pres_isLastCycle :: bool
  pres_recipientId :: string

text \<open>The ledger movements of a payout: the pool's debit, the winner's credit and the fee's credit.\<close>

definition feeEntry :: "env \<Rightarrow> string \<Rightarrow> int \<Rightarrow> string \<Rightarrow> db \<Rightarrow> db result" where
  "feeEntry env poolWid fee payoutId s =
     (if 0 < fee then
        bindE (writeEntry (rnd env 6)
          (poolEntry CREDIT poolWid fee (''PLATFORM-FEE-'' @ rnd env 5) ST_PLATFORM_FEE payoutId) s)
          (\<lambda>(_, s1). Inr s1)
      else Inr s)"

definition payoutMovements ::
  "env \<Rightarrow> string \<Rightarrow> string \<Rightarrow> int \<Rightarrow> int \<Rightarrow> int \<Rightarrow> db \<Rightarrow> ((string \<times> string) \<times> db) result" where
  "payoutMovements env poolWid winnerWid pot net fee s =
     bindE (writeEntry (rnd env 3)
       (poolEntry DEBIT poolWid pot (''POOL-DEBIT-'' @ rnd env 2) ST_ROSCA_CIRCLE (rnd env 0)) s) (\<lambda>(d, s1).
     bindE (writeEntry (rnd env 4)
       (poolEntry CREDIT winnerWid net (''PAYOUT-'' @ rnd env 1) ST_ROSCA_CIRCLE (rnd env 0)) s1) (\<lambda>(c, s2).
     bindE (feeEntry env poolWid fee (rnd env 0) s2) (\<lambda>s3.
     Inr ((le_id d, le_id c), s3))))"

definition payoutRow ::
  "env \<Rightarrow> string \<Rightarrow> schedule \<Rightarrow> string \<Rightarrow> int \<Rightarrow> string \<times> string \<Rightarrow> payout" where
  "payoutRow env circleId sch recipientId net ids =
     \<lparr>po_id = rnd env 0, po_circleId = circleId, po_scheduleId = cs_id sch,
      po_recipientId = recipientId, po_amount = net, po_status = PS_COMPLETED,
      po_internalReference = Some (''PAYOUT-'' @ rnd env 1), po_poolDebitId = Some (fst ids),
      po_recipientCreditId = Some (snd ids), po_reversalDebitId = None,
      po_reversalCreditId = None, po_processedAt = Some (now env), po_failedAt = None\<rparr>"

definition platformFeeOf :: "bool \<Rightarrow> int \<Rightarrow> int" where
  "platformFeeOf loanRepaid totalPot =
     (if loanRepaid then 0 else bigint_div (totalPot * PLATFORM_FEE_PERCENT) 100)"

definition processPayoutTx ::
  "env \<Rightarrow> string \<Rightarrow> int \<Rightarrow> db \<Rightarrow> (payoutResult \<times> db) result" where
  "processPayoutTx env circleId cycleNumber s =
     bindE (orThrow (NotFound ''Circle not found'') (circleById circleId s)) (\<lambda>c.
     bindE (ensure (c_status c = CS_ACTIVE) (BadRequest ''Circle is not active'')) (\<lambda>_.
     bindE (orThrow (NotFound ''No schedule found for cycle'')
              (currentSchedule circleId cycleNumber s)) (\<lambda>sch.
     bindE (orThrow (BadRequest ''No recipient assigned to this cycle'') (cs_recipientId sch)) (\<lambda>recipientId.
     bindE (ensure (\<not> list_ex (\<lambda>p. po_scheduleId p = cs_id sch \<and>
                              (po_status p = PS_COMPLETED \<or> po_status p = PS_PROCESSING)) (payouts s))
              (BadRequest ''Payout already processed or in progress for this cycle'')) (\<lambda>_.
     let totalPot = potOf circleId cycleNumber s in
     bindE (ensure (totalPot \<noteq> 0) (BadRequest ''No funds available for payout'')) (\<lambda>_.
     bindE (orThrow (PlainError ''Platform pool wallet not configured'')
              (systemWalletOf PLATFORM_POOL s)) (\<lambda>sw.
     bindE (orThrow (NotFound ''Recipient wallet not found'') (walletOfUser recipientId s)) (\<lambda>w.
     let ((postLoanPayout, loanRepaid), s1) =
           processLoanRepaymentInTx env recipientId circleId totalPot s;
         platformFee = platformFeeOf loanRepaid totalPot;
         netPayout = postLoanPayout - platformFee
     in
     bindE (payoutMovements env (sw_walletId sw) (w_id w) totalPot netPayout platformFee s1)
       (\<lambda>(ids, s2).
     bindE (insertPayout (payoutRow env circleId sch recipientId netPayout ids) s2) (\<lambda>s3.
     bindE (setScheduleStatus (cs_id sch) SS_COMPLETED s3) (\<lambda>s4.
     let isLastCycle = (cycleNumber = c_durationCycles c) in
     bindE (if isLastCycle then finalizeCircleAndReleaseCollateral env 7 circleId s4 else Inr s4) (\<lambda>s5.
     Inr (\<lparr>pres_payoutId = rnd env 0, pres_amount = netPayout, pres_grossAmount = totalPot,
           pres_platformFee = platformFee, pres_isLastCycle = isLastCycle,
           pres_recipientId = recipientId\<rparr>, s5)))))))))))))"

text \<open>The notification of the winner: skipped for an unknown user and for simulation accounts.\<close>

definition endsWith :: "string \<Rightarrow> string \<Rightarrow> bool" where
  "endsWith x suf \<longleftrightarrow> length suf \<le> length x \<and> drop (length x - length suf) x = suf"

definition enqueueTransactionEvent :: "string \<Rightarrow> int \<Rightarrow> string \<Rightarrow> db \<Rightarrow> db" where
  "enqueueTransactionEvent userId amountKobo payoutId s =
     (case userById userId s of
        None \<Rightarrow> s
      | Some u \<Rightarrow>
          if endsWith (u_email u) ''@sim.test'' then s
          else s\<lparr>walletEvents := walletEvents s @
            [\<lparr>ev_userId = userId, ev_type = EV_CREDIT, ev_amountKobo = amountKobo,
              ev_reference = ''PAYOUT-'' @ payoutId\<rparr>]\<rparr>)"

text \<open>
  The active members who did not contribute.  A contribution counts for the user of its membership.
\<close>

definition missedUserIds :: "string \<Rightarrow> int \<Rightarrow> db \<Rightarrow> string list" where
  "missedUserIds circleId cycleNumber s =
     (let cs = filter (\<lambda>c. co_circleId c = circleId \<and> co_cycleNumber c = cycleNumber) (contributions s);
          contributedUserIds = map m_userId
            (filter (\<lambda>m. m_id m \<in> set (map co_membershipId cs)) (memberships s))
      in filter (\<lambda>u. u \<notin> set contributedUserIds)
           (map m_userId (filter (\<lambda>m. m_circleId m = circleId \<and> m_status m = MS_ACTIVE) (memberships s))))"

text \<open>
  \<^verbatim>\<open>Promise.allSettled\<close>: a failure for one member does not stop the others, and none surfaces.
\<close>

definition tryTrust :: "env \<Rightarrow> trustScoreEvent \<Rightarrow> string \<Rightarrow> db \<Rightarrow> db" where
  "tryTrust env ev userId s = (case updateTrustScore env userId ev s of Inr s' \<Rightarrow> s' | Inl _ \<Rightarrow> s)"

definition recordMissedContributions :: "env \<Rightarrow> string \<Rightarrow> int \<Rightarrow> db \<Rightarrow> db" where
  "recordMissedContributions env circleId cycleNumber s =
     fold (tryTrust env (MissedPayment False)) (missedUserIds circleId cycleNumber s) s"

definition processPayout ::
  "env \<Rightarrow> string \<Rightarrow> int \<Rightarrow> db \<Rightarrow> payoutResult result \<times> db" where
  "processPayout env circleId cycleNumber s =
     (case transaction (processPayoutTx env circleId cycleNumber) s of
        (Inl e, s1) \<Rightarrow> (Inl e, s1)
      | (Inr r, s1) \<Rightarrow>
          (let s2 = enqueueTransactionEvent (pres_recipientId r) (pres_amount r) (pres_payoutId r) s1;
               s3 = recordMissedContributions env circleId cycleNumber s2
           in (Inr r, s3)))"

section \<open>Reversal and retry\<close>

record reversePayoutDto =
  rp_originalPayoutId :: string
  rp_recipientId :: string
  rp_scheduleId :: string
  rp_amount :: int
  rp_reason :: string

definition payoutById :: "string \<Rightarrow> db \<Rightarrow> payout option" where
  "payoutById pid s = findFirst (\<lambda>p. po_id p = pid) (payouts s)"

definition reversePayout :: "env \<Rightarrow> reversePayoutDto \<Rightarrow> db \<Rightarrow> db result" where
  "reversePayout env dto s =
     bindE (orThrow (NotFound ''Original payout not found'') (payoutById (rp_originalPayoutId dto) s)) (\<lambda>p.
     bindE (ensure (po_status p \<noteq> PS_FAILED) (BadRequest ''Payout already marked as FAILED'')) (\<lambda>_.
     bindE (orThrow (PlainError ''Platform pool wallet not found'') (systemWalletOf PLATFORM_POOL s)) (\<lambda>sw.
     bindE (orThrow (NotFound ''Recipient wallet not found'')
              (walletOfUser (rp_recipientId dto) s)) (\<lambda>w.
     bindE (writeEntry (rnd env 2)
       (poolEntry DEBIT (w_id w) (rp_amount dto) (''REV-DEBIT-'' @ rnd env 1) ST_REVERSAL (rnd env 0)) s)
       (\<lambda>(reversalDebit, s1).
     bindE (writeEntry (rnd env 4)
       (poolEntry CREDIT (sw_walletId sw) (rp_amount dto) (''REV-CRED-'' @ rnd env 3) ST_REVERSAL
          (rnd env 0)) s1) (\<lambda>(reversalCredit, s2).
     let s3 = s2\<lparr>payouts := updateRow (\<lambda>x. po_id x = rp_originalPayoutId dto)
                (\<lambda>x. x\<lparr>po_status := PS_FAILED, po_failedAt := Some (now env),
                       po_reversalDebitId := Some (le_id reversalDebit),
                       po_reversalCreditId := Some (le_id reversalCredit)\<rparr>) (payouts s2)\<rparr>
     in
     bindE (setScheduleStatus (rp_scheduleId dto) SS_UPCOMING s3) (\<lambda>s4.
     Inr (audit (systemAudit ''PAYOUT_REVERSED'' ''ROSCA_PAYOUT'' (rp_originalPayoutId dto)
                   (rp_reason dto)) s4))))))))"

definition scheduleById :: "string \<Rightarrow> db \<Rightarrow> schedule option" where
  "scheduleById sid s = findFirst (\<lambda>x. cs_id x = sid) (schedules s)"

text \<open>The payout's schedule exists, by the foreign key; a missing one is reported as not found.\<close>

definition retryPayout :: "env \<Rightarrow> string \<Rightarrow> db \<Rightarrow> payoutResult result \<times> db" where
  "retryPayout env originalPayoutId s =
     (case payoutById originalPayoutId s of
        None \<Rightarrow> (Inl (NotFound ''Failed payout record not found''), s)
      | Some p \<Rightarrow>
          if po_status p \<noteq> PS_FAILED
          then (Inl (BadRequest ''Only failed payouts can be retried''), s)
          else (case scheduleById (po_scheduleId p) s of
                  None \<Rightarrow> (Inl (NotFound ''Schedule not found''), s)
                | Some sch \<Rightarrow> processPayout env (po_circleId p) (cs_cycleNumber sch) s))"

section \<open>Queries and the hourly job\<close>

definition getPayoutHistory :: "string \<Rightarrow> db \<Rightarrow> (payout \<times> schedule option) list" where
  "getPayoutHistory circleId s =
     map (\<lambda>p. (p, scheduleById (po_scheduleId p) s))
       (sort_key (\<lambda>p. - (case po_processedAt p of Some t \<Rightarrow> t | None \<Rightarrow> 0))
         (filter (\<lambda>p. po_circleId p = circleId) (payouts s)))"

definition isDue :: "env \<Rightarrow> schedule \<Rightarrow> bool" where
  "isDue env x \<longleftrightarrow> cs_payoutDate x \<le> now env \<and> cs_status x = SS_UPCOMING \<and> cs_obsoletedAt x = None \<and>
     cs_recipientId x \<noteq> None"

definition findDuePayouts :: "env \<Rightarrow> db \<Rightarrow> schedule list" where
  "findDuePayouts env s = sort_key cs_payoutDate (filter (isDue env) (schedules s))"

definition logPayoutFailure :: "string \<Rightarrow> http_error \<Rightarrow> db \<Rightarrow> db" where
  "logPayoutFailure scheduleId e s =
     audit (systemAudit ''PAYOUT_FAILED'' ''ROSCA_CYCLE_SCHEDULE'' scheduleId
       (case e of BadRequest x \<Rightarrow> x | NotFound x \<Rightarrow> x | Conflict x \<Rightarrow> x | Forbidden x \<Rightarrow> x
          | Unauthorized x \<Rightarrow> x | InternalServerError x \<Rightarrow> x | PlainError x \<Rightarrow> x | PrismaError x \<Rightarrow> x)) s"

text \<open>
  One due schedule of the hourly job, and the job: sequential, each failure logged and skipped.
  Every payout draws its own UUIDs: \<open>envs k\<close> is the environment of the \<open>k\<close>-th one.
\<close>

definition processDue :: "env \<Rightarrow> schedule \<Rightarrow> db \<Rightarrow> db" where
  "processDue env due s =
     (if list_ex (\<lambda>p. po_scheduleId p = cs_id due \<and>
                     (po_status p = PS_COMPLETED \<or> po_status p = PS_PROCESSING)) (payouts s)
      then s
      else case processPayout env (cs_circleId due) (cs_cycleNumber due) s of
             (Inr _, s') \<Rightarrow> s'
           | (Inl e, s') \<Rightarrow> logPayoutFailure (cs_id due) e s')"

fun processAll :: "(nat \<Rightarrow> env) \<Rightarrow> nat \<Rightarrow> schedule list \<Rightarrow> db \<Rightarrow> db" where
  "processAll envs k [] s = s"
| "processAll envs k (due # rest) s = processAll envs (k + 1) rest (processDue (envs k) due s)"

definition processDuePayouts :: "(nat \<Rightarrow> env) \<Rightarrow> db \<Rightarrow> db" where
  "processDuePayouts envs s = processAll envs 1 (findDuePayouts (envs 0) s) s"

section \<open>The movements of a payout\<close>

lemma poolEntry_simps [simp]:
  "wp_walletId (poolEntry t w a r st sid) = w" "wp_entryType (poolEntry t w a r st sid) = t"
  "wp_amount (poolEntry t w a r st sid) = a"
  by (simp_all add: poolEntry_def)

lemma releaseEntry_simps [simp]:
  "wp_walletId (releaseEntry w m r st) = w" "wp_entryType (releaseEntry w m r st) = RELEASE"
  "wp_amount (releaseEntry w m r st) = m_collateralAmount m"
  "wp_bucketType (releaseEntry w m r st) = Some BT_ROSCA"
  "wp_sourceId (releaseEntry w m r st) = m_id m"
  by (simp_all add: releaseEntry_def)

definition payoutPostings :: "string \<Rightarrow> string \<Rightarrow> int \<Rightarrow> int \<Rightarrow> int \<Rightarrow> posting list" where
  "payoutPostings poolWid winnerWid pot net fee =
     [debitOf poolWid pot, creditOf winnerWid net] @ (if 0 < fee then [creditOf poolWid fee] else [])"

lemma payoutPostings_effect:
  "0 \<le> fee \<Longrightarrow> sum_list (map effectOf (payoutPostings p w pot net fee)) = net + fee - pot"
  "p \<noteq> w \<Longrightarrow> 0 \<le> fee \<Longrightarrow> effectOn p (payoutPostings p w pot net fee) = fee - pot"
  "p \<noteq> w \<Longrightarrow> effectOn w (payoutPostings p w pot net fee) = net"
  "v \<noteq> w \<Longrightarrow> v \<noteq> p \<Longrightarrow> effectOn v (payoutPostings p w pot net fee) = 0"
  "reservedOn v (payoutPostings p w pot net fee) = 0"
  "list_all honest (payoutPostings p w pot net fee)"
  by (auto simp: payoutPostings_def)

lemma feeEntry_posts:
  assumes "feeEntry env p fee i s = Inr s'"
  shows "posts s (if 0 < fee then [creditOf p fee] else []) s' \<and> ledgerOnly s s'"
proof (cases "0 < fee")
  case True
  with assms obtain e where "writeEntry (rnd env 6)
      (poolEntry CREDIT p fee (''PLATFORM-FEE-'' @ rnd env 5) ST_PLATFORM_FEE i) s = Inr (e, s')"
    by (auto simp: feeEntry_def result_simps)
  with True show ?thesis
    by (auto dest!: posts_one dest: writeEntry_ledgerOnly
        simp: postingOf_credit writeEntry_ledgerOnly)
qed (use assms in \<open>simp add: feeEntry_def posts.finished\<close>)

lemma payoutMovements_posts:
  assumes "payoutMovements env p w pot net fee s = Inr (ids, s')"
  shows "posts s (payoutPostings p w pot net fee) s'" and "ledgerOnly s s'" and "0 < net" and "0 < pot"
    and "pot \<le> available s p"
proof -
  from assms obtain d s1 c s2 where
    1: "writeEntry (rnd env 3)
       (poolEntry DEBIT p pot (''POOL-DEBIT-'' @ rnd env 2) ST_ROSCA_CIRCLE (rnd env 0)) s = Inr (d, s1)"
    and 2: "writeEntry (rnd env 4)
       (poolEntry CREDIT w net (''PAYOUT-'' @ rnd env 1) ST_ROSCA_CIRCLE (rnd env 0)) s1 = Inr (c, s2)"
    and 3: "feeEntry env p fee (rnd env 0) s2 = Inr s'"
    by (auto simp: payoutMovements_def result_simps)
  from posts_two [OF 1 2] feeEntry_posts [OF 3]
  show "posts s (payoutPostings p w pot net fee) s'" and "ledgerOnly s s'"
    using posts_trans [of s "[debitOf p pot, creditOf w net]" s2]
    by (auto simp: payoutPostings_def intro: ledgerOnly_trans split: if_splits)
  show "0 < net" "0 < pot" "pot \<le> available s p"
    using 1 2 by (simp_all add: writeEntry_Inr_iff writeAllowed_def)
qed

section \<open>Releasing the collateral\<close>

definition releaseOnly :: "posting list \<Rightarrow> bool" where
  "releaseOnly ps \<longleftrightarrow> (\<forall>p \<in> set ps. pg_type p = RELEASE)"

lemma releaseOnly_simps [simp]:
  "releaseOnly []" "releaseOnly (p # ps) \<longleftrightarrow> pg_type p = RELEASE \<and> releaseOnly ps"
  by (simp_all add: releaseOnly_def)

lemma releaseOnly_effect: "releaseOnly ps \<Longrightarrow> effectOn w ps = 0"
  by (induction ps) (simp_all add: effectOf_def)

lemma releaseOnly_sum: "releaseOnly ps \<Longrightarrow> sum_list (map effectOf ps) = 0"
  by (induction ps) (simp_all add: effectOf_def)

lemma releaseCollaterals_posts:
  "releaseCollaterals env k ms s = Inr s' \<Longrightarrow> \<exists>rs. posts s rs s' \<and> releaseOnly rs"
proof (induction ms arbitrary: k s)
  case Nil
  then show ?case by (auto intro: exI [of _ "[]"] posts.finished)
next
  case (Cons m ms)
  show ?case
  proof (cases "walletOfUser (m_userId m) s")
    case None
    with Cons show ?thesis by simp
  next
    case (Some w)
    with Cons.prems obtain e s1 where
      1: "writeEntry (rnd env (k + 1))
            (releaseEntry (w_id w) m (''COLL-REL-'' @ rnd env k) ST_COLLATERAL_RELEASE) s = Inr (e, s1)"
      and 2: "releaseCollaterals env (k + 2) ms (updateMembership (m_id m) (completeMember env) s1) = Inr s'"
      by (auto simp: result_simps)
    from Cons.IH [OF 2] obtain rs
      where "posts (updateMembership (m_id m) (completeMember env) s1) rs s'" "releaseOnly rs"
      by blast
    moreover have "sameLedger s1 (updateMembership (m_id m) (completeMember env) s1)"
      by auto
    ultimately have "posts s (postingOf (releaseEntry (w_id w) m (''COLL-REL-'' @ rnd env k)
        ST_COLLATERAL_RELEASE) s # rs) s'" "releaseOnly rs"
      using posts.written [OF 1 posts.silent] by blast+
    then show ?thesis
      by (intro exI [of _ "postingOf (releaseEntry (w_id w) m (''COLL-REL-'' @ rnd env k)
            ST_COLLATERAL_RELEASE) s # rs"]) (simp add: postingOf_def)
  qed
qed

definition membersOnly :: "db \<Rightarrow> db \<Rightarrow> bool" where
  "membersOnly s s' \<longleftrightarrow> s' = s\<lparr>ledgerEntries := ledgerEntries s', walletBuckets := walletBuckets s',
     memberships := memberships s'\<rparr>"

lemma membersOnly_iff:
  "membersOnly s s' \<longleftrightarrow>
     (\<exists>es bs ms. s' = s\<lparr>ledgerEntries := es, walletBuckets := bs, memberships := ms\<rparr>)"
  by (auto simp: membersOnly_def)

lemma membersOnly_trans: "membersOnly s t \<Longrightarrow> membersOnly t u \<Longrightarrow> membersOnly s u"
  unfolding membersOnly_iff by fastforce

lemma releaseCollaterals_frame: "releaseCollaterals env k ms s = Inr s' \<Longrightarrow> membersOnly s s'"
proof (induction ms arbitrary: k s)
  case Nil
  then show ?case by (simp add: membersOnly_def)
next
  case (Cons m ms)
  show ?case
  proof (cases "walletOfUser (m_userId m) s")
    case None
    with Cons show ?thesis by simp
  next
    case (Some w)
    with Cons.prems obtain e s1 where
      1: "writeEntry (rnd env (k + 1))
            (releaseEntry (w_id w) m (''COLL-REL-'' @ rnd env k) ST_COLLATERAL_RELEASE) s = Inr (e, s1)"
      and 2: "releaseCollaterals env (k + 2) ms (updateMembership (m_id m) (completeMember env) s1) = Inr s'"
      by (auto simp: result_simps)
    have "membersOnly s (updateMembership (m_id m) (completeMember env) s1)"
      using 1 by (auto simp: writeEntry_Inr_iff writtenState_def membersOnly_def updateMembership_def)
    from membersOnly_trans [OF this Cons.IH [OF 2]] show ?thesis .
  qed
qed

section \<open>What a payout does\<close>

lemma insertPayout_Inr:
  "insertPayout p s = Inr s' \<longleftrightarrow>
     po_id p \<notin> po_id ` set (payouts s) \<and> po_scheduleId p \<notin> po_scheduleId ` set (payouts s) \<and>
     s' = s\<lparr>payouts := payouts s @ [p]\<rparr>"
  unfolding insertPayout_def list_ex_iff by (auto simp: image_iff) (metis+)

interpretation payoutBySchedule: keyed_table payouts po_scheduleId insertPayout
  by unfold_locales (auto simp: insertPayout_Inr)

definition completeSchedule :: "schedule \<Rightarrow> payout \<Rightarrow> db \<Rightarrow> db" where
  "completeSchedule sch row s =
     s\<lparr>payouts := payouts s @ [row],
       schedules := updateRow (\<lambda>x. cs_id x = cs_id sch) (\<lambda>x. x\<lparr>cs_status := SS_COMPLETED\<rparr>)
         (schedules s)\<rparr>"

lemma processPayoutTx_Inr:
  assumes "processPayoutTx env cid n s = Inr (r, s')"
  obtains c sch rid sw w repaid s1 ids s2 where
    "circleById cid s = Some c" and "c_status c = CS_ACTIVE"
    and "currentSchedule cid n s = Some sch" and "cs_recipientId sch = Some rid"
    and "systemWalletOf PLATFORM_POOL s = Some sw" and "walletOfUser rid s = Some w"
    and "potOf cid n s \<noteq> 0"
    and "processLoanRepaymentInTx env rid cid (potOf cid n s) s =
          ((pres_amount r + pres_platformFee r, repaid), s1)"
    and "pres_platformFee r = platformFeeOf repaid (potOf cid n s)"
    and "payoutMovements env (sw_walletId sw) (w_id w) (potOf cid n s) (pres_amount r)
          (pres_platformFee r) s1 = Inr (ids, s2)"
    and "cs_id sch \<notin> po_scheduleId ` set (payouts s2)" and "rnd env 0 \<notin> po_id ` set (payouts s2)"
    and "(if n = c_durationCycles c
          then finalizeCircleAndReleaseCollateral env 7 cid
                 (completeSchedule sch (payoutRow env cid sch rid (pres_amount r) ids) s2)
          else Inr (completeSchedule sch (payoutRow env cid sch rid (pres_amount r) ids) s2)) = Inr s'"
    and "pres_payoutId r = rnd env 0" and "pres_grossAmount r = potOf cid n s"
    and "pres_isLastCycle r = (n = c_durationCycles c)" and "pres_recipientId r = rid"
proof -
  from assms obtain c sch rid sw w where
    l: "circleById cid s = Some c" "c_status c = CS_ACTIVE"
      "currentSchedule cid n s = Some sch" "cs_recipientId sch = Some rid"
      "systemWalletOf PLATFORM_POOL s = Some sw" "walletOfUser rid s = Some w" "potOf cid n s \<noteq> 0"
    unfolding processPayoutTx_def Let_def
    by (auto simp: bindE_Inr_iff ensure_Inr_iff orThrow_Inr_iff)
  obtain gross repaid s1
    where loan: "processLoanRepaymentInTx env rid cid (potOf cid n s) s = ((gross, repaid), s1)"
    by (metis prod.exhaust)
  define fee where "fee = platformFeeOf repaid (potOf cid n s)"
  from assms l loan obtain ids s2 where
    m: "payoutMovements env (sw_walletId sw) (w_id w) (potOf cid n s) (gross - fee) fee s1 = Inr (ids, s2)"
    and ins: "insertPayout (payoutRow env cid sch rid (gross - fee) ids) s2 =
        Inr (s2\<lparr>payouts := payouts s2 @ [payoutRow env cid sch rid (gross - fee) ids]\<rparr>)"
    and fin: "(if n = c_durationCycles c
          then finalizeCircleAndReleaseCollateral env 7 cid
                 (completeSchedule sch (payoutRow env cid sch rid (gross - fee) ids) s2)
          else Inr (completeSchedule sch (payoutRow env cid sch rid (gross - fee) ids) s2)) = Inr s'"
    and r: "r = \<lparr>pres_payoutId = rnd env 0, pres_amount = gross - fee,
        pres_grossAmount = potOf cid n s, pres_platformFee = fee,
        pres_isLastCycle = (n = c_durationCycles c), pres_recipientId = rid\<rparr>"
    unfolding processPayoutTx_def Let_def
    by (auto simp: bindE_Inr_iff ensure_Inr_iff fee_def setScheduleStatus_def completeSchedule_def
        insertPayout_Inr cong: if_cong)
  have "cs_id sch \<notin> po_scheduleId ` set (payouts s2)" "rnd env 0 \<notin> po_id ` set (payouts s2)"
    using ins by (simp_all add: insertPayout_Inr payoutRow_def)
  note new = this
  have eq: "gross - fee = pres_amount r" by (simp add: r)
  have eqf: "fee = pres_platformFee r" by (simp add: r)
  have eqg: "gross = pres_amount r + pres_platformFee r" by (simp add: r)
  have "pres_platformFee r = platformFeeOf repaid (potOf cid n s)"
    by (simp add: r fee_def)
  moreover have "pres_payoutId r = rnd env 0" "pres_grossAmount r = potOf cid n s"
    "pres_isLastCycle r = (n = c_durationCycles c)" "pres_recipientId r = rid"
    by (simp_all add: r)
  ultimately show thesis
    using that [OF l loan [unfolded eqg] _ m [unfolded eq, unfolded eqf] new fin [unfolded eq]]
    by blast
qed

lemma processLoanRepayment_frame:
  assumes "processLoanRepaymentInTx env uid cid pot s = (x, s1)"
  shows "\<exists>ls. s1 = s\<lparr>loans := ls\<rparr>"
  using processLoanRepayment_state [of env uid cid pot s] assms by auto

lemma finalize_Inr:
  assumes "finalizeCircleAndReleaseCollateral env k cid s = Inr s'"
  obtains s1 where
    "releaseCollaterals env k
      (filter (\<lambda>m. m_circleId m = cid \<and> \<not> m_collateralReleased m) (memberships s)) s = Inr s1"
    and "s' = audit (systemAudit ''CIRCLE_COMPLETED'' ''ROSCA_CIRCLE'' cid ''All cycles completed'')
            (updateCircleRow cid (\<lambda>c. c\<lparr>c_status := CS_COMPLETED\<rparr>) s1)"
  using assms by (auto simp: finalizeCircleAndReleaseCollateral_def result_simps intro: that)

lemma finalize_posts:
  assumes "finalizeCircleAndReleaseCollateral env k cid s = Inr s'"
  shows "\<exists>rs. posts s rs s' \<and> releaseOnly rs" and "payouts s' = payouts s"
    and "schedules s' = schedules s" and "users s' = users s" and "contributions s' = contributions s"
    and "allTrustStats s' = allTrustStats s"
proof -
  from assms obtain s1 where
    1: "releaseCollaterals env k
      (filter (\<lambda>m. m_circleId m = cid \<and> \<not> m_collateralReleased m) (memberships s)) s = Inr s1"
    and 2: "s' = audit (systemAudit ''CIRCLE_COMPLETED'' ''ROSCA_CIRCLE'' cid ''All cycles completed'')
            (updateCircleRow cid (\<lambda>c. c\<lparr>c_status := CS_COMPLETED\<rparr>) s1)"
    by (rule finalize_Inr)
  have "sameLedger s1 s'" by (auto simp: 2)
  with releaseCollaterals_posts [OF 1] show "\<exists>rs. posts s rs s' \<and> releaseOnly rs"
    using posts_then_silent by blast
  have f: "s1 = s\<lparr>ledgerEntries := ledgerEntries s1, walletBuckets := walletBuckets s1,
     memberships := memberships s1\<rparr>"
    using releaseCollaterals_frame [OF 1] by (simp add: membersOnly_def)
  have "payouts s1 = payouts s" "schedules s1 = schedules s" "users s1 = users s"
    "contributions s1 = contributions s" "allTrustStats s1 = allTrustStats s"
    by (subst f, simp)+
  then show "payouts s' = payouts s" "schedules s' = schedules s" "users s' = users s"
    "contributions s' = contributions s" "allTrustStats s' = allTrustStats s"
    by (simp_all add: 2 audit_def)
qed

text \<open>The statement of a payout: the movements, and releases only on the last cycle.\<close>

lemma processPayoutTx_posts:
  assumes "processPayoutTx env cid n s = Inr (r, s')"
  obtains sw w rs where "systemWalletOf PLATFORM_POOL s = Some sw"
    and "walletOfUser (pres_recipientId r) s = Some w"
    and "posts s (payoutPostings (sw_walletId sw) (w_id w) (potOf cid n s) (pres_amount r)
          (pres_platformFee r) @ rs) s'" and "releaseOnly rs" and "pres_isLastCycle r \<or> rs = []"
    and "0 < pres_amount r" and "0 \<le> pres_platformFee r" and "0 < potOf cid n s"
proof -
  from assms obtain c :: circle and sch rid sw w repaid s1 ids s2 where
    l: "systemWalletOf PLATFORM_POOL s = Some sw" "walletOfUser rid s = Some w"
    and loan: "processLoanRepaymentInTx env rid cid (potOf cid n s) s =
          ((pres_amount r + pres_platformFee r, repaid), s1)"
    and fee: "pres_platformFee r = platformFeeOf repaid (potOf cid n s)"
    and m: "payoutMovements env (sw_walletId sw) (w_id w) (potOf cid n s) (pres_amount r)
          (pres_platformFee r) s1 = Inr (ids, s2)"
    and fin: "(if n = c_durationCycles c
          then finalizeCircleAndReleaseCollateral env 7 cid
                 (completeSchedule sch (payoutRow env cid sch rid (pres_amount r) ids) s2)
          else Inr (completeSchedule sch (payoutRow env cid sch rid (pres_amount r) ids) s2)) = Inr s'"
    and r: "pres_isLastCycle r = (n = c_durationCycles c)" "pres_recipientId r = rid"
    by (rule processPayoutTx_Inr)
  define s3 where "s3 = completeSchedule sch (payoutRow env cid sch rid (pres_amount r) ids) s2"
  have "posts s [] s1"
    using processLoanRepayment_frame [OF loan] by (auto intro!: posts_silent)
  from posts_trans [OF this payoutMovements_posts(1) [OF m]]
  have "posts s (payoutPostings (sw_walletId sw) (w_id w) (potOf cid n s) (pres_amount r)
          (pres_platformFee r)) s2" by simp
  moreover have "sameLedger s2 s3"
    by (auto simp: s3_def completeSchedule_def)
  ultimately have p: "posts s (payoutPostings (sw_walletId sw) (w_id w) (potOf cid n s) (pres_amount r)
          (pres_platformFee r)) s3" by (rule posts_then_silent)
  obtain rs where rs: "posts s3 rs s'" "releaseOnly rs" "pres_isLastCycle r \<or> rs = []"
  proof (cases "n = c_durationCycles c")
    case True
    with fin have "finalizeCircleAndReleaseCollateral env 7 cid s3 = Inr s'"
      by (simp add: s3_def)
    from finalize_posts(1) [OF this] that True r show thesis by blast
  next
    case False
    with fin have "s' = s3" by (simp add: s3_def)
    with that [of "[]"] show thesis by (simp add: posts.finished)
  qed
  have "0 < pres_amount r" "0 < potOf cid n s"
    using payoutMovements_posts [OF m] by blast+
  moreover have "0 \<le> pres_platformFee r"
    using fee \<open>0 < potOf cid n s\<close>
    by (simp add: pos_imp_zdiv_nonneg_iff platformFeeOf_def PLATFORM_FEE_PERCENT_def)
  ultimately show thesis
    using that [OF l(1) _ posts_trans [OF p rs(1)] rs(2,3)] l(2) r by simp
qed

text \<open>Net payout, fee and loan deduction add up to the pot.\<close>

lemma processPayoutTx_split:
  assumes "processPayoutTx env cid n s = Inr (r, s')"
    and "\<And>l. l \<in> set (loans s) \<Longrightarrow> ln_userId l = pres_recipientId r \<Longrightarrow> ln_circleId l = cid \<Longrightarrow>
      ln_status l \<noteq> LS_ACTIVE"
  shows "pres_amount r + pres_platformFee r = potOf cid n s"
    and "pres_platformFee r = bigint_div (potOf cid n s * 2) 100"
proof -
  from assms(1) obtain rid repaid s1 where
    loan: "processLoanRepaymentInTx env rid cid (potOf cid n s) s =
          ((pres_amount r + pres_platformFee r, repaid), s1)"
    and fee: "pres_platformFee r = platformFeeOf repaid (potOf cid n s)"
    and rid: "pres_recipientId r = rid"
    by (rule processPayoutTx_Inr)
  have none: "findFirst (\<lambda>l. ln_userId l = rid \<and> ln_circleId l = cid \<and> ln_status l = LS_ACTIVE) (loans s) = None"
    using assms(2) rid by (auto simp: find_None_eq)
  with loan have "\<not> repaid" "pres_amount r + pres_platformFee r = potOf cid n s"
    by (auto simp: processLoanRepaymentInTx_def)
  with fee show "pres_amount r + pres_platformFee r = potOf cid n s"
    and "pres_platformFee r = bigint_div (potOf cid n s * 2) 100"
    by (simp_all add: platformFeeOf_def PLATFORM_FEE_PERCENT_def)
qed

section \<open>At most one payout per schedule\<close>

text \<open>Once a schedule has a payout row, whatever its status, no payout of its cycle can succeed.\<close>

definition payoutTaken :: "string \<Rightarrow> int \<Rightarrow> db \<Rightarrow> bool" where
  "payoutTaken cid n s \<longleftrightarrow>
     (\<exists>sch. currentSchedule cid n s = Some sch \<and> cs_id sch \<in> po_scheduleId ` set (payouts s))"

lemma payoutTaken_fails:
  assumes "payoutTaken cid n s"
  shows "\<exists>e. processPayout env cid n s = (Inl e, s)"
proof -
  have "\<exists>e. processPayoutTx env cid n s = Inl e"
  proof (rule ccontr)
    assume "\<not> ?thesis"
    then obtain r s' where ok: "processPayoutTx env cid n s = Inr (r, s')"
      using result_cases_state by metis
    from ok obtain sch rid repaid s1 and sw :: systemWallet and w :: wallet and ids s2 where
      sch: "currentSchedule cid n s = Some sch"
      and loan: "processLoanRepaymentInTx env rid cid (potOf cid n s) s =
          ((pres_amount r + pres_platformFee r, repaid), s1)"
      and m: "payoutMovements env (sw_walletId sw) (w_id w) (potOf cid n s) (pres_amount r)
          (pres_platformFee r) s1 = Inr (ids, s2)"
      and new: "cs_id sch \<notin> po_scheduleId ` set (payouts s2)"
      by (rule processPayoutTx_Inr) (rule that)
    have "payouts s2 = payouts s"
      using payoutMovements_posts(2) [OF m] processLoanRepayment_frame [OF loan]
      by (auto simp: ledgerOnly_frame)
    with new sch assms show False by (auto simp: payoutTaken_def)
  qed
  then show ?thesis by (auto simp: processPayout_def)
qed

lemma find_updateRow_image:
  assumes "\<And>x. Q (f x) = Q x" and "findFirst Q xs = Some x"
  shows "findFirst Q (updateRow P f xs) \<in> {Some x, Some (f x)}"
  using assms by (induction xs) (auto split: if_splits)

lemma currentSchedule_setStatus:
  assumes "currentSchedule cid n s = Some sch"
    and "schedules s' = updateRow P (\<lambda>x. x\<lparr>cs_status := st\<rparr>) (schedules s)"
  shows "currentSchedule cid n s' \<in> {Some sch, Some (sch\<lparr>cs_status := st\<rparr>)}"
  using assms find_updateRow_image [of "\<lambda>x. cs_circleId x = cid \<and> cs_cycleNumber x = n \<and>
      cs_obsoletedAt x = None" "\<lambda>x. x\<lparr>cs_status := st\<rparr>" "schedules s" sch P]
  by (simp add: currentSchedule_def)

definition trustOnly :: "db \<Rightarrow> db \<Rightarrow> bool" where
  "trustOnly s s' \<longleftrightarrow> (\<exists>st. s' = s\<lparr>allTrustStats := st\<rparr>)"

lemma trustOnly_refl [simp]: "trustOnly s s"
  by (auto simp: trustOnly_def intro: exI [of _ "allTrustStats s"])

lemma trustOnly_trans: "trustOnly s t \<Longrightarrow> trustOnly t u \<Longrightarrow> trustOnly s u"
  by (auto simp: trustOnly_def)

lemma tryTrust_frame: "trustOnly s (tryTrust env ev u s)"
  using updateTrustScore_frame [of env u ev s]
  by (cases "updateTrustScore env u ev s") (auto simp: tryTrust_def trustOnly_def [of s "x" for x])

lemma tryTrust_fold_frame: "trustOnly s (fold (tryTrust env ev) us s)"
proof (induction us arbitrary: s)
  case (Cons u us)
  show ?case
    using trustOnly_trans [OF tryTrust_frame Cons.IH] by simp
qed simp

lemma processPayout_ok:
  assumes "processPayout env cid n s = (Inr r, s')"
  obtains s1 where "processPayoutTx env cid n s = Inr (r, s1)"
    and "s' = recordMissedContributions env cid n
          (enqueueTransactionEvent (pres_recipientId r) (pres_amount r) (pres_payoutId r) s1)"
  using assms
  by (auto simp: processPayout_def transaction_def Let_def split: sum.splits prod.splits intro: that)

lemma walletEvents_self: "\<exists>ev. s = s\<lparr>walletEvents := ev\<rparr>" for s :: db
  by (rule exI [of _ "walletEvents s"]) simp

lemma enqueue_frame: "\<exists>ev. enqueueTransactionEvent u a p s = s\<lparr>walletEvents := ev\<rparr>"
proof (cases "userById u s")
  case None
  then show ?thesis using walletEvents_self [of s] by (simp add: enqueueTransactionEvent_def)
next
  case (Some x)
  show ?thesis
  proof (cases "endsWith (u_email x) ''@sim.test''")
    case True
    with Some show ?thesis using walletEvents_self [of s] by (simp add: enqueueTransactionEvent_def)
  next
    case False
    with Some show ?thesis
      by (intro exI [of _ "walletEvents s @ [\<lparr>ev_userId = u, ev_type = EV_CREDIT, ev_amountKobo = a,
              ev_reference = ''PAYOUT-'' @ p\<rparr>]"]) (simp add: enqueueTransactionEvent_def)
  qed
qed

lemma processPayout_frame:
  assumes "processPayout env cid n s = (Inr r, s')"
  obtains s1 where "processPayoutTx env cid n s = Inr (r, s1)" and "sameLedger s1 s'"
    and "payouts s' = payouts s1" and "schedules s' = schedules s1"
    and "memberships s' = memberships s1" and "circles s' = circles s1"
proof -
  from assms obtain s1 where 1: "processPayoutTx env cid n s = Inr (r, s1)"
    and 2: "s' = recordMissedContributions env cid n
          (enqueueTransactionEvent (pres_recipientId r) (pres_amount r) (pres_payoutId r) s1)"
    by (rule processPayout_ok)
  obtain ev where ev: "enqueueTransactionEvent (pres_recipientId r) (pres_amount r) (pres_payoutId r) s1
      = s1\<lparr>walletEvents := ev\<rparr>"
    using enqueue_frame by blast
  have "trustOnly (s1\<lparr>walletEvents := ev\<rparr>) s'"
    unfolding 2 ev recordMissedContributions_def by (rule tryTrust_fold_frame)
  then obtain st where "s' = s1\<lparr>walletEvents := ev, allTrustStats := st\<rparr>"
    by (auto simp: trustOnly_def)
  then show thesis using that [OF 1] by (simp add: sameLedger_def)
qed

lemma processPayout_takes:
  assumes "processPayout env cid n s = (Inr r, s')"
  shows "payoutTaken cid n s'"
proof -
  from assms obtain s1 where ok: "processPayoutTx env cid n s = Inr (r, s1)"
    and f: "payouts s' = payouts s1" "schedules s' = schedules s1"
    by (rule processPayout_frame)
  from ok obtain c :: circle and sch rid repaid s0 and sw :: systemWallet and w :: wallet and ids s2 where
    sch: "currentSchedule cid n s = Some sch"
    and loan: "processLoanRepaymentInTx env rid cid (potOf cid n s) s =
        ((pres_amount r + pres_platformFee r, repaid), s0)"
    and m: "payoutMovements env (sw_walletId sw) (w_id w) (potOf cid n s) (pres_amount r)
        (pres_platformFee r) s0 = Inr (ids, s2)"
    and fin: "(if n = c_durationCycles c
          then finalizeCircleAndReleaseCollateral env 7 cid
                 (completeSchedule sch (payoutRow env cid sch rid (pres_amount r) ids) s2)
          else Inr (completeSchedule sch (payoutRow env cid sch rid (pres_amount r) ids) s2)) = Inr s1"
    by (rule processPayoutTx_Inr) (rule that)
  define s3 where "s3 = completeSchedule sch (payoutRow env cid sch rid (pres_amount r) ids) s2"
  have "payouts s1 = payouts s3" "schedules s1 = schedules s3"
    using fin finalize_posts(2,3) [of env 7 cid s3 s1] by (auto simp: s3_def split: if_splits)
  moreover have "schedules s2 = schedules s"
    using payoutMovements_posts(2) [OF m] processLoanRepayment_frame [OF loan]
    by (auto simp: ledgerOnly_frame)
  ultimately have "currentSchedule cid n s' \<in> {Some sch, Some (sch\<lparr>cs_status := SS_COMPLETED\<rparr>)}"
    using f by (intro currentSchedule_setStatus [OF sch]) (simp add: s3_def completeSchedule_def)
  moreover have "cs_id sch \<in> po_scheduleId ` set (payouts s')"
    using f \<open>payouts s1 = payouts s3\<close> by (simp add: s3_def completeSchedule_def payoutRow_def)
  ultimately show ?thesis by (auto simp: payoutTaken_def)
qed

text \<open>A reversal keeps the payout's row, so the schedule stays taken.\<close>

lemma reversePayout_Inr:
  assumes "reversePayout env dto s = Inr s'"
  obtains p sw w e1 s1 e2 s2 where "payoutById (rp_originalPayoutId dto) s = Some p"
    and "po_status p \<noteq> PS_FAILED" and "systemWalletOf PLATFORM_POOL s = Some sw"
    and "walletOfUser (rp_recipientId dto) s = Some w"
    and "writeEntry (rnd env 2) (poolEntry DEBIT (w_id w) (rp_amount dto) (''REV-DEBIT-'' @ rnd env 1)
          ST_REVERSAL (rnd env 0)) s = Inr (e1, s1)"
    and "writeEntry (rnd env 4) (poolEntry CREDIT (sw_walletId sw) (rp_amount dto)
          (''REV-CRED-'' @ rnd env 3) ST_REVERSAL (rnd env 0)) s1 = Inr (e2, s2)"
    and "s' = audit (systemAudit ''PAYOUT_REVERSED'' ''ROSCA_PAYOUT'' (rp_originalPayoutId dto)
                   (rp_reason dto))
          (s2\<lparr>payouts := updateRow (\<lambda>x. po_id x = rp_originalPayoutId dto)
                (\<lambda>x. x\<lparr>po_status := PS_FAILED, po_failedAt := Some (now env),
                       po_reversalDebitId := Some (le_id e1),
                       po_reversalCreditId := Some (le_id e2)\<rparr>) (payouts s2),
              schedules := updateRow (\<lambda>x. cs_id x = rp_scheduleId dto)
                (\<lambda>x. x\<lparr>cs_status := SS_UPCOMING\<rparr>) (schedules s2)\<rparr>)"
  using assms
  by (auto simp: reversePayout_def setScheduleStatus_def Let_def result_simps intro!: that)

lemma reversePayout_posts:
  assumes "reversePayout env dto s = Inr s'"
  obtains sw w where "systemWalletOf PLATFORM_POOL s = Some sw"
    and "walletOfUser (rp_recipientId dto) s = Some w"
    and "posts s [debitOf (w_id w) (rp_amount dto), creditOf (sw_walletId sw) (rp_amount dto)] s'"
    and "rp_amount dto \<le> available s (w_id w)"
proof -
  from assms obtain sw w e1 s1 e2 s2 where l: "systemWalletOf PLATFORM_POOL s = Some sw"
    "walletOfUser (rp_recipientId dto) s = Some w"
    and 1: "writeEntry (rnd env 2) (poolEntry DEBIT (w_id w) (rp_amount dto) (''REV-DEBIT-'' @ rnd env 1)
          ST_REVERSAL (rnd env 0)) s = Inr (e1, s1)"
    and 2: "writeEntry (rnd env 4) (poolEntry CREDIT (sw_walletId sw) (rp_amount dto)
          (''REV-CRED-'' @ rnd env 3) ST_REVERSAL (rnd env 0)) s1 = Inr (e2, s2)"
    and 3: "s' = audit (systemAudit ''PAYOUT_REVERSED'' ''ROSCA_PAYOUT'' (rp_originalPayoutId dto)
                   (rp_reason dto))
          (s2\<lparr>payouts := updateRow (\<lambda>x. po_id x = rp_originalPayoutId dto)
                (\<lambda>x. x\<lparr>po_status := PS_FAILED, po_failedAt := Some (now env),
                       po_reversalDebitId := Some (le_id e1),
                       po_reversalCreditId := Some (le_id e2)\<rparr>) (payouts s2),
              schedules := updateRow (\<lambda>x. cs_id x = rp_scheduleId dto)
                (\<lambda>x. x\<lparr>cs_status := SS_UPCOMING\<rparr>) (schedules s2)\<rparr>)"
    by (rule reversePayout_Inr)
  have "sameLedger s2 s'" by (auto simp: 3)
  with posts_two [OF 1 2] have "posts s [debitOf (w_id w) (rp_amount dto),
      creditOf (sw_walletId sw) (rp_amount dto)] s'"
    using posts_then_silent by fastforce
  moreover have "rp_amount dto \<le> available s (w_id w)"
    using 1 by (simp add: writeEntry_Inr_iff writeAllowed_def)
  ultimately show thesis using that l by blast
qed

lemma reversePayout_stillTaken:
  assumes "reversePayout env dto s = Inr s'" and "payoutTaken cid n s"
  shows "payoutTaken cid n s'"
proof -
  from assms(1) obtain sw :: systemWallet and w :: wallet and e1 s1 e2 s2 where
    1: "writeEntry (rnd env 2) (poolEntry DEBIT (w_id w) (rp_amount dto) (''REV-DEBIT-'' @ rnd env 1)
          ST_REVERSAL (rnd env 0)) s = Inr (e1, s1)"
    and 2: "writeEntry (rnd env 4) (poolEntry CREDIT (sw_walletId sw) (rp_amount dto)
          (''REV-CRED-'' @ rnd env 3) ST_REVERSAL (rnd env 0)) s1 = Inr (e2, s2)"
    and 3: "s' = audit (systemAudit ''PAYOUT_REVERSED'' ''ROSCA_PAYOUT'' (rp_originalPayoutId dto)
                   (rp_reason dto))
          (s2\<lparr>payouts := updateRow (\<lambda>x. po_id x = rp_originalPayoutId dto)
                (\<lambda>x. x\<lparr>po_status := PS_FAILED, po_failedAt := Some (now env),
                       po_reversalDebitId := Some (le_id e1),
                       po_reversalCreditId := Some (le_id e2)\<rparr>) (payouts s2),
              schedules := updateRow (\<lambda>x. cs_id x = rp_scheduleId dto)
                (\<lambda>x. x\<lparr>cs_status := SS_UPCOMING\<rparr>) (schedules s2)\<rparr>)"
    by (rule reversePayout_Inr) (rule that)
  have fr: "ledgerOnly s s2" using posts_two [OF 1 2] by blast
  have "map po_scheduleId (payouts s') = map po_scheduleId (payouts s)"
    using ledgerOnly_frame(9) [OF fr] by (simp add: 3 audit_def map_updateRow)
  then have ids: "po_scheduleId ` set (payouts s') = po_scheduleId ` set (payouts s)"
    by (metis list.set_map)
  from assms(2) obtain sch where sch: "currentSchedule cid n s = Some sch"
    "cs_id sch \<in> po_scheduleId ` set (payouts s)"
    by (auto simp: payoutTaken_def)
  have "currentSchedule cid n s' \<in> {Some sch, Some (sch\<lparr>cs_status := SS_UPCOMING\<rparr>)}"
    using ledgerOnly_frame(7) [OF fr]
    by (intro currentSchedule_setStatus [OF sch(1)]) (simp add: 3 audit_def)
  with sch(2) ids show ?thesis by (auto simp: payoutTaken_def)
qed

text \<open>
  So a reversed payout can never be retried, as long as its schedule is its cycle's current one:
  the unique \<^verbatim>\<open>scheduleId\<close> of the failed row refuses the new one.
\<close>

lemma retryPayout_refused:
  assumes "payoutById pid s = Some p" and "scheduleById (po_scheduleId p) s = Some sch"
    and "currentSchedule (po_circleId p) (cs_cycleNumber sch) s = Some sch"
  shows "\<exists>e. retryPayout env pid s = (Inl e, s)"
proof -
  have "p \<in> set (payouts s)" "cs_id sch = po_scheduleId p"
    using assms(1,2) find_SomeD [of "\<lambda>p. po_id p = pid" "payouts s" p]
      find_SomeD [of "\<lambda>x. cs_id x = po_scheduleId p" "schedules s" sch]
    by (auto simp: payoutById_def scheduleById_def)
  then have "payoutTaken (po_circleId p) (cs_cycleNumber sch) s"
    using assms(3) by (auto simp: payoutTaken_def)
  from payoutTaken_fails [OF this] assms(1,2) show ?thesis
    by (auto simp: retryPayout_def)
qed

section \<open>The last cycle\<close>

text \<open>
  Finalizing releases every unreleased membership of the circle whose user has a wallet, and marks
  it completed, whatever its status was.
\<close>

lemma completeMember_id [simp]:
  "m_id (completeMember env m) = m_id m" "m_userId (completeMember env m) = m_userId m"
  "m_circleId (completeMember env m) = m_circleId m"
  "m_collateralAmount (completeMember env m) = m_collateralAmount m"
  "m_collateralReleased (completeMember env m)" "m_status (completeMember env m) = MS_COMPLETED"
  by (simp_all add: completeMember_def)

lemma releaseCollaterals_ids:
  "releaseCollaterals env k ms s = Inr s' \<Longrightarrow>
   map m_id (memberships s') = map m_id (memberships s) \<and> wallets s' = wallets s"
proof (induction ms arbitrary: k s)
  case (Cons m ms)
  show ?case
  proof (cases "walletOfUser (m_userId m) s")
    case None
    with Cons show ?thesis by simp
  next
    case (Some w)
    with Cons.prems obtain e s1 where
      1: "writeEntry (rnd env (k + 1))
            (releaseEntry (w_id w) m (''COLL-REL-'' @ rnd env k) ST_COLLATERAL_RELEASE) s = Inr (e, s1)"
      and 2: "releaseCollaterals env (k + 2) ms (updateMembership (m_id m) (completeMember env) s1) = Inr s'"
      by (auto simp: result_simps)
    from Cons.IH [OF 2] writeEntry_frame(1,6) [OF 1] show ?thesis
      by (simp add: map_updateRow)
  qed
qed simp

lemma updateRow_done:
  assumes "distinct (map k rs)" and "r \<in> set rs" and "k r = x"
  shows "f r \<in> set (updateRow (\<lambda>m. k m = x) f rs)"
  using assms by (induction rs) (auto simp: image_iff)

lemma updateRow_keep:
  "r \<in> set rs \<Longrightarrow> \<not> P r \<Longrightarrow> r \<in> set (updateRow P f rs)"
  by (induction rs) auto

lemma releaseCollaterals_keeps:
  "releaseCollaterals env k ms s = Inr s' \<Longrightarrow> r \<in> set (memberships s) \<Longrightarrow> m_id r \<notin> m_id ` set ms \<Longrightarrow>
   r \<in> set (memberships s')"
proof (induction ms arbitrary: k s)
  case (Cons m ms)
  show ?case
  proof (cases "walletOfUser (m_userId m) s")
    case None
    with Cons show ?thesis by simp
  next
    case (Some w)
    with Cons.prems obtain e s1 where
      1: "writeEntry (rnd env (k + 1))
            (releaseEntry (w_id w) m (''COLL-REL-'' @ rnd env k) ST_COLLATERAL_RELEASE) s = Inr (e, s1)"
      and 2: "releaseCollaterals env (k + 2) ms (updateMembership (m_id m) (completeMember env) s1) = Inr s'"
      by (auto simp: result_simps)
    have "r \<in> set (memberships (updateMembership (m_id m) (completeMember env) s1))"
      using Cons.prems writeEntry_frame(6) [OF 1] by (auto intro: updateRow_keep)
    from Cons.IH [OF 2 this] Cons.prems show ?thesis by simp
  qed
qed simp

lemma releaseCollaterals_completes:
  "releaseCollaterals env k ms s = Inr s' \<Longrightarrow> distinct (map m_id (memberships s)) \<Longrightarrow>
   distinct (map m_id ms) \<Longrightarrow> set ms \<subseteq> set (memberships s) \<Longrightarrow> r \<in> set ms \<Longrightarrow>
   walletOfUser (m_userId r) s \<noteq> None \<Longrightarrow> completeMember env r \<in> set (memberships s')"
proof (induction ms arbitrary: k s)
  case (Cons m ms)
  show ?case
  proof (cases "walletOfUser (m_userId m) s")
    case None
    with Cons show ?thesis by auto
  next
    case (Some w)
    with Cons.prems obtain e s1 where
      1: "writeEntry (rnd env (k + 1))
            (releaseEntry (w_id w) m (''COLL-REL-'' @ rnd env k) ST_COLLATERAL_RELEASE) s = Inr (e, s1)"
      and 2: "releaseCollaterals env (k + 2) ms (updateMembership (m_id m) (completeMember env) s1) = Inr s'"
      by (auto simp: result_simps)
    let ?s2 = "updateMembership (m_id m) (completeMember env) s1"
    have s1: "memberships s1 = memberships s" "wallets s1 = wallets s"
      using writeEntry_frame(1,6) [OF 1] by simp_all
    then have ids: "map m_id (memberships ?s2) = map m_id (memberships s)"
      by (simp add: map_updateRow)
    show ?thesis
    proof (cases "r = m")
      case True
      have "completeMember env m \<in> set (memberships ?s2)"
        using Cons.prems s1 by (auto intro: updateRow_done)
      then have "completeMember env m \<in> set (memberships s')"
        using releaseCollaterals_keeps [OF 2] Cons.prems(3) by simp
      with True show ?thesis by simp
    next
      case False
      have "set ms \<subseteq> set (memberships ?s2)"
        using Cons.prems(3,4) s1 by (force intro!: updateRow_keep simp: image_iff)
      moreover have "walletOfUser (m_userId r) ?s2 \<noteq> None"
        using Cons.prems(6) s1 by (simp add: walletOfUser_def)
      ultimately show ?thesis
        using Cons.IH [OF 2] Cons.prems ids False by simp
    qed
  qed
qed simp

text \<open>The payout of the last cycle completes every membership it releases.\<close>

lemma processPayoutTx_completes:
  assumes "processPayoutTx env cid n s = Inr (r, s')" and "pres_isLastCycle r"
    and "distinct (map m_id (memberships s))" and "m \<in> set (memberships s)" and "m_circleId m = cid"
    and "\<not> m_collateralReleased m" and "walletOfUser (m_userId m) s \<noteq> None"
  shows "completeMember env m \<in> set (memberships s')"
  using assms(1)
proof (rule processPayoutTx_Inr)
  fix c sch rid repaid s1 ids s2 and sw :: systemWallet and w :: wallet
  assume loan: "processLoanRepaymentInTx env rid cid (potOf cid n s) s =
          ((pres_amount r + pres_platformFee r, repaid), s1)"
    and mov: "payoutMovements env (sw_walletId sw) (w_id w) (potOf cid n s) (pres_amount r)
          (pres_platformFee r) s1 = Inr (ids, s2)"
    and fin: "(if n = c_durationCycles c
          then finalizeCircleAndReleaseCollateral env 7 cid
                 (completeSchedule sch (payoutRow env cid sch rid (pres_amount r) ids) s2)
          else Inr (completeSchedule sch (payoutRow env cid sch rid (pres_amount r) ids) s2)) = Inr s'"
    and last: "pres_isLastCycle r = (n = c_durationCycles c)"
  define t where "t = completeSchedule sch (payoutRow env cid sch rid (pres_amount r) ids) s2"
  obtain ls where "s1 = s\<lparr>loans := ls\<rparr>"
    using processLoanRepayment_frame [OF loan] by blast
  then have t: "memberships t = memberships s" "wallets t = wallets s"
    using payoutMovements_posts(2) [OF mov] ledgerOnly_frame(1,6) by (simp_all add: t_def completeSchedule_def)
  let ?ms = "filter (\<lambda>m. m_circleId m = cid \<and> \<not> m_collateralReleased m) (memberships s)"
  obtain s3 where rel: "releaseCollaterals env 7 ?ms t = Inr s3" and ms: "memberships s' = memberships s3"
    using fin last assms(2) t(1) by (auto simp: t_def [symmetric] elim!: finalize_Inr)
  have "completeMember env m \<in> set (memberships s3)"
    using assms(3-7) t by (intro releaseCollaterals_completes [OF rel])
      (auto simp: distinct_map_filter walletOfUser_def)
  then show ?thesis by (simp add: ms)
qed

end
