(* ===== verification/PayoutSorter.thy ===== *)
theory PayoutSorter
  imports Schema "HOL-Library.Product_Lexorder"
begin

text \<open>
  \<^verbatim>\<open>src/modules/rosca/payout-sorter.util.ts\<close>: the order in which the members of a circle are paid.
  The comparators work on JavaScript numbers with \<^verbatim>\<open>Infinity\<close> for a missing date or position; the
  locale \<open>comparator_sort\<close> shows once that sorting with a comparator that agrees with a key is the
  stable sort by that key, and each of the four comparators is an instance.  The random draw is a
  Fisher-Yates shuffle: a permutation, and every sequence of draws gives a different one.
\<close>

section \<open>JavaScript numbers and comparators\<close>

datatype jsNumber = Fin int | Infinity

datatype jsDiff = Diff int | MinusInfinity | PlusInfinity | NaN

fun jsSub :: "jsNumber \<Rightarrow> jsNumber \<Rightarrow> jsDiff" where
  "jsSub (Fin a) (Fin b) = Diff (a - b)"
| "jsSub (Fin a) Infinity = MinusInfinity"
| "jsSub Infinity (Fin b) = PlusInfinity"
| "jsSub Infinity Infinity = NaN"

text \<open>\<^verbatim>\<open>Array.sort\<close> puts \<open>a\<close> after \<open>b\<close> only when the comparator is positive; \<^verbatim>\<open>NaN\<close> counts as 0.\<close>

fun notAfter :: "jsDiff \<Rightarrow> bool" where
  "notAfter (Diff d) \<longleftrightarrow> d \<le> 0"
| "notAfter MinusInfinity \<longleftrightarrow> True"
| "notAfter PlusInfinity \<longleftrightarrow> False"
| "notAfter NaN \<longleftrightarrow> True"

instantiation jsNumber :: linorder
begin

fun less_eq_jsNumber :: "jsNumber \<Rightarrow> jsNumber \<Rightarrow> bool" where
  "Fin a \<le> Fin b \<longleftrightarrow> a \<le> b"
| "Fin a \<le> Infinity \<longleftrightarrow> True"
| "Infinity \<le> Fin b \<longleftrightarrow> False"
| "Infinity \<le> Infinity \<longleftrightarrow> True"

definition less_jsNumber :: "jsNumber \<Rightarrow> jsNumber \<Rightarrow> bool" where
  "less_jsNumber a b \<longleftrightarrow> a \<le> b \<and> \<not> b \<le> a"

instance
proof
  fix a b c :: jsNumber
  show "a < b \<longleftrightarrow> a \<le> b \<and> \<not> b \<le> a" by (rule less_jsNumber_def)
  show "a \<le> a" by (cases a) auto
  show "a \<le> b \<Longrightarrow> b \<le> c \<Longrightarrow> a \<le> c" by (cases a; cases b; cases c) auto
  show "a \<le> b \<Longrightarrow> b \<le> a \<Longrightarrow> a = b" by (cases a; cases b) auto
  show "a \<le> b \<or> b \<le> a" by (cases a; cases b) auto
qed

end

text \<open>
  \<^verbatim>\<open>Array.prototype.sort\<close> is stable, so with a consistent comparator its result is determined; an
  insertion sort computes it.
\<close>

fun insertBy :: "('a \<Rightarrow> 'a \<Rightarrow> jsDiff) \<Rightarrow> 'a \<Rightarrow> 'a list \<Rightarrow> 'a list" where
  "insertBy cmp x [] = [x]"
| "insertBy cmp x (y # ys) = (if notAfter (cmp x y) then x # y # ys else y # insertBy cmp x ys)"

definition jsSort :: "('a \<Rightarrow> 'a \<Rightarrow> jsDiff) \<Rightarrow> 'a list \<Rightarrow> 'a list" where
  "jsSort cmp xs = foldr (insertBy cmp) xs []"

section \<open>The orders\<close>

type_synonym memberWithTrust = "membership \<times> trustStats option"

definition optNumber :: "int option \<Rightarrow> jsNumber" where
  "optNumber x = (case x of Some n \<Rightarrow> Fin n | None \<Rightarrow> Infinity)"

definition joinedTime :: "memberWithTrust \<Rightarrow> jsNumber" where
  "joinedTime m = optNumber (m_joinedAt (fst m))"

definition positionOf :: "memberWithTrust \<Rightarrow> jsNumber" where
  "positionOf m = optNumber (m_payoutPosition (fst m))"

definition scoreOf :: "memberWithTrust \<Rightarrow> int" where
  "scoreOf m = (case snd m of Some st \<Rightarrow> ts_trustScore st | None \<Rightarrow> 1)"

definition sequentialCmp :: "memberWithTrust \<Rightarrow> memberWithTrust \<Rightarrow> jsDiff" where
  "sequentialCmp a b = jsSub (joinedTime a) (joinedTime b)"

definition trustScoreCmp :: "memberWithTrust \<Rightarrow> memberWithTrust \<Rightarrow> jsDiff" where
  "trustScoreCmp a b = Diff (scoreOf b - scoreOf a)"

definition adminAssignedCmp :: "memberWithTrust \<Rightarrow> memberWithTrust \<Rightarrow> jsDiff" where
  "adminAssignedCmp a b = jsSub (positionOf a) (positionOf b)"

definition combinedCmp :: "memberWithTrust \<Rightarrow> memberWithTrust \<Rightarrow> jsDiff" where
  "combinedCmp a b =
     (if scoreOf b \<noteq> scoreOf a then Diff (scoreOf b - scoreOf a)
      else jsSub (joinedTime a) (joinedTime b))"

definition swapAt :: "'a list \<Rightarrow> nat \<Rightarrow> nat \<Rightarrow> 'a list" where
  "swapAt xs i j = xs[i := xs ! j, j := xs ! i]"

text \<open>The loop from the last index down to 1; \<open>draw i\<close> is the index drawn at \<open>i\<close>.\<close>

fun shuffle :: "(nat \<Rightarrow> nat) \<Rightarrow> nat \<Rightarrow> 'a list \<Rightarrow> 'a list" where
  "shuffle draw 0 xs = xs"
| "shuffle draw (Suc i) xs = shuffle draw i (swapAt xs (Suc i) (draw (Suc i)))"

text \<open>\<^verbatim>\<open>Math.floor(Math.random() * (i + 1))\<close>, where \<open>rand i\<close> is the number drawn at \<open>i\<close>.\<close>

definition drawIndex :: "(nat \<Rightarrow> rat) \<Rightarrow> nat \<Rightarrow> nat" where
  "drawIndex rand i = nat \<lfloor>rand i * of_nat (i + 1)\<rfloor>"

definition sortByRandom :: "(nat \<Rightarrow> rat) \<Rightarrow> 'a list \<Rightarrow> 'a list" where
  "sortByRandom rand members = shuffle (drawIndex rand) (length members - 1) members"

definition sortMembers ::
  "(nat \<Rightarrow> rat) \<Rightarrow> payoutLogic \<Rightarrow> memberWithTrust list \<Rightarrow> memberWithTrust list" where
  "sortMembers rand logic members =
     (case logic of
        RANDOM_DRAW \<Rightarrow> sortByRandom rand members
      | SEQUENTIAL \<Rightarrow> jsSort sequentialCmp members
      | TRUST_SCORE \<Rightarrow> jsSort trustScoreCmp members
      | ADMIN_ASSIGNED \<Rightarrow> jsSort adminAssignedCmp members
      | COMBINED \<Rightarrow> jsSort combinedCmp members)"

section \<open>Sorting with a comparator\<close>

lemma mset_insertBy [simp]: "mset (insertBy cmp x xs) = add_mset x (mset xs)"
  by (induction xs) auto

lemma mset_jsSort [simp]: "mset (jsSort cmp xs) = mset xs"
  by (induction xs) (simp_all add: jsSort_def)

locale comparator_sort =
  fixes cmp :: "'a \<Rightarrow> 'a \<Rightarrow> jsDiff"
    and key :: "'a \<Rightarrow> 'k :: linorder"
  assumes cmp_key: "notAfter (cmp a b) \<longleftrightarrow> key a \<le> key b"
begin

lemma insertBy_insort: "insertBy cmp x xs = insort_key key x xs"
  by (induction xs) (simp_all add: cmp_key)

lemma jsSort_sort_key: "jsSort cmp xs = sort_key key xs"
  unfolding jsSort_def sort_key_def by (induction xs) (simp_all add: insertBy_insort)

lemma jsSort_sorted: "sorted (map key (jsSort cmp xs))"
  by (simp add: jsSort_sort_key)

text \<open>Members that compare equal keep the order they had.\<close>

lemma jsSort_stable: "filter (\<lambda>y. key y = k) (jsSort cmp xs) = filter (\<lambda>y. key y = k) xs"
  by (simp add: jsSort_sort_key sort_key_stable)

end

lemma notAfter_jsSub [simp]: "notAfter (jsSub a b) \<longleftrightarrow> a \<le> b"
  by (cases a; cases b) auto

interpretation sequential: comparator_sort sequentialCmp joinedTime
  by unfold_locales (simp add: sequentialCmp_def)

interpretation trustScore: comparator_sort trustScoreCmp "\<lambda>m. - scoreOf m"
  by unfold_locales (simp add: trustScoreCmp_def)

interpretation adminAssigned: comparator_sort adminAssignedCmp positionOf
  by unfold_locales (simp add: adminAssignedCmp_def)

interpretation combined: comparator_sort combinedCmp "\<lambda>m. (- scoreOf m, joinedTime m)"
  by unfold_locales (auto simp: combinedCmp_def)

section \<open>The random draw\<close>

lemma length_swapAt [simp]: "length (swapAt xs i j) = length xs"
  by (simp add: swapAt_def)

lemma mset_swapAt: "i < length xs \<Longrightarrow> j < length xs \<Longrightarrow> mset (swapAt xs i j) = mset xs"
  by (simp add: swapAt_def mset_swap)

lemma drawIndex_range: "0 \<le> rand i \<Longrightarrow> rand i < 1 \<Longrightarrow> drawIndex rand i \<le> i"
proof -
  assume r: "0 \<le> rand i" "rand i < 1"
  have "rand i * of_nat (i + 1) < 1 * of_nat (i + 1)"
    using r by (intro mult_strict_right_mono) simp_all
  then have "\<lfloor>rand i * of_nat (i + 1)\<rfloor> < int (i + 1)"
    by (simp add: floor_less_iff)
  then show ?thesis by (simp add: drawIndex_def)
qed

lemma mset_shuffle:
  "i < length xs \<or> xs = [] \<and> i = 0 \<Longrightarrow> (\<And>k. k \<le> i \<Longrightarrow> d k \<le> k) \<Longrightarrow> mset (shuffle d i xs) = mset xs"
proof (induction i arbitrary: xs)
  case (Suc i)
  have "d (Suc i) \<le> Suc i" using Suc.prems(2) by blast
  then have "mset (swapAt xs (Suc i) (d (Suc i))) = mset xs"
    using Suc.prems(1) by (intro mset_swapAt) auto
  moreover have "i < length (swapAt xs (Suc i) (d (Suc i)))"
    using Suc.prems(1) by auto
  ultimately show ?case
    using Suc.IH [of "swapAt xs (Suc i) (d (Suc i))"] Suc.prems(2) by simp
qed simp

lemma mset_sortByRandom:
  assumes "\<And>i. 0 \<le> rand i \<and> rand i < 1"
  shows "mset (sortByRandom rand xs) = mset xs"
proof (cases xs)
  case Nil
  then show ?thesis by (simp add: sortByRandom_def)
next
  case (Cons a as)
  have "drawIndex rand k \<le> k" for k
    using assms drawIndex_range by blast
  with Cons show ?thesis
    unfolding sortByRandom_def by (intro mset_shuffle) simp_all
qed

text \<open>An index above the loop's bound is never touched again.\<close>

lemma shuffle_above: "i < k \<Longrightarrow> (\<And>j. j \<le> i \<Longrightarrow> d j \<le> j) \<Longrightarrow> shuffle d i xs ! k = xs ! k"
proof (induction i arbitrary: xs)
  case (Suc i)
  have "d (Suc i) \<le> Suc i" using Suc.prems(2) by blast
  then have "d (Suc i) \<noteq> k" "Suc i \<noteq> k" using Suc.prems(1) by auto
  with Suc show ?case by (simp add: swapAt_def)
qed simp

lemma swapAt_inj:
  assumes "swapAt xs i j = swapAt ys i j" and "length xs = length ys" and "i < length xs" and "j < length xs"
  shows "xs = ys"
proof -
  have "swapAt (swapAt zs i j) i j = zs" if "i < length zs" "j < length zs" for zs :: "'a list"
    using that by (intro nth_equalityI) (auto simp: swapAt_def nth_list_update)
  with assms show ?thesis by metis
qed

text \<open>
  Different draws give different orders: with distinct members the draws can be read off the
  result.  As there are as many sequences of draws as orders, a uniform draw gives a uniform order.
\<close>

lemma shuffle_injective:
  "distinct xs \<Longrightarrow> i < length xs \<Longrightarrow> (\<And>k. k \<le> i \<Longrightarrow> d k \<le> k) \<Longrightarrow> (\<And>k. k \<le> i \<Longrightarrow> e k \<le> k) \<Longrightarrow>
   shuffle d i xs = shuffle e i xs \<Longrightarrow> 1 \<le> k \<Longrightarrow> k \<le> i \<Longrightarrow> d k = e k"
proof (induction i arbitrary: xs)
  case (Suc i)
  let ?j = "d (Suc i)" and ?l = "e (Suc i)"
  have j: "?j \<le> Suc i" "?l \<le> Suc i" using Suc.prems(3,4) by blast+
  have "shuffle d i (swapAt xs (Suc i) ?j) ! Suc i = swapAt xs (Suc i) ?j ! Suc i"
    "shuffle e i (swapAt xs (Suc i) ?l) ! Suc i = swapAt xs (Suc i) ?l ! Suc i"
    using Suc.prems(3,4) by (intro shuffle_above; simp)+
  then have "swapAt xs (Suc i) ?j ! Suc i = swapAt xs (Suc i) ?l ! Suc i"
    using Suc.prems(5) by simp
  then have "xs ! ?j = xs ! ?l"
    using Suc.prems(2) j by (auto simp: swapAt_def nth_list_update split: if_splits)
  then have eq: "?j = ?l"
    using Suc.prems(1,2) j by (simp add: nth_eq_iff_index_eq)
  have "distinct (swapAt xs (Suc i) ?j)"
    using Suc.prems(1,2) j mset_swapAt [of "Suc i" xs ?j] by (metis le_less_trans mset_eq_imp_distinct_iff)
  then show ?case
    using Suc.IH [of "swapAt xs (Suc i) ?j"] Suc.prems eq by (cases "k = Suc i") auto
qed simp

lemma mset_sortMembers:
  assumes "\<And>i. 0 \<le> rand i \<and> rand i < 1"
  shows "mset (sortMembers rand logic ms) = mset ms"
  using mset_sortByRandom [of rand ms] assms by (cases logic) (simp_all add: sortMembers_def)

end
