(* ===== verification/Wallet.thy ===== *)
theory Wallet
  imports Ledger
begin

text \<open>
  \<^verbatim>\<open>src/modules/wallet/wallet.service.ts\<close>, \<^verbatim>\<open>src/modules/wallet/dto/wallet.dto.ts\<close> (the kobo and
  naira conversions) and \<^verbatim>\<open>src/modules/buckets/bucket.service.ts\<close>: one wallet per user, its status,
  its balance as the ledger gives it, and the reservation of funds in buckets.
\<close>

section \<open>Wallets\<close>

definition insertWallet :: "wallet \<Rightarrow> db \<Rightarrow> db result" where
  "insertWallet w s =
     (if list_ex (\<lambda>x. w_id x = w_id w \<or> w_userId x = w_userId w) (wallets s)
      then Inl (PrismaError ''P2002'')
      else Inr (s\<lparr>wallets := wallets s @ [w]\<rparr>))"

definition createWallet :: "env \<Rightarrow> string \<Rightarrow> db \<Rightarrow> (wallet \<times> db) result" where
  "createWallet env userId s =
     bindE (ensure (walletOfUser userId s = None) (Conflict ''Wallet already exists for user'')) (\<lambda>_.
     let w = \<lparr>w_id = rnd env 0, w_userId = userId, w_currency = ''NGN'', w_status = WS_ACTIVE\<rparr>
     in bindE (insertWallet w s) (\<lambda>s'. Inr (w, s')))"

definition getOrCreateWallet :: "env \<Rightarrow> string \<Rightarrow> db \<Rightarrow> (wallet \<times> db) result" where
  "getOrCreateWallet env userId s =
     bindE (ensure (userId \<noteq> '''') (BadRequest ''Invalid userId'')) (\<lambda>_.
     case walletOfUser userId s of
       Some w \<Rightarrow> Inr (w, s)
     | None \<Rightarrow> createWallet env userId s)"

definition getWalletById :: "string \<Rightarrow> db \<Rightarrow> wallet result" where
  "getWalletById wid s = orThrow (NotFound ''Wallet not found'') (walletById wid s)"

definition getWalletWithBalance :: "env \<Rightarrow> string \<Rightarrow> db \<Rightarrow> ((wallet \<times> balance) \<times> db) result" where
  "getWalletWithBalance env userId s =
     bindE (getOrCreateWallet env userId s) (\<lambda>(w, s').
     Inr ((w, getDetailedBalance s' (w_id w)), s'))"

definition updateWalletStatus :: "string \<Rightarrow> walletStatus \<Rightarrow> db \<Rightarrow> (wallet \<times> db) result" where
  "updateWalletStatus wid st s =
     bindE (getWalletById wid s) (\<lambda>w.
     Inr (w\<lparr>w_status := st\<rparr>,
          s\<lparr>wallets := updateRow (\<lambda>x. w_id x = wid) (\<lambda>x. x\<lparr>w_status := st\<rparr>) (wallets s)\<rparr>))"

definition isWalletActive :: "string \<Rightarrow> db \<Rightarrow> bool" where
  "isWalletActive wid s =
     (case walletById wid s of Some w \<Rightarrow> w_status w = WS_ACTIVE | None \<Rightarrow> False)"

definition canWithdraw :: "string \<Rightarrow> db \<Rightarrow> bool result" where
  "canWithdraw wid s =
     bindE (getWalletById wid s) (\<lambda>w. Inr (w_status w = WS_ACTIVE \<or> w_status w = WS_RESTRICTED))"

record walletStats =
  wst_totalTransactions :: nat
  wst_totalCredits :: nat
  wst_totalDebits :: nat

definition getWalletStats :: "string \<Rightarrow> db \<Rightarrow> walletStats result" where
  "getWalletStats wid s =
     bindE (getWalletById wid s) (\<lambda>_.
     Inr \<lparr>wst_totalTransactions = length (entriesOf wid s),
          wst_totalCredits = length (filter (\<lambda>e. le_entryType e = CREDIT) (entriesOf wid s)),
          wst_totalDebits = length (filter (\<lambda>e. le_entryType e = DEBIT) (entriesOf wid s))\<rparr>)"

definition hasSufficientBalance :: "string \<Rightarrow> int \<Rightarrow> db \<Rightarrow> bool" where
  "hasSufficientBalance wid amount s \<longleftrightarrow> amount \<le> bal_available (getDetailedBalance s wid)"

definition freezeWallet :: "string \<Rightarrow> db \<Rightarrow> (wallet \<times> db) result" where
  "freezeWallet wid s = updateWalletStatus wid WS_SUSPENDED s"

definition unfreezeWallet :: "string \<Rightarrow> db \<Rightarrow> (wallet \<times> db) result" where
  "unfreezeWallet wid s = updateWalletStatus wid WS_ACTIVE s"

definition getWalletBuckets :: "string \<Rightarrow> db \<Rightarrow> walletBucket list result" where
  "getWalletBuckets wid s =
     bindE (getWalletById wid s) (\<lambda>_. Inr (filter (\<lambda>b. wb_walletId b = wid) (walletBuckets s)))"

definition verifyWalletOwnership :: "string \<Rightarrow> string \<Rightarrow> db \<Rightarrow> unit result" where
  "verifyWalletOwnership wid userId s =
     bindE (getWalletById wid s) (\<lambda>w.
     ensure (w_userId w = userId) (NotFound ''Wallet not found or does not belong to user''))"

section \<open>Kobo and naira\<close>

text \<open>
  \<^verbatim>\<open>toFixed(2)\<close> rounds the absolute value to two decimals, a half up, and puts the sign back.
\<close>

definition koboToNaira :: "int \<Rightarrow> rat" where
  "koboToNaira kobo = of_int kobo / 100"

definition toFixed2 :: "rat \<Rightarrow> rat" where
  "toFixed2 x = (if x < 0 then - (of_int \<lfloor>- x * 100 + 1 / 2\<rfloor> / 100)
                 else of_int \<lfloor>x * 100 + 1 / 2\<rfloor> / 100)"

definition nairaToKobo :: "rat \<Rightarrow> int" where
  "nairaToKobo naira = math_round (toFixed2 naira * 100)"

section \<open>Buckets\<close>

fun mapBucketToSourceType :: "bucketType \<Rightarrow> ledgerSourceType" where
  "mapBucketToSourceType BT_ROSCA = ST_ROSCA_CIRCLE"
| "mapBucketToSourceType _ = ST_SYSTEM"

record bucketParams =
  bp_walletId :: string
  bp_bucketType :: bucketType
  bp_sourceId :: string
  bp_amount :: int
  bp_reference :: string

definition bucketEntry :: "entryType \<Rightarrow> bucketParams \<Rightarrow> entryParams" where
  "bucketEntry t b =
     \<lparr>wp_walletId = bp_walletId b, wp_entryType = t, wp_movementType = TRANSFER,
      wp_bucketType = Some (bp_bucketType b), wp_amount = bp_amount b,
      wp_reference = bp_reference b, wp_sourceType = mapBucketToSourceType (bp_bucketType b),
      wp_sourceId = bp_sourceId b\<rparr>"

definition reserveFunds :: "env \<Rightarrow> bucketParams \<Rightarrow> db \<Rightarrow> db result" where
  "reserveFunds env b s =
     bindE (writeEntry (rnd env 0) (bucketEntry RESERVE b) s) (\<lambda>(_, s'). Inr s')"

definition releaseFunds :: "env \<Rightarrow> bucketParams \<Rightarrow> db \<Rightarrow> db result" where
  "releaseFunds env b s =
     bindE (writeEntry (rnd env 0) (bucketEntry RELEASE b) s) (\<lambda>(_, s'). Inr s')"

definition getBucketStatus :: "string \<Rightarrow> db \<Rightarrow> walletBucket list" where
  "getBucketStatus wid s =
     filter (\<lambda>b. wb_walletId b = wid \<and> 0 < wb_reservedAmount b) (walletBuckets s)"

section \<open>Correctness\<close>

interpretation walletByUser: keyed_table wallets w_userId insertWallet
  by unfold_locales (auto simp: insertWallet_def list_ex_iff split: if_splits)

text \<open>A second wallet for a user is refused, and asking for the wallet again returns the same one.\<close>

lemma createWallet_Inr:
  "createWallet env u s = Inr (w, s') \<Longrightarrow>
   walletOfUser u s = None \<and> w_userId w = u \<and> w_status w = WS_ACTIVE \<and>
   insertWallet w s = Inr s' \<and> wallets s' = wallets s @ [w]"
  by (auto simp: createWallet_def result_simps Let_def insertWallet_def split: if_splits)

lemma getOrCreateWallet_Inr:
  assumes "getOrCreateWallet env u s = Inr (w, s')"
  shows "walletOfUser u s' = Some w"
proof (cases "walletOfUser u s")
  case None
  with assms have "createWallet env u s = Inr (w, s')"
    by (auto simp: getOrCreateWallet_def result_simps)
  from createWallet_Inr [OF this] show ?thesis
    by (simp add: walletOfUser_def find_append)
next
  case (Some w')
  with assms show ?thesis by (auto simp: getOrCreateWallet_def result_simps)
qed

lemma getOrCreateWallet_idem:
  "getOrCreateWallet env u s = Inr (w, s') \<Longrightarrow> getOrCreateWallet env' u s' = Inr (w, s')"
  using getOrCreateWallet_Inr [of env u s w s']
  by (auto simp: getOrCreateWallet_def result_simps)

text \<open>Money survives the conversion to naira and back.\<close>

lemma toFixed2_cents: "toFixed2 (of_int k / 100) * 100 = of_int k"
proof -
  have f: "\<lfloor>of_int n + (1 :: rat) / 2\<rfloor> = n" for n
    by linarith
  show ?thesis
    using f [of k] f [of "- k"] by (auto simp: toFixed2_def)
qed

lemma nairaToKobo_koboToNaira: "nairaToKobo (koboToNaira k) = k"
  by (simp add: nairaToKobo_def koboToNaira_def toFixed2_cents)

text \<open>Conversely a naira amount is off by at most half a kobo.\<close>

lemma toFixed2_close: "\<bar>toFixed2 x - x\<bar> \<le> 1 / 200"
proof -
  have f: "\<bar>of_int \<lfloor>y + 1 / 2\<rfloor> - y\<bar> \<le> 1 / 2" for y :: rat
    by linarith
  show ?thesis
  proof (cases "x < 0")
    case True
    show ?thesis
      using f [of "- x * 100"] unfolding toFixed2_def if_P [OF True] by linarith
  next
    case False
    show ?thesis
      using f [of "x * 100"] unfolding toFixed2_def if_not_P [OF False] by linarith
  qed
qed

text \<open>Reserving and releasing the same amount of the same bucket restores what is available.\<close>

lemma bucketEntry_simps [simp]:
  "wp_walletId (bucketEntry t b) = bp_walletId b" "wp_entryType (bucketEntry t b) = t"
  "wp_amount (bucketEntry t b) = bp_amount b" "wp_bucketType (bucketEntry t b) = Some (bp_bucketType b)"
  by (simp_all add: bucketEntry_def)

lemma bucketMatches_bucketEntry: "bucketMatches (bucketEntry t b) = bucketMatches (bucketEntry u b)"
  by (rule ext) (simp add: bucketMatches_def bucketEntry_def)

lemma upsertBucket_exists: "wp_bucketType p \<noteq> None \<Longrightarrow> list_ex (bucketMatches p) (upsertBucket p bs)"
proof (cases "findFirst (bucketMatches p) bs")
  case None
  then show "wp_bucketType p \<noteq> None \<Longrightarrow> ?thesis"
    by (auto simp: upsertBucket_def bucketMatches_def)
next
  case (Some b)
  then have "findFirst (bucketMatches p) (updateRow (bucketMatches p)
      (\<lambda>b. b\<lparr>wb_reservedAmount := wb_reservedAmount b + c\<rparr>) bs) \<noteq> None" for c
    using find_SomeD [OF Some] find_updateRow_same [OF Some] by (auto simp: bucketMatches_def)
  with Some show ?thesis
    by (auto simp: upsertBucket_def find_None_eq list_ex_iff)
qed

lemma reserve_release:
  assumes "reserveFunds env b s = Inr s1" and "releaseFunds env' (b\<lparr>bp_reference := r\<rparr>) s1 = Inr s2"
  shows "available s2 w = available s w \<and> totalReserved s2 w = totalReserved s w"
proof -
  define b' where "b' = b\<lparr>bp_reference := r\<rparr>"
  from assms obtain e1 e2
    where 1: "writeEntry (rnd env 0) (bucketEntry RESERVE b) s = Inr (e1, s1)"
      and 2: "writeEntry (rnd env' 0) (bucketEntry RELEASE b') s1 = Inr (e2, s2)"
    by (auto simp: reserveFunds_def releaseFunds_def result_simps b'_def)
  have "list_ex (bucketMatches (bucketEntry RESERVE b)) (walletBuckets s1)"
    using 1 upsertBucket_exists [of "bucketEntry RESERVE b" "walletBuckets s"]
    by (auto simp: writeEntry_Inr_iff writtenState_def)
  moreover have "bucketMatches (bucketEntry RELEASE b') = bucketMatches (bucketEntry RESERVE b)"
    by (rule ext) (simp add: bucketMatches_def bucketEntry_def b'_def)
  ultimately have "bucketExists (bucketEntry RELEASE b') s1"
    by (simp add: bucketExists_def)
  then show ?thesis
    using writeEntry_reserved [OF 1, of w] writeEntry_reserved [OF 2, of w]
      writeEntry_total [OF 1, of w] writeEntry_total [OF 2, of w]
    by (auto simp: available_def reserveChange_def b'_def)
qed

text \<open>
  With the reference of the reservation itself the release is refused: both entries would have the
  same key.
\<close>

lemma release_same_reference:
  assumes "reserveFunds env b s = Inr s1"
  shows "isl (releaseFunds env' b s1)"
proof -
  from assms obtain e1 where 1: "writeEntry (rnd env 0) (bucketEntry RESERVE b) s = Inr (e1, s1)"
    by (auto simp: reserveFunds_def result_simps)
  have "writeKey (bucketEntry RELEASE b) = writeKey (bucketEntry RESERVE b)"
    by (simp add: writeKey_def bucketEntry_def)
  then have "\<exists>e. writeEntry (rnd env' 0) (bucketEntry RELEASE b) s1 = Inl e"
    using writeEntry_creates [OF 1] by (intro writeEntry_taken_key) force
  then show ?thesis by (auto simp: releaseFunds_def)
qed

end
