(* ===== verification/Circle.thy ===== *)
theory Circle
  imports PayoutSorter Dates Wallet
begin

text \<open>
  \<^verbatim>\<open>src/modules/rosca/services/circle.service.ts\<close> with \<^verbatim>\<open>utils/rosca.utils.ts\<close> and the validator of
  \<^verbatim>\<open>dto/circle.dto.ts\<close>: creating, editing and activating a savings circle, the calendar of its
  cycles, and the configuration of the payout order.
\<close>

section \<open>Utilities\<close>

definition calculateCollateral :: "int \<Rightarrow> int" where
  "calculateCollateral contributionAmount = bigint_div (contributionAmount * 10) 100"

text \<open>Decimal strings: the value of a digit string, and \<^verbatim>\<open>BigInt(value)\<close> on them.\<close>

definition digitOf :: "char \<Rightarrow> int option" where
  "digitOf ch = (let n = int (of_char ch :: nat) in if 48 \<le> n \<and> n \<le> 57 then Some (n - 48) else None)"

fun decimal :: "int \<Rightarrow> string \<Rightarrow> int option" where
  "decimal acc [] = Some acc"
| "decimal acc (ch # cs) =
     (case digitOf ch of None \<Rightarrow> None | Some d \<Rightarrow> decimal (acc * 10 + d) cs)"

fun bigIntOf :: "string \<Rightarrow> int option" where
  "bigIntOf (CHR ''-'' # c # cs) = map_option uminus (decimal 0 (c # cs))"
| "bigIntOf cs = decimal 0 cs"

definition parseBigInt :: "string \<Rightarrow> int result" where
  "parseBigInt value =
     (case bigIntOf value of
        None \<Rightarrow> Inl (BadRequest ''must be a valid integer string (Kobo)'')
      | Some amount \<Rightarrow>
          if amount \<le> 0 then Inl (BadRequest ''must be greater than zero'') else Inr amount)"

text \<open>The \<^verbatim>\<open>IsPositiveIntegerString\<close> decorator.\<close>

definition isPositiveIntegerString :: "string \<Rightarrow> bool" where
  "isPositiveIntegerString value \<longleftrightarrow>
     value \<noteq> [] \<and> list_all (\<lambda>c. digitOf c \<noteq> None) value \<and>
     \<not> (hd value = CHR ''0'' \<and> 1 < length value) \<and> value \<noteq> ''0''"

section \<open>Creation\<close>

record createCircleDto =
  cd_name :: string
  cd_contributionAmount :: string
  cd_frequency :: cycleFrequency
  cd_durationCycles :: int
  cd_maxSlots :: int
  cd_payoutLogic :: payoutLogic
  cd_visibility :: "circleVisibility option"

definition insertCircle :: "circle \<Rightarrow> db \<Rightarrow> db result" where
  "insertCircle c s =
     (if list_ex (\<lambda>x. c_id x = c_id c) (circles s) then Inl (PrismaError ''P2002'')
      else Inr (s\<lparr>circles := circles s @ [c]\<rparr>))"

definition createCircle :: "env \<Rightarrow> string \<Rightarrow> createCircleDto \<Rightarrow> db \<Rightarrow> (circle \<times> db) result" where
  "createCircle env adminId d s =
     bindE (orThrow (NotFound ''Admin not found'') (userById adminId s)) (\<lambda>_.
     bindE (parseBigInt (cd_contributionAmount d)) (\<lambda>amount.
     let c = \<lparr>c_id = rnd env 0, c_name = cd_name d, c_adminId = adminId,
              c_contributionAmount = amount, c_frequency = cd_frequency d,
              c_durationCycles = cd_durationCycles d, c_currentCycle = 1,
              c_maxSlots = cd_maxSlots d, c_filledSlots = 0,
              c_visibility = (case cd_visibility d of None \<Rightarrow> VIS_PUBLIC | Some v \<Rightarrow> v),
              c_payoutLogic = cd_payoutLogic d, c_status = CS_DRAFT,
              c_initialContributionDeadline = None, c_verifiedAt = None\<rparr>
     in bindE (insertCircle c s) (\<lambda>s'. Inr (c, s'))))"

section \<open>The calendar\<close>

definition addFrequency :: "int \<Rightarrow> cycleFrequency \<Rightarrow> int \<Rightarrow> int" where
  "addFrequency z frequency date =
     (case frequency of
        WEEKLY \<Rightarrow> setDate z (getDate z date + 7) date
      | BI_WEEKLY \<Rightarrow> setDate z (getDate z date + 14) date
      | MONTHLY \<Rightarrow>
          (let originalDay = getDate z date;
               r1 = setDate z 1 date;
               r2 = setMonth z (getMonth z r1 + 1) r1;
               lastDay = getDate z (newDate z (getFullYear z r2) (getMonth z r2 + 1) 0)
           in setDate z (min originalDay lastDay) r2))"

definition dayMs :: int where "dayMs = 24 * 60 * 60 * 1000"

text \<open>
  The loop over the cycles \<open>i, i + 1, \<dots>\<close> with \<open>n\<close> of them left.  With no members,
  \<^verbatim>\<open>sortedMembers[NaN].userId\<close> throws.
\<close>

fun scheduleLoop ::
  "env \<Rightarrow> nat \<Rightarrow> circle \<Rightarrow> string list \<Rightarrow> nat \<Rightarrow> int \<Rightarrow> int \<Rightarrow> schedule list result" where
  "scheduleLoop env k c recipients 0 i currentDate = Inr []"
| "scheduleLoop env k c recipients (Suc n) i currentDate =
     (if recipients = [] then Inl (PlainError ''TypeError'')
      else bindE (scheduleLoop env (k + 1) c recipients n (i + 1)
                    (addFrequency (tz env) (c_frequency c) currentDate)) (\<lambda>rest.
        Inr (\<lparr>cs_id = rnd env k, cs_circleId = c_id c, cs_cycleNumber = i,
              cs_contributionDeadline = currentDate, cs_payoutDate = currentDate + dayMs,
              cs_status = SS_UPCOMING,
              cs_recipientId = Some (recipients ! nat ((i - 1) mod int (length recipients))),
              cs_obsoletedAt = None\<rparr> # rest)))"

definition activeMembers :: "string \<Rightarrow> db \<Rightarrow> membership list" where
  "activeMembers cid s =
     filter (\<lambda>m. m_circleId m = cid \<and> m_status m = MS_ACTIVE) (memberships s)"

definition withTrust :: "db \<Rightarrow> membership \<Rightarrow> memberWithTrust" where
  "withTrust s m = (m, findFirst (\<lambda>st. ts_userId st = m_userId m) (allTrustStats s))"

fun assignPositions :: "int \<Rightarrow> memberWithTrust list \<Rightarrow> db \<Rightarrow> db" where
  "assignPositions i [] s = s"
| "assignPositions i (m # ms) s =
     assignPositions (i + 1) ms
       (updateMembership (m_id (fst m)) (\<lambda>x. x\<lparr>m_payoutPosition := Some i\<rparr>) s)"

definition insertSchedules :: "schedule list \<Rightarrow> db \<Rightarrow> db result" where
  "insertSchedules new s =
     bindE (ensure (distinct (map cs_id new) \<and> (\<forall>x \<in> set new. cs_id x \<notin> cs_id ` set (schedules s)))
              (PrismaError ''P2002'')) (\<lambda>_.
     Inr (s\<lparr>schedules := schedules s @ new\<rparr>))"

definition generateSchedules ::
  "env \<Rightarrow> (nat \<Rightarrow> rat) \<Rightarrow> string \<Rightarrow> int \<Rightarrow> db \<Rightarrow> (schedule list \<times> db) result" where
  "generateSchedules env rand circleId deadline s =
     bindE (orThrow (PlainError ''Circle not found'') (circleById circleId s)) (\<lambda>c.
     let ms = activeMembers circleId s; positions = map m_payoutPosition ms in
     bindE (ensure (\<not> (c_payoutLogic c = ADMIN_ASSIGNED \<and> list_ex (\<lambda>m. m_payoutPosition m = None) ms))
       (BadRequest ''All members must have an assigned position for ADMIN_ASSIGNED logic'')) (\<lambda>_.
     bindE (ensure (\<not> (c_payoutLogic c = ADMIN_ASSIGNED \<and> card (set positions) \<noteq> length positions))
       (BadRequest ''Payout positions must be unique'')) (\<lambda>_.
     let sorted = sortMembers rand (c_payoutLogic c) (map (withTrust s) ms);
         s1 = assignPositions 1 sorted s
     in
     bindE (scheduleLoop env 0 c (map (\<lambda>m. m_userId (fst m)) sorted) (nat (c_durationCycles c)) 1
              deadline) (\<lambda>new.
     bindE (insertSchedules new s1) (\<lambda>s2. Inr (new, s2))))))"

definition activateCircle ::
  "env \<Rightarrow> (nat \<Rightarrow> rat) \<Rightarrow> string \<Rightarrow> int \<Rightarrow> db \<Rightarrow> (circle \<times> db) result" where
  "activateCircle env rand circleId deadline s =
     bindE (ensure (\<not> deadline < now env - 30 * 60 * 1000)
       (BadRequest ''Initial contribution deadline must not be more than 30 minutes in the past'')) (\<lambda>_.
     bindE (orThrow (NotFound ''Circle not found'') (circleById circleId s)) (\<lambda>c.
     bindE (ensure (c_status c = CS_DRAFT) (BadRequest ''Circle already activated'')) (\<lambda>_.
     let actualMemberCount = int (length (activeMembers circleId s)) in
     bindE (ensure (c_filledSlots c = actualMemberCount) (BadRequest ''Data integrity error'')) (\<lambda>_.
     let f = (\<lambda>c. c\<lparr>c_status := CS_ACTIVE, c_initialContributionDeadline := Some deadline,
                    c_verifiedAt := Some (now env), c_currentCycle := 1,
                    c_durationCycles := actualMemberCount\<rparr>);
         s1 = updateCircleRow circleId f s
     in
     bindE (generateSchedules env rand circleId deadline s1) (\<lambda>(_, s2).
     Inr (f c, audit \<lparr>al_actorId = ''SYSTEM'', al_actorType = ''SYSTEM'',
                      al_action = ''CIRCLE_ACTIVATED'', al_entityType = ''ROSCA_CIRCLE'',
                      al_entityId = circleId, al_reason = None\<rparr> s2))))))"

section \<open>Payout configuration\<close>

record assignment =
  as_userId :: string
  as_position :: int

record updatePayoutConfigDto =
  pc_payoutLogic :: "payoutLogic option"
  pc_assignments :: "assignment list"

text \<open>A JavaScript \<^verbatim>\<open>Map\<close>: setting a key that is present keeps its place.\<close>

fun mapSet :: "'k \<Rightarrow> 'v \<Rightarrow> ('k \<times> 'v) list \<Rightarrow> ('k \<times> 'v) list" where
  "mapSet k v [] = [(k, v)]"
| "mapSet k v (p # ps) = (if fst p = k then (k, v) # ps else p # mapSet k v ps)"

definition jsMap :: "('k \<times> 'v) list \<Rightarrow> ('k \<times> 'v) list" where
  "jsMap ps = fold (\<lambda>p m. mapSet (fst p) (snd p) m) ps []"

text \<open>
  The writes of the assignments: an assigned user gets the position; the user who held it, unless
  assigned too, gets the position the assigned user had, if any.
\<close>

fun buildWrites ::
  "(int \<times> string) list \<Rightarrow> (string \<times> int option) list \<Rightarrow> string list \<Rightarrow> assignment list
   \<Rightarrow> (string \<times> int) list \<Rightarrow> (string \<times> int) list" where
  "buildWrites holder current incoming [] ws = ws"
| "buildWrites holder current incoming (a # as) ws =
     (let ws1 =
        (case map_of holder (as_position a) of
           Some displaced \<Rightarrow>
             if displaced \<noteq> '''' \<and> displaced \<notin> set incoming
             then (case map_of current (as_userId a) of
                     Some (Some oldPos) \<Rightarrow> mapSet displaced oldPos ws
                   | _ \<Rightarrow> ws)
             else ws
         | None \<Rightarrow> ws)
      in buildWrites holder current incoming as (mapSet (as_userId a) (as_position a) ws1))"

fun applyWrites :: "string \<Rightarrow> (string \<times> int) list \<Rightarrow> db \<Rightarrow> db result" where
  "applyWrites cid [] s = Inr s"
| "applyWrites cid (w # ws) s =
     bindE (ensure (membershipOf cid (fst w) s \<noteq> None) (PrismaError ''P2025'')) (\<lambda>_.
     applyWrites cid ws
       (s\<lparr>memberships := updateRow (\<lambda>m. m_circleId m = cid \<and> m_userId m = fst w)
            (\<lambda>m. m\<lparr>m_payoutPosition := Some (snd w)\<rparr>) (memberships s)\<rparr>))"

definition positionHolder :: "membership list \<Rightarrow> (int \<times> string) list" where
  "positionHolder ms =
     jsMap (concat (map (\<lambda>m. case m_payoutPosition m of Some p \<Rightarrow> [(p, m_userId m)] | None \<Rightarrow> []) ms))"

definition currentPositions :: "membership list \<Rightarrow> (string \<times> int option) list" where
  "currentPositions ms = jsMap (map (\<lambda>m. (m_userId m, m_payoutPosition m)) ms)"

definition applyAssignments :: "string \<Rightarrow> assignment list \<Rightarrow> db \<Rightarrow> ((string \<times> int) list \<times> db) result" where
  "applyAssignments circleId as s =
     (let incoming = map as_position as in
     bindE (ensure (card (set incoming) = length incoming)
       (BadRequest ''Duplicate payout positions in assignment'')) (\<lambda>_.
     bindE (ensure (\<not> list_ex (\<lambda>p. p < 1) incoming)
       (BadRequest ''Payout positions must be integers >= 1'')) (\<lambda>_.
     let allMembers = activeMembers circleId s;
         current = currentPositions allMembers;
         writes = buildWrites (positionHolder allMembers) current (map as_userId as) as []
     in
     bindE (applyWrites circleId writes s) (\<lambda>s'.
     Inr (map (\<lambda>a. (as_userId a, as_position a))
            (filter (\<lambda>a. case map_of current (as_userId a) of
                            None \<Rightarrow> False | Some p \<Rightarrow> p \<noteq> Some (as_position a)) as), s')))))"

text \<open>The result lists the members to notify of a new position.\<close>

definition updatePayoutConfiguration ::
  "string \<Rightarrow> string \<Rightarrow> updatePayoutConfigDto \<Rightarrow> db \<Rightarrow> ((string \<times> int) list \<times> db) result" where
  "updatePayoutConfiguration circleId adminId dto s =
     bindE (orThrow (NotFound ''Circle not found'') (circleById circleId s)) (\<lambda>c.
     bindE (ensure (c_adminId c = adminId) (BadRequest ''Unauthorized: Not the circle admin'')) (\<lambda>_.
     bindE (ensure (c_status c = CS_DRAFT)
       (BadRequest ''Cannot modify payout logic after the circle has started'')) (\<lambda>_.
     let newLogic = (case pc_payoutLogic dto of Some l \<Rightarrow> l | None \<Rightarrow> c_payoutLogic c) in
     bindE (ensure (\<not> (newLogic \<noteq> ADMIN_ASSIGNED \<and> pc_assignments dto \<noteq> []))
       (BadRequest ''Manual assignments can only be saved when the payout logic is set to ADMIN_ASSIGNED'')) (\<lambda>_.
     let s1 = (case pc_payoutLogic dto of
                 Some l \<Rightarrow> updateCircleRow circleId (\<lambda>c. c\<lparr>c_payoutLogic := l\<rparr>) s
               | None \<Rightarrow> s)
     in if pc_assignments dto = [] then Inr ([], s1)
        else applyAssignments circleId (pc_assignments dto) s1))))"

definition getPayoutConfiguration ::
  "string \<Rightarrow> string \<Rightarrow> db \<Rightarrow> (payoutLogic \<times> bool \<times> (string \<times> int option) list) result" where
  "getPayoutConfiguration circleId adminId s =
     bindE (orThrow (NotFound ''Circle not found'') (circleById circleId s)) (\<lambda>c.
     bindE (ensure (c_adminId c = adminId)
       (Forbidden ''Only the circle admin can view payout configuration'')) (\<lambda>_.
     let as = map (\<lambda>m. (m_userId m, m_payoutPosition m))
                (sort_key (\<lambda>m. optNumber (m_payoutPosition m)) (activeMembers circleId s))
     in Inr (c_payoutLogic c, list_all (\<lambda>a. snd a \<noteq> None) as, as)))"

section \<open>Queries and edits\<close>

definition listCircles :: "circleStatus option \<Rightarrow> string option \<Rightarrow> db \<Rightarrow> circle list" where
  "listCircles status name s =
     rev (filter (\<lambda>c. c_visibility c = VIS_PUBLIC \<and>
       (case status of Some st \<Rightarrow> c_status c = st
                     | None \<Rightarrow> c_status c = CS_DRAFT \<or> c_status c = CS_ACTIVE) \<and>
       (case name of None \<Rightarrow> True
          | Some n \<Rightarrow> n = '''' \<or> jsIncludes (toLowerCase n) (toLowerCase (c_name c)))) (circles s))"

record circleMemberView =
  cmv_userId :: string
  cmv_status :: membershipStatus
  cmv_position :: "int option"
  cmv_trustScore :: int

record circleView =
  cv_circle :: circle
  cv_totalPot :: int
  cv_requiredCollateral :: int
  cv_availableSlots :: int
  cv_members :: "circleMemberView list"
  cv_isRequestingUserAdmin :: bool
  cv_userMembershipStatus :: "membershipStatus option"
  cv_userPayoutPosition :: "int option"

definition visibleMembers :: "string \<Rightarrow> db \<Rightarrow> membership list" where
  "visibleMembers circleId s =
     sort_key (\<lambda>m. optNumber (m_payoutPosition m))
       (filter (\<lambda>m. m_circleId m = circleId \<and>
          (m_status m = MS_PENDING \<or> m_status m = MS_ACTIVE \<or> m_status m = MS_COMPLETED)) (memberships s))"

definition memberView :: "db \<Rightarrow> membership \<Rightarrow> circleMemberView" where
  "memberView s m =
     \<lparr>cmv_userId = m_userId m, cmv_status = m_status m, cmv_position = m_payoutPosition m,
      cmv_trustScore = (case snd (withTrust s m) of Some st \<Rightarrow> ts_trustScore st | None \<Rightarrow> 50)\<rparr>"

definition getCircle :: "string \<Rightarrow> string \<Rightarrow> db \<Rightarrow> circleView result" where
  "getCircle circleId userId s =
     bindE (orThrow (NotFound ''Circle not found'') (circleById circleId s)) (\<lambda>c.
     let ms = visibleMembers circleId s; mine = findFirst (\<lambda>m. m_userId m = userId) ms in
     bindE (ensure (\<not> (c_visibility c = VIS_PRIVATE \<and> \<not> list_ex (\<lambda>m. m_userId m = userId) ms \<and>
                       c_adminId c \<noteq> userId))
       (Forbidden ''This is a private circle'')) (\<lambda>_.
     Inr \<lparr>cv_circle = c, cv_totalPot = c_contributionAmount c * c_filledSlots c,
          cv_requiredCollateral = calculateCollateral (c_contributionAmount c),
          cv_availableSlots = c_maxSlots c - c_filledSlots c,
          cv_members = map (memberView s) ms, cv_isRequestingUserAdmin = (c_adminId c = userId),
          cv_userMembershipStatus = map_option m_status mine,
          cv_userPayoutPosition =
            (case mine of
               Some m \<Rightarrow> (if m_payoutPosition m = Some 0 then None else m_payoutPosition m)
             | None \<Rightarrow> None)\<rparr>))"

definition getCircleByIdForAdmin :: "string \<Rightarrow> string \<Rightarrow> db \<Rightarrow> (circle \<times> membership list) result" where
  "getCircleByIdForAdmin circleId adminId s =
     bindE (orThrow (NotFound ''ROSCA circle not found'') (circleById circleId s)) (\<lambda>c.
     bindE (ensure (c_adminId c = adminId)
       (Forbidden ''You do not have permission to view this circle'')) (\<lambda>_.
     Inr (c, filter (\<lambda>m. m_circleId m = circleId \<and>
                        (m_status m = MS_ACTIVE \<or> m_status m = MS_COMPLETED)) (memberships s))))"

definition getSchedules :: "string \<Rightarrow> db \<Rightarrow> schedule list" where
  "getSchedules circleId s =
     sort_key cs_cycleNumber
       (filter (\<lambda>x. cs_circleId x = circleId \<and> cs_obsoletedAt x = None) (schedules s))"

record updateCircleDto =
  uc_name :: "string option"
  uc_contributionAmount :: "string option"
  uc_maxSlots :: "int option"
  uc_initialContributionDeadline :: "int option"
  uc_payoutLogic :: "payoutLogic option"

definition optSet :: "'a option \<Rightarrow> ('a \<Rightarrow> 'c \<Rightarrow> 'c) \<Rightarrow> 'c \<Rightarrow> 'c" where
  "optSet x f c = (case x of None \<Rightarrow> c | Some v \<Rightarrow> f v c)"

definition applyCircleUpdate :: "updateCircleDto \<Rightarrow> int option \<Rightarrow> circle \<Rightarrow> circle" where
  "applyCircleUpdate d amount c =
     optSet amount (\<lambda>v c. c\<lparr>c_contributionAmount := v\<rparr>)
      (optSet (uc_payoutLogic d) (\<lambda>v c. c\<lparr>c_payoutLogic := v\<rparr>)
       (optSet (uc_initialContributionDeadline d)
          (\<lambda>v c. c\<lparr>c_initialContributionDeadline := Some v\<rparr>)
        (optSet (uc_maxSlots d) (\<lambda>v c. c\<lparr>c_maxSlots := v\<rparr>)
         (optSet (uc_name d) (\<lambda>v c. c\<lparr>c_name := v\<rparr>) c))))"

definition updateCircle ::
  "string \<Rightarrow> string \<Rightarrow> updateCircleDto \<Rightarrow> db \<Rightarrow> (circle \<times> db) result" where
  "updateCircle circleId userId d s =
     bindE (orThrow (NotFound ''Circle not found or not authorized'')
       (findFirst (\<lambda>c. c_id c = circleId \<and> c_adminId c = userId) (circles s))) (\<lambda>c.
     bindE (ensure (c_status c = CS_DRAFT)
       (BadRequest ''Cannot edit a circle once the cycle has officially started'')) (\<lambda>_.
     bindE (ensure (case uc_maxSlots d of None \<Rightarrow> True | Some m \<Rightarrow> m = 0 \<or> \<not> m < c_filledSlots c)
       (BadRequest ''New slot limit cannot be less than current members'')) (\<lambda>_.
     bindE (case uc_contributionAmount d of
              None \<Rightarrow> Inr None
            | Some v \<Rightarrow> if v = '''' then Inr None
                        else bindE (parseBigInt v) (\<lambda>a. Inr (Some a))) (\<lambda>amount.
     Inr (applyCircleUpdate d amount c,
          updateCircleRow circleId (applyCircleUpdate d amount) s)))))"

definition updateCircleStatus :: "string \<Rightarrow> circleStatus \<Rightarrow> db \<Rightarrow> db result" where
  "updateCircleStatus circleId status s =
     bindE (orThrow (PrismaError ''P2025'') (circleById circleId s)) (\<lambda>_.
     Inr (updateCircleRow circleId (\<lambda>c. c\<lparr>c_status := status\<rparr>) s))"

definition adminListAllCircles :: "circleStatus option \<Rightarrow> string option \<Rightarrow> db \<Rightarrow> circle list" where
  "adminListAllCircles status adminId s =
     rev (filter (\<lambda>c. (case status of None \<Rightarrow> True | Some st \<Rightarrow> c_status c = st) \<and>
                     (case adminId of None \<Rightarrow> True | Some a \<Rightarrow> a = '''' \<or> c_adminId c = a)) (circles s))"

section \<open>The calendar\<close>

lemma setDate_shift: "setDate z (getDate z t + n) t = t + n * msPerDay"
proof -
  have "makeDay (getFullYear z t) (getMonth z t) (getDate z t + n) = localDay z t + n"
    using day_parts [of "localDay z t"]
    by (simp add: makeDay_shift getFullYear_def getMonth_def getDate_def)
  then show ?thesis
    using atDay_same [of z t] by (simp add: setDate_def atDay_def algebra_simps)
qed

lemma addFrequency_weekly: "addFrequency z WEEKLY t = t + 7 * msPerDay"
  "addFrequency z BI_WEEKLY t = t + 14 * msPerDay"
  by (simp_all add: addFrequency_def setDate_shift)

lemma makeDay_norm: "makeDay y m d = makeDay (y + m div 12) (m mod 12) d"
  by (simp add: makeDay_def Let_def)

text \<open>
  A month later: the next month, the same time of day, and the same day of the month or the
  month's last day.
\<close>

lemma addFrequency_monthly:
  fixes z t :: int
  defines "y \<equiv> getFullYear z t + (getMonth z t + 1) div 12" and "m \<equiv> (getMonth z t + 1) mod 12"
  defines "r \<equiv> addFrequency z MONTHLY t"
  shows "r = atDay z (makeDay y m (min (getDate z t) (daysInMonth y m))) (localTime z t)"
    and "getFullYear z r = y" and "getMonth z r = m"
    and "getDate z r = min (getDate z t) (daysInMonth y m)" and "localTime z r = localTime z t"
proof -
  let ?Y = "getFullYear z t" and ?M = "getMonth z t" and ?D = "getDate z t" and ?T = "localTime z t"
  have parts: "0 \<le> ?M" "?M < 12" "1 \<le> ?D" "?D \<le> daysInMonth ?Y ?M"
    using day_parts [of "localDay z t"] by (simp_all add: getFullYear_def getMonth_def getDate_def)
  have m: "0 \<le> m" "m < 12" by (simp_all add: m_def)
  have T: "0 \<le> ?T" "?T < msPerDay" by simp_all
  have len: "1 \<le> daysInMonth a b" if "0 \<le> b" "b < 12" for a b
    using daysInMonth_bounds [OF that, of a] by linarith
  define r1 where "r1 = setDate z 1 t"
  have r1: "r1 = atDay z (makeDay ?Y ?M 1) ?T" by (simp add: r1_def setDate_def)
  have p1: "getFullYear z r1 = ?Y" "getMonth z r1 = ?M" "getDate z r1 = 1" "localTime z r1 = ?T"
    using makeDay_parts [OF parts(1,2), of 1 ?Y] len [OF parts(1,2)] T
    by (simp_all add: r1 getFullYear_def getMonth_def getDate_def)
  define r2 where "r2 = setMonth z (getMonth z r1 + 1) r1"
  have r2: "r2 = atDay z (makeDay y m 1) ?T"
    using p1 makeDay_norm [of ?Y "?M + 1" 1] by (simp add: r2_def setMonth_def y_def m_def)
  have p2: "getFullYear z r2 = y" "getMonth z r2 = m" "localTime z r2 = ?T"
    using makeDay_parts [OF m, of 1 y] len [OF m] T
    by (simp_all add: r2 getFullYear_def getMonth_def getDate_def)
  have last: "getDate z (newDate z y (m + 1) 0) = daysInMonth y m"
    using makeDay_parts [OF m, of "daysInMonth y m" y] len [OF m]
    by (simp add: newDate_def getDate_def makeDay_zero [OF m] msPerDay_def)
  have "r = setDate z (min ?D (daysInMonth y m)) r2"
    using p2 last unfolding r_def addFrequency_def Let_def r1_def [symmetric] r2_def [symmetric] by simp
  then show r: "r = atDay z (makeDay y m (min ?D (daysInMonth y m))) ?T"
    using p2 by (simp add: setDate_def)
  show "getFullYear z r = y" "getMonth z r = m" "getDate z r = min ?D (daysInMonth y m)"
    "localTime z r = ?T"
    using makeDay_parts [OF m, of "min ?D (daysInMonth y m)" y] len [OF m] parts T
    by (simp_all add: r getFullYear_def getMonth_def getDate_def)
qed

text \<open>Successive deadlines are at least a day apart, so a payout precedes the next deadline.\<close>

lemma addFrequency_day: "t + msPerDay \<le> addFrequency z f t"
proof (cases f)
  case MONTHLY
  let ?Y = "getFullYear z t" and ?M = "getMonth z t" and ?D = "getDate z t"
  define y m where "y = ?Y + (?M + 1) div 12" and "m = (?M + 1) mod 12"
  have parts: "0 \<le> ?M" "?M < 12" "1 \<le> ?D" "?D \<le> daysInMonth ?Y ?M"
    and day: "makeDay ?Y ?M ?D = localDay z t"
    using day_parts [of "localDay z t"] by (simp_all add: getFullYear_def getMonth_def getDate_def)
  have x: "1 \<le> min ?D (daysInMonth y m)"
    using parts daysInMonth_bounds [of m y] by (simp add: m_def)
  have shift: "makeDay a b c = makeDay a b 1 + (c - 1)" for a b c
    using makeDay_shift [of a b 1 "c - 1"] by simp
  have "makeDay y m 1 = makeDay ?Y ?M 1 + daysInMonth ?Y ?M"
    using makeDay_next_month [OF parts(1,2)] makeDay_norm [of ?Y "?M + 1" 1]
    by (simp add: y_def m_def)
  then have "localDay z t + 1 \<le> makeDay y m (min ?D (daysInMonth y m))"
    using parts day x shift [of y m "min ?D (daysInMonth y m)"] shift [of ?Y ?M ?D] by linarith
  then have "(localDay z t + 1) * msPerDay \<le> makeDay y m (min ?D (daysInMonth y m)) * msPerDay"
    by (intro mult_right_mono) (simp_all add: msPerDay_def)
  then show ?thesis
    using addFrequency_monthly(1) [of z t] atDay_same [of z t] MONTHLY
    by (simp add: y_def m_def atDay_def algebra_simps)
qed (simp_all add: addFrequency_weekly msPerDay_def)

lemma dayMs_eq: "dayMs = msPerDay"
  by (simp add: dayMs_def msPerDay_def)

section \<open>The schedule of a circle\<close>

lemma scheduleLoop_nth:
  "scheduleLoop env k c us n i t = Inr xs \<Longrightarrow> length xs = n \<and>
   (\<forall>j < n. cs_id (xs ! j) = rnd env (k + j) \<and> cs_circleId (xs ! j) = c_id c \<and>
      cs_cycleNumber (xs ! j) = i + int j \<and> cs_status (xs ! j) = SS_UPCOMING \<and>
      cs_obsoletedAt (xs ! j) = None \<and> us \<noteq> [] \<and>
      cs_recipientId (xs ! j) = Some (us ! nat ((i + int j - 1) mod int (length us))) \<and>
      cs_contributionDeadline (xs ! j) = (addFrequency (tz env) (c_frequency c) ^^ j) t \<and>
      cs_payoutDate (xs ! j) = cs_contributionDeadline (xs ! j) + dayMs)"
proof (induction n arbitrary: k i t xs)
  case (Suc n)
  then obtain rest where us: "us \<noteq> []" and
    rest: "scheduleLoop env (k + 1) c us n (i + 1) (addFrequency (tz env) (c_frequency c) t) = Inr rest"
    and xs: "xs = \<lparr>cs_id = rnd env k, cs_circleId = c_id c, cs_cycleNumber = i,
              cs_contributionDeadline = t, cs_payoutDate = t + dayMs,
              cs_status = SS_UPCOMING,
              cs_recipientId = Some (us ! nat ((i - 1) mod int (length us))),
              cs_obsoletedAt = None\<rparr> # rest"
    by (auto simp: bindE_Inr_iff split: if_splits)
  note IH = Suc.IH [OF rest]
  show ?case
  proof (intro conjI allI impI)
    show "length xs = Suc n" using IH xs by simp
    fix j assume j: "j < Suc n"
    show "cs_id (xs ! j) = rnd env (k + j)" "cs_circleId (xs ! j) = c_id c"
      "cs_cycleNumber (xs ! j) = i + int j" "cs_status (xs ! j) = SS_UPCOMING"
      "cs_obsoletedAt (xs ! j) = None" "us \<noteq> []"
      "cs_recipientId (xs ! j) = Some (us ! nat ((i + int j - 1) mod int (length us)))"
      "cs_payoutDate (xs ! j) = cs_contributionDeadline (xs ! j) + dayMs"
      using IH xs us j by (cases j; simp)+
    show "cs_contributionDeadline (xs ! j) = (addFrequency (tz env) (c_frequency c) ^^ j) t"
      using IH xs j by (cases j) (simp_all add: funpow_swap1)
  qed
qed simp

lemma scheduleLoop_recipients:
  assumes "scheduleLoop env k c us (length us) 1 t = Inr xs"
  shows "map cs_recipientId xs = map Some us"
  using scheduleLoop_nth [OF assms] by (intro nth_equalityI) (auto simp flip: of_nat_mod)

text \<open>Cycle after cycle the deadlines advance, and each payout falls before the next deadline.\<close>

lemma scheduleLoop_dates:
  assumes "scheduleLoop env k c us n i t = Inr xs" and "j + 1 < n"
  shows "cs_payoutDate (xs ! j) \<le> cs_contributionDeadline (xs ! (j + 1))"
  using scheduleLoop_nth [OF assms(1)] assms(2)
    addFrequency_day [of "(addFrequency (tz env) (c_frequency c) ^^ j) t" "tz env" "c_frequency c"]
  by (simp add: dayMs_eq)

section \<open>Activation\<close>

lemma assignPositions_frame:
  "schedules (assignPositions i ms s) = schedules s \<and> circles (assignPositions i ms s) = circles s \<and>
   ledgerEntries (assignPositions i ms s) = ledgerEntries s \<and>
   walletBuckets (assignPositions i ms s) = walletBuckets s \<and>
   payouts (assignPositions i ms s) = payouts s \<and>
   map m_id (memberships (assignPositions i ms s)) = map m_id (memberships s)"
  by (induction i ms s rule: assignPositions.induct) (simp_all add: map_updateRow)

lemma generateSchedules_Inr:
  assumes "generateSchedules env rand cid t s = Inr (new, s')"
  obtains c sorted where "circleById cid s = Some c"
    and "sorted = sortMembers rand (c_payoutLogic c) (map (withTrust s) (activeMembers cid s))"
    and "scheduleLoop env 0 c (map (\<lambda>m. m_userId (fst m)) sorted) (nat (c_durationCycles c)) 1 t = Inr new"
    and "s' = (assignPositions 1 sorted s)\<lparr>schedules := schedules s @ new\<rparr>"
    and "\<forall>x \<in> set new. cs_id x \<notin> cs_id ` set (schedules s)"
  using assms
  by (auto simp: generateSchedules_def Let_def bindE_Inr_iff ensure_Inr_iff orThrow_Inr_iff
      insertSchedules_def assignPositions_frame intro!: that)

lemma activeMembers_cong [simp]:
  "activeMembers cid (updateCircleRow i f s) = activeMembers cid s"
  by (simp add: activeMembers_def)

lemma activateCircle_Inr:
  assumes "activateCircle env rand cid t s = Inr (c', s')"
  obtains c new s2 where "circleById cid s = Some c" and "c_status c = CS_DRAFT"
    and "c_filledSlots c = int (length (activeMembers cid s))"
    and "now env - 1800000 \<le> t"
    and "c' = c\<lparr>c_status := CS_ACTIVE, c_initialContributionDeadline := Some t,
          c_verifiedAt := Some (now env), c_currentCycle := 1,
          c_durationCycles := int (length (activeMembers cid s))\<rparr>"
    and "generateSchedules env rand cid t (updateCircleRow cid
          (\<lambda>c. c\<lparr>c_status := CS_ACTIVE, c_initialContributionDeadline := Some t,
            c_verifiedAt := Some (now env), c_currentCycle := 1,
            c_durationCycles := int (length (activeMembers cid s))\<rparr>) s) = Inr (new, s2)"
    and "s' = audit \<lparr>al_actorId = ''SYSTEM'', al_actorType = ''SYSTEM'',
                      al_action = ''CIRCLE_ACTIVATED'', al_entityType = ''ROSCA_CIRCLE'',
                      al_entityId = cid, al_reason = None\<rparr> s2"
  using assms
  by (auto simp: activateCircle_def Let_def bindE_Inr_iff ensure_Inr_iff orThrow_Inr_iff intro!: that)

lemma circleById_update:
  "circleById cid s = Some c \<Longrightarrow> (\<And>x. c_id (f x) = c_id x) \<Longrightarrow>
   circleById cid (updateCircleRow cid f s) = Some (f c)"
  unfolding circleById_def updateCircleRow_frame
  by (rule find_updateRow_same) (auto dest: find_SomeD)

text \<open>
  The new schedules: one per active member, numbered from 1, and their recipients are the active
  members, each exactly once.
\<close>

lemma activateCircle_schedules:
  assumes "activateCircle env rand cid t s = Inr (c', s')" and "\<And>i. 0 \<le> rand i \<and> rand i < 1"
  obtains new where "schedules s' = schedules s @ new"
    and "length new = length (activeMembers cid s)"
    and "mset (map cs_recipientId new) = mset (map (\<lambda>m. Some (m_userId m)) (activeMembers cid s))"
    and "map cs_cycleNumber new = map int [1..<length new + 1]"
    and "\<forall>x \<in> set new. cs_circleId x = cid \<and> cs_obsoletedAt x = None \<and> cs_status x = SS_UPCOMING"
    and "\<forall>j. j + 1 < length new \<longrightarrow> cs_payoutDate (new ! j) \<le> cs_contributionDeadline (new ! (j + 1))"
    and "\<forall>j < length new. cs_contributionDeadline (new ! j) = (addFrequency (tz env) (c_frequency c') ^^ j) t
           \<and> cs_payoutDate (new ! j) = cs_contributionDeadline (new ! j) + dayMs"
proof -
  define g where "g = (\<lambda>c :: circle. c\<lparr>c_status := CS_ACTIVE, c_initialContributionDeadline := Some t,
            c_verifiedAt := Some (now env), c_currentCycle := 1,
            c_durationCycles := int (length (activeMembers cid s))\<rparr>)"
  from assms(1) obtain c new s2 where c: "circleById cid s = Some c" and c': "c' = g c"
    and gen: "generateSchedules env rand cid t (updateCircleRow cid g s) = Inr (new, s2)"
    and s': "schedules s' = schedules s2"
    by (rule activateCircle_Inr) (auto simp: g_def audit_def)
  from gen obtain c1 ms where c1: "circleById cid (updateCircleRow cid g s) = Some c1"
    and ms: "ms = sortMembers rand (c_payoutLogic c1)
        (map (withTrust (updateCircleRow cid g s)) (activeMembers cid s))"
    and loop: "scheduleLoop env 0 c1 (map (\<lambda>m. m_userId (fst m)) ms) (nat (c_durationCycles c1)) 1 t = Inr new"
    and sch: "schedules s2 = schedules s @ new"
    by (rule generateSchedules_Inr) (auto simp: assignPositions_frame)
  have eq: "c1 = g c" "c_id c = cid"
    using c1 circleById_update [OF c, of g] find_SomeD [of "\<lambda>c. c_id c = cid" "circles s" c] c
    by (simp_all add: g_def circleById_def)
  have mset: "mset ms = mset (map (withTrust (updateCircleRow cid g s)) (activeMembers cid s))"
    unfolding ms by (rule mset_sortMembers) (rule assms(2))
  then have len: "length ms = length (activeMembers cid s)"
    by (metis length_map size_mset)
  have n: "nat (c_durationCycles c1) = length (map (\<lambda>m. m_userId (fst m)) ms)"
    by (simp add: eq g_def len)
  note nth = scheduleLoop_nth [OF loop]
  have rec: "map cs_recipientId new = map Some (map (\<lambda>m. m_userId (fst m)) ms)"
    using loop unfolding n by (rule scheduleLoop_recipients)
  have "mset (map (\<lambda>m. Some (m_userId (fst m))) ms)
      = mset (map (\<lambda>m. Some (m_userId (fst m)))
          (map (withTrust (updateCircleRow cid g s)) (activeMembers cid s)))"
    using mset by (simp only: mset_map)
  then have m: "mset (map cs_recipientId new) = mset (map (\<lambda>m. Some (m_userId m)) (activeMembers cid s))"
    by (simp add: rec comp_def withTrust_def)
  have l: "length new = length (activeMembers cid s)"
    using nth n len by simp
  show thesis
  proof (rule that)
    show "schedules s' = schedules s @ new" using s' sch by simp
    show "length new = length (activeMembers cid s)" by (rule l)
    show "mset (map cs_recipientId new) = mset (map (\<lambda>m. Some (m_userId m)) (activeMembers cid s))"
      by (rule m)
    show "map cs_cycleNumber new = map int [1..<length new + 1]"
      using nth by (intro nth_equalityI) (simp_all add: nth_append del: upt_Suc)
    show "\<forall>x \<in> set new. cs_circleId x = cid \<and> cs_obsoletedAt x = None \<and> cs_status x = SS_UPCOMING"
      using nth by (auto simp: in_set_conv_nth eq g_def)
    show "\<forall>j. j + 1 < length new \<longrightarrow> cs_payoutDate (new ! j) \<le> cs_contributionDeadline (new ! (j + 1))"
      using scheduleLoop_dates [OF loop] nth by auto
    show "\<forall>j < length new. cs_contributionDeadline (new ! j) = (addFrequency (tz env) (c_frequency c') ^^ j) t
           \<and> cs_payoutDate (new ! j) = cs_contributionDeadline (new ! j) + dayMs"
      using nth by (simp add: eq c')
  qed
qed

section \<open>Parsing amounts\<close>

lemma decimal_Some:
  "list_all (\<lambda>c. digitOf c \<noteq> None) v \<Longrightarrow> 0 \<le> acc \<Longrightarrow> \<exists>n. decimal acc v = Some n \<and> acc \<le> n"
proof (induction v arbitrary: acc)
  case (Cons c cs)
  then obtain d where d: "digitOf c = Some d" "0 \<le> d"
    by (auto simp: digitOf_def Let_def split: if_splits)
  obtain n where "decimal (acc * 10 + d) cs = Some n" "acc * 10 + d \<le> n"
    using Cons.IH [of "acc * 10 + d"] Cons.prems d by auto
  with d Cons.prems show ?case by auto
qed simp

lemma digitOf_minus [simp]: "digitOf (CHR ''-'') = None"
  by (simp add: digitOf_def)

lemma digitOf_zero: "digitOf c = Some 0 \<longleftrightarrow> c = CHR ''0''"
proof
  assume "digitOf c = Some 0"
  then have "(of_char c :: nat) = of_char (CHR ''0'')"
    by (auto simp: digitOf_def Let_def split: if_splits)
  then show "c = CHR ''0''" by (simp only: of_char_eq_iff)
qed (simp add: digitOf_def)

text \<open>Every amount the DTO lets through is accepted by \<^verbatim>\<open>parseBigInt\<close> as a positive integer.\<close>

lemma isPositiveIntegerString_parses:
  assumes "isPositiveIntegerString v"
  shows "\<exists>n. parseBigInt v = Inr n \<and> 0 < n"
proof -
  obtain c cs where v: "v = c # cs"
    using assms by (cases v) (auto simp: isPositiveIntegerString_def)
  have all: "list_all (\<lambda>c. digitOf c \<noteq> None) (c # cs)"
    using assms v by (simp add: isPositiveIntegerString_def)
  then obtain d where d: "digitOf c = Some d" "0 \<le> d"
    by (auto simp: digitOf_def Let_def split: if_splits)
  have "c \<noteq> CHR ''0''"
    using assms v by (cases cs) (auto simp: isPositiveIntegerString_def)
  then have "0 < d" using d digitOf_zero by (metis order_le_less)
  have "c \<noteq> CHR ''-''" using d by auto
  then have "bigIntOf v = decimal 0 v"
    unfolding v by (rule_tac bigIntOf.cases [of "c # cs"]) (auto split: char.splits)
  moreover obtain n where "decimal d cs = Some n" "d \<le> n"
    using decimal_Some [of cs d] all d by auto
  ultimately show ?thesis
    using v d \<open>0 < d\<close> by (simp add: parseBigInt_def)
qed

end
