(* ===== verification/Membership.thy ===== *)
theory Membership
  imports Payout Circle
begin

text \<open>
  \<^verbatim>\<open>src/modules/rosca/services/membership.service.ts\<close> and \<^verbatim>\<open>invite.service.ts\<close>: joining a circle
  reserves the collateral in a bucket named after the membership; leaving, cancelling and rejection
  release it.  The theory states what the bucket of every membership must hold
  (\<open>collateralHeld\<close>), which operations keep it, and what the sequence of a rejection and a leave
  does to it.
\<close>

section \<open>Joining and leaving\<close>

definition reserveEntry :: "string \<Rightarrow> string \<Rightarrow> int \<Rightarrow> string \<Rightarrow> entryParams" where
  "reserveEntry wid membershipId amount ref =
     \<lparr>wp_walletId = wid, wp_entryType = RESERVE, wp_movementType = TRANSFER,
      wp_bucketType = Some BT_ROSCA, wp_amount = amount, wp_reference = ref,
      wp_sourceType = ST_COLLATERAL_RESERVE, wp_sourceId = membershipId\<rparr>"

text \<open>\<^verbatim>\<open>@@unique([circleId, userId])\<close> and the primary key.\<close>

definition m_key :: "membership \<Rightarrow> string \<times> string" where
  "m_key m = (m_circleId m, m_userId m)"

definition insertMembership :: "membership \<Rightarrow> db \<Rightarrow> db result" where
  "insertMembership m s =
     (if list_ex (\<lambda>x. m_id x = m_id m \<or> m_key x = m_key m) (memberships s)
      then Inl (PrismaError ''P2002'')
      else Inr (s\<lparr>memberships := memberships s @ [m]\<rparr>))"

definition newMembership ::
  "env \<Rightarrow> string \<Rightarrow> string \<Rightarrow> membershipStatus \<Rightarrow> int option \<Rightarrow> int option \<Rightarrow> int \<Rightarrow> membership" where
  "newMembership env cid uid status position approvedAt collateral =
     \<lparr>m_id = rnd env 0, m_circleId = cid, m_userId = uid, m_status = status,
      m_payoutPosition = position, m_collateralAmount = collateral, m_collateralReleased = False,
      m_completedCycles = 0, m_totalLatePayments = 0, m_totalPenaltiesPaid = 0,
      m_payoutLocked = False, m_circleJoinRestricted = False, m_joinedAt = Some (now env),
      m_approvedAt = approvedAt, m_completedAt = None, m_defaultedAt = None\<rparr>"

definition deleteMembership :: "string \<Rightarrow> db \<Rightarrow> db" where
  "deleteMembership mid s = s\<lparr>memberships := filter (\<lambda>m. m_id m \<noteq> mid) (memberships s)\<rparr>"

definition requestToJoin :: "env \<Rightarrow> string \<Rightarrow> string \<Rightarrow> db \<Rightarrow> (membership \<times> db) result" where
  "requestToJoin env userId circleId s =
     bindE (orThrow (NotFound ''Wallet not found'') (walletOfUser userId s)) (\<lambda>w.
     bindE (orThrow (NotFound ''Circle not found'') (circleById circleId s)) (\<lambda>c.
     bindE (ensure (c_visibility c \<noteq> VIS_PRIVATE)
       (BadRequest ''This is a private circle. You must use an invite link to join.'')) (\<lambda>_.
     bindE (ensure (c_status c = CS_DRAFT \<or> c_status c = CS_ACTIVE)
       (BadRequest ''Circle not accepting members'')) (\<lambda>_.
     bindE (ensure (\<not> c_maxSlots c \<le> c_filledSlots c) (BadRequest ''Circle is full'')) (\<lambda>_.
     bindE (ensure (membershipOf circleId userId s = None)
       (Conflict ''Already a member or pending approval'')) (\<lambda>_.
     let collateralAmount = calculateCollateral (c_contributionAmount c) in
     bindE (writeEntry (rnd env 2)
       (reserveEntry (w_id w) (rnd env 0) collateralAmount (''COLL-RES-'' @ rnd env 1)) s) (\<lambda>(_, s1).
     let m = newMembership env circleId userId MS_PENDING None None collateralAmount in
     bindE (insertMembership m s1) (\<lambda>s2. Inr (m, s2)))))))))"

text \<open>The release of a membership's collateral, when it has any.\<close>

definition releaseMember :: "env \<Rightarrow> membership \<Rightarrow> db \<Rightarrow> db result" where
  "releaseMember env m s =
     (if 0 < m_collateralAmount m then
        bindE (orThrow (NotFound ''Wallet not found'') (walletOfUser (m_userId m) s)) (\<lambda>w.
        bindE (writeEntry (rnd env 1)
          (releaseEntry (w_id w) m (''COLL-REL-'' @ rnd env 0) ST_COLLATERAL_RESERVE) s)
          (\<lambda>(_, s1). Inr s1))
      else Inr s)"

definition leaveCircle :: "env \<Rightarrow> string \<Rightarrow> string \<Rightarrow> db \<Rightarrow> db result" where
  "leaveCircle env circleId userId s =
     bindE (orThrow (NotFound ''Circle not found'') (circleById circleId s)) (\<lambda>c.
     bindE (ensure (c_status c = CS_DRAFT)
       (BadRequest ''Cannot leave a circle that has already started'')) (\<lambda>_.
     bindE (orThrow (NotFound ''You are not a member of this circle'')
       (membershipOf circleId userId s)) (\<lambda>m.
     bindE (orThrow (NotFound ''Wallet not found'') (walletOfUser userId s)) (\<lambda>_.
     bindE (releaseMember env m s) (\<lambda>s1.
     let s2 = deleteMembership (m_id m) s1;
         s3 = (if m_status m = MS_ACTIVE
               then updateCircleRow circleId (\<lambda>c. c\<lparr>c_filledSlots := c_filledSlots c - 1\<rparr>) s2
               else s2)
     in
     bindE (ensure (case circleById circleId s3 of Some c \<Rightarrow> \<not> c_filledSlots c < 0 | None \<Rightarrow> True)
       (PlainError ''Inconsistent state: filledSlots cannot be negative'')) (\<lambda>_.
     Inr s3))))))"

definition cancelJoinRequest :: "env \<Rightarrow> string \<Rightarrow> string \<Rightarrow> db \<Rightarrow> db result" where
  "cancelJoinRequest env userId circleId s =
     bindE (orThrow (NotFound ''No join request found for this circle'')
       (membershipOf circleId userId s)) (\<lambda>m.
     bindE (ensure (m_status m = MS_PENDING) (BadRequest ''Only pending join requests can be cancelled'')) (\<lambda>_.
     bindE (releaseMember env m s) (\<lambda>s1. Inr (deleteMembership (m_id m) s1))))"

definition joinedDesc :: "membership \<Rightarrow> int" where
  "joinedDesc m = - (case m_joinedAt m of Some t \<Rightarrow> t | None \<Rightarrow> 0)"

definition getMyJoinRequests :: "string \<Rightarrow> db \<Rightarrow> (membership \<times> circle option) list" where
  "getMyJoinRequests userId s =
     map (\<lambda>m. (m, circleById (m_circleId m) s))
       (sort_key joinedDesc (filter (\<lambda>m. m_userId m = userId \<and>
          (m_status m = MS_PENDING \<or> m_status m = MS_REJECTED \<or> m_status m = MS_ACTIVE))
          (memberships s)))"

definition getMyRejectedRequests :: "string \<Rightarrow> db \<Rightarrow> (membership \<times> circle option) list" where
  "getMyRejectedRequests userId s =
     map (\<lambda>m. (m, circleById (m_circleId m) s))
       (sort_key joinedDesc
         (filter (\<lambda>m. m_userId m = userId \<and> m_status m = MS_REJECTED) (memberships s)))"

section \<open>Approval and rejection\<close>

definition setMember :: "string \<Rightarrow> string \<Rightarrow> (membership \<Rightarrow> membership) \<Rightarrow> db \<Rightarrow> db" where
  "setMember cid uid f s =
     s\<lparr>memberships := updateRow (\<lambda>m. m_circleId m = cid \<and> m_userId m = uid) f (memberships s)\<rparr>"

record approval =
  ap_membership :: membership
  ap_newPosition :: int
  ap_nowFull :: bool

definition approveMember ::
  "env \<Rightarrow> string \<Rightarrow> string \<Rightarrow> string \<Rightarrow> db \<Rightarrow> (approval \<times> db) result" where
  "approveMember env circleId adminId userId s =
     bindE (orThrow (NotFound ''Circle not found'') (circleById circleId s)) (\<lambda>c.
     bindE (ensure (c_adminId c = adminId) (BadRequest ''Only circle admin can approve'')) (\<lambda>_.
     let newPosition = c_filledSlots c + 1;
         f = (\<lambda>m. m\<lparr>m_status := MS_ACTIVE, m_approvedAt := Some (now env),
                    m_payoutPosition := Some newPosition\<rparr>)
     in
     bindE (orThrow (PrismaError ''P2025'') (membershipOf circleId userId s)) (\<lambda>m.
     let s1 = setMember circleId userId f s;
         s2 = updateCircleRow circleId (\<lambda>c. c\<lparr>c_filledSlots := c_filledSlots c + 1\<rparr>) s1
     in Inr (\<lparr>ap_membership = f m, ap_newPosition = newPosition,
              ap_nowFull = (newPosition = c_maxSlots c)\<rparr>, s2))))"

definition rejectMember ::
  "env \<Rightarrow> string \<Rightarrow> string \<Rightarrow> string \<Rightarrow> db \<Rightarrow> (membership \<times> db) result" where
  "rejectMember env circleId adminId userId s =
     bindE (orThrow (NotFound ''Circle not found'') (circleById circleId s)) (\<lambda>c.
     bindE (ensure (c_adminId c = adminId) (BadRequest ''Only circle admin can reject members'')) (\<lambda>_.
     bindE (orThrow (NotFound ''Membership not found'') (membershipOf circleId userId s)) (\<lambda>m.
     bindE (ensure (m_status m = MS_PENDING)
       (BadRequest ''Only pending memberships can be rejected'')) (\<lambda>_.
     bindE (releaseMember env m s) (\<lambda>s1.
     Inr (m\<lparr>m_status := MS_REJECTED\<rparr>,
          setMember circleId userId (\<lambda>m. m\<lparr>m_status := MS_REJECTED\<rparr>) s1))))))"

section \<open>Invites\<close>

definition insertInvite :: "invite \<Rightarrow> db \<Rightarrow> db result" where
  "insertInvite i s =
     (if list_ex (\<lambda>x. iv_id x = iv_id i \<or> iv_token x = iv_token i) (invites s)
      then Inl (PrismaError ''P2002'')
      else Inr (s\<lparr>invites := invites s @ [i]\<rparr>))"

text \<open>Not a transaction: an older unused invite stays revoked when the creation fails.\<close>

definition createInvite :: "env \<Rightarrow> string \<Rightarrow> string \<Rightarrow> string \<Rightarrow> db \<Rightarrow> invite result \<times> db" where
  "createInvite env circleId adminId email s =
     (case circleById circleId s of
        None \<Rightarrow> (Inl (NotFound ''Circle not found''), s)
      | Some c \<Rightarrow>
          if c_adminId c \<noteq> adminId
          then (Inl (Forbidden ''Only the circle admin can send invites''), s)
          else if c_status c \<noteq> CS_DRAFT
          then (Inl (BadRequest ''Circle is no longer accepting new members''), s)
          else
            (let s1 = s\<lparr>invites := filter (\<lambda>i. \<not> (iv_circleId i = circleId \<and> iv_email i = email \<and>
                                              iv_usedAt i = None)) (invites s)\<rparr>;
                 i = \<lparr>iv_id = rnd env 0, iv_circleId = circleId, iv_email = email,
                      iv_token = rnd env 1,
                      iv_expiresAt = setDate (tz env) (getDate (tz env) (now env) + 7) (now env),
                      iv_usedAt = None\<rparr>
             in case insertInvite i s1 of
                  Inl e \<Rightarrow> (Inl e, s1)
                | Inr s2 \<Rightarrow> (Inr i, s2)))"

definition listInvites :: "string \<Rightarrow> string \<Rightarrow> db \<Rightarrow> invite list result" where
  "listInvites circleId adminId s =
     bindE (orThrow (NotFound ''Circle not found'') (circleById circleId s)) (\<lambda>c.
     bindE (ensure (c_adminId c = adminId) (Forbidden ''Only the circle admin can view invites'')) (\<lambda>_.
     Inr (rev (filter (\<lambda>i. iv_circleId i = circleId) (invites s)))))"

definition inviteById :: "string \<Rightarrow> db \<Rightarrow> invite option" where
  "inviteById iid s = findFirst (\<lambda>i. iv_id i = iid) (invites s)"

definition revokeInvite :: "string \<Rightarrow> string \<Rightarrow> string \<Rightarrow> db \<Rightarrow> db result" where
  "revokeInvite circleId inviteId adminId s =
     bindE (orThrow (NotFound ''Invite not found'') (inviteById inviteId s)) (\<lambda>i.
     bindE (ensure (iv_circleId i = circleId) (NotFound ''Invite not found'')) (\<lambda>_.
     bindE (orThrow (NotFound ''Invite not found'') (circleById circleId s)) (\<lambda>c.
     bindE (ensure (c_adminId c = adminId) (Forbidden ''Only the circle admin can revoke invites'')) (\<lambda>_.
     bindE (ensure (iv_usedAt i = None) (BadRequest ''Cannot revoke an already-used invite'')) (\<lambda>_.
     Inr (s\<lparr>invites := filter (\<lambda>x. iv_id x \<noteq> inviteId) (invites s)\<rparr>))))))"

definition getMyInvites :: "env \<Rightarrow> string \<Rightarrow> db \<Rightarrow> (invite \<times> circle option) list" where
  "getMyInvites env userId s =
     (case userById userId s of
        None \<Rightarrow> []
      | Some u \<Rightarrow>
          map (\<lambda>i. (i, circleById (iv_circleId i) s))
            (rev (filter (\<lambda>i. iv_email i = u_email u \<and> iv_usedAt i = None \<and> now env < iv_expiresAt i)
              (invites s))))"

definition joinByInvite :: "env \<Rightarrow> string \<Rightarrow> string \<Rightarrow> db \<Rightarrow> (membership \<times> db) result" where
  "joinByInvite env userId token s =
     bindE (orThrow (NotFound ''Invalid invite token'')
       (findFirst (\<lambda>i. iv_token i = token) (invites s))) (\<lambda>i.
     bindE (ensure (iv_usedAt i = None) (BadRequest ''This invite has already been used'')) (\<lambda>_.
     bindE (ensure (\<not> iv_expiresAt i < now env) (BadRequest ''This invite has expired'')) (\<lambda>_.
     bindE (orThrow (NotFound ''User not found'') (userById userId s)) (\<lambda>u.
     bindE (ensure (toLowerCase (u_email u) = toLowerCase (iv_email i))
       (Forbidden ''This invite was sent to a different email address'')) (\<lambda>_.
     bindE (orThrow (PrismaError ''P2025'') (circleById (iv_circleId i) s)) (\<lambda>c.
     bindE (ensure (c_status c = CS_DRAFT) (BadRequest ''Circle is no longer accepting members'')) (\<lambda>_.
     bindE (ensure (\<not> c_maxSlots c \<le> c_filledSlots c) (BadRequest ''Circle is full'')) (\<lambda>_.
     bindE (ensure (membershipOf (c_id c) userId s = None)
       (Conflict ''Already a member or pending approval'')) (\<lambda>_.
     bindE (orThrow (NotFound ''Wallet not found'') (walletOfUser userId s)) (\<lambda>w.
     let collateralAmount = calculateCollateral (c_contributionAmount c) in
     bindE (writeEntry (rnd env 2)
       (reserveEntry (w_id w) (rnd env 0) collateralAmount (''COLL-RES-'' @ rnd env 1)) s) (\<lambda>(_, s1).
     let m = newMembership env (c_id c) userId MS_ACTIVE (Some (c_filledSlots c + 1))
               (Some (now env)) collateralAmount
     in
     bindE (insertMembership m s1) (\<lambda>s2.
     let s3 = updateCircleRow (c_id c) (\<lambda>c. c\<lparr>c_filledSlots := c_filledSlots c + 1\<rparr>) s2;
         s4 = s3\<lparr>invites := updateRow (\<lambda>x. iv_id x = iv_id i)
                (\<lambda>x. x\<lparr>iv_usedAt := Some (now env)\<rparr>) (invites s3)\<rparr>
     in Inr (m, s4)))))))))))))"

section \<open>The collateral bucket of a membership\<close>

definition bucketAmount :: "string \<Rightarrow> string \<Rightarrow> db \<Rightarrow> int option" where
  "bucketAmount wid sid s =
     map_option wb_reservedAmount
       (findFirst (\<lambda>b. wb_walletId b = wid \<and> wb_bucketType b = BT_ROSCA \<and> wb_sourceId b = sid)
         (walletBuckets s))"

lemma bucketAmount_cong: "walletBuckets s = walletBuckets t \<Longrightarrow> bucketAmount w i s = bucketAmount w i t"
  by (simp add: bucketAmount_def)

lemma bucketMatches_rosca:
  "wp_bucketType p = Some BT_ROSCA \<Longrightarrow> bucketMatches p =
     (\<lambda>b. wb_walletId b = wp_walletId p \<and> wb_bucketType b = BT_ROSCA \<and> wb_sourceId b = wp_sourceId p)"
  by (rule ext) (simp add: bucketMatches_def)

lemma upsertBucket_amount:
  assumes "wp_bucketType p = Some BT_ROSCA"
  shows "bucketAmount w i (s\<lparr>walletBuckets := upsertBucket p (walletBuckets s)\<rparr>) =
    (if w = wp_walletId p \<and> i = wp_sourceId p
     then Some (case bucketAmount w i s of
                  None \<Rightarrow> wp_amount p
                | Some a \<Rightarrow> a + (if wp_entryType p = RESERVE then wp_amount p else - wp_amount p))
     else bucketAmount w i s)"
proof -
  let ?P = "\<lambda>b. wb_walletId b = wp_walletId p \<and> wb_bucketType b = BT_ROSCA \<and> wb_sourceId b = wp_sourceId p"
  let ?Q = "\<lambda>b. wb_walletId b = w \<and> wb_bucketType b = BT_ROSCA \<and> wb_sourceId b = i"
  show ?thesis
  proof (cases "findFirst ?P (walletBuckets s)")
    case None
    then show ?thesis
      by (auto simp: bucketAmount_def upsertBucket_def bucketMatches_rosca [OF assms] Let_def assms
          find_append split: option.splits)
  next
    case (Some b)
    define f where "f = (\<lambda>b :: walletBucket. b\<lparr>wb_reservedAmount := wb_reservedAmount b +
        (if wp_entryType p = RESERVE then wp_amount p else - wp_amount p)\<rparr>)"
    have up: "upsertBucket p (walletBuckets s) = updateRow ?P f (walletBuckets s)"
      using Some by (simp add: upsertBucket_def bucketMatches_rosca [OF assms] Let_def f_def)
    show ?thesis
    proof (cases "w = wp_walletId p \<and> i = wp_sourceId p")
      case True
      have "findFirst ?P (updateRow ?P f (walletBuckets s)) = Some (f b)"
        using find_SomeD [OF Some] by (intro find_updateRow_same [OF Some]) (simp add: f_def)
      with True Some show ?thesis
        by (simp add: bucketAmount_def up f_def)
    next
      case False
      have "findFirst ?Q (updateRow ?P f (walletBuckets s)) = findFirst ?Q (walletBuckets s)"
        by (rule find_updateRow_disjoint) (use False in \<open>auto simp: f_def\<close>)
      then show ?thesis by (subst if_not_P [OF False]) (simp add: bucketAmount_def up)
    qed
  qed
qed

lemma writeEntry_bucketAmount:
  assumes "writeEntry j p s = Inr (e, s')" and "isBucketOp (wp_entryType p)"
    and "wp_bucketType p = Some BT_ROSCA"
  shows "bucketAmount w i s' =
    (if w = wp_walletId p \<and> i = wp_sourceId p
     then Some (case bucketAmount w i s of
                  None \<Rightarrow> wp_amount p
                | Some a \<Rightarrow> a + (if wp_entryType p = RESERVE then wp_amount p else - wp_amount p))
     else bucketAmount w i s)"
  using upsertBucket_amount [OF assms(3), of w i s] assms(1,2)
  by (simp add: writeEntry_Inr_iff writtenState_def bucketAmount_def)

lemma bucketExists_amount:
  "wp_bucketType p = Some BT_ROSCA \<Longrightarrow>
   bucketExists p s \<longleftrightarrow> bucketAmount (wp_walletId p) (wp_sourceId p) s \<noteq> None"
  by (auto simp: bucketExists_def bucketMatches_rosca bucketAmount_def find_None_eq list_ex_iff)

text \<open>
  The obligation: while a membership is neither released nor rejected its bucket holds exactly its
  collateral, afterwards nothing.
\<close>

definition holdsCollateral :: "membership \<Rightarrow> bool" where
  "holdsCollateral m \<longleftrightarrow> \<not> m_collateralReleased m \<and> m_status m \<noteq> MS_REJECTED"

definition memberHeld :: "db \<Rightarrow> membership \<Rightarrow> bool" where
  "memberHeld s m \<longleftrightarrow> 0 \<le> m_collateralAmount m \<and>
     (case walletOfUser (m_userId m) s of
        None \<Rightarrow> False
      | Some w \<Rightarrow> bucketAmount (w_id w) (m_id m) s =
          Some (if holdsCollateral m then m_collateralAmount m else 0))"

definition collateralHeld :: "db \<Rightarrow> bool" where
  "collateralHeld s \<longleftrightarrow>
     distinct (map m_id (memberships s)) \<and> distinct (map m_key (memberships s)) \<and>
     (\<forall>m \<in> set (memberships s). memberHeld s m)"

lemma collateralHeld_ids: "collateralHeld s \<Longrightarrow> distinct (map m_id (memberships s))"
  by (simp add: collateralHeld_def)

lemma membershipOf_Some:
  "membershipOf cid uid s = Some m \<Longrightarrow> m \<in> set (memberships s) \<and> m_circleId m = cid \<and> m_userId m = uid"
  unfolding membershipOf_def by (drule find_SomeD) simp

lemma insertMembership_Inr:
  "insertMembership m s = Inr s' \<longleftrightarrow>
     m_id m \<notin> m_id ` set (memberships s) \<and> m_key m \<notin> m_key ` set (memberships s) \<and>
     s' = s\<lparr>memberships := memberships s @ [m]\<rparr>"
  unfolding insertMembership_def list_ex_iff by (auto simp: image_iff) (metis+)

interpretation membershipByKey: keyed_table memberships m_key insertMembership
  by unfold_locales (auto simp: insertMembership_Inr)

interpretation membershipById: keyed_table memberships m_id insertMembership
  by unfold_locales (auto simp: insertMembership_Inr)

interpretation inviteByToken: keyed_table invites iv_token insertInvite
  by unfold_locales (auto simp: insertInvite_def list_ex_iff split: if_splits)

section \<open>Joining reserves the collateral\<close>

lemma reserveEntry_simps [simp]:
  "wp_walletId (reserveEntry w i a r) = w" "wp_entryType (reserveEntry w i a r) = RESERVE"
  "wp_amount (reserveEntry w i a r) = a" "wp_bucketType (reserveEntry w i a r) = Some BT_ROSCA"
  "wp_sourceId (reserveEntry w i a r) = i"
  by (simp_all add: reserveEntry_def)

lemma newMembership_simps [simp]:
  "m_id (newMembership env c u st p ap a) = rnd env 0" "m_userId (newMembership env c u st p ap a) = u"
  "m_circleId (newMembership env c u st p ap a) = c" "m_status (newMembership env c u st p ap a) = st"
  "m_collateralAmount (newMembership env c u st p ap a) = a"
  "\<not> m_collateralReleased (newMembership env c u st p ap a)"
  by (simp_all add: newMembership_def)

lemma memberHeld_cong:
  "wallets s = wallets t \<Longrightarrow> walletBuckets s = walletBuckets t \<Longrightarrow> memberHeld s m = memberHeld t m"
  by (simp add: memberHeld_def walletOfUser_def bucketAmount_cong [of s t] split: option.splits)

lemma memberHeld_step:
  "wallets s' = wallets s \<Longrightarrow> (\<And>v. bucketAmount v (m_id m) s' = bucketAmount v (m_id m) s) \<Longrightarrow>
   memberHeld s' m = memberHeld s m"
  by (simp add: memberHeld_def walletOfUser_def split: option.splits)

text \<open>Reserving for a fresh membership and inserting it keeps every other membership's bucket.\<close>

lemma join_held:
  assumes "collateralHeld s"
    and "walletOfUser uid s = Some w"
    and "writeEntry i (reserveEntry (w_id w) (rnd env 0) a ref) s = Inr (e, s1)"
    and "insertMembership (newMembership env cid uid st p ap a) s1 = Inr s2"
    and "st \<noteq> MS_REJECTED" and "bucketAmount (w_id w) (rnd env 0) s = None"
  shows "collateralHeld s2"
proof -
  let ?m = "newMembership env cid uid st p ap a"
  have fr: "memberships s1 = memberships s" "wallets s1 = wallets s"
    using writeEntry_frame(1,6) [OF assms(3)] by simp_all
  have s2: "s2 = s1\<lparr>memberships := memberships s @ [?m]\<rparr>"
    and new: "rnd env 0 \<notin> m_id ` set (memberships s)" "m_key ?m \<notin> m_key ` set (memberships s)"
    using assms(4) fr by (simp_all add: insertMembership_Inr)
  have amount: "bucketAmount v j s1 = (if v = w_id w \<and> j = rnd env 0 then Some a else bucketAmount v j s)"
    for v j
    using writeEntry_bucketAmount [OF assms(3), of v j] assms(6) by simp
  have "memberHeld s2 m" if "m \<in> set (memberships s)" for m
  proof -
    have "m_id m \<noteq> rnd env 0" using new that by (metis imageI)
    moreover have "memberHeld s m" using assms(1) that by (simp add: collateralHeld_def)
    moreover have "bucketAmount v (m_id m) s2 = bucketAmount v (m_id m) s1" for v
      by (rule bucketAmount_cong) (simp add: s2)
    ultimately show ?thesis
      using memberHeld_step [of s2 s m] amount fr by (simp add: s2)
  qed
  moreover have "memberHeld s2 ?m"
    using assms(2,3,5) amount [of "w_id w" "rnd env 0"] fr
    by (simp add: memberHeld_def s2 walletOfUser_def bucketAmount_def holdsCollateral_def
        writeEntry_Inr_iff writeAllowed_def)
  ultimately show ?thesis
    using assms(1) new by (auto simp: collateralHeld_def s2)
qed

lemma requestToJoin_Inr:
  assumes "requestToJoin env uid cid s = Inr (m, s')"
  obtains w c e s1 where "walletOfUser uid s = Some w" and "circleById cid s = Some c"
    and "c_visibility c \<noteq> VIS_PRIVATE" and "c_status c = CS_DRAFT \<or> c_status c = CS_ACTIVE"
    and "c_filledSlots c < c_maxSlots c" and "membershipOf cid uid s = None"
    and "m = newMembership env cid uid MS_PENDING None None (calculateCollateral (c_contributionAmount c))"
    and "writeEntry (rnd env 2) (reserveEntry (w_id w) (rnd env 0) (m_collateralAmount m)
          (''COLL-RES-'' @ rnd env 1)) s = Inr (e, s1)"
    and "insertMembership m s1 = Inr s'"
  using assms
  by (auto simp: requestToJoin_def Let_def bindE_Inr_iff ensure_Inr_iff orThrow_Inr_iff not_le
      intro!: that)

lemma requestToJoin_held:
  assumes "requestToJoin env uid cid s = Inr (m, s')" and "collateralHeld s"
    and "\<And>wid. bucketAmount wid (rnd env 0) s = None"
  shows "collateralHeld s'"
proof -
  from assms(1) obtain w and c :: circle and e s1 where w: "walletOfUser uid s = Some w"
    and m: "m = newMembership env cid uid MS_PENDING None None (calculateCollateral (c_contributionAmount c))"
    and 1: "writeEntry (rnd env 2) (reserveEntry (w_id w) (rnd env 0) (m_collateralAmount m)
          (''COLL-RES-'' @ rnd env 1)) s = Inr (e, s1)"
    and 2: "insertMembership m s1 = Inr s'"
    by (rule requestToJoin_Inr)
  show ?thesis
    using join_held [OF assms(2) w, of "rnd env 2" env "m_collateralAmount m"] 1 2 assms(3)
    by (simp add: m)
qed

lemma requestToJoin_posts:
  assumes "requestToJoin env uid cid s = Inr (m, s')"
  obtains w where "walletOfUser uid s = Some w"
    and "posts s [reserveOf (w_id w) (m_collateralAmount m)] s'"
    and "memberships s' = memberships s @ [m]"
    and "m_collateralAmount m \<le> available s (w_id w)"
proof -
  from assms obtain w e s1 where w: "walletOfUser uid s = Some w"
    and 1: "writeEntry (rnd env 2) (reserveEntry (w_id w) (rnd env 0) (m_collateralAmount m)
          (''COLL-RES-'' @ rnd env 1)) s = Inr (e, s1)"
    and 2: "insertMembership m s1 = Inr s'"
    by (rule requestToJoin_Inr)
  have "sameLedger s1 s'" "memberships s' = memberships s @ [m]"
    using 2 writeEntry_frame(6) [OF 1] by (auto simp: insertMembership_Inr)
  then show thesis
    using that [OF w] posts_then_silent [OF posts_one [OF 1]] 1
    by (simp add: writeEntry_Inr_iff writeAllowed_def)
qed

lemma joinByInvite_Inr:
  assumes "joinByInvite env uid token s = Inr (m, s')"
  obtains i u c w e s1 s2 where "findFirst (\<lambda>i. iv_token i = token) (invites s) = Some i"
    and "iv_usedAt i = None" and "now env \<le> iv_expiresAt i" and "userById uid s = Some u"
    and "toLowerCase (u_email u) = toLowerCase (iv_email i)"
    and "circleById (iv_circleId i) s = Some c" and "c_status c = CS_DRAFT"
    and "c_filledSlots c < c_maxSlots c" and "membershipOf (c_id c) uid s = None"
    and "walletOfUser uid s = Some w"
    and "m = newMembership env (c_id c) uid MS_ACTIVE (Some (c_filledSlots c + 1))
               (Some (now env)) (calculateCollateral (c_contributionAmount c))"
    and "writeEntry (rnd env 2) (reserveEntry (w_id w) (rnd env 0) (m_collateralAmount m)
          (''COLL-RES-'' @ rnd env 1)) s = Inr (e, s1)"
    and "insertMembership m s1 = Inr s2"
    and "s' = (updateCircleRow (c_id c) (\<lambda>c. c\<lparr>c_filledSlots := c_filledSlots c + 1\<rparr>) s2)\<lparr>
          invites := updateRow (\<lambda>x. iv_id x = iv_id i) (\<lambda>x. x\<lparr>iv_usedAt := Some (now env)\<rparr>)
            (invites s2)\<rparr>"
  using assms
  by (auto simp: joinByInvite_def Let_def bindE_Inr_iff ensure_Inr_iff orThrow_Inr_iff not_le not_less
      updateCircleRow_def intro!: that)

lemma joinByInvite_held:
  assumes "joinByInvite env uid token s = Inr (m, s')" and "collateralHeld s"
    and "\<And>wid. bucketAmount wid (rnd env 0) s = None"
  shows "collateralHeld s'"
proof -
  from assms(1) obtain i :: invite and c :: circle and w e s1 s2 where w: "walletOfUser uid s = Some w"
    and m: "m = newMembership env (c_id c) uid MS_ACTIVE (Some (c_filledSlots c + 1))
               (Some (now env)) (calculateCollateral (c_contributionAmount c))"
    and 1: "writeEntry (rnd env 2) (reserveEntry (w_id w) (rnd env 0) (m_collateralAmount m)
          (''COLL-RES-'' @ rnd env 1)) s = Inr (e, s1)"
    and 2: "insertMembership m s1 = Inr s2"
    and s': "s' = (updateCircleRow (c_id c) (\<lambda>c. c\<lparr>c_filledSlots := c_filledSlots c + 1\<rparr>) s2)\<lparr>
          invites := updateRow (\<lambda>x. iv_id x = iv_id i) (\<lambda>x. x\<lparr>iv_usedAt := Some (now env)\<rparr>)
            (invites s2)\<rparr>"
    by (rule joinByInvite_Inr) (rule that)
  have "collateralHeld s2"
    using join_held [OF assms(2) w, of "rnd env 2" env "m_collateralAmount m"] 1 2 assms(3)
    by (simp add: m)
  moreover have "memberHeld s' = memberHeld s2"
    by (rule ext, rule memberHeld_cong) (simp_all add: s')
  ultimately show ?thesis
    by (simp add: collateralHeld_def s')
qed

section \<open>Releasing it\<close>

lemma releaseEntry_amounts:
  assumes "writeEntry j (releaseEntry (w_id w) m ref st) s = Inr (e, s1)"
  shows "bucketAmount v i s1 =
    (if v = w_id w \<and> i = m_id m
     then Some (case bucketAmount v i s of
                  None \<Rightarrow> m_collateralAmount m | Some a \<Rightarrow> a - m_collateralAmount m)
     else bucketAmount v i s)"
  using writeEntry_bucketAmount [OF assms, of v i] by (simp split: option.splits)

definition releasePostings :: "wallet \<Rightarrow> membership \<Rightarrow> posting list" where
  "releasePostings w m =
     (if 0 < m_collateralAmount m
      then [releaseOf (w_id w) (m_collateralAmount m) (- m_collateralAmount m)] else [])"

lemma releaseMember_spec:
  assumes "releaseMember env m s = Inr s1" and "collateralHeld s" and "m \<in> set (memberships s)"
  obtains w where "walletOfUser (m_userId m) s = Some w" and "posts s (releasePostings w m) s1"
    and "ledgerOnly s s1" and "\<And>v i. i \<noteq> m_id m \<Longrightarrow> bucketAmount v i s1 = bucketAmount v i s"
    and "bucketAmount (w_id w) (m_id m) s1 = Some (if holdsCollateral m then 0 else - m_collateralAmount m)"
proof -
  have held: "memberHeld s m" using assms(2,3) by (simp add: collateralHeld_def)
  then obtain w where w: "walletOfUser (m_userId m) s = Some w"
    and amount: "bucketAmount (w_id w) (m_id m) s = Some (if holdsCollateral m then m_collateralAmount m else 0)"
    and nonneg: "0 \<le> m_collateralAmount m"
    by (auto simp: memberHeld_def split: option.splits)
  show thesis
  proof (cases "0 < m_collateralAmount m")
    case True
    with assms(1) w obtain e where
      e: "writeEntry (rnd env 1) (releaseEntry (w_id w) m (''COLL-REL-'' @ rnd env 0)
            ST_COLLATERAL_RESERVE) s = Inr (e, s1)"
      by (auto simp: releaseMember_def result_simps)
    have "bucketExists (releaseEntry (w_id w) m (''COLL-REL-'' @ rnd env 0) ST_COLLATERAL_RESERVE) s"
      using amount by (simp add: bucketExists_amount)
    then have "posts s (releasePostings w m) s1"
      using posts_one [OF e] True by (simp add: postingOf_release releasePostings_def)
    moreover have "ledgerOnly s s1" using e by (rule writeEntry_ledgerOnly)
    moreover have "bucketAmount v i s1 = bucketAmount v i s" if "i \<noteq> m_id m" for v i
      using releaseEntry_amounts [OF e, of v i] that by simp
    moreover have "bucketAmount (w_id w) (m_id m) s1 = Some (if holdsCollateral m then 0 else - m_collateralAmount m)"
      using releaseEntry_amounts [OF e, of "w_id w" "m_id m"] amount by simp
    ultimately show thesis using that w by blast
  next
    case False
    with nonneg have z: "m_collateralAmount m = 0" by simp
    with assms(1) have "s1 = s" by (simp add: releaseMember_def)
    with that [OF w] z amount show thesis by (simp add: releasePostings_def posts.finished)
  qed
qed

text \<open>Deleting the membership, or marking it rejected, after the release keeps the obligation.\<close>

lemma delete_held:
  assumes "releaseMember env m s = Inr s1" and "collateralHeld s" and "m \<in> set (memberships s)"
  shows "collateralHeld (deleteMembership (m_id m) s1)"
proof -
  let ?s2 = "deleteMembership (m_id m) s1"
  from assms have fr: "ledgerOnly s s1"
    and other: "\<And>v i. i \<noteq> m_id m \<Longrightarrow> bucketAmount v i s1 = bucketAmount v i s"
    by (auto elim: releaseMember_spec)
  have ms: "memberships ?s2 = filter (\<lambda>x. m_id x \<noteq> m_id m) (memberships s)"
    using ledgerOnly_frame(6) [OF fr] by (simp add: deleteMembership_def)
  have "memberHeld ?s2 x" if "x \<in> set (memberships s)" "m_id x \<noteq> m_id m" for x
  proof -
    have "memberHeld s x" using assms(2) that by (simp add: collateralHeld_def)
    moreover have "bucketAmount v (m_id x) ?s2 = bucketAmount v (m_id x) s" for v
      using other [OF that(2), of v] by (simp add: deleteMembership_def bucketAmount_def)
    ultimately show ?thesis
      using memberHeld_step [of ?s2 s x] ledgerOnly_frame(1) [OF fr] by (simp add: deleteMembership_def)
  qed
  then show ?thesis
    using assms(2) by (simp add: collateralHeld_def ms distinct_map_filter)
qed

lemma cancelJoinRequest_Inr:
  assumes "cancelJoinRequest env uid cid s = Inr s'"
  obtains m s1 where "membershipOf cid uid s = Some m" and "m_status m = MS_PENDING"
    and "releaseMember env m s = Inr s1" and "s' = deleteMembership (m_id m) s1"
  using assms by (auto simp: cancelJoinRequest_def result_simps intro!: that)

lemma cancelJoinRequest_held:
  "cancelJoinRequest env uid cid s = Inr s' \<Longrightarrow> collateralHeld s \<Longrightarrow> collateralHeld s'"
  by (elim cancelJoinRequest_Inr) (auto dest: membershipOf_Some intro: delete_held)

lemma leaveCircle_Inr:
  assumes "leaveCircle env cid uid s = Inr s'"
  obtains c m w s1 where "circleById cid s = Some c" and "c_status c = CS_DRAFT"
    and "membershipOf cid uid s = Some m" and "walletOfUser uid s = Some w"
    and "releaseMember env m s = Inr s1"
    and "s' = (if m_status m = MS_ACTIVE
               then updateCircleRow cid (\<lambda>c. c\<lparr>c_filledSlots := c_filledSlots c - 1\<rparr>)
                      (deleteMembership (m_id m) s1)
               else deleteMembership (m_id m) s1)"
  using assms by (auto simp: leaveCircle_def Let_def result_simps intro!: that)

lemma collateralHeld_cong:
  assumes "memberships t = memberships s" and "wallets t = wallets s"
    and "walletBuckets t = walletBuckets s" and "collateralHeld s"
  shows "collateralHeld t"
proof -
  have "memberHeld t = memberHeld s"
    by (rule ext, rule memberHeld_cong) (simp_all add: assms)
  with assms show ?thesis by (simp add: collateralHeld_def)
qed

lemma leaveCircle_held:
  assumes "leaveCircle env cid uid s = Inr s'" and "collateralHeld s"
  shows "collateralHeld s'"
proof -
  from assms(1) obtain m s1 where m: "membershipOf cid uid s = Some m"
    and r: "releaseMember env m s = Inr s1"
    and s': "s' = (if m_status m = MS_ACTIVE
               then updateCircleRow cid (\<lambda>c. c\<lparr>c_filledSlots := c_filledSlots c - 1\<rparr>)
                      (deleteMembership (m_id m) s1)
               else deleteMembership (m_id m) s1)"
    by (rule leaveCircle_Inr)
  have "collateralHeld (deleteMembership (m_id m) s1)"
    using delete_held [OF r assms(2)] membershipOf_Some [OF m] by simp
  then show ?thesis
    by (rule collateralHeld_cong [rotated 3]) (simp_all add: s')
qed

lemma rejectMember_Inr:
  assumes "rejectMember env cid adm uid s = Inr (m', s')"
  obtains c m s1 where "circleById cid s = Some c" and "c_adminId c = adm"
    and "membershipOf cid uid s = Some m" and "m_status m = MS_PENDING"
    and "releaseMember env m s = Inr s1" and "m' = m\<lparr>m_status := MS_REJECTED\<rparr>"
    and "s' = setMember cid uid (\<lambda>m. m\<lparr>m_status := MS_REJECTED\<rparr>) s1"
  using assms by (auto simp: rejectMember_def result_simps intro!: that)

text \<open>An update of one membership's row.\<close>

lemma updateRow_unique_in:
  assumes "distinct rs" and "\<And>x. x \<in> set rs \<Longrightarrow> P x \<longleftrightarrow> x = m"
    and "x \<in> set (updateRow P f rs)" and "m \<in> set rs"
  shows "(x \<in> set rs \<and> x \<noteq> m) \<or> x = f m"
  using assms
proof (induction rs)
  case (Cons r rs)
  show ?case
  proof (cases "P r")
    case True
    with Cons.prems(2) [of r] have "r = m" by simp
    with Cons.prems True show ?thesis by auto
  next
    case False
    then have "r \<noteq> m" using Cons.prems(2) [of r] by simp
    with Cons False show ?thesis by auto
  qed
qed simp

lemma updateRow_held:
  assumes "collateralHeld s" and "memberships s2 = updateRow P f (memberships s)"
    and "wallets s2 = wallets s" and "m \<in> set (memberships s)"
    and "\<And>x. x \<in> set (memberships s) \<Longrightarrow> P x \<longleftrightarrow> x = m"
    and "\<And>x. m_id (f x) = m_id x \<and> m_key (f x) = m_key x"
    and "\<And>v i. i \<noteq> m_id m \<Longrightarrow> bucketAmount v i s2 = bucketAmount v i s"
    and "memberHeld s2 (f m)"
  shows "collateralHeld s2"
proof -
  have d: "distinct (map m_id (memberships s))" "distinct (map m_key (memberships s))"
    and held: "\<And>x. x \<in> set (memberships s) \<Longrightarrow> memberHeld s x"
    using assms(1) by (auto simp: collateralHeld_def)
  have "memberHeld s2 x" if x: "x \<in> set (memberships s2)" for x
  proof -
    have "distinct (memberships s)" using d(1) by (simp add: distinct_map)
    from updateRow_unique_in [OF this assms(5) x [unfolded assms(2)] assms(4)]
    consider "x \<in> set (memberships s)" "x \<noteq> m" | "x = f m" by blast
    then show ?thesis
    proof cases
      case 1
      have "m_id x \<noteq> m_id m"
        using 1 assms(4) d(1) by (metis distinct_map inj_onD)
      then have "memberHeld s2 x = memberHeld s x"
        using assms(3,7) by (intro memberHeld_step)
      with held 1 show ?thesis by simp
    next
      case 2
      with assms(8) show ?thesis by simp
    qed
  qed
  moreover have "map m_id (memberships s2) = map m_id (memberships s)"
    "map m_key (memberships s2) = map m_key (memberships s)"
    unfolding assms(2) using assms(6) by (simp_all add: map_updateRow)
  ultimately show ?thesis using d by (simp add: collateralHeld_def)
qed

lemma unique_id:
  "collateralHeld s \<Longrightarrow> m \<in> set (memberships s) \<Longrightarrow> x \<in> set (memberships s) \<Longrightarrow>
   m_id x = m_id m \<longleftrightarrow> x = m"
  by (auto simp: collateralHeld_def distinct_map dest: inj_onD)

lemma unique_key:
  "collateralHeld s \<Longrightarrow> membershipOf cid uid s = Some m \<Longrightarrow> x \<in> set (memberships s) \<Longrightarrow>
   m_circleId x = cid \<and> m_userId x = uid \<longleftrightarrow> x = m"
  using membershipOf_Some [of cid uid s m]
  by (auto simp: collateralHeld_def distinct_map m_key_def inj_on_def)

lemma rejectMember_held:
  assumes "rejectMember env cid adm uid s = Inr (m', s')" and "collateralHeld s"
    and "\<And>m. membershipOf cid uid s = Some m \<Longrightarrow> \<not> m_collateralReleased m"
  shows "collateralHeld s'"
proof -
  from assms(1) obtain m s1 where m: "membershipOf cid uid s = Some m" "m_status m = MS_PENDING"
    and r: "releaseMember env m s = Inr s1"
    and s': "s' = setMember cid uid (\<lambda>m. m\<lparr>m_status := MS_REJECTED\<rparr>) s1"
    by (rule rejectMember_Inr)
  have hold: "holdsCollateral m" using assms(3) m by (simp add: holdsCollateral_def)
  from r assms(2) obtain w where w: "walletOfUser (m_userId m) s = Some w" and fr: "ledgerOnly s s1"
    and other: "\<And>v i. i \<noteq> m_id m \<Longrightarrow> bucketAmount v i s1 = bucketAmount v i s"
    and amount: "bucketAmount (w_id w) (m_id m) s1 = Some (if holdsCollateral m then 0 else - m_collateralAmount m)"
    using releaseMember_spec membershipOf_Some [OF m(1)] by blast
  have "0 \<le> m_collateralAmount m"
    using assms(2) membershipOf_Some [OF m(1)] by (simp add: collateralHeld_def memberHeld_def)
  then have "memberHeld s1 (m\<lparr>m_status := MS_REJECTED\<rparr>)"
    using w hold amount ledgerOnly_frame(1) [OF fr]
    by (simp add: memberHeld_def holdsCollateral_def walletOfUser_def)
  then have "memberHeld s' (m\<lparr>m_status := MS_REJECTED\<rparr>)"
    using memberHeld_cong [of s1 s'] by (simp add: s' setMember_def)
  moreover have "bucketAmount v i s' = bucketAmount v i s1" for v i
    by (rule bucketAmount_cong) (simp add: s' setMember_def)
  ultimately show ?thesis
    using ledgerOnly_frame(1,6) [OF fr] other membershipOf_Some [OF m(1)]
    by (intro updateRow_held [OF assms(2) _ _ _ unique_key [OF assms(2) m(1)],
          where f = "\<lambda>m. m\<lparr>m_status := MS_REJECTED\<rparr>"])
      (simp_all add: s' setMember_def m_key_def)
qed

text \<open>
  Approval keeps the obligation of a membership that was not rejected.  (A rejected one would become
  active without any collateral.)
\<close>

lemma approveMember_Inr:
  assumes "approveMember env cid adm uid s = Inr (ap, s')"
  obtains c m where "circleById cid s = Some c" and "c_adminId c = adm"
    and "membershipOf cid uid s = Some m" and "ap_newPosition ap = c_filledSlots c + 1"
    and "ap_nowFull ap = (c_filledSlots c + 1 = c_maxSlots c)"
    and "ap_membership ap = m\<lparr>m_status := MS_ACTIVE, m_approvedAt := Some (now env),
          m_payoutPosition := Some (c_filledSlots c + 1)\<rparr>"
    and "s' = updateCircleRow cid (\<lambda>c. c\<lparr>c_filledSlots := c_filledSlots c + 1\<rparr>)
          (setMember cid uid (\<lambda>m. m\<lparr>m_status := MS_ACTIVE, m_approvedAt := Some (now env),
             m_payoutPosition := Some (c_filledSlots c + 1)\<rparr>) s)"
  using assms by (auto simp: approveMember_def Let_def result_simps intro!: that)

lemma approveMember_held:
  assumes "approveMember env cid adm uid s = Inr (ap, s')" and "collateralHeld s"
    and "\<And>m. membershipOf cid uid s = Some m \<Longrightarrow> m_status m \<noteq> MS_REJECTED"
  shows "collateralHeld s'"
proof -
  from assms(1) obtain c :: circle and m where m: "membershipOf cid uid s = Some m"
    and s': "s' = updateCircleRow cid (\<lambda>c. c\<lparr>c_filledSlots := c_filledSlots c + 1\<rparr>)
          (setMember cid uid (\<lambda>m. m\<lparr>m_status := MS_ACTIVE, m_approvedAt := Some (now env),
             m_payoutPosition := Some (c_filledSlots c + 1)\<rparr>) s)"
    by (rule approveMember_Inr) (rule that)
  let ?f = "\<lambda>m. m\<lparr>m_status := MS_ACTIVE, m_approvedAt := Some (now env),
             m_payoutPosition := Some (c_filledSlots c + 1)\<rparr>"
  have ms: "m \<in> set (memberships s)" using membershipOf_Some [OF m] by simp
  have "memberHeld s m" using assms(2) ms by (simp add: collateralHeld_def)
  moreover have "m_status m \<noteq> MS_REJECTED" using assms(3) m by blast
  ultimately have "memberHeld s (?f m)"
    by (cases "walletOfUser (m_userId m) s") (simp_all add: memberHeld_def holdsCollateral_def)
  then have "memberHeld s' (?f m)"
    using memberHeld_cong [of s s'] by (simp add: s' setMember_def)
  moreover have "bucketAmount v i s' = bucketAmount v i s" for v i
    by (rule bucketAmount_cong) (simp add: s' setMember_def)
  ultimately show ?thesis
    by (intro updateRow_held [OF assms(2) _ _ ms unique_key [OF assms(2) m], where f = ?f])
      (simp_all add: s' setMember_def m_key_def)
qed

text \<open>
  The release loop at the end of a circle: when every membership it meets holds its collateral, the
  obligation is kept and every release is of a bucket that exists.
\<close>

lemma releaseCollaterals_held:
  "releaseCollaterals env k ms s = Inr s' \<Longrightarrow> collateralHeld s \<Longrightarrow> set ms \<subseteq> set (memberships s) \<Longrightarrow>
   distinct (map m_id ms) \<Longrightarrow> \<forall>m \<in> set ms. holdsCollateral m \<Longrightarrow>
   collateralHeld s' \<and> (\<exists>rs. posts s rs s' \<and> releaseOnly rs \<and> list_all honest rs)"
proof (induction ms arbitrary: k s)
  case Nil
  then show ?case by (auto intro!: exI [of _ "[]"] posts.finished)
next
  case (Cons m ms)
  have "memberHeld s m" using Cons.prems(2,3) by (simp add: collateralHeld_def)
  then obtain w where w: "walletOfUser (m_userId m) s = Some w"
    and amount: "bucketAmount (w_id w) (m_id m) s = Some (m_collateralAmount m)"
    and nonneg: "0 \<le> m_collateralAmount m"
    using Cons.prems(5) by (auto simp: memberHeld_def split: option.splits)
  let ?p = "releaseEntry (w_id w) m (''COLL-REL-'' @ rnd env k) ST_COLLATERAL_RELEASE"
  from Cons.prems(1) w obtain e s1 where
    1: "writeEntry (rnd env (k + 1)) ?p s = Inr (e, s1)"
    and 2: "releaseCollaterals env (k + 2) ms (updateMembership (m_id m) (completeMember env) s1) = Inr s'"
    by (auto simp: result_simps)
  let ?s2 = "updateMembership (m_id m) (completeMember env) s1"
  have fr: "memberships s1 = memberships s" "wallets s1 = wallets s"
    using writeEntry_frame(1,6) [OF 1] by simp_all
  have key: "m_key (completeMember env x) = m_key x" for x
    by (simp add: m_key_def)
  have amounts: "bucketAmount v i ?s2 = bucketAmount v i s1" for v i
    by (rule bucketAmount_cong) simp
  have released: "memberHeld ?s2 (completeMember env m)"
    using w amount nonneg fr releaseEntry_amounts [OF 1, of "w_id w" "m_id m"]
      amounts [of "w_id w" "m_id m"]
    by (simp add: memberHeld_def walletOfUser_def holdsCollateral_def)
  have held: "collateralHeld ?s2"
    using Cons.prems(2,3) fr key released amounts releaseEntry_amounts [OF 1]
    by (intro updateRow_held [OF Cons.prems(2) _ _ _ unique_id [OF Cons.prems(2)],
          where m = m and f = "completeMember env"]) simp_all
  have rest: "set ms \<subseteq> set (memberships ?s2)"
  proof
    fix x assume x: "x \<in> set ms"
    then have "m_id x \<noteq> m_id m" using Cons.prems(4) by (metis distinct.simps(2) image_eqI list.set_map list.simps(9))
    then show "x \<in> set (memberships ?s2)"
      using x Cons.prems(3) fr by (auto intro: updateRow_keep)
  qed
  have ex: "bucketExists ?p s"
    using amount by (simp add: bucketExists_amount)
  from Cons.IH [OF 2 held rest] Cons.prems(4,5) obtain rs
    where ih: "collateralHeld s'" "posts ?s2 rs s'" "releaseOnly rs" "list_all honest rs"
    by auto
  have "sameLedger s1 ?s2" by auto
  from posts.written [OF 1 posts.silent [OF this ih(2)]]
  have "posts s (releaseOf (w_id w) (m_collateralAmount m) (- m_collateralAmount m) # rs) s'"
    using ex by (simp add: postingOf_release)
  with ih show ?case
    by (intro conjI exI [of _ "releaseOf (w_id w) (m_collateralAmount m) (- m_collateralAmount m) # rs"])
      simp_all
qed

text \<open>
  A rejected member who leaves a draft circle has the collateral released a second time: the
  reserved total falls below what it was before joining by one collateral, and the wallet may
  spend money it does not have.
\<close>

lemma reject_then_leave:
  assumes "rejectMember env cid adm uid s = Inr (m, s1)" and "leaveCircle env' cid uid s1 = Inr s2"
    and "collateralHeld s" and "\<not> m_collateralReleased m" and "walletOfUser uid s = Some w"
  shows "totalReserved s2 (w_id w) = totalReserved s (w_id w) - 2 * m_collateralAmount m"
    and "available s2 (w_id w) = available s (w_id w) + 2 * m_collateralAmount m"
    and "computeTotalBalance s2 (w_id w) = computeTotalBalance s (w_id w)"
proof -
  from assms(1) obtain m0 s0 where m0: "membershipOf cid uid s = Some m0"
    and r: "releaseMember env m0 s = Inr s0" and m: "m = m0\<lparr>m_status := MS_REJECTED\<rparr>"
    and s1: "s1 = setMember cid uid (\<lambda>m. m\<lparr>m_status := MS_REJECTED\<rparr>) s0"
    by (rule rejectMember_Inr)
  note mem = membershipOf_Some [OF m0]
  have held1: "collateralHeld s1"
    using rejectMember_held [OF assms(1,3)] assms(4) m m0 by simp
  from r assms(3) obtain w1 where "walletOfUser (m_userId m0) s = Some w1"
    and p1: "posts s (releasePostings w1 m0) s0" and fr: "ledgerOnly s s0"
    using releaseMember_spec mem by blast
  then have w1: "w1 = w" using assms(5) mem by simp
  have "sameLedger s0 s1" by (auto simp: s1 setMember_def)
  with p1 w1 have P1: "posts s (releasePostings w m0) s1"
    using posts_then_silent by blast
  from assms(2) obtain m1 s3 where m1: "membershipOf cid uid s1 = Some m1"
    and r2: "releaseMember env' m1 s1 = Inr s3"
    and s2: "s2 = (if m_status m1 = MS_ACTIVE
               then updateCircleRow cid (\<lambda>c. c\<lparr>c_filledSlots := c_filledSlots c - 1\<rparr>)
                      (deleteMembership (m_id m1) s3)
               else deleteMembership (m_id m1) s3)"
    by (rule leaveCircle_Inr)
  have "membershipOf cid uid s1 = Some m"
  proof -
    have f: "findFirst (\<lambda>x. m_circleId x = cid \<and> m_userId x = uid) (memberships s) = Some m0"
      using m0 by (simp add: membershipOf_def)
    have "findFirst (\<lambda>x. m_circleId x = cid \<and> m_userId x = uid)
        (updateRow (\<lambda>x. m_circleId x = cid \<and> m_userId x = uid)
          (\<lambda>m. m\<lparr>m_status := MS_REJECTED\<rparr>) (memberships s)) = Some (m0\<lparr>m_status := MS_REJECTED\<rparr>)"
      using mem by (intro find_updateRow_same [OF f]) simp
    then show ?thesis
      using ledgerOnly_frame(6) [OF fr] by (simp add: s1 setMember_def membershipOf_def m)
  qed
  with m1 have m1m: "m1 = m" by simp
  from r2 held1 obtain w2 where "walletOfUser (m_userId m1) s1 = Some w2"
    and p2: "posts s1 (releasePostings w2 m1) s3"
    using releaseMember_spec membershipOf_Some [OF m1] by blast
  then have w2: "w2 = w"
    using assms(5) mem m1m m ledgerOnly_frame(1) [OF fr] by (simp add: s1 setMember_def walletOfUser_def)
  have "sameLedger s3 s2" by (auto simp: s2 deleteMembership_def)
  with p2 w2 m1m have P2: "posts s1 (releasePostings w m) s2"
    using posts_then_silent by blast
  have P: "posts s (releasePostings w m0 @ releasePostings w m) s2"
    by (rule posts_trans [OF P1 P2])
  have nonneg: "0 \<le> m_collateralAmount m0"
    using assms(3) mem by (simp add: collateralHeld_def memberHeld_def)
  show "totalReserved s2 (w_id w) = totalReserved s (w_id w) - 2 * m_collateralAmount m"
    and "available s2 (w_id w) = available s (w_id w) + 2 * m_collateralAmount m"
    and "computeTotalBalance s2 (w_id w) = computeTotalBalance s (w_id w)"
    using posts_reserved [OF P, of "w_id w"] posts_available [OF P, of "w_id w"]
      posts_total [OF P, of "w_id w"] nonneg
    by (auto simp: releasePostings_def m)
qed

end
