(* ===== verification/Transactions.thy ===== *)
theory Transactions
  imports Posting
begin

text \<open>
  \<^verbatim>\<open>src/modules/transactions/transactions.service.ts\<close>: the records of deposits and withdrawals and
  the settlement of a deposit the provider reports.  A transaction is \<open>TS_PENDING\<close> until it settles
  or fails; its reference is unique.  The ledger credit of a settlement carries the provider's id in
  its key, and the provider's event is recorded first, so a deposit is credited at most once.
\<close>

section \<open>The table\<close>

definition transactionByReference :: "string \<Rightarrow> db \<Rightarrow> transactionRow option" where
  "transactionByReference ref s = findFirst (\<lambda>t. t_reference t = ref) (transactions s)"

definition transactionById :: "string \<Rightarrow> db \<Rightarrow> transactionRow option" where
  "transactionById i s = findFirst (\<lambda>t. t_id t = i) (transactions s)"

definition insertTransaction :: "transactionRow \<Rightarrow> db \<Rightarrow> db result" where
  "insertTransaction t s =
     (if list_ex (\<lambda>x. t_id x = t_id t \<or> t_reference x = t_reference t) (transactions s)
      then Inl (PrismaError ''P2002'')
      else Inr (s\<lparr>transactions := transactions s @ [t]\<rparr>))"

text \<open>
  \<^verbatim>\<open>transaction.update({ where: { id } })\<close>: the row has to exist, and a change of the reference must
  keep it unique.
\<close>

definition updateTransaction :: "string \<Rightarrow> (transactionRow \<Rightarrow> transactionRow) \<Rightarrow> db \<Rightarrow> db result" where
  "updateTransaction i f s =
     (case transactionById i s of
        None \<Rightarrow> Inl (PrismaError ''P2025'')
      | Some t \<Rightarrow>
          if t_reference (f t) \<noteq> t_reference t \<and>
             list_ex (\<lambda>x. t_reference x = t_reference (f t)) (transactions s)
          then Inl (PrismaError ''P2002'')
          else Inr (s\<lparr>transactions := updateRow (\<lambda>x. t_id x = i) f (transactions s)\<rparr>))"

definition createWebhookEvent :: "webhookEvent \<Rightarrow> db \<Rightarrow> db result" where
  "createWebhookEvent e s =
     (if list_ex (\<lambda>x. we_eventId x = we_eventId e) (webhookEvents s)
      then Inl (PrismaError ''P2002'')
      else Inr (s\<lparr>webhookEvents := webhookEvents s @ [e]\<rparr>))"

section \<open>The service\<close>

record createTransactionInput =
  ti_walletId :: string
  ti_amount :: int
  ti_reference :: string
  ti_type :: transactionType
  ti_status :: transactionStatus
  ti_currency :: "string option"
  ti_provider :: "string option"
  ti_metadata :: "jobject option"

text \<open>\<^verbatim>\<open>x || d\<close> for an optional string: the empty string is falsy.\<close>

definition orDefault :: "string option \<Rightarrow> string \<Rightarrow> string" where
  "orDefault x d = (case x of None \<Rightarrow> d | Some v \<Rightarrow> if v = '''' then d else v)"

definition createTransaction ::
  "env \<Rightarrow> createTransactionInput \<Rightarrow> db \<Rightarrow> (transactionRow \<times> db) result" where
  "createTransaction env input s =
     (let t = \<lparr>t_id = rnd env 0, t_walletId = ti_walletId input,
               t_provider = orDefault (ti_provider input) ''FLUTTERWAVE'',
               t_reference = ti_reference input, t_amount = ti_amount input,
               t_currency = orDefault (ti_currency input) ''NGN'', t_status = ti_status input,
               t_type = ti_type input, t_metadata = ti_metadata input, t_completedAt = None,
               t_createdAt = now env\<rparr>
      in bindE (insertTransaction t s) (\<lambda>s1. Inr (t, s1)))"

record updateStatusExtra =
  ue_providerReference :: "string option"
  ue_completedAt :: "int option"
  ue_metadata :: "jobject option"

definition updateStatus ::
  "env \<Rightarrow> string \<Rightarrow> transactionStatus \<Rightarrow> updateStatusExtra \<Rightarrow> db \<Rightarrow> db result" where
  "updateStatus env i status extra s =
     (let completedAt = (case ue_completedAt extra of
                           Some d \<Rightarrow> Some d
                         | None \<Rightarrow> if status \<noteq> TS_PENDING then Some (now env) else None)
      in updateTransaction i
           (\<lambda>t. t\<lparr>t_status := status,
                  t_reference := (case ue_providerReference extra of
                                    None \<Rightarrow> t_reference t | Some r \<Rightarrow> r),
                  t_completedAt := completedAt, t_metadata := ue_metadata extra\<rparr>) s)"

record settlementParams =
  sp_reference :: string
  sp_providerId :: string
  sp_receivedAmountNaira :: rat
  sp_providerName :: string

datatype settlement = Duplicate | Ignored | Refused string | Settled int bool

text \<open>\<^verbatim>\<open>null\<close> for a duplicate; other errors are thrown on.\<close>

definition recordWebhookIdempotent :: "string \<Rightarrow> string \<Rightarrow> db \<Rightarrow> (bool \<times> db) result" where
  "recordWebhookIdempotent provider eventId s =
     (case createWebhookEvent \<lparr>we_provider = provider, we_eventId = eventId\<rparr> s of
        Inr s1 \<Rightarrow> Inr (True, s1)
      | Inl e \<Rightarrow> if e = PrismaError ''P2002'' then Inr (False, s) else Inl e)"

record amountCheck =
  ac_valid :: bool
  ac_reason :: "string option"
  ac_overpayment :: bool

definition toKobo :: "rat \<Rightarrow> int" where
  "toKobo naira = math_round (naira * 100)"

definition verifyAmount :: "int \<Rightarrow> rat \<Rightarrow> amountCheck" where
  "verifyAmount expectedKobo receivedNaira =
     (let receivedKobo = toKobo receivedNaira
      in if receivedKobo < expectedKobo
         then \<lparr>ac_valid = False, ac_reason = Some ''underpayment'', ac_overpayment = False\<rparr>
         else let overpayment = (expectedKobo < receivedKobo)
              in \<lparr>ac_valid = True, ac_reason = (if overpayment then Some ''overpayment'' else None),
                  ac_overpayment = overpayment\<rparr>)"

definition markTransactionFailed :: "env \<Rightarrow> string \<Rightarrow> string \<Rightarrow> db \<Rightarrow> db result" where
  "markTransactionFailed env i reason s =
     updateTransaction i
       (\<lambda>t. t\<lparr>t_status := TS_FAILED, t_completedAt := Some (now env),
              t_metadata := Some [(''error'', JStr reason), (''failedAt'', JDate (now env))]\<rparr>) s"

definition settlementEntry :: "transactionRow \<Rightarrow> string \<Rightarrow> string \<Rightarrow> int \<Rightarrow> entryParams" where
  "settlementEntry t providerName providerId amount =
     \<lparr>wp_walletId = t_walletId t, wp_entryType = CREDIT, wp_movementType = FUNDING,
      wp_bucketType = Some BT_MAIN, wp_amount = amount,
      wp_reference = providerName @ ''-'' @ providerId, wp_sourceType = ST_TRANSACTION,
      wp_sourceId = t_id t\<rparr>"

definition finalizeTransaction ::
  "env \<Rightarrow> transactionRow \<Rightarrow> string \<Rightarrow> rat \<Rightarrow> int \<Rightarrow> db \<Rightarrow> db result" where
  "finalizeTransaction env t providerId receivedAmountNaira creditedAmount s =
     updateTransaction (t_id t)
       (\<lambda>x. x\<lparr>t_status := TS_SUCCESS, t_reference := providerId, t_completedAt := Some (now env),
              t_metadata := Some (spread (asObject (t_metadata t))
                [(''settled_at'', JDate (now env)), (''webhook_amount_ngn'', JNum receivedAmountNaira),
                 (''credited_amount_kobo'', JBig creditedAmount),
                 (''original_amount_kobo'', JBig (t_amount t))])\<rparr>) s"

definition finalizeSettlementTx ::
  "env \<Rightarrow> settlementParams \<Rightarrow> db \<Rightarrow> (settlement \<times> db) result" where
  "finalizeSettlementTx env p s =
     bindE (recordWebhookIdempotent (sp_providerName p) (sp_providerId p) s) (\<lambda>(recorded, s1).
     if \<not> recorded then Inr (Duplicate, s1)
     else case transactionByReference (sp_reference p) s1 of
        None \<Rightarrow> Inr (Ignored, s1)
      | Some t \<Rightarrow>
          if t_status t \<noteq> TS_PENDING then Inr (Ignored, s1)
          else
            let check = verifyAmount (t_amount t) (sp_receivedAmountNaira p)
            in if \<not> ac_valid check then
                 let reason = (case ac_reason check of None \<Rightarrow> '''' | Some r \<Rightarrow> r)
                 in bindE (markTransactionFailed env (t_id t) reason s1) (\<lambda>s2.
                    Inr (Refused reason, s2))
               else
                 let amountToCredit = (if ac_overpayment check
                                       then toKobo (sp_receivedAmountNaira p) else t_amount t)
                 in bindE (writeEntry (rnd env 0)
                      (settlementEntry t (sp_providerName p) (sp_providerId p) amountToCredit) s1)
                    (\<lambda>(_, s2).
                    bindE (finalizeTransaction env t (sp_providerId p) (sp_receivedAmountNaira p)
                             amountToCredit s2) (\<lambda>s3.
                    Inr (Settled amountToCredit (ac_overpayment check), s3))))"

definition finalizeSettlement :: "env \<Rightarrow> settlementParams \<Rightarrow> db \<Rightarrow> settlement result \<times> db" where
  "finalizeSettlement env p s = transaction (finalizeSettlementTx env p) s"

definition markAsFailed ::
  "env \<Rightarrow> string \<Rightarrow> string \<Rightarrow> db \<Rightarrow> (transactionRow option \<times> db) result" where
  "markAsFailed env ref reason s =
     (case transactionByReference ref s of
        None \<Rightarrow> Inr (None, s)
      | Some t \<Rightarrow>
          let f = (\<lambda>x. x\<lparr>t_status := TS_FAILED, t_completedAt := Some (now env),
                 t_metadata := Some (spread (asObject (t_metadata t))
                   [(''error'', JStr reason), (''failedAt'', JDate (now env))])\<rparr>)
          in Inr (Some (f t),
               s\<lparr>transactions := updateRow (\<lambda>x. t_reference x = ref) f (transactions s)\<rparr>))"

definition findByReference :: "string \<Rightarrow> db \<Rightarrow> (transactionRow \<times> wallet option) option" where
  "findByReference ref s =
     map_option (\<lambda>t. (t, walletById (t_walletId t) s)) (transactionByReference ref s)"

definition findByProviderRef :: "string \<Rightarrow> db \<Rightarrow> transactionRow option" where
  "findByProviderRef ref s = findFirst (\<lambda>t. t_reference t = ref) (transactions s)"

section \<open>The table's contract\<close>

definition transactionsUnique :: "db \<Rightarrow> bool" where
  "transactionsUnique s \<longleftrightarrow>
     distinct (map t_id (transactions s)) \<and> distinct (map t_reference (transactions s))"

lemma insertTransaction_Inr:
  "insertTransaction t s = Inr s' \<longleftrightarrow>
     t_id t \<notin> t_id ` set (transactions s) \<and> t_reference t \<notin> t_reference ` set (transactions s) \<and>
     s' = s\<lparr>transactions := transactions s @ [t]\<rparr>"
  unfolding insertTransaction_def list_ex_iff by (auto simp: image_iff) (metis+)

lemma createWebhookEvent_Inr:
  "createWebhookEvent e s = Inr s' \<longleftrightarrow>
     we_eventId e \<notin> we_eventId ` set (webhookEvents s) \<and>
     s' = s\<lparr>webhookEvents := webhookEvents s @ [e]\<rparr>"
  unfolding createWebhookEvent_def list_ex_iff by (auto simp: image_iff) (metis+)

interpretation transactionByRef: keyed_table transactions t_reference insertTransaction
  by unfold_locales (auto simp: insertTransaction_Inr)

interpretation transactionByPk: keyed_table transactions t_id insertTransaction
  by unfold_locales (auto simp: insertTransaction_Inr)

interpretation webhookEventById: keyed_table webhookEvents we_eventId createWebhookEvent
  by unfold_locales (auto simp: createWebhookEvent_Inr)

lemma updateTransaction_Inr:
  "updateTransaction i f s = Inr s' \<longleftrightarrow>
     (\<exists>t. transactionById i s = Some t \<and>
          (t_reference (f t) = t_reference t \<or>
           t_reference (f t) \<notin> t_reference ` set (transactions s)) \<and>
          s' = s\<lparr>transactions := updateRow (\<lambda>x. t_id x = i) f (transactions s)\<rparr>)"
  unfolding updateTransaction_def list_ex_iff
  by (auto simp: image_iff split: option.splits if_splits) (metis+)

lemma transactionById_unique:
  "transactionsUnique s \<Longrightarrow> t \<in> set (transactions s) \<Longrightarrow> transactionById (t_id t) s = Some t"
  by (auto simp: transactionsUnique_def transactionById_def intro: find_unique)

lemma transactionByReference_unique:
  "transactionsUnique s \<Longrightarrow> t \<in> set (transactions s) \<Longrightarrow>
   transactionByReference (t_reference t) s = Some t"
  by (auto simp: transactionsUnique_def transactionByReference_def intro: find_unique)

lemma transactionByReferenceD:
  "transactionByReference r s = Some t \<Longrightarrow> t \<in> set (transactions s) \<and> t_reference t = r"
  by (auto simp: transactionByReference_def dest: find_SomeD)

lemma transactionByIdD:
  "transactionById i s = Some t \<Longrightarrow> t \<in> set (transactions s) \<and> t_id t = i"
  by (auto simp: transactionById_def dest: find_SomeD)

lemma updateTransaction_frame:
  assumes "updateTransaction i f s = Inr s'"
  shows "sameLedger s s'" "webhookEvents s' = webhookEvents s" "wallets s' = wallets s"
    "virtualAccounts s' = virtualAccounts s" "users s' = users s" "kycs s' = kycs s"
    "walletEvents s' = walletEvents s"
  using assms by (auto simp: updateTransaction_Inr)

lemma updateRow_at:
  "findFirst P rs = Some r \<Longrightarrow> \<exists>i < length rs. rs ! i = r \<and> updateRow P f rs = rs[i := f r]"
proof (induction rs)
  case (Cons x xs)
  show ?case
  proof (cases "P x")
    case True
    with Cons.prems show ?thesis by (intro exI [of _ 0]) simp
  next
    case False
    with Cons obtain i where "i < length xs" "xs ! i = r" "updateRow P f xs = xs[i := f r]"
      by auto
    with False show ?thesis by (intro exI [of _ "Suc i"]) simp
  qed
qed simp

lemma updateRow_unique_keys:
  assumes "distinct (map k rs)" and "findFirst P rs = Some r"
    and "k (f r) = k r \<or> k (f r) \<notin> k ` set rs"
  shows "distinct (map k (updateRow P f rs))"
proof -
  obtain i where i: "i < length rs" "rs ! i = r" "updateRow P f rs = rs[i := f r]"
    using updateRow_at [OF assms(2)] by blast
  have "k (f r) \<notin> set (map k rs) - {map k rs ! i}"
    using assms(3) i by auto
  then show ?thesis
    using distinct_list_update [OF assms(1)] i by (simp add: map_update)
qed

lemma updateTransaction_unique:
  assumes "updateTransaction i f s = Inr s'" and "transactionsUnique s"
    and "\<And>t. t_id (f t) = t_id t"
  shows "transactionsUnique s'"
proof -
  from assms(1) obtain t where t: "findFirst (\<lambda>x. t_id x = i) (transactions s) = Some t"
    and r: "t_reference (f t) = t_reference t \<or> t_reference (f t) \<notin> t_reference ` set (transactions s)"
    and s': "s' = s\<lparr>transactions := updateRow (\<lambda>x. t_id x = i) f (transactions s)\<rparr>"
    by (auto simp: updateTransaction_Inr transactionById_def)
  have "map t_id (transactions s') = map t_id (transactions s)"
    using s' assms(3) by (simp add: map_updateRow)
  with updateRow_unique_keys [where k = t_reference and f = f, OF _ t r] assms(2) s' show ?thesis
    by (simp add: transactionsUnique_def)
qed

lemma updateTransaction_other:
  assumes "updateTransaction i f s = Inr s'" and "\<And>t. t_id (f t) = t_id t" and "j \<noteq> i"
  shows "transactionById j s' = transactionById j s"
proof -
  have "findFirst (\<lambda>x. t_id x = j) (updateRow (\<lambda>x. t_id x = i) f (transactions s))
      = findFirst (\<lambda>x. t_id x = j) (transactions s)"
    by (rule find_updateRow_disjoint) (use assms in auto)
  then show ?thesis
    using assms(1) by (auto simp: updateTransaction_Inr transactionById_def)
qed

lemma updateTransaction_self:
  assumes "updateTransaction i f s = Inr s'" and "\<And>t. t_id (f t) = t_id t"
    and "transactionById i s = Some t"
  shows "transactionById i s' = Some (f t)"
  using assms(1,3) find_updateRow_same [of "\<lambda>x. t_id x = i" "transactions s" t f] assms(2)
    find_SomeD [of "\<lambda>x. t_id x = i" "transactions s" t]
  by (auto simp: updateTransaction_Inr transactionById_def)

text \<open>An update that keeps the reference of an existing row always succeeds.\<close>

lemma updateTransaction_ok:
  "transactionById i s = Some t \<Longrightarrow> t_reference (f t) = t_reference t \<Longrightarrow>
   updateTransaction i f s = Inr (s\<lparr>transactions := updateRow (\<lambda>x. t_id x = i) f (transactions s)\<rparr>)"
  by (simp add: updateTransaction_def)

section \<open>Settlement\<close>

text \<open>What a settlement does in each of its outcomes.\<close>

lemma finalizeSettlementTx_cases:
  assumes "finalizeSettlementTx env p s = Inr (r, s')"
  obtains (duplicate) "r = Duplicate" "s' = s"
      "sp_providerId p \<in> we_eventId ` set (webhookEvents s)"
    | (ignored) s1 where "r = Ignored" "s' = s1"
        "createWebhookEvent \<lparr>we_provider = sp_providerName p, we_eventId = sp_providerId p\<rparr> s = Inr s1"
        "\<And>t. transactionByReference (sp_reference p) s = Some t \<Longrightarrow> t_status t \<noteq> TS_PENDING"
    | (refused) s1 t where "r = Refused ''underpayment''"
        "createWebhookEvent \<lparr>we_provider = sp_providerName p, we_eventId = sp_providerId p\<rparr> s = Inr s1"
        "transactionByReference (sp_reference p) s = Some t" "t_status t = TS_PENDING"
        "toKobo (sp_receivedAmountNaira p) < t_amount t"
        "markTransactionFailed env (t_id t) ''underpayment'' s1 = Inr s'"
    | (settled) s1 s2 t e where
        "r = Settled (toKobo (sp_receivedAmountNaira p))
               (t_amount t < toKobo (sp_receivedAmountNaira p))"
        "createWebhookEvent \<lparr>we_provider = sp_providerName p, we_eventId = sp_providerId p\<rparr> s = Inr s1"
        "transactionByReference (sp_reference p) s = Some t" "t_status t = TS_PENDING"
        "t_amount t \<le> toKobo (sp_receivedAmountNaira p)"
        "writeEntry (rnd env 0) (settlementEntry t (sp_providerName p) (sp_providerId p)
           (toKobo (sp_receivedAmountNaira p))) s1 = Inr (e, s2)"
        "finalizeTransaction env t (sp_providerId p) (sp_receivedAmountNaira p)
           (toKobo (sp_receivedAmountNaira p)) s2 = Inr s'"
proof (cases "createWebhookEvent \<lparr>we_provider = sp_providerName p, we_eventId = sp_providerId p\<rparr> s")
  case (Inl e)
  then have "e = PrismaError ''P2002'' \<and> sp_providerId p \<in> we_eventId ` set (webhookEvents s)"
    by (force simp: createWebhookEvent_def list_ex_iff split: if_splits)
  with assms Inl duplicate show thesis
    by (auto simp: finalizeSettlementTx_def recordWebhookIdempotent_def)
next
  case (Inr s1)
  then have rec: "recordWebhookIdempotent (sp_providerName p) (sp_providerId p) s = Inr (True, s1)"
    by (simp add: recordWebhookIdempotent_def)
  have tx: "transactionByReference (sp_reference p) s1 = transactionByReference (sp_reference p) s"
    using Inr by (auto simp: createWebhookEvent_Inr transactionByReference_def)
  show thesis
  proof (cases "transactionByReference (sp_reference p) s")
    case None
    with assms rec tx Inr ignored show thesis by (auto simp: finalizeSettlementTx_def)
  next
    case (Some t)
    show thesis
    proof (cases "t_status t = TS_PENDING")
      case False
      with assms rec tx Inr Some ignored show thesis by (auto simp: finalizeSettlementTx_def)
    next
      case pending: True
      show thesis
      proof (cases "toKobo (sp_receivedAmountNaira p) < t_amount t")
        case True
        with assms rec tx Some pending Inr refused show thesis
          by (auto simp: finalizeSettlementTx_def verifyAmount_def Let_def result_simps)
      next
        case False
        have credit: "(if t_amount t < toKobo (sp_receivedAmountNaira p)
            then toKobo (sp_receivedAmountNaira p) else t_amount t) = toKobo (sp_receivedAmountNaira p)"
          using False by simp
        from False assms rec tx Some pending Inr settled show thesis
          by (auto simp: finalizeSettlementTx_def verifyAmount_def credit Let_def result_simps)
      qed
    qed
  qed
qed

lemma settled_amount:
  "verifyAmount expected naira = c \<Longrightarrow> ac_valid c \<longleftrightarrow> expected \<le> toKobo naira"
  by (auto simp: verifyAmount_def Let_def split: if_splits)

lemma createWebhookEvent_frame:
  assumes "createWebhookEvent e s = Inr s'"
  shows "sameLedger s s'" "transactions s' = transactions s" "wallets s' = wallets s"
    "virtualAccounts s' = virtualAccounts s" "users s' = users s" "kycs s' = kycs s"
  using assms by (auto simp: createWebhookEvent_Inr)

text \<open>
  A settlement that succeeds credits the wallet of a pending transaction with what was received,
  which is no less than what was expected; every other outcome leaves the ledger alone.
\<close>

lemma finalizeSettlement_posts:
  assumes "finalizeSettlement env p s = (r, s')"
  shows "case r of
      Inr (Settled amount over) \<Rightarrow>
        \<exists>t. transactionByReference (sp_reference p) s = Some t \<and> t_status t = TS_PENDING \<and>
            t_amount t \<le> amount \<and> posts s [creditOf (t_walletId t) amount] s'
    | _ \<Rightarrow> sameLedger s s'"
proof (cases r)
  case (Inl e)
  then have "s' = s"
    using assms transaction_rollback by (metis finalizeSettlement_def fst_conv snd_conv)
  then show ?thesis using Inl by simp
next
  case (Inr x)
  then have tx: "finalizeSettlementTx env p s = Inr (x, s')"
    using assms by (simp add: finalizeSettlement_def transaction_Inr)
  from tx show ?thesis
  proof (cases rule: finalizeSettlementTx_cases)
    case duplicate
    then show ?thesis using Inr by simp
  next
    case (ignored s1)
    then show ?thesis using Inr createWebhookEvent_frame by simp
  next
    case (refused s1 t)
    have "sameLedger s1 s'"
      using refused(6) updateTransaction_frame by (simp add: markTransactionFailed_def)
    then show ?thesis
      using refused(1) Inr createWebhookEvent_frame(1) [OF refused(2)] sameLedger_trans by simp
  next
    case (settled s1 s2 t e)
    have "posts s1 [creditOf (t_walletId t) (toKobo (sp_receivedAmountNaira p))] s2"
      using posts_one [OF settled(6)] by (simp add: settlementEntry_def)
    then have "posts s [creditOf (t_walletId t) (toKobo (sp_receivedAmountNaira p))] s2"
      using createWebhookEvent_frame(1) [OF settled(2)] posts.silent by blast
    moreover have "sameLedger s2 s'"
      using settled(7) updateTransaction_frame by (simp add: finalizeTransaction_def)
    ultimately show ?thesis
      using settled(1,3,4,5) Inr posts_then_silent by auto
  qed
qed

text \<open>The provider's event is on record after every outcome, so a repeated report does nothing.\<close>

lemma finalizeSettlementTx_recorded:
  assumes "finalizeSettlementTx env p s = Inr (r, s')"
  shows "sp_providerId p \<in> we_eventId ` set (webhookEvents s')"
  using assms
proof (cases rule: finalizeSettlementTx_cases)
  case (ignored s1)
  then show ?thesis by (auto simp: createWebhookEvent_Inr)
next
  case (refused s1 t)
  then have "webhookEvents s' = webhookEvents s1"
    using updateTransaction_frame(2) by (simp add: markTransactionFailed_def)
  then show ?thesis using refused(2) by (auto simp: createWebhookEvent_Inr)
next
  case (settled s1 s2 t e)
  then have "webhookEvents s' = webhookEvents s1"
    using updateTransaction_frame(2) [of "t_id t" _ s2 s'] writeEntry_ledgerOnly ledgerOnly_frame(13)
    by (simp add: finalizeTransaction_def)
  then show ?thesis using settled(2) by (auto simp: createWebhookEvent_Inr)
qed simp

lemma finalizeSettlement_repeated:
  assumes "finalizeSettlement env p s = (Inr r, s')" and "sp_providerId q = sp_providerId p"
  shows "finalizeSettlement env' q s' = (Inr Duplicate, s')"
proof -
  have "finalizeSettlementTx env p s = Inr (r, s')"
    using assms(1) by (simp add: finalizeSettlement_def transaction_Inr)
  then have "sp_providerId p \<in> we_eventId ` set (webhookEvents s')"
    by (rule finalizeSettlementTx_recorded)
  then have "createWebhookEvent \<lparr>we_provider = sp_providerName q, we_eventId = sp_providerId q\<rparr> s'
      = Inl (PrismaError ''P2002'')"
    using assms(2) by (auto simp: createWebhookEvent_def list_ex_iff)
  then show ?thesis
    by (simp add: finalizeSettlement_def transaction_def finalizeSettlementTx_def
        recordWebhookIdempotent_def)
qed

section \<open>The life of a transaction\<close>

text \<open>
  A transaction that has settled or failed is never changed again: \<open>finalKept s s'\<close> says so of one
  operation.
\<close>

definition finalKept :: "db \<Rightarrow> db \<Rightarrow> bool" where
  "finalKept s s' \<longleftrightarrow>
     (\<forall>i t. transactionById i s = Some t \<longrightarrow> t_status t \<noteq> TS_PENDING \<longrightarrow>
            transactionById i s' = Some t)"

lemma finalKept_refl [simp]: "finalKept s s"
  by (simp add: finalKept_def)

lemma finalKept_trans: "finalKept s t \<Longrightarrow> finalKept t u \<Longrightarrow> finalKept s u"
  by (simp add: finalKept_def)

lemma finalKept_same [intro]: "transactions s' = transactions s \<Longrightarrow> finalKept s s'"
  by (simp add: finalKept_def transactionById_def)

lemma finalKept_update:
  assumes "updateTransaction i f s = Inr s'" and "\<And>t. t_id (f t) = t_id t"
    and "\<And>t. transactionById i s = Some t \<Longrightarrow> t_status t = TS_PENDING"
  shows "finalKept s s'"
  unfolding finalKept_def
proof (intro allI impI)
  fix j t
  assume "transactionById j s = Some t" and "t_status t \<noteq> TS_PENDING"
  moreover from this assms(3) have "j \<noteq> i" by auto
  ultimately show "transactionById j s' = Some t"
    using updateTransaction_other [OF assms(1,2), of j] by simp
qed

lemma finalKept_insert: "insertTransaction t s = Inr s' \<Longrightarrow> finalKept s s'"
  by (auto simp: insertTransaction_Inr finalKept_def transactionById_def find_append)

lemma finalKept_ledgerOnly: "ledgerOnly s s' \<Longrightarrow> finalKept s s'"
  using ledgerOnly_frame(3) by blast

text \<open>The state \<open>transactionById\<close> sees after reading a row by its unique reference.\<close>

lemma pendingByReference:
  assumes "transactionsUnique s" and "transactionByReference r s = Some t" and "t_status t = TS_PENDING"
  shows "transactionById (t_id t) s = Some t"
  using assms transactionByReferenceD transactionById_unique by blast

lemma transactionsUnique_cong:
  "transactions s' = transactions s \<Longrightarrow> transactionsUnique s' = transactionsUnique s"
  by (simp add: transactionsUnique_def)

lemma finalizeSettlementTx_final:
  assumes "finalizeSettlementTx env p s = Inr (r, s')" and "transactionsUnique s"
  shows "finalKept s s' \<and> transactionsUnique s'"
  using assms(1)
proof (cases rule: finalizeSettlementTx_cases)
  case duplicate
  then show ?thesis using assms(2) by simp
next
  case (ignored s1)
  then show ?thesis
    using assms(2) createWebhookEvent_frame(2) by (metis finalKept_same transactionsUnique_cong)
next
  case (refused s1 t)
  have tx: "transactions s1 = transactions s"
    using refused(2) by (rule createWebhookEvent_frame)
  then have s1: "transactionById (t_id t) s1 = Some t" "transactionsUnique s1" "finalKept s s1"
    using pendingByReference [OF assms(2) refused(3,4)] assms(2)
    by (auto simp: transactionById_def transactionsUnique_def)
  have "finalKept s1 s'" and "transactionsUnique s'"
    using refused(6) s1(1,2) refused(4) unfolding markTransactionFailed_def
    by (auto elim!: finalKept_update updateTransaction_unique)
  then show ?thesis using s1(3) finalKept_trans by blast
next
  case (settled s1 s2 t e)
  have tx: "transactions s2 = transactions s"
    using createWebhookEvent_frame(2) [OF settled(2)] writeEntry_ledgerOnly [OF settled(6)]
      ledgerOnly_frame(3) by metis
  then have s2: "transactionById (t_id t) s2 = Some t" "transactionsUnique s2" "finalKept s s2"
    using pendingByReference [OF assms(2) settled(3,4)] assms(2)
    by (auto simp: transactionById_def transactionsUnique_def)
  have "finalKept s2 s'" and "transactionsUnique s'"
    using settled(7) s2(1,2) settled(4) unfolding finalizeTransaction_def
    by (auto elim!: finalKept_update updateTransaction_unique)
  then show ?thesis using s2(3) finalKept_trans by blast
qed

lemma finalizeSettlement_final:
  assumes "finalizeSettlement env p s = (r, s')" and "transactionsUnique s"
  shows "finalKept s s' \<and> transactionsUnique s'"
proof (cases r)
  case (Inl e)
  then have "s' = s"
    using assms transaction_rollback by (metis finalizeSettlement_def fst_conv snd_conv)
  then show ?thesis using assms(2) by simp
next
  case (Inr x)
  then have "finalizeSettlementTx env p s = Inr (x, s')"
    using assms by (simp add: finalizeSettlement_def transaction_Inr)
  then show ?thesis using finalizeSettlementTx_final assms(2) by blast
qed

text \<open>In a table with unique ids and references a row is reached by either.\<close>

lemma updateRow_cong_P: "(\<And>r. r \<in> set rs \<Longrightarrow> P r = Q r) \<Longrightarrow> updateRow P f rs = updateRow Q f rs"
  by (induction rs) auto

lemma updateByReference:
  assumes "transactionsUnique s" and "t \<in> set (transactions s)"
  shows "updateRow (\<lambda>x. t_reference x = t_reference t) f (transactions s)
    = updateRow (\<lambda>x. t_id x = t_id t) f (transactions s)"
  using assms by (intro updateRow_cong_P) (auto simp: transactionsUnique_def distinct_map inj_on_def)

lemma updateByReference_frame:
  assumes "transactionsUnique s" and "transactionByReference r s = Some t"
    and "\<And>x. t_id (f x) = t_id x" and "\<And>x. t_reference (f x) = t_reference x"
  shows "updateTransaction (t_id t) f s
    = Inr (s\<lparr>transactions := updateRow (\<lambda>x. t_reference x = r) f (transactions s)\<rparr>)"
proof -
  from transactionByReferenceD [OF assms(2)] have t: "t \<in> set (transactions s)" "t_reference t = r"
    by auto
  then show ?thesis
    using updateTransaction_ok [OF transactionById_unique [OF assms(1) t(1)], of f]
      updateByReference [OF assms(1) t(1), of f] assms(4) by simp
qed

text \<open>No transaction has a negative amount.\<close>

definition amountsOk :: "db \<Rightarrow> bool" where
  "amountsOk s \<longleftrightarrow> (\<forall>t \<in> set (transactions s). 0 \<le> t_amount t)"

lemma amountsOk_cong: "transactions s' = transactions s \<Longrightarrow> amountsOk s' = amountsOk s"
  by (simp add: amountsOk_def)

lemma amountsOk_update:
  "updateTransaction i f s = Inr s' \<Longrightarrow> (\<And>t. t_amount (f t) = t_amount t) \<Longrightarrow> amountsOk s \<Longrightarrow> amountsOk s'"
  by (auto simp: updateTransaction_Inr amountsOk_def dest!: in_set_updateRow)

lemma amountsOk_insert: "insertTransaction t s = Inr s' \<Longrightarrow> amountsOk s' \<longleftrightarrow> amountsOk s \<and> 0 \<le> t_amount t"
  by (auto simp: insertTransaction_Inr amountsOk_def)

lemma amountsOk_reference:
  "amountsOk s \<Longrightarrow> transactionByReference r s = Some t \<Longrightarrow> 0 \<le> t_amount t"
  by (auto simp: amountsOk_def dest!: transactionByReferenceD)

lemma finalKept_map:
  assumes "\<And>t. t_id (f t) = t_id t" and "\<And>t. t_status t \<noteq> TS_PENDING \<Longrightarrow> f t = t"
    and "transactions s' = map f (transactions s)"
  shows "finalKept s s'"
proof -
  have "findFirst (\<lambda>x. t_id x = i) (map f ts) = map_option f (findFirst (\<lambda>x. t_id x = i) ts)" for i ts
    using assms(1) by (induction ts) auto
  then show ?thesis
    using assms(2,3) by (auto simp: finalKept_def transactionById_def)
qed

lemma transactionsUnique_map:
  assumes "\<And>t. t_id (f t) = t_id t" and "\<And>t. t_reference (f t) = t_reference t"
    and "transactions s' = map f (transactions s)"
  shows "transactionsUnique s' = transactionsUnique s"
  using assms by (simp add: transactionsUnique_def comp_def)

lemma amountsOk_map:
  assumes "\<And>t. t_amount (f t) = t_amount t" and "transactions s' = map f (transactions s)"
  shows "amountsOk s' = amountsOk s"
  using assms by (simp add: amountsOk_def)

text \<open>Giving a pending transaction its final status keeps everything else.\<close>

lemma updateTransaction_final:
  assumes "updateTransaction (t_id t) f s = Inr s'" and "transactionById (t_id t) s = Some t"
    and "t_status t = TS_PENDING" and "transactionsUnique s"
    and "\<And>x. t_id (f x) = t_id x" and "\<And>x. t_amount (f x) = t_amount x"
  shows "finalKept s s' \<and> transactionsUnique s' \<and> (amountsOk s \<longrightarrow> amountsOk s') \<and> sameLedger s s' \<and>
    webhookEvents s' = webhookEvents s \<and> transactionById (t_id t) s' = Some (f t)"
  using finalKept_update [OF assms(1,5)] assms(2,3) updateTransaction_unique [OF assms(1,4,5)]
    amountsOk_update [OF assms(1,6)] updateTransaction_frame [OF assms(1)]
    updateTransaction_self [OF assms(1,5,2)]
  by simp

text \<open>What every operation keeps of the transactions.\<close>

definition txKept :: "db \<Rightarrow> db \<Rightarrow> bool" where
  "txKept s s' \<longleftrightarrow> finalKept s s' \<and> (transactionsUnique s \<longrightarrow> transactionsUnique s') \<and>
     (amountsOk s \<longrightarrow> amountsOk s')"

lemma txKept_refl [simp]: "txKept s s"
  by (simp add: txKept_def)

lemma txKept_trans: "txKept s t \<Longrightarrow> txKept t u \<Longrightarrow> txKept s u"
  unfolding txKept_def using finalKept_trans by blast

lemma txKept_same: "transactions s' = transactions s \<Longrightarrow> txKept s s'"
  by (simp add: txKept_def finalKept_same transactionsUnique_def amountsOk_def)

lemma txKept_map:
  assumes "\<And>t. t_id (f t) = t_id t" and "\<And>t. t_reference (f t) = t_reference t"
    and "\<And>t. t_amount (f t) = t_amount t" and "\<And>t. t_status t \<noteq> TS_PENDING \<Longrightarrow> f t = t"
    and "transactions s' = map f (transactions s)"
  shows "txKept s s'"
  using finalKept_map [of f s' s] transactionsUnique_map [of f s' s] amountsOk_map [of f s' s] assms
  by (simp add: txKept_def)

end
