(* ===== verification/Withdrawal.thy ===== *)
theory Withdrawal
  imports Transactions
begin

text \<open>
  \<^verbatim>\<open>src/modules/withdrawal/withdrawal.service.ts\<close> and \<^verbatim>\<open>src/modules/kyc/kyc-limits.helper.ts\<close>: a
  withdrawal debits the wallet first, in one database transaction with its pending record, then asks
  the provider for the transfer, and credits the money back when the provider refuses.  The service
  reads the balance by summing the ledger, and appends its entries itself.

  The provider and the PIN hash are parameters: \<open>verifyHash pin hash\<close>, and
  \<open>transfer payload\<close>, the provider's response or the message of the error it raised.
\<close>

section \<open>KYC limits\<close>

definition KYC_SINGLE_LIMITS_KOBO :: "int \<Rightarrow> int option" where
  "KYC_SINGLE_LIMITS_KOBO = [0 \<mapsto> 0, 1 \<mapsto> 5000000, 2 \<mapsto> 10000000, 3 \<mapsto> 500000000]"

definition KYC_DAILY_LIMITS_KOBO :: "int \<Rightarrow> int option" where
  "KYC_DAILY_LIMITS_KOBO = [0 \<mapsto> 0, 1 \<mapsto> 30000000, 2 \<mapsto> 50000000, 3 \<mapsto> 2500000000]"

definition getSingleLimitKobo :: "int \<Rightarrow> int" where
  "getSingleLimitKobo level =
     (case KYC_SINGLE_LIMITS_KOBO level of Some l \<Rightarrow> l | None \<Rightarrow> the (KYC_SINGLE_LIMITS_KOBO 3))"

definition getDailyLimitKobo :: "int \<Rightarrow> int" where
  "getDailyLimitKobo level =
     (case KYC_DAILY_LIMITS_KOBO level of Some l \<Rightarrow> l | None \<Rightarrow> the (KYC_DAILY_LIMITS_KOBO 3))"

definition kycLevelOf :: "string \<Rightarrow> db \<Rightarrow> int" where
  "kycLevelOf uid s =
     (case findFirst (\<lambda>k. k_userId k = uid) (kycs s) of None \<Rightarrow> 0 | Some k \<Rightarrow> k_kycLevel k)"

section \<open>The service\<close>

record withdrawalDto =
  wd_amount :: rat
  wd_bankCode :: string
  wd_accountNumber :: string
  wd_accountName :: string
  wd_bankName :: string
  wd_narration :: "string option"
  wd_transactionPin :: string

record transferPayload =
  tp_accountBank :: string
  tp_accountNumber :: string
  tp_amount :: rat
  tp_narration :: string
  tp_reference :: string
  tp_beneficiaryName :: string

record transferResponse =
  tr_status :: string
  tr_message :: string
  tr_id :: "int option"
  tr_dataStatus :: "string option"

type_synonym transferProvider = "transferPayload \<Rightarrow> string + transferResponse"

record withdrawalResponse =
  wr_reference :: string
  wr_amount :: rat
  wr_status :: string

text \<open>\<^verbatim>\<open>BigInt(x)\<close> of a number throws a \<^verbatim>\<open>RangeError\<close> unless it is an integer.\<close>

definition bigIntOfNumber :: "rat \<Rightarrow> int result" where
  "bigIntOfNumber x = (if of_int \<lfloor>x\<rfloor> = x then Inr \<lfloor>x\<rfloor> else Inl (PlainError ''RangeError''))"

record fullBalance =
  fb_credit :: int
  fb_debit :: int
  fb_reserved :: int

definition computeFullBalance :: "string \<Rightarrow> db \<Rightarrow> fullBalance" where
  "computeFullBalance wid s =
     fold (\<lambda>e b. if le_entryType e = CREDIT then b\<lparr>fb_credit := fb_credit b + le_amount e\<rparr>
                 else if le_entryType e = DEBIT then b\<lparr>fb_debit := fb_debit b + le_amount e\<rparr>
                 else b)
       (entriesOf wid s)
       \<lparr>fb_credit = 0, fb_debit = 0, fb_reserved = totalReserved s wid\<rparr>"

definition withdrawalMetadata :: "withdrawalDto \<Rightarrow> jobject" where
  "withdrawalMetadata dto =
     [(''bankCode'', JStr (wd_bankCode dto)), (''accountNumber'', JStr (wd_accountNumber dto)),
      (''accountName'', JStr (wd_accountName dto)), (''bankName'', JStr (wd_bankName dto))]
     @ optProp ''narration'' JStr (wd_narration dto)
     @ [(''amountNaira'', JNum (wd_amount dto / 100))]"

text \<open>The database transaction: the balance check, the pending record and the debit.\<close>

definition withdrawalTx ::
  "env \<Rightarrow> wallet \<Rightarrow> string \<Rightarrow> withdrawalDto \<Rightarrow> int \<Rightarrow> db \<Rightarrow> (transactionRow \<times> db) result" where
  "withdrawalTx env w ref dto amountKobo s =
     (let b = computeFullBalance (w_id w) s;
          totalBalance = fb_credit b - fb_debit b;
          availableBalance = totalBalance - fb_reserved b
      in
      bindE (ensure (\<not> availableBalance < amountKobo) (BadRequest ''Insufficient balance'')) (\<lambda>_.
      let t = \<lparr>t_id = rnd env 1, t_walletId = w_id w, t_provider = ''FLUTTERWAVE'',
               t_reference = ref, t_amount = amountKobo, t_currency = ''NGN'',
               t_status = TS_PENDING, t_type = TT_WITHDRAWAL,
               t_metadata = Some (withdrawalMetadata dto), t_completedAt = None,
               t_createdAt = now env\<rparr>
      in
      bindE (insertTransaction t s) (\<lambda>s1.
      bindE (createLedgerEntry
        \<lparr>le_id = rnd env 2, le_walletId = w_id w, le_reference = ref @ ''-DEBIT'',
         le_entryType = DEBIT, le_movementType = WITHDRAWAL, le_bucketType = None,
         le_amount = amountKobo, le_balanceBefore = totalBalance,
         le_balanceAfter = totalBalance - amountKobo, le_sourceType = ST_TRANSACTION,
         le_sourceId = t_id t\<rparr> s1) (\<lambda>s2. Inr (t, s2)))))"

text \<open>Everything before the provider is called.\<close>

definition startWithdrawal ::
  "env \<Rightarrow> (string \<Rightarrow> string \<Rightarrow> bool) \<Rightarrow> string \<Rightarrow> withdrawalDto \<Rightarrow> db
   \<Rightarrow> ((wallet \<times> transactionRow) \<times> db) result" where
  "startWithdrawal env verifyHash uid dto s =
     bindE (bigIntOfNumber (wd_amount dto)) (\<lambda>amountKobo.
     bindE (ensure (\<not> amountKobo < 10000) (BadRequest ''Minimum withdrawal amount is NGN 100'')) (\<lambda>_.
     let kycLevel = kycLevelOf uid s in
     bindE (ensure (\<not> kycLevel < 1)
              (Forbidden ''KYC verification is required before making withdrawals'')) (\<lambda>_.
     bindE (ensure (\<not> getSingleLimitKobo kycLevel < amountKobo)
              (BadRequest ''Withdrawal amount exceeds your KYC Level single-transaction limit'')) (\<lambda>_.
     bindE (orThrow (BadRequest ''Transaction PIN not set'')
              (case userById uid s of
                 None \<Rightarrow> None
               | Some u \<Rightarrow> (case u_transactionPin u of
                             None \<Rightarrow> None
                           | Some h \<Rightarrow> if h = '''' then None else Some h))) (\<lambda>pinHash.
     bindE (ensure (verifyHash (wd_transactionPin dto) pinHash)
              (Unauthorized ''Incorrect transaction PIN'')) (\<lambda>_.
     bindE (orThrow (BadRequest ''Wallet not found'') (walletOfUser uid s)) (\<lambda>w.
     bindE (ensure (w_status w = WS_ACTIVE) (BadRequest ''Wallet - withdrawals not permitted'')) (\<lambda>_.
     bindE (withdrawalTx env w (''WITHDRAWAL-'' @ rnd env 0) dto amountKobo s) (\<lambda>(t, s1).
     Inr ((w, t), s1))))))))))"

definition reversalTx ::
  "env \<Rightarrow> string \<Rightarrow> string \<Rightarrow> int \<Rightarrow> string \<Rightarrow> string \<Rightarrow> db \<Rightarrow> (unit \<times> db) result" where
  "reversalTx env tid wid amountKobo originalRef reason s =
     (let b = computeFullBalance wid s;
          balanceBefore = fb_credit b - fb_debit b;
          reversalRef = ''REVERSAL-'' @ originalRef
      in
      bindE (createLedgerEntry
        \<lparr>le_id = rnd env 3, le_walletId = wid, le_reference = reversalRef, le_entryType = CREDIT,
         le_movementType = WITHDRAWAL, le_bucketType = None, le_amount = amountKobo,
         le_balanceBefore = balanceBefore, le_balanceAfter = balanceBefore + amountKobo,
         le_sourceType = ST_REVERSAL, le_sourceId = tid\<rparr> s) (\<lambda>s1.
      bindE (updateTransaction tid
        (\<lambda>t. t\<lparr>t_status := TS_FAILED,
               t_metadata := Some [(''reversalRef'', JStr reversalRef), (''reason'', JStr reason)]\<rparr>) s1)
        (\<lambda>s2. Inr ((), s2))))"

definition createWithdrawalReversal ::
  "env \<Rightarrow> string \<Rightarrow> string \<Rightarrow> int \<Rightarrow> string \<Rightarrow> string \<Rightarrow> db \<Rightarrow> unit result \<times> db" where
  "createWithdrawalReversal env tid wid amountKobo originalRef reason s =
     transaction (reversalTx env tid wid amountKobo originalRef reason) s"

text \<open>The \<^verbatim>\<open>catch\<close> around the provider call.\<close>

definition transferFailed ::
  "env \<Rightarrow> wallet \<Rightarrow> transactionRow \<Rightarrow> string \<Rightarrow> db \<Rightarrow> withdrawalResponse result \<times> db" where
  "transferFailed env w t message s =
     (let flwMessage = (if message = '''' then ''Unknown FLW error'' else message)
      in case createWithdrawalReversal env (t_id t) (w_id w) (t_amount t) (t_reference t)
                (''FLW initiation failed: '' @ flwMessage) s of
           (Inl e, s1) \<Rightarrow> (Inl e, s1)
         | (Inr _, s1) \<Rightarrow>
             (Inl (InternalServerError ''Withdrawal failed. Your balance has been restored.''), s1))"

text \<open>The provider call and what follows it.\<close>

definition finishWithdrawal ::
  "env \<Rightarrow> transferProvider \<Rightarrow> withdrawalDto \<Rightarrow> wallet \<Rightarrow> transactionRow \<Rightarrow> db
   \<Rightarrow> withdrawalResponse result \<times> db" where
  "finishWithdrawal env transfer dto w t s =
     (case transfer
        \<lparr>tp_accountBank = wd_bankCode dto, tp_accountNumber = wd_accountNumber dto,
         tp_amount = wd_amount dto / 100,
         tp_narration = (case wd_narration dto of
                           None \<Rightarrow> ''Ajoti withdrawal to '' @ wd_accountName dto | Some n \<Rightarrow> n),
         tp_reference = t_reference t, tp_beneficiaryName = wd_accountName dto\<rparr> of
        Inl message \<Rightarrow> transferFailed env w t message s
      | Inr r \<Rightarrow>
          if tr_status r \<noteq> ''success''
          then transferFailed env w t (''FLW transfer initiation failed: '' @ tr_message r) s
          else case transactionByReference (t_reference t) s of
                 None \<Rightarrow> transferFailed env w t ''Record to update not found'' s
               | Some _ \<Rightarrow>
                   (Inr \<lparr>wr_reference = t_reference t, wr_amount = wd_amount dto,
                         wr_status = ''PENDING''\<rparr>,
                    s\<lparr>transactions := updateRow (\<lambda>x. t_reference x = t_reference t)
                        (\<lambda>x. x\<lparr>t_metadata := Some (withdrawalMetadata dto
                           @ optProp ''flwTransferId'' (\<lambda>n. JNum (of_int n)) (tr_id r)
                           @ optProp ''flwStatus'' JStr (tr_dataStatus r))\<rparr>) (transactions s)\<rparr>))"

definition initializeWithdrawal ::
  "env \<Rightarrow> (string \<Rightarrow> string \<Rightarrow> bool) \<Rightarrow> transferProvider \<Rightarrow> string \<Rightarrow> withdrawalDto \<Rightarrow> db
   \<Rightarrow> withdrawalResponse result \<times> db" where
  "initializeWithdrawal env verifyHash transfer uid dto s =
     (case startWithdrawal env verifyHash uid dto s of
        Inl e \<Rightarrow> (Inl e, s)
      | Inr ((w, t), s1) \<Rightarrow> finishWithdrawal env transfer dto w t s1)"

section \<open>The balance it computes\<close>

lemma fullBalance_fold:
  "fold (\<lambda>e b. if le_entryType e = CREDIT then b\<lparr>fb_credit := fb_credit b + le_amount e\<rparr>
               else if le_entryType e = DEBIT then b\<lparr>fb_debit := fb_debit b + le_amount e\<rparr>
               else b) es (b :: fullBalance)
   = b\<lparr>fb_credit := fb_credit b + sumBy (\<lambda>e. le_entryType e = CREDIT) le_amount es,
       fb_debit := fb_debit b + sumBy (\<lambda>e. le_entryType e = DEBIT) le_amount es\<rparr>"
  by (induction es arbitrary: b) auto

lemma computeFullBalance_eq:
  "fb_credit (computeFullBalance w s) - fb_debit (computeFullBalance w s) = calculatedTotal w s"
  "fb_reserved (computeFullBalance w s) = totalReserved s w"
  unfolding computeFullBalance_def fullBalance_fold by (simp_all add: calculatedTotal_def)

text \<open>On a chained ledger the sum is the running total, so both ways to read a balance agree.\<close>

lemma computeFullBalance_total:
  "ledgerChained s \<Longrightarrow>
   fb_credit (computeFullBalance w s) - fb_debit (computeFullBalance w s) = computeTotalBalance s w"
  by (simp add: computeFullBalance_eq ledgerChained_calculated)

section \<open>What a withdrawal does\<close>

lemma createLedgerEntry_direct:
  assumes "createLedgerEntry e s = Inr s'" and "\<not> isBucketOp (le_entryType e)" and "0 \<le> le_amount e"
    and "le_entryType e = DEBIT \<longrightarrow> le_amount e \<le> available s (le_walletId e)"
    and "le_balanceBefore e = computeTotalBalance s (le_walletId e)"
    and "le_balanceAfter e = le_balanceBefore e + signedAmount (le_entryType e) (le_amount e)"
  shows "directEntry e s s'"
  using assms by (auto simp: createLedgerEntry_Inr directEntry_def)

lemma posts_direct: "directEntry e s s' \<Longrightarrow> posts s [entryPosting e] s'"
  by (auto intro: posts.intros)

lemma getSingleLimit_pos: "1 \<le> level \<Longrightarrow> 0 < getSingleLimitKobo level"
  by (auto simp: getSingleLimitKobo_def KYC_SINGLE_LIMITS_KOBO_def)

lemma withdrawalTx_Inr:
  assumes "withdrawalTx env w ref dto a s = Inr (t, s')" and "ledgerChained s" and "0 \<le> a"
  shows "posts s [debitOf (w_id w) a] s'" "a \<le> available s (w_id w)"
    "t_id t = rnd env 1" "t_walletId t = w_id w" "t_reference t = ref" "t_amount t = a"
    "t_status t = TS_PENDING" "t_type t = TT_WITHDRAWAL"
    "t_id t \<notin> t_id ` set (transactions s)" "t_reference t \<notin> t_reference ` set (transactions s)"
    "transactions s' = transactions s @ [t]"
proof -
  define e where "e = \<lparr>le_id = rnd env 2, le_walletId = w_id w, le_reference = ref @ ''-DEBIT'',
         le_entryType = DEBIT, le_movementType = WITHDRAWAL, le_bucketType = None,
         le_amount = a, le_balanceBefore = computeTotalBalance s (w_id w),
         le_balanceAfter = computeTotalBalance s (w_id w) - a, le_sourceType = ST_TRANSACTION,
         le_sourceId = rnd env 1\<rparr>"
  obtain s1 where cover: "a \<le> available s (w_id w)"
    and ins: "insertTransaction t s = Inr s1" and ent: "createLedgerEntry e s1 = Inr s'"
    and t: "t = \<lparr>t_id = rnd env 1, t_walletId = w_id w, t_provider = ''FLUTTERWAVE'',
               t_reference = ref, t_amount = a, t_currency = ''NGN'',
               t_status = TS_PENDING, t_type = TT_WITHDRAWAL,
               t_metadata = Some (withdrawalMetadata dto), t_completedAt = None,
               t_createdAt = now env\<rparr>"
    using assms(1)
    by (auto simp: withdrawalTx_def Let_def result_simps e_def computeFullBalance_total [OF assms(2)]
        computeFullBalance_eq(2) available_def)
  have s1: "s1 = s\<lparr>transactions := transactions s @ [t]\<rparr>"
    and fresh: "t_id t \<notin> t_id ` set (transactions s)"
      "t_reference t \<notin> t_reference ` set (transactions s)"
    using ins by (simp_all add: insertTransaction_Inr)
  have same: "computeTotalBalance s1 x = computeTotalBalance s x" "available s1 x = available s x" for x
    using s1 computeTotalBalance_cong [of s1 s] available_cong [of s1 s] by simp_all
  have "directEntry e s1 s'"
    by (rule createLedgerEntry_direct [OF ent]) (use assms(3) cover same in \<open>simp_all add: e_def\<close>)
  then have "posts s1 [debitOf (w_id w) a] s'"
    using posts_direct by (force simp: e_def)
  moreover have "sameLedger s s1" using s1 by (simp add: sameLedger_def)
  ultimately show "posts s [debitOf (w_id w) a] s'" by (rule posts.silent [rotated])
  show "transactions s' = transactions s @ [t]"
    using ent s1 by (auto simp: createLedgerEntry_Inr)
  show "a \<le> available s (w_id w)" "t_id t = rnd env 1" "t_walletId t = w_id w"
    "t_reference t = ref" "t_amount t = a" "t_status t = TS_PENDING" "t_type t = TT_WITHDRAWAL"
    "t_id t \<notin> t_id ` set (transactions s)" "t_reference t \<notin> t_reference ` set (transactions s)"
    using cover t fresh by auto
qed

lemma startWithdrawal_Inr:
  assumes "startWithdrawal env verifyHash uid dto s = Inr ((w, t), s')"
  obtains a u h where "wd_amount dto = of_int a" and "10000 \<le> a" and "1 \<le> kycLevelOf uid s"
    and "a \<le> getSingleLimitKobo (kycLevelOf uid s)"
    and "userById uid s = Some u" and "u_transactionPin u = Some h" and "h \<noteq> ''''"
    and "verifyHash (wd_transactionPin dto) h" and "walletOfUser uid s = Some w"
    and "w_status w = WS_ACTIVE"
    and "withdrawalTx env w (''WITHDRAWAL-'' @ rnd env 0) dto a s = Inr (t, s')"
proof -
  have big: "bigIntOfNumber x = Inr a \<Longrightarrow> x = of_int a" for x a
    by (auto simp: bigIntOfNumber_def split: if_splits)
  show thesis
    using assms by (auto simp: startWithdrawal_def Let_def result_simps not_less
        split: option.splits if_splits dest!: big intro: that)
qed

text \<open>
  A withdrawal that starts debits the wallet of its user by the amount asked for, which is covered,
  at least the minimum and within the KYC limit, and leaves a pending record of it.
\<close>

lemma startWithdrawal_posts:
  assumes "startWithdrawal env verifyHash uid dto s = Inr ((w, t), s')" and "ledgerChained s"
  shows "walletOfUser uid s = Some w \<and> wd_amount dto = of_int (t_amount t) \<and>
    10000 \<le> t_amount t \<and> t_amount t \<le> getSingleLimitKobo (kycLevelOf uid s) \<and>
    t_amount t \<le> available s (w_id w) \<and> posts s [debitOf (w_id w) (t_amount t)] s' \<and>
    t_status t = TS_PENDING \<and> t_walletId t = w_id w \<and> transactions s' = transactions s @ [t]"
  using assms(1)
proof (rule startWithdrawal_Inr)
  fix a u h
  assume a: "wd_amount dto = of_int a" "10000 \<le> a" "a \<le> getSingleLimitKobo (kycLevelOf uid s)"
    and w: "walletOfUser uid s = Some w"
    and tx: "withdrawalTx env w (''WITHDRAWAL-'' @ rnd env 0) dto a s = Inr (t, s')"
  show ?thesis
    using withdrawalTx_Inr [OF tx assms(2)] a w by simp
qed

lemma startWithdrawal_unique:
  assumes "startWithdrawal env verifyHash uid dto s = Inr ((w, t), s')" and "ledgerChained s"
    and "transactionsUnique s"
  shows "transactionsUnique s' \<and> finalKept s s' \<and> transactionById (t_id t) s' = Some t"
  using assms(1)
proof (rule startWithdrawal_Inr)
  fix a u h
  assume a: "10000 \<le> a"
    and tx: "withdrawalTx env w (''WITHDRAWAL-'' @ rnd env 0) dto a s = Inr (t, s')"
  note i = withdrawalTx_Inr(9-11) [OF tx assms(2)]
  have u: "transactionsUnique s'"
    using i assms(3) a by (simp add: transactionsUnique_def)
  moreover have "finalKept s s'"
    using i a by (auto simp: finalKept_def transactionById_def find_append)
  moreover have "transactionById (t_id t) s' = Some t"
    using transactionById_unique [OF u] i a by simp
  ultimately show ?thesis by simp
qed

text \<open>The reversal credits the amount back and marks the record as failed.\<close>

lemma reversalTx_Inr:
  assumes "reversalTx env tid wid a ref reason s = Inr (u, s')" and "ledgerChained s" and "0 \<le> a"
    and "transactionById tid s = Some t"
  shows "posts s [creditOf wid a] s' \<and>
    transactionById tid s' = Some (t\<lparr>t_status := TS_FAILED,
      t_metadata := Some [(''reversalRef'', JStr (''REVERSAL-'' @ ref)), (''reason'', JStr reason)]\<rparr>) \<and>
    (wid, ''REVERSAL-'' @ ref, ST_REVERSAL, tid) \<in> le_key ` set (ledgerEntries s')"
proof -
  define f where "f = (\<lambda>t :: transactionRow. t\<lparr>t_status := TS_FAILED,
      t_metadata := Some [(''reversalRef'', JStr (''REVERSAL-'' @ ref)), (''reason'', JStr reason)]\<rparr>)"
  define e where "e = \<lparr>le_id = rnd env 3, le_walletId = wid, le_reference = ''REVERSAL-'' @ ref,
         le_entryType = CREDIT, le_movementType = WITHDRAWAL, le_bucketType = None, le_amount = a,
         le_balanceBefore = computeTotalBalance s wid,
         le_balanceAfter = computeTotalBalance s wid + a,
         le_sourceType = ST_REVERSAL, le_sourceId = tid\<rparr>"
  obtain s1 where ent: "createLedgerEntry e s = Inr s1" and upd: "updateTransaction tid f s1 = Inr s'"
    using assms(1)
    by (auto simp: reversalTx_def Let_def result_simps e_def f_def computeFullBalance_total [OF assms(2)])
  have "directEntry e s s1"
    by (rule createLedgerEntry_direct [OF ent]) (use assms(3) in \<open>simp_all add: e_def\<close>)
  then have "posts s [creditOf wid a] s1"
    using posts_direct by (force simp: e_def)
  then have "posts s [creditOf wid a] s'"
    using updateTransaction_frame(1) [OF upd] posts_then_silent by blast
  moreover have "transactionById tid s1 = Some t"
    using ent assms(4) by (auto simp: createLedgerEntry_Inr transactionById_def)
  then have "transactionById tid s' = Some (f t)"
    using updateTransaction_self [OF upd] by (simp add: f_def)
  moreover have "ledgerEntries s' = e # ledgerEntries s"
    using updateTransaction_frame(1) [OF upd] ent by (simp add: sameLedger_def createLedgerEntry_Inr)
  ultimately show ?thesis
    by (simp add: f_def e_def le_key_def)
qed

lemma reversalTx_final:
  assumes "reversalTx env tid wid a ref reason s = Inr (u, s')" and "transactionsUnique s"
    and "\<And>t. transactionById tid s = Some t \<Longrightarrow> t_status t = TS_PENDING"
  shows "finalKept s s' \<and> transactionsUnique s'"
proof -
  obtain e s1 f where ent: "createLedgerEntry e s = Inr s1" and upd: "updateTransaction tid f s1 = Inr s'"
    and f: "\<And>t. t_id (f t) = t_id t"
    using assms(1) by (auto simp: reversalTx_def Let_def result_simps)
  have tx: "transactions s1 = transactions s"
    using ent by (auto simp: createLedgerEntry_Inr)
  then have "finalKept s1 s'" and "transactionsUnique s'"
    using finalKept_update [OF upd f] updateTransaction_unique [OF upd _ f] assms(2,3)
    by (auto simp: transactionById_def transactionsUnique_def)
  then show ?thesis
    using tx finalKept_trans finalKept_same by blast
qed

lemma reversalTx_byReference:
  assumes "reversalTx env tid wid a ref reason s = Inr (u, s')"
    and "transactionsUnique s" and "transactionById tid s = Some t"
  shows "map_option t_status (transactionByReference (t_reference t) s') = Some TS_FAILED"
proof -
  obtain e s1 and f :: "transactionRow \<Rightarrow> transactionRow"
    where ent: "createLedgerEntry e s = Inr s1" and upd: "updateTransaction tid f s1 = Inr s'"
      and f: "\<And>t. t_id (f t) = t_id t" "\<And>t. t_reference (f t) = t_reference t"
        "\<And>t. t_status (f t) = TS_FAILED"
    using assms(1) by (auto simp: reversalTx_def Let_def result_simps)
  have tx: "transactions s1 = transactions s"
    using ent by (auto simp: createLedgerEntry_Inr)
  have "transactionById tid s' = Some (f t)"
    by (rule updateTransaction_self [OF upd f(1)]) (use assms(3) tx in \<open>simp add: transactionById_def\<close>)
  moreover have "transactionsUnique s'"
    using transactionsUnique_cong [OF tx] assms(2)
    by (intro updateTransaction_unique [OF upd _ f(1)]) simp_all
  ultimately show ?thesis
    using transactionByReference_unique [of s' "f t"] f transactionByIdD by fastforce
qed

section \<open>After the provider's answer\<close>

definition refused :: "transferProvider \<Rightarrow> withdrawalDto \<Rightarrow> transactionRow \<Rightarrow> bool" where
  "refused transfer dto t \<longleftrightarrow>
     (case transfer
        \<lparr>tp_accountBank = wd_bankCode dto, tp_accountNumber = wd_accountNumber dto,
         tp_amount = wd_amount dto / 100,
         tp_narration = (case wd_narration dto of
                           None \<Rightarrow> ''Ajoti withdrawal to '' @ wd_accountName dto | Some n \<Rightarrow> n),
         tp_reference = t_reference t, tp_beneficiaryName = wd_accountName dto\<rparr> of
        Inl _ \<Rightarrow> True | Inr r \<Rightarrow> tr_status r \<noteq> ''success'')"

lemma finishWithdrawal_cases:
  obtains (sent) "\<not> refused transfer dto t"
      "fst (finishWithdrawal env transfer dto w t s) =
         Inr \<lparr>wr_reference = t_reference t, wr_amount = wd_amount dto, wr_status = ''PENDING''\<rparr>"
      "\<exists>m. snd (finishWithdrawal env transfer dto w t s) =
         s\<lparr>transactions := updateRow (\<lambda>x. t_reference x = t_reference t)
             (\<lambda>x. x\<lparr>t_metadata := m\<rparr>) (transactions s)\<rparr>"
    | (failed) message where "refused transfer dto t \<or> transactionByReference (t_reference t) s = None"
      "finishWithdrawal env transfer dto w t s = transferFailed env w t message s"
  unfolding finishWithdrawal_def refused_def
  by (fastforce split: sum.splits option.splits if_splits)

text \<open>The reversal's entry has a key of its own, so it is written at most once.\<close>

lemma reversalTx_taken:
  assumes "(wid, ''REVERSAL-'' @ ref, ST_REVERSAL, tid) \<in> le_key ` set (ledgerEntries s)"
  shows "reversalTx env tid wid a ref reason s = Inl (PrismaError ''P2002'')"
proof -
  obtain x where "x \<in> set (ledgerEntries s)" "le_key x = (wid, ''REVERSAL-'' @ ref, ST_REVERSAL, tid)"
    using assms by auto
  then have "list_ex (\<lambda>y. le_id y = i \<or> le_key y = (wid, ''REVERSAL-'' @ ref, ST_REVERSAL, tid))
      (ledgerEntries s)" for i
    by (auto simp: list_ex_iff)
  then show ?thesis
    by (simp add: reversalTx_def Let_def createLedgerEntry_def le_key_def)
qed

lemma transferFailed_taken:
  assumes "(w_id w, ''REVERSAL-'' @ t_reference t, ST_REVERSAL, t_id t) \<in> le_key ` set (ledgerEntries s)"
  shows "transferFailed env w t message s = (Inl (PrismaError ''P2002''), s)"
  using reversalTx_taken [OF assms]
  by (simp add: transferFailed_def createWithdrawalReversal_def transaction_def Let_def)

lemma finishWithdrawal_onceReversed:
  assumes "(w_id w, ''REVERSAL-'' @ t_reference t, ST_REVERSAL, t_id t) \<in> le_key ` set (ledgerEntries s)"
  shows "sameLedger s (snd (finishWithdrawal env transfer dto w t s))"
proof (cases rule: finishWithdrawal_cases [of transfer dto t env w s])
  case sent
  then show ?thesis by auto
next
  case (failed message)
  then show ?thesis using transferFailed_taken [OF assms] by simp
qed

text \<open>With UUIDs that are not in use yet the reversal goes through.\<close>

definition freshWithdrawal :: "env \<Rightarrow> db \<Rightarrow> bool" where
  "freshWithdrawal env s \<longleftrightarrow>
     rnd env 3 \<notin> le_id ` set (ledgerEntries s) \<and> rnd env 3 \<noteq> rnd env 2 \<and>
     rnd env 1 \<notin> le_sourceId ` set (ledgerEntries s)"

lemma reversalTx_ok:
  assumes "rnd env 3 \<notin> le_id ` set (ledgerEntries s)"
    and "(wid, ''REVERSAL-'' @ ref, ST_REVERSAL, tid) \<notin> le_key ` set (ledgerEntries s)"
    and "transactionById tid s = Some t"
  shows "\<exists>s'. reversalTx env tid wid a ref reason s = Inr ((), s')"
proof -
  let ?e = "\<lparr>le_id = rnd env 3, le_walletId = wid, le_reference = ''REVERSAL-'' @ ref, le_entryType = CREDIT,
         le_movementType = WITHDRAWAL, le_bucketType = None, le_amount = a,
         le_balanceBefore = fb_credit (computeFullBalance wid s) - fb_debit (computeFullBalance wid s),
         le_balanceAfter = fb_credit (computeFullBalance wid s) - fb_debit (computeFullBalance wid s) + a,
         le_sourceType = ST_REVERSAL, le_sourceId = tid\<rparr>"
  have "createLedgerEntry ?e s = Inr (s\<lparr>ledgerEntries := ?e # ledgerEntries s\<rparr>)"
    using assms(1,2) by (simp add: createLedgerEntry_Inr le_key_def)
  moreover have "transactionById tid (s\<lparr>ledgerEntries := ?e # ledgerEntries s\<rparr>) = Some t"
    using assms(3) by (simp add: transactionById_def)
  ultimately show ?thesis
    by (simp add: reversalTx_def Let_def updateTransaction_ok)
qed

lemma withdrawalTx_entries:
  assumes "withdrawalTx env w ref dto a s = Inr (t, s')"
  shows "\<exists>e. ledgerEntries s' = e # ledgerEntries s \<and> le_id e = rnd env 2 \<and> le_sourceType e = ST_TRANSACTION"
  using assms
  by (auto simp: withdrawalTx_def Let_def result_simps createLedgerEntry_Inr insertTransaction_Inr)

text \<open>
  A withdrawal the provider refuses leaves every balance as it was, its record failed; one it
  accepts leaves the debit and the pending record.
\<close>

lemma initializeWithdrawal_outcome:
  assumes "startWithdrawal env verifyHash uid dto s = Inr ((w, t), s1)"
    and "ledgerChained s" and "transactionsUnique s" and "freshWithdrawal env s"
    and "initializeWithdrawal env verifyHash transfer uid dto s = (r, s')"
  shows "if refused transfer dto t
    then r = Inl (InternalServerError ''Withdrawal failed. Your balance has been restored.'') \<and>
         posts s [debitOf (w_id w) (t_amount t), creditOf (w_id w) (t_amount t)] s' \<and>
         map_option t_status (transactionByReference (t_reference t) s') = Some TS_FAILED
    else isl r = False \<and> posts s [debitOf (w_id w) (t_amount t)] s' \<and>
         map_option t_status (transactionByReference (t_reference t) s') = Some TS_PENDING"
proof -
  note start = startWithdrawal_posts [OF assms(1,2)]
  note uni = startWithdrawal_unique [OF assms(1-3)]
  have tid: "t_id t = rnd env 1" and key: "rnd env 3 \<notin> le_id ` set (ledgerEntries s1)"
    and nokey: "(w_id w, ''REVERSAL-'' @ t_reference t, ST_REVERSAL, t_id t) \<notin> le_key ` set (ledgerEntries s1)"
  proof -
    from assms(1) obtain a where tx: "withdrawalTx env w (''WITHDRAWAL-'' @ rnd env 0) dto a s = Inr (t, s1)"
      and a: "10000 \<le> a"
      by (rule startWithdrawal_Inr)
    show tid: "t_id t = rnd env 1" using withdrawalTx_Inr(3) [OF tx assms(2)] a by simp
    obtain e where e: "ledgerEntries s1 = e # ledgerEntries s" "le_id e = rnd env 2"
      "le_sourceType e = ST_TRANSACTION"
      using withdrawalTx_entries [OF tx] by blast
    then show "rnd env 3 \<notin> le_id ` set (ledgerEntries s1)"
      using assms(4) by (simp add: freshWithdrawal_def)
    show "(w_id w, ''REVERSAL-'' @ t_reference t, ST_REVERSAL, t_id t) \<notin> le_key ` set (ledgerEntries s1)"
      using e assms(4) tid by (auto simp: freshWithdrawal_def le_key_def)
  qed
  have init: "finishWithdrawal env transfer dto w t s1 = (r, s')"
    using assms(1,5) by (simp add: initializeWithdrawal_def)
  have byRef: "transactionByReference (t_reference t) s1 = Some t"
    using uni start by (intro transactionByReference_unique) simp_all
  show ?thesis
  proof (cases rule: finishWithdrawal_cases [of transfer dto t env w s1])
    case sent
    then obtain m where r: "\<not> isl r" and s': "s' = s1\<lparr>transactions :=
        updateRow (\<lambda>x. t_reference x = t_reference t) (\<lambda>x. x\<lparr>t_metadata := m\<rparr>) (transactions s1)\<rparr>"
      using init by auto
    have "transactionByReference (t_reference t) s' = Some (t\<lparr>t_metadata := m\<rparr>)"
      using byRef find_updateRow_same [of "\<lambda>x. t_reference x = t_reference t"
        "transactions s1" t "\<lambda>x. x\<lparr>t_metadata := m\<rparr>"]
      by (simp add: s' transactionByReference_def)
    then show ?thesis
      using sent(1) r start s' posts_then_silent [of s _ s1 s'] by (auto simp: sameLedger_def)
  next
    case (failed message)
    then have ref: "refused transfer dto t" using byRef by simp
    obtain s2 where rev: "reversalTx env (t_id t) (w_id w) (t_amount t) (t_reference t)
        (''FLW initiation failed: '' @ (if message = '''' then ''Unknown FLW error'' else message)) s1
        = Inr ((), s2)"
      using reversalTx_ok [OF key nokey] uni by blast
    then have s': "s' = s2" and r: "r = Inl (InternalServerError ''Withdrawal failed. Your balance has been restored.'')"
      using failed(2) init
      by (auto simp: transferFailed_def createWithdrawalReversal_def Let_def)
    have "posts s1 [creditOf (w_id w) (t_amount t)] s'"
      using reversalTx_Inr [OF rev, of t] uni start posts_chained [of s _ s1] assms(2) s' by auto
    moreover have "map_option t_status (transactionByReference (t_reference t) s') = Some TS_FAILED"
      using reversalTx_byReference [OF rev] uni start s' by simp
    ultimately have "posts s1 [creditOf (w_id w) (t_amount t)] s'"
      "map_option t_status (transactionByReference (t_reference t) s') = Some TS_FAILED"
      by auto
    then show ?thesis
      using ref r start posts_trans [of s "[debitOf (w_id w) (t_amount t)]" s1] by simp
  qed
qed

end
