(* ===== verification/Webhooks.thy ===== *)
theory Webhooks
  imports Withdrawal
begin

text \<open>
  \<^verbatim>\<open>src/modules/webhooks/webhooks.service.ts\<close>: the notifications of the payment provider.  A
  notification is recorded under its event id before it is handled and forgotten again when handling
  fails, so that a repetition is ignored after a success and processed after a failure.  A charge
  credits a virtual account or settles a pending deposit, after the provider has confirmed it; a
  transfer confirms a withdrawal or reverses it.

  The signature check and the provider's verification endpoint are parameters: \<open>verify id txRef\<close> is
  the provider's record of a transaction, or the message of the error the call raised.
\<close>

section \<open>Payloads\<close>

record chargeData =
  ch_id :: int
  ch_tx_ref :: string
  ch_flw_ref :: "string option"
  ch_amount :: rat
  ch_status :: string
  ch_payment_type :: "string option"

record transferData =
  tf_id :: int
  tf_reference :: string
  tf_status :: string
  tf_complete_message :: string

text \<open>
  The shape of \<^verbatim>\<open>data\<close> follows the event; the second component of a charge is \<^verbatim>\<open>event.type\<close>.  Of an
  event the service does not handle only the reference counts.
\<close>

datatype webhookPayload =
    ChargeCompleted chargeData "string option"
  | TransferCompleted transferData
  | OtherEvent string string

record providerTx =
  pv_id :: int
  pv_tx_ref :: string
  pv_flw_ref :: "string option"
  pv_amount :: rat
  pv_charged_amount :: rat
  pv_currency :: string
  pv_status :: string
  pv_payment_type :: "string option"

type_synonym chargeVerifier = "int \<Rightarrow> string \<Rightarrow> string + providerTx"

section \<open>Helpers\<close>

definition resolveFundingMethodLabel :: "string option \<Rightarrow> string" where
  "resolveFundingMethodLabel providerPaymentType =
     (let paymentType = map_option (\<lambda>x. trim (toLowerCase x)) providerPaymentType
      in if paymentType = Some ''card'' then ''Funding-Card''
         else if paymentType = Some ''bank_transfer'' \<or> paymentType = Some ''banktransfer''
         then ''Funding-BankTransfer''
         else if paymentType = Some ''ussd'' then ''Funding-USSD''
         else if paymentType = Some ''account'' then ''Funding-Account''
         else ''Funding-Unknown'')"

definition resolveFundingTransactionType :: "string option \<Rightarrow> transactionType" where
  "resolveFundingTransactionType providerPaymentType =
     (let paymentType = map_option (\<lambda>x. trim (toLowerCase x)) providerPaymentType
      in if paymentType = Some ''card'' then TT_FUNDING_CARD
         else if paymentType = Some ''bank_transfer'' \<or> paymentType = Some ''banktransfer''
         then TT_FUNDING_BANKTRANSFER
         else if paymentType = Some ''ussd'' then TT_FUNDING_USSD
         else if paymentType = Some ''account'' then TT_FUNDING_ACCOUNT
         else TT_FUNDING)"

record verification =
  vr_valid :: bool
  vr_amountKobo :: int
  vr_flwRef :: "string option"
  vr_paymentType :: "string option"
  vr_chargedAmount :: rat

text \<open>\<^verbatim>\<open>x ?? y\<close>\<close>

definition orElse :: "'a option \<Rightarrow> 'a option \<Rightarrow> 'a option" where
  "orElse x y = (case x of None \<Rightarrow> y | Some _ \<Rightarrow> x)"

definition verifyChargeWithProvider ::
  "chargeVerifier \<Rightarrow> chargeData \<Rightarrow> int option \<Rightarrow> string \<Rightarrow> verification result" where
  "verifyChargeWithProvider verify data expectedAmountKobo expectedTxRef =
     (case verify (ch_id data) expectedTxRef of
        Inl message \<Rightarrow> Inl (PlainError message)
      | Inr verified \<Rightarrow>
          let answer = (\<lambda>valid amount. \<lparr>vr_valid = valid, vr_amountKobo = amount,
                 vr_flwRef = orElse (pv_flw_ref verified) (ch_flw_ref data),
                 vr_paymentType = pv_payment_type verified,
                 vr_chargedAmount = pv_charged_amount verified\<rparr>);
              verifiedAmountKobo = toKobo (pv_amount verified)
          in Inr (if pv_status verified \<noteq> ''successful'' then answer False 0
                  else if pv_tx_ref verified \<noteq> ch_tx_ref data then answer False 0
                  else if pv_currency verified \<noteq> ''NGN'' then answer False 0
                  else if expectedAmountKobo \<noteq> None \<and> Some verifiedAmountKobo \<noteq> expectedAmountKobo
                  then answer False verifiedAmountKobo
                  else answer True verifiedAmountKobo))"

definition extractEventId :: "webhookPayload \<Rightarrow> string" where
  "extractEventId payload =
     (case payload of
        ChargeCompleted data _ \<Rightarrow>
          ''charge.completed::'' @ ch_tx_ref data @ ''::'' @
          (case ch_flw_ref data of Some r \<Rightarrow> r | None \<Rightarrow> showInt (ch_id data))
      | TransferCompleted data \<Rightarrow> ''transfer.completed::'' @ tf_reference data
      | OtherEvent event ref \<Rightarrow> event @ ''::'' @ ref)"

text \<open>\<^verbatim>\<open>true\<close> when the event is a duplicate.\<close>

definition checkIdempotency :: "string \<Rightarrow> db \<Rightarrow> (bool \<times> db) result" where
  "checkIdempotency eventId s =
     (case createWebhookEvent \<lparr>we_provider = ''FLUTTERWAVE'', we_eventId = eventId\<rparr> s of
        Inr s1 \<Rightarrow> Inr (False, s1)
      | Inl e \<Rightarrow> if e = PrismaError ''P2002'' then Inr (True, s) else Inl e)"

definition releaseIdempotencyMarker :: "string \<Rightarrow> db \<Rightarrow> db" where
  "releaseIdempotencyMarker eventId s =
     s\<lparr>webhookEvents := filter (\<lambda>x. we_eventId x \<noteq> eventId) (webhookEvents s)\<rparr>"

definition enqueueWalletEvent :: "string \<Rightarrow> eventSide \<Rightarrow> int \<Rightarrow> string \<Rightarrow> db \<Rightarrow> db" where
  "enqueueWalletEvent uid side amountKobo ref s =
     (case userById uid s of
        None \<Rightarrow> s
      | Some _ \<Rightarrow> s\<lparr>walletEvents := walletEvents s @
          [\<lparr>ev_userId = uid, ev_type = side, ev_amountKobo = amountKobo, ev_reference = ref\<rparr>]\<rparr>)"

text \<open>\<^verbatim>\<open>transaction.wallet.userId\<close>: the foreign key makes sure there is a wallet.\<close>

definition notifyOwner :: "transactionRow \<Rightarrow> eventSide \<Rightarrow> int \<Rightarrow> string \<Rightarrow> db \<Rightarrow> db" where
  "notifyOwner t side amountKobo ref s =
     (case walletById (t_walletId t) s of
        None \<Rightarrow> s | Some w \<Rightarrow> enqueueWalletEvent (w_userId w) side amountKobo ref s)"

definition updateTransactionStatus :: "env \<Rightarrow> string \<Rightarrow> transactionStatus \<Rightarrow> db \<Rightarrow> db" where
  "updateTransactionStatus env txRef status s =
     s\<lparr>transactions := map (\<lambda>t. if t_reference t = txRef \<and> t_status t = TS_PENDING
          then t\<lparr>t_status := status,
                 t_completedAt := (if status \<noteq> TS_PENDING then Some (now env) else t_completedAt t)\<rparr>
          else t) (transactions s)\<rparr>"

section \<open>Charges\<close>

text \<open>An entry that continues the running total, as the service builds it.\<close>

definition rawCredit ::
  "string \<Rightarrow> string \<Rightarrow> string \<Rightarrow> movementType \<Rightarrow> int \<Rightarrow> ledgerSourceType \<Rightarrow> string \<Rightarrow> db \<Rightarrow> ledgerEntry" where
  "rawCredit i wid ref movement amount sourceType sourceId s =
     (let balanceBefore = computeTotalBalance s wid
      in \<lparr>le_id = i, le_walletId = wid, le_reference = ref, le_entryType = CREDIT,
          le_movementType = movement, le_bucketType = None, le_amount = amount,
          le_balanceBefore = balanceBefore, le_balanceAfter = balanceBefore + amount,
          le_sourceType = sourceType, le_sourceId = sourceId\<rparr>)"

definition templateOf :: "string option \<Rightarrow> string" where
  "templateOf x = (case x of None \<Rightarrow> ''undefined'' | Some v \<Rightarrow> v)"

text \<open>
  The inner \<^verbatim>\<open>return false\<close> of a duplicate leaves the database transaction only: the method returns
  \<^verbatim>\<open>true\<close> all the same.
\<close>

definition creditWalletFromVA ::
  "env \<Rightarrow> virtualAccount \<Rightarrow> chargeData \<Rightarrow> int \<Rightarrow> db \<Rightarrow> (bool \<times> db) result" where
  "creditWalletFromVA env va data amountKobo s =
     (let ledgerReference = ''VA-'' @ templateOf (ch_flw_ref data)
      in case findFirst (\<lambda>e. le_walletId e = va_walletId va \<and> le_reference e = ledgerReference)
                (ledgerEntries s) of
           Some _ \<Rightarrow> Inr (True, s)
         | None \<Rightarrow>
             bindE (createLedgerEntry
               (rawCredit (rnd env 0) (va_walletId va) ledgerReference FUNDING amountKobo
                  ST_TRANSACTION (va_id va) s) s) (\<lambda>s1. Inr (True, s1)))"

definition settleChargeTx ::
  "env \<Rightarrow> transactionRow \<Rightarrow> chargeData \<Rightarrow> verification \<Rightarrow> string option \<Rightarrow> db \<Rightarrow> (unit \<times> db) result" where
  "settleChargeTx env t data v settledPaymentType s =
     (let fundingMethodLabel = resolveFundingMethodLabel settledPaymentType;
          fundingReference = fundingMethodLabel @ ''-'' @ t_id t
      in
      bindE (createLedgerEntry
        (rawCredit (rnd env 0) (t_walletId t) fundingReference FUNDING (vr_amountKobo v)
           ST_TRANSACTION (t_id t) s) s) (\<lambda>s1.
      bindE (updateTransaction (t_id t)
        (\<lambda>x. x\<lparr>t_type := resolveFundingTransactionType settledPaymentType, t_status := TS_SUCCESS,
               t_completedAt := Some (now env),
               t_metadata := Some (spread (asObject (t_metadata t))
                 ([(''flwTransactionId'', JNum (of_int (ch_id data)))]
                  @ optProp ''flwRef'' JStr (vr_flwRef v)
                  @ [(''verifiedPaymentType'',
                      case settledPaymentType of None \<Rightarrow> JNull | Some p \<Rightarrow> JStr p),
                     (''chargedAmount'', JNum (vr_chargedAmount v)),
                     (''verifiedAmountKobo'', JBig (vr_amountKobo v)),
                     (''fundingMethodLabel'', JStr fundingMethodLabel),
                     (''fundingLedgerReference'', JStr fundingReference)]))\<rparr>) s1) (\<lambda>s2.
      Inr ((), s2))))"

definition isBankTransferCharge :: "chargeData \<Rightarrow> string option \<Rightarrow> bool" where
  "isBankTransferCharge data eventType \<longleftrightarrow>
     (let p = map_option (\<lambda>x. trim (toLowerCase x)) (ch_payment_type data)
      in p = Some ''bank_transfer'' \<or> p = Some ''banktransfer'' \<or>
         eventType = Some ''BANK_TRANSFER_TRANSACTION'')"

definition vaByTxRef :: "string \<Rightarrow> db \<Rightarrow> virtualAccount option" where
  "vaByTxRef txRef s = findFirst (\<lambda>v. va_txRef v = txRef) (virtualAccounts s)"

text \<open>Path A, a virtual account, and path B, a hosted checkout.\<close>

definition chargeVirtualAccount ::
  "env \<Rightarrow> chargeVerifier \<Rightarrow> virtualAccount \<Rightarrow> chargeData \<Rightarrow> db \<Rightarrow> unit result \<times> db" where
  "chargeVirtualAccount env verify va data s =
     (case verifyChargeWithProvider verify data None (ch_tx_ref data) of
        Inl e \<Rightarrow> (Inl e, s)
      | Inr v \<Rightarrow>
          if \<not> vr_valid v then (Inr (), s)
          else case transaction (creditWalletFromVA env va data (vr_amountKobo v)) s of
                 (Inl e, s1) \<Rightarrow> (Inl e, s1)
               | (Inr credited, s1) \<Rightarrow>
                   (Inr (), if credited
                            then enqueueWalletEvent (va_userId va) EV_CREDIT (vr_amountKobo v)
                                   (''VA-'' @ templateOf (ch_flw_ref data)) s1
                            else s1))"

definition chargeCheckout ::
  "env \<Rightarrow> chargeVerifier \<Rightarrow> chargeData \<Rightarrow> db \<Rightarrow> unit result \<times> db" where
  "chargeCheckout env verify data s =
     (case transactionByReference (ch_tx_ref data) s of
        None \<Rightarrow> (Inr (), s)
      | Some t \<Rightarrow>
          if t_status t \<noteq> TS_PENDING then (Inr (), s)
          else case verifyChargeWithProvider verify data (Some (t_amount t)) (ch_tx_ref data) of
                 Inl e \<Rightarrow> (Inl e, s)
               | Inr v \<Rightarrow>
                   if \<not> vr_valid v
                   then (Inr (), updateTransactionStatus env (ch_tx_ref data) TS_FAILED s)
                   else
                     let settledPaymentType = orElse (vr_paymentType v) (ch_payment_type data)
                     in case transaction (settleChargeTx env t data v settledPaymentType) s of
                          (Inl e, s1) \<Rightarrow> (Inl e, s1)
                        | (Inr _, s1) \<Rightarrow>
                            (Inr (), notifyOwner t EV_CREDIT (vr_amountKobo v)
                               (resolveFundingMethodLabel settledPaymentType @ ''-'' @ t_id t) s1))"

definition handleChargeCompleted ::
  "env \<Rightarrow> chargeVerifier \<Rightarrow> chargeData \<Rightarrow> string option \<Rightarrow> db \<Rightarrow> unit result \<times> db" where
  "handleChargeCompleted env verify data eventType s =
     (if ch_status data \<noteq> ''successful''
      then (Inr (), updateTransactionStatus env (ch_tx_ref data) TS_FAILED s)
      else case (if isBankTransferCharge data eventType then vaByTxRef (ch_tx_ref data) s else None) of
             Some va \<Rightarrow> chargeVirtualAccount env verify va data s
           | None \<Rightarrow> chargeCheckout env verify data s)"

section \<open>Transfers\<close>

definition transferTx :: "env \<Rightarrow> transactionRow \<Rightarrow> transferData \<Rightarrow> db \<Rightarrow> (unit \<times> db) result" where
  "transferTx env t data s =
     (if tf_status data = ''SUCCESSFUL'' then
        bindE (updateTransaction (t_id t)
          (\<lambda>x. x\<lparr>t_status := TS_SUCCESS, t_completedAt := Some (now env),
                 t_metadata := Some (spread (asObject (t_metadata t))
                   [(''flwTransferId'', JNum (of_int (tf_id data))),
                    (''completeMessage'', JStr (tf_complete_message data))])\<rparr>) s)
          (\<lambda>s1. Inr ((), s1))
      else
        let reversalRef = ''REVERSAL-'' @ t_reference t
        in
        bindE (createLedgerEntry
          (rawCredit (rnd env 0) (t_walletId t) reversalRef WITHDRAWAL (t_amount t) ST_REVERSAL
             (t_id t) s) s) (\<lambda>s1.
        bindE (updateTransaction (t_id t)
          (\<lambda>x. x\<lparr>t_status := TS_FAILED, t_completedAt := Some (now env),
                 t_metadata := Some (spread (asObject (t_metadata t))
                   [(''flwTransferId'', JNum (of_int (tf_id data))),
                    (''failureReason'', JStr (tf_complete_message data)),
                    (''reversalRef'', JStr reversalRef)])\<rparr>) s1)
          (\<lambda>s2. Inr ((), s2))))"

definition handleTransferCompleted :: "env \<Rightarrow> transferData \<Rightarrow> db \<Rightarrow> unit result \<times> db" where
  "handleTransferCompleted env data s =
     (case transactionByReference (tf_reference data) s of
        None \<Rightarrow> (Inr (), s)
      | Some t \<Rightarrow>
          if t_status t \<noteq> TS_PENDING then (Inr (), s)
          else case transaction (transferTx env t data) s of
                 (Inl e, s1) \<Rightarrow> (Inl e, s1)
               | (Inr _, s1) \<Rightarrow>
                   (Inr (), if tf_status data = ''SUCCESSFUL''
                            then notifyOwner t EV_DEBIT (t_amount t) (t_reference t) s1
                            else notifyOwner t EV_CREDIT (t_amount t)
                                   (''REVERSAL-'' @ t_reference t) s1))"

section \<open>The entry point\<close>

definition routeWebhook ::
  "env \<Rightarrow> chargeVerifier \<Rightarrow> webhookPayload \<Rightarrow> db \<Rightarrow> unit result \<times> db" where
  "routeWebhook env verify payload s =
     (case payload of
        ChargeCompleted data eventType \<Rightarrow> handleChargeCompleted env verify data eventType s
      | TransferCompleted data \<Rightarrow> handleTransferCompleted env data s
      | OtherEvent _ _ \<Rightarrow> (Inr (), s))"

definition handleWebhook ::
  "env \<Rightarrow> (string \<Rightarrow> bool) \<Rightarrow> chargeVerifier \<Rightarrow> webhookPayload \<Rightarrow> string \<Rightarrow> db
   \<Rightarrow> unit result \<times> db" where
  "handleWebhook env verifySignature verify payload signatureHeader s =
     (if \<not> verifySignature signatureHeader
      then (Inl (Unauthorized ''Invalid webhook signature''), s)
      else
        let eventId = extractEventId payload
        in case checkIdempotency eventId s of
             Inl e \<Rightarrow> (Inl e, s)
           | Inr (alreadyProcessed, s1) \<Rightarrow>
               if alreadyProcessed then (Inr (), s1)
               else case routeWebhook env verify payload s1 of
                      (Inl e, s2) \<Rightarrow> (Inl e, releaseIdempotencyMarker eventId s2)
                    | (Inr _, s2) \<Rightarrow> (Inr (), s2))"

section \<open>Frames\<close>

lemma enqueueWalletEvent_walletEvents:
  "\<exists>ev. enqueueWalletEvent u d a r s = s\<lparr>walletEvents := ev\<rparr>"
proof (cases "userById u s")
  case None
  then have "enqueueWalletEvent u d a r s = s\<lparr>walletEvents := walletEvents s\<rparr>"
    by (simp add: enqueueWalletEvent_def)
  then show ?thesis by blast
qed (auto simp: enqueueWalletEvent_def)

lemma notifyOwner_walletEvents: "\<exists>ev. notifyOwner t d a r s = s\<lparr>walletEvents := ev\<rparr>"
proof (cases "walletById (t_walletId t) s")
  case None
  then have "notifyOwner t d a r s = s\<lparr>walletEvents := walletEvents s\<rparr>"
    by (simp add: notifyOwner_def)
  then show ?thesis by blast
qed (auto simp: notifyOwner_def enqueueWalletEvent_walletEvents)

lemma walletEvents_frame:
  "sameLedger s (s\<lparr>walletEvents := ev\<rparr>)" "finalKept s (s\<lparr>walletEvents := ev\<rparr>)"
  "transactionsUnique (s\<lparr>walletEvents := ev\<rparr>) = transactionsUnique s"
  "amountsOk (s\<lparr>walletEvents := ev\<rparr>) = amountsOk s"
  by (auto simp: sameLedger_def transactionsUnique_def amountsOk_def)

lemma notify_frame [simp]:
  "sameLedger s (notifyOwner t d a r s)" "finalKept s (notifyOwner t d a r s)"
  "transactionsUnique (notifyOwner t d a r s) = transactionsUnique s"
  "amountsOk (notifyOwner t d a r s) = amountsOk s"
  "webhookEvents (notifyOwner t d a r s) = webhookEvents s"
  "transactions (notifyOwner t d a r s) = transactions s"
  "ledgerEntries (notifyOwner t d a r s) = ledgerEntries s"
  using notifyOwner_walletEvents [of t d a r s] walletEvents_frame by auto

lemma enqueue_frame' [simp]:
  "sameLedger s (enqueueWalletEvent u d a r s)" "finalKept s (enqueueWalletEvent u d a r s)"
  "transactionsUnique (enqueueWalletEvent u d a r s) = transactionsUnique s"
  "amountsOk (enqueueWalletEvent u d a r s) = amountsOk s"
  "webhookEvents (enqueueWalletEvent u d a r s) = webhookEvents s"
  "transactions (enqueueWalletEvent u d a r s) = transactions s"
  "ledgerEntries (enqueueWalletEvent u d a r s) = ledgerEntries s"
  using enqueueWalletEvent_walletEvents [of u d a r s] walletEvents_frame by auto

lemma updateTransactionStatus_frame:
  "sameLedger s (updateTransactionStatus env r st s)"
  "finalKept s (updateTransactionStatus env r st s)"
  "transactionsUnique (updateTransactionStatus env r st s) = transactionsUnique s"
  "amountsOk (updateTransactionStatus env r st s) = amountsOk s"
  "webhookEvents (updateTransactionStatus env r st s) = webhookEvents s"
proof -
  let ?f = "\<lambda>t. if t_reference t = r \<and> t_status t = TS_PENDING
    then t\<lparr>t_status := st, t_completedAt := (if st \<noteq> TS_PENDING then Some (now env) else t_completedAt t)\<rparr>
    else t"
  show "finalKept s (updateTransactionStatus env r st s)"
    by (rule finalKept_map [where f = ?f]) (auto simp: updateTransactionStatus_def)
  show "transactionsUnique (updateTransactionStatus env r st s) = transactionsUnique s"
    by (rule transactionsUnique_map [where f = ?f]) (auto simp: updateTransactionStatus_def)
  show "amountsOk (updateTransactionStatus env r st s) = amountsOk s"
    by (rule amountsOk_map [where f = ?f]) (auto simp: updateTransactionStatus_def)
qed (auto simp: updateTransactionStatus_def sameLedger_def)

text \<open>A credit of this kind continues the running total.\<close>

lemma rawCredit_posts:
  assumes "createLedgerEntry (rawCredit i wid ref mv a st sid s) s = Inr s'" and "0 \<le> a"
  shows "posts s [creditOf wid a] s'" "ledgerOnly s s'"
    "(wid, ref, st, sid) \<in> le_key ` set (ledgerEntries s')"
proof -
  have "directEntry (rawCredit i wid ref mv a st sid s) s s'"
    by (rule createLedgerEntry_direct [OF assms(1)]) (simp_all add: rawCredit_def Let_def assms(2))
  then show "posts s [creditOf wid a] s'"
    using posts_direct by (force simp: rawCredit_def Let_def)
qed (use assms(1) in \<open>auto simp: createLedgerEntry_Inr ledgerOnly_def le_key_def rawCredit_def Let_def\<close>)

section \<open>What a notification does\<close>

text \<open>
  What the service relies on: the provider's record of a payment carries no negative amount.
\<close>

definition verifierOk :: "chargeVerifier \<Rightarrow> bool" where
  "verifierOk verify \<longleftrightarrow> (\<forall>i r v. verify i r = Inr v \<longrightarrow> 0 \<le> pv_amount v)"

lemma verifyChargeWithProvider_valid:
  assumes "verifyChargeWithProvider verify data expected r = Inr v" and "vr_valid v"
  obtains p where "verify (ch_id data) r = Inr p" and "pv_status p = ''successful''"
    and "pv_tx_ref p = ch_tx_ref data" and "pv_currency p = ''NGN''"
    and "vr_amountKobo v = toKobo (pv_amount p)"
    and "\<And>a. expected = Some a \<Longrightarrow> vr_amountKobo v = a"
proof -
  from assms obtain p where p: "verify (ch_id data) r = Inr p"
    by (cases "verify (ch_id data) r") (auto simp: verifyChargeWithProvider_def)
  then have "pv_status p = ''successful'' \<and> pv_tx_ref p = ch_tx_ref data \<and> pv_currency p = ''NGN'' \<and>
      vr_amountKobo v = toKobo (pv_amount p) \<and> (\<forall>a. expected = Some a \<longrightarrow> vr_amountKobo v = a)"
    using assms by (auto simp: verifyChargeWithProvider_def Let_def split: if_splits)
  with p that show thesis by blast
qed

lemma toKobo_nonneg: "0 \<le> x \<Longrightarrow> 0 \<le> toKobo x"
  unfolding toKobo_def by (rule math_round_ge) simp

lemma creditWalletFromVA_Inr:
  assumes "creditWalletFromVA env va data a s = Inr (b, s')" and "0 \<le> a"
  shows "b \<and> ledgerOnly s s' \<and> (s' = s \<or> posts s [creditOf (va_walletId va) a] s')"
proof (cases "findFirst (\<lambda>e. le_walletId e = va_walletId va \<and>
    le_reference e = ''VA-'' @ templateOf (ch_flw_ref data)) (ledgerEntries s)")
  case None
  with assms(1) have "b" and ent: "createLedgerEntry (rawCredit (rnd env 0) (va_walletId va)
      (''VA-'' @ templateOf (ch_flw_ref data)) FUNDING a ST_TRANSACTION (va_id va) s) s = Inr s'"
    by (auto simp: creditWalletFromVA_def Let_def result_simps)
  then show ?thesis
    using rawCredit_posts [OF ent assms(2)] by simp
next
  case (Some e)
  with assms(1) show ?thesis by (simp add: creditWalletFromVA_def Let_def)
qed

text \<open>
  A virtual account is credited with the amount the provider confirms, for a payment it confirms as
  successful, in naira and with the account's reference; nothing happens otherwise.
\<close>

lemma chargeVirtualAccount_effect:
  assumes "chargeVirtualAccount env verify va data s = (r, s')" and "verifierOk verify"
  shows "transactions s' = transactions s \<and> webhookEvents s' = webhookEvents s \<and>
    (sameLedger s s' \<or>
     (\<exists>p. verify (ch_id data) (ch_tx_ref data) = Inr p \<and> pv_status p = ''successful'' \<and>
          pv_tx_ref p = ch_tx_ref data \<and> pv_currency p = ''NGN'' \<and>
          posts s [creditOf (va_walletId va) (toKobo (pv_amount p))] s'))"
proof (cases "verifyChargeWithProvider verify data None (ch_tx_ref data)")
  case (Inl e)
  with assms(1) show ?thesis by (simp add: chargeVirtualAccount_def)
next
  case (Inr v)
  show ?thesis
  proof (cases "vr_valid v")
    case False
    with assms(1) Inr show ?thesis by (simp add: chargeVirtualAccount_def)
  next
    case True
    obtain p where p: "verify (ch_id data) (ch_tx_ref data) = Inr p" "pv_status p = ''successful''"
      "pv_tx_ref p = ch_tx_ref data" "pv_currency p = ''NGN''" "vr_amountKobo v = toKobo (pv_amount p)"
      by (rule verifyChargeWithProvider_valid [OF Inr True])
    have a: "0 \<le> vr_amountKobo v"
      using p assms(2) toKobo_nonneg by (auto simp: verifierOk_def)
    show ?thesis
    proof (cases "creditWalletFromVA env va data (vr_amountKobo v) s" rule: result_cases_state)
      case (error e)
      with assms(1) Inr True show ?thesis by (simp add: chargeVirtualAccount_def)
    next
      case (ok b s1)
      note c = creditWalletFromVA_Inr [OF ok a]
      then have s': "s' = enqueueWalletEvent (va_userId va) EV_CREDIT (vr_amountKobo v)
          (''VA-'' @ templateOf (ch_flw_ref data)) s1"
        using assms(1) Inr True ok by (simp add: chargeVirtualAccount_def)
      have "transactions s' = transactions s \<and> webhookEvents s' = webhookEvents s"
        using c ledgerOnly_frame(3,13) by (simp add: s')
      moreover have "sameLedger s1 s'" by (simp add: s')
      ultimately show ?thesis
        using c p posts_then_silent by auto
    qed
  qed
qed

text \<open>
  A checkout settles a pending deposit, for exactly its amount; a payment the provider does not
  confirm marks it as failed.
\<close>

text \<open>A credit, and the transaction it settles or gives back marked accordingly.\<close>

lemma credit_then_final:
  assumes "createLedgerEntry (rawCredit i (t_walletId t) ref mv a st (t_id t) s) s = Inr s1" and "0 \<le> a"
    and "updateTransaction (t_id t) f s1 = Inr s'" and "transactionById (t_id t) s = Some t"
    and "t_status t = TS_PENDING" and "transactionsUnique s"
    and "\<And>x. t_id (f x) = t_id x" and "\<And>x. t_amount (f x) = t_amount x"
  shows "posts s [creditOf (t_walletId t) a] s' \<and> webhookEvents s' = webhookEvents s \<and>
    finalKept s s' \<and> transactionsUnique s' \<and> (amountsOk s \<longrightarrow> amountsOk s') \<and>
    transactionById (t_id t) s' = Some (f t) \<and>
    (t_walletId t, ref, st, t_id t) \<in> le_key ` set (ledgerEntries s')"
proof -
  note c = rawCredit_posts [OF assms(1,2)]
  have tx: "transactions s1 = transactions s" "webhookEvents s1 = webhookEvents s"
    using c(2) ledgerOnly_frame by auto
  have at: "transactionById (t_id t) s1 = Some t"
    using assms(4) tx by (simp add: transactionById_def)
  have u: "transactionsUnique s1" using transactionsUnique_cong [OF tx(1)] assms(6) by simp
  note f = updateTransaction_final [OF assms(3) at assms(5) u assms(7,8)]
  have "finalKept s s'"
    using finalKept_same [OF tx(1)] f finalKept_trans by blast
  then show ?thesis
    using f c posts_then_silent [OF c(1)] tx amountsOk_cong [OF tx(1)] by (simp add: sameLedger_def)
qed

lemma settleChargeTx_Inr:
  assumes "settleChargeTx env t data v p s = Inr (u, s')" and "0 \<le> vr_amountKobo v"
    and "transactionById (t_id t) s = Some t" and "t_status t = TS_PENDING" and "transactionsUnique s"
  shows "posts s [creditOf (t_walletId t) (vr_amountKobo v)] s' \<and> webhookEvents s' = webhookEvents s \<and>
    finalKept s s' \<and> transactionsUnique s' \<and> (amountsOk s \<longrightarrow> amountsOk s') \<and>
    map_option t_status (transactionById (t_id t) s') = Some TS_SUCCESS"
proof -
  obtain s1 m where ent: "createLedgerEntry (rawCredit (rnd env 0) (t_walletId t)
      (resolveFundingMethodLabel p @ ''-'' @ t_id t) FUNDING (vr_amountKobo v) ST_TRANSACTION (t_id t) s) s
      = Inr s1"
    and upd: "updateTransaction (t_id t) (\<lambda>x. x\<lparr>t_type := resolveFundingTransactionType p,
      t_status := TS_SUCCESS, t_completedAt := Some (now env), t_metadata := m\<rparr>) s1 = Inr s'"
    using assms(1) by (auto simp: settleChargeTx_def Let_def result_simps)
  show ?thesis
    using credit_then_final [OF ent assms(2) upd assms(3-5)] by simp
qed

lemma chargeCheckout_effect:
  assumes "chargeCheckout env verify data s = (r, s')" and "transactionsUnique s" and "amountsOk s"
  shows "finalKept s s' \<and> transactionsUnique s' \<and> amountsOk s' \<and> webhookEvents s' = webhookEvents s \<and>
    (sameLedger s s' \<or>
     (\<exists>t. transactionByReference (ch_tx_ref data) s = Some t \<and> t_status t = TS_PENDING \<and>
          posts s [creditOf (t_walletId t) (t_amount t)] s' \<and>
          map_option t_status (transactionById (t_id t) s') = Some TS_SUCCESS))"
proof (cases "transactionByReference (ch_tx_ref data) s")
  case None
  with assms show ?thesis by (simp add: chargeCheckout_def)
next
  case (Some t)
  show ?thesis
  proof (cases "t_status t = TS_PENDING")
    case False
    with assms Some show ?thesis by (simp add: chargeCheckout_def)
  next
    case pending: True
    show ?thesis
    proof (cases "verifyChargeWithProvider verify data (Some (t_amount t)) (ch_tx_ref data)")
      case (Inl e)
      with assms Some pending show ?thesis by (simp add: chargeCheckout_def)
    next
      case (Inr v)
      show ?thesis
      proof (cases "vr_valid v")
        case False
        with assms Some pending Inr show ?thesis
          by (auto simp: chargeCheckout_def updateTransactionStatus_frame)
      next
        case True
        have v: "vr_amountKobo v = t_amount t"
          by (rule verifyChargeWithProvider_valid [OF Inr True]) simp
        then have a: "0 \<le> vr_amountKobo v"
          using amountsOk_reference [OF assms(3) Some] by simp
        let ?p = "orElse (vr_paymentType v) (ch_payment_type data)"
        show ?thesis
        proof (cases "settleChargeTx env t data v ?p s" rule: result_cases_state)
          case (error e)
          with assms Some pending Inr True show ?thesis by (simp add: chargeCheckout_def Let_def)
        next
          case (ok u s1)
          note c = settleChargeTx_Inr [OF ok a pendingByReference [OF assms(2) Some pending] pending assms(2)]
          then have s': "s' = notifyOwner t EV_CREDIT (vr_amountKobo v)
              (resolveFundingMethodLabel ?p @ ''-'' @ t_id t) s1"
            using assms(1) Some pending Inr True ok by (simp add: chargeCheckout_def Let_def)
          have "finalKept s s'"
            using c s' finalKept_trans notify_frame(2) by metis
          moreover have "posts s [creditOf (t_walletId t) (t_amount t)] s'"
            using c v s' posts_then_silent notify_frame(1) by metis
          moreover have "transactionById (t_id t) s' = transactionById (t_id t) s1"
            by (simp add: s' transactionById_def)
          ultimately show ?thesis
            using c assms(3) pending Some by (auto simp: s')
        qed
      qed
    qed
  qed
qed

text \<open>A transfer confirms a pending withdrawal or gives its amount back.\<close>

lemma transferTx_Inr:
  assumes "transferTx env t data s = Inr (u, s')" and "0 \<le> t_amount t"
    and "transactionById (t_id t) s = Some t" and "t_status t = TS_PENDING" and "transactionsUnique s"
  shows "webhookEvents s' = webhookEvents s \<and> finalKept s s' \<and> transactionsUnique s' \<and>
    (amountsOk s \<longrightarrow> amountsOk s') \<and>
    (if tf_status data = ''SUCCESSFUL''
     then sameLedger s s' \<and> map_option t_status (transactionById (t_id t) s') = Some TS_SUCCESS
     else posts s [creditOf (t_walletId t) (t_amount t)] s' \<and>
          map_option t_status (transactionById (t_id t) s') = Some TS_FAILED \<and>
          (t_walletId t, ''REVERSAL-'' @ t_reference t, ST_REVERSAL, t_id t) \<in> le_key ` set (ledgerEntries s'))"
proof (cases "tf_status data = ''SUCCESSFUL''")
  case True
  with assms(1) obtain m where "updateTransaction (t_id t)
      (\<lambda>x. x\<lparr>t_status := TS_SUCCESS, t_completedAt := Some (now env), t_metadata := m\<rparr>) s = Inr s'"
    by (auto simp: transferTx_def result_simps)
  from updateTransaction_final [OF this assms(3-5)] show ?thesis
    using True by simp
next
  case False
  with assms(1) obtain s1 m where ent: "createLedgerEntry (rawCredit (rnd env 0) (t_walletId t)
      (''REVERSAL-'' @ t_reference t) WITHDRAWAL (t_amount t) ST_REVERSAL (t_id t) s) s = Inr s1"
    and upd: "updateTransaction (t_id t)
      (\<lambda>x. x\<lparr>t_status := TS_FAILED, t_completedAt := Some (now env), t_metadata := m\<rparr>) s1 = Inr s'"
    by (auto simp: transferTx_def Let_def result_simps)
  show ?thesis
    using credit_then_final [OF ent assms(2) upd assms(3-5)] False by simp
qed

lemma handleTransferCompleted_effect:
  assumes "handleTransferCompleted env data s = (r, s')" and "transactionsUnique s" and "amountsOk s"
  shows "finalKept s s' \<and> transactionsUnique s' \<and> amountsOk s' \<and> webhookEvents s' = webhookEvents s \<and>
    (sameLedger s s' \<or>
     (\<exists>t. transactionByReference (tf_reference data) s = Some t \<and> t_status t = TS_PENDING \<and>
          tf_status data \<noteq> ''SUCCESSFUL'' \<and>
          posts s [creditOf (t_walletId t) (t_amount t)] s' \<and>
          map_option t_status (transactionById (t_id t) s') = Some TS_FAILED \<and>
          (t_walletId t, ''REVERSAL-'' @ t_reference t, ST_REVERSAL, t_id t)
            \<in> le_key ` set (ledgerEntries s')))"
proof (cases "\<exists>t. transactionByReference (tf_reference data) s = Some t \<and> t_status t = TS_PENDING")
  case False
  then have "handleTransferCompleted env data s = (Inr (), s)"
    by (auto simp: handleTransferCompleted_def split: option.splits)
  with assms show ?thesis by simp
next
  case True
  then obtain t where t: "transactionByReference (tf_reference data) s = Some t" "t_status t = TS_PENDING"
    by blast
  show ?thesis
  proof (cases "transferTx env t data s" rule: result_cases_state)
    case (error e)
    with assms t show ?thesis by (simp add: handleTransferCompleted_def)
  next
    case (ok u s1)
    note c = transferTx_Inr [OF ok amountsOk_reference [OF assms(3) t(1)]
        pendingByReference [OF assms(2) t] t(2) assms(2)]
    obtain d a x where s': "s' = notifyOwner t d a x s1"
      using assms(1) t ok by (auto simp: handleTransferCompleted_def split: if_splits)
    have "finalKept s s'"
      using c s' finalKept_trans notify_frame(2) by metis
    moreover have "sameLedger s1 s'" by (simp add: s')
    moreover have "transactionById (t_id t) s' = transactionById (t_id t) s1"
      by (simp add: s' transactionById_def)
    moreover have "sameLedger s s1 \<Longrightarrow> sameLedger s s'"
      "posts s [creditOf (t_walletId t) (t_amount t)] s1 \<Longrightarrow>
       posts s [creditOf (t_walletId t) (t_amount t)] s'"
      using \<open>sameLedger s1 s'\<close> sameLedger_trans posts_then_silent by blast+
    ultimately show ?thesis
      using c t assms(3) s' by (cases "tf_status data = ''SUCCESSFUL''") auto
  qed
qed

section \<open>The entry point: nothing twice, nothing half\<close>

lemma routeWebhook_error:
  assumes "routeWebhook env verify payload s = (Inl e, s')"
  shows "s' = s"
proof -
  have roll: "transaction m s = (Inl x, t) \<Longrightarrow> t = s" for m :: "db \<Rightarrow> ('a \<times> db) result" and x t
    using transaction_rollback [of m s x] by simp
  have va: "chargeVirtualAccount env verify va data s = (Inl e, s') \<Longrightarrow> s' = s" for va data
    by (auto simp: chargeVirtualAccount_def dest: roll split: sum.splits if_splits prod.splits)
  have co: "chargeCheckout env verify data s = (Inl e, s') \<Longrightarrow> s' = s" for data
    by (auto simp: chargeCheckout_def Let_def dest: roll split: option.splits sum.splits if_splits prod.splits)
  have tr: "handleTransferCompleted env data s = (Inl e, s') \<Longrightarrow> s' = s" for data
    by (auto simp: handleTransferCompleted_def dest: roll split: option.splits sum.splits if_splits prod.splits)
  show ?thesis
    using assms
    by (auto simp: routeWebhook_def handleChargeCompleted_def dest: va co tr
        split: webhookPayload.splits if_splits option.splits)
qed

text \<open>
  Every notification writes at most one entry, a credit, and never touches a transaction that is
  settled or failed.
\<close>

lemma routeWebhook_effect:
  assumes "routeWebhook env verify payload s = (r, s')" and "transactionsUnique s" and "amountsOk s"
    and "verifierOk verify"
  shows "finalKept s s' \<and> transactionsUnique s' \<and> amountsOk s' \<and> webhookEvents s' = webhookEvents s \<and>
    (posts s [] s' \<or> (\<exists>w a. 0 \<le> a \<and> posts s [creditOf w a] s'))"
proof (cases payload)
  case (ChargeCompleted data ty)
  consider (unsuccessful) "s' = updateTransactionStatus env (ch_tx_ref data) TS_FAILED s"
    | (va) va where "chargeVirtualAccount env verify va data s = (r, s')"
    | (checkout) "chargeCheckout env verify data s = (r, s')"
    using assms(1) ChargeCompleted
    by (auto simp: routeWebhook_def handleChargeCompleted_def split: if_splits option.splits)
  then show ?thesis
  proof cases
    case unsuccessful
    then show ?thesis
      using assms(2,3) updateTransactionStatus_frame posts_silent by simp
  next
    case va
    note e = chargeVirtualAccount_effect [OF va assms(4)]
    have "0 \<le> toKobo (pv_amount p)" if "verify (ch_id data) (ch_tx_ref data) = Inr p" for p
      using that assms(4) toKobo_nonneg by (auto simp: verifierOk_def)
    moreover have "finalKept s s'" "transactionsUnique s'" "amountsOk s'"
      using e assms(2,3) by (auto simp: transactionsUnique_def amountsOk_def)
    ultimately show ?thesis
      using e posts_silent by blast
  next
    case checkout
    show ?thesis
      using chargeCheckout_effect [OF checkout assms(2,3)] posts_silent
        amountsOk_reference [OF assms(3)] by blast
  qed
next
  case (TransferCompleted data)
  then have "handleTransferCompleted env data s = (r, s')"
    using assms(1) by (simp add: routeWebhook_def)
  from handleTransferCompleted_effect [OF this assms(2,3)] show ?thesis
    using posts_silent amountsOk_reference [OF assms(3)] by blast
next
  case (OtherEvent ev ref)
  then show ?thesis
    using assms by (auto simp: routeWebhook_def intro: posts.intros)
qed

lemma handleWebhook_cases:
  assumes "handleWebhook env sig verify payload hdr s = (r, s')"
  obtains (ignored) "s' = s" "\<not> sig hdr \<or> extractEventId payload \<in> we_eventId ` set (webhookEvents s)"
    | (handled) s1 s2 where "sig hdr"
        "createWebhookEvent \<lparr>we_provider = ''FLUTTERWAVE'', we_eventId = extractEventId payload\<rparr> s = Inr s1"
        "routeWebhook env verify payload s1 = (r, s2)"
        "s' = (if isl r then releaseIdempotencyMarker (extractEventId payload) s2 else s2)"
proof (cases "createWebhookEvent \<lparr>we_provider = ''FLUTTERWAVE'', we_eventId = extractEventId payload\<rparr> s")
  case (Inl e)
  then have "e = PrismaError ''P2002'' \<and> extractEventId payload \<in> we_eventId ` set (webhookEvents s)"
    by (force simp: createWebhookEvent_def list_ex_iff split: if_splits)
  with Inl assms ignored show thesis
    by (auto simp: handleWebhook_def checkIdempotency_def Let_def split: if_splits)
next
  case (Inr s1)
  obtain r' s2 where route: "routeWebhook env verify payload s1 = (r', s2)"
    by fastforce
  show thesis
  proof (cases "sig hdr")
    case True
    with assms Inr route have "r = r'"
      "s' = (if isl r' then releaseIdempotencyMarker (extractEventId payload) s2 else s2)"
      by (auto simp: handleWebhook_def checkIdempotency_def split: sum.splits)
    with True Inr route handled show thesis by simp
  next
    case False
    with assms ignored show thesis by (auto simp: handleWebhook_def)
  qed
qed

text \<open>A notification that fails leaves no trace, so that its repetition is processed.\<close>

lemma handleWebhook_error:
  assumes "handleWebhook env sig verify payload hdr s = (Inl e, s')"
  shows "s' = s"
  using assms
proof (cases rule: handleWebhook_cases)
  case ignored
  then show ?thesis by simp
next
  case (handled s1 s2)
  have "s2 = s1" by (rule routeWebhook_error [OF handled(3)])
  moreover have "extractEventId payload \<notin> we_eventId ` set (webhookEvents s)"
    and "s1 = s\<lparr>webhookEvents := webhookEvents s @
      [\<lparr>we_provider = ''FLUTTERWAVE'', we_eventId = extractEventId payload\<rparr>]\<rparr>"
    using handled(2) by (simp_all add: createWebhookEvent_Inr)
  moreover from this have "filter (\<lambda>x. we_eventId x \<noteq> extractEventId payload) (webhookEvents s) = webhookEvents s"
    by (force simp: filter_id_conv)
  ultimately show ?thesis
    using handled(4) by (simp add: releaseIdempotencyMarker_def)
qed

text \<open>One that succeeded is ignored from then on.\<close>

lemma handleWebhook_repeated:
  assumes "handleWebhook env sig verify payload hdr s = (Inr u, s')"
    and "transactionsUnique s" and "amountsOk s" and "verifierOk verify"
    and "extractEventId payload' = extractEventId payload" and "sig hdr'"
  shows "handleWebhook env' sig verify' payload' hdr' s' = (Inr (), s')"
proof -
  have "extractEventId payload \<in> we_eventId ` set (webhookEvents s')"
    using assms(1)
  proof (cases rule: handleWebhook_cases)
    case ignored
    moreover have "sig hdr"
      using assms(1) by (auto simp: handleWebhook_def split: if_splits)
    ultimately show ?thesis by simp
  next
    case (handled s1 s2)
    note fr = createWebhookEvent_frame(2) [OF handled(2)]
    have "webhookEvents s2 = webhookEvents s1"
      using routeWebhook_effect [OF handled(3) _ _ assms(4)] fr assms(2,3)
      by (simp add: transactionsUnique_def amountsOk_def)
    then show ?thesis
      using handled(2,4) by (auto simp: createWebhookEvent_Inr)
  qed
  then have "createWebhookEvent \<lparr>we_provider = ''FLUTTERWAVE'', we_eventId = extractEventId payload\<rparr> s'
      = Inl (PrismaError ''P2002'')"
    by (auto simp: createWebhookEvent_def list_ex_iff)
  then show ?thesis
    using assms(5,6) by (simp add: handleWebhook_def checkIdempotency_def Let_def)
qed

lemma handleWebhook_effect:
  assumes "handleWebhook env sig verify payload hdr s = (r, s')" and "transactionsUnique s"
    and "amountsOk s" and "verifierOk verify"
  shows "finalKept s s' \<and> transactionsUnique s' \<and> amountsOk s' \<and>
    (posts s [] s' \<or> (\<exists>w a. 0 \<le> a \<and> posts s [creditOf w a] s'))"
  using assms(1)
proof (cases rule: handleWebhook_cases)
  case ignored
  then show ?thesis using assms by (auto intro: posts.intros)
next
  case (handled s1 s2)
  note fr = createWebhookEvent_frame [OF handled(2)]
  have u: "transactionsUnique s1" "amountsOk s1"
    using fr(2) assms(2,3) by (auto simp: transactionsUnique_def amountsOk_def)
  note e = routeWebhook_effect [OF handled(3) u assms(4)]
  have tx: "transactions s' = transactions s2" "sameLedger s2 s'"
    using handled(4) by (auto simp: releaseIdempotencyMarker_def sameLedger_def)
  have "finalKept s s'"
    using finalKept_same [OF fr(2)] e finalKept_same [OF tx(1)] finalKept_trans by blast
  moreover have "transactionsUnique s'" "amountsOk s'"
    using e tx(1) by (auto simp: transactionsUnique_def amountsOk_def)
  moreover have "posts s1 ps s2 \<Longrightarrow> posts s ps s'" for ps
    using posts.silent [OF fr(1)] posts_then_silent [OF _ tx(2)] by blast
  ultimately show ?thesis
    using e by blast
qed

section \<open>A withdrawal whose answer and notification cross\<close>

text \<open>
  The provider may report the transfer before its answer to the request arrives.  When the report
  says the transfer failed, a refusal that arrives later adds no second refund.
\<close>

lemma failedTransfer_then_answer:
  assumes "startWithdrawal env verifyHash uid dto s = Inr ((w, t), s1)"
    and "ledgerChained s" and "transactionsUnique s" and "amountsOk s"
    and "handleTransferCompleted env2 data s1 = (Inr u, s2)" and "tf_reference data = t_reference t"
    and "tf_status data \<noteq> ''SUCCESSFUL''"
  shows "posts s [debitOf (w_id w) (t_amount t), creditOf (w_id w) (t_amount t)] s2 \<and>
    sameLedger s2 (snd (finishWithdrawal env3 transfer dto w t s2))"
proof -
  note start = startWithdrawal_posts [OF assms(1,2)]
  note uni = startWithdrawal_unique [OF assms(1-3)]
  have am: "amountsOk s1"
    using start assms(4) by (simp add: amountsOk_def)
  have ref: "transactionByReference (tf_reference data) s1 = Some t"
    using uni start assms(6) transactionByReference_unique [of s1 t] by simp
  obtain v s1' where ok: "transferTx env2 t data s1 = Inr (v, s1')"
    using assms(5) ref start
    by (auto simp: handleTransferCompleted_def transaction_def split: sum.splits)
  note e = transferTx_Inr [OF ok]
  obtain d a x where s2: "s2 = notifyOwner t d a x s1'"
    using assms(5) ref start ok by (auto simp: handleTransferCompleted_def split: if_splits)
  have p: "posts s1 [creditOf (w_id w) (t_amount t)] s1'"
    and key: "(w_id w, ''REVERSAL-'' @ t_reference t, ST_REVERSAL, t_id t) \<in> le_key ` set (ledgerEntries s2)"
    using e start uni assms(7) s2 by auto
  have "posts s1 [creditOf (w_id w) (t_amount t)] s2"
    using posts_then_silent [OF p] s2 by simp
  then have "posts s [debitOf (w_id w) (t_amount t), creditOf (w_id w) (t_amount t)] s2"
    using start posts_trans [of s "[debitOf (w_id w) (t_amount t)]" s1] by simp
  with finishWithdrawal_onceReversed [OF key] show ?thesis by blast
qed

text \<open>The other way round, a report that arrives after a refusal changes nothing at all.\<close>

lemma refusal_then_transfer:
  assumes "startWithdrawal env verifyHash uid dto s = Inr ((w, t), s1)"
    and "ledgerChained s" and "transactionsUnique s" and "freshWithdrawal env s"
    and "refused transfer dto t"
    and "initializeWithdrawal env verifyHash transfer uid dto s = (r, s2)"
    and "tf_reference data = t_reference t"
  shows "handleTransferCompleted env2 data s2 = (Inr (), s2)"
proof -
  have "map_option t_status (transactionByReference (t_reference t) s2) = Some TS_FAILED"
    using initializeWithdrawal_outcome [OF assms(1-4,6)] assms(5) by simp
  then show ?thesis
    using assms(7) by (auto simp: handleTransferCompleted_def)
qed

end
