(* ===== verification/Scenario.thy ===== *)
theory Scenario
  imports Membership Circle Loans Webhooks
begin

text \<open>
  A small concrete platform the witnesses evaluate the operations on: two users with funded wallets,
  the platform's pool, and a circle \<open>c1\<close> of both of them with its schedules.  Each state is a plain
  record, so an operation on it computes.
\<close>

definition env0 :: env where
  "env0 = \<lparr>now = 1000000000000, tz = 3600000, rnd = (\<lambda>k. CHR ''r'' # replicate k (CHR ''i''))\<rparr>"

text \<open>Another request, a second later, with identifiers of its own.\<close>

definition env1 :: env where
  "env1 = \<lparr>now = 1000000001000, tz = 3600000, rnd = (\<lambda>k. CHR ''q'' # replicate k (CHR ''i''))\<rparr>"

definition userOf :: "string \<Rightarrow> string option \<Rightarrow> user" where
  "userOf i pin = \<lparr>u_id = i, u_email = i @ ''@ajoti.com'', u_firstName = i, u_lastName = ''A'',
     u_transactionPin = pin, u_role = MEMBER, u_createdAt = 900000000000, u_password = ''pw-'' @ i,
     u_pendingEmail = None, u_phone = ''+2348012345678'', u_dob = 631152000000, u_isVerified = True,
     u_status = US_ACTIVE, u_suspendedAt = None, u_suspensionReason = None, u_adminRequestedAt = None\<rparr>"

definition walletFor :: "string \<Rightarrow> string \<Rightarrow> wallet" where
  "walletFor i u = \<lparr>w_id = i, w_userId = u, w_currency = ''NGN'', w_status = WS_ACTIVE\<rparr>"

definition fundedEntry :: "string \<Rightarrow> string \<Rightarrow> int \<Rightarrow> ledgerEntry" where
  "fundedEntry i w a = \<lparr>le_id = i, le_walletId = w, le_reference = ''FUND-'' @ i, le_entryType = CREDIT,
     le_movementType = FUNDING, le_bucketType = Some BT_MAIN, le_amount = a, le_balanceBefore = 0,
     le_balanceAfter = a, le_sourceType = ST_TRANSACTION, le_sourceId = i\<rparr>"

definition kycOf :: "string \<Rightarrow> kyc" where
  "kycOf u = \<lparr>k_userId = u, k_kycLevel = 1, k_status = KS_APPROVED, k_step = SUBMITTED,
     k_nin = Some ''enc-nin'', k_bvn = Some ''enc-bvn'', k_ninVerifiedAt = Some 950000000000,
     k_bvnVerifiedAt = Some 950000000001, k_nextOfKin = Some (''Eve'', ''Sister'', ''+2348000000000''),
     k_address = None, k_city = None, k_state = None, k_lga = None, k_country = None,
     k_selfieUrl = None, k_governmentIdType = None, k_governmentIdFrontUrl = None,
     k_governmentIdBackUrl = None, k_proofOfAddressType = None, k_proofOfAddressUrl = None,
     k_rejectionReason = None, k_submittedAt = Some 950000000002, k_reviewedAt = Some 950000000002,
     k_reviewedBy = Some ''SYSTEM_AUTO_APPROVE''\<rparr>"

text \<open>Funded wallets, nothing else.\<close>

definition funded :: db where
  "funded = emptyDb\<lparr>
     users := [userOf ''ada'' (Some ''hash''), userOf ''bob'' None],
     wallets := [walletFor ''wa'' ''ada'', walletFor ''wb'' ''bob'', walletFor ''wp'' ''pool''],
     systemWallets := [\<lparr>sw_type = PLATFORM_POOL, sw_walletId = ''wp''\<rparr>],
     kycs := [kycOf ''ada''],
     ledgerEntries := [fundedEntry ''f3'' ''wp'' 900000, fundedEntry ''f2'' ''wb'' 500000,
       fundedEntry ''f1'' ''wa'' 500000]\<rparr>"

definition circleOf :: "circleStatus \<Rightarrow> int \<Rightarrow> circle" where
  "circleOf st filled = \<lparr>c_id = ''c1'', c_name = ''Esusu'', c_adminId = ''ada'',
     c_contributionAmount = 100000, c_frequency = WEEKLY, c_durationCycles = 2, c_currentCycle = 1,
     c_maxSlots = 3, c_filledSlots = filled, c_visibility = VIS_PUBLIC, c_payoutLogic = SEQUENTIAL,
     c_status = st, c_initialContributionDeadline = None, c_verifiedAt = None\<rparr>"

definition memberOf :: "string \<Rightarrow> string \<Rightarrow> membershipStatus \<Rightarrow> int \<Rightarrow> membership" where
  "memberOf i u st p = \<lparr>m_id = i, m_circleId = ''c1'', m_userId = u, m_status = st,
     m_payoutPosition = Some p, m_collateralAmount = 10000, m_collateralReleased = False,
     m_completedCycles = 0, m_totalLatePayments = 0, m_totalPenaltiesPaid = 0, m_payoutLocked = False,
     m_circleJoinRestricted = False, m_joinedAt = Some 0, m_approvedAt = None, m_completedAt = None,
     m_defaultedAt = None\<rparr>"

definition reservedEntry :: "string \<Rightarrow> string \<Rightarrow> string \<Rightarrow> ledgerEntry" where
  "reservedEntry i w m = \<lparr>le_id = i, le_walletId = w, le_reference = ''COLL-RES-'' @ i,
     le_entryType = RESERVE, le_movementType = TRANSFER, le_bucketType = Some BT_ROSCA,
     le_amount = 10000, le_balanceBefore = 500000, le_balanceAfter = 500000,
     le_sourceType = ST_COLLATERAL_RESERVE, le_sourceId = m\<rparr>"

definition bucketOf :: "string \<Rightarrow> string \<Rightarrow> walletBucket" where
  "bucketOf w m = \<lparr>wb_walletId = w, wb_bucketType = BT_ROSCA, wb_sourceId = m,
     wb_reservedAmount = 10000\<rparr>"

definition scheduleOf :: "string \<Rightarrow> int \<Rightarrow> string \<Rightarrow> int \<Rightarrow> schedule" where
  "scheduleOf i n u due = \<lparr>cs_id = i, cs_circleId = ''c1'', cs_cycleNumber = n,
     cs_contributionDeadline = due, cs_payoutDate = due + 86400000, cs_status = SS_UPCOMING,
     cs_recipientId = Some u, cs_obsoletedAt = None\<rparr>"

definition contributionOf :: "string \<Rightarrow> string \<Rightarrow> string \<Rightarrow> int \<Rightarrow> contribution" where
  "contributionOf i m u n = \<lparr>co_id = i, co_circleId = ''c1'', co_membershipId = m, co_userId = u,
     co_cycleNumber = n, co_amount = 100000, co_penaltyAmount = 0, co_ledgerDebitId = None,
     co_transactionReference = None\<rparr>"

text \<open>
  A circle that takes members: \<open>ada\<close> is in it, \<open>bob\<close> may have applied; their collateral is held.
\<close>

definition drafting :: "membershipStatus \<Rightarrow> db" where
  "drafting st = funded\<lparr>
     circles := [circleOf CS_DRAFT (if st = MS_ACTIVE then 2 else 1)],
     memberships := [memberOf ''m1'' ''ada'' MS_ACTIVE 1, memberOf ''m2'' ''bob'' st 2],
     walletBuckets := [bucketOf ''wa'' ''m1'', bucketOf ''wb'' ''m2''],
     ledgerEntries := [reservedEntry ''f5'' ''wb'' ''m2'', reservedEntry ''f4'' ''wa'' ''m1'']
       @ ledgerEntries funded\<rparr>"

text \<open>The circle under way: both have paid the first cycle's contribution, which \<open>bob\<close> is to get.\<close>

definition running :: db where
  "running = (drafting MS_ACTIVE)\<lparr>
     circles := [circleOf CS_ACTIVE 2],
     schedules := [scheduleOf ''s1'' 1 ''bob'' 1000000500000, scheduleOf ''s2'' 2 ''ada'' 1000605300000],
     contributions := [contributionOf ''k1'' ''m1'' ''ada'' 1, contributionOf ''k2'' ''m2'' ''bob'' 1]\<rparr>"

text \<open>The fixture's ledger is well-formed.\<close>

lemmas fixture = env0_def env1_def userOf_def kycOf_def walletFor_def fundedEntry_def funded_def circleOf_def
  memberOf_def reservedEntry_def bucketOf_def scheduleOf_def contributionOf_def drafting_def
  running_def emptyDb_def

lemma funded_chained: "ledgerChained funded"
  by (auto simp: ledgerChained_def entriesOf_def fixture topBalance_def)

lemma drafting_chained: "ledgerChained (drafting st)"
  by (auto simp: ledgerChained_def entriesOf_def fixture topBalance_def)

lemma funded_unique: "ledgerUnique funded"
  by (simp add: ledgerUnique_def fixture le_key_def)

text \<open>The value and the state a successful operation returns.\<close>

definition valueOf :: "('a \<times> db) result \<Rightarrow> 'a" where
  "valueOf m = fst (projr m)"

definition stateOf :: "('a \<times> db) result \<Rightarrow> db" where
  "stateOf m = snd (projr m)"

lemma succeeds: "\<not> isl m \<Longrightarrow> m = Inr (valueOf m, stateOf m)"
  by (cases m) (simp_all add: valueOf_def stateOf_def)

lemma succeeds_db: "\<not> isl m \<Longrightarrow> m = Inr (projr m)"
  by (cases m) simp_all

lemma succeeds_pair: "\<not> isl (fst p) \<Longrightarrow> p = (Inr (projr (fst p)), snd p)"
  by (cases p; cases "fst p") auto

text \<open>What the simplifier needs to run an operation on a fixture.\<close>

lemma isl_updateTrustScore: "isl (updateTrustScore env uid ev s) \<longleftrightarrow> userById uid s = None"
  using updateTrustScore_Inr [of env uid ev s]
  by (cases "userById uid s"; cases "updateTrustScore env uid ev s") auto

lemma isl_bindE_const: "(\<And>x. \<not> isl (f x)) \<Longrightarrow> isl (bindE m f) \<longleftrightarrow> isl m"
  by (cases m) auto

lemmas lookups = circleById_def membershipOf_def currentSchedule_def systemWalletOf_def
  walletOfUser_def walletById_def userById_def updateMembership_def

lemmas writing = writeEntry_written available_def computeTotalBalance_def totalReserved_def writeKey_def
  le_key_def writtenState_def writtenEntry_def upsertBucket_def bucketMatches_def Let_def

end
