(* ===== verification/LedgerClaims.thy ===== *)
theory LedgerClaims
  imports Scenario
begin

text \<open>
  Properties of the ledger, the wallets, the buckets and the audit, each with a witness on the
  fixture of \<open>Scenario\<close>.
\<close>

definition debitAll :: entryParams where
  "debitAll = \<lparr>wp_walletId = ''wa'', wp_entryType = DEBIT, wp_movementType = TRANSFER,
     wp_bucketType = None, wp_amount = 500000, wp_reference = ''D1'', wp_sourceType = ST_TRANSACTION,
     wp_sourceId = ''d1''\<rparr>"

definition strayRelease :: entryParams where
  "strayRelease = \<lparr>wp_walletId = ''wa'', wp_entryType = RELEASE, wp_movementType = TRANSFER,
     wp_bucketType = Some BT_ROSCA, wp_amount = 7, wp_reference = ''R1'',
     wp_sourceType = ST_COLLATERAL_RELEASE, wp_sourceId = ''none''\<rparr>"

lemma debitAll_runs: "\<not> isl (writeEntry ''n1'' debitAll funded)"
  by (simp add: writing fixture debitAll_def)

lemma strayRelease_runs: "\<not> isl (writeEntry ''n1'' strayRelease funded)"
  by (simp add: writing fixture strayRelease_def)

text \<open>
  C3: \<open>writeEntry\<close> refines the abstract ledger: a write moves the balance of its own wallet by the
  signed amount and its reservation by the amount reserved or released, and nothing else; the entry
  it returns is the new head of the ledger and records the balance before and after.
\<close>

theorem writeEntry_refines:
  assumes "writeEntry i p s = Inr (e, s')"
  shows "computeTotalBalance s' w =
      computeTotalBalance s w + (if w = wp_walletId p then signedAmount (wp_entryType p) (wp_amount p) else 0) \<and>
    totalReserved s' w = totalReserved s w + (if w = wp_walletId p then reserveChange p s else 0) \<and>
    ledgerEntries s' = e # ledgerEntries s \<and>
    le_balanceBefore e = computeTotalBalance s (wp_walletId p) \<and>
    le_balanceAfter e = computeTotalBalance s' (wp_walletId p)"
  using assms writeEntry_total [OF assms] writeEntry_reserved [OF assms]
  by (auto simp: writeEntry_Inr_iff writtenState_def writtenEntry_def)

theorem writeEntry_refines_witness:
  "computeTotalBalance (stateOf (writeEntry ''n1'' debitAll funded)) ''wa'' =
   computeTotalBalance funded ''wa'' - 500000"
  using writeEntry_refines [OF succeeds [OF debitAll_runs], of "''wa''"] by (simp add: debitAll_def)

text \<open>
  \<open>writeEntry\<close> succeeds exactly when its guards hold, and refuses a debit or a reservation for
  lack of funds exactly when the earlier guards hold and the amount is not available.
\<close>

lemma writeEntry_insufficient_iff:
  "writeEntry i p s = Inl (BadRequest ''Insufficient available balance'') \<longleftrightarrow>
     wp_sourceId p \<noteq> '''' \<and> 0 < wp_amount p \<and> available s (wp_walletId p) < wp_amount p \<and>
     (wp_entryType p = DEBIT \<and> wp_bucketType p \<in> {None, Some BT_MAIN} \<or>
      wp_entryType p = RESERVE \<and> wp_bucketType p \<notin> {None, Some BT_MAIN})"
  unfolding writeEntry_written
  by (cases "wp_entryType p") (auto simp: bindE_Inl_iff ensure_Inl_iff ensure_Inr_iff split: if_splits)

text \<open>
  C4: no overdraft. A write keeps the available balance of every wallet from going below zero; the
  one exception is the release of a bucket that does not exist.
\<close>

theorem writeEntry_keeps_solvent:
  assumes "writeEntry i p s = Inr (e, s')" and "releaseFound p s" and "0 \<le> available s w"
  shows "0 \<le> available s' w"
  by (rule writeEntry_solvent [OF assms])

theorem writeEntry_keeps_solvent_witness:
  "0 \<le> available (stateOf (writeEntry ''n1'' debitAll funded)) ''wa''"
  by (rule writeEntry_keeps_solvent [OF succeeds [OF debitAll_runs]])
    (simp_all add: releaseFound_def debitAll_def available_def computeTotalBalance_def totalReserved_def fixture)

text \<open>
  The running total is the sum. On a ledger whose entries chain, a write keeps them chained, and
  the wallet's running total is its credits less its debits, so the ledger half of the audit passes.
\<close>

lemma writeEntry_keeps_total:
  assumes "writeEntry i p s = Inr (e, s')" and "ledgerChained s"
  shows "ledgerChained s' \<and> computeTotalBalance s' w = calculatedTotal w s' \<and>
    ir_ledgerValid (verifyWalletIntegrity w s')"
  using writeEntry_chained [OF assms] ledgerChained_calculated ledgerChained_audit
  by (auto simp: ledgerAuditPasses_def)

lemma writeEntry_keeps_total_witness:
  "ir_ledgerValid (verifyWalletIntegrity ''wa'' (stateOf (writeEntry ''n1'' debitAll funded)))"
  using writeEntry_keeps_total [OF succeeds [OF debitAll_runs] funded_chained] by blast

text \<open>
  The audit of the buckets drifts by a write only when a bucket is released that was never
  reserved, and then by twice the amount: the upsert creates that bucket with the amount released.
\<close>

lemma writeEntry_bucket_drift:
  assumes "writeEntry i p s = Inr (e, s')"
  shows "ir_bucketDrift (verifyWalletIntegrity w s') = ir_bucketDrift (verifyWalletIntegrity w s)
    - (if w = wp_walletId p \<and> wp_entryType p = RELEASE \<and> \<not> bucketExists p s then 2 * wp_amount p else 0)"
  using writeEntry_drift [OF assms, of w] by (auto simp: releaseFound_def)

lemma writeEntry_bucket_drift_witness:
  "ir_bucketDrift (verifyWalletIntegrity ''wa'' (stateOf (writeEntry ''n1'' strayRelease funded))) =
   ir_bucketDrift (verifyWalletIntegrity ''wa'' funded) - 14"
  using writeEntry_bucket_drift [OF succeeds [OF strayRelease_runs], of "''wa''"]
  by (simp add: strayRelease_def bucketExists_def fixture)

text \<open>
  Idempotency. Once an entry is written, no later operation that only posts to the ledger makes
  its key free again: writing the same wallet, reference and source a second time always fails.
\<close>

lemma writeEntry_once:
  assumes "writeEntry i p s = Inr (e, s1)" and "posts s1 ps s2" and "writeKey q = writeKey p"
  shows "isl (writeEntry j q s2)"
proof -
  have "e \<in> set (ledgerEntries s2)" and "le_key e = writeKey q"
    using writeEntry_creates [OF assms(1)] posts_keys_kept [OF assms(2)] assms(3) by auto
  then show ?thesis
    using writeEntry_taken_key by (metis image_eqI sum.disc(1))
qed

lemma writeEntry_once_witness:
  "isl (writeEntry ''n2'' debitAll (stateOf (writeEntry ''n1'' debitAll funded)))"
  using writeEntry_once [OF succeeds [OF debitAll_runs] posts.finished] by blast

text \<open>
  Reserving funds and releasing them again under another reference leaves every wallet's available
  balance and reservations as they were; under the reference of the reservation itself the release is
  refused.
\<close>

lemma reserve_then_release:
  assumes "reserveFunds env b s = Inr s1"
  shows "isl (releaseFunds env' b s1) \<and>
    (releaseFunds env' (b\<lparr>bp_reference := r\<rparr>) s1 = Inr s2 \<longrightarrow>
      available s2 w = available s w \<and> totalReserved s2 w = totalReserved s w)"
  using release_same_reference [OF assms] reserve_release [OF assms] by auto

definition saving :: bucketParams where
  "saving = \<lparr>bp_walletId = ''wa'', bp_bucketType = BT_TARGET, bp_sourceId = ''goal'',
     bp_amount = 300, bp_reference = ''SAVE''\<rparr>"

lemma saving_runs:
  "\<not> isl (reserveFunds env0 saving funded)"
  "\<not> isl (releaseFunds env1 (saving\<lparr>bp_reference := ''BACK''\<rparr>) (projr (reserveFunds env0 saving funded)))"
  by (simp_all add: reserveFunds_def releaseFunds_def bucketEntry_def saving_def writing fixture)

lemma reserve_then_release_witness:
  "available (projr (releaseFunds env1 (saving\<lparr>bp_reference := ''BACK''\<rparr>)
     (projr (reserveFunds env0 saving funded)))) ''wa'' = available funded ''wa''"
  using reserve_then_release [OF succeeds_db [OF saving_runs(1)]] succeeds_db [OF saving_runs(2)]
  by blast

text \<open>
  The reversal of a credit or debit takes its effect back, from its own wallet only, and can be
  made once: a second reversal of the same entry is refused.
\<close>

lemma reversal_takes_back:
  assumes "createReversalEntry i eid s = Inr (r, s')"
    and "findFirst (\<lambda>e. le_id e = eid) (ledgerEntries s) = Some original" and "entryShaped original"
  shows "computeTotalBalance s' w = computeTotalBalance s w
      - (if w = le_walletId original
         then signedAmount (le_entryType original) (le_amount original) else 0) \<and>
    isl (createReversalEntry j eid s')"
  using createReversalEntry_total [OF assms, of w] createReversalEntry_once [OF assms(1), of j] by auto

lemma reversal_runs: "\<not> isl (createReversalEntry ''n1'' ''f1'' funded)"
  by (simp add: createReversalEntry_def writing fixture)

lemma reversal_takes_back_witness:
  "computeTotalBalance (stateOf (createReversalEntry ''n1'' ''f1'' funded)) ''wa'' = 0"
  using reversal_takes_back [OF succeeds [OF reversal_runs], of "fundedEntry ''f1'' ''wa'' 500000" "''wa''"]
  by (simp add: fixture entryShaped_def computeTotalBalance_def)

end
