(* ===== verification/PaymentClaims.thy ===== *)
theory PaymentClaims
  imports Scenario
begin

text \<open>
  Properties of the payments: settlements, withdrawals and the provider's webhooks, each with a
  witness on the fixture of \<open>Scenario\<close>.
\<close>

section \<open>The fixture\<close>

definition pendingFunding :: transactionRow where
  "pendingFunding = \<lparr>t_id = ''t1'', t_walletId = ''wa'', t_provider = ''FLUTTERWAVE'',
     t_reference = ''AJT-1'', t_amount = 25000, t_currency = ''NGN'', t_status = TS_PENDING,
     t_type = TT_FUNDING, t_metadata = None, t_completedAt = None, t_createdAt = 999999000000\<rparr>"

definition paying :: db where
  "paying = funded\<lparr>transactions := [pendingFunding]\<rparr>"

definition settlement1 :: settlementParams where
  "settlement1 = \<lparr>sp_reference = ''AJT-1'', sp_providerId = ''flw-9'', sp_receivedAmountNaira = 250,
     sp_providerName = ''FLUTTERWAVE''\<rparr>"

definition dto1 :: withdrawalDto where
  "dto1 = \<lparr>wd_amount = 20000, wd_bankCode = ''044'', wd_accountNumber = ''0690000031'',
     wd_accountName = ''Ada A'', wd_bankName = ''Access'', wd_narration = None,
     wd_transactionPin = ''1234''\<rparr>"

definition refusing :: transferProvider where
  "refusing p = Inl ''timeout''"

definition started :: "((wallet \<times> transactionRow) \<times> db) result" where
  "started = startWithdrawal env0 (\<lambda>_ _. True) ''ada'' dto1 funded"

definition report1 :: "string \<Rightarrow> transferData" where
  "report1 st = \<lparr>tf_id = 7, tf_reference = ''WITHDRAWAL-r'', tf_status = st, tf_complete_message = ''done''\<rparr>"

definition charge1 :: chargeData where
  "charge1 = \<lparr>ch_id = 9, ch_tx_ref = ''AJT-1'', ch_flw_ref = Some ''flw-9'', ch_amount = 250,
     ch_status = ''successful'', ch_payment_type = Some ''card''\<rparr>"

definition verifier1 :: chargeVerifier where
  "verifier1 i r = Inr \<lparr>pv_id = i, pv_tx_ref = r, pv_flw_ref = None, pv_amount = 250,
     pv_charged_amount = 250, pv_currency = ''NGN'', pv_status = ''successful'',
     pv_payment_type = Some ''card''\<rparr>"

definition unreachableVerifier :: chargeVerifier where
  "unreachableVerifier i r = Inl ''network''"

lemmas payment_fixture = pendingFunding_def paying_def settlement1_def dto1_def refusing_def
  report1_def charge1_def verifier1_def

lemma funded_payable: "transactionsUnique funded" "amountsOk funded" "freshWithdrawal env0 funded"
  by (simp_all add: transactionsUnique_def amountsOk_def freshWithdrawal_def fixture)

lemma paying_ok: "transactionsUnique paying" "amountsOk paying" "verifierOk verifier1"
  by (simp_all add: transactionsUnique_def amountsOk_def verifierOk_def payment_fixture fixture)

section \<open>Settlements\<close>

text \<open>
  C5: settling a payment credits the transaction's own wallet once, with at least the expected amount
  and only while the transaction is pending; every other outcome moves no money; a transaction that
  has reached a final status keeps its row; and a second notification of the provider with the same
  identifier is recognised as a duplicate and changes nothing.
\<close>

theorem settlement_credits_once:
  assumes "finalizeSettlement env p s = (r, s')" and "transactionsUnique s"
  shows "(case r of
      Inr (Settled amount over) \<Rightarrow>
        (\<exists>t. transactionByReference (sp_reference p) s = Some t \<and> t_status t = TS_PENDING \<and>
            t_amount t \<le> amount \<and> posts s [creditOf (t_walletId t) amount] s')
    | _ \<Rightarrow> sameLedger s s') \<and>
    (finalKept s s' \<and> transactionsUnique s') \<and>
    (\<not> isl r \<and> sp_providerId q = sp_providerId p \<longrightarrow>
      finalizeSettlement env' q s' = (Inr Duplicate, s'))"
proof (intro conjI impI)
  show "finalKept s s'" "transactionsUnique s'"
    using finalizeSettlement_final [OF assms] by simp_all
  show "case r of
      Inr (Settled amount over) \<Rightarrow>
        (\<exists>t. transactionByReference (sp_reference p) s = Some t \<and> t_status t = TS_PENDING \<and>
            t_amount t \<le> amount \<and> posts s [creditOf (t_walletId t) amount] s')
    | _ \<Rightarrow> sameLedger s s'"
    by (rule finalizeSettlement_posts [OF assms(1)])
  assume "\<not> isl r \<and> sp_providerId q = sp_providerId p"
  then show "finalizeSettlement env' q s' = (Inr Duplicate, s')"
    using assms(1) finalizeSettlement_repeated by (cases r) auto
qed

lemma settlement_runs: "\<not> isl (fst (finalizeSettlement env0 settlement1 paying))"
  by code_simp

theorem settlement_credits_once_witness:
  "finalizeSettlement env1 settlement1 (snd (finalizeSettlement env0 settlement1 paying)) =
   (Inr Duplicate, snd (finalizeSettlement env0 settlement1 paying))"
  using settlement_credits_once [OF surjective_pairing paying_ok(1)] settlement_runs by blast

section \<open>Withdrawals\<close>

text \<open>
  C6: once the checks have passed and the balance has been debited, a withdrawal ends in one of two
  ways: the provider accepts and the debit stands with the transaction pending, or it refuses and the
  debited amount is credited back, the transaction is marked failed and the caller gets an error. The
  amount was available, at least the minimum and within the limit of the user's KYC level.
\<close>

theorem withdrawal_outcome:
  assumes "startWithdrawal env verifyHash uid dto s = Inr ((w, t), s1)"
    and "ledgerChained s" and "transactionsUnique s" and "freshWithdrawal env s"
    and "initializeWithdrawal env verifyHash transfer uid dto s = (r, s')"
  shows "wd_amount dto = of_int (t_amount t) \<and> 10000 \<le> t_amount t \<and>
      t_amount t \<le> getSingleLimitKobo (kycLevelOf uid s) \<and> t_amount t \<le> available s (w_id w) \<and>
    (if refused transfer dto t
    then r = Inl (InternalServerError ''Withdrawal failed. Your balance has been restored.'') \<and>
         posts s [debitOf (w_id w) (t_amount t), creditOf (w_id w) (t_amount t)] s' \<and>
         map_option t_status (transactionByReference (t_reference t) s') = Some TS_FAILED
    else isl r = False \<and> posts s [debitOf (w_id w) (t_amount t)] s' \<and>
         map_option t_status (transactionByReference (t_reference t) s') = Some TS_PENDING)"
  using startWithdrawal_posts [OF assms(1,2)] initializeWithdrawal_outcome [OF assms] by simp

lemma started_ok: "\<not> isl started"
  by code_simp

lemma started_Inr:
  "startWithdrawal env0 (\<lambda>_ _. True) ''ada'' dto1 funded =
     Inr ((fst (valueOf started), snd (valueOf started)), stateOf started)"
  using succeeds [OF started_ok] by (simp add: started_def)

lemma started_reference: "t_reference (snd (valueOf started)) = ''WITHDRAWAL-r''"
  by code_simp

lemma started_refused: "refused refusing dto1 t"
  by (simp add: refused_def refusing_def)

theorem withdrawal_outcome_witness:
  "fst (initializeWithdrawal env0 (\<lambda>_ _. True) refusing ''ada'' dto1 funded) =
   Inl (InternalServerError ''Withdrawal failed. Your balance has been restored.'')"
  using withdrawal_outcome [OF started_Inr funded_chained funded_payable(1,3) surjective_pairing,
      where transfer = refusing] started_refused
  by simp

text \<open>
  When the provider's report of the failed transfer arrives before its answer to the request, the
  report restores the balance, and whatever the answer is, it restores nothing a second time.
\<close>

lemma report_before_answer:
  assumes "startWithdrawal env verifyHash uid dto s = Inr ((w, t), s1)"
    and "ledgerChained s" and "transactionsUnique s" and "amountsOk s"
    and "handleTransferCompleted env2 data s1 = (Inr u, s2)" and "tf_reference data = t_reference t"
    and "tf_status data \<noteq> ''SUCCESSFUL''"
  shows "posts s [debitOf (w_id w) (t_amount t), creditOf (w_id w) (t_amount t)] s2 \<and>
    sameLedger s2 (snd (finishWithdrawal env3 transfer dto w t s2))"
  by (rule failedTransfer_then_answer [OF assms])

lemma report_runs: "\<not> isl (fst (handleTransferCompleted env1 (report1 ''FAILED'') (stateOf started)))"
  by code_simp

lemma report_before_answer_witness:
  "sameLedger (snd (handleTransferCompleted env1 (report1 ''FAILED'') (stateOf started)))
     (snd (finishWithdrawal env0 refusing dto1 (fst (valueOf started)) (snd (valueOf started))
       (snd (handleTransferCompleted env1 (report1 ''FAILED'') (stateOf started)))))"
proof -
  have "tf_reference (report1 ''FAILED'') = t_reference (snd (valueOf started))"
    by (simp add: started_reference report1_def)
  moreover have "tf_status (report1 ''FAILED'') \<noteq> ''SUCCESSFUL''"
    by (simp add: report1_def)
  ultimately show ?thesis
    using report_before_answer [OF started_Inr funded_chained funded_payable(1,2)
        succeeds_pair [OF report_runs]] by blast
qed

text \<open>
  A withdrawal the provider refused (a timeout counts as a refusal) stays refused: the balance
  has been restored, and a later report that the transfer went through after all is accepted without
  an error and ignored.
\<close>

lemma late_success_ignored:
  assumes "startWithdrawal env verifyHash uid dto s = Inr ((w, t), s1)"
    and "ledgerChained s" and "transactionsUnique s" and "freshWithdrawal env s"
    and "refused transfer dto t"
    and "initializeWithdrawal env verifyHash transfer uid dto s = (r, s2)"
    and "tf_reference data = t_reference t"
  shows "posts s [debitOf (w_id w) (t_amount t), creditOf (w_id w) (t_amount t)] s2 \<and>
    handleTransferCompleted env2 data s2 = (Inr (), s2)"
  using refusal_then_transfer [OF assms] initializeWithdrawal_outcome [OF assms(1-4,6)] assms(5) by simp

lemma late_success_ignored_witness:
  "handleTransferCompleted env1 (report1 ''SUCCESSFUL'')
     (snd (initializeWithdrawal env0 (\<lambda>_ _. True) refusing ''ada'' dto1 funded)) =
   (Inr (), snd (initializeWithdrawal env0 (\<lambda>_ _. True) refusing ''ada'' dto1 funded))"
proof -
  have "tf_reference (report1 ''SUCCESSFUL'') = t_reference (snd (valueOf started))"
    by (simp add: started_reference report1_def)
  then show ?thesis
    using late_success_ignored [OF started_Inr funded_chained funded_payable(1,3) started_refused
        surjective_pairing] by blast
qed

section \<open>Webhooks\<close>

text \<open>
  C11: a webhook whose handling throws leaves no trace, so the provider's retry is handled afresh; one
  that was handled is recorded, and every later delivery of the same event is acknowledged and changes
  nothing.
\<close>

theorem webhook_at_most_once:
  assumes "handleWebhook env sig verify payload hdr s = (r, s')"
    and "transactionsUnique s" and "amountsOk s" and "verifierOk verify"
  shows "if isl r then s' = s
    else extractEventId payload' = extractEventId payload \<and> sig hdr' \<longrightarrow>
      handleWebhook env' sig verify' payload' hdr' s' = (Inr (), s')"
proof (cases "isl r")
  case True
  then show ?thesis
    using assms(1) handleWebhook_error by (cases r) auto
next
  case False
  then show ?thesis
    using assms handleWebhook_repeated [of env sig verify payload hdr s _ s']
    by (cases r) auto
qed

lemma webhook_runs:
  "\<not> isl (fst (handleWebhook env0 (\<lambda>_. True) verifier1 (ChargeCompleted charge1 None) ''h'' paying))"
  by code_simp

theorem webhook_at_most_once_witness:
  "handleWebhook env1 (\<lambda>_. True) unreachableVerifier (ChargeCompleted charge1 None) ''h''
     (snd (handleWebhook env0 (\<lambda>_. True) verifier1 (ChargeCompleted charge1 None) ''h'' paying)) =
   (Inr (), snd (handleWebhook env0 (\<lambda>_. True) verifier1 (ChargeCompleted charge1 None) ''h'' paying))"
  using webhook_at_most_once [OF surjective_pairing paying_ok] webhook_runs by (metis (full_types))

text \<open>
  Whatever a webhook says, it moves money at most once and only as a credit of one wallet; no
  balance falls, transactions keep unique references, and those with a final status keep their rows.
\<close>

lemma webhook_credits_at_most_once:
  assumes "handleWebhook env sig verify payload hdr s = (r, s')" and "transactionsUnique s"
    and "amountsOk s" and "verifierOk verify"
  shows "(\<exists>w a. 0 \<le> a \<and> (\<forall>v. computeTotalBalance s' v = computeTotalBalance s v + (if v = w then a else 0)) \<and>
      (\<forall>v. totalReserved s' v = totalReserved s v)) \<and>
    finalKept s s' \<and> transactionsUnique s' \<and> amountsOk s'"
proof -
  note e = handleWebhook_effect [OF assms]
  have "\<exists>w a. 0 \<le> a \<and> (\<forall>v. computeTotalBalance s' v = computeTotalBalance s v + (if v = w then a else 0)) \<and>
      (\<forall>v. totalReserved s' v = totalReserved s v)"
  proof (cases "posts s [] s'")
    case True
    then show ?thesis
      by (intro exI [of _ "0::int"] exI) (auto simp: posts_total posts_reserved)
  next
    case False
    then obtain w a where "0 \<le> a" and p: "posts s [creditOf w a] s'" using e by blast
    then show ?thesis
      using posts_total [OF p] posts_reserved [OF p] by (intro exI [of _ w] exI [of _ a]) auto
  qed
  then show ?thesis using e by blast
qed

lemma webhook_credits_at_most_once_witness:
  "finalKept paying
     (snd (handleWebhook env0 (\<lambda>_. True) verifier1 (ChargeCompleted charge1 None) ''h'' paying))"
  using webhook_credits_at_most_once [OF surjective_pairing paying_ok] by blast

end
