(* ===== verification/Funding.thy ===== *)
theory Funding
  imports Withdrawal Webhooks Wallet
begin

text \<open>
  \<^verbatim>\<open>src/modules/funding/\<close>: the service that opens a hosted checkout, and the scheduler that asks the
  provider about payments that stay pending, on request of the user or an administrator or from its
  queue.  The provider is a parameter: \<open>paymentProvider\<close> opens a checkout, \<open>paymentVerifier\<close> looks up
  a payment by its reference; \<open>Inl\<close> is a call that throws.  The row a job works on is read before the
  provider is asked, so it is an argument of its own and may be older than the state.  The recovery of a
  lost database connection is not modelled.
\<close>

section \<open>The provider's answers\<close>

datatype errorCode = CodeString string | CodeNumber rat

record errorBody =
  eb_message :: "string option"
  eb_code :: "errorCode option"
  eb_response_code :: "errorCode option"
  eb_data :: "(string option \<times> errorCode option) option"

datatype thrown = AxiosFailure "errorBody option" string | OtherFailure string | NotAnError

record checkoutResponse =
  cr_status :: string
  cr_message :: "string option"
  cr_link :: "string option"

record checkoutPayload =
  cp_tx_ref :: string
  cp_amount :: rat
  cp_currency :: string
  cp_redirect_url :: string
  cp_email :: string
  cp_name :: "string option"

record verifyResponse =
  vf_status :: string
  vf_message :: "string option"
  vf_data :: "providerTx option"

type_synonym paymentProvider = "checkoutPayload \<Rightarrow> string + checkoutResponse"
type_synonym paymentVerifier = "string \<Rightarrow> thrown + verifyResponse"

text \<open>\<^verbatim>\<open>x || y\<close> of optional strings: an empty one counts as missing.\<close>

definition orString :: "string option \<Rightarrow> string option \<Rightarrow> string option" where
  "orString x y = (case x of Some v \<Rightarrow> if v = '''' then y else x | None \<Rightarrow> y)"

definition extractProviderError :: "thrown \<Rightarrow> string \<times> errorCode option" where
  "extractProviderError e =
     (case e of
        NotAnError \<Rightarrow> (''Provider verification failed'', None)
      | OtherFailure message \<Rightarrow> (message, None)
      | AxiosFailure body message \<Rightarrow>
          let nested = (case body of None \<Rightarrow> None | Some b \<Rightarrow> eb_data b);
              code = (case body of
                        None \<Rightarrow> None
                      | Some b \<Rightarrow>
                          orElse (orElse (case nested of None \<Rightarrow> None | Some d \<Rightarrow> snd d) (eb_code b))
                            (eb_response_code b));
              m = orString (case body of None \<Rightarrow> None | Some b \<Rightarrow> eb_message b)
                    (orString (case nested of None \<Rightarrow> None | Some d \<Rightarrow> fst d)
                       (orString (Some message) (Some ''Provider verification failed'')))
          in (case m of None \<Rightarrow> '''' | Some v \<Rightarrow> v, code))"

section \<open>The queue\<close>

definition INITIAL_DELAY_MS :: int where "INITIAL_DELAY_MS = 5 * 60 * 1000"
definition RETRY_DELAY_MS :: int where "RETRY_DELAY_MS = 10 * 60 * 1000"
definition MAX_BACKGROUND_RETRY_WINDOW_MS :: int where
  "MAX_BACKGROUND_RETRY_WINDOW_MS = 3 * 60 * 60 * 1000"
definition STARTUP_CATCH_UP_BATCH_SIZE :: nat where "STARTUP_CATCH_UP_BATCH_SIZE = 100"
definition MISSING_PROVIDER_RECORD_FAIL_AFTER_MS :: int where
  "MISSING_PROVIDER_RECORD_FAIL_AFTER_MS = 30 * 60 * 1000"

text \<open>A job is keyed by its reference; one that is already queued is not added again.\<close>

definition scheduleVerification :: "env \<Rightarrow> string \<Rightarrow> int option \<Rightarrow> db \<Rightarrow> db" where
  "scheduleVerification env reference delayMs s =
     (let ref = trim reference
      in if ref = '''' \<or> list_ex (\<lambda>j. fj_reference j = ref) (fundingQueue s) then s
         else s\<lparr>fundingQueue := fundingQueue s @
                [\<lparr>fj_reference = ref,
                  fj_runAt = now env + (case delayMs of None \<Rightarrow> INITIAL_DELAY_MS | Some d \<Rightarrow> d)\<rparr>]\<rparr>)"

definition scheduleInitialVerification :: "env \<Rightarrow> string \<Rightarrow> db \<Rightarrow> db" where
  "scheduleInitialVerification env reference s =
     scheduleVerification env reference (Some INITIAL_DELAY_MS) s"

definition computeInitialDelay :: "env \<Rightarrow> int \<Rightarrow> int" where
  "computeInitialDelay env createdAt =
     (let ageMs = now env - createdAt
      in if INITIAL_DELAY_MS \<le> ageMs then 0 else INITIAL_DELAY_MS - ageMs)"

definition shouldStopAutomaticRetries :: "env \<Rightarrow> int \<Rightarrow> bool" where
  "shouldStopAutomaticRetries env createdAt \<longleftrightarrow> MAX_BACKGROUND_RETRY_WINDOW_MS \<le> now env - createdAt"

definition shouldFailMissingProviderRecord :: "env \<Rightarrow> int \<Rightarrow> string \<Rightarrow> bool" where
  "shouldFailMissingProviderRecord env createdAt errorMessage \<longleftrightarrow>
     (let m = toLowerCase errorMessage;
          isMissingRecord = (jsIncludes ''no transaction'' m \<or> jsIncludes ''not found'' m \<or>
                             jsIncludes ''does not exist'' m);
          isOldEnough = (MISSING_PROVIDER_RECORD_FAIL_AFTER_MS \<le> now env - createdAt)
      in isMissingRecord \<and> isOldEnough)"

definition fetchPendingFundingTransactions :: "db \<Rightarrow> transactionRow list" where
  "fetchPendingFundingTransactions s =
     take STARTUP_CATCH_UP_BATCH_SIZE (sort_key t_createdAt
       (filter (\<lambda>t. t_type t = TT_FUNDING \<and> t_status t = TS_PENDING) (transactions s)))"

definition enqueueStartupCatchUpJobs :: "env \<Rightarrow> db \<Rightarrow> db" where
  "enqueueStartupCatchUpJobs env s =
     fold (\<lambda>t. scheduleVerification env (t_reference t) (Some (computeInitialDelay env (t_createdAt t))))
       (fetchPendingFundingTransactions s) s"

section \<open>Reconciling one payment\<close>

datatype reconcileSource = RECONCILIATION_JOB | MANUAL | USER_VERIFY

record reconcileContext =
  rc_source :: reconcileSource
  rc_actorId :: "string option"

datatype reconcileOutcome =
  RO_SETTLED | RO_ALREADY_PROCESSED | RO_NOT_FOUND | RO_STILL_PENDING | RO_MARKED_FAILED
| RO_PROVIDER_ERROR | RO_PROVIDER_NON_SUCCESS | RO_VERIFICATION_MISMATCH

record reconcileResult =
  rr_reference :: string
  rr_outcome :: reconcileOutcome
  rr_reconciledAt :: int
  rr_transactionId :: "string option"
  rr_transactionStatus :: "transactionStatus option"
  rr_transactionType :: "transactionType option"
  rr_providerStatus :: "string option"
  rr_paymentType :: "string option"
  rr_amountKobo :: "int option"
  rr_reason :: "string option"
  rr_providerMessage :: "string option"
  rr_providerErrorCode :: "errorCode option"

definition resultOf :: "env \<Rightarrow> string \<Rightarrow> reconcileOutcome \<Rightarrow> reconcileResult" where
  "resultOf env ref outcome =
     \<lparr>rr_reference = ref, rr_outcome = outcome, rr_reconciledAt = now env, rr_transactionId = None,
      rr_transactionStatus = None, rr_transactionType = None, rr_providerStatus = None,
      rr_paymentType = None, rr_amountKobo = None, rr_reason = None, rr_providerMessage = None,
      rr_providerErrorCode = None\<rparr>"

definition resultFor ::
  "env \<Rightarrow> transactionRow \<Rightarrow> reconcileOutcome \<Rightarrow> transactionStatus \<Rightarrow> string \<Rightarrow> reconcileResult" where
  "resultFor env current outcome status reason =
     (resultOf env (t_reference current) outcome)\<lparr>rr_transactionId := Some (t_id current),
        rr_transactionStatus := Some status, rr_transactionType := Some (t_type current),
        rr_reason := Some reason\<rparr>"

definition withPayment :: "providerTx \<Rightarrow> reconcileResult \<Rightarrow> reconcileResult" where
  "withPayment p r = r\<lparr>rr_providerStatus := Some (pv_status p),
     rr_paymentType := Some (case pv_payment_type p of None \<Rightarrow> ''unknown'' | Some t \<Rightarrow> t)\<rparr>"

definition nullable :: "string option \<Rightarrow> json" where
  "nullable x = (case x of None \<Rightarrow> JNull | Some v \<Rightarrow> JStr v)"

definition buildContextMetadata :: "reconcileContext \<Rightarrow> int \<Rightarrow> jobject" where
  "buildContextMetadata context reconciledAt =
     (case rc_source context of
        MANUAL \<Rightarrow> [(''manualReconciledBy'', nullable (rc_actorId context)),
                   (''manualReconciledAt'', JDate reconciledAt)]
      | USER_VERIFY \<Rightarrow> [(''verifiedByUserId'', nullable (rc_actorId context)),
                        (''userVerifiedAt'', JDate reconciledAt)]
      | RECONCILIATION_JOB \<Rightarrow> [(''reconciledByJobAt'', JDate reconciledAt)])"

definition markFailed :: "env \<Rightarrow> string \<Rightarrow> string \<Rightarrow> reconcileContext \<Rightarrow> db \<Rightarrow> db result" where
  "markFailed env transactionId reason context s =
     (case transactionById transactionId s of
        None \<Rightarrow> Inr s
      | Some current \<Rightarrow>
          if t_status current \<noteq> TS_PENDING then Inr s
          else updateTransaction transactionId
            (\<lambda>t. t\<lparr>t_status := TS_FAILED, t_completedAt := Some (now env),
                   t_metadata := Some (spread (asObject (t_metadata current))
                     ([(''reconciliationFailureReason'', JStr reason), (''failedAt'', JDate (now env))]
                      @ buildContextMetadata context (now env)))\<rparr>) s)"

definition settleFundingTx ::
  "env \<Rightarrow> string \<Rightarrow> providerTx \<Rightarrow> string \<Rightarrow> transactionType \<Rightarrow> reconcileContext \<Rightarrow> db
   \<Rightarrow> (unit \<times> db) result" where
  "settleFundingTx env transactionId p fundingMethodLabel fundingTransactionType context s =
     (let paidAmountKobo = toKobo (pv_amount p);
          contextMetadata = buildContextMetadata context (now env)
      in case transactionById transactionId s of
           None \<Rightarrow> Inr ((), s)
         | Some current \<Rightarrow>
             if t_status current \<noteq> TS_PENDING then Inr ((), s)
             else
               let fundingReference = fundingMethodLabel @ ''-'' @ t_id current
               in
               bindE (createLedgerEntry
                 (rawCredit (rnd env 0) (t_walletId current) fundingReference FUNDING paidAmountKobo
                    ST_TRANSACTION (t_id current) s) s) (\<lambda>s1.
               bindE (updateTransaction (t_id current)
                 (\<lambda>t. t\<lparr>t_type := fundingTransactionType, t_status := TS_SUCCESS,
                        t_completedAt := Some (now env),
                        t_metadata := Some (spread (asObject (t_metadata current))
                          ([(''flwTransactionId'', JNum (of_int (pv_id p)))]
                           @ optProp ''flwRef'' JStr (pv_flw_ref p)
                           @ [(''verifiedPaymentType'', nullable (pv_payment_type p)),
                              (''chargedAmount'', JNum (pv_charged_amount p)),
                              (''verifiedAmountKobo'', JBig paidAmountKobo),
                              (''fundingMethodLabel'', JStr fundingMethodLabel),
                              (''fundingLedgerReference'', JStr fundingReference)]
                           @ contextMetadata))\<rparr>) s1) (\<lambda>s2.
               Inr ((), s2))))"

definition settleSuccessfulFunding ::
  "env \<Rightarrow> string \<Rightarrow> providerTx \<Rightarrow> string \<Rightarrow> transactionType \<Rightarrow> reconcileContext \<Rightarrow> db
   \<Rightarrow> unit result \<times> db" where
  "settleSuccessfulFunding env transactionId p label type context s =
     transaction (settleFundingTx env transactionId p label type context) s"

text \<open>An outcome that marks the transaction as failed.\<close>

definition failing :: "env \<Rightarrow> transactionRow \<Rightarrow> string \<Rightarrow> reconcileContext \<Rightarrow> reconcileResult \<Rightarrow> db
  \<Rightarrow> reconcileResult result \<times> db" where
  "failing env current reason context answer s =
     (case markFailed env (t_id current) reason context s of
        Inl e \<Rightarrow> (Inl e, s)
      | Inr s1 \<Rightarrow> (Inr answer, s1))"

definition reconcilePayment ::
  "env \<Rightarrow> string option \<Rightarrow> providerTx \<Rightarrow> transactionRow \<Rightarrow> reconcileContext \<Rightarrow> db
   \<Rightarrow> reconcileResult result \<times> db" where
  "reconcilePayment env message p current context s =
     (let paidAmountKobo = toKobo (pv_amount p);
          label = resolveFundingMethodLabel (pv_payment_type p);
          type = resolveFundingTransactionType (pv_payment_type p);
          paid = (\<lambda>r. (withPayment p r)\<lparr>rr_amountKobo := Some paidAmountKobo\<rparr>)
      in
      if pv_status p = ''successful'' then
        if paidAmountKobo < t_amount current
        then failing env current
               (''Underpayment: expected '' @ showInt (t_amount current) @ '' kobo, got '' @
                showInt paidAmountKobo @ '' kobo'') context
               (paid (resultFor env current RO_MARKED_FAILED TS_FAILED ''underpayment'')) s
        else case settleSuccessfulFunding env (t_id current) p label type context s of
               (Inl e, s1) \<Rightarrow> (Inl e, s1)
             | (Inr _, s1) \<Rightarrow>
                 (Inr (paid ((resultOf env (t_reference current) RO_SETTLED)
                    \<lparr>rr_transactionId := Some (t_id current), rr_transactionStatus := Some TS_SUCCESS,
                     rr_transactionType := Some type\<rparr>)), s1)
      else if pv_status p = ''failed'' then
        failing env current ''Provider marked transaction as failed'' context
          (paid (resultFor env current RO_MARKED_FAILED TS_FAILED ''provider_status_failed'')) s
      else (Inr ((paid (resultFor env current RO_STILL_PENDING (t_status current)
                   ''provider_status_pending''))\<lparr>rr_providerMessage := message\<rparr>), s))"

definition reconcilePendingTransaction ::
  "env \<Rightarrow> paymentVerifier \<Rightarrow> transactionRow \<Rightarrow> reconcileContext \<Rightarrow> db \<Rightarrow> reconcileResult result \<times> db" where
  "reconcilePendingTransaction env verify current context s =
     (case verify (t_reference current) of
        Inl error \<Rightarrow>
          let (message, code) = extractProviderError error;
              told = (\<lambda>r. r\<lparr>rr_providerMessage := Some message, rr_providerErrorCode := code\<rparr>)
          in if shouldFailMissingProviderRecord env (t_createdAt current) message
             then failing env current
                    (''Provider has no transaction record for ref='' @ t_reference current @
                     '' after timeout'') context
                    (told (resultFor env current RO_MARKED_FAILED TS_FAILED
                       ''provider_record_missing_timeout'')) s
             else (Inr (told (resultFor env current RO_PROVIDER_ERROR (t_status current)
                     ''provider_verification_unavailable'')), s)
      | Inr answer \<Rightarrow>
          let nonSuccess = (resultFor env current RO_PROVIDER_NON_SUCCESS (t_status current)
                 ''provider_non_success_response'')\<lparr>rr_providerMessage := vf_message answer\<rparr>
          in if vf_status answer \<noteq> ''success'' then (Inr nonSuccess, s)
             else case vf_data answer of
                    None \<Rightarrow> (Inr nonSuccess, s)
                  | Some p \<Rightarrow>
                      if pv_tx_ref p \<noteq> t_reference current
                      then (Inr ((withPayment p (resultFor env current RO_VERIFICATION_MISMATCH
                              (t_status current) (''tx_ref_mismatch_db_'' @ t_reference current @
                                 ''_provider_'' @ pv_tx_ref p)))
                              \<lparr>rr_providerMessage := vf_message answer\<rparr>), s)
                      else if pv_currency p \<noteq> ''NGN''
                      then failing env current (''Unexpected currency: '' @ pv_currency p) context
                             (withPayment p (resultFor env current RO_MARKED_FAILED TS_FAILED
                                (''currency_mismatch_'' @ pv_currency p))) s
                      else reconcilePayment env (vf_message answer) p current context s)"

definition reconcileByReference ::
  "env \<Rightarrow> paymentVerifier \<Rightarrow> string \<Rightarrow> string \<Rightarrow> reconcileSource \<Rightarrow> db
   \<Rightarrow> reconcileResult result \<times> db" where
  "reconcileByReference env verify reference actorId source s =
     (let ref = trim reference
      in case transactionByReference ref s of
           None \<Rightarrow> (Inr (resultOf env ref RO_NOT_FOUND), s)
         | Some current \<Rightarrow>
             if t_status current \<noteq> TS_PENDING
             then (Inr ((resultOf env ref RO_ALREADY_PROCESSED)
                     \<lparr>rr_transactionId := Some (t_id current),
                      rr_transactionStatus := Some (t_status current),
                      rr_transactionType := Some (t_type current)\<rparr>), s)
             else reconcilePendingTransaction env verify current
                    \<lparr>rc_source = source, rc_actorId = Some actorId\<rparr> s)"

section \<open>The queue's worker\<close>

definition getBackgroundRetryCount :: "jobject option \<Rightarrow> rat" where
  "getBackgroundRetryCount metadata =
     (case findFirst (\<lambda>p. fst p = ''backgroundJobRetryCount'') (asObject metadata) of
        Some (_, JNum n) \<Rightarrow> n
      | _ \<Rightarrow> 0)"

definition updatePendingMetadata :: "string \<Rightarrow> jobject option \<Rightarrow> jobject \<Rightarrow> db \<Rightarrow> db" where
  "updatePendingMetadata transactionId currentMetadata data s =
     s\<lparr>transactions := map (\<lambda>t. if t_id t = transactionId \<and> t_status t = TS_PENDING
          then t\<lparr>t_metadata := Some (spread (asObject currentMetadata) data)\<rparr> else t) (transactions s)\<rparr>"

record verifyJob =
  vj_id :: "string option"
  vj_reference :: "string option"

text \<open>With a token the job is moved to the delayed ones and the worker told so by an exception.\<close>

definition requeueJob :: "env \<Rightarrow> verifyJob \<Rightarrow> string option \<Rightarrow> string \<Rightarrow> db \<Rightarrow> unit result \<times> db" where
  "requeueJob env job token reference s =
     (case orString token None of
        None \<Rightarrow> (Inr (), scheduleVerification env reference (Some RETRY_DELAY_MS) s)
      | Some _ \<Rightarrow>
          (Inl (PlainError ''DelayedError''),
           s\<lparr>fundingQueue := updateRow (\<lambda>j. Some (fj_reference j) = vj_id job)
               (\<lambda>j. j\<lparr>fj_runAt := now env + RETRY_DELAY_MS\<rparr>) (fundingQueue s)\<rparr>))"

definition retryState :: "env \<Rightarrow> transactionRow \<Rightarrow> reconcileResult \<Rightarrow> string \<Rightarrow> jobject" where
  "retryState env current r outcome =
     [(''backgroundJobLastAttemptAt'', JDate (now env)),
      (''backgroundJobLastOutcome'', JStr outcome),
      (''backgroundJobRetryCount'', JNum (getBackgroundRetryCount (t_metadata current) + 1)),
      (''backgroundJobLastProviderStatus'', nullable (rr_providerStatus r)),
      (''backgroundJobLastProviderMessage'', nullable (rr_providerMessage r))]"

definition stopped :: "env \<Rightarrow> string \<Rightarrow> jobject" where
  "stopped env reason =
     [(''backgroundJobStoppedAt'', JDate (now env)), (''backgroundJobStoppedReason'', JStr reason)]"

definition handleQueueRetryState ::
  "env \<Rightarrow> transactionRow \<Rightarrow> verifyJob \<Rightarrow> string option \<Rightarrow> reconcileResult \<Rightarrow> string \<Rightarrow> db
   \<Rightarrow> unit result \<times> db" where
  "handleQueueRetryState env current job token r outcome s =
     (let state = retryState env current r outcome
      in if shouldStopAutomaticRetries env (t_createdAt current)
         then (Inr (), updatePendingMetadata (t_id current) (t_metadata current)
                (state @ stopped env ''max_retry_window_reached'') s)
         else requeueJob env job token (t_reference current)
                (updatePendingMetadata (t_id current) (t_metadata current) state s))"

definition processQueuedVerification ::
  "env \<Rightarrow> paymentVerifier \<Rightarrow> verifyJob \<Rightarrow> string option \<Rightarrow> db \<Rightarrow> unit result \<times> db" where
  "processQueuedVerification env verify job token s =
     (case orString (map_option trim (vj_reference job)) (orString (map_option trim (vj_id job)) None) of
        None \<Rightarrow> (Inr (), s)
      | Some reference \<Rightarrow>
          (case transactionByReference reference s of
             None \<Rightarrow> (Inr (), s)
           | Some current \<Rightarrow>
               if t_status current \<noteq> TS_PENDING then (Inr (), s)
               else case reconcilePendingTransaction env verify current
                           \<lparr>rc_source = RECONCILIATION_JOB, rc_actorId = None\<rparr> s of
                      (Inl e, s1) \<Rightarrow> (Inl e, s1)
                    | (Inr r, s1) \<Rightarrow>
                        (case rr_outcome r of
                           RO_STILL_PENDING \<Rightarrow>
                             handleQueueRetryState env current job token r ''still_pending'' s1
                         | RO_PROVIDER_ERROR \<Rightarrow>
                             handleQueueRetryState env current job token r ''provider_error'' s1
                         | RO_PROVIDER_NON_SUCCESS \<Rightarrow>
                             handleQueueRetryState env current job token r ''provider_non_success'' s1
                         | RO_VERIFICATION_MISMATCH \<Rightarrow>
                             (Inr (), updatePendingMetadata (t_id current) (t_metadata current)
                                (retryState env current r ''verification_mismatch'' @
                                 stopped env (case rr_reason r of
                                                None \<Rightarrow> ''verification_mismatch'' | Some x \<Rightarrow> x)) s1)
                         | _ \<Rightarrow> (Inr (), s1))))"

definition processJob ::
  "env \<Rightarrow> paymentVerifier \<Rightarrow> string \<Rightarrow> verifyJob \<Rightarrow> string option \<Rightarrow> db \<Rightarrow> unit result \<times> db" where
  "processJob env verify jobName job token s =
     (if jobName \<noteq> ''funding.verify-pending'' then (Inr (), s)
      else processQueuedVerification env verify job token s)"

section \<open>The service\<close>

record fundingDto =
  fd_amount :: int
  fd_redirectUrl :: string
  fd_currency :: "string option"
  fd_metadata :: "jobject option"

record fundingResponse =
  fr_reference :: string
  fr_authorizationUrl :: string
  fr_provider :: string

definition fundingRequest :: "fundingDto \<Rightarrow> string \<Rightarrow> string \<Rightarrow> user option \<Rightarrow> checkoutPayload" where
  "fundingRequest dto reference userId u =
     \<lparr>cp_tx_ref = reference, cp_amount = of_int (fd_amount dto) / 100,
      cp_currency = (case fd_currency dto of None \<Rightarrow> ''NGN'' | Some c \<Rightarrow> c),
      cp_redirect_url = fd_redirectUrl dto,
      cp_email = (case u of None \<Rightarrow> ''user-'' @ userId @ ''@ajoti.com'' | Some x \<Rightarrow> u_email x),
      cp_name = (case u of None \<Rightarrow> None | Some x \<Rightarrow> Some (trim (u_firstName x @ '' '' @ u_lastName x)))\<rparr>"

text \<open>Up to the call of the provider: the wallet, the limits and the pending record.\<close>

definition recordFunding ::
  "env \<Rightarrow> string \<Rightarrow> fundingDto \<Rightarrow> wallet \<Rightarrow> db \<Rightarrow> (transactionRow \<times> db) result" where
  "recordFunding env userId dto w s =
     bindE (ensure (w_status w = WS_ACTIVE) (BadRequest ''Wallet is not active'')) (\<lambda>_.
     let kycLevel = kycLevelOf userId s in
     bindE (ensure (\<not> kycLevel < 1)
       (Forbidden ''KYC verification is required before funding your wallet'')) (\<lambda>_.
     bindE (ensure (\<not> getSingleLimitKobo kycLevel < fd_amount dto)
       (BadRequest ''Transaction amount exceeds your KYC Level single-transaction limit'')) (\<lambda>_.
     createTransaction env
       \<lparr>ti_walletId = w_id w, ti_amount = fd_amount dto, ti_reference = ''AJT-FUND-'' @ rnd env 1,
        ti_type = TT_FUNDING, ti_status = TS_PENDING,
        ti_currency = Some (case fd_currency dto of None \<Rightarrow> ''NGN'' | Some c \<Rightarrow> c),
        ti_provider = Some ''FLUTTERWAVE'',
        ti_metadata = Some (spread (asObject (fd_metadata dto))
          [(''source'', JStr ''HOSTED_CHECKOUT''), (''initializedAt'', JDate (now env)),
           (''redirectUrl'', JStr (fd_redirectUrl dto))])\<rparr> s)))"

definition finishFunding ::
  "env \<Rightarrow> paymentProvider \<Rightarrow> string \<Rightarrow> fundingDto \<Rightarrow> transactionRow \<Rightarrow> db
   \<Rightarrow> fundingResponse result \<times> db" where
  "finishFunding env initiate userId dto t s =
     (case initiate (fundingRequest dto (t_reference t) userId (userById userId s)) of
        Inl message \<Rightarrow> (Inl (PlainError message), s)
      | Inr answer \<Rightarrow>
          (case (if cr_status answer \<noteq> ''success'' then None else orString (cr_link answer) None) of
             None \<Rightarrow>
               (case markAsFailed env (t_reference t)
                      (case cr_message answer of
                         None \<Rightarrow> ''Provider returned empty response'' | Some m \<Rightarrow> m) s of
                  Inl e \<Rightarrow> (Inl e, s)
                | Inr (_, s1) \<Rightarrow>
                    (Inl (BadRequest (case cr_message answer of
                       None \<Rightarrow> ''Payment provider unavailable. Please try again.'' | Some m \<Rightarrow> m)), s1))
           | Some link \<Rightarrow>
               (Inr \<lparr>fr_reference = t_reference t, fr_authorizationUrl = link,
                     fr_provider = ''FLUTTERWAVE''\<rparr>,
                scheduleInitialVerification env (t_reference t) s)))"

definition initializeFunding ::
  "env \<Rightarrow> paymentProvider \<Rightarrow> string \<Rightarrow> fundingDto \<Rightarrow> db \<Rightarrow> fundingResponse result \<times> db" where
  "initializeFunding env initiate userId dto s =
     (case getOrCreateWallet (env\<lparr>rnd := (\<lambda>k. rnd env (k + 2))\<rparr>) userId s of
        Inl e \<Rightarrow> (Inl e, s)
      | Inr (w, s1) \<Rightarrow>
          (case recordFunding env userId dto w s1 of
             Inl e \<Rightarrow> (Inl e, s1)
           | Inr (t, s2) \<Rightarrow> finishFunding env initiate userId dto t s2))"

record fundingMethod =
  fm_id :: string
  fm_name :: string
  fm_icon :: string
  fm_fee :: int
  fm_minAmount :: int
  fm_description :: string

definition getFundingMethods :: "fundingMethod list" where
  "getFundingMethods =
     [\<lparr>fm_id = ''CARD'', fm_name = ''Debit / Credit Card'', fm_icon = ''credit-card'', fm_fee = 0,
       fm_minAmount = 10000, fm_description = ''Instant. Visa, Mastercard, Verve.''\<rparr>,
      \<lparr>fm_id = ''BANK_TRANSFER'', fm_name = ''Bank Transfer'', fm_icon = ''bank'', fm_fee = 0,
       fm_minAmount = 10000,
       fm_description = ''Transfer from any Nigerian bank. May take a few minutes.''\<rparr>,
      \<lparr>fm_id = ''USSD'', fm_name = ''USSD'', fm_icon = ''phone'', fm_fee = 0, fm_minAmount = 10000,
       fm_description = ''Use your bank's USSD code. No internet required.''\<rparr>]"

datatype fundingStatus = FS_SUCCESS | FS_PENDING | FS_FAILED

definition verifyFunding ::
  "env \<Rightarrow> paymentVerifier \<Rightarrow> string \<Rightarrow> string \<Rightarrow> db \<Rightarrow> (fundingStatus \<times> string) result \<times> db" where
  "verifyFunding env verify userId reference s =
     (case findByReference reference s of
        None \<Rightarrow> (Inl (NotFound ''Transaction not found''), s)
      | Some (t, owner) \<Rightarrow>
          if map_option w_userId owner \<noteq> Some userId then (Inl (Forbidden ''Access denied''), s)
          else if t_status t = TS_SUCCESS then (Inr (FS_SUCCESS, ''Payment already confirmed''), s)
          else if t_status t = TS_FAILED then (Inr (FS_FAILED, ''Payment was unsuccessful''), s)
          else case reconcileByReference env verify reference userId USER_VERIFY s of
                 (Inl e, s1) \<Rightarrow> (Inl e, s1)
               | (Inr r, s1) \<Rightarrow>
                   (Inr (if rr_outcome r = RO_SETTLED \<or> rr_outcome r = RO_ALREADY_PROCESSED
                         then (FS_SUCCESS, ''Payment confirmed and wallet credited'')
                         else if rr_outcome r = RO_MARKED_FAILED
                         then (FS_FAILED, ''Payment could not be verified'')
                         else if rr_outcome r = RO_STILL_PENDING
                         then (FS_PENDING, ''Payment is still being processed by the provider'')
                         else (FS_PENDING, ''Verification in progress'')), s1))"

definition manualReconcileByReference ::
  "env \<Rightarrow> paymentVerifier \<Rightarrow> string \<Rightarrow> string \<Rightarrow> db \<Rightarrow> reconcileResult result \<times> db" where
  "manualReconcileByReference env verify reference superAdminId s =
     (if trim reference = '''' then (Inl (BadRequest ''Transaction reference is required''), s)
      else reconcileByReference env verify (trim reference) superAdminId MANUAL s)"

section \<open>Reconciliation: one credit, only of a pending row\<close>

lemma markFailed_effect:
  assumes "transactionsUnique s"
  obtains s' where "markFailed env i reason context s = Inr s'" and "sameLedger s s'" and "txKept s s'"
    and "webhookEvents s' = webhookEvents s"
    and "\<And>t. transactionById i s = Some t \<Longrightarrow> t_status t = TS_PENDING \<Longrightarrow>
           \<exists>t'. transactionById i s' = Some t' \<and> t_status t' = TS_FAILED \<and> t_reference t' = t_reference t"
    and "\<And>t. transactionById i s = Some t \<Longrightarrow> t_status t \<noteq> TS_PENDING \<Longrightarrow> s' = s"
proof (cases "\<exists>t. transactionById i s = Some t \<and> t_status t = TS_PENDING")
  case False
  then have "markFailed env i reason context s = Inr s"
    by (auto simp: markFailed_def split: option.splits)
  then show thesis using False assms by (intro that) auto
next
  case True
  then obtain t where t: "transactionById i s = Some t" "t_status t = TS_PENDING" by blast
  have i: "i = t_id t" using transactionByIdD [OF t(1)] by simp
  define f where "f = (\<lambda>x. x\<lparr>t_status := TS_FAILED, t_completedAt := Some (now env),
    t_metadata := Some (spread (asObject (t_metadata t))
      ([(''reconciliationFailureReason'', JStr reason), (''failedAt'', JDate (now env))]
       @ buildContextMetadata context (now env)))\<rparr> :: transactionRow)"
  have f: "t_id (f x) = t_id x" "t_amount (f x) = t_amount x" "t_reference (f x) = t_reference x"
    "t_status (f x) = TS_FAILED" for x by (simp_all add: f_def)
  obtain s1 where upd: "updateTransaction i f s = Inr s1"
    using updateTransaction_ok [where f = f, OF t(1) f(3)] by blast
  have "markFailed env i reason context s = updateTransaction i f s"
    unfolding f_def using t by (simp add: markFailed_def)
  moreover note updateTransaction_final [where f = f, OF upd [unfolded i] t(1) [unfolded i] t(2) assms f(1,2)]
  ultimately show thesis
    using t upd f(3,4) by (intro that [of s1]) (auto simp: i txKept_def)
qed

lemma settleFundingTx_effect:
  assumes "settleFundingTx env i p label ty context s = Inr (u, s')" and "transactionsUnique s"
    and "0 \<le> toKobo (pv_amount p)"
  shows "txKept s s' \<and> webhookEvents s' = webhookEvents s \<and>
    (s' = s \<and> (\<forall>t. transactionById i s = Some t \<longrightarrow> t_status t \<noteq> TS_PENDING) \<or>
     (\<exists>t. transactionById i s = Some t \<and> t_status t = TS_PENDING \<and>
          posts s [creditOf (t_walletId t) (toKobo (pv_amount p))] s' \<and>
          (\<exists>t'. transactionById i s' = Some t' \<and> t_status t' = TS_SUCCESS \<and> t_reference t' = t_reference t)))"
proof (cases "\<exists>t. transactionById i s = Some t \<and> t_status t = TS_PENDING")
  case False
  with assms(1) show ?thesis by (auto simp: settleFundingTx_def Let_def split: option.splits)
next
  case True
  then obtain t where t: "transactionById i s = Some t" "t_status t = TS_PENDING" by blast
  have i: "i = t_id t" using transactionByIdD [OF t(1)] by simp
  obtain s1 m where ent: "createLedgerEntry (rawCredit (rnd env 0) (t_walletId t) (label @ ''-'' @ t_id t)
      FUNDING (toKobo (pv_amount p)) ST_TRANSACTION (t_id t) s) s = Inr s1"
    and upd: "updateTransaction (t_id t) (\<lambda>x. x\<lparr>t_type := ty, t_status := TS_SUCCESS,
      t_completedAt := Some (now env), t_metadata := m\<rparr>) s1 = Inr s'"
    using assms(1) t by (auto simp: settleFundingTx_def Let_def result_simps)
  note c = credit_then_final [OF ent assms(3) upd t(1) [unfolded i] t(2) assms(2)]
  then show ?thesis using t by (auto simp: i txKept_def)
qed

text \<open>
  Whatever the provider answers, a reconciliation credits nothing or the wallet of the pending row,
  once, with what the provider confirms; it never changes a row that has a final status.
\<close>

definition reconciledAs :: "paymentVerifier \<Rightarrow> transactionRow \<Rightarrow> db \<Rightarrow> db \<Rightarrow> bool" where
  "reconciledAs verify current s s' \<longleftrightarrow>
     sameLedger s s' \<or>
     (\<exists>t a p. transactionById (t_id current) s = Some t \<and> t_status t = TS_PENDING \<and>
        verify (t_reference current) = Inr a \<and> vf_status a = ''success'' \<and> vf_data a = Some p \<and>
        pv_status p = ''successful'' \<and> pv_tx_ref p = t_reference current \<and> pv_currency p = ''NGN'' \<and>
        t_amount current \<le> toKobo (pv_amount p) \<and>
        posts s [creditOf (t_walletId t) (toKobo (pv_amount p))] s' \<and>
        (\<exists>t'. transactionById (t_id current) s' = Some t' \<and> t_status t' = TS_SUCCESS \<and>
           t_reference t' = t_reference t))"

lemma failing_effect:
  assumes "failing env current reason context answer s = (r, s')" and "transactionsUnique s"
  shows "r = Inr answer \<and> sameLedger s s' \<and> txKept s s' \<and> webhookEvents s' = webhookEvents s \<and>
    (\<forall>t. transactionById (t_id current) s = Some t \<longrightarrow>
       (if t_status t = TS_PENDING
        then \<exists>t'. transactionById (t_id current) s' = Some t' \<and> t_status t' = TS_FAILED \<and>
             t_reference t' = t_reference t else s' = s))"
proof -
  obtain s1 where "markFailed env (t_id current) reason context s = Inr s1" "sameLedger s s1" "txKept s s1"
    "webhookEvents s1 = webhookEvents s"
    "\<And>t. transactionById (t_id current) s = Some t \<Longrightarrow> t_status t = TS_PENDING \<Longrightarrow>
           \<exists>t'. transactionById (t_id current) s1 = Some t' \<and> t_status t' = TS_FAILED \<and>
             t_reference t' = t_reference t"
    "\<And>t. transactionById (t_id current) s = Some t \<Longrightarrow> t_status t \<noteq> TS_PENDING \<Longrightarrow> s1 = s"
    using markFailed_effect [OF assms(2)] by blast
  with assms(1) show ?thesis by (auto simp: failing_def)
qed

lemma settleSuccessfulFunding_effect:
  assumes "settleSuccessfulFunding env i p label ty context s = (r, s')" and "transactionsUnique s"
    and "0 \<le> toKobo (pv_amount p)"
  shows "txKept s s' \<and> webhookEvents s' = webhookEvents s \<and>
    (s' = s \<and> (isl r \<or> (\<forall>t. transactionById i s = Some t \<longrightarrow> t_status t \<noteq> TS_PENDING)) \<or>
     (\<exists>t. transactionById i s = Some t \<and> t_status t = TS_PENDING \<and>
          posts s [creditOf (t_walletId t) (toKobo (pv_amount p))] s' \<and>
          (\<exists>t'. transactionById i s' = Some t' \<and> t_status t' = TS_SUCCESS \<and> t_reference t' = t_reference t)))"
proof (cases r)
  case (Inl e)
  then have "s' = s"
    using assms(1) transaction_rollback by (metis settleSuccessfulFunding_def fst_conv snd_conv)
  with Inl show ?thesis by simp
next
  case (Inr u)
  then have "settleFundingTx env i p label ty context s = Inr (u, s')"
    using assms(1) by (simp add: settleSuccessfulFunding_def transaction_Inr)
  from settleFundingTx_effect [OF this assms(2,3)] show ?thesis by blast
qed

lemma reconcilePayment_effect:
  assumes "reconcilePayment env message p current context s = (r, s')" and "transactionsUnique s"
    and "0 \<le> t_amount current"
    and "verify (t_reference current) = Inr a" "vf_status a = ''success''" "vf_data a = Some p"
    and "pv_tx_ref p = t_reference current" "pv_currency p = ''NGN''"
  shows "txKept s s' \<and> webhookEvents s' = webhookEvents s \<and> reconciledAs verify current s s'"
proof (cases "pv_status p = ''successful'' \<and> t_amount current \<le> toKobo (pv_amount p)")
  case True
  obtain r1 where "settleSuccessfulFunding env (t_id current) p (resolveFundingMethodLabel (pv_payment_type p))
      (resolveFundingTransactionType (pv_payment_type p)) context s = (r1, s')"
    using assms(1) True by (auto simp: reconcilePayment_def Let_def split: prod.splits sum.splits)
  from settleSuccessfulFunding_effect [OF this assms(2)] True assms(3-8) show ?thesis
    unfolding reconciledAs_def by auto
next
  case False
  then consider reason answer where "failing env current reason context answer s = (r, s')" | "s' = s"
    using assms(1) by (auto simp: reconcilePayment_def Let_def split: if_splits)
  then show ?thesis
    by cases (use failing_effect assms(2) in \<open>fastforce simp: reconciledAs_def\<close>)+
qed

lemma reconcilePendingTransaction_effect:
  assumes "reconcilePendingTransaction env verify current context s = (r, s')"
    and "transactionsUnique s" and "0 \<le> t_amount current"
  shows "txKept s s' \<and> webhookEvents s' = webhookEvents s \<and> reconciledAs verify current s s'"
proof (cases "\<exists>a p. verify (t_reference current) = Inr a \<and> vf_status a = ''success'' \<and> vf_data a = Some p \<and>
    pv_tx_ref p = t_reference current \<and> pv_currency p = ''NGN''")
  case True
  then obtain a p where a: "verify (t_reference current) = Inr a" "vf_status a = ''success''"
    "vf_data a = Some p" "pv_tx_ref p = t_reference current" "pv_currency p = ''NGN''" by blast
  then have "reconcilePayment env (vf_message a) p current context s = (r, s')"
    using assms(1) by (simp add: reconcilePendingTransaction_def)
  then show ?thesis using reconcilePayment_effect [where verify = verify and a = a] assms(2,3) a by blast
next
  case False
  then consider reason answer where "failing env current reason context answer s = (r, s')" | "s' = s"
    using assms(1)
    by (fastforce simp: reconcilePendingTransaction_def Let_def split: if_splits sum.splits option.splits prod.splits)
  then show ?thesis
    by cases (use failing_effect assms(2) in \<open>fastforce simp: reconciledAs_def\<close>)+
qed

text \<open>A row that got its final status while the provider was asked stays as it is.\<close>

lemma reconcile_stale:
  assumes "reconcilePendingTransaction env verify current context s = (r, s')"
    and "transactionsUnique s" and "0 \<le> t_amount current"
    and "transactionById (t_id current) s = Some t" and "t_status t \<noteq> TS_PENDING"
  shows "sameLedger s s' \<and> transactionById (t_id current) s' = Some t"
proof -
  note e = reconcilePendingTransaction_effect [OF assms(1-3)]
  then have "sameLedger s s'" using assms(4,5) by (auto simp: reconciledAs_def)
  moreover have "transactionById (t_id current) s' = Some t"
    using e assms(4,5) by (simp add: txKept_def finalKept_def)
  ultimately show ?thesis by simp
qed

section \<open>The worker\<close>

lemma updatePendingMetadata_frame:
  "sameLedger s (updatePendingMetadata i m d s)"
  "webhookEvents (updatePendingMetadata i m d s) = webhookEvents s"
  "fundingQueue (updatePendingMetadata i m d s) = fundingQueue s"
  by (simp_all add: updatePendingMetadata_def sameLedger_def)

lemma fundingQueue_frame [simp]:
  "sameLedger s (s\<lparr>fundingQueue := q\<rparr>)" "transactionsUnique (s\<lparr>fundingQueue := q\<rparr>) = transactionsUnique s"
  "amountsOk (s\<lparr>fundingQueue := q\<rparr>) = amountsOk s"
  by (simp_all add: sameLedger_def transactionsUnique_def amountsOk_def)

lemma scheduleVerification_queueOnly: "\<exists>q. scheduleVerification env r d s = s\<lparr>fundingQueue := q\<rparr>"
proof (cases "trim r = '''' \<or> list_ex (\<lambda>j. fj_reference j = trim r) (fundingQueue s)")
  case True
  then have "scheduleVerification env r d s = s\<lparr>fundingQueue := fundingQueue s\<rparr>"
    by (auto simp: scheduleVerification_def)
  then show ?thesis by blast
next
  case False
  then show ?thesis unfolding scheduleVerification_def Let_def if_not_P [OF False] by blast
qed

lemma requeueJob_queueOnly: "\<exists>q. snd (requeueJob env job token r s) = s\<lparr>fundingQueue := q\<rparr>"
  using scheduleVerification_queueOnly by (auto simp: requeueJob_def split: option.splits)

lemma handleQueueRetryState_frame:
  assumes "handleQueueRetryState env current job token r outcome s = (x, s')"
  shows "sameLedger s s' \<and> txKept s s' \<and> webhookEvents s' = webhookEvents s"
proof -
  obtain m d q where "s' = updatePendingMetadata (t_id current) m d s \<or>
      s' = (updatePendingMetadata (t_id current) m d s)\<lparr>fundingQueue := q\<rparr>"
    using assms requeueJob_queueOnly [of env job token "t_reference current"
      "updatePendingMetadata (t_id current) (t_metadata current) (retryState env current r outcome) s"]
    by (auto simp: handleQueueRetryState_def Let_def split: if_splits)
  moreover have "txKept s (updatePendingMetadata i m d s)" for i
    by (rule txKept_map [where f = "\<lambda>t. if t_id t = i \<and> t_status t = TS_PENDING
      then t\<lparr>t_metadata := Some (spread (asObject m) d)\<rparr> else t"]) (auto simp: updatePendingMetadata_def)
  moreover have "txKept s ((updatePendingMetadata i m d s)\<lparr>fundingQueue := q\<rparr>)" for i
    by (rule txKept_trans [OF \<open>\<And>i. txKept s (updatePendingMetadata i m d s)\<close> txKept_same]) simp
  ultimately show ?thesis
    using updatePendingMetadata_frame by (auto simp: sameLedger_def)
qed

text \<open>At most one credit, of an amount that is not negative.\<close>

definition creditedAtMostOnce :: "db \<Rightarrow> db \<Rightarrow> bool" where
  "creditedAtMostOnce s s' \<longleftrightarrow> posts s [] s' \<or> (\<exists>w a. 0 \<le> a \<and> posts s [creditOf w a] s')"

lemma creditedAtMostOnce_silent: "sameLedger s s' \<Longrightarrow> creditedAtMostOnce s s'"
  by (simp add: creditedAtMostOnce_def posts_silent)

lemma creditedAtMostOnce_then: "creditedAtMostOnce s s1 \<Longrightarrow> sameLedger s1 s2 \<Longrightarrow> creditedAtMostOnce s s2"
  unfolding creditedAtMostOnce_def using posts_then_silent by blast

lemma creditedAtMostOnce_before: "sameLedger s s1 \<Longrightarrow> creditedAtMostOnce s1 s2 \<Longrightarrow> creditedAtMostOnce s s2"
  unfolding creditedAtMostOnce_def using posts.silent by blast

lemma reconciledAs_once:
  assumes "reconciledAs verify current s s'" and "0 \<le> t_amount current"
  shows "creditedAtMostOnce s s'"
proof (cases "sameLedger s s'")
  case False
  with assms obtain w a where "t_amount current \<le> a" and p: "posts s [creditOf w a] s'"
    unfolding reconciledAs_def by blast
  then have "0 \<le> a" using assms(2) by simp
  with p show ?thesis unfolding creditedAtMostOnce_def by blast
qed (rule creditedAtMostOnce_silent)

lemma processQueuedVerification_effect:
  assumes "processQueuedVerification env verify job token s = (x, s')"
    and "transactionsUnique s" and "amountsOk s"
  shows "txKept s s' \<and> webhookEvents s' = webhookEvents s \<and> creditedAtMostOnce s s'"
proof -
  consider (nothing) "s' = s"
    | (asked) current r s1 ref where "transactionByReference ref s = Some current"
        "reconcilePendingTransaction env verify current \<lparr>rc_source = RECONCILIATION_JOB, rc_actorId = None\<rparr> s
           = (r, s1)"
        "s' = s1 \<or> (\<exists>y o1. handleQueueRetryState env current job token y o1 s1 = (x, s')) \<or>
         (\<exists>m d. s' = updatePendingMetadata (t_id current) m d s1)"
    using assms(1)
    by (fastforce simp: processQueuedVerification_def
        split: option.splits if_splits sum.splits prod.splits reconcileOutcome.splits)
  then show ?thesis
  proof cases
    case nothing
    then show ?thesis by (simp add: creditedAtMostOnce_silent)
  next
    case asked
    note a = amountsOk_reference [OF assms(3) asked(1)]
    note e = reconcilePendingTransaction_effect [OF asked(2) assms(2) a]
    have "txKept s1 s' \<and> webhookEvents s' = webhookEvents s1 \<and> sameLedger s1 s'"
      using asked(3)
    proof (elim disjE exE)
      fix m d
      assume s': "s' = updatePendingMetadata (t_id current) m d s1"
      have "txKept s1 s'"
        by (rule txKept_map [where f = "\<lambda>t. if t_id t = t_id current \<and> t_status t = TS_PENDING
          then t\<lparr>t_metadata := Some (spread (asObject m) d)\<rparr> else t"]) (auto simp: s' updatePendingMetadata_def)
      then show ?thesis by (simp add: s' updatePendingMetadata_frame)
    qed (use handleQueueRetryState_frame in \<open>auto\<close>)
    then show ?thesis
      using e reconciledAs_once [OF _ a] creditedAtMostOnce_then txKept_trans by metis
  qed
qed

text \<open>The start-up job queues every pending payment it finds, once.\<close>

definition queueUnique :: "db \<Rightarrow> bool" where
  "queueUnique s \<longleftrightarrow> distinct (map fj_reference (fundingQueue s))"

lemma scheduleVerification_queue:
  "queueUnique s \<Longrightarrow> queueUnique (scheduleVerification env r d s)"
  "trim r \<noteq> '''' \<Longrightarrow> trim r \<in> fj_reference ` set (fundingQueue (scheduleVerification env r d s))"
  "fj_reference ` set (fundingQueue s) \<subseteq> fj_reference ` set (fundingQueue (scheduleVerification env r d s))"
  by (auto simp: scheduleVerification_def queueUnique_def list_ex_iff Let_def intro: rev_image_eqI)

lemma enqueueStartupCatchUpJobs_fold:
  fixes env :: env and s :: db and ts :: "transactionRow list" and d :: "transactionRow \<Rightarrow> int option"
  defines "f \<equiv> fold (\<lambda>t. scheduleVerification env (t_reference t) (d t))"
  shows "(queueUnique s \<longrightarrow> queueUnique (f ts s)) \<and>
    fj_reference ` set (fundingQueue s) \<subseteq> fj_reference ` set (fundingQueue (f ts s)) \<and>
    (\<forall>t \<in> set ts. trim (t_reference t) \<noteq> '''' \<longrightarrow>
       trim (t_reference t) \<in> fj_reference ` set (fundingQueue (f ts s))) \<and>
    (\<exists>q. f ts s = s\<lparr>fundingQueue := q\<rparr>)"
  unfolding f_def
proof (induction ts arbitrary: s)
  case Nil
  have "\<exists>q. s = s\<lparr>fundingQueue := q\<rparr>"
    by (rule exI [of _ "fundingQueue s"]) simp
  then show ?case by simp
next
  case (Cons t ts)
  let ?s1 = "scheduleVerification env (t_reference t) (d t) s"
  obtain q where q: "?s1 = s\<lparr>fundingQueue := q\<rparr>" using scheduleVerification_queueOnly by blast
  let ?F = "fold (\<lambda>t. scheduleVerification env (t_reference t) (d t)) ts ?s1"
  note ih = Cons.IH [of ?s1] and one = scheduleVerification_queue
      [where s = s and env = env and r = "t_reference t" and d = "d t"]
  have "queueUnique s \<longrightarrow> queueUnique ?F" using ih one(1) by blast
  moreover have "fj_reference ` set (fundingQueue s) \<subseteq> fj_reference ` set (fundingQueue ?F)"
    using ih one(3) by (meson subset_trans)
  moreover have "\<forall>t' \<in> set (t # ts). trim (t_reference t') \<noteq> '''' \<longrightarrow>
      trim (t_reference t') \<in> fj_reference ` set (fundingQueue ?F)"
    using ih one(2) by auto
  moreover have "\<exists>q'. ?F = s\<lparr>fundingQueue := q'\<rparr>"
  proof -
    obtain q' where "?F = ?s1\<lparr>fundingQueue := q'\<rparr>" using ih by blast
    then have "?F = s\<lparr>fundingQueue := q'\<rparr>" by (simp add: q)
    then show ?thesis by blast
  qed
  ultimately show ?case by (simp only: fold_Cons comp_apply)
qed

section \<open>Opening a checkout\<close>

lemma createTransaction_Inr:
  assumes "createTransaction env input s = Inr (t, s')"
  shows "transactions s' = transactions s @ [t]" "sameLedger s s'" "finalKept s s'"
    "transactionsUnique s \<Longrightarrow> transactionsUnique s'" "fundingQueue s' = fundingQueue s"
    "t_reference t = ti_reference input" "t_amount t = ti_amount input" "t_status t = ti_status input"
    "t_walletId t = ti_walletId input" "t_type t = ti_type input"
proof -
  have ins: "insertTransaction t s = Inr s'" and t: "t_reference t = ti_reference input"
    "t_amount t = ti_amount input" "t_status t = ti_status input" "t_walletId t = ti_walletId input"
    "t_type t = ti_type input"
    using assms by (auto simp: createTransaction_def Let_def result_simps)
  then show "transactions s' = transactions s @ [t]" "sameLedger s s'" "fundingQueue s' = fundingQueue s"
    by (auto simp: insertTransaction_Inr)
  show "finalKept s s'" by (rule finalKept_insert [OF ins])
  show "transactionsUnique s'" if "transactionsUnique s"
    using transactionByRef.distinct_keys [OF ins] transactionByPk.distinct_keys [OF ins] that
    by (simp add: transactionsUnique_def)
qed (use assms in \<open>auto simp: createTransaction_def Let_def result_simps\<close>)

lemma recordFunding_Inr:
  assumes "recordFunding env uid dto w s = Inr (t, s')"
  shows "transactions s' = transactions s @ [t]" "sameLedger s s'" "finalKept s s'"
    "transactionsUnique s \<Longrightarrow> transactionsUnique s'" "fundingQueue s' = fundingQueue s"
    "t_reference t = ''AJT-FUND-'' @ rnd env 1" "t_amount t = fd_amount dto" "t_status t = TS_PENDING"
    "t_walletId t = w_id w" "fd_amount dto \<le> getSingleLimitKobo (kycLevelOf uid s)" "w_status w = WS_ACTIVE"
proof -
  obtain input where c: "createTransaction env input s = Inr (t, s')"
    and i: "ti_reference input = ''AJT-FUND-'' @ rnd env 1" "ti_amount input = fd_amount dto"
      "ti_status input = TS_PENDING" "ti_walletId input = w_id w"
    and "fd_amount dto \<le> getSingleLimitKobo (kycLevelOf uid s) \<and> w_status w = WS_ACTIVE"
    using assms by (auto simp: recordFunding_def result_simps Let_def)
  then show "fd_amount dto \<le> getSingleLimitKobo (kycLevelOf uid s)" "w_status w = WS_ACTIVE"
    by simp_all
  note c = createTransaction_Inr [OF c]
  show "transactions s' = transactions s @ [t]" "sameLedger s s'" "finalKept s s'"
    "transactionsUnique s \<Longrightarrow> transactionsUnique s'" "fundingQueue s' = fundingQueue s"
    "t_reference t = ''AJT-FUND-'' @ rnd env 1" "t_amount t = fd_amount dto" "t_status t = TS_PENDING"
    "t_walletId t = w_id w"
    using c i by simp_all
qed

lemma trim_nonempty:
  assumes "\<not> isBlank c"
  shows "trim (c # cs) \<noteq> ''''"
proof
  assume "trim (c # cs) = ''''"
  then have "dropWhile isBlank (rev (c # cs)) = []"
    using assms by (simp add: trim_def)
  then show False using assms by (simp add: dropWhile_eq_Nil_conv)
qed

lemma getOrCreateWallet_frame:
  "getOrCreateWallet env uid s = Inr (w, s') \<Longrightarrow> sameLedger s s' \<and> transactions s' = transactions s \<and>
   fundingQueue s' = fundingQueue s \<and> kycs s' = kycs s"
  by (auto simp: getOrCreateWallet_def createWallet_def insertWallet_def result_simps Let_def
      split: option.splits if_splits)

section \<open>The two reports of one payment\<close>

text \<open>The provider's webhook of a hosted checkout, seen from its transaction.\<close>

lemma handleCharge_checkout:
  assumes "handleChargeCompleted env verify data ty s = (r, s')"
    and "isBankTransferCharge data ty \<longrightarrow> vaByTxRef (ch_tx_ref data) s = None"
    and "transactionsUnique s" and "amountsOk s" and "transactionByReference (ch_tx_ref data) s = Some t"
  shows "txKept s s' \<and> (sameLedger s s' \<or> t_status t = TS_PENDING \<and>
      posts s [creditOf (t_walletId t) (t_amount t)] s' \<and>
      map_option t_status (transactionById (t_id t) s') = Some TS_SUCCESS)"
proof (cases "ch_status data = ''successful''")
  case True
  then have "chargeCheckout env verify data s = (r, s')"
    using assms(1,2) by (cases "isBankTransferCharge data ty") (simp_all add: handleChargeCompleted_def)
  from chargeCheckout_effect [OF this assms(3,4)] show ?thesis
    using assms(3,5) by (auto simp: txKept_def)
next
  case False
  then have "s' = updateTransactionStatus env (ch_tx_ref data) TS_FAILED s"
    using assms(1) by (simp add: handleChargeCompleted_def)
  then show ?thesis
    using updateTransactionStatus_frame [where s = s and env = env and r = "ch_tx_ref data" and st = TS_FAILED] by (simp add: txKept_def)
qed

lemma handleWebhook_checkout:
  assumes "handleWebhook env sig verify (ChargeCompleted data ty) hdr s = (r, s')"
    and "isBankTransferCharge data ty \<longrightarrow> vaByTxRef (ch_tx_ref data) s = None"
    and "transactionsUnique s" and "amountsOk s" and "transactionByReference (ch_tx_ref data) s = Some t"
  shows "txKept s s' \<and> (sameLedger s s' \<or> t_status t = TS_PENDING \<and>
      posts s [creditOf (t_walletId t) (t_amount t)] s' \<and>
      map_option t_status (transactionById (t_id t) s') = Some TS_SUCCESS)"
  using assms(1)
proof (cases rule: handleWebhook_cases)
  case ignored
  then show ?thesis by simp
next
  case (handled s1 s2)
  note fr = createWebhookEvent_frame [OF handled(2)]
  have va: "vaByTxRef (ch_tx_ref data) s1 = vaByTxRef (ch_tx_ref data) s"
    using handled(2) by (auto simp: createWebhookEvent_Inr vaByTxRef_def)
  have ok: "transactionsUnique s1" "amountsOk s1" "transactionByReference (ch_tx_ref data) s1 = Some t"
    using fr(2) assms(3-5) by (auto simp: transactionsUnique_def amountsOk_def transactionByReference_def)
  have tx: "transactions s' = transactions s2" "sameLedger s2 s'" "sameLedger s s1"
    using handled(4) fr by (auto simp: releaseIdempotencyMarker_def sameLedger_def)
  have "handleChargeCompleted env verify data ty s1 = (r, s2)"
    using handled(3) by (simp add: routeWebhook_def)
  note e = handleCharge_checkout [OF this _ ok]
  then have e: "txKept s1 s2" "sameLedger s1 s2 \<or> t_status t = TS_PENDING \<and>
      posts s1 [creditOf (t_walletId t) (t_amount t)] s2 \<and>
      map_option t_status (transactionById (t_id t) s2) = Some TS_SUCCESS"
    using va assms(2) by auto
  have "txKept s s'"
    using txKept_trans [OF txKept_same [OF fr(2)] txKept_trans [OF e(1) txKept_same [OF tx(1)]]] by simp
  moreover have "transactionById (t_id t) s' = transactionById (t_id t) s2"
    using tx(1) by (simp add: transactionById_def)
  moreover have "posts s1 ps s2 \<Longrightarrow> posts s ps s'" for ps
    using posts_then_silent [OF posts.silent [OF tx(3)] tx(2)] by blast
  moreover have "sameLedger s1 s2 \<Longrightarrow> sameLedger s s'"
    using tx(2,3) sameLedger_trans by blast
  ultimately show ?thesis using e(2) by auto
qed

lemma webhook_then_reconcile:
  assumes "handleWebhook env sig verify (ChargeCompleted data ty) hdr s = (r1, s1)"
    and "isBankTransferCharge data ty \<longrightarrow> vaByTxRef (ch_tx_ref data) s = None"
    and "transactionsUnique s" and "amountsOk s" and "transactionByReference (ch_tx_ref data) s = Some t"
    and "reconcilePendingTransaction env' verify' t context s1 = (r2, s2)"
  shows "txKept s s2 \<and> creditedAtMostOnce s s2"
proof -
  note w = handleWebhook_checkout [OF assms(1-5)]
  have a: "0 \<le> t_amount t" by (rule amountsOk_reference [OF assms(4,5)])
  have u: "transactionsUnique s1" using w assms(3) by (simp add: txKept_def)
  note e = reconcilePendingTransaction_effect [OF assms(6) u a]
  have "creditedAtMostOnce s s2"
  proof (cases "sameLedger s s1")
    case True
    then show ?thesis using creditedAtMostOnce_before reconciledAs_once e a by blast
  next
    case False
    with w have p: "posts s [creditOf (t_walletId t) (t_amount t)] s1"
      and "map_option t_status (transactionById (t_id t) s1) = Some TS_SUCCESS" by auto
    then obtain t1 where "transactionById (t_id t) s1 = Some t1" "t_status t1 \<noteq> TS_PENDING" by auto
    then have "sameLedger s1 s2" using reconcile_stale [OF assms(6) u a] by blast
    then show ?thesis using p a posts_then_silent unfolding creditedAtMostOnce_def by blast
  qed
  then show ?thesis using w e txKept_trans by blast
qed

lemma reconcile_then_webhook:
  assumes "reconcilePendingTransaction env verify t context s = (r1, s1)"
    and "transactionsUnique s" and "amountsOk s" and "transactionByReference (ch_tx_ref data) s = Some t"
    and "handleWebhook env' sig verify' (ChargeCompleted data ty) hdr s1 = (r2, s2)"
    and "isBankTransferCharge data ty \<longrightarrow> vaByTxRef (ch_tx_ref data) s1 = None" and "verifierOk verify'"
  shows "txKept s s2 \<and> creditedAtMostOnce s s2"
proof -
  have a: "0 \<le> t_amount t" by (rule amountsOk_reference [OF assms(3,4)])
  note e = reconcilePendingTransaction_effect [OF assms(1,2) a]
  then have ok: "transactionsUnique s1" "amountsOk s1" using assms(2,3) by (simp_all add: txKept_def)
  have tid: "transactionById (t_id t) s = Some t" "t_reference t = ch_tx_ref data"
    using transactionByReferenceD [OF assms(4)] transactionById_unique [OF assms(2)] by auto
  note w = handleWebhook_effect [OF assms(5) ok assms(7)]
  have "creditedAtMostOnce s s2"
  proof (cases "sameLedger s s1")
    case True
    then show ?thesis
      using w creditedAtMostOnce_before unfolding creditedAtMostOnce_def by blast
  next
    case False
    with e tid obtain x t1 where p: "0 \<le> x" "posts s [creditOf (t_walletId t) x] s1"
      and t1: "transactionById (t_id t) s1 = Some t1" "t_status t1 = TS_SUCCESS"
        "t_reference t1 = ch_tx_ref data"
      using a unfolding reconciledAs_def by fastforce
    then have "transactionByReference (ch_tx_ref data) s1 = Some t1"
      using transactionByReference_unique [OF ok(1)] transactionByIdD [OF t1(1)] by metis
    from handleWebhook_checkout [OF assms(5,6) ok this] have "sameLedger s1 s2"
      using t1(2) by simp
    then show ?thesis using p posts_then_silent unfolding creditedAtMostOnce_def by blast
  qed
  then show ?thesis using w e txKept_trans unfolding txKept_def by blast
qed


section \<open>A withdrawal taken for a payment\<close>

text \<open>
  The scheduler does not look at the type of the transaction: a pending withdrawal of which the
  provider's payment records know nothing is marked failed without giving its debit back, and the
  report of the transfer that would have done so is ignored.
\<close>

lemma reconciled_withdrawal:
  assumes "startWithdrawal env verifyHash uid dto s = Inr ((w, t), s1)"
    and "ledgerChained s" and "transactionsUnique s"
    and "verify (t_reference t) = Inl e"
    and "shouldFailMissingProviderRecord env2 (t_createdAt t) (fst (extractProviderError e))"
    and "reconcileByReference env2 verify (t_reference t) actor src s1 = (r, s2)"
    and "trim (t_reference t) = t_reference t" and "tf_reference data = t_reference t"
  shows "posts s [debitOf (w_id w) (t_amount t)] s2 \<and>
    map_option t_status (transactionById (t_id t) s2) = Some TS_FAILED \<and>
    handleTransferCompleted env3 data s2 = (Inr (), s2)"
proof -
  note start = startWithdrawal_posts [OF assms(1,2)]
  note uni = startWithdrawal_unique [OF assms(1-3)]
  have mem: "t \<in> set (transactions s1)" using start by simp
  have u: "transactionsUnique s1" using uni by simp
  have tx: "transactionByReference (t_reference t) s1 = Some t" "transactionById (t_id t) s1 = Some t"
    using transactionByReference_unique [OF u mem] transactionById_unique [OF u mem] .
  obtain reason ctx answer where "failing env2 t reason ctx answer s1 = (r, s2)"
    using assms(4-7) tx start
    by (auto simp: reconcileByReference_def reconcilePendingTransaction_def Let_def split: prod.splits)
  note f = failing_effect [OF this u]
  then obtain t' where t': "transactionById (t_id t) s2 = Some t'" "t_status t' = TS_FAILED"
    "t_reference t' = t_reference t"
    using tx(2) start by auto
  have "transactionsUnique s2" using f u by (simp add: txKept_def)
  then have "transactionByReference (tf_reference data) s2 = Some t'"
    using transactionByReference_unique transactionByIdD [OF t'(1)] t'(3) assms(8) by metis
  then show ?thesis
    using t' f start posts_then_silent by (auto simp: handleTransferCompleted_def)
qed

section \<open>What opening a checkout leaves\<close>

lemma markAsFailed_frame:
  assumes "markAsFailed env ref reason s = Inr (x, s')"
  shows "sameLedger s s' \<and> map t_id (transactions s') = map t_id (transactions s) \<and>
    map t_reference (transactions s') = map t_reference (transactions s) \<and>
    (\<forall>t. transactionByReference ref s = Some t \<longrightarrow>
       map_option t_status (transactionByReference ref s') = Some TS_FAILED)"
proof (cases "transactionByReference ref s")
  case (Some t)
  obtain f where s': "s' = s\<lparr>transactions := updateRow (\<lambda>x. t_reference x = ref) f (transactions s)\<rparr>"
    and f: "\<And>x. t_id (f x) = t_id x" "\<And>x. t_reference (f x) = t_reference x" "\<And>x. t_status (f x) = TS_FAILED"
    using assms Some by (auto simp: markAsFailed_def Let_def)
  have "transactionByReference ref s' = Some (f t)"
    using Some find_updateRow_same [of "\<lambda>x. t_reference x = ref" "transactions s" t f] f(2)
      transactionByReferenceD [OF Some]
    by (simp add: s' transactionByReference_def)
  then show ?thesis using f s' by (simp add: map_updateRow sameLedger_def)
qed (use assms in \<open>simp add: markAsFailed_def\<close>)

lemma finishFunding_outcome:
  assumes "finishFunding env initiate uid dto t s = (r, s')"
    and "transactionByReference (t_reference t) s = Some t" and "trim (t_reference t) \<noteq> ''''"
  shows "sameLedger s s' \<and>
    (case r of
       Inr answer \<Rightarrow> fr_reference answer = t_reference t \<and>
         transactionByReference (t_reference t) s' = Some t \<and>
         trim (t_reference t) \<in> fj_reference ` set (fundingQueue s')
     | Inl e \<Rightarrow>
         if isl (initiate (fundingRequest dto (t_reference t) uid (userById uid s))) then s' = s
         else map_option t_status (transactionByReference (t_reference t) s') = Some TS_FAILED)"
proof (cases "initiate (fundingRequest dto (t_reference t) uid (userById uid s))")
  case (Inl m)
  with assms(1) show ?thesis by (auto simp: finishFunding_def)
next
  case (Inr answer)
  show ?thesis
  proof (cases "if cr_status answer \<noteq> ''success'' then None else orString (cr_link answer) None")
    case None
    obtain reason x s1 where m: "markAsFailed env (t_reference t) reason s = Inr (x, s1)"
      and "s' = s1" and "isl r"
      using assms(1,2) Inr None
      by (auto simp: finishFunding_def markAsFailed_def Let_def split: option.splits)
    then show ?thesis
      using markAsFailed_frame [OF m] assms(2) Inr by (cases r) auto
  next
    case (Some link)
    with assms(1) Inr have r: "r = Inr \<lparr>fr_reference = t_reference t, fr_authorizationUrl = link,
        fr_provider = ''FLUTTERWAVE''\<rparr>"
      and s': "s' = scheduleVerification env (t_reference t) (Some INITIAL_DELAY_MS) s"
      by (simp_all add: finishFunding_def scheduleInitialVerification_def)
    obtain q where q: "s' = s\<lparr>fundingQueue := q\<rparr>"
      using s' scheduleVerification_queueOnly by metis
    have "trim (t_reference t) \<in> fj_reference ` set (fundingQueue s')"
      unfolding s' by (rule scheduleVerification_queue(2) [OF assms(3)])
    then show ?thesis
      using assms(2) r by (simp add: q transactionByReference_def)
  qed
qed

lemma reconcile_virtualAccounts:
  assumes "reconcilePendingTransaction env verify current ctx s = (r, s')"
  shows "virtualAccounts s' = virtualAccounts s"
proof -
  have settle: "virtualAccounts (snd (settleSuccessfulFunding env i p label ty ctx s)) = virtualAccounts s"
    for i p label ty
  proof (cases "settleFundingTx env i p label ty ctx s")
    case (Inr x)
    then show ?thesis
      by (cases x) (auto simp: settleSuccessfulFunding_def transaction_def settleFundingTx_def Let_def
          result_simps createLedgerEntry_Inr updateTransaction_Inr split: option.splits if_splits)
  qed (simp add: settleSuccessfulFunding_def transaction_def)
  have fail: "virtualAccounts (snd (failing env current reason ctx answer s)) = virtualAccounts s"
    for reason answer
    by (auto simp: failing_def markFailed_def updateTransaction_Inr split: sum.splits option.splits)
  have pay: "virtualAccounts (snd (reconcilePayment env m p current ctx s)) = virtualAccounts s" for m p
    using settle fail
    by (auto simp: reconcilePayment_def Let_def split: sum.splits prod.splits) (metis snd_conv)+
  have "virtualAccounts (snd (reconcilePendingTransaction env verify current ctx s)) = virtualAccounts s"
    using fail pay
    by (auto simp: reconcilePendingTransaction_def Let_def split: sum.splits option.splits prod.splits)
  then show ?thesis using assms by simp
qed

end
