(* ===== verification/FundingClaims.thy ===== *)
theory FundingClaims
  imports Scenario Funding
begin

text \<open>
  Properties of the funding of a wallet: the checkout that is opened, the reconciliation of payments that
  stay pending, its queue, and how it meets the provider's webhooks, each with a witness on the
  fixture of \<open>Scenario\<close>.
\<close>

section \<open>The fixture\<close>

definition pending1 :: transactionRow where
  "pending1 = \<lparr>t_id = ''t1'', t_walletId = ''wa'', t_provider = ''FLUTTERWAVE'',
     t_reference = ''AJT-1'', t_amount = 25000, t_currency = ''NGN'', t_status = TS_PENDING,
     t_type = TT_FUNDING, t_metadata = None, t_completedAt = None, t_createdAt = 990000000000\<rparr>"

definition waiting :: db where
  "waiting = funded\<lparr>transactions := [pending1]\<rparr>"

definition paid1 :: providerTx where
  "paid1 = \<lparr>pv_id = 9, pv_tx_ref = ''AJT-1'', pv_flw_ref = Some ''flw-9'', pv_amount = 250,
     pv_charged_amount = 250, pv_currency = ''NGN'', pv_status = ''successful'',
     pv_payment_type = Some ''card''\<rparr>"

definition knows :: paymentVerifier where
  "knows r = Inr \<lparr>vf_status = ''success'', vf_message = None, vf_data = Some paid1\<rparr>"

definition knowsNothing :: paymentVerifier where
  "knowsNothing r = Inl (OtherFailure ''No transaction was found for this id'')"

definition chargeVerifier1 :: chargeVerifier where
  "chargeVerifier1 i r = Inr paid1"

definition cardCharge :: chargeData where
  "cardCharge = \<lparr>ch_id = 9, ch_tx_ref = ''AJT-1'', ch_flw_ref = Some ''flw-9'', ch_amount = 250,
     ch_status = ''successful'', ch_payment_type = Some ''card''\<rparr>"

definition manually :: reconcileContext where
  "manually = \<lparr>rc_source = MANUAL, rc_actorId = Some ''root''\<rparr>"

definition topUp :: fundingDto where
  "topUp = \<lparr>fd_amount = 25000, fd_redirectUrl = ''https://ajoti.com'', fd_currency = None,
     fd_metadata = None\<rparr>"

definition opens :: paymentProvider where
  "opens p = Inr \<lparr>cr_status = ''success'', cr_message = None, cr_link = Some ''https://checkout''\<rparr>"

definition dto2 :: withdrawalDto where
  "dto2 = \<lparr>wd_amount = 20000, wd_bankCode = ''044'', wd_accountNumber = ''0690000031'',
     wd_accountName = ''Ada A'', wd_bankName = ''Access'', wd_narration = None,
     wd_transactionPin = ''1234''\<rparr>"

definition withdrawing :: "((wallet \<times> transactionRow) \<times> db) result" where
  "withdrawing = startWithdrawal env0 (\<lambda>_ _. True) ''ada'' dto2 funded"

definition envLater :: env where
  "envLater = env1\<lparr>now := 1000002000000\<rparr>"

lemmas funding_fixture = pending1_def waiting_def paid1_def knows_def knowsNothing_def
  chargeVerifier1_def cardCharge_def topUp_def opens_def dto2_def

lemma waiting_ok: "transactionsUnique waiting" "amountsOk waiting" "verifierOk chargeVerifier1"
    "transactionByReference (ch_tx_ref cardCharge) waiting = Some pending1"
    "isBankTransferCharge cardCharge None \<longrightarrow> vaByTxRef (ch_tx_ref cardCharge) s = None"
  by (simp_all add: transactionsUnique_def amountsOk_def verifierOk_def transactionByReference_def
      funding_fixture fixture isBankTransferCharge_def toLowerCase_def lowerChar_def trim_def isBlank_def)

section \<open>Reconciliation\<close>

text \<open>
  C12: a payment that the provider reports twice, by its webhook and to a reconciliation, is credited at
  most once whichever comes first, also when the reconciliation started from a row read before the
  webhook arrived; and transactions with a final status keep their rows.
\<close>

theorem funding_credited_once:
  assumes "transactionsUnique s" and "amountsOk s" and "verifierOk verify"
    and "transactionByReference (ch_tx_ref data) s = Some t"
    and "isBankTransferCharge data ty \<longrightarrow> vaByTxRef (ch_tx_ref data) s = None"
  shows "(let s1 = snd (handleWebhook env sig verify (ChargeCompleted data ty) hdr s);
              s2 = snd (reconcilePendingTransaction env2 verify2 t ctx s1)
          in creditedAtMostOnce s s2 \<and> finalKept s s2) \<and>
    (let s1 = snd (reconcilePendingTransaction env2 verify2 t ctx s);
         s2 = snd (handleWebhook env sig verify (ChargeCompleted data ty) hdr s1)
     in creditedAtMostOnce s s2 \<and> finalKept s s2)"
proof -
  have "vaByTxRef (ch_tx_ref data) (snd (reconcilePendingTransaction env2 verify2 t ctx s)) =
      vaByTxRef (ch_tx_ref data) s"
    using reconcile_virtualAccounts [OF surjective_pairing] by (simp add: vaByTxRef_def)
  then show ?thesis
    using webhook_then_reconcile [OF surjective_pairing assms(5,1,2,4) surjective_pairing]
      reconcile_then_webhook [OF surjective_pairing assms(1,2,4) surjective_pairing _ assms(3)] assms(5)
    by (simp add: Let_def txKept_def)
qed

theorem funding_credited_once_witness:
  "creditedAtMostOnce waiting
     (snd (reconcilePendingTransaction env1 knows pending1 manually
        (snd (handleWebhook env0 (\<lambda>_. True) chargeVerifier1 (ChargeCompleted cardCharge None) ''h'' waiting))))"
  using funding_credited_once [OF waiting_ok(1-4) waiting_ok(5)] unfolding Let_def by blast

text \<open>
  C27: a pending withdrawal is taken for a payment: when half an hour later the provider's payment
  records know nothing of its reference, reconciling it marks it failed without giving the debit back,
  and the provider's report of the transfer, which would give it back, is then ignored.
\<close>

theorem withdrawal_reconciled_lost:
  assumes "startWithdrawal env verifyHash uid dto s = Inr ((w, t), s1)"
    and "ledgerChained s" and "transactionsUnique s"
    and "verify (t_reference t) = Inl e"
    and "shouldFailMissingProviderRecord env2 (t_createdAt t) (fst (extractProviderError e))"
    and "reconcileByReference env2 verify (t_reference t) actor src s1 = (r, s2)"
    and "trim (t_reference t) = t_reference t" and "tf_reference data = t_reference t"
  shows "posts s [debitOf (w_id w) (t_amount t)] s2 \<and>
    map_option t_status (transactionById (t_id t) s2) = Some TS_FAILED \<and>
    handleTransferCompleted env3 data s2 = (Inr (), s2)"
  by (rule reconciled_withdrawal [OF assms])

lemma withdrawing_ok: "\<not> isl withdrawing"
  by code_simp

lemma withdrawing_Inr:
  "startWithdrawal env0 (\<lambda>_ _. True) ''ada'' dto2 funded =
     Inr ((fst (valueOf withdrawing), snd (valueOf withdrawing)), stateOf withdrawing)"
  using succeeds [OF withdrawing_ok] by (simp add: withdrawing_def)

lemma withdrawing_row:
  "trim (t_reference (snd (valueOf withdrawing))) = t_reference (snd (valueOf withdrawing))"
  "shouldFailMissingProviderRecord envLater (t_createdAt (snd (valueOf withdrawing)))
     (fst (extractProviderError (OtherFailure ''No transaction was found for this id'')))"
  by code_simp+

lemma funded_transactions: "transactionsUnique funded"
  by (simp add: transactionsUnique_def fixture)

theorem withdrawal_reconciled_lost_witness:
  "posts funded [debitOf (w_id (fst (valueOf withdrawing))) (t_amount (snd (valueOf withdrawing)))]
     (snd (reconcileByReference envLater knowsNothing (t_reference (snd (valueOf withdrawing))) ''ada''
        USER_VERIFY (stateOf withdrawing)))"
proof -
  let ?d = "\<lparr>tf_id = 7, tf_reference = t_reference (snd (valueOf withdrawing)), tf_status = ''FAILED'',
    tf_complete_message = ''done''\<rparr>"
  have "knowsNothing (t_reference (snd (valueOf withdrawing))) =
      Inl (OtherFailure ''No transaction was found for this id'')"
    by (simp add: knowsNothing_def)
  from withdrawal_reconciled_lost [where verify = knowsNothing and data = ?d,
      OF withdrawing_Inr funded_chained funded_transactions this withdrawing_row(2) surjective_pairing
        withdrawing_row(1)]
  show ?thesis by simp
qed

section \<open>Opening a checkout\<close>

text \<open>
  Opening a checkout moves no money. When it succeeds, the transaction is recorded as pending, within
  the limit of the user's KYC level, and a verification of it is queued; when the provider refuses, the
  transaction is marked failed; when the call throws, it stays pending and nothing is queued.
\<close>

lemma funding_outcome:
  assumes "recordFunding env uid dto w s = Inr (t, s1)" and "transactionsUnique s"
    and "finishFunding env initiate uid dto t s1 = (r, s2)"
  shows "sameLedger s s2 \<and> t_amount t = fd_amount dto \<and>
    fd_amount dto \<le> getSingleLimitKobo (kycLevelOf uid s) \<and> t_walletId t = w_id w \<and>
    (case r of
       Inr answer \<Rightarrow> fr_reference answer = t_reference t \<and>
         map_option t_status (transactionByReference (t_reference t) s2) = Some TS_PENDING \<and>
         trim (t_reference t) \<in> fj_reference ` set (fundingQueue s2)
     | Inl e \<Rightarrow>
         if isl (initiate (fundingRequest dto (t_reference t) uid (userById uid s1)))
         then map_option t_status (transactionByReference (t_reference t) s2) = Some TS_PENDING \<and>
           fundingQueue s2 = fundingQueue s
         else map_option t_status (transactionByReference (t_reference t) s2) = Some TS_FAILED)"
proof -
  note rec = recordFunding_Inr [OF assms(1)]
  have row: "transactionByReference (t_reference t) s1 = Some t"
    using transactionByReference_unique [OF rec(4) [OF assms(2)], of t] rec(1) by simp
  have "trim (t_reference t) \<noteq> ''''"
    unfolding rec(6) by (simp add: trim_nonempty isBlank_def)
  from finishFunding_outcome [OF assms(3) row this] show ?thesis
    using rec row sameLedger_trans [of s s1 s2] by (auto split: sum.splits if_splits)
qed

lemma recording_runs: "\<not> isl (recordFunding env0 ''ada'' topUp (walletFor ''wa'' ''ada'') funded)"
  by code_simp

lemma funding_outcome_witness:
  "sameLedger funded (snd (finishFunding env0 opens ''ada'' topUp
     (valueOf (recordFunding env0 ''ada'' topUp (walletFor ''wa'' ''ada'') funded))
     (stateOf (recordFunding env0 ''ada'' topUp (walletFor ''wa'' ''ada'') funded))))"
  using funding_outcome [OF succeeds [OF recording_runs] funded_transactions surjective_pairing] by blast

section \<open>The queue\<close>

text \<open>
  At start-up every pending payment that is loaded gets a job in the queue; jobs stay unique by
  their reference, none that was queued is lost, and nothing but the queue changes.
\<close>

lemma startup_queues_pending:
  assumes "queueUnique s"
  shows "queueUnique (enqueueStartupCatchUpJobs env s) \<and>
    (\<forall>t \<in> set (fetchPendingFundingTransactions s). trim (t_reference t) \<noteq> '''' \<longrightarrow>
       trim (t_reference t) \<in> fj_reference ` set (fundingQueue (enqueueStartupCatchUpJobs env s))) \<and>
    fj_reference ` set (fundingQueue s) \<subseteq>
      fj_reference ` set (fundingQueue (enqueueStartupCatchUpJobs env s)) \<and>
    (\<exists>q. enqueueStartupCatchUpJobs env s = s\<lparr>fundingQueue := q\<rparr>)"
  using enqueueStartupCatchUpJobs_fold [where s = s and env = env and
      d = "\<lambda>t. Some (computeInitialDelay env (t_createdAt t))" and ts = "fetchPendingFundingTransactions s"]
    assms
  unfolding enqueueStartupCatchUpJobs_def by blast

lemma startup_queues_pending_witness:
  "queueUnique (enqueueStartupCatchUpJobs env0 waiting)"
proof -
  have "queueUnique waiting" by (simp add: queueUnique_def funding_fixture fixture)
  then show ?thesis using startup_queues_pending by blast
qed

end
