(* ===== verification/RoscaClaims.thy ===== *)
theory RoscaClaims
  imports Scenario
begin

text \<open>
  Properties of the circles: contributions, payouts, the order of payout, the schedules, memberships
  and their collateral, each with a witness on the fixture of \<open>Scenario\<close>.
\<close>

section \<open>Contributions\<close>

text \<open>
  C8: a contribution moves money from the member to the pool and nowhere else: the member pays the
  circle's amount plus the penalty, which is two percent of it when late and nothing when on time; no
  money is created or lost.
\<close>

theorem contribution_moves_money:
  assumes "makeContribution env uid cid n s = Inr (k, s')"
  shows "\<exists>c w sw sch. circleById cid s = Some c \<and> walletOfUser uid s = Some w \<and>
      systemWalletOf PLATFORM_POOL s = Some sw \<and> currentSchedule cid n s = Some sch \<and>
      co_amount k = c_contributionAmount c \<and>
      co_penaltyAmount k = (if cs_contributionDeadline sch < now env
                            then bigint_div (c_contributionAmount c * 200) 10000 else 0) \<and>
      0 \<le> co_penaltyAmount k \<and>
      (\<forall>v. computeTotalBalance s' v = computeTotalBalance s v
          + (if v = sw_walletId sw then co_amount k + co_penaltyAmount k else 0)
          - (if v = w_id w then co_amount k + co_penaltyAmount k else 0)) \<and>
      (\<forall>v. totalReserved s' v = totalReserved s v)"
proof -
  obtain c w sw sch where f: "circleById cid s = Some c" "walletOfUser uid s = Some w"
    "systemWalletOf PLATFORM_POOL s = Some sw" "currentSchedule cid n s = Some sch"
    and p: "posts s (contributionPostings (w_id w) (sw_walletId sw) (co_amount k) (co_penaltyAmount k)) s'"
    and a: "co_amount k = c_contributionAmount c" "0 < co_amount k"
      "co_penaltyAmount k = latePenalty c (cs_contributionDeadline sch < now env)"
    by (rule makeContribution_posts [OF assms])
  have pen: "0 \<le> co_penaltyAmount k"
    using a latePenalty_nonneg [of c] by simp
  have "effectOn v (contributionPostings (w_id w) (sw_walletId sw) (co_amount k) (co_penaltyAmount k))
      = (if v = sw_walletId sw then co_amount k + co_penaltyAmount k else 0)
        - (if v = w_id w then co_amount k + co_penaltyAmount k else 0)" for v
    using pen by (auto simp: contributionPostings_def)
  then have "\<forall>v. computeTotalBalance s' v = computeTotalBalance s v
          + (if v = sw_walletId sw then co_amount k + co_penaltyAmount k else 0)
          - (if v = w_id w then co_amount k + co_penaltyAmount k else 0)"
    by (simp add: posts_total [OF p])
  moreover have "\<forall>v. totalReserved s' v = totalReserved s v"
    by (simp add: posts_reserved [OF p] contributionPostings_effect)
  ultimately show ?thesis
    using f a pen by (intro exI [of _ c] exI [of _ w] exI [of _ sw] exI [of _ sch])
      (simp add: latePenalty_def LATE_PENALTY_PERCENT_def)
qed

lemma contribution_runs: "\<not> isl (makeContribution env0 ''ada'' ''c1'' 2 running)"
  unfolding makeContribution_def
  by (simp add: isl_bindE_const isl_updateTrustScore fixture lookups writing contributionEntry_def
      latePenalty_def penaltyEntries_def insertContribution_def co_key_def countContribution_def)

theorem contribution_moves_money_witness:
  "\<forall>v. totalReserved (stateOf (makeContribution env0 ''ada'' ''c1'' 2 running)) v = totalReserved running v"
  using contribution_moves_money [OF succeeds [OF contribution_runs]] by blast

text \<open>
  A member contributes to a cycle once: after a contribution every further one to the same cycle
  is refused.
\<close>

lemma contribution_once:
  assumes "makeContribution env uid cid n s = Inr (k, s')"
  shows "isl (makeContribution env' uid cid n s')"
proof (rule ccontr)
  assume "\<not> isl (makeContribution env' uid cid n s')"
  then obtain k2 s2 where again: "makeContribution env' uid cid n s' = Inr (k2, s2)"
    using succeeds by blast
  obtain m where m: "membershipOf cid uid s = Some m" and k: "co_key k = (cid, m_id m, n)"
    and ms: "\<exists>f. memberships s' = updateRow (\<lambda>x. m_id x = m_id m) f (memberships s) \<and>
      (\<forall>x. m_id (f x) = m_id x \<and> m_circleId (f x) = m_circleId x \<and> m_userId (f x) = m_userId x)"
    by (rule contribution_member [OF assms])
  obtain m2 where m2: "membershipOf cid uid s' = Some m2" and k2: "co_key k2 = (cid, m_id m2, n)"
    by (rule contribution_member [OF again])
  obtain f where f: "memberships s' = updateRow (\<lambda>x. m_id x = m_id m) f (memberships s)"
    and keep: "\<And>x. m_id (f x) = m_id x \<and> m_circleId (f x) = m_circleId x \<and> m_userId (f x) = m_userId x"
    using ms by blast
  have "findFirst (\<lambda>x. m_circleId x = cid \<and> m_userId x = uid)
      (updateRow (\<lambda>x. m_id x = m_id m) f (memberships s)) \<in> {Some m, Some (f m)}"
    using m keep by (intro find_updateRow_image) (simp_all add: membershipOf_def)
  then have "m_id m2 = m_id m"
    using m2 f keep [of m] by (auto simp: membershipOf_def)
  then have "co_key k2 \<in> co_key ` set (contributions s')"
    using k k2 makeContribution_table(1) [OF assms] by simp
  then show False
    using makeContribution_table(2) [OF again] by simp
qed

lemma contribution_once_witness:
  "isl (makeContribution env1 ''ada'' ''c1'' 2 (stateOf (makeContribution env0 ''ada'' ''c1'' 2 running)))"
  by (rule contribution_once [OF succeeds [OF contribution_runs]])

section \<open>Payouts\<close>

text \<open>
  C7: a payout takes exactly the pot of the cycle out of the pool, gives its recipient the net amount
  and the pool the fee, and moves no other balance; pot, net amount and fee add up unless an active
  loan of the recipient is taken out of the pot.
\<close>

theorem payout_moves_money:
  assumes "processPayout env cid n s = (Inr r, s')"
  shows "(\<exists>w sw. walletOfUser (pres_recipientId r) s = Some w \<and>
      systemWalletOf PLATFORM_POOL s = Some sw \<and> 0 < pres_amount r \<and> 0 \<le> pres_platformFee r \<and>
      (\<forall>v. computeTotalBalance s' v = computeTotalBalance s v
          + (if v = w_id w then pres_amount r else 0)
          + (if v = sw_walletId sw then pres_platformFee r - potOf cid n s else 0))) \<and>
    ((\<forall>l \<in> set (loans s). \<not> (ln_userId l = pres_recipientId r \<and> ln_circleId l = cid \<and>
        ln_status l = LS_ACTIVE)) \<longrightarrow>
      pres_amount r + pres_platformFee r = potOf cid n s \<and>
      pres_platformFee r = bigint_div (potOf cid n s * 2) 100)"
proof (rule conjI)
  obtain s1 where tx: "processPayoutTx env cid n s = Inr (r, s1)" and same: "sameLedger s1 s'"
    by (rule processPayout_frame [OF assms])
  obtain sw w rs where f: "systemWalletOf PLATFORM_POOL s = Some sw"
    "walletOfUser (pres_recipientId r) s = Some w"
    and p: "posts s (payoutPostings (sw_walletId sw) (w_id w) (potOf cid n s) (pres_amount r)
          (pres_platformFee r) @ rs) s1" and rs: "releaseOnly rs"
    and pos: "0 < pres_amount r" "0 \<le> pres_platformFee r"
    by (rule processPayoutTx_posts [OF tx])
  have "computeTotalBalance s' v = computeTotalBalance s v
          + (if v = w_id w then pres_amount r else 0)
          + (if v = sw_walletId sw then pres_platformFee r - potOf cid n s else 0)" for v
    using posts_total [OF posts_then_silent [OF p same], of v] pos(2) releaseOnly_effect [OF rs, of v]
    by (auto simp: payoutPostings_def)
  then show "\<exists>w sw. walletOfUser (pres_recipientId r) s = Some w \<and>
      systemWalletOf PLATFORM_POOL s = Some sw \<and> 0 < pres_amount r \<and> 0 \<le> pres_platformFee r \<and>
      (\<forall>v. computeTotalBalance s' v = computeTotalBalance s v
          + (if v = w_id w then pres_amount r else 0)
          + (if v = sw_walletId sw then pres_platformFee r - potOf cid n s else 0))"
    using f pos by blast
  show "(\<forall>l \<in> set (loans s). \<not> (ln_userId l = pres_recipientId r \<and> ln_circleId l = cid \<and>
        ln_status l = LS_ACTIVE)) \<longrightarrow>
      pres_amount r + pres_platformFee r = potOf cid n s \<and>
      pres_platformFee r = bigint_div (potOf cid n s * 2) 100"
    using processPayoutTx_split [OF tx] by blast
qed

lemma payout_runs: "\<not> isl (fst (processPayout env0 ''c1'' 1 running))"
  by code_simp

theorem payout_moves_money_witness:
  "pres_amount (projr (fst (processPayout env0 ''c1'' 1 running)))
     + pres_platformFee (projr (fst (processPayout env0 ''c1'' 1 running))) = potOf ''c1'' 1 running"
  using payout_moves_money [OF succeeds_pair [OF payout_runs]] by (simp add: fixture)

text \<open>
  C16: a cycle is paid out at most once: after a payout another one for the same cycle fails and
  changes nothing.
\<close>

theorem payout_once:
  assumes "processPayout env cid n s = (Inr r, s')"
  shows "isl (fst (processPayout env' cid n s')) \<and> snd (processPayout env' cid n s') = s'"
  using payoutTaken_fails [OF processPayout_takes [OF assms], of env'] by auto

theorem payout_once_witness:
  "isl (fst (processPayout env1 ''c1'' 1 (snd (processPayout env0 ''c1'' 1 running))))"
  using payout_once [OF succeeds_pair [OF payout_runs]] by blast




text \<open>
  A payout that was reversed cannot be retried, although its schedule is due again: the reversed
  row keeps the schedule, and a schedule has one payout.
\<close>

lemma reversed_payout_stays_taken:
  assumes "reversePayout env dto s = Inr s'" and "payoutTaken cid n s"
  shows "isl (fst (processPayout env' cid n s')) \<and> snd (processPayout env' cid n s') = s'"
  using payoutTaken_fails [OF reversePayout_stillTaken [OF assms], of env'] by auto

definition paidOut :: db where
  "paidOut = running\<lparr>payouts := [\<lparr>po_id = ''p1'', po_circleId = ''c1'', po_scheduleId = ''s1'',
     po_recipientId = ''bob'', po_amount = 196000, po_status = PS_COMPLETED,
     po_internalReference = None, po_poolDebitId = None, po_recipientCreditId = None,
     po_reversalDebitId = None, po_reversalCreditId = None, po_processedAt = None, po_failedAt = None\<rparr>]\<rparr>"

definition takeBack :: reversePayoutDto where
  "takeBack = \<lparr>rp_originalPayoutId = ''p1'', rp_recipientId = ''bob'', rp_scheduleId = ''s1'',
     rp_amount = 196000, rp_reason = ''error''\<rparr>"

lemma reversal_of_payout_runs: "\<not> isl (reversePayout env0 takeBack paidOut)"
  by code_simp

lemma reversed_payout_stays_taken_witness:
  "isl (fst (processPayout env1 ''c1'' 1 (projr (reversePayout env0 takeBack paidOut))))"
  using reversed_payout_stays_taken [OF succeeds_db [OF reversal_of_payout_runs], of "''c1''" 1 env1]
  by (simp add: payoutTaken_def paidOut_def fixture currentSchedule_def)

text \<open>
  A reversal moves the amount of its request from the recipient to the pool, and only when the
  recipient can pay it; the amount is the request's, not the payout's.
\<close>

lemma reversal_moves_request:
  assumes "reversePayout env dto s = Inr s'"
  shows "\<exists>w sw. walletOfUser (rp_recipientId dto) s = Some w \<and>
      systemWalletOf PLATFORM_POOL s = Some sw \<and> rp_amount dto \<le> available s (w_id w) \<and>
      (\<forall>v. computeTotalBalance s' v = computeTotalBalance s v
          + (if v = sw_walletId sw then rp_amount dto else 0) - (if v = w_id w then rp_amount dto else 0))"
proof -
  obtain sw w where f: "systemWalletOf PLATFORM_POOL s = Some sw"
    "walletOfUser (rp_recipientId dto) s = Some w"
    and p: "posts s [debitOf (w_id w) (rp_amount dto), creditOf (sw_walletId sw) (rp_amount dto)] s'"
    and a: "rp_amount dto \<le> available s (w_id w)"
    by (rule reversePayout_posts [OF assms])
  have "\<forall>v. computeTotalBalance s' v = computeTotalBalance s v
          + (if v = sw_walletId sw then rp_amount dto else 0) - (if v = w_id w then rp_amount dto else 0)"
    by (auto simp: posts_total [OF p])
  then show ?thesis using f a by blast
qed

lemma reversal_moves_request_witness:
  "\<exists>w. walletOfUser ''bob'' paidOut = Some w \<and> 196000 \<le> available paidOut (w_id w)"
  using reversal_moves_request [OF succeeds_db [OF reversal_of_payout_runs]]
  by (auto simp: takeBack_def)

section \<open>The order of payout\<close>

text \<open>
  Ordering the members only rearranges them, under every payout logic, and the four comparison
  orders sort as they say: by joining time, by score (best first), by assigned position, by score and
  then joining time.
\<close>

lemma sorter_permutes:
  assumes "\<And>i. 0 \<le> rand i \<and> rand i < 1"
  shows "mset (sortMembers rand logic ms) = mset ms \<and>
    sorted (map joinedTime (sortMembers rand SEQUENTIAL ms)) \<and>
    sorted (map (\<lambda>m. - scoreOf m) (sortMembers rand TRUST_SCORE ms)) \<and>
    sorted (map positionOf (sortMembers rand ADMIN_ASSIGNED ms)) \<and>
    sorted (map (\<lambda>m. (- scoreOf m, joinedTime m)) (sortMembers rand COMBINED ms))"
  using mset_sortMembers [OF assms] sequential.jsSort_sorted [of ms] trustScore.jsSort_sorted [of ms]
    adminAssigned.jsSort_sorted [of ms] combined.jsSort_sorted [of ms]
  by (simp add: sortMembers_def)

lemma sorter_permutes_witness:
  "mset (sortMembers (\<lambda>_. 1 / 2) RANDOM_DRAW [(memberOf ''m1'' ''ada'' MS_ACTIVE 1, None)])
   = {#(memberOf ''m1'' ''ada'' MS_ACTIVE 1, None)#}"
  using sorter_permutes [of "\<lambda>_. 1 / 2" RANDOM_DRAW "[(memberOf ''m1'' ''ada'' MS_ACTIVE 1, None)]"]
  by simp

section \<open>Schedules\<close>

text \<open>
  C19: activating a circle schedules every active member exactly once, one cycle each, counted from 1;
  the deadlines follow the circle's frequency from the first one, each payout is a day after its
  deadline and never after the next deadline.
\<close>

theorem activation_schedules:
  assumes "activateCircle env rand cid t s = Inr (c, s')" and "\<And>i. 0 \<le> rand i \<and> rand i < 1"
  shows "\<exists>new. schedules s' = schedules s @ new \<and>
    mset (map cs_recipientId new) = mset (map (\<lambda>m. Some (m_userId m)) (activeMembers cid s)) \<and>
    map cs_cycleNumber new = map int [1..<length new + 1] \<and>
    (\<forall>j < length new. cs_circleId (new ! j) = cid \<and>
       cs_contributionDeadline (new ! j) = (addFrequency (tz env) (c_frequency c) ^^ j) t \<and>
       cs_payoutDate (new ! j) = cs_contributionDeadline (new ! j) + dayMs) \<and>
    (\<forall>j. j + 1 < length new \<longrightarrow> cs_payoutDate (new ! j) \<le> cs_contributionDeadline (new ! (j + 1)))"
  using activateCircle_schedules [OF assms] by (metis nth_mem)

lemma activation_runs:
  "\<not> isl (activateCircle env0 (\<lambda>_. 0) ''c1'' 1000000500000 (drafting MS_ACTIVE))"
  by (simp add: activateCircle_def generateSchedules_def insertSchedules_def fixture lookups
      activeMembers_def addFrequency_weekly sortMembers_def eval_nat_numeral Let_def updateCircleRow_def
      jsSort_def sequentialCmp_def joinedTime_def withTrust_def optNumber_def assignPositions_frame)

theorem activation_schedules_witness:
  "\<exists>new. schedules (stateOf (activateCircle env0 (\<lambda>_. 0) ''c1'' 1000000500000 (drafting MS_ACTIVE)))
       = schedules (drafting MS_ACTIVE) @ new \<and>
     map cs_cycleNumber new = map int [1..<length new + 1]"
proof -
  have "0 \<le> (0::rat) \<and> (0::rat) < 1" by simp
  from activation_schedules [OF succeeds [OF activation_runs] this] show ?thesis
    by (elim exE conjE) (rule exI, rule conjI)
qed

text \<open>
  A month later is the same local time on the same day of the next month, or on its last day when
  it is shorter; every frequency moves a date by at least a day.
\<close>

lemma monthly_clamps:
  "getMonth z (addFrequency z MONTHLY t) = (getMonth z t + 1) mod 12 \<and>
   getDate z (addFrequency z MONTHLY t) = min (getDate z t)
     (daysInMonth (getFullYear z t + (getMonth z t + 1) div 12) ((getMonth z t + 1) mod 12)) \<and>
   localTime z (addFrequency z MONTHLY t) = localTime z t \<and> t + msPerDay \<le> addFrequency z f t"
  by (intro conjI addFrequency_monthly addFrequency_day)

text \<open>
  The request check and the service agree on amounts: a string the check of the request accepts
  as a positive integer is one the service parses, to a positive number.
\<close>

lemma checked_amounts_parse:
  assumes "isPositiveIntegerString v"
  shows "\<exists>n. parseBigInt v = Inr n \<and> 0 < n"
  by (rule isPositiveIntegerString_parses [OF assms])

lemma checked_amounts_parse_witness: "\<exists>n. parseBigInt ''2500'' = Inr n \<and> 0 < n"
proof -
  have "isPositiveIntegerString ''2500''" by code_simp
  then show ?thesis by (rule checked_amounts_parse)
qed

section \<open>Memberships and collateral\<close>

text \<open>
  C18: every membership's collateral is held, in a bucket of its own, from the request to join until
  it is released: joining, leaving and cancelling a request keep that.
\<close>

theorem collateral_invariant:
  assumes "collateralHeld s"
  shows "(requestToJoin env uid cid s = Inr (m, s') \<longrightarrow> (\<forall>wid. bucketAmount wid (rnd env 0) s = None) \<longrightarrow>
      collateralHeld s' \<and> memberHeld s' m) \<and>
    (cancelJoinRequest env uid cid s = Inr s1 \<longrightarrow> collateralHeld s1) \<and>
    (leaveCircle env cid uid s = Inr s2 \<longrightarrow> collateralHeld s2)"
proof (intro conjI impI)
  assume j: "requestToJoin env uid cid s = Inr (m, s')" "\<forall>wid. bucketAmount wid (rnd env 0) s = None"
  then have h: "collateralHeld s'" using requestToJoin_held assms by blast
  have "m \<in> set (memberships s')" by (rule requestToJoin_posts [OF j(1)]) simp
  with h show "collateralHeld s'" "memberHeld s' m" by (simp_all add: collateralHeld_def)
qed (use cancelJoinRequest_held leaveCircle_held assms in blast)+

lemma drafting_held: "st \<noteq> MS_REJECTED \<Longrightarrow> collateralHeld (drafting st)"
  by (simp add: collateralHeld_def memberHeld_def holdsCollateral_def bucketAmount_def m_key_def
      walletOfUser_def fixture)

lemma bob_wallet: "walletOfUser ''bob'' (drafting st) = Some (walletFor ''wb'' ''bob'')"
  by (simp add: walletOfUser_def fixture)

lemma walletFor_id: "w_id (walletFor i u) = i"
  by (simp add: walletFor_def)

lemma leaving_runs: "\<not> isl (leaveCircle env0 ''c1'' ''bob'' (drafting MS_PENDING))"
  by code_simp

theorem collateral_invariant_witness:
  "collateralHeld (projr (leaveCircle env0 ''c1'' ''bob'' (drafting MS_PENDING)))"
  using collateral_invariant [OF drafting_held [of MS_PENDING]] succeeds_db [OF leaving_runs]
  by (metis membershipStatus.distinct)

text \<open>
  C26: a rejected member who leaves gets the collateral back a second time. Rejection releases it but
  leaves the row marked as holding it, and leaving releases it again: the member can spend twice the
  collateral more than before, out of a balance that has not changed.
\<close>

theorem rejected_member_released_twice:
  assumes "rejectMember env cid adm uid s = Inr (m, s1)" and "leaveCircle env' cid uid s1 = Inr s2"
    and "collateralHeld s" and "\<not> m_collateralReleased m" and "walletOfUser uid s = Some w"
  shows "available s2 (w_id w) = available s (w_id w) + 2 * m_collateralAmount m \<and>
    computeTotalBalance s2 (w_id w) = computeTotalBalance s (w_id w)"
  using reject_then_leave [OF assms] by simp

lemma rejection_runs:
  "\<not> isl (rejectMember env0 ''c1'' ''ada'' ''bob'' (drafting MS_PENDING))"
  "\<not> isl (leaveCircle env1 ''c1'' ''bob'' (stateOf (rejectMember env0 ''c1'' ''ada'' ''bob'' (drafting MS_PENDING))))"
  by code_simp+

theorem rejected_member_released_twice_witness:
  "available (projr (leaveCircle env1 ''c1'' ''bob''
      (stateOf (rejectMember env0 ''c1'' ''ada'' ''bob'' (drafting MS_PENDING))))) ''wb'' =
   available (drafting MS_PENDING) ''wb''
     + 2 * m_collateralAmount (valueOf (rejectMember env0 ''c1'' ''ada'' ''bob'' (drafting MS_PENDING)))"
proof -
  have "\<not> m_collateralReleased (valueOf (rejectMember env0 ''c1'' ''ada'' ''bob'' (drafting MS_PENDING)))"
    by code_simp
  then show ?thesis
    using rejected_member_released_twice [OF succeeds [OF rejection_runs(1)] succeeds_db [OF rejection_runs(2)]
        drafting_held [of MS_PENDING] _ bob_wallet]
    by (simp add: walletFor_id)
qed

end
