(* ===== verification/ScoreClaims.thy ===== *)
theory ScoreClaims
  imports Scenario
begin

text \<open>
  Properties of the trust score, the credit score and the loans, each with a witness on the fixture of
  \<open>Scenario\<close>.
\<close>

section \<open>Trust\<close>

text \<open>
  C21: the trust table stays well-formed. Whatever event is applied to a user, counters stay
  consistent (payments expected = on time + late + missed, the rating average between 0 and 5), and
  every stored score lies between 0 and 95, so the score shown to users lies between 300 and 823.
\<close>

theorem trustTable_invariant:
  assumes "updateTrustScore env uid ev s = Inr s'" and "trustTableWf s" and "validTrustEvent ev"
    and "\<forall>u \<in> set (users s). u_createdAt u \<le> now env"
  shows "trustTableWf s' \<and> (\<forall>v. 300 \<le> snd (getTrustScore v s') \<and> snd (getTrustScore v s') \<le> 823)"
proof -
  have wf: "trustTableWf s'" by (rule updateTrustScore_wf [OF assms])
  have "0 \<le> ts_trustScore st \<and> ts_trustScore st \<le> 95" if "trustStatsOf v s' = Some st" for v st
    using wf trustStatsOf_userId [OF that] by (auto simp: trustTableWf_def trustScoreWf_def)
  then have "300 \<le> snd (getTrustScore v s') \<and> snd (getTrustScore v s') \<le> 823" for v
    using displayScoreOf_bounds by (auto simp: getTrustScore_def split: option.splits)
  with wf show ?thesis by blast
qed

lemma trust_runs: "\<not> isl (updateTrustScore env0 ''ada'' (MissedPayment False) funded)"
  by (simp add: isl_updateTrustScore userById_def fixture)

theorem trustTable_invariant_witness:
  "trustTableWf (projr (updateTrustScore env0 ''ada'' (MissedPayment False) funded))"
  using trustTable_invariant [OF succeeds_db [OF trust_runs]]
  by (simp add: trustTableWf_def fixture)

text \<open>
  An on-time contribution never lowers a user's score, and a late or missed one never raises it.
\<close>

lemma score_follows_behaviour:
  assumes "trustWf st"
  shows "computeATI env st created \<le> computeATI env (applyTrustEvent (ContributionEv True post) st) created \<and>
    (badTrustEvent ev \<longrightarrow> computeATI env (applyTrustEvent ev st) created \<le> computeATI env st created)"
  using onTime_never_lowers [OF assms] badEvent_never_raises [OF assms] by auto

lemma score_follows_behaviour_witness:
  "computeATI env0 (applyTrustEvent (MissedPayment False) (newTrustStats env0 ''ada'')) 0
   \<le> computeATI env0 (newTrustStats env0 ''ada'') 0"
proof -
  have "trustWf (newTrustStats env0 ''ada'')" using newTrustStats_wf by (auto simp: trustScoreWf_def)
  moreover have "badTrustEvent (MissedPayment False)" by simp
  ultimately show ?thesis by (blast dest: score_follows_behaviour)
qed

section \<open>Credit and loans\<close>


text \<open>
  The composite credit score lies between 300 and 850 whatever the bureau answers, a better score
  never allows a smaller share of the payout, and no share exceeds one half.
\<close>

lemma credit_score_bounds:
  "300 \<le> fcs_finalScore (fst (getFinalCreditScore bureau uid s)) \<and>
   fcs_finalScore (fst (getFinalCreditScore bureau uid s)) \<le> 850 \<and>
   mono allowedPercentFor \<and> 0 \<le> allowedPercentFor n \<and> allowedPercentFor n \<le> 50"
  using finalScore_range allowedPercentFor_mono allowedPercentFor_range by (auto intro: monoI)

text \<open>
  The terms of a loan. Its borrower scores at least 550, it lends at most half of the expected
  payout, the fee is at most a tenth of it, and payout less loan and fee stays positive.
\<close>

lemma loan_terms:
  assumes "applyLoan env bureau uid cid s = (Inr l, s')"
  shows "550 \<le> ln_creditScoreUsed l \<and> 0 < ln_loanAmount l \<and> 2 * ln_loanAmount l \<le> ln_payoutAmount l \<and>
    0 \<le> ln_companyFee l \<and> 10 * ln_companyFee l \<le> ln_payoutAmount l \<and>
    ln_loanAmount l + ln_companyFee l < ln_payoutAmount l"
  using applyLoan_terms [OF assms] by blast

definition goodBureau :: bureau where
  "goodBureau k u = Some 800"

definition richCircle :: db where
  "richCircle = running\<lparr>allTrustStats := [(newTrustStats env0 ''ada'')\<lparr>ts_trustScore := 90\<rparr>]\<rparr>"

lemma loan_runs: "\<not> isl (fst (applyLoan env0 goodBureau ''ada'' ''c1'' richCircle))"
  by code_simp

lemma loan_terms_witness:
  "2 * ln_loanAmount (projr (fst (applyLoan env0 goodBureau ''ada'' ''c1'' richCircle)))
   \<le> ln_payoutAmount (projr (fst (applyLoan env0 goodBureau ''ada'' ''c1'' richCircle)))"
  using loan_terms [OF succeeds_pair [OF loan_runs]] by blast

text \<open>
  C17: no user ever has two active loans: applying keeps that, whether it succeeds or fails.
\<close>

theorem one_active_loan:
  assumes "oneActiveLoan s"
  shows "oneActiveLoan (snd (applyLoan env bureau uid cid s))"
  by (rule applyLoan_oneActive [OF assms])

theorem one_active_loan_witness:
  "oneActiveLoan (snd (applyLoan env0 goodBureau ''ada'' ''c1'' richCircle))"
  by (rule one_active_loan) (simp add: oneActiveLoan_def richCircle_def fixture)

text \<open>
  C28: a loan is paid out of nothing. Its disbursement credits the borrower's wallet and debits no
  other, so the money of any set of wallets that has the borrower's grows by the loan; its repayment
  touches no balance at all, so the deduction reaches no wallet.
\<close>

theorem loan_creates_money:
  assumes "applyLoan env bureau uid cid s = (Inr l, s')" and "walletOfUser uid s = Some w"
    and "finite W" and "w_id w \<in> W"
  shows "moneyOf W s' = moneyOf W s + ln_loanAmount l \<and>
    computeTotalBalance (snd (processLoanRepaymentInTx env uid cid pot s')) v = computeTotalBalance s' v"
proof (rule conjI)
  obtain c cs el where "issueLoan env uid cid el (s\<lparr>creditScores := cs\<rparr>) = Inr (l, s')"
    by (rule applyLoan_Inr [OF assms(1)])
  then obtain w' where w': "walletOfUser uid (s\<lparr>creditScores := cs\<rparr>) = Some w'"
    and p: "posts (s\<lparr>creditScores := cs\<rparr>) [creditOf (w_id w') (ln_loanAmount l)] s'"
    by (rule issueLoan_posts)
  have "w' = w" using w' assms(2) by (simp add: walletOfUser_def)
  then have "moneyOf W s' = moneyOf W (s\<lparr>creditScores := cs\<rparr>) + ln_loanAmount l"
    using posts_money [OF p assms(3)] assms(4) by simp
  then show "moneyOf W s' = moneyOf W s + ln_loanAmount l"
    by (simp add: moneyOf_def computeTotalBalance_def)
  obtain ls where "snd (processLoanRepaymentInTx env uid cid pot s') = s'\<lparr>loans := ls\<rparr>"
    using processLoanRepayment_state by blast
  then show "computeTotalBalance (snd (processLoanRepaymentInTx env uid cid pot s')) v = computeTotalBalance s' v"
    by (simp add: computeTotalBalance_def)
qed

theorem loan_creates_money_witness:
  "moneyOf {''wa''} (snd (applyLoan env0 goodBureau ''ada'' ''c1'' richCircle))
   = moneyOf {''wa''} richCircle + ln_loanAmount (projr (fst (applyLoan env0 goodBureau ''ada'' ''c1'' richCircle)))"
  using loan_creates_money [OF succeeds_pair [OF loan_runs], of "walletFor ''wa'' ''ada''" "{''wa''}"]
  by (simp add: richCircle_def fixture walletOfUser_def)

end
