(* ===== verification/Resets.thy ===== *)
theory Resets
  imports Posting
begin

text \<open>
  The wallet reset of \<^verbatim>\<open>src/modules/superadmin/superadmin-analytics.service.ts\<close>: a superadmin takes
  what is available off a wallet with a debit of its own kind, and puts it back with the reversal of
  that debit.  The two calls of \<^verbatim>\<open>Date.now()\<close> of a reset may differ.
\<close>

section \<open>The operations\<close>

definition resetEntry :: "string \<Rightarrow> int \<Rightarrow> int \<Rightarrow> int \<Rightarrow> entryParams" where
  "resetEntry walletId tokenTime refTime amount =
     \<lparr>wp_walletId = walletId, wp_entryType = DEBIT, wp_movementType = TRANSFER, wp_bucketType = None,
      wp_amount = amount,
      wp_reference = ''ADMIN-WALLET-RESET-'' @ walletId @ ''-'' @ showInt refTime,
      wp_sourceType = ST_ADMIN_ADJUSTMENT,
      wp_sourceId = ''wallet-reset-'' @ walletId @ ''-'' @ showInt tokenTime\<rparr>"

definition resetWalletBalance :: "env \<Rightarrow> int \<Rightarrow> string \<Rightarrow> db \<Rightarrow> (ledgerEntry \<times> db) result" where
  "resetWalletBalance env refTime walletId s =
     bindE (orThrow (NotFound ''Wallet not found'') (walletById walletId s)) (\<lambda>_.
     let avail = bal_available (getDetailedBalance s walletId) in
     bindE (ensure (0 < avail) (BadRequest ''Wallet has no available balance to reset'')) (\<lambda>_.
     writeEntry (rnd env 0) (resetEntry walletId (now env) refTime avail) s))"

definition isResetEntry :: "ledgerEntry \<Rightarrow> bool" where
  "isResetEntry e \<longleftrightarrow>
     le_entryType e = DEBIT \<and> le_movementType e = TRANSFER \<and> le_sourceType e = ST_ADMIN_ADJUSTMENT"

text \<open>\<^verbatim>\<open>existingReversal\<close>\<close>

definition reversalOf :: "ledgerEntry \<Rightarrow> db \<Rightarrow> ledgerEntry option" where
  "reversalOf entry s =
     findFirst (\<lambda>e. le_walletId e = le_walletId entry \<and> le_reference e = ''REV-'' @ le_reference entry \<and>
       le_sourceType e = le_sourceType entry \<and> le_sourceId e = le_sourceId entry) (ledgerEntries s)"

definition undoWalletBalanceReset ::
  "env \<Rightarrow> string \<Rightarrow> string \<Rightarrow> db \<Rightarrow> (ledgerEntry \<times> db) result" where
  "undoWalletBalanceReset env walletId resetEntryId s =
     bindE (orThrow (NotFound ''Reset entry not found for this wallet'')
       (findFirst (\<lambda>e. le_id e = resetEntryId) (ledgerEntries s))) (\<lambda>entry.
     bindE (ensure (le_walletId entry = walletId)
       (NotFound ''Reset entry not found for this wallet'')) (\<lambda>_.
     bindE (ensure (isResetEntry entry)
       (BadRequest ''Only admin wallet reset entries can be undone'')) (\<lambda>_.
     bindE (ensure (reversalOf entry s = None)
       (BadRequest ''This reset has already been undone'')) (\<lambda>_.
     createReversalEntry (rnd env 0) resetEntryId s))))"

section \<open>Facts\<close>

lemma resetWalletBalance_Inr:
  assumes "resetWalletBalance env t wid s = Inr (e, s')"
  shows "writeEntry (rnd env 0) (resetEntry wid (now env) t (available s wid)) s = Inr (e, s')"
    and "0 < available s wid" and "walletById wid s \<noteq> None"
  using assms by (auto simp: resetWalletBalance_def result_simps Let_def)

text \<open>A reset leaves nothing available, what is reserved untouched and every other wallet as it was.\<close>

lemma reset_balances:
  assumes "resetWalletBalance env t wid s = Inr (e, s')"
  shows "available s' v = (if v = wid then 0 else available s v)"
    and "totalReserved s' v = totalReserved s v"
    and "computeTotalBalance s' v = computeTotalBalance s v - (if v = wid then available s wid else 0)"
proof -
  note w = resetWalletBalance_Inr(1) [OF assms]
  show t: "computeTotalBalance s' v = computeTotalBalance s v - (if v = wid then available s wid else 0)"
    using writeEntry_total [OF w, of v] by (simp add: resetEntry_def)
  show r: "totalReserved s' v = totalReserved s v"
    using writeEntry_reserved [OF w, of v] by (simp add: resetEntry_def reserveChange_def)
  show "available s' v = (if v = wid then 0 else available s v)"
    using t r by (simp add: available_def)
qed

lemma reset_entry:
  assumes "resetWalletBalance env t wid s = Inr (e, s')"
  shows "isResetEntry e" and "le_id e = rnd env 0" and "le_walletId e = wid"
    and "le_amount e = available s wid" and "ledgerEntries s' = e # ledgerEntries s"
    and "le_bucketType e = Some BT_MAIN"
  using resetWalletBalance_Inr(1) [OF assms]
  by (auto simp: writeEntry_Inr_iff writtenEntry_def writtenState_def resetEntry_def isResetEntry_def)

text \<open>An undo credits the wallet of the reset with its amount.\<close>

lemma undo_Inr:
  assumes "undoWalletBalanceReset env wid eid s = Inr (r, s')"
  obtains e where "findFirst (\<lambda>x. le_id x = eid) (ledgerEntries s) = Some e" and "le_id e = eid"
    and "le_walletId e = wid" and "isResetEntry e" and "reversalOf e s = None"
    and "writeEntry (rnd env 0)
       \<lparr>wp_walletId = wid, wp_entryType = CREDIT, wp_movementType = TRANSFER,
        wp_bucketType = le_bucketType e, wp_amount = le_amount e,
        wp_reference = ''REV-'' @ le_reference e, wp_sourceType = ST_ADMIN_ADJUSTMENT,
        wp_sourceId = le_sourceId e\<rparr> s = Inr (r, s')"
proof -
  from assms obtain e where e: "findFirst (\<lambda>x. le_id x = eid) (ledgerEntries s) = Some e"
    "le_walletId e = wid" "isResetEntry e" "reversalOf e s = None"
    and c: "createReversalEntry (rnd env 0) eid s = Inr (r, s')"
    by (auto simp: undoWalletBalanceReset_def result_simps)
  have "le_id e = eid" using find_SomeD [OF e(1)] by simp
  moreover have "writeEntry (rnd env 0)
       \<lparr>wp_walletId = wid, wp_entryType = CREDIT, wp_movementType = TRANSFER,
        wp_bucketType = le_bucketType e, wp_amount = le_amount e,
        wp_reference = ''REV-'' @ le_reference e, wp_sourceType = ST_ADMIN_ADJUSTMENT,
        wp_sourceId = le_sourceId e\<rparr> s = Inr (r, s')"
    using c e by (simp add: createReversalEntry_def isResetEntry_def)
  ultimately show thesis using that e by blast
qed

lemma undo_total:
  assumes "undoWalletBalanceReset env wid eid s = Inr (r, s')"
    and "findFirst (\<lambda>x. le_id x = eid) (ledgerEntries s) = Some e"
  shows "computeTotalBalance s' v = computeTotalBalance s v + (if v = wid then le_amount e else 0)"
    and "totalReserved s' v = totalReserved s v"
    and "available s' v = available s v + (if v = wid then le_amount e else 0)"
proof -
  from assms(1) obtain e' where "findFirst (\<lambda>x. le_id x = eid) (ledgerEntries s) = Some e'"
    and "writeEntry (rnd env 0)
       \<lparr>wp_walletId = wid, wp_entryType = CREDIT, wp_movementType = TRANSFER,
        wp_bucketType = le_bucketType e', wp_amount = le_amount e',
        wp_reference = ''REV-'' @ le_reference e', wp_sourceType = ST_ADMIN_ADJUSTMENT,
        wp_sourceId = le_sourceId e'\<rparr> s = Inr (r, s')"
    by (rule undo_Inr)
  with assms(2) have w: "writeEntry (rnd env 0)
       \<lparr>wp_walletId = wid, wp_entryType = CREDIT, wp_movementType = TRANSFER,
        wp_bucketType = le_bucketType e, wp_amount = le_amount e,
        wp_reference = ''REV-'' @ le_reference e, wp_sourceType = ST_ADMIN_ADJUSTMENT,
        wp_sourceId = le_sourceId e\<rparr> s = Inr (r, s')"
    by simp
  show t: "computeTotalBalance s' v = computeTotalBalance s v + (if v = wid then le_amount e else 0)"
    using writeEntry_total [OF w, of v] by simp
  show r: "totalReserved s' v = totalReserved s v"
    using writeEntry_reserved [OF w, of v] by (simp add: reserveChange_def)
  show "available s' v = available s v + (if v = wid then le_amount e else 0)"
    using t r by (simp add: available_def)
qed

text \<open>
  The ledger only grows, so the entry of a reset is found again, and its reversal too: once undone, a
  reset stays undone.
\<close>

lemma find_later:
  assumes "findFirst (\<lambda>x. le_id x = i) es = Some e" and "distinct (map le_id (new @ es))"
  shows "findFirst (\<lambda>x. le_id x = i) (new @ es) = Some e"
proof -
  from find_SomeD [OF assms(1)] have "le_id e = i" and "e \<in> set (new @ es)" by simp_all
  then show ?thesis using find_unique [OF assms(2), of e] by simp
qed

lemma undo_once:
  assumes "undoWalletBalanceReset env wid eid s = Inr (r, s')"
    and "ledgerEntries t = new @ ledgerEntries s'" and "ledgerUnique t"
  shows "undoWalletBalanceReset env' wid eid t = Inl (BadRequest ''This reset has already been undone'')"
proof -
  from assms(1) obtain e where e: "findFirst (\<lambda>x. le_id x = eid) (ledgerEntries s) = Some e" "le_id e = eid"
      "le_walletId e = wid" "isResetEntry e" "reversalOf e s = None"
    and w: "writeEntry (rnd env 0)
       \<lparr>wp_walletId = wid, wp_entryType = CREDIT, wp_movementType = TRANSFER,
        wp_bucketType = le_bucketType e, wp_amount = le_amount e,
        wp_reference = ''REV-'' @ le_reference e, wp_sourceType = ST_ADMIN_ADJUSTMENT,
        wp_sourceId = le_sourceId e\<rparr> s = Inr (r, s')"
    by (rule undo_Inr)
  have led: "ledgerEntries s' = r # ledgerEntries s" by (rule writeEntry_frame(16) [OF w])
  have t: "ledgerEntries t = (new @ [r]) @ ledgerEntries s" using assms(2) led by simp
  have "distinct (map le_id ((new @ [r]) @ ledgerEntries s))"
    using assms(3) unfolding ledgerUnique_def t by blast
  then have f: "findFirst (\<lambda>x. le_id x = eid) (ledgerEntries t) = Some e"
    unfolding t by (rule find_later [OF e(1)])
  have "r \<in> set (ledgerEntries t)" using t by simp
  moreover have "le_walletId r = wid \<and> le_reference r = ''REV-'' @ le_reference e \<and>
      le_sourceType r = le_sourceType e \<and> le_sourceId r = le_sourceId e"
    using w e(4) by (simp add: writeEntry_Inr_iff writtenEntry_def isResetEntry_def)
  ultimately have "reversalOf e t \<noteq> None"
    using e(3) by (auto simp: reversalOf_def find_None_eq)
  then show ?thesis
    using f e by (auto simp: undoWalletBalanceReset_def)
qed

text \<open>A reset that was not undone can be undone with any fresh identifier.\<close>

lemma undo_possible:
  assumes "findFirst (\<lambda>x. le_id x = eid) (ledgerEntries s) = Some e" and "isResetEntry e"
    and "le_bucketType e = Some BT_MAIN" and "0 < le_amount e" and "le_sourceId e \<noteq> ''''"
    and "reversalOf e s = None" and "rnd env 0 \<notin> le_id ` set (ledgerEntries s)"
  shows "\<exists>r s'. undoWalletBalanceReset env (le_walletId e) eid s = Inr (r, s')"
proof -
  let ?p = "\<lparr>wp_walletId = le_walletId e, wp_entryType = CREDIT, wp_movementType = TRANSFER,
        wp_bucketType = le_bucketType e, wp_amount = le_amount e,
        wp_reference = ''REV-'' @ le_reference e, wp_sourceType = ST_ADMIN_ADJUSTMENT,
        wp_sourceId = le_sourceId e\<rparr>"
  have "writeKey ?p \<notin> le_key ` set (ledgerEntries s)"
    using assms(2,6) by (auto simp: reversalOf_def find_None_eq writeKey_def le_key_def isResetEntry_def)
  then have "writeAllowed (rnd env 0) ?p s"
    using assms(3-5,7) by (simp add: writeAllowed_def)
  then have "writeEntry (rnd env 0) ?p s = Inr (writtenEntry (rnd env 0) ?p s, writtenState (rnd env 0) ?p s)"
    by (simp add: writeEntry_Inr_iff)
  then show ?thesis
    using assms(1,2,6) by (simp add: undoWalletBalanceReset_def createReversalEntry_def isResetEntry_def)
qed

end
