(* ===== verification/Platform.thy ===== *)
theory Platform
  imports Circle Membership Loans Funding Resets
begin

text \<open>
  The platform as a state machine: the requests the modelled services take, the state each leaves, and
  what holds of every state reached by any sequence of requests.  The parties outside the program, the
  payment provider, the bureau and the hash functions, are one record \<open>world\<close>.
\<close>

section \<open>Requests\<close>

record world =
  wo_bureau :: bureau
  wo_verifyHash :: "string \<Rightarrow> string \<Rightarrow> bool"
  wo_transfer :: transferProvider
  wo_verifySignature :: "string \<Rightarrow> bool"
  wo_verifyCharge :: chargeVerifier
  wo_initiate :: paymentProvider
  wo_verifyPayment :: paymentVerifier
  wo_random :: "nat \<Rightarrow> rat"

datatype request =
    GetWallet string
  | Reserve bucketParams
  | Release bucketParams
  | ReverseEntry string
  | CreateCircle string createCircleDto
  | UpdateCircle string string updateCircleDto
  | ConfigurePayouts string string updatePayoutConfigDto
  | Activate string int
  | RequestToJoin string string
  | LeaveCircle string string
  | CancelJoin string string
  | ApproveMember string string string
  | RejectMember string string string
  | CreateInvite string string string
  | RevokeInvite string string string
  | JoinByInvite string string
  | Contribute string string int
  | ProcessPayout string int
  | ReversePayout reversePayoutDto
  | RetryPayout string
  | SweepPayouts "nat \<Rightarrow> env"
  | ApplyLoan string string
  | FireTrustEvent string fireTrustEventDto
  | OpenCheckout string fundingDto
  | VerifyFunding string string
  | ReconcileFunding string string
  | RunFundingJob string verifyJob "string option"
  | QueueAtStartup
  | Withdraw string withdrawalDto
  | Webhook webhookPayload string
  | Settle settlementParams
  | ResetWallet int string
  | UndoReset string string

text \<open>An error rolls the transaction back.\<close>

definition commit :: "db \<Rightarrow> db result \<Rightarrow> db" where
  "commit s r = (case r of Inl e \<Rightarrow> s | Inr s' \<Rightarrow> s')"

definition committed :: "db \<Rightarrow> ('a \<times> db) result \<Rightarrow> db" where
  "committed s r = (case r of Inl e \<Rightarrow> s | Inr (x, s') \<Rightarrow> s')"

fun serve :: "world \<Rightarrow> env \<Rightarrow> request \<Rightarrow> db \<Rightarrow> db" where
  "serve w env (GetWallet uid) s = committed s (getOrCreateWallet env uid s)"
| "serve w env (Reserve b) s = commit s (reserveFunds env b s)"
| "serve w env (Release b) s = commit s (releaseFunds env b s)"
| "serve w env (ReverseEntry eid) s = committed s (createReversalEntry (rnd env 0) eid s)"
| "serve w env (CreateCircle adm d) s = committed s (createCircle env adm d s)"
| "serve w env (UpdateCircle cid uid d) s = committed s (updateCircle cid uid d s)"
| "serve w env (ConfigurePayouts cid adm d) s = committed s (updatePayoutConfiguration cid adm d s)"
| "serve w env (Activate cid t) s = committed s (activateCircle env (wo_random w) cid t s)"
| "serve w env (RequestToJoin uid cid) s = committed s (requestToJoin env uid cid s)"
| "serve w env (LeaveCircle cid uid) s = commit s (leaveCircle env cid uid s)"
| "serve w env (CancelJoin uid cid) s = commit s (cancelJoinRequest env uid cid s)"
| "serve w env (ApproveMember cid adm uid) s = committed s (approveMember env cid adm uid s)"
| "serve w env (RejectMember cid adm uid) s = committed s (rejectMember env cid adm uid s)"
| "serve w env (CreateInvite cid adm email) s = snd (createInvite env cid adm email s)"
| "serve w env (RevokeInvite cid i adm) s = commit s (revokeInvite cid i adm s)"
| "serve w env (JoinByInvite uid token) s = committed s (joinByInvite env uid token s)"
| "serve w env (Contribute uid cid n) s = committed s (makeContribution env uid cid n s)"
| "serve w env (ProcessPayout cid n) s = snd (processPayout env cid n s)"
| "serve w env (ReversePayout d) s = commit s (reversePayout env d s)"
| "serve w env (RetryPayout pid) s = snd (retryPayout env pid s)"
| "serve w env (SweepPayouts envs) s = processDuePayouts envs s"
| "serve w env (ApplyLoan uid cid) s = snd (applyLoan env (wo_bureau w) uid cid s)"
| "serve w env (FireTrustEvent uid d) s = committed s (fireTrustEvent env uid d s)"
| "serve w env (OpenCheckout uid d) s = snd (initializeFunding env (wo_initiate w) uid d s)"
| "serve w env (VerifyFunding uid ref) s = snd (verifyFunding env (wo_verifyPayment w) uid ref s)"
| "serve w env (ReconcileFunding ref adm) s =
     snd (manualReconcileByReference env (wo_verifyPayment w) ref adm s)"
| "serve w env (RunFundingJob name job token) s =
     snd (processJob env (wo_verifyPayment w) name job token s)"
| "serve w env QueueAtStartup s = enqueueStartupCatchUpJobs env s"
| "serve w env (Withdraw uid d) s =
     snd (initializeWithdrawal env (wo_verifyHash w) (wo_transfer w) uid d s)"
| "serve w env (Webhook payload hdr) s =
     snd (handleWebhook env (wo_verifySignature w) (wo_verifyCharge w) payload hdr s)"
| "serve w env (Settle p) s = snd (finalizeSettlement env p s)"
| "serve w env (ResetWallet t wid) s = committed s (resetWalletBalance env t wid s)"
| "serve w env (UndoReset wid eid) s = committed s (undoWalletBalanceReset env wid eid s)"

text \<open>What the checks of the requests and the documented behaviour of the provider give.\<close>

definition validRequest :: "request \<Rightarrow> bool" where
  "validRequest q \<longleftrightarrow> (case q of OpenCheckout uid d \<Rightarrow> 100 \<le> fd_amount d | _ \<Rightarrow> True)"

definition worldOk :: "world \<Rightarrow> bool" where
  "worldOk w \<longleftrightarrow> verifierOk (wo_verifyCharge w)"

inductive reachable :: "world \<Rightarrow> db \<Rightarrow> db \<Rightarrow> bool" for w s0 where
  started: "reachable w s0 s0"
| served: "reachable w s0 s \<Longrightarrow> validRequest q \<Longrightarrow> reachable w s0 (serve w env q s)"

section \<open>Services that only use the ledger\<close>

definition moves :: "db \<Rightarrow> db \<Rightarrow> bool" where
  "moves s s' \<longleftrightarrow> (\<exists>ps. posts s ps s') \<and> transactions s' = transactions s"

named_theorems moving \<open>operations that reach the wallets only through the ledger\<close>

lemma moves_refl [moving, simp]: "moves s s"
  unfolding moves_def using posts.finished by blast

lemma moves_trans: "moves s t \<Longrightarrow> moves t u \<Longrightarrow> moves s u"
  unfolding moves_def using posts_trans by metis

lemma moves_posts: "posts s ps s' \<Longrightarrow> transactions s' = transactions s \<Longrightarrow> moves s s'"
  unfolding moves_def by blast

lemma moves_same:
  "ledgerEntries t = ledgerEntries s \<Longrightarrow> walletBuckets t = walletBuckets s \<Longrightarrow>
   transactions t = transactions s \<Longrightarrow> moves s t"
  using posts_silent [OF sameLedgerI] by (rule moves_posts)

lemma moves_write: "writeEntry i p s = Inr (e, s') \<Longrightarrow> moves s s'"
  using moves_posts [OF posts_one] writeEntry_frame(3) by metis

text \<open>One entry, and columns of other tables.\<close>

lemma moves_write_then:
  "writeEntry i p s = Inr (e, s1) \<Longrightarrow> ledgerEntries t = ledgerEntries s1 \<Longrightarrow>
   walletBuckets t = walletBuckets s1 \<Longrightarrow> transactions t = transactions s1 \<Longrightarrow> moves s t"
  using moves_trans [OF moves_write moves_same] by blast

lemma commit_moves: "(\<And>s'. r = Inr s' \<Longrightarrow> moves s s') \<Longrightarrow> moves s (commit s r)"
  by (simp add: commit_def split: sum.splits)

lemma committed_moves: "(\<And>x s'. r = Inr (x, s') \<Longrightarrow> moves s s') \<Longrightarrow> moves s (committed s r)"
  by (simp add: committed_def split: sum.splits prod.splits)

lemma reserveFunds_moves [moving]: "reserveFunds env b s = Inr s' \<Longrightarrow> moves s s'"
  by (auto simp: reserveFunds_def result_simps intro: moves_write)

lemma releaseFunds_moves [moving]: "releaseFunds env b s = Inr s' \<Longrightarrow> moves s s'"
  by (auto simp: releaseFunds_def result_simps intro: moves_write)

lemma createReversalEntry_moves [moving]: "createReversalEntry i eid s = Inr (r, s') \<Longrightarrow> moves s s'"
  by (erule createReversalEntry_Inr) (rule moves_write)

lemma resetWalletBalance_moves [moving]: "resetWalletBalance env t wid s = Inr (e, s') \<Longrightarrow> moves s s'"
  by (rule moves_write) (rule resetWalletBalance_Inr(1))

lemma undoWalletBalanceReset_moves [moving]: "undoWalletBalanceReset env wid eid s = Inr (r, s') \<Longrightarrow> moves s s'"
  by (erule undo_Inr) (rule moves_write)

lemma getOrCreateWallet_moves [moving]: "getOrCreateWallet env uid s = Inr (w, s') \<Longrightarrow> moves s s'"
  using getOrCreateWallet_frame [of env uid s w s'] by (auto simp: sameLedger_def intro: moves_same)

lemma releaseMember_moves: "releaseMember env m s = Inr s' \<Longrightarrow> moves s s'"
  by (auto simp: releaseMember_def result_simps split: if_splits intro: moves_write)

lemma moves_then_same:
  "moves s s1 \<Longrightarrow> ledgerEntries t = ledgerEntries s1 \<Longrightarrow> walletBuckets t = walletBuckets s1 \<Longrightarrow>
   transactions t = transactions s1 \<Longrightarrow> moves s t"
  using moves_trans [OF _ moves_same] by blast

lemma leaveCircle_moves [moving]: "leaveCircle env cid uid s = Inr s' \<Longrightarrow> moves s s'"
  by (erule leaveCircle_Inr, drule releaseMember_moves, erule moves_then_same)
    (simp_all add: deleteMembership_def updateCircleRow_def)

lemma cancelJoinRequest_moves [moving]: "cancelJoinRequest env uid cid s = Inr s' \<Longrightarrow> moves s s'"
  by (auto simp: cancelJoinRequest_def result_simps deleteMembership_def dest!: releaseMember_moves
      elim!: moves_then_same)

lemma rejectMember_moves [moving]: "rejectMember env cid adm uid s = Inr (m, s') \<Longrightarrow> moves s s'"
  by (auto simp: rejectMember_def result_simps setMember_def dest!: releaseMember_moves
      elim!: moves_then_same)

lemma approveMember_moves [moving]: "approveMember env cid adm uid s = Inr (a, s') \<Longrightarrow> moves s s'"
  by (auto simp: approveMember_def result_simps Let_def setMember_def updateCircleRow_def
      intro!: moves_same)

lemma requestToJoin_moves [moving]: "requestToJoin env uid cid s = Inr (m, s') \<Longrightarrow> moves s s'"
  by (auto simp: requestToJoin_def result_simps Let_def insertMembership_def split: if_splits
      elim!: moves_write_then)

lemma joinByInvite_moves [moving]: "joinByInvite env uid token s = Inr (m, s') \<Longrightarrow> moves s s'"
  by (auto simp: joinByInvite_def result_simps Let_def insertMembership_def updateCircleRow_def
      split: if_splits elim!: moves_write_then)

lemma createInvite_moves [moving]: "moves s (snd (createInvite env cid adm email s))"
  by (auto simp: createInvite_def Let_def insertInvite_def split: option.splits if_splits
      intro!: moves_same)

lemma revokeInvite_moves [moving]: "revokeInvite cid i adm s = Inr s' \<Longrightarrow> moves s s'"
  by (auto simp: revokeInvite_def result_simps intro!: moves_same)

section \<open>Circles, contributions, payouts and loans\<close>

lemma createCircle_moves [moving]: "createCircle env adm d s = Inr (c, s') \<Longrightarrow> moves s s'"
  by (auto simp: createCircle_def result_simps Let_def insertCircle_def split: if_splits
      intro!: moves_same)

lemma updateCircle_moves [moving]: "updateCircle cid uid d s = Inr (c, s') \<Longrightarrow> moves s s'"
  by (auto simp: updateCircle_def result_simps updateCircleRow_def intro!: moves_same)

lemma applyWrites_frame: "applyWrites cid ws s = Inr s' \<Longrightarrow> \<exists>ms. s' = s\<lparr>memberships := ms\<rparr>"
proof (induction ws arbitrary: s)
  case Nil
  then have "s' = s\<lparr>memberships := memberships s\<rparr>" by simp
  then show ?case by blast
next
  case (Cons w ws)
  then obtain ms where "applyWrites cid ws (s\<lparr>memberships := ms\<rparr>) = Inr s'"
    by (auto simp: result_simps)
  from Cons.IH [OF this] show ?case by auto
qed

lemma updatePayoutConfiguration_moves [moving]:
  assumes "updatePayoutConfiguration cid adm d s = Inr (r, s')"
  shows "moves s s'"
proof -
  have "moves s (updateCircleRow cid f s)" for f
    by (rule moves_same) (simp_all add: updateCircleRow_def)
  moreover have "applyAssignments cid as t = Inr (r, s') \<Longrightarrow> moves t s'" for as t
    using applyWrites_frame
    by (fastforce simp: applyAssignments_def Let_def result_simps intro: moves_same)
  ultimately show ?thesis
    using assms moves_trans
    by (fastforce simp: updatePayoutConfiguration_def Let_def result_simps split: if_splits option.splits)
qed

lemma assignPositions_transactions: "transactions (assignPositions i ms s) = transactions s"
  by (induction i ms s rule: assignPositions.induct) simp_all

lemma activateCircle_moves [moving]:
  assumes "activateCircle env rand cid t s = Inr (c, s')"
  shows "moves s s'"
proof -
  have gen: "generateSchedules env rand cid t s1 = Inr (new, s2) \<Longrightarrow> moves s1 s2" for s1 new s2
    by (erule generateSchedules_Inr)
      (simp add: moves_same assignPositions_frame assignPositions_transactions)
  obtain f new s2 where g: "generateSchedules env rand cid t (updateCircleRow cid f s) = Inr (new, s2)"
    and "ledgerEntries s' = ledgerEntries s2" "walletBuckets s' = walletBuckets s2"
      "transactions s' = transactions s2"
    using assms by (auto simp: activateCircle_def Let_def result_simps audit_def)
  then have "moves (updateCircleRow cid f s) s'"
    using gen moves_then_same by metis
  moreover have "moves s (updateCircleRow cid f s)"
    by (rule moves_same) (simp_all add: updateCircleRow_def)
  ultimately show ?thesis using moves_trans by blast
qed

lemma updateTrustScore_moves: "updateTrustScore env uid ev s = Inr s' \<Longrightarrow> moves s s'"
  by (auto simp: updateTrustScore_Inr intro!: moves_same)

lemma fireTrustEvent_moves [moving]: "fireTrustEvent env uid d s = Inr (x, s') \<Longrightarrow> moves s s'"
  by (auto simp: fireTrustEvent_def result_simps intro: updateTrustScore_moves)

lemma penaltyEntries_moves: "penaltyEntries env u p a i s = Inr s' \<Longrightarrow> moves s s'"
  by (auto simp: penaltyEntries_def result_simps split: if_splits intro: moves_trans moves_write)

text \<open>The others have lemmas for their postings; what is left is that they keep the transactions.\<close>

lemmas tx_frames = writeEntry_frame(3)

lemma makeContribution_moves [moving]:
  assumes "makeContribution env uid cid n s = Inr (k, s')"
  shows "moves s s'"
proof -
  have "transactions s' = transactions s"
    using assms
    by (auto simp: makeContribution_def penaltyEntries_def insertContribution_def updateTrustScore_Inr
        Let_def result_simps split: if_splits dest!: tx_frames)
  then show ?thesis
    using makeContribution_posts [OF assms] moves_posts by metis
qed

lemma releaseCollaterals_transactions:
  "releaseCollaterals env k ms s = Inr s' \<Longrightarrow> transactions s' = transactions s"
proof (induction ms arbitrary: k s)
  case (Cons m ms)
  then show ?case
    by (fastforce simp: result_simps split: option.splits dest: tx_frames)
qed simp

lemma processPayoutTx_moves:
  assumes "processPayoutTx env cid n s = Inr (r, s')"
  shows "moves s s'"
proof -
  have mv: "payoutMovements env a b p q fee t = Inr (x, t') \<Longrightarrow> transactions t' = transactions t"
    for a b p q fee t x t'
    by (auto simp: payoutMovements_def feeEntry_def result_simps split: if_splits dest!: tx_frames)
  have fin: "finalizeCircleAndReleaseCollateral env k cid t = Inr t' \<Longrightarrow> transactions t' = transactions t"
    for k t t'
    by (auto simp: finalizeCircleAndReleaseCollateral_def result_simps audit_def updateCircleRow_def
        dest!: releaseCollaterals_transactions)
  obtain rid x s1 a b p q fee ids s2 sch row
    where "processLoanRepaymentInTx env rid cid (potOf cid n s) s = (x, s1)"
      and m: "payoutMovements env a b p q fee s1 = Inr (ids, s2)"
      and f: "(if pres_isLastCycle r
          then finalizeCircleAndReleaseCollateral env 7 cid (completeSchedule sch row s2)
          else Inr (completeSchedule sch row s2)) = Inr s'"
    using processPayoutTx_Inr [OF assms] by metis
  then have "transactions s1 = transactions s"
    using processLoanRepayment_frame by fastforce
  moreover have "transactions s' = transactions (completeSchedule sch row s2)"
    using f fin by (auto split: if_splits)
  ultimately have "transactions s' = transactions s"
    using mv [OF m] by (simp add: completeSchedule_def)
  then show ?thesis
    using processPayoutTx_posts [OF assms] moves_posts by metis
qed

lemma processPayout_moves [moving]: "moves s (snd (processPayout env cid n s))"
proof (cases "processPayoutTx env cid n s")
  case (Inl e)
  then show ?thesis by (simp add: processPayout_def transaction_def)
next
  case (Inr x)
  then obtain r s1 where tx: "processPayoutTx env cid n s = Inr (r, s1)" by (cases x) simp
  obtain ev where ev: "enqueueTransactionEvent (pres_recipientId r) (pres_amount r) (pres_payoutId r) s1
      = s1\<lparr>walletEvents := ev\<rparr>"
    using enqueue_frame by blast
  have "trustOnly (s1\<lparr>walletEvents := ev\<rparr>) (snd (processPayout env cid n s))"
    by (simp add: processPayout_def transaction_def tx ev recordMissedContributions_def tryTrust_fold_frame Let_def)
  then obtain st where "snd (processPayout env cid n s) = s1\<lparr>walletEvents := ev, allTrustStats := st\<rparr>"
    by (auto simp: trustOnly_def)
  then show ?thesis
    using moves_then_same [OF processPayoutTx_moves [OF tx]] by simp
qed

lemma retryPayout_moves [moving]: "moves s (snd (retryPayout env pid s))"
  by (auto simp: retryPayout_def processPayout_moves split: option.splits)

lemma processDuePayouts_moves [moving]: "moves s (processDuePayouts envs s)"
proof -
  have one: "moves t (processDue env due t)" for env due t
    using processPayout_moves [of t env "cs_circleId due" "cs_cycleNumber due"]
    by (auto simp: processDue_def logPayoutFailure_def audit_def split: prod.splits sum.splits
        elim!: moves_then_same)
  have "moves t (processAll envs k ds t)" for k ds t
  proof (induction ds arbitrary: k t)
    case (Cons d ds)
    then show ?case using moves_trans [OF one Cons.IH] by simp
  qed simp
  then show ?thesis by (simp add: processDuePayouts_def)
qed

lemma reversePayout_moves [moving]:
  assumes "reversePayout env d s = Inr s'"
  shows "moves s s'"
proof -
  have "transactions s' = transactions s"
    using assms
    by (auto simp: reversePayout_def Let_def result_simps setScheduleStatus_def audit_def dest!: tx_frames)
  then show ?thesis
    using reversePayout_posts [OF assms] moves_posts by metis
qed

lemma applyLoan_moves [moving]: "moves s (snd (applyLoan env bureau uid cid s))"
proof -
  have issue: "issueLoan env uid cid el t = Inr (l, t') \<Longrightarrow> moves t t'" for el t l t'
  proof -
    assume i: "issueLoan env uid cid el t = Inr (l, t')"
    then have "transactions t' = transactions t"
      by (auto simp: issueLoan_def Let_def result_simps insertLoan_def split: if_splits dest!: tx_frames)
    then show ?thesis using issueLoan_posts [OF i] moves_posts by metis
  qed
  have tr: "moves t (snd (transaction (issueLoan env uid cid el) t))" for el t
    using issue by (cases "issueLoan env uid cid el t") (auto simp: transaction_def)
  have elig: "creditEligibility bureau uid cid s = Inr (el, s1) \<Longrightarrow> moves s s1" for el s1
    by (auto simp: creditEligibility_def getFinalCreditScore_def upsertCreditScore_def Let_def result_simps
        split: if_splits option.splits prod.splits intro!: moves_same)
  show ?thesis
    using elig tr moves_trans by (fastforce simp: applyLoan_def split: option.splits sum.splits)
qed


lemma moves_txKept: "moves s s' \<Longrightarrow> txKept s s'"
  by (simp add: moves_def txKept_same)

section \<open>The payment services\<close>

text \<open>What every state keeps: a sound ledger and unique transactions without negative amounts.\<close>

definition sound :: "db \<Rightarrow> bool" where
  "sound s \<longleftrightarrow> ledgerChained s \<and> ledgerUnique s \<and> transactionsUnique s \<and> amountsOk s"

definition keeps :: "db \<Rightarrow> db \<Rightarrow> bool" where
  "keeps s s' \<longleftrightarrow> (\<exists>ps. posts s ps s') \<and> txKept s s'"

lemma keeps_moves: "moves s s' \<Longrightarrow> keeps s s'"
  unfolding keeps_def moves_def using txKept_same by blast

lemma keeps_refl [simp]: "keeps s s"
  by (rule keeps_moves) simp

lemma keeps_trans: "keeps s t \<Longrightarrow> keeps t u \<Longrightarrow> keeps s u"
  unfolding keeps_def using posts_trans txKept_trans by metis

lemma keeps_silent: "sameLedger s s' \<Longrightarrow> txKept s s' \<Longrightarrow> keeps s s'"
  unfolding keeps_def using posts_silent by blast

lemma keeps_sound: "keeps s s' \<Longrightarrow> sound s \<Longrightarrow> sound s'"
  unfolding keeps_def sound_def txKept_def using posts_chained posts_unique by blast

lemma keeps_once: "creditedAtMostOnce s s' \<Longrightarrow> txKept s s' \<Longrightarrow> keeps s s'"
  unfolding keeps_def creditedAtMostOnce_def by blast

lemma finalizeSettlement_amounts:
  assumes "finalizeSettlement env p s = (r, s')" and "amountsOk s"
  shows "amountsOk s'"
proof (cases r)
  case (Inl e)
  then have "s' = s"
    using assms transaction_rollback by (metis finalizeSettlement_def fst_conv snd_conv)
  then show ?thesis using assms(2) by simp
next
  case (Inr x)
  then have "finalizeSettlementTx env p s = Inr (x, s')"
    using assms(1) by (simp add: finalizeSettlement_def transaction_Inr)
  then show ?thesis
  proof (cases rule: finalizeSettlementTx_cases)
    case duplicate
    then show ?thesis using assms(2) by simp
  next
    case (ignored s1)
    then show ?thesis
      using assms(2) amountsOk_cong [OF createWebhookEvent_frame(2)] by simp
  next
    case (refused s1 t)
    have "amountsOk s1" using amountsOk_cong [OF createWebhookEvent_frame(2) [OF refused(2)]] assms(2) by simp
    then show ?thesis
      using refused(6) by (auto simp: markTransactionFailed_def intro: amountsOk_update)
  next
    case (settled s1 s2 t e)
    have "amountsOk s1" using amountsOk_cong [OF createWebhookEvent_frame(2) [OF settled(2)]] assms(2) by simp
    then have s2: "amountsOk s2" using amountsOk_cong [OF writeEntry_frame(3) [OF settled(6)]] by simp
    have "0 \<le> t_amount t" by (rule amountsOk_reference [OF assms(2) settled(3)])
    then show ?thesis
      using s2 settled(5,7)
      by (auto simp: finalizeTransaction_def Let_def updateTransaction_Inr amountsOk_def
          dest!: in_set_updateRow)
  qed
qed

lemma finalizeSettlement_keeps:
  assumes "sound s"
  shows "keeps s (snd (finalizeSettlement env p s))"
proof -
  obtain r s' where e: "finalizeSettlement env p s = (r, s')" by fastforce
  have u: "transactionsUnique s" using assms by (simp add: sound_def)
  have "\<exists>ps. posts s ps s'"
    using finalizeSettlement_posts [OF e] posts_silent
    by (auto split: sum.splits settlement.splits)
  moreover have "amountsOk s'" if "amountsOk s"
    using that e finalizeSettlement_amounts by (metis snd_conv)
  ultimately show ?thesis
    using finalizeSettlement_final [OF e u] e by (simp add: keeps_def txKept_def)
qed

lemma handleWebhook_keeps:
  assumes "sound s" and "verifierOk verify"
  shows "keeps s (snd (handleWebhook env sig verify payload hdr s))"
proof -
  obtain r s' where e: "handleWebhook env sig verify payload hdr s = (r, s')" by fastforce
  from handleWebhook_effect [OF e] assms show ?thesis
    unfolding e snd_conv keeps_def txKept_def sound_def by blast
qed

lemma reconcileByReference_keeps:
  assumes "sound s"
  shows "keeps s (snd (reconcileByReference env verify ref actor src s))"
proof (cases "\<exists>t. transactionByReference (trim ref) s = Some t \<and> t_status t = TS_PENDING")
  case True
  then obtain t where t: "transactionByReference (trim ref) s = Some t" "t_status t = TS_PENDING" by blast
  obtain r s' where e: "reconcilePendingTransaction env verify t
      \<lparr>rc_source = src, rc_actorId = Some actor\<rparr> s = (r, s')" by fastforce
  have a: "0 \<le> t_amount t"
    using amountsOk_reference [OF _ t(1)] assms by (simp add: sound_def)
  have l: "ledgerChained s" "transactionsUnique s" using assms by (simp_all add: sound_def)
  have "keeps s s'"
    using reconcilePendingTransaction_effect [where verify = verify, OF e l(2) a]
      reconciledAs_once [OF _ a] keeps_once by blast
  then show ?thesis
    using t e by (simp add: reconcileByReference_def)
next
  case False
  then have "snd (reconcileByReference env verify ref actor src s) = s"
    by (auto simp: reconcileByReference_def Let_def split: option.splits)
  then show ?thesis by simp
qed

lemma verifyFunding_keeps:
  assumes "sound s"
  shows "keeps s (snd (verifyFunding env verify uid ref s))"
  using reconcileByReference_keeps [OF assms]
  by (auto simp: verifyFunding_def split: option.splits prod.splits sum.splits) (metis snd_conv)+

lemma manualReconcile_keeps:
  assumes "sound s"
  shows "keeps s (snd (manualReconcileByReference env verify ref adm s))"
  using reconcileByReference_keeps [OF assms] by (simp add: manualReconcileByReference_def)

lemma processJob_keeps:
  assumes "sound s"
  shows "keeps s (snd (processJob env verify name job token s))"
proof -
  obtain r s' where e: "processQueuedVerification env verify job token s = (r, s')" by fastforce
  from processQueuedVerification_effect [OF e] assms show ?thesis
    by (simp add: processJob_def e keeps_once sound_def)
qed

lemma enqueueStartup_keeps: "keeps s (enqueueStartupCatchUpJobs env s)"
proof -
  obtain q where "enqueueStartupCatchUpJobs env s = s\<lparr>fundingQueue := q\<rparr>"
    using enqueueStartupCatchUpJobs_fold [where s = s and env = env]
    unfolding enqueueStartupCatchUpJobs_def by metis
  then show ?thesis
    using keeps_moves [OF moves_same] by simp
qed

text \<open>A row that a request has inserted itself may change within the request.\<close>

lemma insert_then_change:
  assumes "transactions s1 = transactions s @ [t]" and "transactionsUnique s1"
    and "transactions s' = updateRow (\<lambda>x. t_id x = t_id t) f (transactions s1)"
    and "\<And>x. t_id (f x) = t_id x" and "\<And>x. t_reference (f x) = t_reference x"
    and "\<And>x. t_amount (f x) = t_amount x" and "0 \<le> t_amount t"
  shows "txKept s s'"
proof -
  have fresh: "\<forall>x \<in> set (transactions s). t_id x \<noteq> t_id t"
    using assms(1,2) by (force simp: transactionsUnique_def image_iff)
  have upd: "updateRow (\<lambda>x. t_id x = t_id t) f (xs @ [t]) = xs @ [f t]"
    if "\<forall>x \<in> set xs. t_id x \<noteq> t_id t" for xs
    using that by (induction xs) auto
  have s': "transactions s' = transactions s @ [f t]"
    using assms(1,3) upd [OF fresh] by simp
  show ?thesis
    using s' assms(2,4-7) assms(1)
    by (auto simp: txKept_def finalKept_def transactionById_def find_append transactionsUnique_def amountsOk_def)
qed

lemma insert_txKept:
  assumes "transactions s1 = transactions s @ [t]" and "transactionsUnique s \<Longrightarrow> transactionsUnique s1"
    and "finalKept s s1" and "0 \<le> t_amount t"
  shows "txKept s s1"
  using assms by (auto simp: txKept_def amountsOk_def)

lemma finishFunding_transactions:
  obtains "transactions (snd (finishFunding env initiate uid dto t s)) = transactions s"
      "sameLedger s (snd (finishFunding env initiate uid dto t s))"
    | f where "transactions (snd (finishFunding env initiate uid dto t s))
        = updateRow (\<lambda>x. t_reference x = t_reference t) f (transactions s)"
      "\<And>x. t_id (f x) = t_id x" "\<And>x. t_reference (f x) = t_reference x"
      "\<And>x. t_amount (f x) = t_amount x" "sameLedger s (snd (finishFunding env initiate uid dto t s))"
proof -
  consider "snd (finishFunding env initiate uid dto t s) = s"
    | "snd (finishFunding env initiate uid dto t s) = scheduleInitialVerification env (t_reference t) s"
    | reason x s1 where "markAsFailed env (t_reference t) reason s = Inr (x, s1)"
        "snd (finishFunding env initiate uid dto t s) = s1"
    by (fastforce simp: finishFunding_def split: sum.splits option.splits prod.splits)
  then show thesis
  proof cases
    case 2
    then obtain q where "snd (finishFunding env initiate uid dto t s) = s\<lparr>fundingQueue := q\<rparr>"
      using scheduleVerification_queueOnly unfolding scheduleInitialVerification_def by metis
    then show thesis using that(1) by (simp add: sameLedger_def)
  next
    case 3
    show thesis
    proof (cases "transactionByReference (t_reference t) s")
      case None
      then show thesis using 3 that(1) by (simp add: markAsFailed_def sameLedger_def)
    next
      case (Some r)
      obtain f :: "transactionRow \<Rightarrow> transactionRow"
        where "s1 = s\<lparr>transactions := updateRow (\<lambda>x. t_reference x = t_reference t) f (transactions s)\<rparr>"
        and "\<And>x. t_id (f x) = t_id x" "\<And>x. t_reference (f x) = t_reference x" "\<And>x. t_amount (f x) = t_amount x"
        using 3(1) Some by (auto simp: markAsFailed_def Let_def)
      then show thesis using that(2) [of f] 3(2) by (simp add: sameLedger_def)
    qed
  qed (use that(1) in \<open>simp add: sameLedger_def\<close>)
qed

lemma initializeFunding_keeps:
  assumes "sound s" and "100 \<le> fd_amount d"
  shows "keeps s (snd (initializeFunding env initiate uid d s))"
proof (cases "getOrCreateWallet (env\<lparr>rnd := (\<lambda>k. rnd env (k + 2))\<rparr>) uid s")
  case (Inr x)
  obtain w s1 where x: "x = (w, s1)" by fastforce
  then have k1: "keeps s s1" using getOrCreateWallet_moves Inr keeps_moves by blast
  have sound1: "sound s1" by (rule keeps_sound [OF k1 assms(1)])
  show ?thesis
  proof (cases "recordFunding env uid d w s1")
    case (Inr y)
    obtain t s2 where y: "y = (t, s2)" by fastforce
    let ?s' = "snd (finishFunding env initiate uid d t s2)"
    note rec = recordFunding_Inr [OF Inr [unfolded y]]
    have a: "0 \<le> t_amount t" using rec assms(2) by simp
    have u2: "transactionsUnique s2" using rec(4) sound1 by (simp add: sound_def)
    have k2: "txKept s1 s2" by (rule insert_txKept [OF rec(1,4,3) a])
    have "txKept s1 ?s' \<and> sameLedger s2 ?s'"
    proof (cases rule: finishFunding_transactions [of env initiate uid d t s2])
      case 1
      then show ?thesis using txKept_trans [OF k2 txKept_same] by simp
    next
      case (2 f)
      have "t \<in> set (transactions s2)" using rec(1) by simp
      then have "transactions ?s' = updateRow (\<lambda>x. t_id x = t_id t) f (transactions s2)"
        using 2(1) updateByReference [OF u2] by simp
      then show ?thesis using insert_then_change [OF rec(1) u2 _ 2(2-4) a] 2(5) by blast
    qed
    moreover have "sameLedger s1 ?s'" using calculation rec(2) by (simp add: sameLedger_def)
    ultimately have "keeps s1 ?s'" using keeps_silent by blast
    moreover have "snd (initializeFunding env initiate uid d s) = ?s'"
      using \<open>getOrCreateWallet _ _ _ = Inr x\<close> Inr x y by (simp add: initializeFunding_def)
    ultimately show ?thesis using keeps_trans [OF k1] by simp
  qed (use Inr x k1 in \<open>simp add: initializeFunding_def\<close>)
qed (simp add: initializeFunding_def)

lemma transferFailed_keeps:
  assumes "sound s" and "transactionById (t_id t) s = Some t" and "t_status t = TS_PENDING" and "0 \<le> t_amount t"
  shows "keeps s (snd (transferFailed env w t message s))"
proof (cases "fst (createWithdrawalReversal env (t_id t) (w_id w) (t_amount t) (t_reference t)
    (''FLW initiation failed: '' @ (if message = '''' then ''Unknown FLW error'' else message)) s)")
  case Inl
  then show ?thesis
    by (auto simp: transferFailed_def Let_def createWithdrawalReversal_def transaction_def split: sum.splits)
next
  case (Inr x)
  then obtain s' where r: "reversalTx env (t_id t) (w_id w) (t_amount t) (t_reference t)
      (''FLW initiation failed: '' @ (if message = '''' then ''Unknown FLW error'' else message)) s = Inr (x, s')"
    by (auto simp: createWithdrawalReversal_def transaction_def split: sum.splits)
  have l: "ledgerChained s" "transactionsUnique s" using assms(1) by (simp_all add: sound_def)
  obtain e s1 and f :: "transactionRow \<Rightarrow> transactionRow" where ent: "createLedgerEntry e s = Inr s1"
    and upd: "updateTransaction (t_id t) f s1 = Inr s'" and f: "\<And>t. t_amount (f t) = t_amount t"
    using r by (auto simp: reversalTx_def Let_def result_simps)
  have "amountsOk s'" if "amountsOk s"
    by (rule amountsOk_update [OF upd f]) (use ent that in \<open>auto simp: createLedgerEntry_Inr amountsOk_def\<close>)
  moreover have "finalKept s s' \<and> transactionsUnique s'"
    by (rule reversalTx_final [OF r l(2)]) (use assms(2,3) in simp)
  ultimately have "txKept s s'" by (simp add: txKept_def)
  moreover have "\<exists>ps. posts s ps s'" using reversalTx_Inr [OF r l(1) assms(4,2)] by blast
  moreover have "snd (transferFailed env w t message s) = s'"
    using r by (auto simp: transferFailed_def Let_def createWithdrawalReversal_def transaction_def split: if_splits)
  ultimately show ?thesis by (simp add: keeps_def)
qed

lemma initializeWithdrawal_keeps:
  assumes "sound s"
  shows "keeps s (snd (initializeWithdrawal env verifyHash transfer uid d s))"
proof (cases "startWithdrawal env verifyHash uid d s")
  case (Inr x)
  obtain w t s1 where x: "x = ((w, t), s1)" by (cases x) auto
  have l: "ledgerChained s" "transactionsUnique s" using assms by (simp_all add: sound_def)
  note start = startWithdrawal_posts [OF Inr [unfolded x] l(1)]
  note uni = startWithdrawal_unique [OF Inr [unfolded x] l]
  have a: "0 \<le> t_amount t" and ins: "transactions s1 = transactions s @ [t]" using start by auto
  have k1: "keeps s s1"
    unfolding keeps_def using insert_txKept [OF ins _ _ a] uni start by blast
  let ?s' = "snd (finishWithdrawal env transfer d w t s1)"
  have "keeps s ?s'"
  proof (cases rule: finishWithdrawal_cases [of transfer d t env w s1])
    case sent
    obtain m where m: "?s' = s1\<lparr>transactions := updateRow (\<lambda>x. t_reference x = t_reference t)
        (\<lambda>x. x\<lparr>t_metadata := m\<rparr>) (transactions s1)\<rparr>"
      using sent(3) by blast
    have u: "transactionsUnique s1" using uni by blast
    have "t \<in> set (transactions s1)" using ins by simp
    then have "transactions ?s' = updateRow (\<lambda>x. t_id x = t_id t) (\<lambda>x. x\<lparr>t_metadata := m\<rparr>) (transactions s1)"
      using m updateByReference [OF u] by simp
    then have "txKept s ?s'" using insert_then_change [OF ins u _ _ _ _ a] by simp
    moreover have "sameLedger s1 ?s'" using m by (simp add: sameLedger_def)
    ultimately show ?thesis
      using k1 start posts_then_silent unfolding keeps_def by blast
  next
    case (failed message)
    then show ?thesis
      using keeps_trans [OF k1 transferFailed_keeps [OF keeps_sound [OF k1 assms]]] uni start a by simp
  qed
  then show ?thesis using Inr x by (simp add: initializeWithdrawal_def)
qed (simp add: initializeWithdrawal_def)

section \<open>Sequences of requests\<close>

theorem serve_keeps:
  assumes "sound s" and "worldOk w" and "validRequest q"
  shows "keeps s (serve w env q s)"
proof (cases q)
  case (OpenCheckout uid d)
  then show ?thesis using assms(3) initializeFunding_keeps [OF assms(1)] by (simp add: validRequest_def)
next
  case (VerifyFunding uid ref)
  then show ?thesis using verifyFunding_keeps [OF assms(1)] by simp
next
  case (ReconcileFunding ref adm)
  then show ?thesis using manualReconcile_keeps [OF assms(1)] by simp
next
  case (RunFundingJob name job token)
  then show ?thesis using processJob_keeps [OF assms(1)] by simp
next
  case QueueAtStartup
  then show ?thesis using enqueueStartup_keeps by simp
next
  case (Withdraw uid d)
  then show ?thesis using initializeWithdrawal_keeps [OF assms(1)] by simp
next
  case (Webhook payload hdr)
  then show ?thesis using handleWebhook_keeps [OF assms(1)] assms(2) by (simp add: worldOk_def)
next
  case (Settle p)
  then show ?thesis using finalizeSettlement_keeps [OF assms(1)] by simp
qed (simp_all add: keeps_moves commit_moves committed_moves moving)

lemma reachable_keeps:
  assumes "reachable w s0 s" and "sound s0" and "worldOk w"
  shows "keeps s0 s"
  using assms(1)
proof (induction rule: reachable.induct)
  case (served s q env)
  then show ?case
    using keeps_trans serve_keeps [OF _ assms(3)] keeps_sound [OF _ assms(2)] by blast
qed simp

lemma reachable_sound: "reachable w s0 s \<Longrightarrow> sound s0 \<Longrightarrow> worldOk w \<Longrightarrow> sound s"
  using reachable_keeps keeps_sound by blast

lemma reachable_trans: "reachable w s t \<Longrightarrow> reachable w r s \<Longrightarrow> reachable w r t"
  by (induction rule: reachable.induct) (auto intro: reachable.served)

end
