(* ===== verification/PlatformClaims.thy ===== *)
theory PlatformClaims
  imports Scenario Platform
begin

text \<open>
  Properties of the platform as a whole: what holds after any sequence of requests to the modelled
  services, whoever sends them, in whatever order and with whatever outcome.
\<close>

section \<open>The fixture\<close>

definition world1 :: world where
  "world1 = \<lparr>wo_bureau = (\<lambda>_ _. None), wo_verifyHash = (\<lambda>pin h. True),
     wo_transfer = (\<lambda>p. Inl ''timeout''), wo_verifySignature = (\<lambda>h. h = ''secret''),
     wo_verifyCharge = (\<lambda>i r. Inr \<lparr>pv_id = i, pv_tx_ref = r, pv_flw_ref = None, pv_amount = 250,
       pv_charged_amount = 250, pv_currency = ''NGN'', pv_status = ''successful'',
       pv_payment_type = Some ''card''\<rparr>),
     wo_initiate = (\<lambda>p. Inl ''timeout''),
     wo_verifyPayment = (\<lambda>r. Inl (OtherFailure ''No transaction was found for this id'')),
     wo_random = (\<lambda>k. 0)\<rparr>"

definition withdrawal1 :: withdrawalDto where
  "withdrawal1 = \<lparr>wd_amount = 20000, wd_bankCode = ''044'', wd_accountNumber = ''0690000031'',
     wd_accountName = ''Ada A'', wd_bankName = ''Access'', wd_narration = None,
     wd_transactionPin = ''1234''\<rparr>"

definition checkout1 :: fundingDto where
  "checkout1 = \<lparr>fd_amount = 25000, fd_redirectUrl = ''https://ajoti.com'', fd_currency = None,
     fd_metadata = None\<rparr>"

text \<open>A withdrawal the provider does not answer, and then a checkout.\<close>

definition visited :: db where
  "visited = serve world1 env1 (OpenCheckout ''ada'' checkout1)
     (serve world1 env0 (Withdraw ''ada'' withdrawal1) funded)"

lemma world1_ok: "worldOk world1"
  by (simp add: worldOk_def verifierOk_def world1_def)

lemma funded_sound: "sound funded"
  using funded_chained funded_unique
  by (simp add: sound_def transactionsUnique_def amountsOk_def funded_def emptyDb_def)

lemma visited_reachable: "reachable world1 funded visited"
  unfolding visited_def
  by (intro reachable.intros) (simp_all add: validRequest_def checkout1_def)

section \<open>The properties\<close>

text \<open>
  C1: after any sequence of requests the books balance: for every wallet the running total is the sum
  of its credits less its debits, so the audit of the ledger passes; no two entries share a key, and
  no two transactions an identifier or a reference.
\<close>

theorem platform_books_balance:
  assumes "reachable w s0 s" and "sound s0" and "worldOk w"
  shows "computeTotalBalance s v = calculatedTotal v s \<and> ir_ledgerValid (verifyWalletIntegrity v s) \<and>
    ledgerUnique s \<and> transactionsUnique s"
  using reachable_sound [OF assms] ledgerChained_calculated ledgerChained_audit
  by (auto simp: sound_def ledgerAuditPasses_def)

theorem platform_books_balance_witness:
  "ir_ledgerValid (verifyWalletIntegrity ''wa'' visited) \<and> transactionsUnique visited"
  using platform_books_balance [OF visited_reachable funded_sound world1_ok] by blast

text \<open>
  C2: history is never rewritten. After any sequence of requests the ledger is the ledger from before
  with entries added, and a transaction that has reached a final status still has the same row.
\<close>

theorem platform_append_only:
  assumes "reachable w s0 s" and "sound s0" and "worldOk w"
  shows "(\<exists>es. ledgerEntries s = es @ ledgerEntries s0) \<and>
    (\<forall>i t. transactionById i s0 = Some t \<longrightarrow> t_status t \<noteq> TS_PENDING \<longrightarrow> transactionById i s = Some t)"
  using reachable_keeps [OF assms] posts_appends
  unfolding keeps_def txKept_def finalKept_def by meson

theorem platform_append_only_witness:
  "\<exists>es. ledgerEntries visited = es @ ledgerEntries funded"
  using platform_append_only [OF visited_reachable funded_sound world1_ok] by blast

end
