(* ===== verification/Encryption.thy ===== *)
theory Encryption
  imports Prelude
begin

text \<open>
  \<^verbatim>\<open>src/common/encryption/field-encryption.service.ts\<close>: the stored form of an encrypted column.  The
  cipher (AES-256-GCM of the crypto library, on hexadecimal strings) is the record \<open>cipher\<close>; the
  format, the recognition of legacy plaintext and the parsing are the service's own.
\<close>

record cipher =
  ci_seal :: "string \<Rightarrow> string \<Rightarrow> string \<times> string" \<comment> \<open>nonce and text to tag and ciphertext\<close>
  ci_open :: "string \<Rightarrow> string \<Rightarrow> string \<Rightarrow> string option" \<comment> \<open>nonce, tag and ciphertext to text\<close>

definition noColon :: "string \<Rightarrow> bool" where
  "noColon x \<longleftrightarrow> CHR '':'' \<notin> set x"

text \<open>Opening what was sealed gives the text back, and hexadecimal digits contain no colon.\<close>

definition cipherOk :: "cipher \<Rightarrow> bool" where
  "cipherOk c \<longleftrightarrow> (\<forall>iv text. case ci_seal c iv text of
     (tag, ct) \<Rightarrow> ci_open c iv tag ct = Some text \<and> noColon tag \<and> noColon ct)"

definition PREFIX :: string where
  "PREFIX = ''enc:v1:''"

definition encrypt :: "cipher \<Rightarrow> string \<Rightarrow> string \<Rightarrow> string" where
  "encrypt c iv plaintext =
     (case ci_seal c iv plaintext of (tag, ct) \<Rightarrow> PREFIX @ iv @ '':'' @ tag @ '':'' @ ct)"

text \<open>\<^verbatim>\<open>value.split(separator)\<close> for one character\<close>

fun splitOn :: "char \<Rightarrow> string \<Rightarrow> string list" where
  "splitOn sep [] = [[]]"
| "splitOn sep (c # cs) =
     (if c = sep then [] # splitOn sep cs
      else (case splitOn sep cs of [] \<Rightarrow> [[c]] | p # ps \<Rightarrow> (c # p) # ps))"

definition isEncrypted :: "string \<Rightarrow> bool" where
  "isEncrypted v \<longleftrightarrow> startsWith PREFIX v"

definition decrypt :: "cipher \<Rightarrow> string \<Rightarrow> string result" where
  "decrypt c v =
     (if \<not> startsWith PREFIX v then Inr v
      else case splitOn (CHR '':'') (drop (size PREFIX) v) of
             [iv, tag, ct] \<Rightarrow>
               orThrow (PlainError ''Unsupported state or unable to authenticate data'') (ci_open c iv tag ct)
           | _ \<Rightarrow> Inl (PlainError ''Malformed encrypted field value''))"

section \<open>Round trip\<close>

lemma startsWith_append [simp]: "startsWith x (x @ y)"
  by (induction x) auto

lemma splitOn_none: "sep \<notin> set x \<Longrightarrow> splitOn sep x = [x]"
  by (induction x) auto

lemma splitOn_append: "sep \<notin> set x \<Longrightarrow> splitOn sep (x @ sep # y) = x # splitOn sep y"
  by (induction x) auto

lemma decrypt_encrypt:
  assumes "cipherOk c" and "noColon iv"
  shows "decrypt c (encrypt c iv text) = Inr text"
proof -
  obtain tag ct where s: "ci_seal c iv text = (tag, ct)" by fastforce
  then have "ci_open c iv tag ct = Some text \<and> noColon tag \<and> noColon ct"
    using assms(1) by (auto simp: cipherOk_def dest: spec [of _ iv] split: prod.splits)
  then show ?thesis
    using s assms(2) by (simp add: decrypt_def encrypt_def noColon_def splitOn_append splitOn_none)
qed

lemma encrypt_isEncrypted: "isEncrypted (encrypt c iv text)"
  by (simp add: isEncrypted_def encrypt_def split: prod.splits)

lemma encrypt_not_plain:
  assumes "\<not> isEncrypted text"
  shows "encrypt c iv text \<noteq> text"
  using assms encrypt_isEncrypted by metis

end
