(* ===== verification/Identity.thy ===== *)
theory Identity
  imports Prelude
begin

text \<open>
  \<^verbatim>\<open>src/modules/kyc/identity-verification.service.ts\<close>: the check of a NIN or a BVN against the
  registry.  The registry's answers, one per attempt, are a parameter.
\<close>

section \<open>Answers of the registry\<close>

text \<open>A missing field of the answer is \<open>None\<close>; \<open>Refused\<close> is an answer with an error in it.\<close>

record registryRow =
  rr_firstname :: "string option"
  rr_surname :: "string option"
  rr_lastname :: "string option"
  rr_birthdate :: "string option"
  rr_dob :: "string option"

datatype registryAnswer = Refused "string option" | Found registryRow

text \<open>A call that throws: the HTTP status, if there was an answer at all, and its message.\<close>

datatype postFailure = PostFailure "nat option" "string option"

record identityResult =
  vn_verified :: bool
  vn_message :: string

section \<open>Matching\<close>

record identityData =
  id_firstName :: string
  id_lastName :: string
  id_dateOfBirth :: string

definition orEmpty :: "string option \<Rightarrow> string" where
  "orEmpty x = (case x of None \<Rightarrow> '''' | Some v \<Rightarrow> v)"

definition normalizeNinData :: "registryRow \<Rightarrow> identityData" where
  "normalizeNinData r =
     \<lparr>id_firstName = orEmpty (rr_firstname r), id_lastName = orEmpty (rr_surname r),
      id_dateOfBirth = orEmpty (rr_birthdate r)\<rparr>"

definition normalizeBvnData :: "registryRow \<Rightarrow> identityData" where
  "normalizeBvnData r =
     \<lparr>id_firstName = orEmpty (rr_firstname r), id_lastName = orEmpty (rr_lastname r),
      id_dateOfBirth = orEmpty (rr_dob r)\<rparr>"

text \<open>A detail is compared only when both sides have it; \<open>None\<close> is a detail that was not compared.\<close>

record matchDetails =
  md_firstName :: "bool option"
  md_lastName :: "bool option"
  md_dob :: "bool option"

definition sameName :: "string \<Rightarrow> string \<Rightarrow> bool" where
  "sameName a b \<longleftrightarrow> trim (toLowerCase a) = trim (toLowerCase b)"

definition compared :: "(string \<Rightarrow> string \<Rightarrow> bool) \<Rightarrow> string \<Rightarrow> string \<Rightarrow> bool option" where
  "compared eq given found = (if given \<noteq> '''' \<and> found \<noteq> '''' then Some (eq given found) else None)"

definition checkDataMatch :: "identityData \<Rightarrow> string \<Rightarrow> string \<Rightarrow> string \<Rightarrow> matchDetails" where
  "checkDataMatch found firstName lastName dob =
     \<lparr>md_firstName = compared sameName firstName (id_firstName found),
      md_lastName = compared sameName lastName (id_lastName found),
      md_dob = compared (=) dob (id_dateOfBirth found)\<rparr>"

definition allMatched :: "matchDetails \<Rightarrow> bool" where
  "allMatched m \<longleftrightarrow> md_firstName m \<noteq> Some False \<and> md_lastName m \<noteq> Some False \<and> md_dob m \<noteq> Some False"

section \<open>The call\<close>

definition MAX_RETRIES :: nat where
  "MAX_RETRIES = 2"

text \<open>Attempt \<open>n\<close> and the \<open>left\<close> ones after it; an error of the client's is not tried again.\<close>

fun postWithRetry :: "(nat \<Rightarrow> postFailure + 'a) \<Rightarrow> nat \<Rightarrow> nat \<Rightarrow> postFailure + 'a" where
  "postWithRetry post n left =
     (case post n of
        Inr answer \<Rightarrow> Inr answer
      | Inl (PostFailure status message) \<Rightarrow>
          (case status of
             Some code \<Rightarrow>
               if 400 \<le> code \<and> code < 500 then Inl (PostFailure status message)
               else (case left of 0 \<Rightarrow> Inl (PostFailure status message) | Suc l \<Rightarrow> postWithRetry post (n + 1) l)
           | None \<Rightarrow>
               (case left of 0 \<Rightarrow> Inl (PostFailure status message) | Suc l \<Rightarrow> postWithRetry post (n + 1) l)))"

definition TEST_NIN :: string where
  "TEST_NIN = ''00000000000''"

definition TEST_BVN :: string where
  "TEST_BVN = ''00000000000''"

text \<open>What both checks make of the call, with the normaliser of each.\<close>

definition verifyIdentity ::
  "string \<Rightarrow> (registryRow \<Rightarrow> identityData) \<Rightarrow> (nat \<Rightarrow> postFailure + registryAnswer)
   \<Rightarrow> string \<Rightarrow> string \<Rightarrow> string \<Rightarrow> identityResult result" where
  "verifyIdentity kind toData post firstName lastName dob =
     (case postWithRetry post 0 MAX_RETRIES of
        Inl (PostFailure status message) \<Rightarrow>
          Inl (HttpFailure (case status of None \<Rightarrow> 500 | Some 0 \<Rightarrow> 500 | Some code \<Rightarrow> code)
            (case message of None \<Rightarrow> kind @ '' Verification failed''
                           | Some m \<Rightarrow> if m = '''' then kind @ '' Verification failed'' else m))
      | Inr (Refused message) \<Rightarrow>
          Inr \<lparr>vn_verified = False,
               vn_message = (case message of None \<Rightarrow> kind @ '' verification failed''
                             | Some m \<Rightarrow> if m = '''' then kind @ '' verification failed'' else m)\<rparr>
      | Inr (Found row) \<Rightarrow>
          (let matched = allMatched (checkDataMatch (toData row) firstName lastName dob)
           in Inr \<lparr>vn_verified = matched,
                   vn_message = (if matched then kind @ '' Verification Successful and details match''
                                 else kind @ '' Verified but provided data does not match records'')\<rparr>))"

definition verifiedForTest :: "string \<Rightarrow> identityResult" where
  "verifiedForTest kind =
     \<lparr>vn_verified = True, vn_message = kind @ '' Verification Successful and details match''\<rparr>"

record registry =
  rg_production :: bool \<comment> \<open>\<^verbatim>\<open>NODE_ENV === 'production'\<close>\<close>
  rg_nin :: "string \<Rightarrow> nat \<Rightarrow> postFailure + registryAnswer"
  rg_bvn :: "string \<Rightarrow> nat \<Rightarrow> postFailure + registryAnswer"

definition checkNin :: "registry \<Rightarrow> string \<Rightarrow> string \<Rightarrow> string \<Rightarrow> string \<Rightarrow> identityResult result" where
  "checkNin g nin firstName lastName dob =
     (if \<not> rg_production g \<and> nin = TEST_NIN then Inr (verifiedForTest ''NIN'')
      else verifyIdentity ''NIN'' normalizeNinData (rg_nin g nin) firstName lastName dob)"

definition checkBvn :: "registry \<Rightarrow> string \<Rightarrow> string \<Rightarrow> string \<Rightarrow> string \<Rightarrow> identityResult result" where
  "checkBvn g bvn firstName lastName dob =
     (if \<not> rg_production g \<and> bvn = TEST_BVN then Inr (verifiedForTest ''BVN'')
      else verifyIdentity ''BVN'' normalizeBvnData (rg_bvn g bvn) firstName lastName dob)"

declare postWithRetry.simps [simp del]

section \<open>Attempts and matches\<close>

definition definitive :: "postFailure + 'a \<Rightarrow> bool" where
  "definitive r \<longleftrightarrow> (case r of Inr _ \<Rightarrow> True
     | Inl (PostFailure (Some code) _) \<Rightarrow> 400 \<le> code \<and> code < 500 | Inl _ \<Rightarrow> False)"

lemma postWithRetry_step:
  "postWithRetry post n left =
   (if definitive (post n) then post n
    else case left of 0 \<Rightarrow> post n | Suc l \<Rightarrow> postWithRetry post (n + 1) l)"
  by (subst postWithRetry.simps)
    (auto simp: definitive_def split: sum.splits postFailure.splits option.splits nat.splits)

text \<open>The answer is the one of the first definitive attempt, or of the last one.\<close>

lemma postWithRetry_first:
  assumes "k \<le> left" and "\<And>i. i < k \<Longrightarrow> \<not> definitive (post (n + i))"
    and "definitive (post (n + k)) \<or> k = left"
  shows "postWithRetry post n left = post (n + k)"
  using assms
proof (induction k arbitrary: n left)
  case 0
  then show ?case by (subst postWithRetry_step) (auto split: nat.splits)
next
  case (Suc k)
  then obtain l where l: "left = Suc l" "k \<le> l" by (cases left) auto
  have "postWithRetry post (n + 1) l = post (n + 1 + k)"
  proof (rule Suc.IH)
    show "\<not> definitive (post (n + 1 + i))" if "i < k" for i
      using Suc.prems(2) [of "Suc i"] that by simp
  qed (use Suc.prems l in auto)
  moreover have "\<not> definitive (post n)" using Suc.prems(2) [of 0] by simp
  ultimately show ?case by (subst postWithRetry_step) (simp add: l)
qed

text \<open>A check passes iff no detail that could be compared differs.\<close>

lemma checkNin_verified:
  assumes "rg_production g" and "postWithRetry (rg_nin g nin) 0 MAX_RETRIES = Inr (Found row)"
  shows "map_sum id vn_verified (checkNin g nin f l d) =
    Inr (allMatched (checkDataMatch (normalizeNinData row) f l d))"
  using assms by (simp add: checkNin_def verifyIdentity_def Let_def)

lemma empty_row_matches:
  assumes "rr_firstname row = None" and "rr_surname row = None" and "rr_birthdate row = None"
  shows "allMatched (checkDataMatch (normalizeNinData row) f l d)"
  using assms by (simp add: allMatched_def checkDataMatch_def compared_def normalizeNinData_def orEmpty_def)

end
