(* ===== verification/Otp.thy ===== *)
theory Otp
  imports Schema
begin

text \<open>
  \<^verbatim>\<open>src/modules/otp/otp.service.ts\<close> and \<^verbatim>\<open>src/common/security\<close>: one-time codes.  A code is sent to a
  mail address, kept as a hash, and can be consumed once before it expires; sending a new one retires
  the old.  Password hashing, digests and the random numbers come from libraries and are the record
  \<open>security\<close>; what the code relies on of them is \<open>securityOk\<close>.
\<close>

section \<open>Libraries and settings\<close>

record security =
  sc_hash :: "string \<Rightarrow> string \<Rightarrow> string" \<comment> \<open>\<^verbatim>\<open>bcrypt.hash\<close> of a salt and a value\<close>
  sc_verify :: "string \<Rightarrow> string \<Rightarrow> bool" \<comment> \<open>\<^verbatim>\<open>bcrypt.compare\<close> of a value and a hash\<close>
  sc_sha256 :: "string \<Rightarrow> string"
  sc_random :: "nat \<Rightarrow> rat" \<comment> \<open>successive values of \<^verbatim>\<open>Math.random()\<close>\<close>
  sc_otpMinutes :: int \<comment> \<open>\<^verbatim>\<open>OTP_EXPIRES_MINUTES\<close>\<close>
  sc_accessExpires :: "string option" \<comment> \<open>\<^verbatim>\<open>JWT_ACCESS_EXPIRES_IN\<close>\<close>
  sc_refreshExpires :: "string option" \<comment> \<open>\<^verbatim>\<open>JWT_REFRESH_EXPIRES_IN\<close>\<close>
  sc_mailUp :: bool \<comment> \<open>whether the mail queue takes jobs\<close>

text \<open>
  A hash accepts exactly the value it was made from, whatever the salt, as long as both have at most
  the 72 characters bcrypt reads; the requests allow 20 for a password and 6 for a code.
\<close>

definition securityOk :: "security \<Rightarrow> bool" where
  "securityOk c \<longleftrightarrow>
     (\<forall>salt v w. size v \<le> 72 \<longrightarrow> size w \<le> 72 \<longrightarrow> sc_verify c v (sc_hash c salt w) = (v = w)) \<and>
     (\<forall>k. 0 \<le> sc_random c k \<and> sc_random c k < 1) \<and> 0 < sc_otpMinutes c"

definition normalizeEmail :: "string \<Rightarrow> string" where
  "normalizeEmail email = toLowerCase (trim email)"

definition generateOtpCode :: "(nat \<Rightarrow> rat) \<Rightarrow> nat \<Rightarrow> string" where
  "generateOtpCode random n = concat (map (\<lambda>i. showInt \<lfloor>random i * 10\<rfloor>) [0..<n])"

text \<open>The identifiers a request draws after its first \<open>n\<close>.\<close>

definition later :: "nat \<Rightarrow> env \<Rightarrow> env" where
  "later n env = env\<lparr>rnd := (\<lambda>k. rnd env (k + n))\<rparr>"

section \<open>The service\<close>

definition findActiveUserByEmail :: "string \<Rightarrow> db \<Rightarrow> user option" where
  "findActiveUserByEmail email s =
     findFirst (\<lambda>u. toLowerCase (u_email u) = normalizeEmail email) (users s)"

definition otpExpiresAt :: "env \<Rightarrow> security \<Rightarrow> int" where
  "otpExpiresAt env sec = now env + sc_otpMinutes sec * 60000"

text \<open>\<^verbatim>\<open>updateMany\<close>: the unused codes of a user and a purpose are used up.\<close>

definition retireOtps :: "env \<Rightarrow> string \<Rightarrow> otpPurpose \<Rightarrow> db \<Rightarrow> db" where
  "retireOtps env uid p s =
     s\<lparr>otpCodes := map (\<lambda>c. if oc_userId c = uid \<and> oc_purpose c = p \<and> oc_usedAt c = None
                        then c\<lparr>oc_usedAt := Some (now env)\<rparr> else c) (otpCodes s)\<rparr>"

text \<open>A failure of the mail queue is mapped to an error that is not thrown, so it is not seen.\<close>

definition sendOtpToUser ::
  "env \<Rightarrow> security \<Rightarrow> string \<Rightarrow> string \<Rightarrow> otpPurpose \<Rightarrow> db \<Rightarrow> (unit \<times> db) result" where
  "sendOtpToUser env sec userId recipientEmail p s =
     bindE (orThrow (BadRequest ''User not found'') (userById userId s)) (\<lambda>_.
     let s1 = retireOtps env userId p s;
         otp = generateOtpCode (sc_random sec) 6;
         code = \<lparr>oc_id = rnd env 0, oc_userId = userId, oc_purpose = p,
                 oc_codeHash = sc_hash sec (rnd env 1) otp, oc_expiresAt = otpExpiresAt env sec,
                 oc_usedAt = None\<rparr>;
         s2 = s1\<lparr>otpCodes := otpCodes s1 @ [code]\<rparr>
     in Inr ((), if sc_mailUp sec
                 then s2\<lparr>otpMails := otpMails s2 @ [\<lparr>om_to = normalizeEmail recipientEmail, om_code = otp\<rparr>]\<rparr>
                 else s2))"

definition sendOtp :: "env \<Rightarrow> security \<Rightarrow> string \<Rightarrow> otpPurpose \<Rightarrow> db \<Rightarrow> (unit \<times> db) result" where
  "sendOtp env sec email p s =
     bindE (orThrow (BadRequest ''User not found'')
              (findActiveUserByEmail (normalizeEmail email) s)) (\<lambda>u.
     sendOtpToUser env sec (u_id u) (normalizeEmail email) p s)"

text \<open>The newest code of a user and a purpose that is unused and has not expired.\<close>

definition liveOtp :: "env \<Rightarrow> string \<Rightarrow> otpPurpose \<Rightarrow> db \<Rightarrow> otpCode option" where
  "liveOtp env userId p s =
     findFirst (\<lambda>c. oc_userId c = userId \<and> oc_purpose c = p \<and> oc_usedAt c = None \<and> now env < oc_expiresAt c)
       (rev (otpCodes s))"

text \<open>Consuming reads the code and checks it, and then marks it; the two are separate statements.\<close>

definition checkOtp :: "env \<Rightarrow> security \<Rightarrow> string \<Rightarrow> otpPurpose \<Rightarrow> string \<Rightarrow> db \<Rightarrow> (user \<times> otpCode) result" where
  "checkOtp env sec userId p otp s =
     bindE (orThrow (BadRequest ''User not found'') (userById userId s)) (\<lambda>u.
     bindE (orThrow (BadRequest ''Invalid or expired OTP'') (liveOtp env userId p s)) (\<lambda>record.
     bindE (ensure (sc_verify sec otp (oc_codeHash record)) (BadRequest ''Invalid or expired OTP'')) (\<lambda>_.
     Inr (u, record))))"

definition markOtp :: "env \<Rightarrow> string \<Rightarrow> db \<Rightarrow> db" where
  "markOtp env i s =
     s\<lparr>otpCodes := updateRow (\<lambda>c. oc_id c = i) (\<lambda>c. c\<lparr>oc_usedAt := Some (now env)\<rparr>) (otpCodes s)\<rparr>"

definition consumeOtpByUserId ::
  "env \<Rightarrow> security \<Rightarrow> string \<Rightarrow> otpPurpose \<Rightarrow> string \<Rightarrow> db \<Rightarrow> (user \<times> db) result" where
  "consumeOtpByUserId env sec userId p otp s =
     bindE (checkOtp env sec userId p otp s) (\<lambda>(u, record). Inr (u, markOtp env (oc_id record) s))"

definition consumeOtp ::
  "env \<Rightarrow> security \<Rightarrow> string \<Rightarrow> otpPurpose \<Rightarrow> string \<Rightarrow> db \<Rightarrow> (user \<times> db) result" where
  "consumeOtp env sec email p otp s =
     bindE (orThrow (BadRequest ''User not found'')
              (findActiveUserByEmail (normalizeEmail email) s)) (\<lambda>u.
     consumeOtpByUserId env sec (u_id u) p otp s)"

section \<open>A code has six digits\<close>

lemma showInt_digit:
  assumes "0 \<le> d" and "d < 10"
  shows "size (showInt d) = 1 \<and> (\<forall>c \<in> set (showInt d). (of_char c :: nat) \<in> {48..57})"
  using assms by (simp add: showInt_def showNat.simps)

lemma generateOtpCode_digits:
  assumes "\<forall>k. 0 \<le> random k \<and> random k < 1"
  shows "size (generateOtpCode random n) = n \<and>
    (\<forall>c \<in> set (generateOtpCode random n). (of_char c :: nat) \<in> {48..57})"
proof -
  have digit: "0 \<le> \<lfloor>random i * 10\<rfloor> \<and> \<lfloor>random i * 10\<rfloor> < 10" for i
    using assms by (simp add: floor_less_iff)
  show ?thesis
  proof (induction n)
    case (Suc n)
    then show ?case using showInt_digit [of "\<lfloor>random n * 10\<rfloor>"] digit [of n] by (auto simp: generateOtpCode_def)
  qed (simp add: generateOtpCode_def)
qed

section \<open>At most one live code\<close>

definition unused :: "otpCode \<Rightarrow> bool" where
  "unused c \<longleftrightarrow> oc_usedAt c = None"

definition oc_slot :: "otpCode \<Rightarrow> string \<times> otpPurpose" where
  "oc_slot c = (oc_userId c, oc_purpose c)"

text \<open>The identifiers of codes are unique, and no user has two unused codes for one purpose.\<close>

definition otpsOk :: "db \<Rightarrow> bool" where
  "otpsOk s \<longleftrightarrow> distinct (map oc_id (otpCodes s)) \<and> distinct (map oc_slot (filter unused (otpCodes s)))"

lemma otpsOk_cong: "otpCodes s' = otpCodes s \<Longrightarrow> otpsOk s' = otpsOk s"
  by (simp add: otpsOk_def)

text \<open>Using codes up can only free slots.\<close>

lemma filter_fewer_distinct:
  assumes "distinct (map k (filter P xs))" and "\<And>x. x \<in> set xs \<Longrightarrow> P (f x) \<Longrightarrow> P x \<and> k (f x) = k x"
  shows "distinct (map k (filter P (map f xs)))"
  using assms
proof (induction xs)
  case (Cons x xs)
  have sub: "k ` set (filter P (map f xs)) \<subseteq> k ` set (filter P xs)"
    using Cons.prems(2) by force
  have IH: "distinct (map k (filter P (map f xs)))"
    using Cons by (simp split: if_splits)
  show ?case
  proof (cases "P (f x)")
    case True
    then have "P x" "k (f x) = k x" using Cons.prems(2) by auto
    then have "k x \<notin> k ` set (filter P xs)" using Cons.prems(1) by simp
    then have "k (f x) \<notin> k ` set (filter P (map f xs))" using sub \<open>k (f x) = k x\<close> by auto
    then show ?thesis using IH True by simp
  qed (use IH in simp)
qed simp

lemma updateRow_map:
  "distinct (map k xs) \<Longrightarrow> updateRow (\<lambda>x. k x = i) f xs = map (\<lambda>x. if k x = i then f x else x) xs"
proof (induction xs)
  case (Cons x xs)
  have "map (\<lambda>y. if k y = k x then f y else y) xs = xs" if "k x \<notin> k ` set xs"
    using that by (intro map_idI) (auto simp: image_iff)
  then show ?case using Cons by auto
qed simp

lemma useUp_ok:
  assumes "otpCodes s' = map (\<lambda>c. if Q c then c\<lparr>oc_usedAt := Some t\<rparr> else c) (otpCodes s)" and "otpsOk s"
  shows "otpsOk s'"
  unfolding otpsOk_def
proof
  show "distinct (map oc_id (otpCodes s'))"
    using assms by (simp add: otpsOk_def comp_def if_distrib [of oc_id] cong: if_cong)
  show "distinct (map oc_slot (filter unused (otpCodes s')))"
    unfolding assms(1)
    by (rule filter_fewer_distinct) (use assms(2) in \<open>auto simp: otpsOk_def unused_def oc_slot_def split: if_splits\<close>)
qed

lemma retireOtps_ok: "otpsOk s \<Longrightarrow> otpsOk (retireOtps env uid p s)"
  by (rule useUp_ok [where Q = "\<lambda>c. oc_userId c = uid \<and> oc_purpose c = p \<and> oc_usedAt c = None" and t = "now env"])
    (simp_all add: retireOtps_def)

text \<open>After retiring, the slot is free.\<close>

lemma retireOtps_free: "(uid, p) \<notin> oc_slot ` set (filter unused (otpCodes (retireOtps env uid p s)))"
proof
  assume "(uid, p) \<in> oc_slot ` set (filter unused (otpCodes (retireOtps env uid p s)))"
  then obtain c where c: "c \<in> set (otpCodes (retireOtps env uid p s))" "oc_usedAt c = None"
    "oc_userId c = uid" "oc_purpose c = p"
    by (force simp: unused_def oc_slot_def)
  from c(1) have "(\<exists>x. c = x\<lparr>oc_usedAt := Some (now env)\<rparr>) \<or>
      (oc_purpose c = p \<longrightarrow> oc_userId c = uid \<longrightarrow> (\<exists>y. oc_usedAt c = Some y))"
    unfolding retireOtps_def by (simp add: image_iff del: if_split) blast
  with c(2-4) show False by auto
qed

lemma markOtp_ok: "otpsOk s \<Longrightarrow> otpsOk (markOtp env i s)"
  by (rule useUp_ok [where Q = "\<lambda>c. oc_id c = i" and t = "now env"]) (simp_all add: markOtp_def otpsOk_def updateRow_map)

text \<open>A fresh identifier, as the database draws it.\<close>

definition freshOtp :: "env \<Rightarrow> db \<Rightarrow> bool" where
  "freshOtp env s \<longleftrightarrow> rnd env 0 \<notin> oc_id ` set (otpCodes s)"

lemma sendOtpToUser_Inr:
  assumes "sendOtpToUser env sec uid to p s = Inr (x, s')"
  obtains c where "otpCodes s' = otpCodes (retireOtps env uid p s) @ [c]" and "oc_id c = rnd env 0"
    and "oc_slot c = (uid, p)" and "unused c" and "oc_expiresAt c = now env + sc_otpMinutes sec * 60000"
    and "oc_codeHash c = sc_hash sec (rnd env 1) (generateOtpCode (sc_random sec) 6)"
    and "userById uid s \<noteq> None" and "s' = s\<lparr>otpCodes := otpCodes s', otpMails := otpMails s'\<rparr>"
proof -
  define c where "c = \<lparr>oc_id = rnd env 0, oc_userId = uid, oc_purpose = p,
      oc_codeHash = sc_hash sec (rnd env 1) (generateOtpCode (sc_random sec) 6),
      oc_expiresAt = otpExpiresAt env sec, oc_usedAt = None\<rparr>"
  have "otpCodes s' = otpCodes (retireOtps env uid p s) @ [c]" "userById uid s \<noteq> None"
    "s' = s\<lparr>otpCodes := otpCodes s', otpMails := otpMails s'\<rparr>"
    using assms by (auto simp: sendOtpToUser_def Let_def result_simps c_def retireOtps_def)
  then show thesis using that [of c] by (simp add: c_def oc_slot_def unused_def otpExpiresAt_def)
qed

lemma retireOtps_ids: "map oc_id (otpCodes (retireOtps env uid p s)) = map oc_id (otpCodes s)"
  by (simp add: retireOtps_def comp_def if_distrib [of oc_id] cong: if_cong)

lemma sendOtpToUser_ok:
  assumes "sendOtpToUser env sec uid to p s = Inr (x, s')" and "otpsOk s" and "freshOtp env s"
  shows "otpsOk s'"
  using assms(1)
proof (rule sendOtpToUser_Inr)
  fix c
  assume c: "otpCodes s' = otpCodes (retireOtps env uid p s) @ [c]" "oc_id c = rnd env 0"
    "oc_slot c = (uid, p)" "unused c"
  have "rnd env 0 \<notin> oc_id ` set (otpCodes (retireOtps env uid p s))"
    using assms(3) retireOtps_ids [of env uid p s] unfolding freshOtp_def by (metis set_map)
  then show ?thesis
    using c retireOtps_ok [OF assms(2), of env uid p] retireOtps_free [of uid p env s]
    by (simp add: otpsOk_def)
qed

section \<open>A code is accepted once, and only the newest\<close>

lemma liveOtp_SomeD:
  "liveOtp env uid p s = Some c \<Longrightarrow>
   c \<in> set (otpCodes s) \<and> oc_slot c = (uid, p) \<and> unused c \<and> now env < oc_expiresAt c"
  by (auto simp: liveOtp_def oc_slot_def unused_def dest!: find_SomeD)

lemma no_unused_no_live:
  "(uid, p) \<notin> oc_slot ` set (filter unused (otpCodes s)) \<Longrightarrow> liveOtp env uid p s = None"
  using liveOtp_SomeD by (cases "liveOtp env uid p s") (force simp: image_iff)+

lemma consumeOtpByUserId_Inr:
  "consumeOtpByUserId env sec uid p otp s = Inr (u, s') \<longleftrightarrow>
   (\<exists>c. userById uid s = Some u \<and> liveOtp env uid p s = Some c \<and> sc_verify sec otp (oc_codeHash c) \<and>
        s' = markOtp env (oc_id c) s)"
  by (auto simp: consumeOtpByUserId_def checkOtp_def result_simps)

lemma consumed_slot_free:
  assumes "consumeOtpByUserId env sec uid p otp s = Inr (u, s')" and "otpsOk s"
  shows "(uid, p) \<notin> oc_slot ` set (filter unused (otpCodes s'))"
proof
  assume "(uid, p) \<in> oc_slot ` set (filter unused (otpCodes s'))"
  then obtain d where d: "d \<in> set (otpCodes s')" "unused d" "oc_slot d = (uid, p)" by auto
  obtain c where c: "liveOtp env uid p s = Some c" and s': "s' = markOtp env (oc_id c) s"
    using assms(1) by (auto simp: consumeOtpByUserId_Inr)
  have ids: "distinct (map oc_id (otpCodes s))" and slots: "distinct (map oc_slot (filter unused (otpCodes s)))"
    using assms(2) by (simp_all add: otpsOk_def)
  have "d \<in> set (otpCodes s)" and "oc_id d \<noteq> oc_id c"
    using d(1,2) by (auto simp: s' markOtp_def updateRow_map [OF ids] unused_def split: if_splits)
  moreover have "c \<in> set (otpCodes s)" "unused c" "oc_slot c = (uid, p)" using liveOtp_SomeD [OF c] by auto
  ultimately have "d = c"
    using d(2,3) slots by (simp add: distinct_map inj_on_def)
  with \<open>oc_id d \<noteq> oc_id c\<close> show False by simp
qed

lemma consumed_refused:
  assumes "consumeOtpByUserId env sec uid p otp s = Inr (u, s')" and "otpsOk s"
    and "otpCodes t = otpCodes s'"
  shows "\<exists>m. consumeOtpByUserId env' sec uid p otp' t = Inl (BadRequest m)"
proof -
  have "liveOtp env' uid p t = None"
    using consumed_slot_free [OF assms(1,2)] no_unused_no_live [of uid p t] assms(3) by simp
  then show ?thesis
    by (cases "userById uid t") (auto simp: consumeOtpByUserId_def checkOtp_def)
qed

text \<open>The code just sent is the live one, until it expires.\<close>

lemma sent_live:
  assumes "sendOtpToUser env sec uid to p s = Inr (x, s')" and "now env' < now env + sc_otpMinutes sec * 60000"
  shows "\<exists>c. liveOtp env' uid p s' = Some c \<and>
    oc_codeHash c = sc_hash sec (rnd env 1) (generateOtpCode (sc_random sec) 6) \<and> oc_id c = rnd env 0"
  using assms(1)
proof (rule sendOtpToUser_Inr)
  fix c
  assume c: "otpCodes s' = otpCodes (retireOtps env uid p s) @ [c]" "oc_id c = rnd env 0"
    "oc_slot c = (uid, p)" "unused c" "oc_expiresAt c = now env + sc_otpMinutes sec * 60000"
    "oc_codeHash c = sc_hash sec (rnd env 1) (generateOtpCode (sc_random sec) 6)"
  then have "liveOtp env' uid p s' = Some c"
    using assms(2) by (simp add: liveOtp_def oc_slot_def unused_def)
  then show ?thesis using c by blast
qed

lemma sent_consumable_iff:
  assumes "sendOtpToUser env sec uid to p s = Inr (x, s')" and "now env' < now env + sc_otpMinutes sec * 60000"
    and "securityOk sec" and "userById uid t = Some u" and "otpCodes t = otpCodes s'" and "size otp \<le> 72"
  shows "consumeOtpByUserId env' sec uid p otp t =
    (if otp = generateOtpCode (sc_random sec) 6 then Inr (u, markOtp env' (rnd env 0) t)
     else Inl (BadRequest ''Invalid or expired OTP''))"
proof -
  obtain c where c: "liveOtp env' uid p s' = Some c" "oc_id c = rnd env 0"
    "oc_codeHash c = sc_hash sec (rnd env 1) (generateOtpCode (sc_random sec) 6)"
    using sent_live [OF assms(1,2)] by blast
  have "liveOtp env' uid p t = Some c" using c(1) assms(5) by (simp add: liveOtp_def)
  moreover have "size (generateOtpCode (sc_random sec) 6) = 6"
    using generateOtpCode_digits [of "sc_random sec" 6] assms(3) by (simp add: securityOk_def)
  ultimately show ?thesis
    using c assms(3,4,6) by (simp add: consumeOtpByUserId_def checkOtp_def securityOk_def)
qed

end
