(* ===== verification/VirtualAccounts.thy ===== *)
theory VirtualAccounts
  imports Wallet Webhooks Otp
begin

text \<open>
  \<^verbatim>\<open>src/modules/virtual-accounts/virtual-account.service.ts\<close>: one bank account number per user, opened
  at the provider and kept in one row.  The provider's calls are the record \<open>vaProvider\<close>; a call that
  throws is \<open>Inl\<close>.
\<close>

section \<open>The provider\<close>

record vaData =
  vd_account_number :: "string option"
  vd_bank_name :: "string option"
  vd_account_name :: "string option"
  vd_flw_ref :: "string option"
  vd_order_ref :: "string option"
  vd_is_active :: "bool option"
  vd_response_message :: "string option"

record vaResponse =
  vs_status :: string
  vs_message :: string
  vs_data :: "vaData option"

record vaRequest =
  vq_email :: string
  vq_bvn :: string
  vq_tx_ref :: string
  vq_currency :: string
  vq_narration :: string
  vq_firstname :: string
  vq_lastname :: string
  vq_phonenumber :: string

record vaProvider =
  vp_isLive :: bool
  vp_testBvn :: string
  vp_create :: "vaRequest \<Rightarrow> string + vaResponse"
  vp_get :: "string \<Rightarrow> string + vaResponse"
  vp_updateBvn :: "string \<Rightarrow> string \<Rightarrow> string + vaResponse"
  vp_delete :: "string \<Rightarrow> string + vaResponse"

text \<open>\<^verbatim>\<open>!x\<close> of an optional string: missing or empty.\<close>

definition present :: "string option \<Rightarrow> bool" where
  "present x \<longleftrightarrow> x \<noteq> None \<and> x \<noteq> Some ''''"

section \<open>The rows\<close>

definition vaOfUser :: "string \<Rightarrow> db \<Rightarrow> virtualAccount option" where
  "vaOfUser uid s = findFirst (\<lambda>v. va_userId v = uid) (virtualAccounts s)"

definition insertVirtualAccount :: "virtualAccount \<Rightarrow> db \<Rightarrow> db result" where
  "insertVirtualAccount v s =
     (if list_ex (\<lambda>x. va_id x = va_id v \<or> va_userId x = va_userId v \<or> va_walletId x = va_walletId v \<or>
           va_flwRef x = va_flwRef v \<or> va_orderRef x = va_orderRef v \<or> va_txRef x = va_txRef v)
         (virtualAccounts s)
      then Inl (PrismaError ''P2002'')
      else Inr (s\<lparr>virtualAccounts := virtualAccounts s @ [v]\<rparr>))"

text \<open>\<^verbatim>\<open>update\<close> by the row's id; the provider's references stay unique.\<close>

definition updateVirtualAccount :: "virtualAccount \<Rightarrow> db \<Rightarrow> (virtualAccount \<times> db) result" where
  "updateVirtualAccount v s =
     (if list_ex (\<lambda>x. va_id x \<noteq> va_id v \<and> (va_flwRef x = va_flwRef v \<or> va_orderRef x = va_orderRef v))
         (virtualAccounts s)
      then Inl (PrismaError ''P2002'')
      else if \<not> list_ex (\<lambda>x. va_id x = va_id v) (virtualAccounts s) then Inl (PrismaError ''P2025'')
      else Inr (v, s\<lparr>virtualAccounts := updateRow (\<lambda>x. va_id x = va_id v) (\<lambda>_. v) (virtualAccounts s)\<rparr>))"

definition buildVirtualAccountTxRef :: "string \<Rightarrow> string" where
  "buildVirtualAccountTxRef uid = ''AJOTI-VA-'' @ uid"

definition resolveProviderAccountActive :: "vaData \<Rightarrow> bool" where
  "resolveProviderAccountActive d =
     (case vd_is_active d of
        Some b \<Rightarrow> b
      | None \<Rightarrow>
          (case vd_response_message d of
             None \<Rightarrow> True
           | Some m \<Rightarrow> \<not> (jsIncludes ''inactive'' (toLowerCase m) \<or> jsIncludes ''deleted'' (toLowerCase m))))"

definition orOld :: "string option \<Rightarrow> string \<Rightarrow> string" where
  "orOld new old = (case new of None \<Rightarrow> old | Some v \<Rightarrow> v)"

definition mergeProvider :: "vaData \<Rightarrow> virtualAccount \<Rightarrow> virtualAccount" where
  "mergeProvider d v =
     v\<lparr>va_accountNumber := orOld (vd_account_number d) (va_accountNumber v),
       va_bankName := orOld (vd_bank_name d) (va_bankName v),
       va_accountName := orOld (vd_account_name d) (va_accountName v),
       va_flwRef := orOld (vd_flw_ref d) (va_flwRef v),
       va_orderRef := orOld (vd_order_ref d) (va_orderRef v),
       va_isActive := resolveProviderAccountActive d\<rparr>"

section \<open>Opening an account\<close>

definition kycOfUser :: "string \<Rightarrow> db \<Rightarrow> kyc option" where
  "kycOfUser uid s = findFirst (\<lambda>k. k_userId k = uid) (kycs s)"

text \<open>The BVN that is sent: the stored column as it is, or the sandbox's when there is none.\<close>

definition bvnFor :: "vaProvider \<Rightarrow> kyc option \<Rightarrow> string result" where
  "bvnFor p k =
     (let stored = (case k of None \<Rightarrow> None | Some r \<Rightarrow> k_bvn r);
          verified = (case k of None \<Rightarrow> False | Some r \<Rightarrow> k_bvnVerifiedAt r \<noteq> None)
      in if vp_isLive p \<and> \<not> verified
         then Inl (BadRequest ''BVN must be verified before creating a live virtual account.'')
         else if present stored then Inr (orOld stored '''')
         else if vp_isLive p
         then Inl (BadRequest ''A verified BVN is required to create a virtual account. Please complete KYC verification first.'')
         else Inr (vp_testBvn p))"

definition vaRequestFor :: "user \<Rightarrow> string \<Rightarrow> vaRequest" where
  "vaRequestFor u bvn =
     \<lparr>vq_email = u_email u, vq_bvn = bvn, vq_tx_ref = buildVirtualAccountTxRef (u_id u), vq_currency = ''NGN'',
      vq_narration = ''Ajoti Wallet - '' @ fullName u, vq_firstname = u_firstName u,
      vq_lastname = u_lastName u, vq_phonenumber = u_phone u\<rparr>"

definition usableResponse :: "vaResponse \<Rightarrow> vaData option" where
  "usableResponse r =
     (if vs_status r \<noteq> ''success'' then None
      else case vs_data r of
             None \<Rightarrow> None
           | Some d \<Rightarrow>
               if present (vd_account_number d) \<and> present (vd_bank_name d) \<and> present (vd_flw_ref d) \<and>
                  present (vd_order_ref d) then Some d else None)"

definition newVirtualAccount :: "env \<Rightarrow> user \<Rightarrow> wallet \<Rightarrow> vaData \<Rightarrow> virtualAccount" where
  "newVirtualAccount env u w d =
     \<lparr>va_id = rnd env 0, va_userId = u_id u, va_walletId = w_id w,
      va_txRef = buildVirtualAccountTxRef (u_id u), va_accountNumber = orOld (vd_account_number d) '''',
      va_bankName = orOld (vd_bank_name d) '''',
      va_accountName = orOld (vd_account_name d) (''Ajoti Wallet - '' @ fullName u),
      va_flwRef = orOld (vd_flw_ref d) '''', va_orderRef = orOld (vd_order_ref d) '''', va_isActive = True\<rparr>"

text \<open>The fallback of every failure: the row another request has stored in the meantime, if any.\<close>

definition orExisting :: "string \<Rightarrow> http_error \<Rightarrow> db \<Rightarrow> virtualAccount result" where
  "orExisting uid e s = orThrow e (vaOfUser uid s)"

text \<open>After the wallet is there; \<open>s\<close> is also the state the row is stored in.\<close>

definition openAccount :: "env \<Rightarrow> vaProvider \<Rightarrow> user \<Rightarrow> wallet \<Rightarrow> db \<Rightarrow> virtualAccount result \<times> db" where
  "openAccount env p u w s =
     (case bvnFor p (kycOfUser (u_id u) s) of
        Inl e \<Rightarrow> (Inl e, s)
      | Inr bvn \<Rightarrow>
          (case vp_create p (vaRequestFor u bvn) of
             Inl message \<Rightarrow> (orExisting (u_id u) (PlainError message) s, s)
           | Inr r \<Rightarrow>
               (case usableResponse r of
                  None \<Rightarrow>
                    (orExisting (u_id u)
                       (InternalServerError (''Virtual account creation failed: '' @ vs_message r)) s, s)
                | Some d \<Rightarrow>
                    (case insertVirtualAccount (newVirtualAccount env u w d) s of
                       Inr s1 \<Rightarrow> (Inr (newVirtualAccount env u w d), s1)
                     | Inl e \<Rightarrow> (orExisting (u_id u) e s, s)))))"

definition provision :: "env \<Rightarrow> vaProvider \<Rightarrow> string \<Rightarrow> db \<Rightarrow> virtualAccount result \<times> db" where
  "provision env p userId s =
     (case userById userId s of
        None \<Rightarrow> (Inl (NotFound ''User not found''), s)
      | Some u \<Rightarrow>
          (case (case walletOfUser userId s of
                   Some w \<Rightarrow> Inr (w, s)
                 | None \<Rightarrow> getOrCreateWallet (later 1 env) userId s) of
             Inl e \<Rightarrow> (Inl e, s)
           | Inr (w, s1) \<Rightarrow> openAccount env p u w s1))"

definition getOrCreateVa :: "env \<Rightarrow> vaProvider \<Rightarrow> string \<Rightarrow> db \<Rightarrow> virtualAccount result \<times> db" where
  "getOrCreateVa env p userId s =
     (case vaOfUser userId s of Some v \<Rightarrow> (Inr v, s) | None \<Rightarrow> provision env p userId s)"

section \<open>Following the provider\<close>

definition refreshFromProvider ::
  "env \<Rightarrow> vaProvider \<Rightarrow> string \<Rightarrow> db \<Rightarrow> virtualAccount result \<times> db" where
  "refreshFromProvider env p userId s =
     (case getOrCreateVa env p userId s of
        (Inl e, s1) \<Rightarrow> (Inl e, s1)
      | (Inr local, s1) \<Rightarrow>
          (case vp_get p (va_orderRef local) of
             Inl message \<Rightarrow> (Inl (PlainError message), s1)
           | Inr r \<Rightarrow>
               (case (if vs_status r = ''success'' then vs_data r else None) of
                  None \<Rightarrow> (Inl (InternalServerError (vs_message r)), s1)
                | Some d \<Rightarrow>
                    if \<not> present (vd_account_number d) then (Inl (InternalServerError (vs_message r)), s1)
                    else (case updateVirtualAccount (mergeProvider d local) s1 of
                            Inl e \<Rightarrow> (Inl e, s1)
                          | Inr (v, s2) \<Rightarrow> (Inr v, s2)))))"

text \<open>A best effort: whatever goes wrong is logged, and the state stays.\<close>

definition syncBvnFromKyc :: "vaProvider \<Rightarrow> string \<Rightarrow> string \<Rightarrow> db \<Rightarrow> db" where
  "syncBvnFromKyc p userId bvn s =
     (case vaOfUser userId s of
        None \<Rightarrow> s
      | Some v \<Rightarrow>
          (case vp_updateBvn p (va_orderRef v) bvn of
             Inl message \<Rightarrow> s
           | Inr r \<Rightarrow>
               (case (if vs_status r = ''success'' then vs_data r else None) of
                  None \<Rightarrow> s
                | Some d \<Rightarrow>
                    (case updateVirtualAccount (mergeProvider d v) s of Inl e \<Rightarrow> s | Inr (_, s1) \<Rightarrow> s1))))"

definition deleteForUser :: "vaProvider \<Rightarrow> string \<Rightarrow> db \<Rightarrow> (virtualAccount \<times> db) result" where
  "deleteForUser p userId s =
     bindE (orThrow (NotFound ''Virtual account not found'') (vaOfUser userId s)) (\<lambda>v.
     (case vp_delete p (va_orderRef v) of
        Inl message \<Rightarrow> Inl (PlainError message)
      | Inr r \<Rightarrow>
          if vs_status r \<noteq> ''success'' then Inl (InternalServerError (vs_message r))
          else Inr (v, s\<lparr>virtualAccounts := filter (\<lambda>x. va_id x \<noteq> va_id v) (virtualAccounts s)\<rparr>)))"

section \<open>One account per user and wallet\<close>

lemma insertVirtualAccount_Inr:
  "insertVirtualAccount v s = Inr s' \<longleftrightarrow>
   (\<forall>x \<in> set (virtualAccounts s). va_id x \<noteq> va_id v \<and> va_userId x \<noteq> va_userId v \<and>
      va_walletId x \<noteq> va_walletId v \<and> va_flwRef x \<noteq> va_flwRef v \<and> va_orderRef x \<noteq> va_orderRef v \<and>
      va_txRef x \<noteq> va_txRef v) \<and> s' = s\<lparr>virtualAccounts := virtualAccounts s @ [v]\<rparr>"
  by (auto simp: insertVirtualAccount_def list_ex_iff)

interpretation vaByUser: keyed_table virtualAccounts va_userId insertVirtualAccount
  by unfold_locales (auto simp: insertVirtualAccount_Inr)

interpretation vaByWallet: keyed_table virtualAccounts va_walletId insertVirtualAccount
  by unfold_locales (auto simp: insertVirtualAccount_Inr)

interpretation vaByReference: keyed_table virtualAccounts va_txRef insertVirtualAccount
  by unfold_locales (auto simp: insertVirtualAccount_Inr)

text \<open>Every account belongs to the wallet of its user, under the reference built for that user.\<close>

definition accountOk :: "db \<Rightarrow> virtualAccount \<Rightarrow> bool" where
  "accountOk s v \<longleftrightarrow> va_txRef v = buildVirtualAccountTxRef (va_userId v) \<and>
     (\<exists>w \<in> set (wallets s). w_id w = va_walletId v \<and> w_userId w = va_userId v)"

definition virtualAccountsOk :: "db \<Rightarrow> bool" where
  "virtualAccountsOk s \<longleftrightarrow> distinct (map va_id (virtualAccounts s)) \<and>
     distinct (map va_userId (virtualAccounts s)) \<and> (\<forall>v \<in> set (virtualAccounts s). accountOk s v)"

lemma accountOk_mono: "accountOk s v \<Longrightarrow> set (wallets s) \<subseteq> set (wallets t) \<Longrightarrow> accountOk t v"
  by (auto simp: accountOk_def)

lemma walletOfUserD: "walletOfUser uid s = Some w \<Longrightarrow> w \<in> set (wallets s) \<and> w_userId w = uid"
  by (auto simp: walletOfUser_def dest!: find_SomeD)

lemma getOrCreateWallet_user:
  "getOrCreateWallet env uid s = Inr (w, s') \<Longrightarrow> w \<in> set (wallets s') \<and> w_userId w = uid \<and>
   set (wallets s) \<subseteq> set (wallets s') \<and> virtualAccounts s' = virtualAccounts s \<and> users s' = users s"
  by (auto simp: getOrCreateWallet_def createWallet_def insertWallet_def result_simps Let_def
      dest: walletOfUserD split: option.splits if_splits)

lemma vaOfUserD: "vaOfUser uid s = Some v \<Longrightarrow> v \<in> set (virtualAccounts s) \<and> va_userId v = uid"
  by (auto simp: vaOfUser_def dest!: find_SomeD)

lemma userByIdD: "userById uid s = Some u \<Longrightarrow> u \<in> set (users s) \<and> u_id u = uid"
  by (auto simp: userById_def dest!: find_SomeD)

lemma openAccount_ok:
  assumes "openAccount env p u w s = (r, s')" and "virtualAccountsOk s"
    and "w \<in> set (wallets s)" and "w_userId w = u_id u"
  shows "virtualAccountsOk s' \<and> (\<forall>v. r = Inr v \<longrightarrow> v \<in> set (virtualAccounts s') \<and> va_userId v = u_id u)"
proof -
  have fail: "v \<in> set (virtualAccounts s) \<and> va_userId v = u_id u" if "orExisting (u_id u) e s = Inr v" for e v
    using that vaOfUserD by (auto simp: orExisting_def result_simps)
  have store: "virtualAccountsOk s1" if "insertVirtualAccount (newVirtualAccount env u w d) s = Inr s1" for d s1
    using that assms(2-4) vaByUser.distinct_keys [OF that]
    by (auto simp: insertVirtualAccount_Inr virtualAccountsOk_def accountOk_def newVirtualAccount_def)
  show ?thesis
    using assms(1,2) fail store
    by (auto simp: openAccount_def newVirtualAccount_def insertVirtualAccount_Inr
        split: sum.splits option.splits)
qed

lemma getOrCreateVa_ok:
  assumes "getOrCreateVa env p uid s = (r, s')" and "virtualAccountsOk s"
  shows "virtualAccountsOk s' \<and> (\<forall>v. r = Inr v \<longrightarrow> v \<in> set (virtualAccounts s') \<and> va_userId v = uid)"
proof (cases "vaOfUser uid s")
  case None
  then have p: "provision env p uid s = (r, s')" using assms(1) by (simp add: getOrCreateVa_def)
  show ?thesis
  proof (cases "userById uid s")
    case (Some u)
    then have uid: "u_id u = uid" using userByIdD by blast
    show ?thesis
    proof (cases "case walletOfUser uid s of Some w \<Rightarrow> Inr (w, s)
        | None \<Rightarrow> getOrCreateWallet (later 1 env) uid s")
      case (Inr x)
      obtain w s1 where x: "x = (w, s1)" by fastforce
      have w: "w \<in> set (wallets s1) \<and> w_userId w = uid \<and> set (wallets s) \<subseteq> set (wallets s1) \<and>
          virtualAccounts s1 = virtualAccounts s"
        using Inr x walletOfUserD getOrCreateWallet_user by (auto split: option.splits)
      then have "virtualAccountsOk s1"
        using assms(2) accountOk_mono by (auto simp: virtualAccountsOk_def)
      moreover have "openAccount env p u w s1 = (r, s')"
        using p Some Inr x by (simp add: provision_def)
      ultimately show ?thesis using openAccount_ok [of env p u w s1 r s'] w uid by simp
    qed (use p Some assms(2) in \<open>auto simp: provision_def\<close>)
  qed (use p assms(2) in \<open>auto simp: provision_def\<close>)
next
  case (Some v)
  then show ?thesis using assms vaOfUserD [OF Some] by (auto simp: getOrCreateVa_def)
qed

lemma virtualAccounts_frame_open: "ledgerEntries (snd (openAccount env p u w s)) = ledgerEntries s"
  by (auto simp: openAccount_def insertVirtualAccount_def split: sum.splits option.splits if_splits)

end
