(* ===== verification/Auth.thy ===== *)
theory Auth
  imports Otp Trust
begin

text \<open>
  \<^verbatim>\<open>src/modules/auth/auth.service.ts\<close>, \<^verbatim>\<open>jwt.strategy.ts\<close> and \<^verbatim>\<open>guards/roles.guard.ts\<close>: registration,
  sessions and passwords.  A session is a refresh token, kept as a digest; an access token carries the
  user and the role and is signed by a library, so here it is the pair it carries.
\<close>

section \<open>Users and sessions\<close>

definition findUserByAnyEmail :: "string \<Rightarrow> db \<Rightarrow> user option" where
  "findUserByAnyEmail email s =
     findFirst (\<lambda>u. toLowerCase (u_email u) = normalizeEmail email \<or>
         map_option toLowerCase (u_pendingEmail u) = Some (normalizeEmail email)) (users s)"

definition updateUser :: "string \<Rightarrow> (user \<Rightarrow> user) \<Rightarrow> db \<Rightarrow> db" where
  "updateUser uid f s = s\<lparr>users := updateRow (\<lambda>u. u_id u = uid) f (users s)\<rparr>"

definition emit :: "authEvent \<Rightarrow> db \<Rightarrow> db" where
  "emit ev s = s\<lparr>authEvents := authEvents s @ [ev]\<rparr>"

text \<open>\<^verbatim>\<open>refreshToken.updateMany\<close> for one user: every session that is open is revoked.\<close>

definition revokeTokens :: "env \<Rightarrow> string \<Rightarrow> db \<Rightarrow> db" where
  "revokeTokens env uid s =
     s\<lparr>refreshTokens := map (\<lambda>t. if rt_userId t = uid \<and> rt_revokedAt t = None
                              then t\<lparr>rt_revokedAt := Some (now env)\<rparr> else t) (refreshTokens s)\<rparr>"

record tokens =
  tk_access :: "string \<times> role"
  tk_refreshToken :: string
  tk_expiresIn :: string

text \<open>
  The lifetime of a refresh token: every character of the setting that is not a digit is dropped, so
  its unit is not read.
\<close>

definition digitsOf :: "string \<Rightarrow> string" where
  "digitsOf = filter (\<lambda>c. (of_char c :: nat) \<in> {48..57})"

definition numberOf :: "string \<Rightarrow> nat" where
  "numberOf = foldl (\<lambda>n c. 10 * n + (of_char c - 48)) 0"

definition envOr :: "string \<Rightarrow> string option \<Rightarrow> string" where
  "envOr d v = (case v of None \<Rightarrow> d | Some x \<Rightarrow> if x = '''' then d else x)"

definition refreshDays :: "security \<Rightarrow> int" where
  "refreshDays sec =
     (let days = numberOf (digitsOf (toLowerCase (envOr ''30d'' (sc_refreshExpires sec))))
      in if days = 0 then 7 else int days)"

definition issueTokens :: "env \<Rightarrow> security \<Rightarrow> string \<Rightarrow> role \<Rightarrow> db \<Rightarrow> tokens \<times> db" where
  "issueTokens env sec userId r s =
     (let s1 = revokeTokens env userId s;
          refreshRaw = rnd env 1;
          row = \<lparr>rt_id = rnd env 0, rt_userId = userId, rt_tokenHash = sc_sha256 sec refreshRaw,
                 rt_expiresAt = now env + refreshDays sec * 24 * 60 * 60 * 1000, rt_revokedAt = None\<rparr>
      in (\<lparr>tk_access = (userId, r), tk_refreshToken = refreshRaw,
           tk_expiresIn = envOr ''1h'' (sc_accessExpires sec)\<rparr>,
          s1\<lparr>refreshTokens := refreshTokens s1 @ [row]\<rparr>))"

definition refreshTokensWith :: "env \<Rightarrow> security \<Rightarrow> string \<Rightarrow> db \<Rightarrow> (tokens \<times> db) result" where
  "refreshTokensWith env sec refreshToken s =
     bindE (ensure (refreshToken \<noteq> '''') (BadRequest ''Refresh token is required'')) (\<lambda>_.
     bindE (orThrow (Unauthorized ''Invalid or expired refresh token'')
       (findFirst (\<lambda>t. rt_tokenHash t = sc_sha256 sec refreshToken \<and> rt_revokedAt t = None \<and>
           now env < rt_expiresAt t) (refreshTokens s))) (\<lambda>stored.
     bindE (orThrow (PrismaError ''P2025'') (userById (rt_userId stored) s)) (\<lambda>u.
     Inr (issueTokens env sec (u_id u) (u_role u) s))))"

section \<open>Registration\<close>

record registerDto =
  rg_firstName :: string
  rg_lastName :: string
  rg_email :: string
  rg_dob :: int
  rg_phone :: string
  rg_password :: string

definition insertUser :: "user \<Rightarrow> db \<Rightarrow> db result" where
  "insertUser u s =
     (if list_ex (\<lambda>x. u_id x = u_id u \<or> u_email x = u_email u) (users s) then Inl (PrismaError ''P2002'')
      else Inr (s\<lparr>users := users s @ [u]\<rparr>))"

definition newKyc :: "string \<Rightarrow> kyc" where
  "newKyc uid =
     \<lparr>k_userId = uid, k_kycLevel = 0, k_status = KS_NOT_SUBMITTED, k_step = NIN_REQUIRED, k_nin = None,
      k_bvn = None, k_ninVerifiedAt = None, k_bvnVerifiedAt = None, k_nextOfKin = None, k_address = None,
      k_city = None, k_state = None, k_lga = None, k_country = None, k_selfieUrl = None,
      k_governmentIdType = None, k_governmentIdFrontUrl = None, k_governmentIdBackUrl = None,
      k_proofOfAddressType = None, k_proofOfAddressUrl = None, k_rejectionReason = None,
      k_submittedAt = None, k_reviewedAt = None, k_reviewedBy = None\<rparr>"

text \<open>\<^verbatim>\<open>connectOrCreate\<close> of the profile and of the KYC record; on a new user both are created.\<close>

definition ensureProfile :: "string \<Rightarrow> db \<Rightarrow> db" where
  "ensureProfile uid s = (if uid \<in> set (userProfiles s) then s else s\<lparr>userProfiles := userProfiles s @ [uid]\<rparr>)"

definition ensureKyc :: "string \<Rightarrow> db \<Rightarrow> db" where
  "ensureKyc uid s =
     (if list_ex (\<lambda>k. k_userId k = uid) (kycs s) then s else s\<lparr>kycs := kycs s @ [newKyc uid]\<rparr>)"

text \<open>The initial trust and credit scores: \<^verbatim>\<open>upsert\<close> with nothing to update.\<close>

definition seedScores :: "env \<Rightarrow> string \<Rightarrow> db \<Rightarrow> db" where
  "seedScores env uid s =
     (let s1 = (if trustStatsOf uid s = None
                then s\<lparr>allTrustStats := allTrustStats s @ [newTrustStats env uid]\<rparr> else s)
      in if list_ex (\<lambda>c. cr_userId c = uid) (creditScores s1) then s1
         else s1\<lparr>creditScores := creditScores s1 @
                 [\<lparr>cr_userId = uid, cr_externalScore = 575, cr_trustDisplayScore = 425, cr_finalScore = 575\<rparr>]\<rparr>)"

text \<open>What follows the user row in both registrations.\<close>

definition greet :: "env \<Rightarrow> security \<Rightarrow> string \<Rightarrow> string \<Rightarrow> db \<Rightarrow> db result" where
  "greet env sec uid normalizedEmail s =
     bindE (sendOtp env sec normalizedEmail OTP_VERIFICATION (seedScores env uid s)) (\<lambda>(_, s1).
     Inr (emit (UserRegistered uid) s1))"

definition registeredUser :: "env \<Rightarrow> security \<Rightarrow> registerDto \<Rightarrow> role \<Rightarrow> user" where
  "registeredUser env sec d r =
     \<lparr>u_id = rnd env 0, u_email = normalizeEmail (rg_email d), u_firstName = rg_firstName d,
      u_lastName = rg_lastName d, u_transactionPin = None, u_role = r, u_createdAt = now env,
      u_password = sc_hash sec (rnd env 1) (rg_password d), u_pendingEmail = None, u_phone = rg_phone d,
      u_dob = rg_dob d, u_isVerified = False, u_status = US_ACTIVE, u_suspendedAt = None,
      u_suspensionReason = None, u_adminRequestedAt = None\<rparr>"

definition createUser :: "user \<Rightarrow> db \<Rightarrow> db result" where
  "createUser u s =
     bindE (insertUser u s) (\<lambda>s1. Inr (ensureKyc (u_id u) (ensureProfile (u_id u) s1)))"

definition register :: "env \<Rightarrow> security \<Rightarrow> registerDto \<Rightarrow> db \<Rightarrow> (string \<times> db) result" where
  "register env sec d s =
     (let normalizedEmail = normalizeEmail (rg_email d); u = registeredUser env sec d MEMBER in
      bindE (ensure (findUserByAnyEmail normalizedEmail s = None)
        (BadRequest ''User with email already exists'')) (\<lambda>_.
      bindE (createUser u s) (\<lambda>s1.
      bindE (greet (later 2 env) sec (u_id u) normalizedEmail s1) (\<lambda>s2.
      Inr (u_email u, s2)))))"

definition registerAdmin :: "env \<Rightarrow> security \<Rightarrow> registerDto \<Rightarrow> db \<Rightarrow> (string \<times> db) result" where
  "registerAdmin env sec d s =
     (let normalizedEmail = normalizeEmail (rg_email d) in
      bindE (case findUserByAnyEmail normalizedEmail s of
               None \<Rightarrow>
                 (let u = registeredUser env sec d ADMIN
                  in bindE (createUser u s) (\<lambda>s1. Inr (u_id u, s1)))
             | Some existing \<Rightarrow>
                 bindE (ensure (normalizeEmail (u_email existing) = normalizedEmail)
                   (BadRequest ''User with email already exists'')) (\<lambda>_.
                 bindE (ensure (u_role existing \<noteq> ADMIN) (BadRequest ''User is already an admin'')) (\<lambda>_.
                 Inr (u_id existing,
                   ensureKyc (u_id existing) (ensureProfile (u_id existing)
                     (updateUser (u_id existing)
                       (\<lambda>u. u\<lparr>u_role := ADMIN, u_firstName := rg_firstName d, u_lastName := rg_lastName d,
                              u_dob := rg_dob d, u_phone := rg_phone d,
                              u_password := sc_hash sec (rnd env 1) (rg_password d)\<rparr>) s)))))) (\<lambda>(uid, s1).
      bindE (greet (later 2 env) sec uid normalizedEmail s1) (\<lambda>s2.
      Inr (uid, s2))))"

definition resendVerificationOtp :: "env \<Rightarrow> security \<Rightarrow> string \<Rightarrow> db \<Rightarrow> (unit \<times> db) result" where
  "resendVerificationOtp env sec email s =
     (case findActiveUserByEmail email s of
        None \<Rightarrow> Inr ((), s)
      | Some u \<Rightarrow>
          bindE (ensure (\<not> u_isVerified u) (BadRequest ''Email already verified'')) (\<lambda>_.
          sendOtp env sec (u_email u) OTP_VERIFICATION s))"

definition resendResetPasswordOtp :: "env \<Rightarrow> security \<Rightarrow> string \<Rightarrow> db \<Rightarrow> (unit \<times> db) result" where
  "resendResetPasswordOtp env sec email s =
     (case findActiveUserByEmail email s of
        None \<Rightarrow> Inr ((), s)
      | Some u \<Rightarrow>
          bindE (ensure (\<not> u_isVerified u) (BadRequest ''Email already verified'')) (\<lambda>_.
          sendOtp env sec (u_email u) OTP_RESET_PASSWORD s))"

definition verifyEmail :: "env \<Rightarrow> security \<Rightarrow> string \<Rightarrow> string \<Rightarrow> db \<Rightarrow> (unit \<times> db) result" where
  "verifyEmail env sec email otp s =
     bindE (consumeOtp env sec email OTP_VERIFICATION otp s) (\<lambda>(u, s1).
     Inr ((), emit (EmailVerified (u_id u)) (updateUser (u_id u) (\<lambda>x. x\<lparr>u_isVerified := True\<rparr>) s1)))"

section \<open>Sessions and passwords\<close>

definition login :: "env \<Rightarrow> security \<Rightarrow> string \<Rightarrow> string \<Rightarrow> db \<Rightarrow> (tokens \<times> db) result" where
  "login env sec email password s =
     bindE (orThrow (Unauthorized ''Invalid credentials'') (findActiveUserByEmail email s)) (\<lambda>u.
     bindE (ensure (sc_verify sec password (u_password u)) (Unauthorized ''Invalid credentials'')) (\<lambda>_.
     bindE (ensure (u_isVerified u) (Forbidden ''Email not verified'')) (\<lambda>_.
     Inr (issueTokens env sec (u_id u) (u_role u) s))))"

definition logout :: "env \<Rightarrow> security \<Rightarrow> string \<Rightarrow> string \<Rightarrow> db \<Rightarrow> (unit \<times> db) result" where
  "logout env sec userId refreshToken s =
     bindE (ensure (refreshToken \<noteq> '''') (BadRequest ''refreshToken is required'')) (\<lambda>_.
     Inr ((), s\<lparr>refreshTokens :=
         map (\<lambda>t. if rt_userId t = userId \<and> rt_tokenHash t = sc_sha256 sec refreshToken \<and> rt_revokedAt t = None
                  then t\<lparr>rt_revokedAt := Some (now env)\<rparr> else t) (refreshTokens s)\<rparr>))"

definition forgotPassword :: "env \<Rightarrow> security \<Rightarrow> string \<Rightarrow> db \<Rightarrow> (unit \<times> db) result" where
  "forgotPassword env sec email s =
     (case findActiveUserByEmail email s of
        None \<Rightarrow> Inr ((), s)
      | Some u \<Rightarrow> sendOtp env sec (u_email u) OTP_RESET_PASSWORD s)"

text \<open>A new password closes every session of the user.\<close>

definition setPassword :: "env \<Rightarrow> string \<Rightarrow> string \<Rightarrow> db \<Rightarrow> db" where
  "setPassword env uid newHash s =
     revokeTokens env uid (updateUser uid (\<lambda>x. x\<lparr>u_password := newHash\<rparr>) s)"

definition resetPassword ::
  "env \<Rightarrow> security \<Rightarrow> string \<Rightarrow> string \<Rightarrow> string \<Rightarrow> db \<Rightarrow> (unit \<times> db) result" where
  "resetPassword env sec email otp newPassword s =
     bindE (consumeOtp env sec email OTP_RESET_PASSWORD otp s) (\<lambda>(u, s1).
     Inr ((), emit (PasswordReset (u_id u)) (setPassword env (u_id u) (sc_hash sec (rnd env 0) newPassword) s1)))"

definition changePassword ::
  "env \<Rightarrow> security \<Rightarrow> string \<Rightarrow> string \<Rightarrow> string \<Rightarrow> db \<Rightarrow> (unit \<times> db) result" where
  "changePassword env sec userId oldPassword newPassword s =
     bindE (orThrow (BadRequest ''User not found'') (userById userId s)) (\<lambda>u.
     bindE (ensure (sc_verify sec oldPassword (u_password u)) (Unauthorized ''Old password is wrong'')) (\<lambda>_.
     Inr ((), emit (PasswordChanged userId)
       (setPassword env userId (sc_hash sec (rnd env 0) newPassword) s))))"

section \<open>Who may call\<close>

record authUser =
  au_userId :: string
  au_role :: role

text \<open>The strategy reads the user of a valid access token; the role is the one of the row.\<close>

definition jwtValidate :: "string \<times> role \<Rightarrow> db \<Rightarrow> authUser result" where
  "jwtValidate payload s =
     bindE (orThrow (NotFound ''User not found'') (userById (fst payload) s)) (\<lambda>u.
     bindE (ensure (u_isVerified u) (Unauthorized ''Unauthorized'')) (\<lambda>_.
     Inr \<lparr>au_userId = u_id u, au_role = u_role u\<rparr>))"

definition rolesGuard :: "role list option \<Rightarrow> authUser option \<Rightarrow> bool" where
  "rolesGuard required u =
     (case required of
        None \<Rightarrow> True
      | Some rs \<Rightarrow> if rs = [] then True else (case u of None \<Rightarrow> False | Some x \<Rightarrow> au_role x \<in> set rs))"

end
