(* ===== verification/Kyc.thy ===== *)
theory Kyc
  imports Encryption Identity VirtualAccounts Auth
begin

text \<open>
  \<^verbatim>\<open>src/modules/kyc/kyc.service.ts\<close> and \<^verbatim>\<open>kyc.processor.ts\<close>: the tiers of a user's verification.
  NIN, BVN and next of kin give level 1; a government ID gives level 2 and a proof of address level 3,
  each after a review.  The registry, the cipher and the provider of virtual accounts are the
  record \<open>kycWorld\<close>.
\<close>

section \<open>Requests and answers\<close>

record kycWorld =
  kw_registry :: registry
  kw_cipher :: cipher
  kw_accounts :: vaProvider

record identityDto =
  iy_number :: string
  iy_firstName :: string
  iy_lastName :: string
  iy_dob :: string

record addressDto =
  ad_address :: string
  ad_city :: string
  ad_state :: string
  ad_lga :: "string option"
  ad_country :: string

record photoFiles =
  pf_selfie :: string
  pf_front :: string
  pf_back :: "string option"

text \<open>The answer leaves out the two encrypted numbers and says only whether they are verified.\<close>

record kycResponse =
  kr_userId :: string
  kr_status :: kycStatus
  kr_step :: kycStep
  kr_kycLevel :: int
  kr_nextOfKin :: "(string \<times> string \<times> string) option"
  kr_address :: "string option list"
  kr_selfieUrl :: "string option"
  kr_governmentIdType :: "governmentIdType option"
  kr_governmentIdUrls :: "string option \<times> string option"
  kr_proofOfAddress :: "proofOfAddressType option \<times> string option"
  kr_ninVerified :: bool
  kr_bvnVerified :: bool
  kr_nokSubmitted :: bool
  kr_ninVerifiedAt :: "int option"
  kr_bvnVerifiedAt :: "int option"
  kr_submittedAt :: "int option"
  kr_rejectionReason :: "string option"

definition mapToResponseDto :: "kyc \<Rightarrow> kycResponse" where
  "mapToResponseDto k =
     \<lparr>kr_userId = k_userId k, kr_status = k_status k, kr_step = k_step k, kr_kycLevel = k_kycLevel k,
      kr_nextOfKin = k_nextOfKin k,
      kr_address = [k_address k, k_city k, k_state k, k_lga k, k_country k],
      kr_selfieUrl = k_selfieUrl k, kr_governmentIdType = k_governmentIdType k,
      kr_governmentIdUrls = (k_governmentIdFrontUrl k, k_governmentIdBackUrl k),
      kr_proofOfAddress = (k_proofOfAddressType k, k_proofOfAddressUrl k),
      kr_ninVerified = (k_ninVerifiedAt k \<noteq> None), kr_bvnVerified = (k_bvnVerifiedAt k \<noteq> None),
      kr_nokSubmitted = (k_submittedAt k \<noteq> None), kr_ninVerifiedAt = k_ninVerifiedAt k,
      kr_bvnVerifiedAt = k_bvnVerifiedAt k, kr_submittedAt = k_submittedAt k,
      kr_rejectionReason = k_rejectionReason k\<rparr>"

text \<open>\<^verbatim>\<open>kYC.update\<close> of the row of a user, which has been read before; its answer is the new row.\<close>

definition updateKyc :: "kyc \<Rightarrow> (kyc \<Rightarrow> kyc) \<Rightarrow> db \<Rightarrow> kycResponse \<times> db" where
  "updateKyc k f s =
     (mapToResponseDto (f k),
      s\<lparr>kycs := updateRow (\<lambda>x. k_userId x = k_userId k) f (kycs s)\<rparr>)"

section \<open>Level 1\<close>

definition initializeKyc :: "string \<Rightarrow> db \<Rightarrow> kyc \<times> db" where
  "initializeKyc uid s =
     (case kycOfUser uid s of Some k \<Rightarrow> (k, s) | None \<Rightarrow> (newKyc uid, s\<lparr>kycs := kycs s @ [newKyc uid]\<rparr>))"

text \<open>The worker of the auth events: a verified mail address opens the KYC record.\<close>

definition processAuthEvent :: "authEvent \<Rightarrow> db \<Rightarrow> db" where
  "processAuthEvent ev s = (case ev of EmailVerified uid \<Rightarrow> snd (initializeKyc uid s) | _ \<Rightarrow> s)"

definition backfill :: "kyc \<Rightarrow> kyc" where
  "backfill k = k\<lparr>k_kycLevel := 1, k_status := KS_APPROVED\<rparr>"

definition getKycStatus :: "string \<Rightarrow> db \<Rightarrow> (kycResponse \<times> db) result" where
  "getKycStatus uid s =
     bindE (orThrow (NotFound ''KYC record not found'') (kycOfUser uid s)) (\<lambda>k.
     Inr (if k_kycLevel k = 0 \<and> k_step k = SUBMITTED then updateKyc k backfill s
          else (mapToResponseDto k, s)))"

definition verifyNin ::
  "env \<Rightarrow> kycWorld \<Rightarrow> string \<Rightarrow> identityDto \<Rightarrow> db \<Rightarrow> kycResponse result \<times> db" where
  "verifyNin env w uid d s =
     (case initializeKyc uid s of
        (k, s1) \<Rightarrow>
          if k_ninVerifiedAt k \<noteq> None then (Inr (mapToResponseDto k), s1)
          else if k_step k \<noteq> NIN_REQUIRED then (Inl (BadRequest ''Invalid KYC step''), s1)
          else case checkNin (kw_registry w) (iy_number d) (iy_firstName d) (iy_lastName d) (iy_dob d) of
                 Inl e \<Rightarrow> (Inl e, s1)
               | Inr v \<Rightarrow>
                   if \<not> vn_verified v
                   then (Inl (UnprocessableEntity
                          (if vn_message v = '''' then ''NIN verification failed'' else vn_message v)), s1)
                   else if userById uid s1 = None then (Inl (NotFound ''User not found''), s1)
                   else map_prod Inr id (updateKyc k
                     (\<lambda>x. x\<lparr>k_nin := Some (encrypt (kw_cipher w) (rnd env 0) (iy_number d)),
                            k_ninVerifiedAt := Some (now env), k_step := BVN_REQUIRED,
                            k_status := KS_PENDING\<rparr>) s1))"

definition verifyBvn ::
  "env \<Rightarrow> kycWorld \<Rightarrow> string \<Rightarrow> identityDto \<Rightarrow> db \<Rightarrow> (kycResponse \<times> db) result" where
  "verifyBvn env w uid d s =
     bindE (orThrow (NotFound ''KYC record not found. Please verify NIN first.'') (kycOfUser uid s)) (\<lambda>k.
     if k_bvnVerifiedAt k \<noteq> None then Inr (mapToResponseDto k, s)
     else
     bindE (ensure (k_step k = BVN_REQUIRED) (BadRequest ''Invalid KYC step'')) (\<lambda>_.
     bindE (checkBvn (kw_registry w) (iy_number d) (iy_firstName d) (iy_lastName d) (iy_dob d)) (\<lambda>v.
     bindE (ensure (vn_verified v) (UnprocessableEntity
       (if vn_message v = '''' then ''BVN verification failed'' else vn_message v))) (\<lambda>_.
     bindE (ensure (userById uid s \<noteq> None) (NotFound ''User not found'')) (\<lambda>_.
     case updateKyc k
       (\<lambda>x. x\<lparr>k_bvn := Some (encrypt (kw_cipher w) (rnd env 0) (iy_number d)),
              k_bvnVerifiedAt := Some (now env), k_step := NOK_REQUIRED, k_status := KS_PENDING\<rparr>) s of
       (answer, s1) \<Rightarrow> Inr (answer, syncBvnFromKyc (kw_accounts w) uid (iy_number d) s1))))))"

definition submitNextOfKin ::
  "env \<Rightarrow> string \<Rightarrow> string \<times> string \<times> string \<Rightarrow> db \<Rightarrow> (kycResponse \<times> db) result" where
  "submitNextOfKin env uid kin s =
     bindE (orThrow (NotFound ''KYC record not found. Please complete previous steps first.'')
       (kycOfUser uid s)) (\<lambda>k.
     if k_submittedAt k \<noteq> None \<or> 1 \<le> k_kycLevel k
     then Inr (if k_kycLevel k = 0 \<and> k_step k = SUBMITTED then updateKyc k backfill s
               else (mapToResponseDto k, s))
     else
     bindE (ensure (k_step k = NOK_REQUIRED) (BadRequest ''Invalid KYC step'')) (\<lambda>_.
     case updateKyc k
       (\<lambda>x. x\<lparr>k_nextOfKin := Some kin, k_step := SUBMITTED, k_status := KS_APPROVED, k_kycLevel := 1,
              k_submittedAt := Some (now env), k_reviewedAt := Some (now env),
              k_reviewedBy := Some ''SYSTEM_AUTO_APPROVE''\<rparr>) s of
       (answer, s1) \<Rightarrow> Inr (answer, emit (KycStatusChanged uid KS_APPROVED) s1)))"

definition submitAddress :: "env \<Rightarrow> string \<Rightarrow> addressDto \<Rightarrow> db \<Rightarrow> (kycResponse \<times> db) result" where
  "submitAddress env uid d s =
     bindE (orThrow (NotFound ''KYC record not found. Please complete previous steps first.'')
       (kycOfUser uid s)) (\<lambda>k.
     bindE (ensure (k_step k = ADDRESS_REQUIRED) (BadRequest ''Invalid KYC step'')) (\<lambda>_.
     Inr (updateKyc k
       (\<lambda>x. x\<lparr>k_address := Some (ad_address d), k_city := Some (ad_city d), k_state := Some (ad_state d),
              k_lga := (case ad_lga d of None \<Rightarrow> k_lga x | Some l \<Rightarrow> Some l),
              k_country := Some (ad_country d), k_step := SUBMITTED, k_status := KS_PENDING,
              k_submittedAt := Some (now env)\<rparr>) s)))"

section \<open>Levels 2 and 3\<close>

definition isTestBypass :: "kycWorld \<Rightarrow> kyc \<Rightarrow> bool result" where
  "isTestBypass w k =
     (if rg_production (kw_registry w) \<or> \<not> present (k_nin k) then Inr False
      else bindE (decrypt (kw_cipher w) (orOld (k_nin k) '''')) (\<lambda>nin. Inr (nin = TEST_NIN)))"

text \<open>The columns a submission sets besides its documents.\<close>

definition submitted :: "env \<Rightarrow> bool \<Rightarrow> kycStep \<Rightarrow> int \<Rightarrow> kyc \<Rightarrow> kyc" where
  "submitted env testBypass nextStep level k =
     (if testBypass
      then k\<lparr>k_step := SUBMITTED, k_status := KS_APPROVED, k_kycLevel := level,
             k_reviewedAt := Some (now env), k_reviewedBy := Some ''SYSTEM_TEST_BYPASS'',
             k_rejectionReason := None\<rparr>
      else k\<lparr>k_step := nextStep, k_status := KS_PENDING\<rparr>)"

definition submitPhoto ::
  "env \<Rightarrow> kycWorld \<Rightarrow> string \<Rightarrow> governmentIdType \<Rightarrow> addressDto \<Rightarrow> photoFiles \<Rightarrow> db
   \<Rightarrow> (kycResponse \<times> db) result" where
  "submitPhoto env w uid idType d files s =
     bindE (orThrow (NotFound ''KYC record not found. Please complete previous steps first.'')
       (kycOfUser uid s)) (\<lambda>k.
     bindE (ensure (\<not> (k_kycLevel k < 1 \<or> k_status k \<noteq> KS_APPROVED \<or> k_step k \<noteq> SUBMITTED))
       (BadRequest ''Level 2 upgrade requires an approved Level 1 KYC. Please complete Level 1 first.'')) (\<lambda>_.
     bindE (isTestBypass w k) (\<lambda>testBypass.
     Inr (updateKyc k
       (\<lambda>x. submitted env testBypass PHOTO_REQUIRED 2
         (x\<lparr>k_selfieUrl := Some (pf_selfie files), k_governmentIdType := Some idType,
            k_governmentIdFrontUrl := Some (pf_front files), k_governmentIdBackUrl := pf_back files,
            k_address := Some (ad_address d), k_city := Some (ad_city d), k_state := Some (ad_state d),
            k_lga := ad_lga d, k_country := Some (ad_country d)\<rparr>)) s))))"

definition submitProofOfAddress ::
  "env \<Rightarrow> kycWorld \<Rightarrow> string \<Rightarrow> proofOfAddressType \<Rightarrow> string \<Rightarrow> db \<Rightarrow> (kycResponse \<times> db) result" where
  "submitProofOfAddress env w uid proofType url s =
     bindE (orThrow (NotFound ''KYC record not found. Please complete previous steps first.'')
       (kycOfUser uid s)) (\<lambda>k.
     bindE (ensure (\<not> (k_kycLevel k < 2 \<or> k_status k \<noteq> KS_APPROVED \<or> k_step k \<noteq> SUBMITTED))
       (BadRequest ''Level 3 upgrade requires an approved Level 2 KYC. Please complete Level 2 first.'')) (\<lambda>_.
     bindE (isTestBypass w k) (\<lambda>testBypass.
     Inr (updateKyc k
       (\<lambda>x. submitted env testBypass PROOF_OF_ADDRESS_REQUIRED 3
         (x\<lparr>k_proofOfAddressUrl := Some url, k_proofOfAddressType := Some proofType\<rparr>)) s))))"

section \<open>Review\<close>

definition reviewableSteps :: "kycStep list" where
  "reviewableSteps = [SUBMITTED, PHOTO_REQUIRED, PROOF_OF_ADDRESS_REQUIRED]"

record pendingKyc =
  pk_userId :: string
  pk_name :: string
  pk_email :: string
  pk_submittedAt :: "int option"
  pk_ninVerifiedAt :: "int option"
  pk_bvnVerifiedAt :: "int option"
  pk_nokSubmitted :: bool

text \<open>The oldest submission first, rows without one last, as the database orders nulls.\<close>

definition listPendingKyc :: "db \<Rightarrow> pendingKyc list" where
  "listPendingKyc s =
     (let rows = filter (\<lambda>k. k_status k = KS_PENDING \<and> k_step k \<in> set reviewableSteps) (kycs s)
      in map (\<lambda>k. \<lparr>pk_userId = k_userId k,
             pk_name = (case userById (k_userId k) s of None \<Rightarrow> k_userId k | Some u \<Rightarrow> trim (fullName u)),
             pk_email = (case userById (k_userId k) s of None \<Rightarrow> '''' | Some u \<Rightarrow> u_email u),
             pk_submittedAt = k_submittedAt k, pk_ninVerifiedAt = k_ninVerifiedAt k,
             pk_bvnVerifiedAt = k_bvnVerifiedAt k,
             pk_nokSubmitted = (case k_nextOfKin k of None \<Rightarrow> False | Some (n, _) \<Rightarrow> n \<noteq> '''')\<rparr>)
           (sort_key (\<lambda>k. case k_submittedAt k of None \<Rightarrow> 0 | Some t \<Rightarrow> t)
              (filter (\<lambda>k. k_submittedAt k \<noteq> None) rows)
            @ filter (\<lambda>k. k_submittedAt k = None) rows))"

definition withdrawDocuments :: "kyc \<Rightarrow> kyc" where
  "withdrawDocuments k =
     (if k_kycLevel k = 0
      then k\<lparr>k_status := KS_NOT_SUBMITTED, k_step := NOK_REQUIRED, k_nextOfKin := None, k_address := None,
             k_city := None, k_state := None, k_lga := None, k_country := None, k_selfieUrl := None,
             k_governmentIdType := None, k_governmentIdFrontUrl := None, k_governmentIdBackUrl := None,
             k_proofOfAddressType := None, k_proofOfAddressUrl := None, k_submittedAt := None,
             k_reviewedAt := None, k_reviewedBy := None, k_rejectionReason := None\<rparr>
      else if k_kycLevel k = 1
      then k\<lparr>k_status := KS_APPROVED, k_step := SUBMITTED, k_selfieUrl := None, k_governmentIdType := None,
             k_governmentIdFrontUrl := None, k_governmentIdBackUrl := None, k_rejectionReason := None,
             k_reviewedAt := None, k_reviewedBy := None\<rparr>
      else k\<lparr>k_status := KS_APPROVED, k_step := SUBMITTED, k_proofOfAddressType := None,
             k_proofOfAddressUrl := None, k_rejectionReason := None, k_reviewedAt := None,
             k_reviewedBy := None\<rparr>)"

definition resubmitKyc :: "string \<Rightarrow> db \<Rightarrow> (kycResponse \<times> db) result" where
  "resubmitKyc uid s =
     bindE (orThrow (NotFound ''KYC record not found'') (kycOfUser uid s)) (\<lambda>k.
     bindE (ensure (k_status k = KS_REJECTED) (BadRequest ''KYC can only be resubmitted after rejection'')) (\<lambda>_.
     Inr (updateKyc k withdrawDocuments s)))"

definition underReview :: "string \<Rightarrow> db \<Rightarrow> kyc result" where
  "underReview uid s =
     bindE (orThrow (NotFound ''KYC record not found'') (kycOfUser uid s)) (\<lambda>k.
     bindE (ensure (k_step k \<in> set reviewableSteps) (BadRequest ''KYC is not awaiting review'')) (\<lambda>_.
     bindE (ensure (k_status k = KS_PENDING) (BadRequest ''KYC is not pending review'')) (\<lambda>_.
     Inr k)))"

definition approvedLevel :: "kyc \<Rightarrow> int" where
  "approvedLevel k =
     (if k_step k = PHOTO_REQUIRED then 2
      else if k_step k = PROOF_OF_ADDRESS_REQUIRED then 3
      else if k_step k = SUBMITTED \<and> k_kycLevel k = 0 then 1
      else k_kycLevel k)"

definition approveKyc :: "env \<Rightarrow> string \<Rightarrow> string \<Rightarrow> db \<Rightarrow> (kycResponse \<times> db) result" where
  "approveKyc env uid reviewedBy s =
     bindE (underReview uid s) (\<lambda>k.
     case updateKyc k
       (\<lambda>x. x\<lparr>k_status := KS_APPROVED, k_step := SUBMITTED, k_kycLevel := approvedLevel k,
              k_reviewedAt := Some (now env), k_reviewedBy := Some reviewedBy,
              k_rejectionReason := None\<rparr>) s of
       (answer, s1) \<Rightarrow> Inr (answer, emit (KycStatusChanged uid KS_APPROVED) s1))"

definition rejectKyc :: "env \<Rightarrow> string \<Rightarrow> string \<Rightarrow> string \<Rightarrow> db \<Rightarrow> (kycResponse \<times> db) result" where
  "rejectKyc env uid reviewedBy reason s =
     bindE (underReview uid s) (\<lambda>k.
     case updateKyc k
       (\<lambda>x. x\<lparr>k_status := KS_REJECTED, k_reviewedAt := Some (now env), k_reviewedBy := Some reviewedBy,
              k_rejectionReason := Some reason\<rparr>) s of
       (answer, s1) \<Rightarrow> Inr (answer, emit (KycStatusChanged uid KS_REJECTED) s1))"

section \<open>The steps of one record\<close>

text \<open>
  What one operation makes of one user's record, seen apart from the database: each rule is an
  operation with its guard.
\<close>

inductive kycMove :: "kyc \<Rightarrow> kyc \<Rightarrow> bool" where
  nin: "k_ninVerifiedAt k = None \<Longrightarrow> k_step k = NIN_REQUIRED \<Longrightarrow>
    kycMove k (k\<lparr>k_nin := Some x, k_ninVerifiedAt := Some t, k_step := BVN_REQUIRED, k_status := KS_PENDING\<rparr>)"
| bvn: "k_bvnVerifiedAt k = None \<Longrightarrow> k_step k = BVN_REQUIRED \<Longrightarrow>
    kycMove k (k\<lparr>k_bvn := Some x, k_bvnVerifiedAt := Some t, k_step := NOK_REQUIRED, k_status := KS_PENDING\<rparr>)"
| kin: "k_submittedAt k = None \<Longrightarrow> k_kycLevel k < 1 \<Longrightarrow> k_step k = NOK_REQUIRED \<Longrightarrow>
    kycMove k (k\<lparr>k_nextOfKin := Some n, k_step := SUBMITTED, k_status := KS_APPROVED, k_kycLevel := 1,
      k_submittedAt := Some t, k_reviewedAt := Some t, k_reviewedBy := Some ''SYSTEM_AUTO_APPROVE''\<rparr>)"
| filled: "k_kycLevel k = 0 \<Longrightarrow> k_step k = SUBMITTED \<Longrightarrow> kycMove k (backfill k)"
| address: "k_step k = ADDRESS_REQUIRED \<Longrightarrow>
    kycMove k (k\<lparr>k_address := a, k_city := c, k_state := st, k_lga := l, k_country := co,
      k_step := SUBMITTED, k_status := KS_PENDING, k_submittedAt := Some t\<rparr>)"
| photo: "1 \<le> k_kycLevel k \<Longrightarrow> k_status k = KS_APPROVED \<Longrightarrow> k_step k = SUBMITTED \<Longrightarrow>
    kycMove k (submitted env b PHOTO_REQUIRED 2
      (k\<lparr>k_selfieUrl := Some u, k_governmentIdType := Some i, k_governmentIdFrontUrl := Some f, k_governmentIdBackUrl := r,
         k_address := a, k_city := c, k_state := st, k_lga := l, k_country := co\<rparr>))"
| proof_of_address: "2 \<le> k_kycLevel k \<Longrightarrow> k_status k = KS_APPROVED \<Longrightarrow> k_step k = SUBMITTED \<Longrightarrow>
    kycMove k (submitted env b PROOF_OF_ADDRESS_REQUIRED 3 (k\<lparr>k_proofOfAddressUrl := Some u, k_proofOfAddressType := i\<rparr>))"
| again: "k_status k = KS_REJECTED \<Longrightarrow> kycMove k (withdrawDocuments k)"
| approve: "k_step k \<in> set reviewableSteps \<Longrightarrow> k_status k = KS_PENDING \<Longrightarrow>
    kycMove k (k\<lparr>k_status := KS_APPROVED, k_step := SUBMITTED, k_kycLevel := approvedLevel k,
      k_reviewedAt := Some t, k_reviewedBy := Some r, k_rejectionReason := None\<rparr>)"
| reject: "k_step k \<in> set reviewableSteps \<Longrightarrow> k_status k = KS_PENDING \<Longrightarrow>
    kycMove k (k\<lparr>k_status := KS_REJECTED, k_reviewedAt := Some t, k_reviewedBy := Some r,
      k_rejectionReason := Some m\<rparr>)"

text \<open>
  What every record satisfies: no step is reached before the ones it needs, and a level is held only
  by a user whose numbers are verified.
\<close>

definition identified :: "kyc \<Rightarrow> bool" where
  "identified k \<longleftrightarrow> k_nin k \<noteq> None \<and> k_bvn k \<noteq> None \<and> k_ninVerifiedAt k \<noteq> None \<and> k_bvnVerifiedAt k \<noteq> None"

definition documented :: "kyc \<Rightarrow> bool" where
  "documented k \<longleftrightarrow> k_selfieUrl k \<noteq> None \<and> k_governmentIdType k \<noteq> None \<and> k_governmentIdFrontUrl k \<noteq> None"

definition kycOk :: "kyc \<Rightarrow> bool" where
  "kycOk k \<longleftrightarrow> 0 \<le> k_kycLevel k \<and> k_kycLevel k \<le> 3 \<and>
     (1 \<le> k_kycLevel k \<longrightarrow> identified k \<and> k_nextOfKin k \<noteq> None) \<and>
     (2 \<le> k_kycLevel k \<longrightarrow> documented k) \<and>
     (k_status k = KS_APPROVED \<longrightarrow> 1 \<le> k_kycLevel k) \<and>
     (k_status k = KS_REJECTED \<longrightarrow> k_step k \<in> set reviewableSteps) \<and>
     (k_kycLevel k = 0 \<or> k_step k \<in> {SUBMITTED, PHOTO_REQUIRED, PROOF_OF_ADDRESS_REQUIRED}) \<and>
     (case k_step k of
        NIN_REQUIRED \<Rightarrow> True
      | BVN_REQUIRED \<Rightarrow> k_nin k \<noteq> None \<and> k_ninVerifiedAt k \<noteq> None
      | NOK_REQUIRED \<Rightarrow> identified k
      | ADDRESS_REQUIRED \<Rightarrow> identified k \<and> k_nextOfKin k \<noteq> None
      | SUBMITTED \<Rightarrow> identified k \<and> k_nextOfKin k \<noteq> None
      | PHOTO_REQUIRED \<Rightarrow> 1 \<le> k_kycLevel k \<and> documented k
      | PROOF_OF_ADDRESS_REQUIRED \<Rightarrow> 2 \<le> k_kycLevel k \<and> k_proofOfAddressUrl k \<noteq> None)"

lemma newKyc_ok: "kycOk (newKyc uid)"
  by (simp add: kycOk_def newKyc_def)

lemma kycMove_ok: "kycMove k k' \<Longrightarrow> kycOk k \<Longrightarrow> kycOk k'"
  by (induction rule: kycMove.induct)
    (auto simp: kycOk_def identified_def documented_def backfill_def submitted_def withdrawDocuments_def
      approvedLevel_def reviewableSteps_def split: kycStep.splits if_splits)

text \<open>A level is gained one at a time; the one way to lose one is the review of a new photo at level 3.\<close>

lemma kycMove_level:
  "kycMove k k' \<Longrightarrow> kycOk k \<Longrightarrow> k_kycLevel k' = k_kycLevel k \<or> k_kycLevel k' = k_kycLevel k + 1 \<or>
   k_kycLevel k = 3 \<and> k_kycLevel k' = 2 \<and> (k_step k = PHOTO_REQUIRED \<or> k_step k = SUBMITTED)"
  by (induction rule: kycMove.induct)
    (auto simp: kycOk_def backfill_def submitted_def withdrawDocuments_def approvedLevel_def
      reviewableSteps_def split: if_splits)

text \<open>What has to be on file when a level is gained.\<close>

definition earned :: "kyc \<Rightarrow> bool" where
  "earned k \<longleftrightarrow> identified k \<and> k_nextOfKin k \<noteq> None \<and> (2 \<le> k_kycLevel k \<longrightarrow> documented k) \<and>
     (k_kycLevel k = 3 \<longrightarrow> k_proofOfAddressUrl k \<noteq> None)"

lemma kycMove_earned:
  "kycMove k k' \<Longrightarrow> kycOk k \<Longrightarrow> k_kycLevel k < k_kycLevel k' \<Longrightarrow> k_kycLevel k' = k_kycLevel k + 1 \<and> earned k'"
  by (induction rule: kycMove.induct)
    (auto simp: kycOk_def earned_def identified_def documented_def backfill_def submitted_def
      withdrawDocuments_def approvedLevel_def reviewableSteps_def split: if_splits)

lemma kycMove_user: "kycMove k k' \<Longrightarrow> k_userId k' = k_userId k"
  by (induction rule: kycMove.induct) (auto simp: backfill_def submitted_def withdrawDocuments_def)

section \<open>The operations make these steps\<close>

text \<open>The record of a user; one that has not been opened yet counts as a new one.\<close>

definition recordOf :: "string \<Rightarrow> db \<Rightarrow> kyc" where
  "recordOf uid s = (case kycOfUser uid s of None \<Rightarrow> newKyc uid | Some k \<Rightarrow> k)"

definition kycsOk :: "db \<Rightarrow> bool" where
  "kycsOk s \<longleftrightarrow> distinct (map k_userId (kycs s)) \<and> (\<forall>uid. kycOk (recordOf uid s))"

text \<open>From one database to the next, the record of each user stays or makes one step.\<close>

definition kycSteps :: "db \<Rightarrow> db \<Rightarrow> bool" where
  "kycSteps s s' \<longleftrightarrow>
     (\<forall>uid. recordOf uid s' = recordOf uid s \<or> kycMove (recordOf uid s) (recordOf uid s')) \<and>
     (distinct (map k_userId (kycs s)) \<longrightarrow> distinct (map k_userId (kycs s')))"

lemma kycSteps_same: "kycs s' = kycs s \<Longrightarrow> kycSteps s s'"
  by (simp add: kycSteps_def recordOf_def kycOfUser_def)

lemma kycOfUserD: "kycOfUser uid s = Some k \<Longrightarrow> k \<in> set (kycs s) \<and> k_userId k = uid"
  by (auto simp: kycOfUser_def dest!: find_SomeD)

lemma kycSteps_ok: "kycSteps s s' \<Longrightarrow> kycsOk s \<Longrightarrow> kycsOk s'"
  unfolding kycSteps_def kycsOk_def using kycMove_ok by metis

lemma kycSteps_update:
  assumes "kycOfUser uid s = Some k" and "kycMove k (f k)"
    and "kycs s' = updateRow (\<lambda>x. k_userId x = k_userId k) f (kycs s)" and "\<And>x. k_userId (f x) = k_userId x"
  shows "kycSteps s s'"
  unfolding kycSteps_def
proof (intro conjI allI impI)
  fix v
  have uid: "k_userId k = uid" using kycOfUserD [OF assms(1)] by simp
  show "recordOf v s' = recordOf v s \<or> kycMove (recordOf v s) (recordOf v s')"
  proof (cases "v = uid")
    case True
    have "kycOfUser uid s' = Some (f k)"
      using find_updateRow_same [of "\<lambda>x. k_userId x = uid" "kycs s" k f] assms(1,3,4) uid
      by (simp add: kycOfUser_def)
    then show ?thesis using True assms(1,2) by (simp add: recordOf_def)
  next
    case False
    have "kycOfUser v s' = kycOfUser v s"
      unfolding kycOfUser_def assms(3)
      by (rule find_updateRow_disjoint) (use assms(4) uid False in auto)
    then show ?thesis by (simp add: recordOf_def)
  qed
next
  assume "distinct (map k_userId (kycs s))"
  then show "distinct (map k_userId (kycs s'))" by (simp add: assms(3,4) map_updateRow)
qed

text \<open>Opening a record is no step, and may come before one.\<close>

lemma initializeKyc_record:
  assumes "initializeKyc uid s = (k, s1)"
  shows "kycOfUser uid s1 = Some k \<and> recordOf v s1 = recordOf v s \<and> users s1 = users s \<and>
    (distinct (map k_userId (kycs s)) \<longrightarrow> distinct (map k_userId (kycs s1)))"
proof (cases "kycOfUser uid s")
  case None
  then have "s1 = s\<lparr>kycs := kycs s @ [newKyc uid]\<rparr>" "k = newKyc uid"
    using assms by (auto simp: initializeKyc_def)
  moreover have "uid \<notin> k_userId ` set (kycs s)"
    using None by (auto simp: kycOfUser_def find_None_eq)
  ultimately show ?thesis
    using None by (auto simp: recordOf_def kycOfUser_def find_append newKyc_def split: option.splits)
qed (use assms in \<open>auto simp: initializeKyc_def\<close>)

lemma kycSteps_after_open:
  assumes "initializeKyc uid s = (k, s1)" and "kycSteps s1 s'"
  shows "kycSteps s s'"
  using assms(2) initializeKyc_record [OF assms(1)] by (simp add: kycSteps_def)

named_theorems kyc_steps \<open>steps of the records, for the operations of the service\<close>

lemma updateKyc_steps [kyc_steps]:
  assumes "kycOfUser uid s = Some k" and "kycMove k (f k)" and "\<And>x. k_userId (f x) = k_userId x"
  shows "kycSteps s (snd (updateKyc k f s))"
  by (rule kycSteps_update [OF assms(1,2) _ assms(3)]) (simp add: updateKyc_def)

lemma kycSteps_cong: "kycSteps s t \<Longrightarrow> kycs t' = kycs t \<Longrightarrow> kycSteps s t'"
  by (simp add: kycSteps_def recordOf_def kycOfUser_def)

lemma kycSteps_emit [kyc_steps]: "kycSteps s t \<Longrightarrow> kycSteps s (emit ev t)"
  by (erule kycSteps_cong) (simp add: emit_def)

lemma kycSteps_sync [kyc_steps]: "kycSteps s t \<Longrightarrow> kycSteps s (syncBvnFromKyc p uid bvn t)"
  by (erule kycSteps_cong)
    (auto simp: syncBvnFromKyc_def updateVirtualAccount_def split: option.splits sum.splits if_splits)

lemma kycSteps_refl [kyc_steps]: "kycSteps s s"
  by (rule kycSteps_same) simp

text \<open>Each operation of the service, whatever it returns, makes at most one step.\<close>

lemma users_kept [simp]:
  "k_userId (submitted env b st l k) = k_userId k" "k_userId (withdrawDocuments k) = k_userId k"
  "k_userId (backfill k) = k_userId k"
  by (simp_all add: submitted_def withdrawDocuments_def backfill_def)

lemma getKycStatus_steps: "getKycStatus uid s = Inr (a, s') \<Longrightarrow> kycSteps s s'"
  by (auto simp: getKycStatus_def result_simps prod_eq_iff intro: kyc_steps kycMove.filled split: if_splits)

lemma verifyNin_steps: "kycSteps s (snd (verifyNin env w uid d s))"
proof -
  obtain k s1 where i: "initializeKyc uid s = (k, s1)" by fastforce
  have r: "kycOfUser uid s1 = Some k" using initializeKyc_record [OF i] by blast
  have "kycSteps s1 (snd (verifyNin env w uid d s))"
    using r by (auto simp: verifyNin_def i intro: kyc_steps kycMove.nin split: sum.splits)
  then show ?thesis by (rule kycSteps_after_open [OF i])
qed

lemma verifyBvn_steps: "verifyBvn env w uid d s = Inr (a, s') \<Longrightarrow> kycSteps s s'"
  by (auto simp: verifyBvn_def result_simps case_prod_beta intro!: kyc_steps intro: kycMove.bvn split: if_splits)

lemma submitNextOfKin_steps: "submitNextOfKin env uid kin s = Inr (a, s') \<Longrightarrow> kycSteps s s'"
  by (auto simp: submitNextOfKin_def result_simps case_prod_beta prod_eq_iff intro!: kyc_steps
      intro: kycMove.kin kycMove.filled split: if_splits)

lemma submitAddress_steps: "submitAddress env uid d s = Inr (a, s') \<Longrightarrow> kycSteps s s'"
  by (auto simp: submitAddress_def result_simps prod_eq_iff intro!: kyc_steps intro: kycMove.address)

lemma submitPhoto_steps: "submitPhoto env w uid i d files s = Inr (a, s') \<Longrightarrow> kycSteps s s'"
  by (auto simp: submitPhoto_def result_simps prod_eq_iff not_less intro!: kyc_steps intro: kycMove.photo)

lemma submitProofOfAddress_steps: "submitProofOfAddress env w uid i url s = Inr (a, s') \<Longrightarrow> kycSteps s s'"
  by (auto simp: submitProofOfAddress_def result_simps prod_eq_iff not_less intro!: kyc_steps
      intro: kycMove.proof_of_address)

lemma resubmitKyc_steps: "resubmitKyc uid s = Inr (a, s') \<Longrightarrow> kycSteps s s'"
  by (auto simp: resubmitKyc_def result_simps prod_eq_iff intro!: kyc_steps intro: kycMove.again)

lemma underReview_Inr: "underReview uid s = Inr k \<longleftrightarrow>
    kycOfUser uid s = Some k \<and> k_step k \<in> set reviewableSteps \<and> k_status k = KS_PENDING"
  by (auto simp: underReview_def result_simps)

lemma approveKyc_steps: "approveKyc env uid r s = Inr (a, s') \<Longrightarrow> kycSteps s s'"
  by (auto simp: approveKyc_def underReview_Inr result_simps case_prod_beta intro!: kyc_steps
      intro: kycMove.approve)

lemma rejectKyc_steps: "rejectKyc env uid r m s = Inr (a, s') \<Longrightarrow> kycSteps s s'"
  by (auto simp: rejectKyc_def underReview_Inr result_simps case_prod_beta intro!: kyc_steps
      intro: kycMove.reject)

end
