(* ===== verification/Users.thy ===== *)
theory Users
  imports Kyc Dates
begin

text \<open>
  \<^verbatim>\<open>src/modules/users/users.service.ts\<close>: the profile, the change of the mail address, the closing of
  an account, the transaction PIN and the request for administrator access.
\<close>

section \<open>Dates of birth\<close>

definition padStart2 :: "string \<Rightarrow> string" where
  "padStart2 x = (if size x < 2 then replicate (2 - size x) (CHR ''0'') @ x else x)"

definition formatDateOnly :: "int \<Rightarrow> string" where
  "formatDateOnly t =
     showInt (getFullYear 0 t) @ ''-'' @ padStart2 (showInt (getMonth 0 t + 1)) @ ''-''
     @ padStart2 (showInt (getDate 0 t))"

text \<open>
  \<^verbatim>\<open>new Date(value + 'T00:00:00.000Z')\<close>: a date that is not a year of four digits, a month and a day
  is invalid.
\<close>

definition allDigits :: "nat \<Rightarrow> string \<Rightarrow> bool" where
  "allDigits n x \<longleftrightarrow> size x = n \<and> digitsOf x = x"

definition parseDateOnly :: "string \<Rightarrow> int option" where
  "parseDateOnly v =
     (case splitOn (CHR ''-'') v of
        [y, m, d] \<Rightarrow>
          if allDigits 4 y \<and> allDigits 2 m \<and> allDigits 2 d \<and> 1 \<le> numberOf m \<and> numberOf m \<le> 12 \<and>
             1 \<le> numberOf d \<and> numberOf d \<le> 31
          then Some (makeDay (int (numberOf y)) (int (numberOf m) - 1) (int (numberOf d)) * msPerDay)
          else None
      | _ \<Rightarrow> None)"

section \<open>The profile\<close>

record userProfile =
  up_email :: string
  up_firstName :: string
  up_lastName :: string
  up_dob :: string
  up_phone :: string
  up_role :: role
  up_adminRequestedAt :: "int option"

definition formatProfile :: "user \<Rightarrow> userProfile" where
  "formatProfile u =
     \<lparr>up_email = u_email u, up_firstName = u_firstName u, up_lastName = u_lastName u,
      up_dob = formatDateOnly (u_dob u), up_phone = u_phone u, up_role = u_role u,
      up_adminRequestedAt = u_adminRequestedAt u\<rparr>"

definition getMyProfile :: "string \<Rightarrow> db \<Rightarrow> userProfile result" where
  "getMyProfile uid s =
     bindE (orThrow (NotFound ''User not found'') (userById uid s)) (\<lambda>u. Inr (formatProfile u))"

record profileDto =
  pd_email :: "string option"
  pd_firstName :: "string option"
  pd_lastName :: "string option"
  pd_dob :: "string option"
  pd_phone :: "string option"
  pd_newPassword :: "string option"
  pd_currentPassword :: "string option"

definition trimOptionalString :: "string option \<Rightarrow> string \<Rightarrow> string option result" where
  "trimOptionalString value fieldName =
     (case value of
        None \<Rightarrow> Inr None
      | Some v \<Rightarrow>
          bindE (ensure (trim v \<noteq> '''') (BadRequest (fieldName @ '' cannot be empty''))) (\<lambda>_.
          Inr (Some (trim v))))"

definition isSameEmail :: "string \<Rightarrow> string option \<Rightarrow> bool" where
  "isSameEmail left right = (map_option normalizeEmail right = Some (normalizeEmail left))"

definition ensureEmailIsAvailable :: "string \<Rightarrow> string \<Rightarrow> db \<Rightarrow> unit result" where
  "ensureEmailIsAvailable email excludeUserId s =
     ensure (findFirst (\<lambda>u. u_id u \<noteq> excludeUserId \<and>
         (toLowerCase (u_email u) = toLowerCase email \<or>
          map_option toLowerCase (u_pendingEmail u) = Some (toLowerCase email))) (users s) = None)
       (Conflict ''Email is already in use'')"

text \<open>
  What becomes of a requested address: the address a code goes to, whether that is a resend, and
  whether it becomes the pending one.
\<close>

definition emailPlan :: "user \<Rightarrow> string option \<Rightarrow> db \<Rightarrow> (string option \<times> bool \<times> bool) result" where
  "emailPlan u requestedEmail s =
     (case requestedEmail of
        None \<Rightarrow> Inr (None, False, False)
      | Some e \<Rightarrow>
          if isSameEmail e (Some (u_email u)) then Inr (None, False, False)
          else if present (u_pendingEmail u) \<and> isSameEmail e (u_pendingEmail u)
          then Inr (u_pendingEmail u, True, False)
          else bindE (ensureEmailIsAvailable e (u_id u) s) (\<lambda>_. Inr (Some e, False, True)))"

text \<open>A field that is given and differs is written; the flag says whether any was.\<close>

definition changeField ::
  "'a option \<Rightarrow> (user \<Rightarrow> 'a) \<Rightarrow> ('a \<Rightarrow> user \<Rightarrow> user) \<Rightarrow> user \<times> bool \<Rightarrow> user \<times> bool" where
  "changeField value old put c =
     (case value of None \<Rightarrow> c
      | Some v \<Rightarrow> if v = old (fst c) then c else (put v (fst c), True))"

text \<open>The new date of birth, if one is given that differs; an invalid one fails when it is stored.\<close>

definition dobChange :: "string option \<Rightarrow> user \<Rightarrow> string option" where
  "dobChange value u = (case value of None \<Rightarrow> None | Some v \<Rightarrow> if v = formatDateOnly (u_dob u) then None else Some v)"

definition storeDob :: "string option \<Rightarrow> user \<Rightarrow> user result" where
  "storeDob change u =
     (case change of None \<Rightarrow> Inr u
      | Some v \<Rightarrow> bindE (orThrow (PrismaError ''Invalid Date'') (parseDateOnly v)) (\<lambda>d. Inr (u\<lparr>u_dob := d\<rparr>)))"

definition buildProfileUpdateMessage :: "bool \<Rightarrow> bool \<Rightarrow> string option \<Rightarrow> bool \<Rightarrow> string" where
  "buildProfileUpdateMessage fieldsChanged passwordChanged emailOtpTarget emailResend =
     (if present emailOtpTarget \<and> \<not> passwordChanged \<and> \<not> fieldsChanged
      then (if emailResend then ''Email change OTP sent successfully.''
            else ''Email change initiated. Verify the OTP sent to your new email.'')
      else if present emailOtpTarget
      then ''Profile updated successfully. Verify the OTP sent to your new email to complete the email change.''
      else if passwordChanged \<and> \<not> fieldsChanged then ''Password changed successfully.''
      else ''Profile updated successfully.'')"

definition userAudit :: "string \<Rightarrow> string \<Rightarrow> string option \<Rightarrow> auditLog" where
  "userAudit uid action reason =
     \<lparr>al_actorId = uid, al_actorType = ''USER'', al_action = action, al_entityType = ''USER'',
      al_entityId = uid, al_reason = reason\<rparr>"

text \<open>The transaction that stores the changes, and what is sent after it.\<close>

definition storeProfile ::
  "env \<Rightarrow> security \<Rightarrow> user \<Rightarrow> bool \<Rightarrow> bool \<Rightarrow> string option \<Rightarrow> db \<Rightarrow> (unit \<times> db) result" where
  "storeProfile env sec u' changed passwordChanged emailOtpTarget s =
     (let s1 = (if changed then updateUser (u_id u') (\<lambda>_. u') s else s);
          s2 = (if passwordChanged
                then emit (PasswordChanged (u_id u'))
                       (audit (userAudit (u_id u') ''PASSWORD_CHANGED'' None) (revokeTokens env (u_id u') s1))
                else s1)
      in case emailOtpTarget of
           None \<Rightarrow> Inr ((), s2)
         | Some target \<Rightarrow>
             if target = '''' then Inr ((), s2)
             else sendOtpToUser (later 1 env) sec (u_id u') target OTP_EMAIL_CHANGE
                    (audit (userAudit (u_id u') ''EMAIL_CHANGE_REQUESTED'' None) s2))"

definition updateMyProfile ::
  "env \<Rightarrow> security \<Rightarrow> string \<Rightarrow> profileDto \<Rightarrow> db \<Rightarrow> ((string \<times> userProfile) \<times> db) result" where
  "updateMyProfile env sec uid d s =
     bindE (orThrow (NotFound ''User not found'') (userById uid s)) (\<lambda>u.
     bindE (trimOptionalString (pd_firstName d) ''First name'') (\<lambda>firstName.
     bindE (trimOptionalString (pd_lastName d) ''Last name'') (\<lambda>lastName.
     bindE (trimOptionalString (pd_phone d) ''Phone'') (\<lambda>phone.
     let (u1, textChanged) = changeField phone u_phone (\<lambda>v x. x\<lparr>u_phone := v\<rparr>)
               (changeField lastName u_lastName (\<lambda>v x. x\<lparr>u_lastName := v\<rparr>)
                 (changeField firstName u_firstName (\<lambda>v x. x\<lparr>u_firstName := v\<rparr>) (u, False)));
         dob = dobChange (pd_dob d) u;
         fieldsChanged = textChanged \<or> dob \<noteq> None
     in
     bindE (emailPlan u (map_option normalizeEmail (pd_email d)) s) (\<lambda>(emailOtpTarget, resend, setPending).
     let u2 = (if setPending then u1\<lparr>u_pendingEmail := emailOtpTarget\<rparr> else u1);
         requestedPassword = pd_newPassword d;
         requires = present emailOtpTarget \<or> present requestedPassword
     in
     bindE (ensure (requires \<longrightarrow> present (pd_currentPassword d))
       (BadRequest ''Current password is required to change your email or password'')) (\<lambda>_.
     bindE (ensure (requires \<longrightarrow> sc_verify sec (orOld (pd_currentPassword d) '''') (u_password u))
       (BadRequest ''Current password is incorrect'')) (\<lambda>_.
     bindE (ensure (present requestedPassword \<longrightarrow> \<not> sc_verify sec (orOld requestedPassword '''') (u_password u))
       (BadRequest ''New password must be different from your current password'')) (\<lambda>_.
     let passwordChanged = present requestedPassword;
         u3 = (if passwordChanged
               then u2\<lparr>u_password := sc_hash sec (rnd env 0) (orOld requestedPassword '''')\<rparr> else u2);
         changed = fieldsChanged \<or> setPending \<or> passwordChanged
     in
     bindE (ensure (changed \<or> present emailOtpTarget) (BadRequest ''No changes provided'')) (\<lambda>_.
     bindE (storeDob dob u3) (\<lambda>u4.
     bindE (storeProfile env sec u4 changed passwordChanged emailOtpTarget s) (\<lambda>(_, s').
     Inr ((buildProfileUpdateMessage fieldsChanged passwordChanged emailOtpTarget resend,
           if changed then formatProfile u4
           else (formatProfile u4)\<lparr>up_role := MEMBER, up_adminRequestedAt := None\<rparr>), s'))))))))))))"

definition verifyPendingEmailChange ::
  "env \<Rightarrow> security \<Rightarrow> string \<Rightarrow> string \<Rightarrow> db \<Rightarrow> (userProfile \<times> db) result" where
  "verifyPendingEmailChange env sec uid otp s =
     bindE (orThrow (NotFound ''User not found'') (userById uid s)) (\<lambda>u.
     bindE (ensure (present (u_pendingEmail u)) (BadRequest ''No pending email change found'')) (\<lambda>_.
     let newEmail = orOld (u_pendingEmail u) '''' in
     bindE (ensureEmailIsAvailable newEmail uid s) (\<lambda>_.
     bindE (consumeOtpByUserId env sec uid OTP_EMAIL_CHANGE otp s) (\<lambda>(_, s1).
     let s2 = updateUser uid (\<lambda>x. x\<lparr>u_email := newEmail, u_pendingEmail := None\<rparr>) s1
     in Inr (formatProfile (u\<lparr>u_email := newEmail, u_pendingEmail := None\<rparr>),
             audit (userAudit uid ''EMAIL_CHANGE_VERIFIED'' None) (revokeTokens env uid s2))))))"

section \<open>Closing an account\<close>

definition upperChar :: "char \<Rightarrow> char" where
  "upperChar c = (let n = (of_char c :: nat) in if 97 \<le> n \<and> n \<le> 122 then char_of (n - 32) else c)"

record deleteDto =
  dd_currentPassword :: string
  dd_confirm :: string
  dd_reason :: "string option"

definition ensureAccountCanBeClosed :: "string \<Rightarrow> db \<Rightarrow> unit result" where
  "ensureAccountCanBeClosed uid s =
     bindE (ensure (\<not> list_ex (\<lambda>m. m_userId m = uid \<and> m_status m \<in> {MS_PENDING, MS_ACTIVE}) (memberships s))
       (Conflict ''You have active or pending ROSCA memberships.'')) (\<lambda>_.
     bindE (ensure (\<not> list_ex (\<lambda>c. c_adminId c = uid \<and> c_status c \<in> {CS_DRAFT, CS_ACTIVE}) (circles s))
       (Conflict ''You still administer active or draft ROSCA circles.'')) (\<lambda>_.
     case walletOfUser uid s of
       None \<Rightarrow> Inr ()
     | Some w \<Rightarrow>
         let balance = getDetailedBalance s (w_id w) in
         bindE (ensure (\<not> list_ex (\<lambda>t. t_walletId t = w_id w \<and> t_status t = TS_PENDING) (transactions s))
           (Conflict ''You have pending transactions.'')) (\<lambda>_.
         bindE (ensure (\<not> (list_ex (\<lambda>b. wb_walletId b = w_id w \<and> 0 < wb_reservedAmount b) (walletBuckets s) \<or>
             0 < bal_reserved balance)) (Conflict ''Funds are still reserved/locked in your wallet.'')) (\<lambda>_.
         ensure (bal_total balance = 0 \<and> bal_available balance = 0)
           (Conflict ''Wallet balance must be exactly zero.'')))))"

text \<open>What is left of the KYC record: the level is not among the columns that are cleared.\<close>

definition clearedKyc :: "kyc \<Rightarrow> kyc" where
  "clearedKyc k =
     k\<lparr>k_status := KS_NOT_SUBMITTED, k_step := NIN_REQUIRED, k_nin := None, k_bvn := None,
       k_ninVerifiedAt := None, k_bvnVerifiedAt := None, k_nextOfKin := None, k_submittedAt := None,
       k_reviewedAt := None, k_rejectionReason := None\<rparr>"

definition closedUser :: "env \<Rightarrow> security \<Rightarrow> user \<Rightarrow> user" where
  "closedUser env sec u =
     u\<lparr>u_email := ''deleted+'' @ u_id u @ ''+'' @ showInt (now env) @ ''@ajoti.local'', u_pendingEmail := None,
       u_firstName := ''Deleted'', u_lastName := ''User'', u_phone := ''000'' @ rnd env 0,
       u_isVerified := False, u_password := sc_hash sec (rnd env 1) (rnd env 2)\<rparr>"

definition closeTx :: "env \<Rightarrow> security \<Rightarrow> user \<Rightarrow> string option \<Rightarrow> db \<Rightarrow> db" where
  "closeTx env sec u reason s =
     (let uid = u_id u;
          s1 = (case walletOfUser uid s of
                  None \<Rightarrow> s
                | Some w \<Rightarrow> s\<lparr>wallets := updateRow (\<lambda>x. w_id x = w_id w) (\<lambda>x. x\<lparr>w_status := WS_CLOSED\<rparr>)
                              (wallets s)\<rparr>);
          s2 = revokeTokens env uid s1;
          s3 = s2\<lparr>otpCodes := map (\<lambda>c. if oc_userId c = uid \<and> oc_usedAt c = None
                                       then c\<lparr>oc_usedAt := Some (now env)\<rparr> else c) (otpCodes s2),
                  savedBankAccounts := filter (\<lambda>b. sb_userId b \<noteq> uid) (savedBankAccounts s2),
                  userProfiles := filter (\<lambda>p. p \<noteq> uid) (userProfiles s2),
                  kycs := map (\<lambda>k. if k_userId k = uid then clearedKyc k else k) (kycs s2)\<rparr>
      in audit (userAudit uid ''ACCOUNT_CLOSED''
                 (case reason of None \<Rightarrow> Some ''User requested closure'' | Some r \<Rightarrow> Some r))
           (updateUser uid (closedUser env sec) s3))"

definition closeAccount ::
  "env \<Rightarrow> security \<Rightarrow> vaProvider \<Rightarrow> string \<Rightarrow> deleteDto \<Rightarrow> db \<Rightarrow> (unit \<times> db) result" where
  "closeAccount env sec p uid d s =
     bindE (ensure (map upperChar (trim (dd_confirm d)) = ''DELETE'')
       (BadRequest ''Confirmation phrase must be DELETE'')) (\<lambda>_.
     bindE (orThrow (NotFound ''User not found'') (userById uid s)) (\<lambda>u.
     bindE (ensure (sc_verify sec (dd_currentPassword d) (u_password u))
       (BadRequest ''Current password is incorrect'')) (\<lambda>_.
     bindE (ensureAccountCanBeClosed uid s) (\<lambda>_.
     bindE (case vaOfUser uid s of
              None \<Rightarrow> Inr s
            | Some _ \<Rightarrow>
                (case deleteForUser p uid s of
                   Inl _ \<Rightarrow> Inl (ServiceUnavailable
                     ''Unable to delete your virtual account at the provider. Please try again later.'')
                 | Inr (_, s1) \<Rightarrow> Inr s1)) (\<lambda>s1.
     Inr ((), closeTx env sec u (dd_reason d) s1))))))"

section \<open>The transaction PIN and administrator access\<close>

definition setTransactionPin ::
  "env \<Rightarrow> security \<Rightarrow> string \<Rightarrow> string \<Rightarrow> string option \<Rightarrow> db \<Rightarrow> (string \<times> db) result" where
  "setTransactionPin env sec uid pin currentPin s =
     bindE (orThrow (NotFound ''User not found'') (userById uid s)) (\<lambda>u.
     bindE (ensure (present (u_transactionPin u) \<longrightarrow> present currentPin)
       (BadRequest ''Current PIN is required to change your transaction PIN'')) (\<lambda>_.
     bindE (ensure (present (u_transactionPin u) \<longrightarrow>
         sc_verify sec (orOld currentPin '''') (orOld (u_transactionPin u) ''''))
       (BadRequest ''Current PIN is incorrect'')) (\<lambda>_.
     Inr (if present (u_transactionPin u) then ''Transaction PIN updated successfully''
          else ''Transaction PIN set successfully'',
          updateUser uid (\<lambda>x. x\<lparr>u_transactionPin := Some (sc_hash sec (rnd env 0) pin)\<rparr>) s))))"

definition hasPinSet :: "string \<Rightarrow> db \<Rightarrow> bool" where
  "hasPinSet uid s = (case userById uid s of None \<Rightarrow> False | Some u \<Rightarrow> present (u_transactionPin u))"

definition requestAdminAccess :: "env \<Rightarrow> string \<Rightarrow> db \<Rightarrow> (unit \<times> db) result" where
  "requestAdminAccess env uid s =
     bindE (orThrow (NotFound ''User not found'') (userById uid s)) (\<lambda>u.
     bindE (ensure (\<not> (u_role u = ADMIN \<or> u_role u = SUPERADMIN))
       (BadRequest ''You already have admin access'')) (\<lambda>_.
     bindE (ensure (u_adminRequestedAt u = None)
       (BadRequest ''Admin access request already submitted - pending review'')) (\<lambda>_.
     bindE (ensure (\<not> k_kycLevel (recordOf uid s) < 1)
       (BadRequest ''You must complete KYC Level 1 before requesting admin access'')) (\<lambda>_.
     Inr ((), updateUser uid (\<lambda>x. x\<lparr>u_adminRequestedAt := Some (now env)\<rparr>) s)))))"

end
