(* ===== verification/Sessions.thy ===== *)
theory Sessions
  imports Auth
begin

text \<open>
  What the operations of \<open>Auth\<close> make of the sessions: a user has at most one refresh token that is
  open, a token that was exchanged is spent, and a new password closes every session and is the only
  one accepted from then on.
\<close>

section \<open>At most one open session per user\<close>

definition openToken :: "refreshToken \<Rightarrow> bool" where
  "openToken t \<longleftrightarrow> rt_revokedAt t = None"

text \<open>The digests of the tokens are distinct, and no user has two tokens that are open.\<close>

definition sessionsOk :: "db \<Rightarrow> bool" where
  "sessionsOk s \<longleftrightarrow> distinct (map rt_tokenHash (refreshTokens s)) \<and>
     distinct (map rt_userId (filter openToken (refreshTokens s)))"

lemma sessionsOk_cong: "refreshTokens s' = refreshTokens s \<Longrightarrow> sessionsOk s' = sessionsOk s"
  by (simp add: sessionsOk_def)

lemma revoking_ok:
  assumes "refreshTokens s' = map (\<lambda>t. if Q t then t\<lparr>rt_revokedAt := Some z\<rparr> else t) (refreshTokens s)"
    and "sessionsOk s"
  shows "sessionsOk s'"
  unfolding sessionsOk_def
proof
  show "distinct (map rt_tokenHash (refreshTokens s'))"
    using assms by (simp add: sessionsOk_def comp_def if_distrib [of rt_tokenHash] cong: if_cong)
  show "distinct (map rt_userId (filter openToken (refreshTokens s')))"
    unfolding assms(1)
    by (rule filter_fewer_distinct) (use assms(2) in \<open>auto simp: sessionsOk_def openToken_def split: if_splits\<close>)
qed

lemma revokeTokens_ok: "sessionsOk s \<Longrightarrow> sessionsOk (revokeTokens env uid s)"
  by (rule revoking_ok [where Q = "\<lambda>t. rt_userId t = uid \<and> rt_revokedAt t = None" and z = "now env"])
    (simp_all add: revokeTokens_def)

lemma revokeTokens_hashes: "map rt_tokenHash (refreshTokens (revokeTokens env uid s)) = map rt_tokenHash (refreshTokens s)"
  by (simp add: revokeTokens_def comp_def if_distrib [of rt_tokenHash] cong: if_cong)

lemma revokeTokens_closed:
  assumes "t \<in> set (refreshTokens (revokeTokens env uid s))" and "rt_userId t = uid"
  shows "\<not> openToken t"
proof -
  from assms(1) obtain r where "r \<in> set (refreshTokens s)"
    and t: "t = (if rt_userId r = uid \<and> rt_revokedAt r = None then r\<lparr>rt_revokedAt := Some (now env)\<rparr> else r)"
    by (auto simp: revokeTokens_def simp del: if_split)
  then show ?thesis using assms(2) by (auto simp: openToken_def split: if_splits)
qed

lemma revokeTokens_frame [simp]:
  "users (revokeTokens env uid s) = users s" "otpCodes (revokeTokens env uid s) = otpCodes s"
  "kycs (revokeTokens env uid s) = kycs s" "userById i (revokeTokens env uid s) = userById i s"
  by (simp_all add: revokeTokens_def userById_def)

text \<open>A token just drawn: its digest is not in the table, and it is not the empty string.\<close>

definition freshToken :: "env \<Rightarrow> security \<Rightarrow> db \<Rightarrow> bool" where
  "freshToken env sec s \<longleftrightarrow>
     sc_sha256 sec (rnd env 1) \<notin> rt_tokenHash ` set (refreshTokens s) \<and> rnd env 1 \<noteq> ''''"

lemma issueTokens_table:
  obtains t where "refreshTokens (snd (issueTokens env sec uid r s)) = refreshTokens (revokeTokens env uid s) @ [t]"
    and "rt_userId t = uid" and "openToken t" and "rt_tokenHash t = sc_sha256 sec (rnd env 1)"
    and "rt_expiresAt t = now env + refreshDays sec * 86400000"
  by (rule that [of "\<lparr>rt_id = rnd env 0, rt_userId = uid, rt_tokenHash = sc_sha256 sec (rnd env 1),
      rt_expiresAt = now env + refreshDays sec * 24 * 60 * 60 * 1000, rt_revokedAt = None\<rparr>"])
    (simp_all add: issueTokens_def Let_def openToken_def)

lemma issueTokens_ok:
  assumes "sessionsOk s" and "freshToken env sec s"
  shows "sessionsOk (snd (issueTokens env sec uid r s))"
proof (rule issueTokens_table [of env sec uid r s])
  fix t
  assume t: "refreshTokens (snd (issueTokens env sec uid r s)) = refreshTokens (revokeTokens env uid s) @ [t]"
    "rt_userId t = uid" "openToken t" "rt_tokenHash t = sc_sha256 sec (rnd env 1)"
  have "rt_tokenHash t \<notin> rt_tokenHash ` set (refreshTokens (revokeTokens env uid s))"
    using assms(2) revokeTokens_hashes [of env uid s] t(4) unfolding freshToken_def by (metis set_map)
  moreover have "uid \<notin> rt_userId ` set (filter openToken (refreshTokens (revokeTokens env uid s)))"
    using revokeTokens_closed by fastforce
  ultimately show ?thesis
    using revokeTokens_ok [OF assms(1), of env uid] t by (simp add: sessionsOk_def)
qed

lemma refreshTokensWith_Inr:
  "refreshTokensWith env sec raw s = Inr x \<longleftrightarrow> raw \<noteq> '''' \<and>
   (\<exists>t u. findFirst (\<lambda>t. rt_tokenHash t = sc_sha256 sec raw \<and> rt_revokedAt t = None \<and> now env < rt_expiresAt t)
       (refreshTokens s) = Some t \<and> userById (rt_userId t) s = Some u \<and>
      x = issueTokens env sec (u_id u) (u_role u) s)"
  by (auto simp: refreshTokensWith_def result_simps)

lemma login_Inr:
  "login env sec email pw s = Inr x \<longleftrightarrow>
   (\<exists>u. findActiveUserByEmail email s = Some u \<and> sc_verify sec pw (u_password u) \<and> u_isVerified u \<and>
      x = issueTokens env sec (u_id u) (u_role u) s)"
  by (auto simp: login_def result_simps)

text \<open>No operation opens a session besides these two, which close the others of the user first.\<close>

lemma login_ok: "login env sec email pw s = Inr (tk, s') \<Longrightarrow> sessionsOk s \<Longrightarrow> freshToken env sec s \<Longrightarrow> sessionsOk s'"
  using issueTokens_ok by (metis login_Inr snd_conv)

lemma refresh_ok:
  "refreshTokensWith env sec raw s = Inr (tk, s') \<Longrightarrow> sessionsOk s \<Longrightarrow> freshToken env sec s \<Longrightarrow> sessionsOk s'"
  using issueTokens_ok by (metis refreshTokensWith_Inr snd_conv)

lemma logout_ok: "logout env sec uid raw s = Inr (x, s') \<Longrightarrow> sessionsOk s \<Longrightarrow> sessionsOk s'"
  by (rule revoking_ok [where Q = "\<lambda>t. rt_userId t = uid \<and> rt_tokenHash t = sc_sha256 sec raw \<and> rt_revokedAt t = None"
        and z = "now env"]) (auto simp: logout_def result_simps)

lemma setPassword_ok: "sessionsOk s \<Longrightarrow> sessionsOk (setPassword env uid h s)"
  unfolding setPassword_def by (rule revokeTokens_ok) (simp add: updateUser_def sessionsOk_def)

lemma sendOtp_frame:
  assumes "sendOtp env sec email p s = Inr (x, s')"
  shows "refreshTokens s' = refreshTokens s \<and> users s' = users s \<and> kycs s' = kycs s"
  using assms by (auto simp: sendOtp_def sendOtpToUser_def Let_def retireOtps_def result_simps)

lemma consumeOtp_Inr:
  "consumeOtp env sec email p otp s = Inr (u, s') \<longleftrightarrow>
   (\<exists>v. findActiveUserByEmail (normalizeEmail email) s = Some v \<and>
        consumeOtpByUserId env sec (u_id v) p otp s = Inr (u, s'))"
  by (auto simp: consumeOtp_def result_simps)

lemma consumeOtp_frame:
  assumes "consumeOtp env sec email p otp s = Inr (u, s')"
  shows "refreshTokens s' = refreshTokens s \<and> users s' = users s \<and> kycs s' = kycs s"
  using assms by (auto simp: consumeOtp_Inr consumeOtpByUserId_Inr markOtp_def)

section \<open>The sessions over time\<close>

text \<open>
  One step is one request of the service, or anything that leaves the refresh tokens alone; a request
  that draws a token draws a fresh one.
\<close>

inductive sessionStep :: "security \<Rightarrow> db \<Rightarrow> db \<Rightarrow> bool" for sec where
  login: "login env sec email pw s = Inr (tk, s') \<Longrightarrow> freshToken env sec s \<Longrightarrow> sessionStep sec s s'"
| refresh: "refreshTokensWith env sec raw s = Inr (tk, s') \<Longrightarrow> freshToken env sec s \<Longrightarrow> sessionStep sec s s'"
| logout: "logout env sec uid raw s = Inr (x, s') \<Longrightarrow> sessionStep sec s s'"
| reset: "resetPassword env sec email otp pw s = Inr (x, s') \<Longrightarrow> sessionStep sec s s'"
| change: "changePassword env sec uid old pw s = Inr (x, s') \<Longrightarrow> sessionStep sec s s'"
| register: "register env sec d s = Inr (e, s') \<Longrightarrow> sessionStep sec s s'"
| registerAdmin: "registerAdmin env sec d s = Inr (e, s') \<Longrightarrow> sessionStep sec s s'"
| verify: "verifyEmail env sec email otp s = Inr (x, s') \<Longrightarrow> sessionStep sec s s'"
| forgot: "forgotPassword env sec email s = Inr (x, s') \<Longrightarrow> sessionStep sec s s'"
| revoke: "refreshTokens s' = refreshTokens (revokeTokens env uid s) \<Longrightarrow> sessionStep sec s s'"
| elsewhere: "refreshTokens s' = refreshTokens s \<Longrightarrow> sessionStep sec s s'"

lemma greet_tokens: "greet env sec uid e s = Inr s' \<Longrightarrow> refreshTokens s' = refreshTokens s"
  by (auto simp: greet_def result_simps emit_def seedScores_def Let_def dest!: sendOtp_frame)

lemma createUser_tokens: "createUser u s = Inr s' \<Longrightarrow> refreshTokens s' = refreshTokens s"
  by (auto simp: createUser_def result_simps insertUser_def ensureKyc_def ensureProfile_def split: if_splits)

lemma register_tokens: "register env sec d s = Inr (e, s') \<Longrightarrow> refreshTokens s' = refreshTokens s"
  by (auto simp: register_def Let_def result_simps dest!: greet_tokens createUser_tokens)

lemma registerAdmin_tokens: "registerAdmin env sec d s = Inr (e, s') \<Longrightarrow> refreshTokens s' = refreshTokens s"
  by (auto simp: registerAdmin_def Let_def result_simps ensureKyc_def ensureProfile_def updateUser_def
      dest!: greet_tokens createUser_tokens split: option.splits if_splits)

lemma sessionStep_ok: "sessionStep sec s s' \<Longrightarrow> sessionsOk s \<Longrightarrow> sessionsOk s'"
proof (induction rule: sessionStep.induct)
  case (reset env email otp pw s x s')
  then obtain u s1 where "consumeOtp env sec email OTP_RESET_PASSWORD otp s = Inr (u, s1)"
    and s': "s' = emit (PasswordReset (u_id u)) (setPassword env (u_id u) (sc_hash sec (rnd env 0) pw) s1)"
    by (auto simp: resetPassword_def result_simps)
  then have "sessionsOk s1" using consumeOtp_frame reset.prems by (metis sessionsOk_cong)
  then show ?case
    using setPassword_ok s' by (simp add: emit_def sessionsOk_def)
next
  case (change env uid old pw s x s')
  then show ?case using setPassword_ok by (auto simp: changePassword_def result_simps emit_def sessionsOk_def)
next
  case (verify env email otp s x s')
  then show ?case
    by (auto simp: verifyEmail_def result_simps emit_def updateUser_def sessionsOk_def dest!: consumeOtp_frame)
next
  case (forgot env email s x s')
  then show ?case
    by (auto simp: forgotPassword_def sessionsOk_def split: option.splits dest!: sendOtp_frame)
next
  case (revoke s' env uid s)
  then show ?case using revokeTokens_ok [of s env uid] by (simp add: sessionsOk_def)
qed (auto dest: login_ok refresh_ok logout_ok register_tokens registerAdmin_tokens simp: sessionsOk_def)

section \<open>An exchanged token is spent\<close>

lemma revoked_row:
  assumes "t \<in> set (refreshTokens (revokeTokens env uid s))" and "openToken t"
  shows "t \<in> set (refreshTokens s) \<and> rt_userId t \<noteq> uid"
proof
  show "rt_userId t \<noteq> uid" using revokeTokens_closed assms by blast
  from assms(1) obtain r where "r \<in> set (refreshTokens s)"
    and t: "t = (if rt_userId r = uid \<and> rt_revokedAt r = None then r\<lparr>rt_revokedAt := Some (now env)\<rparr> else r)"
    by (auto simp: revokeTokens_def simp del: if_split)
  then show "t \<in> set (refreshTokens s)" using assms(2) by (auto simp: openToken_def split: if_splits)
qed

lemma refreshDays_pos: "0 < refreshDays sec"
  by (simp add: refreshDays_def Let_def)

lemma issued_expiry:
  assumes "issueTokens env sec uid r s = (tk, s')" and "freshToken env sec s" and "userById uid s = Some u"
    and "now env' < now env + refreshDays sec * 86400000"
  shows "refreshTokensWith env' sec (tk_refreshToken tk) s' = Inr (issueTokens env' sec uid (u_role u) s')"
proof (rule issueTokens_table [of env sec uid r s])
  fix t
  assume t: "refreshTokens (snd (issueTokens env sec uid r s)) = refreshTokens (revokeTokens env uid s) @ [t]"
    "rt_userId t = uid" "openToken t" "rt_tokenHash t = sc_sha256 sec (rnd env 1)"
    "rt_expiresAt t = now env + refreshDays sec * 86400000"
  let ?P = "\<lambda>x. rt_tokenHash x = sc_sha256 sec (rnd env 1) \<and> rt_revokedAt x = None \<and> now env' < rt_expiresAt x"
  have raw: "tk_refreshToken tk = rnd env 1" and users: "users s' = users s"
    using assms(1) by (auto simp: issueTokens_def Let_def)
  have "sc_sha256 sec (rnd env 1) \<notin> rt_tokenHash ` set (refreshTokens (revokeTokens env uid s))"
    using assms(2) revokeTokens_hashes [of env uid s] unfolding freshToken_def by (metis set_map)
  then have "findFirst ?P (refreshTokens (revokeTokens env uid s)) = None"
    by (auto simp: find_None_eq intro: rev_image_eqI)
  then have "findFirst ?P (refreshTokens s') = Some t"
    using t assms(1,4) by (simp add: find_append openToken_def)
  moreover have "userById uid s' = Some u" using assms(3) users by (simp add: userById_def)
  moreover have "u_id u = uid" using assms(3) by (auto simp: userById_def dest!: find_SomeD)
  moreover have "rnd env 1 \<noteq> ''''" using assms(2) by (simp add: freshToken_def)
  ultimately show ?thesis
    unfolding refreshTokensWith_Inr raw using t(2) by simp
qed

lemma spent_token_refused:
  assumes "refreshTokensWith env sec raw s = Inr (tk, s')" and "sessionsOk s" and "freshToken env sec s"
  shows "refreshTokensWith env' sec raw s' = Inl (Unauthorized ''Invalid or expired refresh token'')"
proof -
  obtain t u where raw: "raw \<noteq> ''''" and t: "t \<in> set (refreshTokens s)" "rt_tokenHash t = sc_sha256 sec raw"
    and u: "userById (rt_userId t) s = Some u" and i: "issueTokens env sec (u_id u) (u_role u) s = (tk, s')"
    using assms(1) unfolding refreshTokensWith_Inr by (auto dest!: find_SomeD)
  have uid: "u_id u = rt_userId t" using u by (auto simp: userById_def dest!: find_SomeD)
  have "\<not> openToken x" if x: "x \<in> set (refreshTokens s')" "rt_tokenHash x = sc_sha256 sec raw" for x
  proof
    assume "openToken x"
    obtain y where y: "refreshTokens s' = refreshTokens (revokeTokens env (u_id u) s) @ [y]"
      "rt_tokenHash y = sc_sha256 sec (rnd env 1)"
      using issueTokens_table [of env sec "u_id u" "u_role u" s] i by (metis snd_conv)
    have "x \<noteq> y" using y(2) x(2) t assms(3) by (auto simp: freshToken_def image_iff)
    then have "x \<in> set (refreshTokens s)" "rt_userId x \<noteq> rt_userId t"
      using x(1) y(1) \<open>openToken x\<close> revoked_row [of x env "u_id u" s] uid by auto
    moreover have "x = t"
      using calculation(1) t x(2) assms(2) by (simp add: sessionsOk_def distinct_map inj_on_def)
    ultimately show False by simp
  qed
  then have "findFirst (\<lambda>x. rt_tokenHash x = sc_sha256 sec raw \<and> rt_revokedAt x = None \<and> now env' < rt_expiresAt x)
      (refreshTokens s') = None"
    by (auto simp: find_None_eq openToken_def)
  then show ?thesis using raw by (simp add: refreshTokensWith_def)
qed

section \<open>Passwords\<close>

text \<open>The mail address is compared in lower case and trimmed, in either order.\<close>

lemma isBlank_lower: "isBlank (lowerChar c) = isBlank c"
  by (auto simp: isBlank_def lowerChar_def Let_def)

lemma lowerChar_lower: "lowerChar (lowerChar c) = lowerChar c"
  by (simp add: lowerChar_def Let_def)

lemma trim_lower: "trim (toLowerCase x) = toLowerCase (trim x)"
  by (simp add: trim_def toLowerCase_def dropWhile_map comp_def isBlank_lower rev_map)

lemma normalizeEmail_idem [simp]: "normalizeEmail (normalizeEmail x) = normalizeEmail x"
  by (simp add: normalizeEmail_def trim_lower) (simp add: toLowerCase_def lowerChar_lower)

lemma login_with:
  assumes "findActiveUserByEmail email s = Some u" and "u_password u = sc_hash sec salt new" and "securityOk sec"
    and "size new \<le> 72" and "size pw \<le> 72"
  shows "login env sec email pw s =
    (if pw \<noteq> new then Inl (Unauthorized ''Invalid credentials'')
     else if u_isVerified u then Inr (issueTokens env sec (u_id u) (u_role u) s)
     else Inl (Forbidden ''Email not verified''))"
  using assms by (simp add: login_def securityOk_def)

lemma updatedRow:
  assumes "distinct (map k rs)" and "\<And>r. k (f r) = k r" and "x \<in> set (updateRow (\<lambda>r. k r = i) f rs)" and "k x = i"
  shows "\<exists>r \<in> set rs. x = f r"
  using assms by (auto simp: updateRow_map split: if_splits)

lemma setPassword_users:
  "users (setPassword env uid h s) = updateRow (\<lambda>u. u_id u = uid) (\<lambda>x. x\<lparr>u_password := h\<rparr>) (users s)"
  by (simp add: setPassword_def updateUser_def)

lemma setPassword_login:
  assumes "distinct (map u_id (users s))" and "users s' = users (setPassword env uid (sc_hash sec salt new) s)"
    and "securityOk sec" and "size new \<le> 72" and "size pw \<le> 72"
    and "findActiveUserByEmail email s' = Some u" and "u_id u = uid"
  shows "login env' sec email pw s' =
    (if pw \<noteq> new then Inl (Unauthorized ''Invalid credentials'')
     else if u_isVerified u then Inr (issueTokens env' sec uid (u_role u) s')
     else Inl (Forbidden ''Email not verified''))"
proof -
  have "u \<in> set (users s')" using assms(6) by (auto simp: findActiveUserByEmail_def dest!: find_SomeD)
  then have "u_password u = sc_hash sec salt new"
    using updatedRow [OF assms(1), of "\<lambda>x. x\<lparr>u_password := sc_hash sec salt new\<rparr>" u uid] assms(2,7)
    by (auto simp: setPassword_users)
  from login_with [OF assms(6) this assms(3-5)] show ?thesis using assms(7) by simp
qed

lemma setPassword_closed: "t \<in> set (refreshTokens (setPassword env uid h s)) \<Longrightarrow> rt_userId t = uid \<Longrightarrow> \<not> openToken t"
  unfolding setPassword_def by (rule revokeTokens_closed)

text \<open>Both ways of getting a new password end in \<open>setPassword\<close> for the user concerned.\<close>

lemma newPassword_set:
  assumes "changePassword env sec uid old new s = Inr ((), s') \<or>
    resetPassword env sec email otp new s = Inr ((), s') \<and>
      map_option u_id (findActiveUserByEmail (normalizeEmail email) s) = Some uid"
  obtains s1 ev where "s' = emit ev (setPassword env uid (sc_hash sec (rnd env 0) new) s1)" and "users s1 = users s"
  using assms
proof (elim disjE conjE)
  assume "changePassword env sec uid old new s = Inr ((), s')"
  then show thesis using that [of "PasswordChanged uid" s] by (auto simp: changePassword_def result_simps)
next
  assume r: "resetPassword env sec email otp new s = Inr ((), s')"
    and f: "map_option u_id (findActiveUserByEmail (normalizeEmail email) s) = Some uid"
  then obtain u s1 where c: "consumeOtp env sec email OTP_RESET_PASSWORD otp s = Inr (u, s1)"
    and s': "s' = emit (PasswordReset (u_id u)) (setPassword env (u_id u) (sc_hash sec (rnd env 0) new) s1)"
    by (auto simp: resetPassword_def result_simps)
  have "u_id u = uid"
    using c f by (auto simp: consumeOtp_Inr consumeOtpByUserId_Inr userById_def dest!: find_SomeD)
  then show thesis using that [of _ s1] s' consumeOtp_frame [OF c] by blast
qed

section \<open>Registration of an administrator\<close>

lemma seedScores_frame [simp]:
  "users (seedScores env uid s) = users s" "otpCodes (seedScores env uid s) = otpCodes s"
  by (simp_all add: seedScores_def Let_def)

lemma greet_users:
  assumes "findActiveUserByEmail e s = Some u" and "normalizeEmail e = e"
  shows "\<exists>s'. greet env sec uid e s = Inr s' \<and> users s' = users s"
proof -
  have "u \<in> set (users s)" using assms(1) by (auto simp: findActiveUserByEmail_def dest!: find_SomeD)
  then obtain v where "userById (u_id u) (seedScores env uid s) = Some v"
    by (cases "userById (u_id u) (seedScores env uid s)") (auto simp: userById_def find_None_eq)
  moreover have "findActiveUserByEmail e (seedScores env uid s) = Some u"
    using assms(1) by (simp add: findActiveUserByEmail_def)
  ultimately show ?thesis
    using assms(2) by (simp add: greet_def sendOtp_def sendOtpToUser_def Let_def retireOtps_def emit_def)
qed

lemma find_updateRow_key:
  assumes "findFirst P rs = Some r" and "k r = i" and "distinct (map k rs)" and "\<And>x. P (f x) = P x"
  shows "findFirst P (updateRow (\<lambda>x. k x = i) f rs) = Some (f r)"
  using assms by (induction rs) (auto split: if_splits dest!: find_SomeD)

lemma find_stronger:
  assumes "findFirst P rs = Some r" and "Q r" and "\<And>x. Q x \<Longrightarrow> P x"
  shows "findFirst Q rs = Some r"
  using assms by (induction rs) (auto split: if_splits)

definition promotedTo :: "env \<Rightarrow> security \<Rightarrow> registerDto \<Rightarrow> user \<Rightarrow> user" where
  "promotedTo env sec d u =
     u\<lparr>u_role := ADMIN, u_firstName := rg_firstName d, u_lastName := rg_lastName d, u_dob := rg_dob d,
       u_phone := rg_phone d, u_password := sc_hash sec (rnd env 1) (rg_password d)\<rparr>"

lemma registerAdmin_existing:
  assumes "findUserByAnyEmail (rg_email d) s = Some v" and "toLowerCase (u_email v) = normalizeEmail (rg_email d)"
    and "u_role v \<noteq> ADMIN" and "distinct (map u_id (users s))"
  shows "\<exists>s'. registerAdmin env sec d s = Inr (u_id v, s') \<and>
    findActiveUserByEmail (rg_email d) s' = Some (promotedTo env sec d v)"
proof -
  let ?e = "normalizeEmail (rg_email d)" and ?f = "promotedTo env sec d"
  let ?s1 = "ensureKyc (u_id v) (ensureProfile (u_id v) (updateUser (u_id v) ?f s))"
  have users: "users ?s1 = updateRow (\<lambda>u. u_id u = u_id v) ?f (users s)"
    by (simp add: ensureKyc_def ensureProfile_def updateUser_def)
  have found: "findFirst (\<lambda>u. toLowerCase (u_email u) = ?e) (users s) = Some v"
    using assms(1,2) unfolding findUserByAnyEmail_def by (blast intro: find_stronger)
  have "findFirst (\<lambda>u. toLowerCase (u_email u) = ?e) (users ?s1) = Some (?f v)"
    unfolding users by (rule find_updateRow_key [OF found]) (use assms(4) in \<open>simp_all add: promotedTo_def\<close>)
  then have f: "findActiveUserByEmail ?e ?s1 = Some (?f v)" by (simp add: findActiveUserByEmail_def)
  then obtain s2 where s2: "greet (later 2 env) sec (u_id v) ?e ?s1 = Inr s2" "users s2 = users ?s1"
    using greet_users [OF f, of "later 2 env" sec "u_id v"] by auto
  have "normalizeEmail (u_email v) = ?e"
    using assms(2) by (metis normalizeEmail_def trim_lower trim_trim)
  moreover have "findUserByAnyEmail ?e s = Some v" using assms(1) by (simp add: findUserByAnyEmail_def)
  ultimately have "registerAdmin env sec d s = Inr (u_id v, s2)"
    using assms(3) s2(1) by (simp add: registerAdmin_def Let_def promotedTo_def [abs_def])
  moreover have "findActiveUserByEmail (rg_email d) s2 = Some (?f v)"
    using f s2(2) by (simp add: findActiveUserByEmail_def)
  ultimately show ?thesis by blast
qed

end
