(* ===== verification/Levels.thy ===== *)
theory Levels
  imports Kyc Funding
begin

text \<open>
  The KYC records over time: whatever sequence of requests the service takes, a level is held only by
  a user whose numbers the registry confirmed, and money moves in and out of the platform only for
  such users.  The closing of an account, which clears the record of a user who can no longer log in,
  is not among these requests.
\<close>

section \<open>The requests\<close>

inductive kycRequest :: "db \<Rightarrow> db \<Rightarrow> bool" where
  status: "getKycStatus uid s = Inr (a, s') \<Longrightarrow> kycRequest s s'"
| nin: "kycRequest s (snd (verifyNin env w uid d s))"
| bvn: "verifyBvn env w uid d s = Inr (a, s') \<Longrightarrow> kycRequest s s'"
| kin: "submitNextOfKin env uid kin s = Inr (a, s') \<Longrightarrow> kycRequest s s'"
| address: "submitAddress env uid ad s = Inr (a, s') \<Longrightarrow> kycRequest s s'"
| photo: "submitPhoto env w uid i ad files s = Inr (a, s') \<Longrightarrow> kycRequest s s'"
| proof_of_address: "submitProofOfAddress env w uid p url s = Inr (a, s') \<Longrightarrow> kycRequest s s'"
| again: "resubmitKyc uid s = Inr (a, s') \<Longrightarrow> kycRequest s s'"
| approve: "approveKyc env uid r s = Inr (a, s') \<Longrightarrow> kycRequest s s'"
| reject: "rejectKyc env uid r m s = Inr (a, s') \<Longrightarrow> kycRequest s s'"
| registered: "kycs s' = kycs (ensureKyc uid s) \<Longrightarrow> kycRequest s s'"
| event: "kycRequest s (processAuthEvent ev s)"
| elsewhere: "kycs s' = kycs s \<Longrightarrow> kycRequest s s'"

lemma initializeKyc_steps: "kycSteps s (snd (initializeKyc uid s))"
  using initializeKyc_record [of uid s "fst (initializeKyc uid s)" "snd (initializeKyc uid s)"]
  by (simp add: kycSteps_def)

lemma ensureKyc_initialize: "kycs (ensureKyc uid s) = kycs (snd (initializeKyc uid s))"
  by (auto simp: ensureKyc_def initializeKyc_def kycOfUser_def list_ex_iff find_None_eq
      split: option.splits dest!: find_SomeD)

lemma kycRequest_steps: "kycRequest s s' \<Longrightarrow> kycSteps s s'"
proof (induction rule: kycRequest.induct)
  case (registered s' uid s)
  then show ?case by (intro kycSteps_cong [OF initializeKyc_steps [of s uid]]) (simp add: ensureKyc_initialize)
next
  case (event s ev)
  then show ?case by (cases ev) (auto simp: processAuthEvent_def intro: initializeKyc_steps kyc_steps)
qed (auto intro: getKycStatus_steps verifyNin_steps verifyBvn_steps submitNextOfKin_steps submitAddress_steps
    submitPhoto_steps submitProofOfAddress_steps resubmitKyc_steps approveKyc_steps rejectKyc_steps kycSteps_same)

lemma kycRequests_ok: "kycRequest\<^sup>*\<^sup>* s s' \<Longrightarrow> kycsOk s \<Longrightarrow> kycsOk s'"
  by (induction rule: rtranclp_induct) (blast intro: kycSteps_ok kycRequest_steps)+

lemma noRecords_ok: "kycs s = [] \<Longrightarrow> kycsOk s"
  by (simp add: kycsOk_def recordOf_def kycOfUser_def newKyc_ok)

lemma kycsOk_record: "kycsOk s \<Longrightarrow> kycOfUser uid s = Some k \<Longrightarrow> kycOk k"
  unfolding kycsOk_def recordOf_def by (metis option.simps(5))

text \<open>In one request a level goes up by one at most, with what it asks for on file.\<close>

lemma kycRequest_level:
  assumes "kycRequest s s'" and "kycsOk s" and "k_kycLevel (recordOf uid s) < k_kycLevel (recordOf uid s')"
  shows "k_kycLevel (recordOf uid s') = k_kycLevel (recordOf uid s) + 1 \<and> earned (recordOf uid s')"
  using kycRequest_steps [OF assms(1)] assms(2,3) kycMove_earned
  by (metis kycSteps_def kycsOk_def less_irrefl)

section \<open>Money needs an identity\<close>

lemma kycLevelOf_record: "kycLevelOf uid s = k_kycLevel (recordOf uid s)"
  by (simp add: kycLevelOf_def recordOf_def kycOfUser_def newKyc_def split: option.splits)

lemma level_identified:
  "kycsOk s \<Longrightarrow> 1 \<le> kycLevelOf uid s \<Longrightarrow> identified (recordOf uid s) \<and> k_nextOfKin (recordOf uid s) \<noteq> None"
  by (simp add: kycLevelOf_record kycsOk_def kycOk_def)

lemma recordFunding_level: "recordFunding env uid dto w s = Inr (t, s') \<Longrightarrow> 1 \<le> kycLevelOf uid s"
  by (auto simp: recordFunding_def Let_def result_simps)

lemma requestAdminAccess_level: "k_kycLevel (recordOf uid s) = kycLevelOf uid s"
  by (simp add: kycLevelOf_record)

section \<open>A new photo at level 3\<close>

lemma updateKyc_found:
  assumes "kycOfUser uid s = Some k" and "k_userId (f k) = k_userId k"
  shows "kycOfUser uid (snd (updateKyc k f s)) = Some (f k)"
  using assms find_updateRow_same [of "\<lambda>x. k_userId x = uid" "kycs s" k f]
  by (auto simp: updateKyc_def kycOfUser_def dest!: find_SomeD)

lemma submitPhoto_record:
  assumes "submitPhoto env w uid i ad files s = Inr (a, s')" and "kycOfUser uid s = Some k"
    and "isTestBypass w k = Inr b"
  shows "\<exists>k'. kycOfUser uid s' = Some k' \<and> k_kycLevel k' = (if b then 2 else k_kycLevel k) \<and>
    k_status k' = (if b then KS_APPROVED else KS_PENDING) \<and> (\<not> b \<longrightarrow> k_step k' = PHOTO_REQUIRED)"
  using assms updateKyc_found [OF assms(2), of "\<lambda>x. submitted env b PHOTO_REQUIRED 2
         (x\<lparr>k_selfieUrl := Some (pf_selfie files), k_governmentIdType := Some i,
            k_governmentIdFrontUrl := Some (pf_front files), k_governmentIdBackUrl := pf_back files,
            k_address := Some (ad_address ad), k_city := Some (ad_city ad), k_state := Some (ad_state ad),
            k_lga := ad_lga ad, k_country := Some (ad_country ad)\<rparr>)"]
  by (auto simp: submitPhoto_def result_simps submitted_def)

lemma approveKyc_record:
  assumes "approveKyc env uid r s = Inr (a, s')" and "kycOfUser uid s = Some k"
  shows "\<exists>k'. kycOfUser uid s' = Some k' \<and> k_kycLevel k' = approvedLevel k"
  using assms updateKyc_found [OF assms(2), of "\<lambda>x. x\<lparr>k_status := KS_APPROVED, k_step := SUBMITTED,
      k_kycLevel := approvedLevel k, k_reviewedAt := Some (now env), k_reviewedBy := Some r,
      k_rejectionReason := None\<rparr>"]
  by (auto simp: approveKyc_def underReview_Inr result_simps emit_def kycOfUser_def updateKyc_def)

section \<open>The number that is sent\<close>

lemma verifyBvn_record:
  assumes "verifyBvn env w uid d s = Inr (a, s')" and "kycOfUser uid s = Some k" and "k_bvnVerifiedAt k = None"
  shows "\<exists>k'. kycOfUser uid s' = Some k' \<and>
    k_bvn k' = Some (encrypt (kw_cipher w) (rnd env 0) (iy_number d)) \<and> k_bvnVerifiedAt k' \<noteq> None"
proof -
  let ?f = "\<lambda>x. x\<lparr>k_bvn := Some (encrypt (kw_cipher w) (rnd env 0) (iy_number d)),
              k_bvnVerifiedAt := Some (now env), k_step := NOK_REQUIRED, k_status := KS_PENDING\<rparr>"
  have s': "s' = syncBvnFromKyc (kw_accounts w) uid (iy_number d) (snd (updateKyc k ?f s))"
    using assms by (auto simp: verifyBvn_def result_simps case_prod_beta)
  have "kycs (syncBvnFromKyc p i x t) = kycs t" for p i x t
    by (auto simp: syncBvnFromKyc_def updateVirtualAccount_def split: option.splits sum.splits if_splits)
  then have "kycOfUser uid s' = Some (?f k)"
    using updateKyc_found [OF assms(2), of ?f] by (simp add: s' kycOfUser_def)
  then show ?thesis by simp
qed

lemma encrypt_nonempty: "encrypt c iv x \<noteq> ''''"
  by (simp add: encrypt_def PREFIX_def split: prod.splits)

lemma bvnFor_stored: "k_bvn k = Some x \<Longrightarrow> x \<noteq> '''' \<Longrightarrow> k_bvnVerifiedAt k \<noteq> None \<Longrightarrow> bvnFor p (Some k) = Inr x"
  by (simp add: bvnFor_def present_def orOld_def)

end
