(* ===== verification/Closing.thy ===== *)
theory Closing
  imports Users Sessions Levels
begin

text \<open>
  What is left after an account was closed: the ledger as it was, an empty wallet that is closed, no
  session and no code, and a user the access strategy refuses.
\<close>

lemma find_map:
  assumes "\<And>x. P (f x) = P x"
  shows "findFirst P (map f rs) = map_option f (findFirst P rs)"
  using assms by (induction rs) auto

lemma ensureAccountCanBeClosed_Inr:
  assumes "ensureAccountCanBeClosed uid s = Inr x"
  shows "(\<forall>m \<in> set (memberships s). m_userId m = uid \<longrightarrow> m_status m \<noteq> MS_PENDING \<and> m_status m \<noteq> MS_ACTIVE) \<and>
    (\<forall>w. walletOfUser uid s = Some w \<longrightarrow> computeTotalBalance s (w_id w) = 0 \<and> available s (w_id w) = 0 \<and>
       (\<forall>t \<in> set (transactions s). t_walletId t = w_id w \<longrightarrow> t_status t \<noteq> TS_PENDING))"
  using assms
  by (auto simp: ensureAccountCanBeClosed_def Let_def result_simps list_ex_iff getDetailedBalance_def
      available_def split: option.splits)

lemma deleteForUser_frame:
  "deleteForUser p uid s = Inr (v, s') \<Longrightarrow> s' = s\<lparr>virtualAccounts := virtualAccounts s'\<rparr>"
  by (cases "vaOfUser uid s"; cases "vp_delete p (va_orderRef (the (vaOfUser uid s)))")
    (auto simp: deleteForUser_def split: if_splits)

lemma closeAccount_Inr:
  assumes "closeAccount env sec p uid d s = Inr ((), s')"
  obtains u vas where "userById uid s = Some u" and "sc_verify sec (dd_currentPassword d) (u_password u)"
    and "ensureAccountCanBeClosed uid s = Inr ()"
    and "s' = closeTx env sec u (dd_reason d) (s\<lparr>virtualAccounts := vas\<rparr>)"
proof -
  obtain u s1 where u: "userById uid s = Some u" "sc_verify sec (dd_currentPassword d) (u_password u)"
      "ensureAccountCanBeClosed uid s = Inr ()"
    and s': "s' = closeTx env sec u (dd_reason d) s1"
    and s1: "s1 = s \<or> (\<exists>v. deleteForUser p uid s = Inr (v, s1))"
    using assms by (auto simp: closeAccount_def result_simps split: option.splits sum.splits)
  have "s1 = s\<lparr>virtualAccounts := virtualAccounts s1\<rparr>"
    using s1 deleteForUser_frame by auto
  then show thesis using that [of u "virtualAccounts s1"] u s' by metis
qed

lemma closeTx_frame:
  "ledgerEntries (closeTx env sec u r s) = ledgerEntries s" "transactions (closeTx env sec u r s) = transactions s"
  "walletBuckets (closeTx env sec u r s) = walletBuckets s"
  "users (closeTx env sec u r s) = updateRow (\<lambda>x. u_id x = u_id u) (closedUser env sec) (users s)"
  by (auto simp: closeTx_def Let_def audit_def updateUser_def revokeTokens_def split: option.splits)

lemma closeTx_tokens:
  "t \<in> set (refreshTokens (closeTx env sec u r s)) \<Longrightarrow> rt_userId t = u_id u \<Longrightarrow> \<not> openToken t"
proof -
  assume t: "t \<in> set (refreshTokens (closeTx env sec u r s))" "rt_userId t = u_id u"
  have "refreshTokens (closeTx env sec u r s) = refreshTokens (revokeTokens env (u_id u) s)"
    by (auto simp: closeTx_def Let_def audit_def updateUser_def revokeTokens_def split: option.splits)
  then show ?thesis using t revokeTokens_closed by auto
qed

lemma closeTx_codes:
  assumes "c \<in> set (otpCodes (closeTx env sec u r s))" and "oc_userId c = u_id u"
  shows "\<not> unused c"
proof -
  have "otpCodes (closeTx env sec u r s) = map (\<lambda>c. if oc_userId c = u_id u \<and> oc_usedAt c = None
      then c\<lparr>oc_usedAt := Some (now env)\<rparr> else c) (otpCodes s)"
    by (auto simp: closeTx_def Let_def audit_def updateUser_def split: option.splits)
  then have "(\<exists>x. c = x\<lparr>oc_usedAt := Some (now env)\<rparr>) \<or> (\<exists>y. oc_usedAt c = Some y)"
    using assms by (simp add: image_iff del: if_split) blast
  then show ?thesis by (auto simp: unused_def)
qed

lemma closeTx_level: "kycLevelOf uid (closeTx env sec u r s) = kycLevelOf uid s"
proof -
  let ?f = "\<lambda>k. if k_userId k = u_id u then clearedKyc k else k"
  have "kycs (closeTx env sec u r s) = map ?f (kycs s)"
    by (auto simp: closeTx_def Let_def audit_def updateUser_def revokeTokens_def split: option.splits)
  then show ?thesis
    by (simp add: kycLevelOf_def find_map clearedKyc_def split: option.splits)
qed

lemma closeTx_refused:
  assumes "userById uid s = Some u"
  shows "jwtValidate (uid, r) (closeTx env sec u reason s) = Inl (Unauthorized ''Unauthorized'')"
proof -
  have "u_id u = uid" using userByIdD [OF assms] by simp
  then have "userById uid (closeTx env sec u reason s) = Some (closedUser env sec u)"
    using assms find_updateRow_same [of "\<lambda>x. u_id x = uid" "users s" u "closedUser env sec"]
    by (simp add: userById_def closeTx_frame closedUser_def)
  then show ?thesis by (simp add: jwtValidate_def closedUser_def)
qed

end
