(* ===== verification/Governance.thy ===== *)
theory Governance
  imports Users Sessions
begin

text \<open>
  \<^verbatim>\<open>src/modules/superadmin\<close>: the directories of users and circles, and the superadmin's interventions,
  each a change followed by an entry in the audit log.  The change and the entry are two statements
  without a transaction, so the first stays when the second fails.
\<close>

section \<open>Pages\<close>

record 'a paged =
  pg_data :: "'a list"
  pg_total :: nat
  pg_page :: nat
  pg_limit :: nat
  pg_totalPages :: nat

record paging =
  pq_page :: "nat option"
  pq_limit :: "nat option"

definition pageOf :: "paging \<Rightarrow> nat" where
  "pageOf q = (case pq_page q of None \<Rightarrow> 1 | Some p \<Rightarrow> p)"

definition limitOf :: "paging \<Rightarrow> nat" where
  "limitOf q = (case pq_limit q of None \<Rightarrow> 20 | Some l \<Rightarrow> l)"

text \<open>\<^verbatim>\<open>skip\<close> and \<^verbatim>\<open>take\<close> on the rows found, and \<^verbatim>\<open>Math.ceil(total / limit)\<close>.\<close>

definition totalPagesOf :: "nat \<Rightarrow> nat \<Rightarrow> nat" where
  "totalPagesOf n l = nat \<lceil>(of_nat n :: rat) / of_nat l\<rceil>"

definition paginate :: "paging \<Rightarrow> 'a list \<Rightarrow> 'a paged" where
  "paginate q rows =
     \<lparr>pg_data = take (limitOf q) (drop ((pageOf q - 1) * limitOf q) rows), pg_total = size rows,
      pg_page = pageOf q, pg_limit = limitOf q, pg_totalPages = totalPagesOf (size rows) (limitOf q)\<rparr>"

text \<open>\<^verbatim>\<open>contains\<close> in mode insensitive\<close>

definition containsText :: "string \<Rightarrow> string \<Rightarrow> bool" where
  "containsText term x \<longleftrightarrow> jsIncludes (toLowerCase term) (toLowerCase x)"

section \<open>Circles\<close>

record circleFilter =
  cf_status :: "circleStatus option"
  cf_search :: "string option"
  cf_paging :: paging

record circleListing =
  cl_id :: string
  cl_name :: string
  cl_status :: circleStatus
  cl_contributionAmount :: int
  cl_frequency :: cycleFrequency
  cl_durationCycles :: int
  cl_currentCycle :: int
  cl_maxSlots :: int
  cl_filledSlots :: int
  cl_payoutLogic :: payoutLogic
  cl_admin :: "(string \<times> string \<times> string \<times> string) option"
  cl_memberships :: nat

definition person :: "user \<Rightarrow> string \<times> string \<times> string \<times> string" where
  "person u = (u_id u, u_firstName u, u_lastName u, u_email u)"

definition circleMatches :: "circleFilter \<Rightarrow> db \<Rightarrow> circle \<Rightarrow> bool" where
  "circleMatches f s c \<longleftrightarrow>
     (case cf_status f of None \<Rightarrow> True | Some st \<Rightarrow> c_status c = st) \<and>
     (if present (cf_search f)
      then let term = trim (orOld (cf_search f) '''') in
           containsText term (c_name c) \<or>
           (case userById (c_adminId c) s of None \<Rightarrow> False
            | Some u \<Rightarrow> containsText term (u_email u) \<or> containsText term (u_firstName u) \<or>
                containsText term (u_lastName u))
      else True)"

definition circleListingOf :: "db \<Rightarrow> circle \<Rightarrow> circleListing" where
  "circleListingOf s c =
     \<lparr>cl_id = c_id c, cl_name = c_name c, cl_status = c_status c,
      cl_contributionAmount = c_contributionAmount c, cl_frequency = c_frequency c,
      cl_durationCycles = c_durationCycles c, cl_currentCycle = c_currentCycle c,
      cl_maxSlots = c_maxSlots c, cl_filledSlots = c_filledSlots c, cl_payoutLogic = c_payoutLogic c,
      cl_admin = map_option person (userById (c_adminId c) s),
      cl_memberships = size (filter (\<lambda>m. m_circleId m = c_id c) (memberships s))\<rparr>"

definition listAllCircles :: "circleFilter \<Rightarrow> db \<Rightarrow> circleListing paged" where
  "listAllCircles f s =
     paginate (cf_paging f) (map (circleListingOf s) (rev (filter (circleMatches f s) (circles s))))"

record circleDetail =
  cd_circle :: circle
  cd_admin :: "(string \<times> string \<times> string \<times> string) option"
  cd_memberships :: "(membership \<times> (string \<times> string \<times> string \<times> string) option) list"
  cd_schedules :: "schedule list"
  cd_payouts :: "(payout \<times> int option \<times> (string \<times> string \<times> string) option) list"

text \<open>
  No operation creates a missed-contribution debt, so the lists of open debts in the details of a
  circle or a user are empty and left out here.
\<close>

definition getCircleDetail :: "string \<Rightarrow> db \<Rightarrow> circleDetail result" where
  "getCircleDetail cid s =
     bindE (orThrow (NotFound ''Circle not found'') (circleById cid s)) (\<lambda>c.
     Inr \<lparr>cd_circle = c, cd_admin = map_option person (userById (c_adminId c) s),
          cd_memberships = map (\<lambda>m. (m, map_option person (userById (m_userId m) s)))
            (filter (\<lambda>m. m_circleId m = cid) (memberships s)),
          cd_schedules = sort_key cs_cycleNumber (filter (\<lambda>x. cs_circleId x = cid) (schedules s)),
          cd_payouts = map (\<lambda>p. (p,
              map_option cs_cycleNumber (findFirst (\<lambda>x. cs_id x = po_scheduleId p) (schedules s)),
              map_option (\<lambda>u. (u_id u, u_firstName u, u_lastName u)) (userById (po_recipientId p) s)))
            (take 10 (rev (filter (\<lambda>p. po_circleId p = cid) (payouts s))))\<rparr>)"

section \<open>Interventions\<close>

text \<open>
  The entry of the audit log needs its actor; a request whose actor is undefined is refused by the
  database client after the change has been made.
\<close>

definition audited ::
  "string option \<Rightarrow> string \<Rightarrow> string \<Rightarrow> string \<Rightarrow> string option \<Rightarrow> 'a \<Rightarrow> db \<Rightarrow> 'a result \<times> db" where
  "audited actorId action entityType entityId reason answer s =
     (case actorId of
        None \<Rightarrow> (Inl (PrismaError ''Argument actorId is missing''), s)
      | Some a \<Rightarrow>
          (Inr answer,
           audit \<lparr>al_actorId = a, al_actorType = ''SUPERADMIN'', al_action = action,
                  al_entityType = entityType, al_entityId = entityId, al_reason = reason\<rparr> s))"

definition cancelCircle ::
  "string option \<Rightarrow> string \<Rightarrow> string \<Rightarrow> db \<Rightarrow> circleStatus result \<times> db" where
  "cancelCircle actorId cid reason s =
     (case circleById cid s of
        None \<Rightarrow> (Inl (NotFound ''Circle not found''), s)
      | Some c \<Rightarrow>
          if c_status c = CS_COMPLETED \<or> c_status c = CS_CANCELLED
          then (Inl (BadRequest (''Circle is already ''
                  @ (if c_status c = CS_COMPLETED then ''completed'' else ''cancelled''))), s)
          else audited actorId ''CIRCLE_CANCELLED'' ''ROSCA_CIRCLE'' cid (Some reason) CS_CANCELLED
                 (updateCircleRow cid (\<lambda>x. x\<lparr>c_status := CS_CANCELLED\<rparr>) s))"

definition membershipById :: "string \<Rightarrow> db \<Rightarrow> membership option" where
  "membershipById mid s = findFirst (\<lambda>m. m_id m = mid) (memberships s)"

definition flagged :: "env \<Rightarrow> membership \<Rightarrow> membership" where
  "flagged env m =
     m\<lparr>m_status := MS_DEFAULTED, m_defaultedAt := Some (now env), m_payoutLocked := True,
       m_circleJoinRestricted := True\<rparr>"

definition flagMember ::
  "env \<Rightarrow> string option \<Rightarrow> string \<Rightarrow> string \<Rightarrow> db \<Rightarrow> membershipStatus result \<times> db" where
  "flagMember env actorId mid reason s =
     (case membershipById mid s of
        None \<Rightarrow> (Inl (NotFound ''Membership not found''), s)
      | Some m \<Rightarrow>
          if m_status m = MS_DEFAULTED
          then (Inl (BadRequest ''Member is already flagged as DEFAULTED''), s)
          else audited actorId ''MEMBER_FLAGGED_DEFAULTED'' ''ROSCA_MEMBERSHIP'' mid (Some reason)
                 MS_DEFAULTED (updateMembership mid (flagged env) s))"

section \<open>Users\<close>

record userFilter =
  uf_status :: "userStatus option"
  uf_role :: "role option"
  uf_kycStatus :: "kycStatus option"
  uf_pendingAdminRequest :: bool
  uf_registeredFrom :: "int option"
  uf_registeredTo :: "int option"
  uf_search :: "string option"
  uf_paging :: paging

definition userMatches :: "userFilter \<Rightarrow> db \<Rightarrow> user \<Rightarrow> bool" where
  "userMatches f s u \<longleftrightarrow>
     (case uf_status f of None \<Rightarrow> True | Some st \<Rightarrow> u_status u = st) \<and>
     (case uf_role f of None \<Rightarrow> True | Some r \<Rightarrow> u_role u = r) \<and>
     (case uf_kycStatus f of None \<Rightarrow> True
      | Some st \<Rightarrow> map_option k_status (kycOfUser (u_id u) s) = Some st) \<and>
     (uf_pendingAdminRequest f \<longrightarrow> u_adminRequestedAt u \<noteq> None) \<and>
     (case uf_registeredFrom f of None \<Rightarrow> True | Some t \<Rightarrow> t \<le> u_createdAt u) \<and>
     (case uf_registeredTo f of None \<Rightarrow> True | Some t \<Rightarrow> u_createdAt u \<le> t) \<and>
     (if present (uf_search f)
      then let term = trim (orOld (uf_search f) '''') in
           containsText term (u_firstName u) \<or> containsText term (u_lastName u) \<or>
           containsText term (u_email u) \<or> containsText term (u_phone u)
      else True)"

record userListing =
  ul_user :: "string \<times> string \<times> string \<times> string"
  ul_phone :: string
  ul_role :: role
  ul_status :: userStatus
  ul_isVerified :: bool
  ul_createdAt :: int
  ul_suspension :: "int option \<times> string option"
  ul_adminRequestedAt :: "int option"
  ul_kyc :: "(kycStatus \<times> kycStep) option"
  ul_wallet :: "(string \<times> walletStatus) option"
  ul_roscaMemberships :: nat

definition userListingOf :: "db \<Rightarrow> user \<Rightarrow> userListing" where
  "userListingOf s u =
     \<lparr>ul_user = person u, ul_phone = u_phone u, ul_role = u_role u, ul_status = u_status u,
      ul_isVerified = u_isVerified u, ul_createdAt = u_createdAt u,
      ul_suspension = (u_suspendedAt u, u_suspensionReason u),
      ul_adminRequestedAt = u_adminRequestedAt u,
      ul_kyc = map_option (\<lambda>k. (k_status k, k_step k)) (kycOfUser (u_id u) s),
      ul_wallet = map_option (\<lambda>w. (w_id w, w_status w)) (walletOfUser (u_id u) s),
      ul_roscaMemberships = size (filter (\<lambda>m. m_userId m = u_id u) (memberships s))\<rparr>"

definition listUsers :: "userFilter \<Rightarrow> db \<Rightarrow> userListing paged" where
  "listUsers f s =
     paginate (uf_paging f) (map (userListingOf s) (rev (filter (userMatches f s) (users s))))"

definition promoteToSuperadmin :: "string option \<Rightarrow> string \<Rightarrow> db \<Rightarrow> role result \<times> db" where
  "promoteToSuperadmin actorId uid s =
     (if actorId = Some uid then (Inl (BadRequest ''You cannot change your own role''), s)
      else case userById uid s of
        None \<Rightarrow> (Inl (NotFound ''User not found''), s)
      | Some u \<Rightarrow>
          if u_role u = SUPERADMIN then (Inl (BadRequest ''User is already a SUPERADMIN''), s)
          else audited actorId ''USER_PROMOTED_TO_SUPERADMIN'' ''USER'' uid None SUPERADMIN
                 (updateUser uid (\<lambda>x. x\<lparr>u_role := SUPERADMIN\<rparr>) s))"

definition approveAdminRequest :: "string option \<Rightarrow> string \<Rightarrow> db \<Rightarrow> role result \<times> db" where
  "approveAdminRequest actorId uid s =
     (case userById uid s of
        None \<Rightarrow> (Inl (NotFound ''User not found''), s)
      | Some u \<Rightarrow>
          if u_adminRequestedAt u = None
          then (Inl (BadRequest ''This user has not submitted an admin access request''), s)
          else if u_role u = ADMIN \<or> u_role u = SUPERADMIN
          then (Inl (BadRequest ''User already has elevated role''), s)
          else audited actorId ''ADMIN_REQUEST_APPROVED'' ''USER'' uid None ADMIN
                 (updateUser uid (\<lambda>x. x\<lparr>u_role := ADMIN, u_adminRequestedAt := None\<rparr>) s))"

definition rejectAdminRequest :: "string option \<Rightarrow> string \<Rightarrow> db \<Rightarrow> role result \<times> db" where
  "rejectAdminRequest actorId uid s =
     (case userById uid s of
        None \<Rightarrow> (Inl (NotFound ''User not found''), s)
      | Some u \<Rightarrow>
          if u_adminRequestedAt u = None
          then (Inl (BadRequest ''This user has not submitted an admin access request''), s)
          else audited actorId ''ADMIN_REQUEST_REJECTED'' ''USER'' uid None (u_role u)
                 (updateUser uid (\<lambda>x. x\<lparr>u_adminRequestedAt := None\<rparr>) s))"

definition withStatus :: "env \<Rightarrow> userStatus \<Rightarrow> string option \<Rightarrow> user \<Rightarrow> user" where
  "withStatus env st reason u =
     (case st of
        US_ACTIVE \<Rightarrow> u\<lparr>u_status := st, u_suspendedAt := None, u_suspensionReason := None\<rparr>
      | _ \<Rightarrow> u\<lparr>u_status := st, u_suspendedAt := Some (now env), u_suspensionReason := reason\<rparr>)"

definition updateUserStatus ::
  "env \<Rightarrow> string option \<Rightarrow> string \<Rightarrow> userStatus \<Rightarrow> string option \<Rightarrow> db \<Rightarrow> userStatus result \<times> db" where
  "updateUserStatus env actorId uid st reason s =
     (case userById uid s of
        None \<Rightarrow> (Inl (NotFound ''User not found''), s)
      | Some u \<Rightarrow>
          if u_role u = SUPERADMIN
          then (Inl (BadRequest ''Cannot change status of another SUPERADMIN''), s)
          else audited actorId
                 (case st of US_ACTIVE \<Rightarrow> ''USER_ACTIVE'' | US_SUSPENDED \<Rightarrow> ''USER_SUSPENDED''
                           | US_BANNED \<Rightarrow> ''USER_BANNED'') ''USER'' uid reason st
                 (updateUser uid (withStatus env st reason) s))"

section \<open>The controllers\<close>

text \<open>
  The user of a request is what the access strategy returned: \<^verbatim>\<open>userId\<close> and \<^verbatim>\<open>role\<close>.  There is no
  property \<^verbatim>\<open>id\<close>, which five of the six routes pass on.
\<close>

definition req_user_id :: "authUser \<Rightarrow> string option" where
  "req_user_id u = None"

definition cancelCircleRoute :: "authUser \<Rightarrow> string \<Rightarrow> string \<Rightarrow> db \<Rightarrow> circleStatus result \<times> db" where
  "cancelCircleRoute u cid reason s = cancelCircle (req_user_id u) cid reason s"

definition flagMemberRoute ::
  "env \<Rightarrow> authUser \<Rightarrow> string \<Rightarrow> string \<Rightarrow> db \<Rightarrow> membershipStatus result \<times> db" where
  "flagMemberRoute env u mid reason s = flagMember env (req_user_id u) mid reason s"

definition updateStatusRoute ::
  "env \<Rightarrow> authUser \<Rightarrow> string \<Rightarrow> userStatus \<Rightarrow> string option \<Rightarrow> db \<Rightarrow> userStatus result \<times> db" where
  "updateStatusRoute env u uid st reason s = updateUserStatus env (req_user_id u) uid st reason s"

definition approveAdminRoute :: "authUser \<Rightarrow> string \<Rightarrow> db \<Rightarrow> role result \<times> db" where
  "approveAdminRoute u uid s = approveAdminRequest (req_user_id u) uid s"

definition rejectAdminRoute :: "authUser \<Rightarrow> string \<Rightarrow> db \<Rightarrow> role result \<times> db" where
  "rejectAdminRoute u uid s = rejectAdminRequest (req_user_id u) uid s"

definition promoteRoute :: "authUser \<Rightarrow> string \<Rightarrow> db \<Rightarrow> role result \<times> db" where
  "promoteRoute u uid s = promoteToSuperadmin (Some (au_userId u)) uid s"

section \<open>What an intervention changes\<close>

lemma find_updateRow_either:
  assumes "\<And>x. P (f x) = P x"
  shows "(findFirst P rs = None \<and> findFirst P (updateRow Q f rs) = None) \<or>
    (\<exists>r. findFirst P rs = Some r \<and> (findFirst P (updateRow Q f rs) = Some r \<or> findFirst P (updateRow Q f rs) = Some (f r)))"
  using assms by (induction rs) auto

lemma withStatus_kept [simp]:
  "u_id (withStatus env st r u) = u_id u" "u_email (withStatus env st r u) = u_email u"
  "u_password (withStatus env st r u) = u_password u" "u_isVerified (withStatus env st r u) = u_isVerified u"
  "u_role (withStatus env st r u) = u_role u"
  by (cases st; simp add: withStatus_def)+

lemma updateUserStatus_cases:
  "snd (updateUserStatus env actor uid st reason s) = s \<or>
   users (snd (updateUserStatus env actor uid st reason s)) =
     updateRow (\<lambda>u. u_id u = uid) (withStatus env st reason) (users s) \<and>
   refreshTokens (snd (updateUserStatus env actor uid st reason s)) = refreshTokens s"
  by (simp add: updateUserStatus_def audited_def updateUser_def audit_def split: option.splits if_splits)

text \<open>Neither the sessions nor what \<open>login\<close> and the access strategy read depend on the status.\<close>

lemma issueTokens_cong:
  "refreshTokens s' = refreshTokens s \<Longrightarrow> fst (issueTokens env sec i r s') = fst (issueTokens env sec i r s)"
  by (simp add: issueTokens_def Let_def)

lemma updateUserStatus_login:
  "map_sum id fst (login env' sec email pw (snd (updateUserStatus env actor uid st reason s))) =
   map_sum id fst (login env' sec email pw s)" (is "?L ?s' = ?L s")
  using updateUserStatus_cases [of env actor uid st reason s]
proof (elim disjE conjE)
  assume u: "users ?s' = updateRow (\<lambda>u. u_id u = uid) (withStatus env st reason) (users s)"
    and t: "refreshTokens ?s' = refreshTokens s"
  consider "findActiveUserByEmail email s = None" "findActiveUserByEmail email ?s' = None"
    | v where "findActiveUserByEmail email s = Some v" "findActiveUserByEmail email ?s' = Some v"
    | v where "findActiveUserByEmail email s = Some v"
        "findActiveUserByEmail email ?s' = Some (withStatus env st reason v)"
    using find_updateRow_either [of "\<lambda>u. toLowerCase (u_email u) = normalizeEmail email" "withStatus env st reason"
        "users s" "\<lambda>u. u_id u = uid"] u
    by (auto simp: findActiveUserByEmail_def)
  then show ?thesis
    by cases (auto simp: login_def bindE_def ensure_def issueTokens_cong [OF t] split: sum.splits)
qed simp

lemma updateUserStatus_jwt:
  "jwtValidate p (snd (updateUserStatus env actor uid st reason s)) = jwtValidate p s" (is "?L ?s' = ?L s")
  using updateUserStatus_cases [of env actor uid st reason s]
proof (elim disjE conjE)
  assume u: "users ?s' = updateRow (\<lambda>u. u_id u = uid) (withStatus env st reason) (users s)"
  show ?thesis
    using find_updateRow_either [of "\<lambda>u. u_id u = fst p" "withStatus env st reason" "users s" "\<lambda>u. u_id u = uid"] u
    by (auto simp: jwtValidate_def userById_def)
qed simp

text \<open>A route whose actor is undefined fails, whatever it has changed, and leaves no entry.\<close>

lemmas routes = cancelCircleRoute_def flagMemberRoute_def updateStatusRoute_def approveAdminRoute_def
  rejectAdminRoute_def req_user_id_def

lemmas interventions = cancelCircle_def flagMember_def updateUserStatus_def approveAdminRequest_def
  rejectAdminRequest_def audited_def

lemma routes_unaudited:
  "isl (fst (cancelCircleRoute u cid reason s)) \<and> auditLogs (snd (cancelCircleRoute u cid reason s)) = auditLogs s"
  "isl (fst (flagMemberRoute env u mid reason s)) \<and> auditLogs (snd (flagMemberRoute env u mid reason s)) = auditLogs s"
  "isl (fst (updateStatusRoute env u uid st r s)) \<and> auditLogs (snd (updateStatusRoute env u uid st r s)) = auditLogs s"
  "isl (fst (approveAdminRoute u uid s)) \<and> auditLogs (snd (approveAdminRoute u uid s)) = auditLogs s"
  "isl (fst (rejectAdminRoute u uid s)) \<and> auditLogs (snd (rejectAdminRoute u uid s)) = auditLogs s"
  by (auto simp: routes interventions updateCircleRow_def updateMembership_def updateUser_def split: option.splits)

lemma userById_updateUser:
  "userById uid s = Some v \<Longrightarrow> u_id (f v) = uid \<Longrightarrow> userById uid (updateUser uid f s) = Some (f v)"
  using find_updateRow_same [of "\<lambda>u. u_id u = uid" "users s" v f] by (simp add: userById_def updateUser_def)

lemma approveAdminRoute_role:
  assumes "userById uid s = Some v" and "u_adminRequestedAt v \<noteq> None" and "u_role v = MEMBER"
  shows "map_option u_role (userById uid (snd (approveAdminRoute u uid s))) = Some ADMIN"
proof -
  have "u_id v = uid" using userByIdD [OF assms(1)] by simp
  then show ?thesis
    using assms userById_updateUser [OF assms(1), of "\<lambda>x. x\<lparr>u_role := ADMIN, u_adminRequestedAt := None\<rparr>"]
    by (simp add: routes interventions)
qed

section \<open>The pages of a list are the list\<close>

lemma totalPages_cover:
  assumes "0 < l"
  shows "n \<le> totalPagesOf n l * l"
proof -
  have "(of_nat n :: rat) / of_nat l \<le> of_int \<lceil>(of_nat n :: rat) / of_nat l\<rceil>" by (rule le_of_int_ceiling)
  then have "(of_nat n :: rat) \<le> of_int \<lceil>(of_nat n :: rat) / of_nat l\<rceil> * of_nat l"
    by (subst (asm) pos_divide_le_eq) (use assms in simp_all)
  moreover have "0 \<le> (of_nat n :: rat) / of_nat l" by simp
  then have "0 \<le> \<lceil>(of_nat n :: rat) / of_nat l\<rceil>" by linarith
  ultimately have "(of_nat n :: rat) \<le> of_nat (totalPagesOf n l * l)"
    by (simp add: totalPagesOf_def)
  then show ?thesis by (simp only: of_nat_le_iff)
qed

lemma concat_chunks: "concat (map (\<lambda>i. take l (drop (i * l) rows)) [0..<n]) = take (n * l) rows"
  by (induction n) (simp_all add: take_add add.commute [of l])

lemma pages_concat:
  assumes "0 < l"
  shows "concat (map (\<lambda>p. pg_data (paginate \<lparr>pq_page = Some p, pq_limit = Some l\<rparr> rows))
    [1..<Suc (totalPagesOf (size rows) l)]) = rows"
proof -
  let ?n = "totalPagesOf (size rows) l"
  have "[1..<Suc ?n] = map Suc [0..<?n]" by (simp add: map_Suc_upt del: upt_Suc)
  then have "map (\<lambda>p. pg_data (paginate \<lparr>pq_page = Some p, pq_limit = Some l\<rparr> rows)) [1..<Suc ?n] =
      map (\<lambda>i. take l (drop (i * l) rows)) [0..<?n]"
    by (simp add: paginate_def pageOf_def limitOf_def comp_def del: upt_Suc)
  then show ?thesis
    using concat_chunks [of l rows ?n] totalPages_cover [OF assms, of "size rows"] by simp
qed

end
