(* ===== verification/AccountClaims.thy ===== *)
theory AccountClaims
  imports Scenario Closing Governance
begin

text \<open>
  Properties of the accounts: one-time codes, sessions and passwords, registration, the closing of an
  account, and the interventions of a superadmin, each with a witness on the fixture of \<open>Scenario\<close>.
\<close>

section \<open>The fixture\<close>

text \<open>A transparent hash and digest, and random numbers that are all zero.\<close>

definition sec0 :: security where
  "sec0 = \<lparr>sc_hash = (\<lambda>salt v. v), sc_verify = (\<lambda>v h. v = h), sc_sha256 = (\<lambda>x. x), sc_random = (\<lambda>k. 0),
     sc_otpMinutes = 10, sc_accessExpires = None, sc_refreshExpires = Some ''7d'', sc_mailUp = True\<rparr>"

lemma sec0_ok: "securityOk sec0"
  by (simp add: securityOk_def sec0_def)

lemma sec0_code: "generateOtpCode (sc_random sec0) 6 = ''000000''"
  by code_simp

lemma in_time: "now env1 < now env0 + sc_otpMinutes sec0 * 60000"
  by (simp add: sec0_def env0_def env1_def)

lemma funded_otps: "otpsOk funded" and funded_fresh: "freshOtp env0 funded"
  and funded_sessions: "sessionsOk funded" and funded_ids: "distinct (map u_id (users funded))"
  by (simp_all add: otpsOk_def freshOtp_def sessionsOk_def fixture)

text \<open>\<open>ada\<close> asks for a new password, and changes it with the code she is sent.\<close>

definition forgotten :: db where
  "forgotten = stateOf (sendOtpToUser env0 sec0 ''ada'' ''ada@ajoti.com'' OTP_RESET_PASSWORD funded)"

lemma forgotten_Inr: "sendOtpToUser env0 sec0 ''ada'' ''ada@ajoti.com'' OTP_RESET_PASSWORD funded = Inr ((), forgotten)"
proof -
  have "\<not> isl (sendOtpToUser env0 sec0 ''ada'' ''ada@ajoti.com'' OTP_RESET_PASSWORD funded)"
    by code_simp
  from succeeds [OF this] show ?thesis by (simp add: forgotten_def)
qed

definition reset1 :: "(unit \<times> db) result" where
  "reset1 = resetPassword env1 sec0 ''ada@ajoti.com'' ''000000'' ''new-password'' forgotten"

lemma reset1_ok: "\<not> isl reset1"
  by code_simp

text \<open>She logs in and exchanges the refresh token.\<close>

definition login1 :: "(tokens \<times> db) result" where
  "login1 = login env0 sec0 ''ada@ajoti.com'' ''pw-ada'' funded"


definition refresh1 :: "(tokens \<times> db) result" where
  "refresh1 = refreshTokensWith env1 sec0 ''ri'' (stateOf login1)"

lemma refresh1_ok: "\<not> isl refresh1"
  by code_simp

lemma login1_sessions: "sessionsOk (stateOf login1)" and login1_fresh: "freshToken env1 sec0 (stateOf login1)"
  by code_simp+

section \<open>The properties\<close>

text \<open>
  C13: a one-time code is accepted once, and only the newest. Until it expires, the code that was sent
  is the one that is accepted, and no other; once it has been consumed, no code is accepted for that
  user and purpose until another one is sent.
\<close>

theorem otp_accepted_once:
  assumes "sendOtpToUser env sec uid to p s = Inr ((), s1)" and "otpsOk s" and "freshOtp env s"
    and "securityOk sec" and "now env' < now env + sc_otpMinutes sec * 60000" and "size otp \<le> 72"
  shows "(isl (consumeOtpByUserId env' sec uid p otp s1) = False) = (otp = generateOtpCode (sc_random sec) 6) \<and>
    (\<forall>u s2 t env'' otp'. consumeOtpByUserId env' sec uid p otp s1 = Inr (u, s2) \<longrightarrow> otpCodes t = otpCodes s2 \<longrightarrow>
       isl (consumeOtpByUserId env'' sec uid p otp' t))"
proof -
  obtain u where "userById uid s1 = Some u"
    using assms(1) by (auto simp: sendOtpToUser_def Let_def retireOtps_def result_simps userById_def)
  then have "consumeOtpByUserId env' sec uid p otp s1 =
      (if otp = generateOtpCode (sc_random sec) 6 then Inr (u, markOtp env' (rnd env 0) s1)
       else Inl (BadRequest ''Invalid or expired OTP''))"
    using sent_consumable_iff [OF assms(1,5,4)] assms(6) by blast
  moreover have "isl (consumeOtpByUserId env'' sec uid p otp' t)"
    if "consumeOtpByUserId env' sec uid p otp s1 = Inr (u, s2)" "otpCodes t = otpCodes s2" for u s2 t env'' otp'
    using consumed_refused [OF that(1) sendOtpToUser_ok [OF assms(1-3)] that(2)] by (metis isl_def)
  ultimately show ?thesis by auto
qed

theorem otp_accepted_once_witness:
  "(isl (consumeOtpByUserId env1 sec0 ''ada'' OTP_RESET_PASSWORD ''123456'' forgotten) = False) =
   (''123456'' = ''000000'')"
  using otp_accepted_once [OF forgotten_Inr funded_otps funded_fresh sec0_ok in_time, of "''123456''"]
  by (simp add: sec0_code)






text \<open>
  A refresh token is exchanged once. The exchange gives a token that is good until it expires, and
  spends the old one: presenting that again is refused, at any later time.
\<close>

lemma refresh_rotates:
  assumes "refreshTokensWith env sec raw s = Inr (tk, s')" and "sessionsOk s" and "freshToken env sec s"
  shows "refreshTokensWith env' sec raw s' = Inl (Unauthorized ''Invalid or expired refresh token'') \<and>
    (now env' < now env + refreshDays sec * 86400000 \<longrightarrow>
     refreshTokensWith env' sec (tk_refreshToken tk) s' =
       Inr (issueTokens env' sec (fst (tk_access tk)) (snd (tk_access tk)) s'))"
proof -
  obtain t :: refreshToken and u where u: "userById (rt_userId t) s = Some u" and "(tk, s') = issueTokens env sec (u_id u) (u_role u) s"
    using assms(1) unfolding refreshTokensWith_Inr by blast
  then have i: "issueTokens env sec (u_id u) (u_role u) s = (tk, s')" by simp
  have "userById (u_id u) s = Some u" using u userByIdD [OF u] by simp
  moreover have "tk_access tk = (u_id u, u_role u)" using i by (auto simp: issueTokens_def Let_def)
  ultimately show ?thesis
    using spent_token_refused [OF assms] issued_expiry [OF i assms(3)] by auto
qed

lemma refresh_rotates_witness:
  "refreshTokensWith env1 sec0 ''ri'' (stateOf refresh1) = Inl (Unauthorized ''Invalid or expired refresh token'')"
  using refresh_rotates [OF succeeds [OF refresh1_ok, unfolded refresh1_def] login1_sessions login1_fresh, of env1]
  by (simp add: refresh1_def)

text \<open>
  C20: a new password, chosen by changing or by resetting it, closes every session of the user, and
  from then on it is the only password that logs in.
\<close>

theorem new_password_only:
  assumes "changePassword env sec uid old new s = Inr ((), s') \<or>
      resetPassword env sec email otp new s = Inr ((), s') \<and>
        map_option u_id (findActiveUserByEmail (normalizeEmail email) s) = Some uid"
    and "securityOk sec" and "size new \<le> 72" and "distinct (map u_id (users s))"
  shows "(\<forall>t \<in> set (refreshTokens s'). rt_userId t = uid \<longrightarrow> rt_revokedAt t \<noteq> None) \<and>
    (\<forall>env' e pw u. size pw \<le> 72 \<longrightarrow> findActiveUserByEmail e s' = Some u \<longrightarrow> u_id u = uid \<longrightarrow>
       login env' sec e pw s' =
         (if pw \<noteq> new then Inl (Unauthorized ''Invalid credentials'')
          else if u_isVerified u then Inr (issueTokens env' sec uid (u_role u) s')
          else Inl (Forbidden ''Email not verified'')))"
  using assms(1)
proof (rule newPassword_set)
  fix s1 ev
  assume s': "s' = emit ev (setPassword env uid (sc_hash sec (rnd env 0) new) s1)" and "users s1 = users s"
  then have "users s' = users (setPassword env uid (sc_hash sec (rnd env 0) new) s)"
    by (simp add: emit_def setPassword_users)
  note login = setPassword_login [OF assms(4) this assms(2,3)]
  have "\<not> openToken t" if "t \<in> set (refreshTokens s')" "rt_userId t = uid" for t
    using that setPassword_closed s' by (simp add: emit_def)
  then show ?thesis using login by (simp add: openToken_def)
qed

lemma forgotten_ids: "distinct (map u_id (users forgotten))"
  and forgotten_ada: "map_option u_id (findActiveUserByEmail (normalizeEmail ''ada@ajoti.com'') forgotten) = Some ''ada''"
  and reset_ada: "map_option u_id (findActiveUserByEmail ''ada@ajoti.com'' (stateOf reset1)) = Some ''ada''"
  by code_simp+

theorem new_password_only_witness:
  "login env1 sec0 ''ada@ajoti.com'' ''pw-ada'' (stateOf reset1) = Inl (Unauthorized ''Invalid credentials'')"
proof -
  have r: "resetPassword env1 sec0 ''ada@ajoti.com'' ''000000'' ''new-password'' forgotten = Inr ((), stateOf reset1)"
    using succeeds [OF reset1_ok] by (simp add: reset1_def)
  obtain u where u: "findActiveUserByEmail ''ada@ajoti.com'' (stateOf reset1) = Some u" "u_id u = ''ada''"
    using reset_ada by auto
  show ?thesis
    using new_password_only [OF disjI2 [OF conjI [OF r forgotten_ada]] sec0_ok _ forgotten_ids] u by simp
qed

text \<open>
  C15: anyone may take an account over. Registering an administrator under the mail address of a
  verified user who is none yet, which needs no credentials, replaces the password of that account;
  its new password logs in at once, as administrator.
\<close>

theorem registerAdmin_takes_over:
  assumes "findUserByAnyEmail (rg_email d) s = Some v" and "toLowerCase (u_email v) = normalizeEmail (rg_email d)"
    and "u_role v \<noteq> ADMIN" and "u_isVerified v" and "distinct (map u_id (users s))"
    and "securityOk sec" and "size (rg_password d) \<le> 72"
  shows "\<exists>s'. registerAdmin env sec d s = Inr (u_id v, s') \<and>
    login env' sec (rg_email d) (rg_password d) s' = Inr (issueTokens env' sec (u_id v) ADMIN s')"
proof -
  obtain s' where s': "registerAdmin env sec d s = Inr (u_id v, s')"
    and f: "findActiveUserByEmail (rg_email d) s' = Some (promotedTo env sec d v)"
    using registerAdmin_existing [OF assms(1-3,5)] by blast
  have "u_password (promotedTo env sec d v) = sc_hash sec (rnd env 1) (rg_password d)"
    by (simp add: promotedTo_def)
  from login_with [OF f this assms(6,7,7)] have "login env' sec (rg_email d) (rg_password d) s' =
      Inr (issueTokens env' sec (u_id v) ADMIN s')"
    using assms(4) by (simp add: promotedTo_def)
  with s' show ?thesis by blast
qed

definition intruder :: registerDto where
  "intruder = \<lparr>rg_firstName = ''Mallory'', rg_lastName = ''M'', rg_email = ''Ada@Ajoti.com'', rg_dob = 0,
     rg_phone = ''+2348000000001'', rg_password = ''password''\<rparr>"

lemma intruder_ada: "findUserByAnyEmail (rg_email intruder) funded = Some (userOf ''ada'' (Some ''hash''))"
  by code_simp

lemma intruder_email: "toLowerCase (u_email (userOf ''ada'' (Some ''hash''))) = normalizeEmail (rg_email intruder)"
  by code_simp

lemma userOf_facts: "u_role (userOf i pin) \<noteq> ADMIN" "u_isVerified (userOf i pin)" "u_id (userOf i pin) = i"
  by (simp_all add: userOf_def)

lemma intruder_password: "size (rg_password intruder) \<le> 72"
  by (simp add: intruder_def)

theorem registerAdmin_takes_over_witness:
  "\<exists>s'. registerAdmin env0 sec0 intruder funded = Inr (''ada'', s') \<and>
     login env1 sec0 (rg_email intruder) (rg_password intruder) s' = Inr (issueTokens env1 sec0 ''ada'' ADMIN s')"
  using registerAdmin_takes_over [OF intruder_ada intruder_email userOf_facts(1,2) funded_ids sec0_ok
      intruder_password, of env0 env1]
  unfolding userOf_facts(3) .

text \<open>
  A ban does not keep anyone out. Changing the status of a user changes neither what logging in
  answers, for any address and password, nor whether an access token is accepted.
\<close>

lemma ban_not_enforced:
  shows "map_sum id fst (login env' sec email pw (snd (updateUserStatus env actor uid st reason s))) =
      map_sum id fst (login env' sec email pw s) \<and>
    jwtValidate payload (snd (updateUserStatus env actor uid st reason s)) = jwtValidate payload s"
  using updateUserStatus_login updateUserStatus_jwt by blast

text \<open>
  The interventions of a superadmin leave no trace. On the five routes that take the actor from a
  property the request does not have, the answer is an error and no entry is made in the audit log,
  although the change stands: approving a request does make its user an administrator.
\<close>

lemma intervention_unaudited:
  shows "(isl (fst (cancelCircleRoute u cid reason s)) \<and> auditLogs (snd (cancelCircleRoute u cid reason s)) = auditLogs s) \<and>
    (isl (fst (flagMemberRoute env u mid reason s)) \<and> auditLogs (snd (flagMemberRoute env u mid reason s)) = auditLogs s) \<and>
    (isl (fst (updateStatusRoute env u uid st r s)) \<and> auditLogs (snd (updateStatusRoute env u uid st r s)) = auditLogs s) \<and>
    (isl (fst (approveAdminRoute u uid s)) \<and> auditLogs (snd (approveAdminRoute u uid s)) = auditLogs s) \<and>
    (isl (fst (rejectAdminRoute u uid s)) \<and> auditLogs (snd (rejectAdminRoute u uid s)) = auditLogs s) \<and>
    (\<forall>v. userById uid s = Some v \<longrightarrow> u_adminRequestedAt v \<noteq> None \<longrightarrow> u_role v = MEMBER \<longrightarrow>
       map_option u_role (userById uid (snd (approveAdminRoute u uid s))) = Some ADMIN)"
  using approveAdminRoute_role by (simp add: routes_unaudited)

definition applicant :: db where
  "applicant = funded\<lparr>users := [(userOf ''ada'' None)\<lparr>u_adminRequestedAt := Some 5\<rparr>]\<rparr>"

lemma intervention_unaudited_witness:
  "map_option u_role (userById ''ada'' (snd (approveAdminRoute \<lparr>au_userId = ''root'', au_role = SUPERADMIN\<rparr>
     ''ada'' applicant))) = Some ADMIN"
  using intervention_unaudited [of _ _ _ applicant, where uid = "''ada''" and u = "\<lparr>au_userId = ''root'', au_role = SUPERADMIN\<rparr>"]
  by (simp add: applicant_def userById_def userOf_def)

text \<open>
  An account is closed only when it is empty: no membership is open, the wallet has no balance,
  nothing reserved and nothing pending. Afterwards the ledger is as it was, every session is closed and
  every code used up, and the access strategy refuses the user; the KYC level is kept.
\<close>

lemma account_closed:
  assumes "closeAccount env sec p uid d s = Inr ((), s')"
  shows "(\<forall>w. walletOfUser uid s = Some w \<longrightarrow> computeTotalBalance s (w_id w) = 0 \<and> available s (w_id w) = 0 \<and>
       (\<forall>t \<in> set (transactions s). t_walletId t = w_id w \<longrightarrow> t_status t \<noteq> TS_PENDING)) \<and>
    ledgerEntries s' = ledgerEntries s \<and> transactions s' = transactions s \<and>
    (\<forall>t \<in> set (refreshTokens s'). rt_userId t = uid \<longrightarrow> rt_revokedAt t \<noteq> None) \<and>
    (\<forall>c \<in> set (otpCodes s'). oc_userId c = uid \<longrightarrow> oc_usedAt c \<noteq> None) \<and>
    jwtValidate (uid, r) s' = Inl (Unauthorized ''Unauthorized'') \<and> kycLevelOf uid s' = kycLevelOf uid s"
  using assms
proof (rule closeAccount_Inr)
  fix u vas
  assume u: "userById uid s = Some u" and e: "ensureAccountCanBeClosed uid s = Inr ()"
    and s': "s' = closeTx env sec u (dd_reason d) (s\<lparr>virtualAccounts := vas\<rparr>)"
  have uid: "u_id u = uid" using userByIdD [OF u] by simp
  have "userById uid (s\<lparr>virtualAccounts := vas\<rparr>) = Some u" using u by (simp add: userById_def)
  note closeTx_refused [OF this]
  moreover have "kycLevelOf uid (s\<lparr>virtualAccounts := vas\<rparr>) = kycLevelOf uid s" by (simp add: kycLevelOf_def)
  moreover have "\<not> openToken t" if "t \<in> set (refreshTokens s')" "rt_userId t = uid" for t
    using closeTx_tokens [of t env sec u] that s' uid by simp
  moreover have "\<not> unused c" if "c \<in> set (otpCodes s')" "oc_userId c = uid" for c
    using closeTx_codes [of c env sec u] that s' uid by simp
  ultimately show ?thesis
    using ensureAccountCanBeClosed_Inr [OF e]
    by (auto simp: s' closeTx_frame closeTx_level openToken_def unused_def)
qed

definition leaving :: db where
  "leaving = (stateOf login1)\<lparr>ledgerEntries := []\<rparr>"

definition closed1 :: "(unit \<times> db) result" where
  "closed1 = closeAccount env1 sec0 \<lparr>vp_isLive = False, vp_testBvn = '''', vp_create = (\<lambda>q. Inl ''down''),
     vp_get = (\<lambda>r. Inl ''down''), vp_updateBvn = (\<lambda>r b. Inl ''down''), vp_delete = (\<lambda>r. Inl ''down'')\<rparr> ''ada''
     \<lparr>dd_currentPassword = ''pw-ada'', dd_confirm = '' delete '', dd_reason = None\<rparr> leaving"

lemma leaving_empty: "ensureAccountCanBeClosed ''ada'' leaving = Inr ()"
  and leaving_ada: "map_option u_password (userById ''ada'' leaving) = Some ''pw-ada''"
  and leaving_va: "vaOfUser ''ada'' leaving = None"
  and confirmed: "map upperChar (trim '' delete '') = ''DELETE''"
  by code_simp+

lemma closed1_ok: "\<not> isl closed1"
  using leaving_ada
  by (auto simp: closed1_def closeAccount_def leaving_empty leaving_va confirmed sec0_def)

lemma account_closed_witness:
  "jwtValidate (''ada'', MEMBER) (stateOf closed1) = Inl (Unauthorized ''Unauthorized'')"
proof -
  have "closed1 = Inr ((), stateOf closed1)" using succeeds [OF closed1_ok] by simp
  note this [unfolded closed1_def]
  from account_closed [OF this, of MEMBER] show ?thesis by (simp add: closed1_def)
qed

text \<open>
  C22: cancelling a circle strands its money. It moves nothing and releases nothing, and from then on
  an active member of the circle can neither leave it nor be rejected from it, and no contribution,
  payout or activation of it is possible: the collateral stays reserved.
\<close>

theorem cancelled_circle_strands:
  assumes "circleById cid s = Some c" and "c_status c = CS_ACTIVE \<or> c_status c = CS_DRAFT"
    and "membershipOf cid uid s = Some m" and "m_status m = MS_ACTIVE"
  shows "let s' = snd (cancelCircle actor cid reason s) in
    ledgerEntries s' = ledgerEntries s \<and> walletBuckets s' = walletBuckets s \<and>
    isl (leaveCircle env cid uid s') \<and> isl (cancelJoinRequest env uid cid s') \<and>
    isl (rejectMember env cid adminId uid s') \<and> isl (makeContribution env uid cid n s') \<and>
    isl (processPayoutTx env cid n s') \<and> isl (activateCircle env rand cid deadline s')"
proof -
  let ?s = "snd (cancelCircle actor cid reason s)"
  have id: "c_id c = cid" using assms(1) by (auto simp: circleById_def dest!: find_SomeD)
  have c': "circleById cid ?s = Some (c\<lparr>c_status := CS_CANCELLED\<rparr>)"
    using assms(1,2) id find_updateRow_same [of "\<lambda>x. c_id x = cid" "circles s" c "\<lambda>x. x\<lparr>c_status := CS_CANCELLED\<rparr>"]
    by (auto simp: cancelCircle_def audited_def circleById_def split: option.splits)
  have m': "membershipOf cid uid ?s = Some m"
    using assms(1-3) by (auto simp: cancelCircle_def audited_def membershipOf_def split: option.splits)
  have "ledgerEntries ?s = ledgerEntries s" "walletBuckets ?s = walletBuckets s"
    using assms(1) by (auto simp: cancelCircle_def audited_def split: option.splits)
  moreover have "isl (leaveCircle env cid uid ?s)" using c' by (simp add: leaveCircle_def)
  moreover have "isl (cancelJoinRequest env uid cid ?s)" using m' assms(4) by (simp add: cancelJoinRequest_def)
  moreover have "isl (rejectMember env cid adminId uid ?s)"
    using c' m' assms(4) by (simp add: rejectMember_def bindE_def ensure_def)
  moreover have "isl (makeContribution env uid cid n ?s)" using c' by (simp add: makeContribution_def)
  moreover have "isl (processPayoutTx env cid n ?s)" using c' by (simp add: processPayoutTx_def)
  moreover have "isl (activateCircle env rand cid deadline ?s)"
    using c' by (simp add: activateCircle_def bindE_def ensure_def)
  ultimately show ?thesis by (simp add: Let_def)
qed

lemma running_circle: "circleById ''c1'' running = Some (circleOf CS_ACTIVE 2)"
  and running_member: "membershipOf ''c1'' ''bob'' running = Some (memberOf ''m2'' ''bob'' MS_ACTIVE 2)"
  by (simp_all add: circleById_def membershipOf_def fixture)

lemma running_status: "c_status (circleOf CS_ACTIVE 2) = CS_ACTIVE \<or> c_status (circleOf CS_ACTIVE 2) = CS_DRAFT"
  and running_active: "m_status (memberOf ''m2'' ''bob'' MS_ACTIVE 2) = MS_ACTIVE"
  by (simp_all add: circleOf_def memberOf_def)

theorem cancelled_circle_strands_witness:
  "isl (leaveCircle env1 ''c1'' ''bob'' (snd (cancelCircle (Some ''root'') ''c1'' ''fraud'' running)))"
  using cancelled_circle_strands [OF running_circle running_status running_member running_active,
      where env = env1 and actor = "Some ''root''" and reason = "''fraud''"]
  by (simp add: Let_def)

text \<open>
  The pages of the user directory are the directory: put together from the first to the last,
  they list every user that matches the filter, each once and the newest first.
\<close>

lemma user_pages:
  assumes "0 < l"
  shows "concat (map (\<lambda>p. pg_data (listUsers (f\<lparr>uf_paging := \<lparr>pq_page = Some p, pq_limit = Some l\<rparr>\<rparr>) s))
      [1..<Suc (pg_totalPages (listUsers (f\<lparr>uf_paging := \<lparr>pq_page = q, pq_limit = Some l\<rparr>\<rparr>) s))]) =
    map (userListingOf s) (rev (filter (userMatches f s) (users s)))"
proof -
  have same: "userMatches (f\<lparr>uf_paging := q\<rparr>) s = userMatches f s" for q
    by (simp add: userMatches_def fun_eq_iff)
  show ?thesis
    using pages_concat [OF assms, of "map (userListingOf s) (rev (filter (userMatches f s) (users s)))"]
    by (simp add: listUsers_def same paginate_def [of "\<lparr>pq_page = q, pq_limit = Some l\<rparr>"] limitOf_def del: upt_Suc)
qed

definition everyone :: userFilter where
  "everyone = \<lparr>uf_status = None, uf_role = None, uf_kycStatus = None, uf_pendingAdminRequest = False,
     uf_registeredFrom = None, uf_registeredTo = None, uf_search = None,
     uf_paging = \<lparr>pq_page = None, pq_limit = Some 1\<rparr>\<rparr>"

lemma user_pages_witness:
  "size (concat (map (\<lambda>p. pg_data (listUsers (everyone\<lparr>uf_paging := \<lparr>pq_page = Some p, pq_limit = Some 1\<rparr>\<rparr>) funded))
     [1..<Suc (pg_totalPages (listUsers (everyone\<lparr>uf_paging := \<lparr>pq_page = None, pq_limit = Some 1\<rparr>\<rparr>) funded))])) = 2"
proof -
  have "size (filter (userMatches everyone funded) (users funded)) = 2"
    by (simp add: userMatches_def everyone_def fixture present_def)
  then show ?thesis using user_pages [of 1 everyone funded None] by simp
qed

end
