(* ===== verification/PeerReview.thy ===== *)
theory PeerReview
  imports Trust
begin

text \<open>
  \<^verbatim>\<open>src/modules/peer-review/peer-review.service.ts\<close>: the participants of a completed circle rate each
  other once, ratings of members enter their trust score, and administrators read the ratings and
  their averages.
\<close>

section \<open>Submitting a review\<close>

record submitReviewDto =
  srd_revieweeId :: string
  srd_rating :: int
  srd_comment :: "string option"

text \<open>What the validation of \<^verbatim>\<open>SubmitReviewDto\<close> lets through.\<close>

definition validReview :: "submitReviewDto \<Rightarrow> bool" where
  "validReview d \<longleftrightarrow> 1 \<le> srd_rating d \<and> srd_rating d \<le> 5 \<and>
     (case srd_comment d of None \<Rightarrow> True | Some c \<Rightarrow> size c \<le> 280)"

record reviewItem =
  ri_id :: string
  ri_reviewerId :: string
  ri_reviewerName :: string
  ri_revieweeId :: string
  ri_revieweeName :: string
  ri_rating :: int
  ri_comment :: "string option"
  ri_createdAt :: int

definition reviewItemOf :: "db \<Rightarrow> peerReview \<Rightarrow> reviewItem" where
  "reviewItemOf s r =
     \<lparr>ri_id = pr_id r, ri_reviewerId = pr_reviewerId r, ri_reviewerName = nameOf (pr_reviewerId r) s,
      ri_revieweeId = pr_revieweeId r, ri_revieweeName = nameOf (pr_revieweeId r) s,
      ri_rating = pr_rating r, ri_comment = pr_comment r, ri_createdAt = pr_createdAt r\<rparr>"

definition pr_key :: "peerReview \<Rightarrow> string \<times> string \<times> string" where
  "pr_key r = (pr_circleId r, pr_reviewerId r, pr_revieweeId r)"

definition insertReview :: "peerReview \<Rightarrow> db \<Rightarrow> db result" where
  "insertReview r s =
     (if list_ex (\<lambda>x. pr_key x = pr_key r) (peerReviews s) then Inl (PrismaError ''P2002'')
      else if userById (pr_reviewerId r) s = None \<or> userById (pr_revieweeId r) s = None
      then Inl (PrismaError ''P2003'')
      else Inr (s\<lparr>peerReviews := peerReviews s @ [r]\<rparr>))"

text \<open>Everyone who took part as a member: active to the end, or completed.\<close>

definition reviewableMembers :: "string \<Rightarrow> db \<Rightarrow> string list" where
  "reviewableMembers circleId s =
     map m_userId (filter (\<lambda>m. m_circleId m = circleId \<and> m_status m \<in> {MS_ACTIVE, MS_COMPLETED})
       (memberships s))"

definition submitReview ::
  "env \<Rightarrow> string \<Rightarrow> string \<Rightarrow> submitReviewDto \<Rightarrow> db \<Rightarrow> (reviewItem \<times> db) result" where
  "submitReview env circleId reviewerId d s =
     bindE (ensure (reviewerId \<noteq> srd_revieweeId d) (BadRequest ''You cannot review yourself'')) (\<lambda>_.
     bindE (orThrow (NotFound ''Circle not found'') (circleById circleId s)) (\<lambda>circle.
     bindE (ensure (c_status circle = CS_COMPLETED)
       (BadRequest ''Peer reviews can only be submitted after the circle has completed'')) (\<lambda>_.
     let memberIds = set (reviewableMembers circleId s);
         participantIds = memberIds \<union> {c_adminId circle}
     in
     bindE (ensure (reviewerId \<in> participantIds)
       (Forbidden ''You are not a participant of this circle'')) (\<lambda>_.
     bindE (ensure (srd_revieweeId d \<in> participantIds)
       (NotFound ''The person you are reviewing was not part of this circle'')) (\<lambda>_.
     bindE (ensure (\<not> list_ex (\<lambda>x. pr_key x = (circleId, reviewerId, srd_revieweeId d)) (peerReviews s))
       (Conflict ''You have already submitted a review for this person in this circle'')) (\<lambda>_.
     let review = \<lparr>pr_id = rnd env 0, pr_circleId = circleId, pr_reviewerId = reviewerId,
                   pr_revieweeId = srd_revieweeId d, pr_rating = srd_rating d,
                   pr_comment = srd_comment d, pr_createdAt = now env\<rparr>
     in
     bindE (insertReview review s) (\<lambda>s1.
     bindE (if srd_revieweeId d \<in> memberIds
            then updateTrustScore env (srd_revieweeId d) (PeerRating (of_int (srd_rating d))) s1
            else Inr s1) (\<lambda>s2.
     Inr (reviewItemOf s1 review, s2)))))))))"

section \<open>Reading reviews\<close>

text \<open>\<open>None\<close> stands for no filter; the newest review comes first.\<close>

definition reviewsOf :: "string \<Rightarrow> string list option \<Rightarrow> db \<Rightarrow> peerReview list" where
  "reviewsOf circleId revieweeIds s =
     filter (\<lambda>r. pr_circleId r = circleId \<and>
         (case revieweeIds of None \<Rightarrow> True | Some ids \<Rightarrow> pr_revieweeId r \<in> set ids))
       (peerReviews s)"

definition fetchReviews :: "string \<Rightarrow> string list option \<Rightarrow> db \<Rightarrow> reviewItem list" where
  "fetchReviews circleId revieweeIds s =
     map (reviewItemOf s) (rev (reviewsOf circleId revieweeIds s))"

definition getReviews :: "string \<Rightarrow> string \<Rightarrow> role \<Rightarrow> db \<Rightarrow> reviewItem list result" where
  "getReviews circleId requesterId r s =
     bindE (orThrow (NotFound ''Circle not found'') (circleById circleId s)) (\<lambda>circle.
     case r of
       SUPERADMIN \<Rightarrow> Inr (fetchReviews circleId None s)
     | ADMIN \<Rightarrow>
         bindE (ensure (c_adminId circle = requesterId)
           (Forbidden ''Only the circle admin can view reviews'')) (\<lambda>_.
         Inr (fetchReviews circleId (Some (reviewableMembers circleId s)) s))
     | MEMBER \<Rightarrow> Inl (Forbidden ''Members cannot view reviews''))"

record reviewSummary =
  rs_userId :: string
  rs_name :: string
  rs_averageRating :: rat
  rs_totalReviews :: nat

text \<open>
  The loop over the reviews: one entry per reviewee, in the order they first occur, with the number
  and the sum of their ratings.
\<close>

fun tally :: "peerReview list \<Rightarrow> (string \<times> nat \<times> int) list \<Rightarrow> (string \<times> nat \<times> int) list" where
  "tally [] acc = acc"
| "tally (r # rs) acc =
     tally rs
       (case findFirst (\<lambda>x. fst x = pr_revieweeId r) acc of
          None \<Rightarrow> acc @ [(pr_revieweeId r, 1, pr_rating r)]
        | Some _ \<Rightarrow> updateRow (\<lambda>x. fst x = pr_revieweeId r)
            (\<lambda>(k, n, t). (k, n + 1, t + pr_rating r)) acc)"

definition averageRating :: "nat \<Rightarrow> int \<Rightarrow> rat" where
  "averageRating number ratings =
     (if 0 < number then of_int (math_round (of_int ratings / of_nat number * 10)) / 10 else 0)"

definition getReviewSummary :: "string \<Rightarrow> string \<Rightarrow> role \<Rightarrow> db \<Rightarrow> reviewSummary list result" where
  "getReviewSummary circleId requesterId r s =
     bindE (orThrow (NotFound ''Circle not found'') (circleById circleId s)) (\<lambda>circle.
     bindE (ensure (r \<noteq> MEMBER) (Forbidden ''Members cannot view review summaries'')) (\<lambda>_.
     bindE (ensure (\<not> (r = ADMIN \<and> c_adminId circle \<noteq> requesterId))
       (Forbidden ''Only the circle admin can view the review summary'')) (\<lambda>_.
     let revieweeFilter = (if r = ADMIN then Some (reviewableMembers circleId s) else None)
     in Inr (map (\<lambda>(uid, number, ratings).
          \<lparr>rs_userId = uid, rs_name = nameOf uid s, rs_averageRating = averageRating number ratings,
           rs_totalReviews = number\<rparr>)
        (tally (reviewsOf circleId revieweeFilter s) [])))))"

section \<open>Reviews are unique and valid\<close>

lemma insertReview_Inr:
  "insertReview r s = Inr s' \<longleftrightarrow> pr_key r \<notin> pr_key ` set (peerReviews s) \<and>
     userById (pr_reviewerId r) s \<noteq> None \<and> userById (pr_revieweeId r) s \<noteq> None \<and>
     s' = s\<lparr>peerReviews := peerReviews s @ [r]\<rparr>"
  by (auto simp: insertReview_def list_ex_iff image_iff) (metis+)

interpretation reviewByKey: keyed_table peerReviews pr_key insertReview
  by unfold_locales (auto simp: insertReview_Inr)

definition reviewsWf :: "db \<Rightarrow> bool" where
  "reviewsWf s \<longleftrightarrow> distinct (map pr_key (peerReviews s)) \<and>
     (\<forall>r \<in> set (peerReviews s). 1 \<le> pr_rating r \<and> pr_rating r \<le> 5 \<and> pr_reviewerId r \<noteq> pr_revieweeId r)"

lemma submitReview_Inr:
  assumes "submitReview env circleId reviewerId d s = Inr (item, s')"
  obtains circle review s1 where "circleById circleId s = Some circle" and "c_status circle = CS_COMPLETED"
    and "insertReview review s = Inr s1" and "pr_key review = (circleId, reviewerId, srd_revieweeId d)"
    and "pr_rating review = srd_rating d" and "reviewerId \<noteq> srd_revieweeId d"
    and "srd_revieweeId d \<in> set (reviewableMembers circleId s) \<and>
           updateTrustScore env (srd_revieweeId d) (PeerRating (of_int (srd_rating d))) s1 = Inr s' \<or>
         srd_revieweeId d \<notin> set (reviewableMembers circleId s) \<and> srd_revieweeId d = c_adminId circle \<and> s' = s1"
    and "reviewerId \<in> insert (c_adminId circle) (set (reviewableMembers circleId s))"
  using assms
  by (auto simp: submitReview_def Let_def result_simps pr_key_def intro!: that split: if_splits)

lemma submitReview_reviews:
  assumes "submitReview env circleId reviewerId d s = Inr (item, s')"
  shows "\<exists>r. pr_key r = (circleId, reviewerId, srd_revieweeId d) \<and> pr_rating r = srd_rating d \<and>
    peerReviews s' = peerReviews s @ [r]"
  using assms
  by (rule submitReview_Inr) (auto simp: insertReview_Inr dest!: updateTrustScore_frame)

lemma submitReview_wf:
  assumes "submitReview env circleId reviewerId d s = Inr (item, s')" and "validReview d" and "reviewsWf s"
  shows "reviewsWf s'"
  using assms(1)
proof (rule submitReview_Inr)
  fix circle review s1
  assume ins: "insertReview review s = Inr s1" and key: "pr_key review = (circleId, reviewerId, srd_revieweeId d)"
    and rating: "pr_rating review = srd_rating d" and other: "reviewerId \<noteq> srd_revieweeId d"
    and "srd_revieweeId d \<in> set (reviewableMembers circleId s) \<and>
           updateTrustScore env (srd_revieweeId d) (PeerRating (of_int (srd_rating d))) s1 = Inr s' \<or>
         srd_revieweeId d \<notin> set (reviewableMembers circleId s) \<and> srd_revieweeId d = c_adminId circle \<and> s' = s1"
  then have "peerReviews s' = peerReviews s1" by (auto dest!: updateTrustScore_frame)
  moreover have "distinct (map pr_key (peerReviews s1))"
    using reviewByKey.distinct_keys [OF ins] assms(3) by (simp add: reviewsWf_def)
  moreover have "pr_reviewerId review \<noteq> pr_revieweeId review" using key other by (simp add: pr_key_def)
  ultimately show ?thesis
    using ins rating assms(2,3) by (auto simp: reviewsWf_def insertReview_Inr validReview_def)
qed

lemma submitReview_twice:
  assumes "submitReview env circleId reviewerId d s = Inr (item, s1)"
    and "set (peerReviews s1) \<subseteq> set (peerReviews s2)" and "srd_revieweeId d' = srd_revieweeId d"
  shows "\<exists>e. submitReview env' circleId reviewerId d' s2 = Inl e"
proof -
  obtain r where "pr_key r = (circleId, reviewerId, srd_revieweeId d)" and "r \<in> set (peerReviews s1)"
    using submitReview_reviews [OF assms(1)] by auto
  then have "list_ex (\<lambda>x. pr_key x = (circleId, reviewerId, srd_revieweeId d')) (peerReviews s2)"
    using assms(2,3) by (auto simp: list_ex_iff)
  then have "submitReview env' circleId reviewerId d' s2 \<noteq> Inr y" for y
    by (auto simp: submitReview_def Let_def result_simps)
  then show ?thesis by (rule result_not_Inl [OF allI])
qed

section \<open>The summary is the table of the ratings\<close>

text \<open>What the loop keeps of the entries it has made: their numbers and sums are those of the reviews read.\<close>

definition talliesOf :: "peerReview list \<Rightarrow> (string \<times> nat \<times> int) list \<Rightarrow> bool" where
  "talliesOf rs acc \<longleftrightarrow> distinct (map fst acc) \<and> fst ` set acc = pr_revieweeId ` set rs \<and>
     (\<forall>x \<in> set acc. fst (snd x) = length (filter (\<lambda>r. pr_revieweeId r = fst x) rs) \<and>
        snd (snd x) = sumBy (\<lambda>r. pr_revieweeId r = fst x) pr_rating rs)"

lemma talliesOf_step:
  assumes "talliesOf done acc"
  shows "talliesOf (done @ [r])
    (case findFirst (\<lambda>x. fst x = pr_revieweeId r) acc of
       None \<Rightarrow> acc @ [(pr_revieweeId r, 1, pr_rating r)]
     | Some _ \<Rightarrow> updateRow (\<lambda>x. fst x = pr_revieweeId r) (\<lambda>(k, n, t). (k, n + 1, t + pr_rating r)) acc)"
proof (cases "findFirst (\<lambda>x. fst x = pr_revieweeId r) acc")
  case None
  then have fresh: "pr_revieweeId r \<notin> pr_revieweeId ` set done"
    using assms by (force simp: talliesOf_def find_None_eq image_iff)
  then have "filter (\<lambda>x. pr_revieweeId x = pr_revieweeId r) done = []"
    by (force simp: filter_empty_conv image_iff)
  then have none: "length (filter (\<lambda>x. pr_revieweeId x = pr_revieweeId r) done) = 0"
    "sumBy (\<lambda>x. pr_revieweeId x = pr_revieweeId r) pr_rating done = 0"
    by (simp_all add: sumBy_def)
  have new: "pr_revieweeId r \<notin> fst ` set acc" using fresh assms by (simp add: talliesOf_def)
  then have other: "fst x \<noteq> pr_revieweeId r \<and> pr_revieweeId r \<noteq> fst x" if "x \<in> set acc" for x
    using that by (metis image_eqI)
  show ?thesis unfolding None option.case talliesOf_def
  proof (intro conjI ballI)
    show "distinct (map fst (acc @ [(pr_revieweeId r, 1, pr_rating r)]))"
      using new assms by (simp add: talliesOf_def)
    show "fst ` set (acc @ [(pr_revieweeId r, 1, pr_rating r)]) = pr_revieweeId ` set (done @ [r])"
      using assms by (simp add: talliesOf_def)
  qed (use assms none other in \<open>auto simp: talliesOf_def\<close>)
next
  case (Some y)
  let ?f = "\<lambda>(k, n, t). (k, n + 1, t + pr_rating r) :: string \<times> nat \<times> int"
  have "fst (?f x) = fst x" for x by (cases x) auto
  then have keys: "map fst (updateRow (\<lambda>x. fst x = pr_revieweeId r) ?f acc) = map fst acc"
    by (rule map_updateRow)
  have known: "pr_revieweeId r \<in> pr_revieweeId ` set done"
    using find_SomeD [OF Some] assms by (force simp: talliesOf_def)
  have set_upd: "set (updateRow (\<lambda>x. fst x = k) f xs) = {x \<in> set xs. fst x \<noteq> k} \<union> f ` {x \<in> set xs. fst x = k}"
    if "distinct (map fst xs)" for k and f :: "string \<times> nat \<times> int \<Rightarrow> string \<times> nat \<times> int" and xs
    using that by (induction xs) (force simp: image_iff)+
  have "fst ` set (updateRow (\<lambda>x. fst x = pr_revieweeId r) ?f acc) = fst ` set acc"
    using keys by (metis set_map)
  then show ?thesis
    using assms Some known keys by (auto simp: talliesOf_def set_upd)
qed

lemma tally_correct: "talliesOf done acc \<Longrightarrow> talliesOf (done @ rs) (tally rs acc)"
proof (induction rs arbitrary: "done" acc)
  case (Cons r rs)
  then show ?case using Cons.IH [OF talliesOf_step [of "done" acc r]] by simp
qed simp

lemma tally_all: "talliesOf rs (tally rs [])"
  using tally_correct [of "[]" "[]" rs] by (simp add: talliesOf_def)

lemma sumBy_bounds:
  assumes "\<And>r. r \<in> set rs \<Longrightarrow> lo \<le> g r \<and> g r \<le> hi"
  shows "lo * int (length (filter P rs)) \<le> sumBy P g rs \<and> sumBy P g rs \<le> hi * int (length (filter P rs))"
  using assms
proof (induction rs)
  case (Cons r rs)
  then have "lo * int (length (filter P rs)) \<le> sumBy P g rs \<and> sumBy P g rs \<le> hi * int (length (filter P rs))"
    and "lo \<le> g r \<and> g r \<le> hi" by auto
  then show ?case by (auto simp: algebra_simps)
qed simp

lemma averageRating_bounds:
  assumes "0 < n" and "int n \<le> t" and "t \<le> 5 * int n"
  shows "1 \<le> averageRating n t \<and> averageRating n t \<le> 5"
proof -
  have "(of_int t :: rat) \<le> of_int (5 * int n)" and "of_int (int n) \<le> (of_int t :: rat)"
    using assms(2,3) by (simp_all only: of_int_le_iff)
  then have "of_int 10 \<le> (of_int t :: rat) / of_nat n * 10" and "(of_int t :: rat) / of_nat n * 10 \<le> of_int 50"
    using assms(1) by (simp_all add: field_simps)
  from math_round_ge [OF this(1)] math_round_le [OF this(2)]
  show ?thesis using assms(1) by (simp add: averageRating_def field_simps)
qed

end
