(* ===== verification/IdentityClaims.thy ===== *)
theory IdentityClaims
  imports Scenario Levels PeerReview
begin

text \<open>
  Properties of the identity of users: the levels of their verification and what they open, the number
  sent to the provider, the virtual account, and what members say of each other, each with a witness
  on the fixture of \<open>Scenario\<close>.
\<close>

section \<open>The fixture\<close>

text \<open>A registry that knows \<open>ada\<close>, a cipher that only hides the colons, and a provider that opens accounts.\<close>

definition registry0 :: registry where
  "registry0 = \<lparr>rg_production = True,
     rg_nin = (\<lambda>n k. Inr (Found \<lparr>rr_firstname = Some ''ADA'', rr_surname = Some ''a'', rr_lastname = None,
       rr_birthdate = Some ''1990-01-01'', rr_dob = None\<rparr>)),
     rg_bvn = (\<lambda>n k. Inr (Found \<lparr>rr_firstname = Some ''Ada'', rr_surname = None, rr_lastname = Some ''A'',
       rr_birthdate = None, rr_dob = Some ''1990-01-01''\<rparr>))\<rparr>"

definition cipher0 :: cipher where
  "cipher0 = \<lparr>ci_seal = (\<lambda>iv x. (concat (map (\<lambda>c. if c = CHR '':'' then ''1'' else ''0'') x),
       map (\<lambda>c. if c = CHR '':'' then CHR ''0'' else c) x)),
     ci_open = (\<lambda>iv tag ct. Some (map2 (\<lambda>t c. if t = CHR ''1'' then CHR '':'' else c) tag ct))\<rparr>"

lemma cipher0_ok: "cipherOk cipher0"
proof -
  have "map2 (\<lambda>t c. if t = CHR ''1'' then CHR '':'' else c)
      (concat (map (\<lambda>c. if c = CHR '':'' then ''1'' else ''0'') x))
      (map (\<lambda>c. if c = CHR '':'' then CHR ''0'' else c) x) = x" for x
    by (induction x) auto
  then show ?thesis by (auto simp: cipherOk_def cipher0_def noColon_def)
qed

definition provider0 :: vaProvider where
  "provider0 = \<lparr>vp_isLive = True, vp_testBvn = '''',
     vp_create = (\<lambda>q. Inr \<lparr>vs_status = ''success'', vs_message = '''', vs_data = Some
       \<lparr>vd_account_number = Some ''0123456789'', vd_bank_name = Some ''Wema'', vd_account_name = None,
        vd_flw_ref = Some ''F1'', vd_order_ref = Some ''O1'', vd_is_active = None,
        vd_response_message = None\<rparr>\<rparr>),
     vp_get = (\<lambda>r. Inl ''down''), vp_updateBvn = (\<lambda>r b. Inl ''down''), vp_delete = (\<lambda>r. Inl ''down'')\<rparr>"

definition kyc_world :: kycWorld where
  "kyc_world = \<lparr>kw_registry = registry0, kw_cipher = cipher0, kw_accounts = provider0\<rparr>"

definition ada :: identityDto where
  "ada = \<lparr>iy_number = ''22123456789'', iy_firstName = ''Ada'', iy_lastName = ''A'', iy_dob = ''1990-01-01''\<rparr>"

text \<open>\<open>ada\<close> verifies her NIN and her BVN, and names her next of kin.\<close>

definition unverified :: db where
  "unverified = funded\<lparr>kycs := []\<rparr>"

definition with_nin :: db where
  "with_nin = snd (verifyNin env0 kyc_world ''ada'' ada unverified)"

definition with_bvn :: "(kycResponse \<times> db) result" where
  "with_bvn = verifyBvn env0 kyc_world ''ada'' ada with_nin"

definition with_kin :: "(kycResponse \<times> db) result" where
  "with_kin = submitNextOfKin env0 ''ada'' (''Eve'', ''Sister'', ''+2348000000000'') (stateOf with_bvn)"

lemma with_bvn_ok: "\<not> isl with_bvn" and with_kin_ok: "\<not> isl with_kin"
  by code_simp+





section \<open>The properties\<close>







text \<open>
  Sending a new photo at level 3 lowers the level. Whether the photo is approved by a reviewer or,
  for a test number, on the spot, the user is at level 2 afterwards, and may move a fiftieth of what
  was allowed before.
\<close>

lemma photo_lowers_level:
  assumes "kycOfUser uid s = Some k" and "k_kycLevel k = 3"
    and "submitPhoto env w uid i ad files s = Inr (a, s1)"
  shows "(isTestBypass w k = Inr True \<longrightarrow> kycLevelOf uid s1 = 2) \<and>
    (\<forall>env' r b s2. approveKyc env' uid r s1 = Inr (b, s2) \<longrightarrow> kycLevelOf uid s2 = 2) \<and>
    getSingleLimitKobo (kycLevelOf uid s) = 50 * getSingleLimitKobo 2"
proof -
  obtain t where t: "isTestBypass w k = Inr t"
    using assms(1,3) by (auto simp: submitPhoto_def result_simps)
  from submitPhoto_record [OF assms(3,1) t] obtain k1 where k1: "kycOfUser uid s1 = Some k1"
    and l1: "k_kycLevel k1 = (if t then 2 else 3)" "k_status k1 = (if t then KS_APPROVED else KS_PENDING)"
      "\<not> t \<longrightarrow> k_step k1 = PHOTO_REQUIRED"
    using assms(2) by auto
  have "kycLevelOf uid s2 = 2" if a: "approveKyc env' uid r s1 = Inr (b, s2)" for env' r b s2
  proof -
    have "k_status k1 = KS_PENDING"
      using a k1 by (auto simp: approveKyc_def underReview_Inr result_simps)
    then have "approvedLevel k1 = 2" using l1 by (auto simp: approvedLevel_def split: if_splits)
    then show ?thesis
      using approveKyc_record [OF a k1] by (auto simp: kycLevelOf_record recordOf_def)
  qed
  moreover have "isTestBypass w k = Inr True \<longrightarrow> kycLevelOf uid s1 = 2"
    using t k1 l1 by (auto simp: kycLevelOf_record recordOf_def)
  moreover have "getSingleLimitKobo (kycLevelOf uid s) = 50 * getSingleLimitKobo 2"
    using assms(1,2) by (simp add: kycLevelOf_record recordOf_def getSingleLimitKobo_def KYC_SINGLE_LIMITS_KOBO_def)
  ultimately show ?thesis by blast
qed

definition top_level :: kyc where
  "top_level = (kycOf ''ada'')\<lparr>k_kycLevel := 3\<rparr>"

definition at_top :: db where
  "at_top = funded\<lparr>kycs := [top_level]\<rparr>"

definition home :: addressDto where
  "home = \<lparr>ad_address = ''1 Marina'', ad_city = ''Lagos'', ad_state = ''Lagos'', ad_lga = None, ad_country = ''NG''\<rparr>"

definition new_photo :: "(kycResponse \<times> db) result" where
  "new_photo = submitPhoto env0 kyc_world ''ada'' PASSPORT home
     \<lparr>pf_selfie = ''/uploads/s'', pf_front = ''/uploads/f'', pf_back = None\<rparr> at_top"

definition photo_approved :: "(kycResponse \<times> db) result" where
  "photo_approved = approveKyc env1 ''ada'' ''root'' (stateOf new_photo)"

lemma new_photo_ok: "\<not> isl new_photo" and photo_approved_ok: "\<not> isl photo_approved"
  by code_simp+

lemma at_top_ada: "kycOfUser ''ada'' at_top = Some top_level" and top_level_3: "k_kycLevel top_level = 3"
  by (simp_all add: at_top_def kycOfUser_def top_level_def kycOf_def)

lemma photo_lowers_level_witness:
  "kycLevelOf ''ada'' at_top = 3 \<and> kycLevelOf ''ada'' (stateOf photo_approved) = 2"
proof -
  have p: "approveKyc env1 ''ada'' ''root'' (stateOf new_photo) = Inr (valueOf photo_approved, stateOf photo_approved)"
    using succeeds [OF photo_approved_ok] by (simp add: photo_approved_def)
  show ?thesis
    using photo_lowers_level [OF at_top_ada top_level_3 succeeds [OF new_photo_ok, unfolded new_photo_def]] p
      at_top_ada top_level_3
    by (simp add: kycLevelOf_record recordOf_def new_photo_def)
qed

text \<open>
  C23: the provider is sent the ciphertext of the BVN. What a request for a virtual account carries after
  the BVN was verified is the stored column, which is not the number; decrypting it would give the
  number, for a cipher that opens what it sealed.
\<close>

theorem bvn_sent_encrypted:
  assumes "verifyBvn env w uid d s = Inr (a, s')" and "kycOfUser uid s = Some k" and "k_bvnVerifiedAt k = None"
    and "cipherOk (kw_cipher w)" and "noColon (rnd env 0)" and "\<not> isEncrypted (iy_number d)"
  shows "\<exists>sent. bvnFor p (kycOfUser uid s') = Inr sent \<and> sent \<noteq> iy_number d \<and>
    decrypt (kw_cipher w) sent = Inr (iy_number d)"
proof -
  obtain k' where "kycOfUser uid s' = Some k'" "k_bvn k' = Some (encrypt (kw_cipher w) (rnd env 0) (iy_number d))"
    "k_bvnVerifiedAt k' \<noteq> None"
    using verifyBvn_record [OF assms(1-3)] by blast
  then have "bvnFor p (kycOfUser uid s') = Inr (encrypt (kw_cipher w) (rnd env 0) (iy_number d))"
    using bvnFor_stored encrypt_nonempty by metis
  then show ?thesis
    using encrypt_not_plain [OF assms(6)] decrypt_encrypt [OF assms(4,5)] by blast
qed

lemma with_nin_ada: "map_option k_bvnVerifiedAt (kycOfUser ''ada'' with_nin) = Some None"
  by code_simp

lemma ada_plain: "\<not> isEncrypted (iy_number ada)" and env0_hex: "noColon (rnd env0 0)"
  by (simp_all add: isEncrypted_def PREFIX_def ada_def noColon_def env0_def)

theorem bvn_sent_encrypted_witness:
  "\<exists>sent. bvnFor provider0 (kycOfUser ''ada'' (stateOf with_bvn)) = Inr sent \<and> sent \<noteq> ''22123456789''"
proof -
  obtain k where k: "kycOfUser ''ada'' with_nin = Some k" "k_bvnVerifiedAt k = None" using with_nin_ada by auto
  have "cipherOk (kw_cipher kyc_world)" using cipher0_ok by (simp add: kyc_world_def)
  from bvn_sent_encrypted [OF succeeds [OF with_bvn_ok, unfolded with_bvn_def] k this env0_hex ada_plain, of provider0]
  show ?thesis by (auto simp: ada_def with_bvn_def)
qed

text \<open>
  C24: a user has one virtual account. Asking for it keeps the table in order (one row per user, each
  for the wallet of its user), and once it has been given, every later request gives the same row,
  whatever the provider answers then.
\<close>

theorem one_virtual_account:
  assumes "getOrCreateVa env p uid s = (Inr v, s')" and "virtualAccountsOk s"
  shows "virtualAccountsOk s' \<and> va_userId v = uid \<and> (\<forall>env' p'. getOrCreateVa env' p' uid s' = (Inr v, s'))"
proof -
  have ok: "virtualAccountsOk s'" and v: "v \<in> set (virtualAccounts s')" "va_userId v = uid"
    using getOrCreateVa_ok [OF assms] by auto
  then have "vaOfUser uid s' = Some v"
    using find_unique [of va_userId "virtualAccounts s'" v] by (simp add: vaOfUser_def virtualAccountsOk_def)
  then show ?thesis using ok v by (simp add: getOrCreateVa_def)
qed

definition opened :: "virtualAccount result \<times> db" where
  "opened = getOrCreateVa env0 provider0 ''ada'' (stateOf with_bvn)"

lemma opened_ok: "\<not> isl (fst opened)" and with_bvn_accounts: "virtualAccountsOk (stateOf with_bvn)"
  by code_simp+

theorem one_virtual_account_witness:
  "\<exists>v. opened = (Inr v, snd opened) \<and>
     getOrCreateVa env1 (provider0\<lparr>vp_create := (\<lambda>q. Inl ''down'')\<rparr>) ''ada'' (snd opened) = (Inr v, snd opened)"
proof -
  obtain v where v: "getOrCreateVa env0 provider0 ''ada'' (stateOf with_bvn) = (Inr v, snd opened)"
    using succeeds_pair [OF opened_ok] unfolding opened_def by blast
  from one_virtual_account [OF v with_bvn_accounts] v show ?thesis unfolding opened_def by auto
qed






end
