(* ===== verification/Oversight.thy ===== *)
theory Oversight
  imports Governance Circle Contribution
begin

text \<open>
  \<^verbatim>\<open>src/modules/rosca/services/admin-oversight.service.ts\<close>: what the administrator of a circle sees of
  it, and the reminders an administrator sends.  Contributions are created with the time of their
  payment and never changed, so the order of their table is that of \<^verbatim>\<open>paidAt\<close>.  Rows refer to users
  that exist; the name of a missing one is empty here.
\<close>

section \<open>The administrator's circles\<close>

definition assertAdminOwnsCircle :: "string \<Rightarrow> string \<Rightarrow> db \<Rightarrow> circle result" where
  "assertAdminOwnsCircle circleId adminId s =
     bindE (orThrow (NotFound ''Circle not found'') (circleById circleId s)) (\<lambda>c.
     bindE (ensure (c_adminId c = adminId)
       (Forbidden ''You do not have permission to manage this circle'')) (\<lambda>_. Inr c))"

definition circlesOfAdmin :: "string \<Rightarrow> db \<Rightarrow> circle list" where
  "circlesOfAdmin adminId s = filter (\<lambda>c. c_adminId c = adminId) (circles s)"

definition pendingOf :: "string \<Rightarrow> db \<Rightarrow> membership list" where
  "pendingOf circleId s =
     filter (\<lambda>m. m_circleId m = circleId \<and> m_status m = MS_PENDING) (memberships s)"

record dashboard =
  da_totalGroups :: nat
  da_nextDeadline :: "(string \<times> int) option"
  da_pendingTotal :: nat
  da_breakdown :: "(string \<times> nat) list"

definition deadlinesAhead :: "int \<Rightarrow> string \<Rightarrow> db \<Rightarrow> schedule list" where
  "deadlinesAhead t adminId s =
     sort_key cs_contributionDeadline
       (filter (\<lambda>x. map_option c_adminId (circleById (cs_circleId x) s) = Some adminId \<and>
          cs_status x = SS_UPCOMING \<and> t \<le> cs_contributionDeadline x \<and> cs_obsoletedAt x = None)
        (schedules s))"

definition getAdminDashboard :: "env \<Rightarrow> string \<Rightarrow> db \<Rightarrow> dashboard" where
  "getAdminDashboard env adminId s =
     (let mine = circlesOfAdmin adminId s in
      \<lparr>da_totalGroups = length mine,
       da_nextDeadline =
         (case deadlinesAhead (now env) adminId s of [] \<Rightarrow> None
          | x # _ \<Rightarrow> map_option (\<lambda>c. (c_name c, cs_contributionDeadline x))
                     (circleById (cs_circleId x) s)),
       da_pendingTotal = sum_list (map (\<lambda>c. length (pendingOf (c_id c) s)) mine),
       da_breakdown = map (\<lambda>c. (c_name c, length (pendingOf (c_id c) s)))
         (filter (\<lambda>c. pendingOf (c_id c) s \<noteq> []) mine)\<rparr>)"

section \<open>Join requests\<close>

definition requestsInOrder :: "string \<Rightarrow> db \<Rightarrow> membership list" where
  "requestsInOrder circleId s = sort_key (\<lambda>m. optNumber (m_joinedAt m)) (pendingOf circleId s)"

record pendingOverview =
  pv_circleId :: string
  pv_name :: string
  pv_pendingCount :: nat
  pv_oldestRequestAt :: "int option"

definition pendingOverviewOf :: "db \<Rightarrow> circle \<Rightarrow> pendingOverview" where
  "pendingOverviewOf s c =
     (let ms = requestsInOrder (c_id c) s in
      \<lparr>pv_circleId = c_id c, pv_name = c_name c, pv_pendingCount = length ms,
       pv_oldestRequestAt = (case ms of [] \<Rightarrow> None | m # _ \<Rightarrow> m_joinedAt m)\<rparr>)"

definition getPendingJoinRequestsOverview :: "string \<Rightarrow> db \<Rightarrow> pendingOverview list" where
  "getPendingJoinRequestsOverview adminId s =
     sort_key (\<lambda>v. optNumber (pv_oldestRequestAt v))
       (map (pendingOverviewOf s)
         (filter (\<lambda>c. pendingOf (c_id c) s \<noteq> []) (circlesOfAdmin adminId s)))"

record dossier =
  dr_userId :: string
  dr_membershipId :: string
  dr_name :: string
  dr_requestedAt :: "int option"
  dr_trustScore :: int
  dr_onTimePaymentRate :: "int option"
  dr_completedCycles :: int

definition nameMatches :: "string option \<Rightarrow> string \<Rightarrow> db \<Rightarrow> bool" where
  "nameMatches search uid s \<longleftrightarrow>
     (case search of None \<Rightarrow> True
      | Some q \<Rightarrow> q = '''' \<or>
          (case userById uid s of None \<Rightarrow> False
           | Some u \<Rightarrow> containsText q (u_firstName u) \<or> containsText q (u_lastName u)))"

definition onTimeRate :: "trustStats \<Rightarrow> int option" where
  "onTimeRate st =
     (if 0 < ts_totalExpectedPayments st
      then Some (math_round (of_int (ts_totalOnTimePayments st) /
                             of_int (ts_totalExpectedPayments st) * 100))
      else None)"

definition dossierOf :: "db \<Rightarrow> membership \<Rightarrow> dossier" where
  "dossierOf s m =
     (let stats = snd (withTrust s m) in
      \<lparr>dr_userId = m_userId m, dr_membershipId = m_id m, dr_name = nameOf (m_userId m) s,
       dr_requestedAt = m_joinedAt m,
       dr_trustScore = (case stats of None \<Rightarrow> 50 | Some st \<Rightarrow> ts_trustScore st),
       dr_onTimePaymentRate = (case stats of None \<Rightarrow> None | Some st \<Rightarrow> onTimeRate st),
       dr_completedCycles = m_completedCycles m\<rparr>)"

definition getCircleJoinRequests ::
  "string \<Rightarrow> string \<Rightarrow> string option \<Rightarrow> db \<Rightarrow> dossier list result" where
  "getCircleJoinRequests circleId adminId search s =
     bindE (orThrow (NotFound ''Circle not found'') (circleById circleId s)) (\<lambda>c.
     bindE (ensure (c_adminId c = adminId) (Forbidden ''Not authorized to manage this circle'')) (\<lambda>_.
     Inr (map (dossierOf s)
       (filter (\<lambda>m. nameMatches search (m_userId m) s) (requestsInOrder circleId s)))))"

section \<open>Members and payments\<close>

record memberProgress =
  mp_userId :: string
  mp_name :: string
  mp_completedCycles :: int
  mp_durationCycles :: int
  mp_paid :: bool
  mp_payoutPosition :: "int option"
  mp_totalLatePayments :: int

definition getMemberProgress :: "string \<Rightarrow> string \<Rightarrow> db \<Rightarrow> memberProgress list result" where
  "getMemberProgress circleId adminId s =
     bindE (assertAdminOwnsCircle circleId adminId s) (\<lambda>c.
     let paidRecipientIds = map po_recipientId
           (filter (\<lambda>p. po_circleId p = circleId \<and> po_status p = PS_COMPLETED) (payouts s)) in
     Inr (map (\<lambda>m. \<lparr>mp_userId = m_userId m, mp_name = nameOf (m_userId m) s,
              mp_completedCycles = m_completedCycles m, mp_durationCycles = c_durationCycles c,
              mp_paid = (m_userId m \<in> set paidRecipientIds),
              mp_payoutPosition = m_payoutPosition m, mp_totalLatePayments = m_totalLatePayments m\<rparr>)
       (sort_key (\<lambda>m. optNumber (m_payoutPosition m))
         (filter (\<lambda>m. m_circleId m = circleId \<and>
            (m_status m = MS_ACTIVE \<or> m_status m = MS_COMPLETED)) (memberships s)))))"

record contributionItem =
  ci_contributionId :: string
  ci_userId :: string
  ci_memberName :: string
  ci_cycleNumber :: int
  ci_amount :: int
  ci_penaltyAmount :: int
  ci_isLate :: bool

definition contributionItemOf :: "db \<Rightarrow> contribution \<Rightarrow> contributionItem" where
  "contributionItemOf s c =
     \<lparr>ci_contributionId = co_id c, ci_userId = co_userId c, ci_memberName = nameOf (co_userId c) s,
      ci_cycleNumber = co_cycleNumber c, ci_amount = co_amount c,
      ci_penaltyAmount = co_penaltyAmount c, ci_isLate = (0 < co_penaltyAmount c)\<rparr>"

record contributionsIn =
  cin_cycleNumber :: int
  cin_contributions :: "contributionItem list"
  cin_totalCollected :: int
  cin_totalPenalties :: int

text \<open>\<^verbatim>\<open>round ?? circle.currentCycle\<close>\<close>

definition roundOf :: "int option \<Rightarrow> circle \<Rightarrow> int" where
  "roundOf r c = (case r of None \<Rightarrow> c_currentCycle c | Some n \<Rightarrow> n)"

definition contributionsTo :: "string \<Rightarrow> int \<Rightarrow> db \<Rightarrow> contribution list" where
  "contributionsTo circleId n s =
     filter (\<lambda>c. co_circleId c = circleId \<and> co_cycleNumber c = n) (contributions s)"

definition getContributionsIn :: "string \<Rightarrow> string \<Rightarrow> int option \<Rightarrow> db \<Rightarrow> contributionsIn result" where
  "getContributionsIn circleId adminId r s =
     bindE (assertAdminOwnsCircle circleId adminId s) (\<lambda>c.
     let cycleNumber = roundOf r c; cs = contributionsTo circleId cycleNumber s in
     Inr \<lparr>cin_cycleNumber = cycleNumber, cin_contributions = map (contributionItemOf s) cs,
          cin_totalCollected = sum_list (map co_amount cs),
          cin_totalPenalties = sum_list (map co_penaltyAmount cs)\<rparr>)"

definition getAllContributions :: "string \<Rightarrow> string \<Rightarrow> db \<Rightarrow> contributionItem list result" where
  "getAllContributions circleId adminId s =
     bindE (assertAdminOwnsCircle circleId adminId s) (\<lambda>_.
     Inr (map (contributionItemOf s)
       (sort_key co_cycleNumber (filter (\<lambda>c. co_circleId c = circleId) (contributions s)))))"

record disbursementView =
  di_cycleNumber :: int
  di_recipientId :: "string option"
  di_recipientName :: "string option"
  di_payoutDate :: int
  di_contributionDeadline :: int
  di_scheduleStatus :: scheduleStatus
  di_payoutStatus :: "payoutStatus option"
  di_amountPaidOut :: "int option"
  di_processedAt :: "int option"

definition disbursementOf :: "db \<Rightarrow> schedule \<Rightarrow> disbursementView" where
  "disbursementOf s x =
     (let p = findFirst (\<lambda>p. po_scheduleId p = cs_id x) (payouts s) in
      \<lparr>di_cycleNumber = cs_cycleNumber x, di_recipientId = cs_recipientId x,
       di_recipientName = map_option (\<lambda>uid. nameOf uid s) (cs_recipientId x),
       di_payoutDate = cs_payoutDate x, di_contributionDeadline = cs_contributionDeadline x,
       di_scheduleStatus = cs_status x, di_payoutStatus = map_option po_status p,
       di_amountPaidOut = map_option po_amount p,
       di_processedAt = (case p of None \<Rightarrow> None | Some q \<Rightarrow> po_processedAt q)\<rparr>)"

definition getDisbursementSchedule :: "string \<Rightarrow> string \<Rightarrow> db \<Rightarrow> disbursementView list result" where
  "getDisbursementSchedule circleId adminId s =
     bindE (assertAdminOwnsCircle circleId adminId s) (\<lambda>_.
     Inr (map (disbursementOf s) (getSchedules circleId s)))"

section \<open>Financial health\<close>

text \<open>
  \<^verbatim>\<open>groupBy(['cycleNumber'])\<close> with the sum of the amounts and the number of rows, as the map that is
  built of it: the entry of a cycle is created by its first contribution and grows with the others.
\<close>

primrec addToGroup :: "contribution \<Rightarrow> (int \<times> int \<times> nat) list \<Rightarrow> (int \<times> int \<times> nat) list" where
  "addToGroup c [] = [(co_cycleNumber c, co_amount c, 1)]"
| "addToGroup c (g # gs) =
     (if fst g = co_cycleNumber c
      then (fst g, fst (snd g) + co_amount c, snd (snd g) + 1) # gs
      else g # addToGroup c gs)"

definition totalsMap :: "string \<Rightarrow> db \<Rightarrow> (int \<times> int \<times> nat) list" where
  "totalsMap circleId s =
     foldl (\<lambda>gs c. addToGroup c gs) [] (filter (\<lambda>c. co_circleId c = circleId) (contributions s))"

record cycleHealth =
  ch_cycleNumber :: int
  ch_contributionDeadline :: int
  ch_scheduleStatus :: scheduleStatus
  ch_expectedPot :: int
  ch_collected :: int
  ch_outstanding :: int
  ch_expectedCount :: int
  ch_collectedCount :: nat

definition cycleHealthOf :: "circle \<Rightarrow> (int \<times> int \<times> nat) list \<Rightarrow> schedule \<Rightarrow> cycleHealth" where
  "cycleHealthOf c totals x =
     (let expectedPot = c_contributionAmount c * c_filledSlots c;
          (collected, count) = (case map_of totals (cs_cycleNumber x) of None \<Rightarrow> (0, 0) | Some t \<Rightarrow> t)
      in \<lparr>ch_cycleNumber = cs_cycleNumber x, ch_contributionDeadline = cs_contributionDeadline x,
          ch_scheduleStatus = cs_status x, ch_expectedPot = expectedPot, ch_collected = collected,
          ch_outstanding = (if collected < expectedPot then expectedPot - collected else 0),
          ch_expectedCount = c_filledSlots c, ch_collectedCount = count\<rparr>)"

record financialHealth =
  fh_contributionAmount :: int
  fh_filledSlots :: int
  fh_cycles :: "cycleHealth list"

definition getFinancialHealth :: "string \<Rightarrow> string \<Rightarrow> db \<Rightarrow> financialHealth result" where
  "getFinancialHealth circleId adminId s =
     bindE (assertAdminOwnsCircle circleId adminId s) (\<lambda>c.
     Inr \<lparr>fh_contributionAmount = c_contributionAmount c, fh_filledSlots = c_filledSlots c,
          fh_cycles = map (cycleHealthOf c (totalsMap circleId s)) (getSchedules circleId s)\<rparr>)"

section \<open>Reminders\<close>

text \<open>
  What a reminder says: the values the texts are made of, amounts in kobo.  Their formats come from
  \<^verbatim>\<open>toLocaleString\<close> and \<^verbatim>\<open>Intl.DateTimeFormat\<close>.
\<close>

datatype reminderText =
    AdminReminder string
  | ContributionReminder int int "int option"
  | TopUpReminder int int

record reminder =
  rm_userId :: string
  rm_email :: string
  rm_name :: string
  rm_circleName :: string
  rm_text :: reminderText

definition reminderTo :: "circle \<Rightarrow> reminderText \<Rightarrow> db \<Rightarrow> string \<Rightarrow> reminder" where
  "reminderTo c txt s uid =
     \<lparr>rm_userId = uid, rm_email = (case userById uid s of None \<Rightarrow> '''' | Some u \<Rightarrow> u_email u),
      rm_name = nameOf uid s, rm_circleName = c_name c, rm_text = txt\<rparr>"

record missingNotice =
  mn_notified :: nat
  mn_cycleNumber :: int
  mn_sent :: "reminder list"

definition missingTargets ::
  "string \<Rightarrow> int \<Rightarrow> string list option \<Rightarrow> db \<Rightarrow> string list" where
  "missingTargets circleId n memberIds s =
     (let allMembers = map m_userId (activeMembers circleId s);
          contributed = map co_userId (contributionsTo circleId n s) in
      case memberIds of
        Some (i # is) \<Rightarrow> filter (\<lambda>uid. uid \<in> set (i # is)) allMembers
      | _ \<Rightarrow> filter (\<lambda>uid. uid \<notin> set contributed) allMembers)"

definition notifyMissingMembers ::
  "string \<Rightarrow> string \<Rightarrow> int option \<Rightarrow> string option \<Rightarrow> string list option \<Rightarrow> db \<Rightarrow>
     missingNotice result" where
  "notifyMissingMembers circleId adminId r customMessage memberIds s =
     bindE (assertAdminOwnsCircle circleId adminId s) (\<lambda>c.
     let cycleNumber = roundOf r c;
         deadline = map_option cs_contributionDeadline (currentSchedule circleId cycleNumber s);
         targets = missingTargets circleId cycleNumber memberIds s;
         txt = (if present customMessage then AdminReminder (orOld customMessage '''')
                else ContributionReminder cycleNumber (c_contributionAmount c) deadline)
     in Inr \<lparr>mn_notified = length targets, mn_cycleNumber = cycleNumber,
             mn_sent = map (reminderTo c txt s) targets\<rparr>)"

text \<open>
  The reminders to top up.  \<open>delivered\<close> tells for which reminders the promise of the notification
  service is fulfilled; it is rejected when the record of the notification cannot be written.
\<close>

definition topUpReminder :: "circle \<Rightarrow> db \<Rightarrow> string \<Rightarrow> reminder option" where
  "topUpReminder c s uid =
     (case walletOfUser uid s of
        None \<Rightarrow> None
      | Some w \<Rightarrow>
          (let balance = bal_available (getDetailedBalance s (w_id w)) in
           if balance < c_contributionAmount c
           then Some (reminderTo c (TopUpReminder (c_contributionAmount c) balance) s uid)
           else None))"

record topUpNotice =
  tn_notified :: nat
  tn_total :: nat
  tn_sent :: "reminder list"

definition notifyLowBalanceMembers ::
  "(reminder \<Rightarrow> bool) \<Rightarrow> string \<Rightarrow> string \<Rightarrow> db \<Rightarrow> topUpNotice result" where
  "notifyLowBalanceMembers delivered circleId adminId s =
     bindE (assertAdminOwnsCircle circleId adminId s) (\<lambda>c.
     let members = activeMembers circleId s;
         sent = List.map_filter (\<lambda>m. topUpReminder c s (m_userId m)) members
     in Inr \<lparr>tn_notified = length (filter delivered sent), tn_total = length members,
             tn_sent = sent\<rparr>)"

section \<open>Facts\<close>

lemma assertAdminOwnsCircle_Inr:
  "assertAdminOwnsCircle cid aid s = Inr c \<longleftrightarrow> circleById cid s = Some c \<and> c_adminId c = aid"
  by (auto simp: assertAdminOwnsCircle_def bindE_Inr_iff ensure_Inr_iff orThrow_Inr_iff)

lemma assertAdminOwnsCircle_other:
  assumes "circleById cid s = Some c" and "c_adminId c \<noteq> aid"
  shows "assertAdminOwnsCircle cid aid s =
    Inl (Forbidden ''You do not have permission to manage this circle'')"
  using assms by (simp add: assertAdminOwnsCircle_def)

text \<open>Nobody but the administrator of a circle sees anything of it.\<close>

lemmas oversight_views =
  getCircleJoinRequests_def getMemberProgress_def getContributionsIn_def getAllContributions_def
  getDisbursementSchedule_def getFinancialHealth_def notifyMissingMembers_def
  notifyLowBalanceMembers_def

lemma oversight_refused:
  assumes "circleById cid s = Some c" and "c_adminId c \<noteq> aid"
  shows "isl (getCircleJoinRequests cid aid q s)" "isl (getMemberProgress cid aid s)"
    "isl (getContributionsIn cid aid r s)" "isl (getAllContributions cid aid s)"
    "isl (getDisbursementSchedule cid aid s)" "isl (getFinancialHealth cid aid s)"
    "isl (notifyMissingMembers cid aid r msg ids s)" "isl (notifyLowBalanceMembers d cid aid s)"
  using assms by (simp_all add: oversight_views assertAdminOwnsCircle_other)

text \<open>The dashboard's total is the sum of its breakdown.\<close>

lemma dashboard_total:
  "da_pendingTotal (getAdminDashboard env aid s) =
     sum_list (map snd (da_breakdown (getAdminDashboard env aid s)))"
proof -
  have "sum_list (map (\<lambda>c. length (pendingOf (c_id c) s)) cs) =
      sum_list (map (\<lambda>c. length (pendingOf (c_id c) s)) (filter (\<lambda>c. pendingOf (c_id c) s \<noteq> []) cs))"
    for cs :: "circle list"
    by (induction cs) auto
  then show ?thesis by (simp add: getAdminDashboard_def Let_def comp_def)
qed

text \<open>The groups are the direct sums over the contributions of a cycle.\<close>

lemma map_of_addToGroup:
  "map_of (addToGroup c gs) n =
     (if n = co_cycleNumber c
      then Some (case map_of gs n of None \<Rightarrow> (co_amount c, 1) | Some t \<Rightarrow> (fst t + co_amount c, snd t + 1))
      else map_of gs n)"
  by (induction gs) auto

lemma map_of_groups:
  "map_of (foldl (\<lambda>gs c. addToGroup c gs) [] cs) n =
     (let own = filter (\<lambda>c. co_cycleNumber c = n) cs in
      if own = [] then None else Some (sum_list (map co_amount own), length own))"
  by (induction cs rule: rev_induct) (auto simp: map_of_addToGroup Let_def split: if_splits)

lemma totalsMap_eq:
  "(case map_of (totalsMap cid s) n of None \<Rightarrow> (0, 0) | Some t \<Rightarrow> t) =
     (sum_list (map co_amount (contributionsTo cid n s)), length (contributionsTo cid n s))"
  by (auto simp: totalsMap_def map_of_groups Let_def contributionsTo_def conj_commute)

lemma cycleHealthOf_eq:
  "cycleHealthOf c (totalsMap cid s) x =
     (let pot = c_contributionAmount c * c_filledSlots c;
          collected = sum_list (map co_amount (contributionsTo cid (cs_cycleNumber x) s)) in
      \<lparr>ch_cycleNumber = cs_cycleNumber x, ch_contributionDeadline = cs_contributionDeadline x,
       ch_scheduleStatus = cs_status x, ch_expectedPot = pot, ch_collected = collected,
       ch_outstanding = max 0 (pot - collected), ch_expectedCount = c_filledSlots c,
       ch_collectedCount = length (contributionsTo cid (cs_cycleNumber x) s)\<rparr>)"
  by (auto simp: cycleHealthOf_def totalsMap_eq Let_def)

text \<open>The two views of a cycle agree, whichever way its total is computed.\<close>

lemma health_agrees:
  assumes "getFinancialHealth cid aid s = Inr h" and "x \<in> set (fh_cycles h)"
  obtains v where "getContributionsIn cid aid (Some (ch_cycleNumber x)) s = Inr v"
    and "ch_collected x = cin_totalCollected v"
    and "ch_collectedCount x = length (cin_contributions v)"
    and "ch_outstanding x = max 0 (fh_contributionAmount h * fh_filledSlots h - cin_totalCollected v)"
proof -
  from assms(1) obtain c where c: "assertAdminOwnsCircle cid aid s = Inr c"
    and h: "h = \<lparr>fh_contributionAmount = c_contributionAmount c, fh_filledSlots = c_filledSlots c,
          fh_cycles = map (cycleHealthOf c (totalsMap cid s)) (getSchedules cid s)\<rparr>"
    by (auto simp: getFinancialHealth_def bindE_Inr_iff)
  from assms(2) obtain sch where x: "x = cycleHealthOf c (totalsMap cid s) sch"
    by (auto simp: h)
  obtain v where v: "getContributionsIn cid aid (Some (ch_cycleNumber x)) s = Inr v"
    by (simp add: getContributionsIn_def c Let_def)
  show thesis
    by (rule that [OF v])
      (use v in \<open>auto simp: getContributionsIn_def c x cycleHealthOf_eq Let_def roundOf_def h\<close>)
qed

text \<open>The health of a cycle once all its members have paid: nothing is outstanding.\<close>

lemma collected_uniform:
  assumes "list_all (\<lambda>c. co_amount c = a) cs"
  shows "sum_list (map co_amount cs) = a * int (length cs)"
  using assms by (induction cs) (auto simp: algebra_simps)

text \<open>Who is reminded.\<close>

lemma missingTargets_all:
  "uid \<in> set (missingTargets cid n None s) \<longleftrightarrow>
     uid \<in> m_userId ` set (activeMembers cid s) \<and> uid \<notin> co_userId ` set (contributionsTo cid n s)"
  by (auto simp: missingTargets_def)

lemma missingTargets_chosen:
  "ids \<noteq> [] \<Longrightarrow> uid \<in> set (missingTargets cid n (Some ids) s) \<longleftrightarrow>
     uid \<in> m_userId ` set (activeMembers cid s) \<and> uid \<in> set ids"
  by (cases ids) (auto simp: missingTargets_def)

lemma topUpReminder_iff:
  "topUpReminder c s uid \<noteq> None \<longleftrightarrow>
     (\<exists>w. walletOfUser uid s = Some w \<and> available s (w_id w) < c_contributionAmount c)"
  by (auto simp: topUpReminder_def available_def Let_def split: option.splits)

lemma notifyLowBalance_bound:
  assumes "notifyLowBalanceMembers d cid aid s = Inr r"
  shows "tn_notified r \<le> length (tn_sent r)" and "length (tn_sent r) \<le> tn_total r"
proof -
  have len: "length (List.map_filter f xs) \<le> length xs" for f :: "membership \<Rightarrow> reminder option" and xs
    by (induction xs) (auto split: option.splits)
  from assms show "tn_notified r \<le> length (tn_sent r)" "length (tn_sent r) \<le> tn_total r"
    by (auto simp: notifyLowBalanceMembers_def bindE_Inr_iff Let_def len)
qed

section \<open>What a contribution changes of the views\<close>

lemma makeContribution_rows:
  assumes "makeContribution env uid cid n s = Inr (k, s')"
  shows "circles s' = circles s" and "schedules s' = schedules s"
    and "co_circleId k = cid" and "co_userId k = uid" and "co_cycleNumber k = n"
proof -
  from assms obtain c :: circle and m :: membership and sch :: schedule and sw :: systemWallet
      and w :: wallet and s1 e1 s2 e2 s3 where
    w1: "writeEntry (rnd env 2) (contributionEntry DEBIT (w_id w) (Some BT_MAIN)
          (c_contributionAmount c) (''CONTRIB-'' @ rnd env 1) ST_CONTRIBUTION (rnd env 0)) s
          = Inr (e1, s1)" and
    w2: "writeEntry (rnd env 4) (contributionEntry CREDIT (sw_walletId sw) (Some BT_MAIN)
          (c_contributionAmount c) (''POOL-CRED-'' @ rnd env 3) ST_CONTRIBUTION (rnd env 0)) s1
          = Inr (e2, s2)" and
    pen: "penaltyEntries env (w_id w) (sw_walletId sw)
          (latePenalty c (cs_contributionDeadline sch < now env)) (rnd env 0) s2 = Inr s3" and
    k: "k = \<lparr>co_id = rnd env 0, co_circleId = cid, co_membershipId = m_id m,
          co_userId = uid, co_cycleNumber = n, co_amount = c_contributionAmount c,
          co_penaltyAmount = latePenalty c (cs_contributionDeadline sch < now env),
          co_ledgerDebitId = Some (le_id e1),
          co_transactionReference = Some (''CONTRIB-'' @ rnd env 1)\<rparr>" and
    tr: "updateTrustScore env uid
          (ContributionEv (\<not> cs_contributionDeadline sch < now env) False)
          (updateMembership (m_id m)
            (countContribution (cs_contributionDeadline sch < now env)
              (latePenalty c (cs_contributionDeadline sch < now env)))
            (s3\<lparr>contributions := contributions s3 @ [k]\<rparr>)) = Inr s'"
    by (rule makeContribution_Inr) (rule that)
  show "circles s' = circles s" "schedules s' = schedules s"
    using writeEntry_frame [OF w1] writeEntry_frame [OF w2] penaltyEntries_frame(5,6) [OF pen]
      updateTrustScore_frame [OF tr] by auto
  show "co_circleId k = cid" "co_userId k = uid" "co_cycleNumber k = n" by (simp_all add: k)
qed

definition afterPayment :: "int \<Rightarrow> int \<Rightarrow> cycleHealth \<Rightarrow> cycleHealth" where
  "afterPayment n amount x =
     (if ch_cycleNumber x = n
      then x\<lparr>ch_collected := ch_collected x + amount, ch_collectedCount := ch_collectedCount x + 1,
             ch_outstanding := max 0 (ch_expectedPot x - (ch_collected x + amount))\<rparr>
      else x)"

lemma contribution_health:
  assumes "makeContribution env uid cid n s = Inr (k, s')"
    and "getFinancialHealth cid aid s = Inr h"
  shows "getFinancialHealth cid aid s' =
    Inr (h\<lparr>fh_cycles := map (afterPayment n (co_amount k)) (fh_cycles h)\<rparr>)"
proof -
  note rows = makeContribution_rows [OF assms(1)]
  have tab: "contributions s' = contributions s @ [k]"
    using makeContribution_table(1) [OF assms(1)] .
  have own: "contributionsTo cid m s' = contributionsTo cid m s @ (if m = n then [k] else [])" for m
    using rows(3,5) by (auto simp: contributionsTo_def tab)
  have each: "cycleHealthOf c (totalsMap cid s') x =
      afterPayment n (co_amount k) (cycleHealthOf c (totalsMap cid s) x)" for c x
    by (simp add: cycleHealthOf_eq own afterPayment_def Let_def)
  show ?thesis
    using assms(2) rows(1,2) each
    by (auto simp: getFinancialHealth_def assertAdminOwnsCircle_def circleById_def getSchedules_def
        bindE_Inr_iff)
qed

lemma contribution_no_reminder:
  assumes "makeContribution env uid cid n s = Inr (k, s')"
  shows "uid \<notin> set (missingTargets cid n None s')"
  using makeContribution_rows(3-5) [OF assms] makeContribution_table(1) [OF assms]
  by (simp add: missingTargets_all contributionsTo_def)

end
