(* ===== verification/Routes.thy ===== *)
theory Routes
  imports Oversight Membership
begin

text \<open>
  \<^verbatim>\<open>src/modules/rosca/controllers\<close>: the routes of circles.  A route lets the access strategy and the
  roles guard pass, calls one service, and formats what it returns.  The formats read rows the service
  must have included, and throw when it has not: after the service's transaction has been committed.
\<close>

section \<open>Guards\<close>

text \<open>\<^verbatim>\<open>JwtAuthGuard\<close>, then \<^verbatim>\<open>RolesGuard\<close> when the controller declares roles.\<close>

definition guarded ::
  "role list option \<Rightarrow> authUser option \<Rightarrow> (string \<Rightarrow> db \<Rightarrow> 'a result \<times> db) \<Rightarrow> db \<Rightarrow> 'a result \<times> db" where
  "guarded roles u handler s =
     (case u of
        None \<Rightarrow> (Inl (Unauthorized ''Unauthorized''), s)
      | Some a \<Rightarrow>
          if rolesGuard roles u then handler (au_userId a) s
          else (Inl (Forbidden ''Forbidden resource''), s))"

definition adminRoles :: "role list option" where "adminRoles = Some [ADMIN, SUPERADMIN]"

definition superadminRoles :: "role list option" where "superadminRoles = Some [SUPERADMIN]"

text \<open>The answer of a service that reads, and of one that changes the state and is then formatted.\<close>

definition reading :: "(db \<Rightarrow> 'a result) \<Rightarrow> db \<Rightarrow> 'a result \<times> db" where
  "reading f s = (f s, s)"

definition formatting :: "('a \<Rightarrow> 'b result) \<Rightarrow> (db \<Rightarrow> ('a \<times> db) result) \<Rightarrow> db \<Rightarrow> 'b result \<times> db" where
  "formatting format f s = (case f s of Inl e \<Rightarrow> (Inl e, s) | Inr (x, s') \<Rightarrow> (format x, s'))"

definition changing :: "(db \<Rightarrow> db result) \<Rightarrow> db \<Rightarrow> unit result \<times> db" where
  "changing f s = (case f s of Inl e \<Rightarrow> (Inl e, s) | Inr s' \<Rightarrow> (Inr (), s'))"

section \<open>Formats\<close>

text \<open>
  What a service loads of a circle: its administrator, its memberships with their users and trust
  scores, or members already mapped, each when the query includes it.
\<close>

record memberJson =
  mj_row :: membership
  mj_name :: string
  mj_trustScore :: "int option"

record circleJson =
  cj_row :: circle
  cj_admin :: "(string \<times> string \<times> string) option"
  cj_memberships :: "memberJson list option"
  cj_members :: "circleMemberView list option"

record memberResponse =
  mr_userId :: string
  mr_status :: membershipStatus
  mr_position :: "int option"
  mr_trustScore :: int

record circleResponse =
  crp_id :: string
  crp_name :: string
  crp_contributionAmount :: int
  crp_frequency :: cycleFrequency
  crp_durationCycles :: int
  crp_filledSlots :: int
  crp_maxSlots :: int
  crp_status :: circleStatus
  crp_payoutLogic :: payoutLogic
  crp_initialContributionDeadline :: "int option"
  crp_admin :: "string \<times> string \<times> string"
  crp_members :: "memberResponse list"

definition memberResponseOf :: "memberJson \<Rightarrow> memberResponse" where
  "memberResponseOf m =
     \<lparr>mr_userId = m_userId (mj_row m), mr_status = m_status (mj_row m),
      mr_position = m_payoutPosition (mj_row m),
      mr_trustScore = (case mj_trustScore m of None \<Rightarrow> 50 | Some n \<Rightarrow> n)\<rparr>"

definition mappedMember :: "circleMemberView \<Rightarrow> memberResponse" where
  "mappedMember v = \<lparr>mr_userId = cmv_userId v, mr_status = cmv_status v, mr_position = cmv_position v,
     mr_trustScore = cmv_trustScore v\<rparr>"

text \<open>\<^verbatim>\<open>circle.admin.firstName\<close> throws when the administrator was not loaded.\<close>

definition formatCircleResponse :: "circleJson \<Rightarrow> circleResponse result" where
  "formatCircleResponse j =
     bindE (orThrow (PlainError ''TypeError'') (cj_admin j)) (\<lambda>a.
     let c = cj_row j in
     Inr \<lparr>crp_id = c_id c, crp_name = c_name c, crp_contributionAmount = c_contributionAmount c,
          crp_frequency = c_frequency c, crp_durationCycles = c_durationCycles c,
          crp_filledSlots = c_filledSlots c, crp_maxSlots = c_maxSlots c, crp_status = c_status c,
          crp_payoutLogic = c_payoutLogic c,
          crp_initialContributionDeadline = c_initialContributionDeadline c, crp_admin = a,
          crp_members =
            (case cj_memberships j of
               Some ms \<Rightarrow> map memberResponseOf ms
             | None \<Rightarrow> (case cj_members j of None \<Rightarrow> [] | Some vs \<Rightarrow> map mappedMember vs))\<rparr>)"

fun formatAll :: "circleJson list \<Rightarrow> circleResponse list result" where
  "formatAll [] = Inr []"
| "formatAll (j # js) = bindE (formatCircleResponse j) (\<lambda>x. bindE (formatAll js) (\<lambda>xs. Inr (x # xs)))"

record membershipResponse =
  me_id :: string
  me_circleId :: string
  me_userId :: string
  me_status :: membershipStatus
  me_collateralAmount :: int
  me_completedCycles :: int
  me_totalLatePayments :: int
  me_totalPenaltiesPaid :: int

definition formatMembershipResponse :: "membership \<Rightarrow> membershipResponse" where
  "formatMembershipResponse m =
     \<lparr>me_id = m_id m, me_circleId = m_circleId m, me_userId = m_userId m, me_status = m_status m,
      me_collateralAmount = m_collateralAmount m, me_completedCycles = m_completedCycles m,
      me_totalLatePayments = m_totalLatePayments m, me_totalPenaltiesPaid = m_totalPenaltiesPaid m\<rparr>"

section \<open>What the services include\<close>

definition adminOf :: "db \<Rightarrow> circle \<Rightarrow> (string \<times> string \<times> string) option" where
  "adminOf s c = map_option (\<lambda>u. (u_firstName u, u_lastName u, u_email u)) (userById (c_adminId c) s)"

definition memberJsonOf :: "db \<Rightarrow> membership \<Rightarrow> memberJson" where
  "memberJsonOf s m = \<lparr>mj_row = m, mj_name = nameOf (m_userId m) s,
     mj_trustScore = map_option ts_trustScore (snd (withTrust s m))\<rparr>"

definition withAdmin :: "db \<Rightarrow> circle \<Rightarrow> circleJson" where
  "withAdmin s c = \<lparr>cj_row = c, cj_admin = adminOf s c, cj_memberships = None, cj_members = None\<rparr>"

text \<open>\<^verbatim>\<open>tx.roscaCircle.update\<close> without an \<^verbatim>\<open>include\<close>: the row alone.\<close>

definition bare :: "circle \<Rightarrow> circleJson" where
  "bare c = \<lparr>cj_row = c, cj_admin = None, cj_memberships = None, cj_members = None\<rparr>"

text \<open>The circles a user takes part in; \<open>updatedAt\<close> is the column they are sorted by.\<close>

definition getUserParticipations :: "(circle \<Rightarrow> int) \<Rightarrow> string \<Rightarrow> db \<Rightarrow> circleJson list" where
  "getUserParticipations updatedAt userId s =
     (let accepted = (\<lambda>c m. m_circleId m = c_id c \<and> (m_status m = MS_ACTIVE \<or> m_status m = MS_COMPLETED))
      in map (\<lambda>c. (withAdmin s c)\<lparr>cj_memberships :=
             Some (map (memberJsonOf s) (sort_key (\<lambda>m. optNumber (m_payoutPosition m))
               (filter (accepted c) (memberships s))))\<rparr>)
           (sort_key (\<lambda>c. - updatedAt c)
             (filter (\<lambda>c. list_ex (\<lambda>m. accepted c m \<and> m_userId m = userId) (memberships s)) (circles s))))"

section \<open>The administrator's routes\<close>

definition createCircleRoute :: "env \<Rightarrow> authUser option \<Rightarrow> createCircleDto \<Rightarrow> db \<Rightarrow> circleResponse result \<times> db" where
  "createCircleRoute env u dto =
     guarded adminRoles u (\<lambda>uid s. formatting
       (\<lambda>c. formatCircleResponse ((withAdmin s c)\<lparr>cj_memberships := Some []\<rparr>)) (createCircle env uid dto) s)"

definition dashboardRoute :: "env \<Rightarrow> authUser option \<Rightarrow> db \<Rightarrow> dashboard result \<times> db" where
  "dashboardRoute env u = guarded adminRoles u (\<lambda>uid. reading (\<lambda>s. Inr (getAdminDashboard env uid s)))"

definition pendingOverviewRoute :: "authUser option \<Rightarrow> db \<Rightarrow> pendingOverview list result \<times> db" where
  "pendingOverviewRoute u =
     guarded adminRoles u (\<lambda>uid. reading (\<lambda>s. Inr (getPendingJoinRequestsOverview uid s)))"

definition joinRequestsRoute ::
  "authUser option \<Rightarrow> string \<Rightarrow> string option \<Rightarrow> db \<Rightarrow> dossier list result \<times> db" where
  "joinRequestsRoute u cid search =
     guarded adminRoles u (\<lambda>uid. reading (getCircleJoinRequests cid uid search))"

definition myCirclesRoute ::
  "authUser option \<Rightarrow> circleStatus option \<Rightarrow> db \<Rightarrow> circleResponse list result \<times> db" where
  "myCirclesRoute u status =
     guarded adminRoles u (\<lambda>uid. reading (\<lambda>s.
       formatAll (map (withAdmin s) (adminListAllCircles status (Some uid) s))))"

definition memberProgressRoute :: "authUser option \<Rightarrow> string \<Rightarrow> db \<Rightarrow> memberProgress list result \<times> db" where
  "memberProgressRoute u cid = guarded adminRoles u (\<lambda>uid. reading (getMemberProgress cid uid))"

definition contributionsInRoute ::
  "authUser option \<Rightarrow> string \<Rightarrow> int option \<Rightarrow> db \<Rightarrow> contributionsIn result \<times> db" where
  "contributionsInRoute u cid r = guarded adminRoles u (\<lambda>uid. reading (getContributionsIn cid uid r))"

definition allContributionsRoute ::
  "authUser option \<Rightarrow> string \<Rightarrow> db \<Rightarrow> contributionItem list result \<times> db" where
  "allContributionsRoute u cid = guarded adminRoles u (\<lambda>uid. reading (getAllContributions cid uid))"

definition disbursementsRoute :: "authUser option \<Rightarrow> string \<Rightarrow> db \<Rightarrow> disbursementView list result \<times> db" where
  "disbursementsRoute u cid = guarded adminRoles u (\<lambda>uid. reading (getDisbursementSchedule cid uid))"

definition financialHealthRoute :: "authUser option \<Rightarrow> string \<Rightarrow> db \<Rightarrow> financialHealth result \<times> db" where
  "financialHealthRoute u cid = guarded adminRoles u (\<lambda>uid. reading (getFinancialHealth cid uid))"

definition notifyMissingRoute ::
  "authUser option \<Rightarrow> string \<Rightarrow> int option \<Rightarrow> string option \<Rightarrow> string list option \<Rightarrow> db \<Rightarrow>
     missingNotice result \<times> db" where
  "notifyMissingRoute u cid r message ids =
     guarded adminRoles u (\<lambda>uid. reading (notifyMissingMembers cid uid r message ids))"

definition notifyLowBalanceRoute ::
  "(reminder \<Rightarrow> bool) \<Rightarrow> authUser option \<Rightarrow> string \<Rightarrow> db \<Rightarrow> topUpNotice result \<times> db" where
  "notifyLowBalanceRoute delivered u cid =
     guarded adminRoles u (\<lambda>uid. reading (notifyLowBalanceMembers delivered cid uid))"

definition createInviteRoute ::
  "env \<Rightarrow> authUser option \<Rightarrow> string \<Rightarrow> string \<Rightarrow> db \<Rightarrow> invite result \<times> db" where
  "createInviteRoute env u cid email = guarded adminRoles u (\<lambda>uid. createInvite env cid uid email)"

definition listInvitesRoute :: "authUser option \<Rightarrow> string \<Rightarrow> db \<Rightarrow> invite list result \<times> db" where
  "listInvitesRoute u cid = guarded adminRoles u (\<lambda>uid. reading (listInvites cid uid))"

definition revokeInviteRoute :: "authUser option \<Rightarrow> string \<Rightarrow> string \<Rightarrow> db \<Rightarrow> unit result \<times> db" where
  "revokeInviteRoute u cid i = guarded adminRoles u (\<lambda>uid. changing (revokeInvite cid i uid))"

definition circleDetailsRoute :: "authUser option \<Rightarrow> string \<Rightarrow> db \<Rightarrow> circleResponse result \<times> db" where
  "circleDetailsRoute u cid =
     guarded adminRoles u (\<lambda>uid. reading (\<lambda>s.
       bindE (getCircleByIdForAdmin cid uid s) (\<lambda>(c, ms).
         formatCircleResponse ((withAdmin s c)\<lparr>cj_memberships := Some (map (memberJsonOf s) ms)\<rparr>))))"

text \<open>The one route of a circle that does not pass on who asks.\<close>

definition activateRoute ::
  "env \<Rightarrow> (nat \<Rightarrow> rat) \<Rightarrow> authUser option \<Rightarrow> string \<Rightarrow> int \<Rightarrow> db \<Rightarrow> circleResponse result \<times> db" where
  "activateRoute env rand u cid deadline =
     guarded adminRoles u (\<lambda>uid. formatting (\<lambda>c. formatCircleResponse (bare c))
       (activateCircle env rand cid deadline))"

definition approveRoute ::
  "env \<Rightarrow> authUser option \<Rightarrow> string \<Rightarrow> string \<Rightarrow> db \<Rightarrow> membershipResponse result \<times> db" where
  "approveRoute env u cid member =
     guarded adminRoles u (\<lambda>uid. formatting (\<lambda>a. Inr (formatMembershipResponse (ap_membership a)))
       (approveMember env cid uid member))"

definition rejectRoute ::
  "env \<Rightarrow> authUser option \<Rightarrow> string \<Rightarrow> string \<Rightarrow> db \<Rightarrow> membershipResponse result \<times> db" where
  "rejectRoute env u cid member =
     guarded adminRoles u (\<lambda>uid. formatting (\<lambda>m. Inr (formatMembershipResponse m))
       (rejectMember env cid uid member))"

definition updateCircleRoute ::
  "authUser option \<Rightarrow> string \<Rightarrow> updateCircleDto \<Rightarrow> db \<Rightarrow> circleResponse result \<times> db" where
  "updateCircleRoute u cid dto =
     guarded adminRoles u (\<lambda>uid s. formatting (\<lambda>c. formatCircleResponse (withAdmin s c))
       (updateCircle cid uid dto) s)"

definition payoutConfigRoute ::
  "authUser option \<Rightarrow> string \<Rightarrow> db \<Rightarrow> (payoutLogic \<times> bool \<times> (string \<times> int option) list) result \<times> db" where
  "payoutConfigRoute u cid = guarded adminRoles u (\<lambda>uid. reading (getPayoutConfiguration cid uid))"

definition updatePayoutConfigRoute ::
  "authUser option \<Rightarrow> string \<Rightarrow> updatePayoutConfigDto \<Rightarrow> db \<Rightarrow> (string \<times> int) list result \<times> db" where
  "updatePayoutConfigRoute u cid dto =
     guarded adminRoles u (\<lambda>uid. formatting Inr (updatePayoutConfiguration cid uid dto))"

definition getAllCirclesRoute ::
  "authUser option \<Rightarrow> circleStatus option \<Rightarrow> string option \<Rightarrow> db \<Rightarrow> circleResponse list result \<times> db" where
  "getAllCirclesRoute u status adminId =
     guarded superadminRoles u (\<lambda>uid. reading (\<lambda>s.
       formatAll (map (withAdmin s) (adminListAllCircles status adminId s))))"

section \<open>A member's routes\<close>

record circleSummary =
  cm_id :: string
  cm_name :: string
  cm_contributionAmount :: int
  cm_frequency :: cycleFrequency
  cm_maxSlots :: int
  cm_filledSlots :: int
  cm_status :: circleStatus

definition circleSummaryOf :: "circle \<Rightarrow> circleSummary" where
  "circleSummaryOf c = \<lparr>cm_id = c_id c, cm_name = c_name c, cm_contributionAmount = c_contributionAmount c,
     cm_frequency = c_frequency c, cm_maxSlots = c_maxSlots c, cm_filledSlots = c_filledSlots c,
     cm_status = c_status c\<rparr>"

record joinRequestView =
  jv_membershipId :: string
  jv_circleId :: string
  jv_status :: membershipStatus
  jv_collateralReserved :: int
  jv_requestedAt :: "int option"
  jv_circle :: "circleSummary option"

definition joinRequestViewOf :: "membership \<times> circle option \<Rightarrow> joinRequestView" where
  "joinRequestViewOf p =
     \<lparr>jv_membershipId = m_id (fst p), jv_circleId = m_circleId (fst p), jv_status = m_status (fst p),
      jv_collateralReserved = m_collateralAmount (fst p), jv_requestedAt = m_joinedAt (fst p),
      jv_circle = map_option circleSummaryOf (snd p)\<rparr>"

definition listCirclesRoute ::
  "authUser option \<Rightarrow> circleStatus option \<Rightarrow> string option \<Rightarrow> db \<Rightarrow> circleResponse list result \<times> db" where
  "listCirclesRoute u status name =
     guarded None u (\<lambda>_. reading (\<lambda>s. formatAll (map (withAdmin s) (listCircles status name s))))"

definition myJoinRequestsRoute :: "authUser option \<Rightarrow> db \<Rightarrow> joinRequestView list result \<times> db" where
  "myJoinRequestsRoute u =
     guarded None u (\<lambda>uid. reading (\<lambda>s. Inr (map joinRequestViewOf (getMyJoinRequests uid s))))"

definition cancelJoinRoute :: "env \<Rightarrow> authUser option \<Rightarrow> string \<Rightarrow> db \<Rightarrow> unit result \<times> db" where
  "cancelJoinRoute env u cid = guarded None u (\<lambda>uid. changing (cancelJoinRequest env uid cid))"

definition myParticipationsRoute ::
  "(circle \<Rightarrow> int) \<Rightarrow> authUser option \<Rightarrow> db \<Rightarrow> circleResponse list result \<times> db" where
  "myParticipationsRoute updatedAt u =
     guarded None u (\<lambda>uid. reading (\<lambda>s. formatAll (getUserParticipations updatedAt uid s)))"

definition myRejectionsRoute ::
  "authUser option \<Rightarrow> db \<Rightarrow> (string \<times> string \<times> int option \<times> circleSummary option) list result \<times> db" where
  "myRejectionsRoute u =
     guarded None u (\<lambda>uid. reading (\<lambda>s. Inr (map (\<lambda>p. (m_id (fst p), m_circleId (fst p), m_joinedAt (fst p),
       map_option circleSummaryOf (snd p))) (getMyRejectedRequests uid s))))"

definition myInvitesRoute ::
  "env \<Rightarrow> authUser option \<Rightarrow> db \<Rightarrow> (invite \<times> circle option) list result \<times> db" where
  "myInvitesRoute env u = guarded None u (\<lambda>uid. reading (\<lambda>s. Inr (getMyInvites env uid s)))"

definition getCircleRoute :: "authUser option \<Rightarrow> string \<Rightarrow> db \<Rightarrow> circleResponse result \<times> db" where
  "getCircleRoute u cid =
     guarded None u (\<lambda>uid. reading (\<lambda>s.
       bindE (getCircle cid uid s) (\<lambda>v.
         formatCircleResponse ((withAdmin s (cv_circle v))\<lparr>cj_members := Some (cv_members v)\<rparr>))))"

definition joinRoute :: "env \<Rightarrow> authUser option \<Rightarrow> string \<Rightarrow> db \<Rightarrow> membershipResponse result \<times> db" where
  "joinRoute env u cid =
     guarded None u (\<lambda>uid. formatting (\<lambda>m. Inr (formatMembershipResponse m)) (requestToJoin env uid cid))"

definition schedulesRoute :: "authUser option \<Rightarrow> string \<Rightarrow> db \<Rightarrow> schedule list result \<times> db" where
  "schedulesRoute u cid = guarded None u (\<lambda>_. reading (\<lambda>s. Inr (getSchedules cid s)))"

definition leaveRoute :: "env \<Rightarrow> authUser option \<Rightarrow> string \<Rightarrow> db \<Rightarrow> unit result \<times> db" where
  "leaveRoute env u cid = guarded None u (\<lambda>uid. changing (leaveCircle env cid uid))"

definition joinByInviteRoute :: "env \<Rightarrow> authUser option \<Rightarrow> string \<Rightarrow> db \<Rightarrow> membershipResponse result \<times> db" where
  "joinByInviteRoute env u token =
     guarded None u (\<lambda>uid. formatting (\<lambda>m. Inr (formatMembershipResponse m)) (joinByInvite env uid token))"

section \<open>Who gets through\<close>

lemma guarded_pass:
  "guarded roles (Some a) h s = (if rolesGuard roles (Some a) then h (au_userId a) s
     else (Inl (Forbidden ''Forbidden resource''), s))"
  by (simp add: guarded_def)

lemma guarded_anonymous [simp]: "guarded roles None h s = (Inl (Unauthorized ''Unauthorized''), s)"
  by (simp add: guarded_def)

lemma adminRoles_iff: "rolesGuard adminRoles (Some a) \<longleftrightarrow> au_role a = ADMIN \<or> au_role a = SUPERADMIN"
  by (auto simp: rolesGuard_def adminRoles_def)

lemma superadminRoles_iff: "rolesGuard superadminRoles (Some a) \<longleftrightarrow> au_role a = SUPERADMIN"
  by (auto simp: rolesGuard_def superadminRoles_def)

text \<open>A handler that refuses changes nothing.\<close>

definition refuses :: "('a result \<times> 's) \<Rightarrow> 's \<Rightarrow> bool" where
  "refuses r s \<longleftrightarrow> isl (fst r) \<and> snd r = s"

lemma guarded_refuses:
  "(\<And>a. u = Some a \<Longrightarrow> rolesGuard roles u \<Longrightarrow> refuses (h (au_userId a) s) s) \<Longrightarrow> refuses (guarded roles u h s) s"
  by (auto simp: guarded_def refuses_def split: option.splits)

lemma reading_refuses: "isl (f s) \<Longrightarrow> refuses (reading f s) s"
  by (simp add: refuses_def reading_def)

lemma formatting_refuses: "isl (f s) \<Longrightarrow> refuses (formatting g f s) s"
  by (auto simp: refuses_def formatting_def split: sum.splits)

lemma changing_refuses: "isl (f s) \<Longrightarrow> refuses (changing f s) s"
  by (auto simp: refuses_def changing_def split: sum.splits)

lemmas refusing = guarded_refuses reading_refuses formatting_refuses changing_refuses

text \<open>Nobody but its administrator changes a circle or sees its books, by any route but one.\<close>

lemma notOwner_refused:
  assumes "circleById cid s = Some c" and "\<And>a. u = Some a \<Longrightarrow> au_userId a \<noteq> c_adminId c"
  shows "refuses (approveRoute env u cid m s) s" "refuses (rejectRoute env u cid m s) s"
    "refuses (payoutConfigRoute u cid s) s"
    "refuses (updatePayoutConfigRoute u cid cfg s) s" "refuses (createInviteRoute env u cid email s) s"
    "refuses (listInvitesRoute u cid s) s" "refuses (revokeInviteRoute u cid i s) s"
    "refuses (circleDetailsRoute u cid s) s"
proof -
  show "refuses (approveRoute env u cid m s) s"
    unfolding approveRoute_def using assms
    by (intro refusing) (auto simp: approveMember_def)
  show "refuses (rejectRoute env u cid m s) s"
    unfolding rejectRoute_def using assms
    by (intro refusing) (auto simp: rejectMember_def)
  show "refuses (payoutConfigRoute u cid s) s"
    unfolding payoutConfigRoute_def using assms
    by (intro refusing) (auto simp: getPayoutConfiguration_def)
  show "refuses (updatePayoutConfigRoute u cid cfg s) s"
    unfolding updatePayoutConfigRoute_def using assms
    by (intro refusing) (auto simp: updatePayoutConfiguration_def)
  show "refuses (createInviteRoute env u cid email s) s"
    unfolding createInviteRoute_def using assms
    by (intro guarded_refuses) (auto simp: createInvite_def refuses_def)
  show "refuses (listInvitesRoute u cid s) s"
    unfolding listInvitesRoute_def using assms
    by (intro refusing) (auto simp: listInvites_def)
  show "refuses (revokeInviteRoute u cid i s) s"
    unfolding revokeInviteRoute_def using assms
    by (intro refusing) (auto simp: revokeInvite_def bindE_def orThrow_def ensure_def split: option.splits)
  show "refuses (circleDetailsRoute u cid s) s"
    unfolding circleDetailsRoute_def using assms
    by (intro refusing) (auto simp: getCircleByIdForAdmin_def)
qed

lemma notOwner_update:
  assumes "circleById cid s = Some c" and "\<And>a. u = Some a \<Longrightarrow> au_userId a \<noteq> c_adminId c"
    and "distinct (map c_id (circles s))"
  shows "refuses (updateCircleRoute u cid dto s) s"
proof -
  have c: "findFirst (\<lambda>x. c_id x = cid) (circles s) = Some c"
    using assms(1) by (simp add: circleById_def)
  have "findFirst (\<lambda>x. c_id x = cid \<and> c_adminId x = aid) (circles s) = None" if "aid \<noteq> c_adminId c" for aid
  proof -
    have "d = c" if "d \<in> set (circles s)" and "c_id d = cid" for d
      using find_unique [OF assms(3) that(1)] that(2) c by simp
    then show ?thesis using that by (auto simp: find_None_eq)
  qed
  then show ?thesis
    unfolding updateCircleRoute_def using assms(2)
    by (intro refusing) (auto simp: updateCircle_def)
qed

lemma view_refused:
  assumes "\<And>a. u = Some a \<Longrightarrow> au_userId a \<noteq> c_adminId c"
    and "\<And>aid. c_adminId c \<noteq> aid \<Longrightarrow> isl (f aid s)"
  shows "refuses (guarded roles u (\<lambda>uid. reading (f uid)) s) s"
  using assms by (intro refusing) metis

lemma notOwner_views:
  assumes "circleById cid s = Some c" and "\<And>a. u = Some a \<Longrightarrow> au_userId a \<noteq> c_adminId c"
  shows "refuses (joinRequestsRoute u cid q s) s" "refuses (memberProgressRoute u cid s) s"
    "refuses (contributionsInRoute u cid r s) s" "refuses (allContributionsRoute u cid s) s"
    "refuses (disbursementsRoute u cid s) s" "refuses (financialHealthRoute u cid s) s"
    "refuses (notifyMissingRoute u cid r msg ids s) s" "refuses (notifyLowBalanceRoute d u cid s) s"
proof -
  note refused = oversight_refused [OF assms(1)]
  show "refuses (joinRequestsRoute u cid q s) s"
    unfolding joinRequestsRoute_def by (rule view_refused [where c = c]) (use assms(2) refused(1) in blast)+
  show "refuses (memberProgressRoute u cid s) s"
    unfolding memberProgressRoute_def by (rule view_refused [where c = c]) (use assms(2) refused(2) in blast)+
  show "refuses (contributionsInRoute u cid r s) s"
    unfolding contributionsInRoute_def by (rule view_refused [where c = c]) (use assms(2) refused(3) in blast)+
  show "refuses (allContributionsRoute u cid s) s"
    unfolding allContributionsRoute_def by (rule view_refused [where c = c]) (use assms(2) refused(4) in blast)+
  show "refuses (disbursementsRoute u cid s) s"
    unfolding disbursementsRoute_def by (rule view_refused [where c = c]) (use assms(2) refused(5) in blast)+
  show "refuses (financialHealthRoute u cid s) s"
    unfolding financialHealthRoute_def by (rule view_refused [where c = c]) (use assms(2) refused(6) in blast)+
  show "refuses (notifyMissingRoute u cid r msg ids s) s"
    unfolding notifyMissingRoute_def by (rule view_refused [where c = c]) (use assms(2) refused(7) in blast)+
  show "refuses (notifyLowBalanceRoute d u cid s) s"
    unfolding notifyLowBalanceRoute_def by (rule view_refused [where c = c]) (use assms(2) refused(8) in blast)+
qed

text \<open>The row that an activation returns comes without its administrator, which the format needs.\<close>

lemma bare_unformatted: "formatCircleResponse (bare c) = Inl (PlainError ''TypeError'')"
  by (simp add: formatCircleResponse_def bare_def)

lemma activateRoute_error: "isl (fst (activateRoute env rand u cid d s))"
  by (auto simp: activateRoute_def guarded_def formatting_def bare_unformatted split: option.splits sum.splits)

lemma activateRoute_state:
  assumes "rolesGuard adminRoles (Some a)" and "activateCircle env rand cid d s = Inr (c, s')"
  shows "snd (activateRoute env rand (Some a) cid d s) = s'"
  using assms by (simp add: activateRoute_def guarded_def formatting_def)

text \<open>Every other format has what it needs when the administrators of the circles exist.\<close>

lemma formatted: "userById (c_adminId c) s \<noteq> None \<Longrightarrow>
    \<not> isl (formatCircleResponse ((withAdmin s c)\<lparr>cj_memberships := ms, cj_members := vs\<rparr>))"
  by (auto simp: formatCircleResponse_def withAdmin_def adminOf_def Let_def)

lemma formatAll_formatted:
  "list_all (\<lambda>c. userById (c_adminId c) s \<noteq> None) cs \<Longrightarrow> \<not> isl (formatAll (map (withAdmin s) cs))"
proof (induction cs)
  case (Cons c cs)
  then show ?case
    by (auto simp: formatCircleResponse_def withAdmin_def adminOf_def Let_def bindE_def split: sum.splits)
qed simp

text \<open>A circle is activated once.\<close>

lemma activateCircle_twice:
  assumes "activateCircle env rand cid t s = Inr (c, s')"
  shows "isl (activateCircle env' rand' cid t' s')"
proof -
  from assms obtain d new s2 where d: "circleById cid s = Some d"
    and g: "generateSchedules env rand cid t (updateCircleRow cid
          (\<lambda>c. c\<lparr>c_status := CS_ACTIVE, c_initialContributionDeadline := Some t,
            c_verifiedAt := Some (now env), c_currentCycle := 1,
            c_durationCycles := int (length (activeMembers cid s))\<rparr>) s) = Inr (new, s2)"
    and s': "circles s' = circles s2"
    by (rule activateCircle_Inr) simp
  have "circles s2 = circles (updateCircleRow cid
          (\<lambda>c. c\<lparr>c_status := CS_ACTIVE, c_initialContributionDeadline := Some t,
            c_verifiedAt := Some (now env), c_currentCycle := 1,
            c_durationCycles := int (length (activeMembers cid s))\<rparr>) s)"
    using g by (rule generateSchedules_Inr) (simp add: assignPositions_frame)
  then have "circleById cid s' = circleById cid (updateCircleRow cid
          (\<lambda>c. c\<lparr>c_status := CS_ACTIVE, c_initialContributionDeadline := Some t,
            c_verifiedAt := Some (now env), c_currentCycle := 1,
            c_durationCycles := int (length (activeMembers cid s))\<rparr>) s)"
    using s' by (simp add: circleById_def)
  then obtain e where "circleById cid s' = Some e" and "c_status e = CS_ACTIVE"
    using circleById_update [OF d] by simp
  then show ?thesis by (auto simp: activateCircle_def bindE_def ensure_def)
qed

end
