(* ===== verification/AdminClaims.thy ===== *)
theory AdminClaims
  imports PlatformClaims RoscaClaims Routes
begin

text \<open>
  Properties of what administrators and superadmins do: resets of a wallet, the routes and the views
  of a circle.
\<close>

section \<open>Resets\<close>

definition emptied1 :: "(ledgerEntry \<times> db) result" where
  "emptied1 = resetWalletBalance env0 1000000000001 ''wa'' funded"

definition undone1 :: "(ledgerEntry \<times> db) result" where
  "undone1 = undoWalletBalanceReset env1 ''wa'' (le_id (valueOf emptied1)) (stateOf emptied1)"

lemma emptied1_ok: "\<not> isl emptied1"
  by (simp add: emptied1_def resetWalletBalance_def resetEntry_def fixture lookups writing)

lemma emptied1_value: "emptied1 = Inr (valueOf emptied1, stateOf emptied1)"
  by (rule succeeds [OF emptied1_ok])

lemmas emptied1_Inr = trans [OF emptied1_def [symmetric] emptied1_value]

lemma funded_available: "available funded ''wa'' = 500000"
  by (simp add: fixture available_def computeTotalBalance_def totalReserved_def)

lemma funded_ids: "set (map le_id (ledgerEntries funded)) = {''f1'', ''f2'', ''f3''}"
  by (auto simp: fixture)

lemma undone1_ok: "\<not> isl undone1"
proof -
  let ?e = "valueOf emptied1" and ?s = "stateOf emptied1"
  have r: "resetWalletBalance env0 1000000000001 ''wa'' funded = Inr (?e, ?s)"
    using emptied1_value by (simp add: emptied1_def)
  note e = reset_entry [OF r]
  have w: "writeEntry (rnd env0 0) (resetEntry ''wa'' (now env0) 1000000000001 500000) funded = Inr (?e, ?s)"
    using resetWalletBalance_Inr(1) [OF r] by (simp add: funded_available)
  have ref: "le_reference ?e = ''ADMIN-WALLET-RESET-wa-'' @ showInt 1000000000001"
    and src: "le_sourceId ?e \<noteq> ''''"
    using w by (simp_all add: writeEntry_Inr_iff writtenEntry_def resetEntry_def)
  have none: "reversalOf ?e ?s = None"
    by (simp add: reversalOf_def e(5) ref) (simp add: fixture)
  have "\<exists>x y. undoWalletBalanceReset env1 (le_walletId ?e) (le_id ?e) ?s = Inr (x, y)"
    using e none src funded_ids
    by (intro undo_possible) (auto simp: funded_available env0_def env1_def)
  then show ?thesis by (auto simp: undone1_def e(3))
qed

text \<open>
  C31: a reset of a wallet takes all that is available off it, and is undone once. Whatever requests
  come in between, undoing it gives the wallet back exactly what the reset took and moves no other
  balance; whatever requests follow, undoing it again is refused.
\<close>

theorem wallet_reset_undone_once:
  assumes "sound s0" and "worldOk w"
    and "resetWalletBalance env t wid s0 = Inr (e, s1)" and "reachable w s1 s2"
    and "undoWalletBalanceReset env' wid (le_id e) s2 = Inr (r, s3)" and "reachable w s3 s4"
  shows "available s1 wid = 0 \<and>
    available s3 = (available s2)(wid := available s2 wid + available s0 wid) \<and>
    undoWalletBalanceReset env'' wid (le_id e) s4 =
      Inl (BadRequest ''This reset has already been undone'')"
proof -
  note e = reset_entry [OF assms(3)]
  have k1: "keeps s0 s1" using resetWalletBalance_moves [OF assms(3)] keeps_moves by blast
  then have "sound s1" using keeps_sound assms(1) by blast
  then have k2: "keeps s1 s2" and snd2: "sound s2"
    using reachable_keeps [OF assms(4)] keeps_sound assms(2) by blast+
  have "keeps s2 s3" using undoWalletBalanceReset_moves [OF assms(5)] keeps_moves by blast
  then have snd3: "sound s3" using keeps_sound snd2 by blast
  then have k4: "keeps s3 s4" and snd4: "sound s4"
    using reachable_keeps [OF assms(6)] keeps_sound assms(2) by blast+
  from k2 obtain new where new: "ledgerEntries s2 = new @ ledgerEntries s1"
    using posts_appends unfolding keeps_def by blast
  have "findFirst (\<lambda>x. le_id x = le_id e) (ledgerEntries s1) = Some e" by (simp add: e(5))
  then have "findFirst (\<lambda>x. le_id x = le_id e) (ledgerEntries s2) = Some e"
    using find_later snd2 unfolding new by (metis sound_def ledgerUnique_def new)
  note u = undo_total [OF assms(5) this]
  from k4 obtain more where "ledgerEntries s4 = more @ ledgerEntries s3"
    using posts_appends unfolding keeps_def by blast
  moreover have "ledgerUnique s4" using snd4 by (simp add: sound_def)
  ultimately show ?thesis
    using undo_once [OF assms(5)] reset_balances(1) [OF assms(3), of wid] u(3) e(4) by auto
qed

lemma undone1_Inr:
  "undoWalletBalanceReset env1 ''wa'' (le_id (valueOf emptied1)) (stateOf emptied1) =
     Inr (valueOf undone1, stateOf undone1)"
  using succeeds [OF undone1_ok] by (simp only: undone1_def)

theorem wallet_reset_undone_once_witness:
  "available (stateOf emptied1) ''wa'' = 0 \<and> available (stateOf undone1) ''wa'' = 500000 \<and>
   undoWalletBalanceReset env0 ''wa'' (le_id (valueOf emptied1)) (stateOf undone1) =
     Inl (BadRequest ''This reset has already been undone'')"
  using wallet_reset_undone_once [OF funded_sound world1_ok emptied1_Inr reachable.started undone1_Inr
      reachable.started] funded_available by simp

section \<open>The routes of a circle\<close>

definition mallory :: authUser where
  "mallory = \<lparr>au_userId = ''mallory'', au_role = ADMIN\<rparr>"

definition activated :: db where
  "activated = stateOf (activateCircle env0 (\<lambda>_. 0) ''c1'' 1000000500000 (drafting MS_ACTIVE))"

text \<open>
  Any administrator can activate any circle, and is told that it failed. The route does not pass
  on who asks, so the state is the one the activation leaves whoever's circle it is; and since the
  updated row is formatted without the administrator the format reads, the answer is an error after
  the activation has been committed, as it is for every activation. Trying again is then refused.
\<close>

lemma activation_unguarded:
  assumes "au_role a = ADMIN" and "activateCircle env rand cid t s = Inr (c, s')"
  shows "snd (activateRoute env rand (Some a) cid t s) = s' \<and>
    fst (activateRoute env rand (Some a) cid t s) = Inl (PlainError ''TypeError'') \<and>
    refuses (activateRoute env' rand' (Some a) cid t' s') s'"
proof -
  have g: "rolesGuard adminRoles (Some a)" using assms(1) by (simp add: adminRoles_iff)
  have again: "isl (activateCircle env' rand' cid t' s')"
    using activateCircle_twice [OF assms(2)] by blast
  have "refuses (activateRoute env' rand' (Some a) cid t' s') s'"
    unfolding activateRoute_def by (intro refusing) (rule again)
  then show ?thesis
    using activateRoute_state [OF g assms(2)] assms(2) g
    by (simp add: activateRoute_def guarded_def formatting_def bare_unformatted)
qed

lemma activated_Inr:
  "activateCircle env0 (\<lambda>_. 0) ''c1'' 1000000500000 (drafting MS_ACTIVE) =
     Inr (valueOf (activateCircle env0 (\<lambda>_. 0) ''c1'' 1000000500000 (drafting MS_ACTIVE)), activated)"
  using succeeds [OF activation_runs] by (simp only: activated_def)

lemma activation_unguarded_witness:
  "snd (activateRoute env0 (\<lambda>_. 0) (Some mallory) ''c1'' 1000000500000 (drafting MS_ACTIVE)) = activated \<and>
   isl (fst (activateRoute env0 (\<lambda>_. 0) (Some mallory) ''c1'' 1000000500000 (drafting MS_ACTIVE)))"
  using activation_unguarded [OF _ activated_Inr, of mallory env1 "\<lambda>_. 0" 0] by (simp add: mallory_def)




section \<open>The books of a circle\<close>

text \<open>
  A contribution shows in the books. After it the administrator sees, for the cycle it was paid
  to, one contribution more and its amount collected, the rest of the pot outstanding and the other
  cycles unchanged; and the member gets no reminder for that cycle any more.
\<close>

lemma contribution_shows:
  assumes "makeContribution env uid cid n s = Inr (k, s')" and "getFinancialHealth cid aid s = Inr h"
  shows "getFinancialHealth cid aid s' =
      Inr (h\<lparr>fh_cycles := map (afterPayment n (co_amount k)) (fh_cycles h)\<rparr>) \<and>
    uid \<notin> set (missingTargets cid n None s')"
  using contribution_health [OF assms] contribution_no_reminder [OF assms(1)] by blast

lemma running_health: "getFinancialHealth ''c1'' ''ada'' running =
    Inr (projr (getFinancialHealth ''c1'' ''ada'' running))"
  by (simp add: getFinancialHealth_def assertAdminOwnsCircle_def circleById_def running_def circleOf_def)

lemma contribution_shows_witness:
  "''ada'' \<notin> set (missingTargets ''c1'' 2 None (stateOf (makeContribution env0 ''ada'' ''c1'' 2 running)))"
  using contribution_shows [OF succeeds [OF contribution_runs] running_health] by blast

end
