(* ===== verification/Mail.thy ===== *)
theory Mail
  imports Schema
begin

text \<open>
  \<^verbatim>\<open>src/modules/mail\<close>: the outbox of mails.  A job of the mail queue writes its row and sends it unless
  it was sent before; a cron job sends failed rows again.  The transport is outside: \<open>outcome\<close> is what
  it answers for the mail of a row, nothing when it accepts and the message of its error otherwise.
  \<open>accepted\<close> records the rows whose mail it has accepted, newest first.
\<close>

section \<open>The outbox\<close>

datatype mailJobStatus = MAIL_PENDING | MAIL_SENT | MAIL_FAILED

record outboxRow =
  ob_id :: string
  ob_to :: string
  ob_subject :: string
  ob_html :: string
  ob_status :: mailJobStatus
  ob_attempts :: nat
  ob_lastError :: "string option"
  ob_sentAt :: "int option"
  ob_updatedAt :: int

record mailJob =
  mb_name :: string
  mb_id :: string
  mb_to :: string
  mb_subject :: string
  mb_html :: string

record mailbox =
  outbox :: "outboxRow list"
  accepted :: "string list"

type_synonym transport = "string \<Rightarrow> string option"

definition MAIL_JOB_NAME :: string where "MAIL_JOB_NAME = ''send-email''"

text \<open>The job \<^verbatim>\<open>enqueue\<close> adds, under a new identifier.\<close>

definition enqueueMail :: "env \<Rightarrow> string \<Rightarrow> string \<Rightarrow> string \<Rightarrow> mailJob" where
  "enqueueMail env to subject html =
     \<lparr>mb_name = MAIL_JOB_NAME, mb_id = rnd env 0, mb_to = to, mb_subject = subject, mb_html = html\<rparr>"

definition outboxRowOf :: "env \<Rightarrow> mailJob \<Rightarrow> outboxRow" where
  "outboxRowOf env j =
     \<lparr>ob_id = mb_id j, ob_to = mb_to j, ob_subject = mb_subject j, ob_html = mb_html j,
      ob_status = MAIL_PENDING, ob_attempts = 0, ob_lastError = None, ob_sentAt = None,
      ob_updatedAt = now env\<rparr>"

definition outboxById :: "string \<Rightarrow> mailbox \<Rightarrow> outboxRow option" where
  "outboxById i m = findFirst (\<lambda>r. ob_id r = i) (outbox m)"

text \<open>\<^verbatim>\<open>upsert\<close> with an empty update\<close>

definition upsertOutbox :: "env \<Rightarrow> mailJob \<Rightarrow> mailbox \<Rightarrow> mailbox" where
  "upsertOutbox env j m =
     (case outboxById (mb_id j) m of
        None \<Rightarrow> m\<lparr>outbox := outbox m @ [outboxRowOf env j]\<rparr>
      | Some _ \<Rightarrow> m)"

definition updateOutbox :: "string \<Rightarrow> (outboxRow \<Rightarrow> outboxRow) \<Rightarrow> mailbox \<Rightarrow> mailbox" where
  "updateOutbox i f m = m\<lparr>outbox := updateRow (\<lambda>r. ob_id r = i) f (outbox m)\<rparr>"

definition mailSent :: "env \<Rightarrow> outboxRow \<Rightarrow> outboxRow" where
  "mailSent env r = r\<lparr>ob_status := MAIL_SENT, ob_sentAt := Some (now env), ob_updatedAt := now env\<rparr>"

definition mailFailed :: "env \<Rightarrow> string \<Rightarrow> outboxRow \<Rightarrow> outboxRow" where
  "mailFailed env msg r =
     r\<lparr>ob_status := MAIL_FAILED, ob_attempts := ob_attempts r + 1, ob_lastError := Some msg,
       ob_updatedAt := now env\<rparr>"

text \<open>The transport accepts the mail of a row, or fails.\<close>

definition attempt :: "env \<Rightarrow> string option \<Rightarrow> string \<Rightarrow> mailbox \<Rightarrow> mailbox" where
  "attempt env answer i m =
     (case answer of
        None \<Rightarrow> updateOutbox i (mailSent env) (m\<lparr>accepted := i # accepted m\<rparr>)
      | Some msg \<Rightarrow> updateOutbox i (mailFailed env msg) m)"

text \<open>
  \<^verbatim>\<open>MailProcessor.process\<close>: the value is whether the mail was sent, nothing for a job of another name; an
  error makes the queue repeat the job.
\<close>

definition processMail :: "env \<Rightarrow> transport \<Rightarrow> mailJob \<Rightarrow> mailbox \<Rightarrow> bool option result \<times> mailbox" where
  "processMail env outcome j m =
     (if mb_name j \<noteq> MAIL_JOB_NAME then (Inr None, m)
      else
        (let m1 = upsertOutbox env j m in
         if map_option ob_status (outboxById (mb_id j) m1) = Some MAIL_SENT then (Inr (Some False), m1)
         else
           (case outcome (mb_id j) of
              None \<Rightarrow> (Inr (Some True), attempt env None (mb_id j) m1)
            | Some msg \<Rightarrow> (Inl (PlainError msg), attempt env (Some msg) (mb_id j) m1))))"

section \<open>The retries\<close>

definition maxAttempts :: nat where "maxAttempts = 5"

definition waitMs :: "outboxRow \<Rightarrow> int" where
  "waitMs r = min (2 ^ ob_attempts r * 60000) (30 * 60000)"

definition dueForRetry :: "mailbox \<Rightarrow> outboxRow list" where
  "dueForRetry m =
     take 10 (sort_key ob_updatedAt
       (filter (\<lambda>r. ob_status r = MAIL_FAILED \<and> ob_attempts r < maxAttempts) (outbox m)))"

definition retryError :: "string \<Rightarrow> string" where
  "retryError msg = (if msg = '''' then ''retry failed'' else msg)"

definition retryOne :: "env \<Rightarrow> transport \<Rightarrow> outboxRow \<Rightarrow> mailbox \<Rightarrow> mailbox" where
  "retryOne env outcome r m =
     (if now env < ob_updatedAt r + waitMs r then m
      else attempt env (map_option retryError (outcome (ob_id r))) (ob_id r) m)"

definition retryMails :: "env \<Rightarrow> transport \<Rightarrow> mailbox \<Rightarrow> mailbox" where
  "retryMails env outcome m = foldl (\<lambda>m r. retryOne env outcome r m) m (dueForRetry m)"

section \<open>Every run of the queue and the cron job\<close>

inductive mailRun :: "mailbox \<Rightarrow> bool" where
  fresh: "mailRun \<lparr>outbox = [], accepted = []\<rparr>"
| job: "mailRun m \<Longrightarrow> mailRun (snd (processMail env outcome j m))"
| cron: "mailRun m \<Longrightarrow> mailRun (retryMails env outcome m)"

text \<open>A mail is accepted once, and exactly the accepted ones are marked as sent.\<close>

definition mailOk :: "mailbox \<Rightarrow> bool" where
  "mailOk m \<longleftrightarrow> distinct (map ob_id (outbox m)) \<and> distinct (accepted m) \<and>
     set (accepted m) = ob_id ` {r \<in> set (outbox m). ob_status r = MAIL_SENT}"

lemma mail_kept [simp]: "ob_id (mailSent env r) = ob_id r" "ob_id (mailFailed env msg r) = ob_id r"
  "ob_status (mailSent env r) = MAIL_SENT" "ob_status (mailFailed env msg r) = MAIL_FAILED"
  by (simp_all add: mailSent_def mailFailed_def)

lemma set_updateRow_key:
  assumes "distinct (map k rs)" and "findFirst (\<lambda>x. k x = i) rs = Some r"
  shows "set (updateRow (\<lambda>x. k x = i) f rs) = insert (f r) (set rs - {r})"
  using assms
proof (induction rs)
  case (Cons x xs)
  show ?case
  proof (cases "k x = i")
    case True
    then have "r = x" "x \<notin> set xs" using Cons.prems by auto
    then show ?thesis using True by auto
  next
    case False
    then have "findFirst (\<lambda>x. k x = i) xs = Some r" "distinct (map k xs)" using Cons.prems by auto
    moreover have "r \<noteq> x" using find_SomeD [OF calculation(1)] False by blast
    ultimately show ?thesis using Cons.IH False by auto
  qed
qed simp

text \<open>An attempt for a row that has not been sent.\<close>

lemma attempt_ok:
  assumes "mailOk m" and "outboxById i m = Some r" and "ob_status r \<noteq> MAIL_SENT"
  shows "mailOk (attempt env answer i m)"
proof -
  have f: "findFirst (\<lambda>r. ob_id r = i) (outbox m) = Some r" using assms(2) by (simp add: outboxById_def)
  note r = find_SomeD [OF f]
  have d: "distinct (map ob_id (outbox m))" using assms(1) by (simp add: mailOk_def)
  have only: "x = r" if "x \<in> set (outbox m)" "ob_id x = i" for x
    using find_unique [OF d that(1)] that(2) f by simp
  then have new: "i \<notin> set (accepted m)" using assms(1,3) by (auto simp: mailOk_def)
  show ?thesis
  proof (cases answer)
    case None
    have "{x \<in> insert (mailSent env r) (set (outbox m) - {r}). ob_status x = MAIL_SENT} =
        insert (mailSent env r) {x \<in> set (outbox m). ob_status x = MAIL_SENT}"
      using assms(3) by auto
    then have "ob_id ` {x \<in> insert (mailSent env r) (set (outbox m) - {r}). ob_status x = MAIL_SENT} =
        insert i (ob_id ` {x \<in> set (outbox m). ob_status x = MAIL_SENT})"
      using r by simp
    then show ?thesis
      using assms(1) new None
      by (simp add: attempt_def updateOutbox_def mailOk_def map_updateRow set_updateRow_key [OF d f])
  next
    case (Some msg)
    have "{x \<in> insert (mailFailed env msg r) (set (outbox m) - {r}). ob_status x = MAIL_SENT} =
        {x \<in> set (outbox m). ob_status x = MAIL_SENT}"
      using assms(3) by auto
    then show ?thesis
      using assms(1) Some
      by (simp add: attempt_def updateOutbox_def mailOk_def map_updateRow set_updateRow_key [OF d f])
  qed
qed

lemma upsertOutbox_ok: "mailOk m \<Longrightarrow> mailOk (upsertOutbox env j m)"
  by (auto simp: upsertOutbox_def mailOk_def outboxById_def outboxRowOf_def find_None_eq image_iff
      split: option.splits)

lemma upsertOutbox_found: "\<exists>r. outboxById (mb_id j) (upsertOutbox env j m) = Some r"
  by (auto simp: upsertOutbox_def outboxById_def find_append outboxRowOf_def split: option.splits)

lemma processMail_ok:
  assumes "mailOk m"
  shows "mailOk (snd (processMail env outcome j m))"
proof -
  obtain r where r: "outboxById (mb_id j) (upsertOutbox env j m) = Some r"
    using upsertOutbox_found by blast
  note ok = attempt_ok [OF upsertOutbox_ok [OF assms] r]
  show ?thesis
    using ok assms upsertOutbox_ok [OF assms] r
    by (auto simp: processMail_def Let_def split: option.splits)
qed

text \<open>An attempt for one row leaves the others as they are.\<close>

lemma attempt_other: "i \<noteq> k \<Longrightarrow> outboxById k (attempt env answer i m) = outboxById k m"
  unfolding attempt_def updateOutbox_def outboxById_def
  by (cases answer) (auto intro!: find_updateRow_disjoint)

lemma retryMails_ok:
  assumes "mailOk m"
  shows "mailOk (retryMails env outcome m)"
proof -
  have "mailOk (foldl (\<lambda>m r. retryOne env outcome r m) m rs)"
    if "mailOk m" and "distinct (map ob_id rs)"
      and "\<forall>r \<in> set rs. \<exists>x. outboxById (ob_id r) m = Some x \<and> ob_status x \<noteq> MAIL_SENT" for rs
    using that
  proof (induction rs arbitrary: m)
    case (Cons r rs)
    have "mailOk (retryOne env outcome r m)"
      using Cons.prems attempt_ok by (auto simp: retryOne_def)
    moreover have "\<forall>q \<in> set rs. outboxById (ob_id q) (retryOne env outcome r m) = outboxById (ob_id q) m"
      using Cons.prems(2) attempt_other by (auto simp: retryOne_def image_iff)
    ultimately show ?case using Cons by simp
  qed simp
  moreover have d: "distinct (map ob_id (outbox m))" using assms by (simp add: mailOk_def)
  moreover have "mset (map ob_id (sort_key ob_updatedAt (filter P (outbox m)))) = mset (map ob_id (filter P (outbox m)))" for P
    by simp
  then have "distinct (map ob_id (sort_key ob_updatedAt (filter P (outbox m))))" for P
    using d mset_eq_imp_distinct_iff distinct_map_filter by metis
  then have "distinct (map ob_id (dueForRetry m))"
    by (simp add: dueForRetry_def take_map [symmetric])
  moreover have "\<exists>x. outboxById (ob_id r) m = Some x \<and> ob_status x \<noteq> MAIL_SENT" if "r \<in> set (dueForRetry m)" for r
  proof -
    have "r \<in> set (outbox m)" "ob_status r = MAIL_FAILED"
      using that by (auto simp: dueForRetry_def dest!: in_set_takeD)
    then show ?thesis using find_unique [OF d] by (simp add: outboxById_def)
  qed
  ultimately show ?thesis using assms by (simp add: retryMails_def)
qed

lemma mailRun_ok: "mailRun m \<Longrightarrow> mailOk m"
  by (induction rule: mailRun.induct) (simp add: mailOk_def, rule processMail_ok, assumption, rule retryMails_ok)

text \<open>Rows that have failed five times are left to the queue.\<close>

lemma dueForRetry_bound: "r \<in> set (dueForRetry m) \<Longrightarrow> ob_attempts r < maxAttempts \<and> ob_status r = MAIL_FAILED"
  by (auto simp: dueForRetry_def dest!: in_set_takeD)

lemma dueForRetry_length: "length (dueForRetry m) \<le> 10"
  by (simp add: dueForRetry_def)

end
