(* ===== verification/Notifications.thy ===== *)
theory Notifications
  imports Kyc Governance
begin

text \<open>
  \<^verbatim>\<open>src/modules/notification\<close>: the records of mails and of notices in the app, the texts of both, what a
  user reads and marks as read, and the worker of the event queue.  The transport of mails is outside:
  \<open>mailer\<close> answers an address and a subject, nothing when it accepts the mail and the message of its
  error otherwise; the templates of the bodies in HTML are left out.  \<open>loc\<close> is \<^verbatim>\<open>toLocaleString\<close>.
  Characters outside ASCII are written as their bytes in UTF-8.
\<close>

section \<open>Records\<close>

datatype noticeType = NT_EMAIL | NT_IN_APP

datatype noticeStatus = NS_PENDING | NS_SENT | NS_FAILED

record notification =
  nt_id :: string
  nt_userId :: string
  nt_type :: noticeType
  nt_title :: string
  nt_body :: string
  nt_actionUrl :: "string option"
  nt_status :: noticeStatus
  nt_sentAt :: "int option"
  nt_error :: "string option"
  nt_isRead :: bool
  nt_readAt :: "int option"
  nt_createdAt :: int

text \<open>
  The table, the mails the transport has accepted, and what was pushed to the sockets of a user.
\<close>

record noticeDb =
  notifications :: "notification list"
  mailed :: "(string \<times> string) list"
  pushed :: "(string \<times> string) list"

type_synonym mailer = "string \<Rightarrow> string \<Rightarrow> string option"

definition createRecord ::
  "env \<Rightarrow> nat \<Rightarrow> string \<Rightarrow> noticeType \<Rightarrow> string \<Rightarrow> string \<Rightarrow> string option \<Rightarrow> noticeDb \<Rightarrow>
     (notification \<times> noticeDb) result" where
  "createRecord env k uid ty title body url s =
     (if list_ex (\<lambda>n. nt_id n = rnd env k) (notifications s) then Inl (PrismaError ''P2002'')
      else
        (let n = \<lparr>nt_id = rnd env k, nt_userId = uid, nt_type = ty, nt_title = title, nt_body = body,
                 nt_actionUrl = url, nt_status = NS_PENDING, nt_sentAt = None, nt_error = None,
                 nt_isRead = False, nt_readAt = None, nt_createdAt = now env\<rparr>
         in Inr (n, s\<lparr>notifications := notifications s @ [n]\<rparr>)))"

definition updateNotice :: "string \<Rightarrow> (notification \<Rightarrow> notification) \<Rightarrow> noticeDb \<Rightarrow> noticeDb" where
  "updateNotice i f s = s\<lparr>notifications := updateRow (\<lambda>n. nt_id n = i) f (notifications s)\<rparr>"

definition markSent :: "env \<Rightarrow> string \<Rightarrow> noticeDb \<Rightarrow> noticeDb" where
  "markSent env i = updateNotice i (\<lambda>n. n\<lparr>nt_status := NS_SENT, nt_sentAt := Some (now env)\<rparr>)"

definition markNoticeFailed :: "string \<Rightarrow> string \<Rightarrow> noticeDb \<Rightarrow> noticeDb" where
  "markNoticeFailed i msg = updateNotice i (\<lambda>n. n\<lparr>nt_status := NS_FAILED, nt_error := Some msg\<rparr>)"

definition createInAppNotification ::
  "env \<Rightarrow> nat \<Rightarrow> string \<Rightarrow> string \<Rightarrow> string \<Rightarrow> string option \<Rightarrow> noticeDb \<Rightarrow> (notification \<times> noticeDb) result" where
  "createInAppNotification env k uid title body url s =
     bindE (createRecord env k uid NT_IN_APP title body url s) (\<lambda>(n, s1).
     Inr (n, s1\<lparr>pushed := (uid, nt_id n) # pushed s1\<rparr>))"

text \<open>What every mail does: a record, the transport, the outcome on the record.\<close>

definition emailNotice ::
  "env \<Rightarrow> mailer \<Rightarrow> nat \<Rightarrow> string \<Rightarrow> string \<Rightarrow> string \<Rightarrow> string \<Rightarrow> string \<Rightarrow> noticeDb \<Rightarrow> unit result \<times> noticeDb" where
  "emailNotice env mailer k uid email title body subject s =
     (case createRecord env k uid NT_EMAIL title body None s of
        Inl e \<Rightarrow> (Inl e, s)
      | Inr (n, s1) \<Rightarrow>
          (Inr (),
           case mailer email subject of
             None \<Rightarrow> markSent env (nt_id n) (s1\<lparr>mailed := (email, subject) # mailed s1\<rparr>)
           | Some msg \<Rightarrow> markNoticeFailed (nt_id n) msg s1))"

text \<open>
  And what the notices of circles do: the record in the app is not waited for, and its failure only
  logged; the mail has the same title.
\<close>

definition announce ::
  "env \<Rightarrow> mailer \<Rightarrow> string \<Rightarrow> string \<Rightarrow> string \<Rightarrow> string \<Rightarrow> noticeDb \<Rightarrow> unit result \<times> noticeDb" where
  "announce env mailer uid email title body s =
     emailNotice env mailer 1 uid email title body title
       (case createInAppNotification env 0 uid title body None s of Inl e \<Rightarrow> s | Inr (_, s1) \<Rightarrow> s1)"

section \<open>The mails of an account\<close>

definition checkMark :: string where "checkMark = [CHR 0xE2, CHR 0x9C, CHR 0x85]"
definition crossMark :: string where "crossMark = [CHR 0xE2, CHR 0x9D, CHR 0x8C]"
definition emDash :: string where "emDash = [CHR 0xE2, CHR 0x80, CHR 0x94]"
definition nairaSign :: string where "nairaSign = [CHR 0xE2, CHR 0x82, CHR 0xA6]"

definition sendWelcomeEmail ::
  "env \<Rightarrow> mailer \<Rightarrow> string \<Rightarrow> string \<Rightarrow> noticeDb \<Rightarrow> unit result \<times> noticeDb" where
  "sendWelcomeEmail env mailer uid email =
     emailNotice env mailer 0 uid email ''Welcome to Ajoti!'' (''Welcome email sent to '' @ email)
       ''Welcome to Ajoti!''"

definition sendAccountActivationEmail ::
  "env \<Rightarrow> mailer \<Rightarrow> string \<Rightarrow> string \<Rightarrow> noticeDb \<Rightarrow> unit result \<times> noticeDb" where
  "sendAccountActivationEmail env mailer uid email =
     emailNotice env mailer 0 uid email ''Account Activated''
       (''Account activation email sent to '' @ email) ''Your Ajoti Account is Now Activated!''"

definition sendPasswordResetConfirmationEmail ::
  "env \<Rightarrow> mailer \<Rightarrow> string \<Rightarrow> string \<Rightarrow> noticeDb \<Rightarrow> unit result \<times> noticeDb" where
  "sendPasswordResetConfirmationEmail env mailer uid email =
     emailNotice env mailer 0 uid email ''Password Reset Successful''
       (''Password reset email sent to '' @ email) ''Your Ajoti Password Has Been Reset''"

definition sendPasswordChangedEmail ::
  "env \<Rightarrow> mailer \<Rightarrow> string \<Rightarrow> string \<Rightarrow> noticeDb \<Rightarrow> unit result \<times> noticeDb" where
  "sendPasswordChangedEmail env mailer uid email =
     emailNotice env mailer 0 uid email ''Password Changed''
       (''Password changed email sent to '' @ email) ''Your Ajoti Password Has Been Changed''"

definition sendKycStatusEmail ::
  "env \<Rightarrow> mailer \<Rightarrow> string \<Rightarrow> string \<Rightarrow> bool \<Rightarrow> noticeDb \<Rightarrow> unit result \<times> noticeDb" where
  "sendKycStatusEmail env mailer uid email approved =
     emailNotice env mailer 0 uid email
       (''KYC '' @ (if approved then ''Approved'' else ''Rejected''))
       (''KYC '' @ (if approved then ''APPROVED'' else ''REJECTED'') @ '' notification sent to '' @ email)
       (''Your Ajoti KYC Status: '' @
         (if approved then ''Approved '' @ checkMark else ''Rejected '' @ crossMark))"

definition sendTransactionEmail ::
  "env \<Rightarrow> mailer \<Rightarrow> (rat \<Rightarrow> string) \<Rightarrow> string \<Rightarrow> string \<Rightarrow> eventSide \<Rightarrow> rat \<Rightarrow> string \<Rightarrow> string \<Rightarrow>
     noticeDb \<Rightarrow> unit result \<times> noticeDb" where
  "sendTransactionEmail env mailer loc uid email side amount currency reference =
     emailNotice env mailer 0 uid email
       (if side = EV_CREDIT then ''Money Received'' else ''Payment Sent'')
       (''Transaction notification for '' @ reference @ '' sent to '' @ email)
       (if side = EV_CREDIT then ''You Received '' @ currency @ '' '' @ loc amount
        else ''You Made a Payment of '' @ currency @ '' '' @ loc amount)"

section \<open>The notices of circles\<close>

definition sendMemberApprovedNotification ::
  "env \<Rightarrow> mailer \<Rightarrow> string \<Rightarrow> string \<Rightarrow> string \<Rightarrow> int \<Rightarrow> noticeDb \<Rightarrow> unit result \<times> noticeDb" where
  "sendMemberApprovedNotification env mailer uid email circleName position =
     announce env mailer uid email (''You've been accepted into '' @ circleName)
       (''Congratulations! Your request to join '' @ circleName @
        '' has been approved. You've been assigned payout position #'' @ showInt position @ ''.'')"

definition sendMemberRejectedNotification ::
  "env \<Rightarrow> mailer \<Rightarrow> string \<Rightarrow> string \<Rightarrow> string \<Rightarrow> noticeDb \<Rightarrow> unit result \<times> noticeDb" where
  "sendMemberRejectedNotification env mailer uid email circleName =
     announce env mailer uid email (''Your request to join '' @ circleName @ '' was not approved'')
       (''Unfortunately, your request to join '' @ circleName @
        '' was not approved. Your reserved collateral has been returned to your wallet.'')"

definition sendCircleStartedNotification ::
  "env \<Rightarrow> mailer \<Rightarrow> string \<Rightarrow> string \<Rightarrow> string \<Rightarrow> string \<Rightarrow> string \<Rightarrow> int \<Rightarrow> noticeDb \<Rightarrow> unit result \<times> noticeDb" where
  "sendCircleStartedNotification env mailer uid email circleName firstDeadline contributionAmount position =
     announce env mailer uid email (circleName @ '' has started!'')
       (''Your savings circle '' @ circleName @ '' is now active. First contribution of '' @ nairaSign @
        contributionAmount @ '' is due by '' @ firstDeadline @ ''. Your payout position is #'' @
        showInt position @ ''.'')"

definition sendTopUpReminderNotification ::
  "env \<Rightarrow> mailer \<Rightarrow> string \<Rightarrow> string \<Rightarrow> string \<Rightarrow> string \<Rightarrow> string \<Rightarrow> noticeDb \<Rightarrow> unit result \<times> noticeDb" where
  "sendTopUpReminderNotification env mailer uid email circleName requiredNaira availableNaira =
     announce env mailer uid email (''Top up your wallet '' @ emDash @ '' '' @ circleName)
       (''Your available balance ('' @ nairaSign @ availableNaira @
        '') may be insufficient for your upcoming contribution of '' @ nairaSign @ requiredNaira @
        '' to '' @ circleName @ ''. Please top up your wallet.'')"

definition sendContributionReminder ::
  "env \<Rightarrow> mailer \<Rightarrow> string \<Rightarrow> string \<Rightarrow> string \<Rightarrow> int \<Rightarrow> string \<Rightarrow> noticeDb \<Rightarrow> unit result \<times> noticeDb" where
  "sendContributionReminder env mailer uid email circleName cycleNumber deadline =
     announce env mailer uid email
       (''Contribution reminder '' @ emDash @ '' '' @ circleName @ '' cycle '' @ showInt cycleNumber)
       (''You have not yet contributed for cycle '' @ showInt cycleNumber @ '' in '' @ circleName @
        ''. Deadline: '' @ deadline @ ''.'')"

definition sendAdminReminder ::
  "env \<Rightarrow> mailer \<Rightarrow> string \<Rightarrow> string \<Rightarrow> string \<Rightarrow> string \<Rightarrow> noticeDb \<Rightarrow> unit result \<times> noticeDb" where
  "sendAdminReminder env mailer uid email circleName message =
     announce env mailer uid email (''Reminder from '' @ circleName) message"

definition sendPayoutPositionNotification ::
  "env \<Rightarrow> mailer \<Rightarrow> string \<Rightarrow> string \<Rightarrow> string \<Rightarrow> int \<Rightarrow> bool \<Rightarrow> noticeDb \<Rightarrow> unit result \<times> noticeDb" where
  "sendPayoutPositionNotification env mailer uid email circleName position isReassignment =
     announce env mailer uid email
       ((if isReassignment then ''Payout position updated '' else ''Payout position assigned '') @
        emDash @ '' '' @ circleName)
       (if isReassignment
        then ''Your payout position in '' @ circleName @ '' has been updated to #'' @ showInt position @
          '' by the admin.''
        else ''You have been assigned payout position #'' @ showInt position @ '' in '' @ circleName @ ''.'')"

definition sendCircleFullNotification ::
  "env \<Rightarrow> mailer \<Rightarrow> string \<Rightarrow> string \<Rightarrow> string \<Rightarrow> int \<Rightarrow> bool \<Rightarrow> noticeDb \<Rightarrow> unit result \<times> noticeDb" where
  "sendCircleFullNotification env mailer uid email circleName totalSlots isAdmin =
     announce env mailer uid email
       (circleName @ '' is full '' @ emDash @ '' all '' @ showInt totalSlots @ '' slots filled'')
       (if isAdmin
        then ''All '' @ showInt totalSlots @ '' members have joined '' @ circleName @
          ''. Log in to activate the circle.''
        else circleName @ '' now has all '' @ showInt totalSlots @
          '' members confirmed. The admin will start the cycle soon.'')"

section \<open>What a user reads\<close>

definition inApp :: "string \<Rightarrow> noticeDb \<Rightarrow> notification list" where
  "inApp uid s = filter (\<lambda>n. nt_userId n = uid \<and> nt_type n = NT_IN_APP) (notifications s)"

definition getUserNotifications :: "string \<Rightarrow> paging \<Rightarrow> noticeDb \<Rightarrow> notification paged" where
  "getUserNotifications uid q s = paginate q (rev (inApp uid s))"

definition getUnreadCount :: "string \<Rightarrow> noticeDb \<Rightarrow> nat" where
  "getUnreadCount uid s = length (filter (\<lambda>n. \<not> nt_isRead n) (inApp uid s))"

definition readNow :: "env \<Rightarrow> notification \<Rightarrow> notification" where
  "readNow env n = n\<lparr>nt_isRead := True, nt_readAt := Some (now env)\<rparr>"

definition markAsRead :: "env \<Rightarrow> string \<Rightarrow> string \<Rightarrow> noticeDb \<Rightarrow> noticeDb" where
  "markAsRead env uid i s =
     s\<lparr>notifications := map (\<lambda>n. if nt_id n = i \<and> nt_userId n = uid then readNow env n else n)
        (notifications s)\<rparr>"

definition markAllAsRead :: "env \<Rightarrow> string \<Rightarrow> noticeDb \<Rightarrow> noticeDb" where
  "markAllAsRead env uid s =
     s\<lparr>notifications := map (\<lambda>n. if nt_userId n = uid \<and> \<not> nt_isRead n then readNow env n else n)
        (notifications s)\<rparr>"

section \<open>The worker of the event queue\<close>

datatype accountKind =
    USER_REGISTERED
  | EMAIL_VERIFIED
  | PASSWORD_RESET
  | PASSWORD_CHANGED
  | KYC_STATUS_CHANGED bool "string option"
  | WALLET_TRANSACTION_COMPLETED eventSide rat string string

record accountJob =
  aj_userId :: string
  aj_email :: string
  aj_kind :: accountKind

text \<open>\<^verbatim>\<open>Promise.all\<close> of a mail and a notice in the app: both run, the first error is the answer.\<close>

definition alongside ::
  "unit result \<times> noticeDb \<Rightarrow> env \<Rightarrow> string \<Rightarrow> string \<Rightarrow> string \<Rightarrow> unit result \<times> noticeDb" where
  "alongside r env uid title body =
     (case createInAppNotification env 1 uid title body None (snd r) of
        Inl e \<Rightarrow> ((case fst r of Inl e' \<Rightarrow> Inl e' | Inr _ \<Rightarrow> Inl e), snd r)
      | Inr (_, s2) \<Rightarrow> (fst r, s2))"

definition handleUserRegistered :: "env \<Rightarrow> mailer \<Rightarrow> string \<Rightarrow> string \<Rightarrow> noticeDb \<Rightarrow> unit result \<times> noticeDb" where
  "handleUserRegistered env mailer uid email s =
     alongside (sendWelcomeEmail env mailer uid email s) env uid ''Welcome to Ajoti!''
       ''Your account has been created. Verify your email to get started.''"

definition handleEmailVerified :: "env \<Rightarrow> mailer \<Rightarrow> string \<Rightarrow> string \<Rightarrow> noticeDb \<Rightarrow> unit result \<times> noticeDb" where
  "handleEmailVerified env mailer uid email s =
     alongside (sendAccountActivationEmail env mailer uid email s) env uid (''Email Verified '' @ checkMark)
       ''Your email is verified. Complete KYC verification to unlock all features.''"

definition handlePasswordReset :: "env \<Rightarrow> mailer \<Rightarrow> string \<Rightarrow> string \<Rightarrow> noticeDb \<Rightarrow> unit result \<times> noticeDb" where
  "handlePasswordReset env mailer uid email s =
     alongside (sendPasswordResetConfirmationEmail env mailer uid email s) env uid ''Password Reset''
       ''Your password was reset successfully. If this wasn't you, contact support immediately.''"

definition handlePasswordChanged :: "env \<Rightarrow> mailer \<Rightarrow> string \<Rightarrow> string \<Rightarrow> noticeDb \<Rightarrow> unit result \<times> noticeDb" where
  "handlePasswordChanged env mailer uid email s =
     alongside (sendPasswordChangedEmail env mailer uid email s) env uid ''Password Changed''
       ''Your password was changed. If this wasn't you, contact support immediately.''"

definition handleKycStatusChanged ::
  "env \<Rightarrow> mailer \<Rightarrow> string \<Rightarrow> string \<Rightarrow> bool \<Rightarrow> string option \<Rightarrow> noticeDb \<Rightarrow> unit result \<times> noticeDb" where
  "handleKycStatusChanged env mailer uid email approved reason s =
     alongside (sendKycStatusEmail env mailer uid email approved s) env uid
       (if approved then ''KYC Approved '' @ checkMark else ''KYC Requires Attention'')
       (if approved then ''Your identity has been verified. All features are now unlocked.''
        else ''Your KYC was not approved. '' @ orOld reason ''Please resubmit your documents.'')"

definition handleTransactionCompleted ::
  "env \<Rightarrow> mailer \<Rightarrow> (rat \<Rightarrow> string) \<Rightarrow> string \<Rightarrow> string \<Rightarrow> eventSide \<Rightarrow> rat \<Rightarrow> string \<Rightarrow> string \<Rightarrow>
     noticeDb \<Rightarrow> unit result \<times> noticeDb" where
  "handleTransactionCompleted env mailer loc uid email side amount currency reference s =
     (let isReversal = startsWith ''REVERSAL-'' reference;
          amountStr = currency @ '' '' @ loc amount in
      alongside (sendTransactionEmail env mailer loc uid email side amount currency reference s) env uid
        (if isReversal then ''Withdrawal Unsuccessful''
         else if side = EV_CREDIT then ''You received '' @ amountStr else ''You sent '' @ amountStr)
        (if isReversal
         then ''Your withdrawal of '' @ amountStr @
           '' could not be processed. Your funds have been returned to your wallet.''
         else ''Ref: '' @ reference))"

definition processNotice ::
  "env \<Rightarrow> mailer \<Rightarrow> (rat \<Rightarrow> string) \<Rightarrow> accountJob \<Rightarrow> noticeDb \<Rightarrow> unit result \<times> noticeDb" where
  "processNotice env mailer loc j s =
     (case aj_kind j of
        USER_REGISTERED \<Rightarrow> handleUserRegistered env mailer (aj_userId j) (aj_email j) s
      | EMAIL_VERIFIED \<Rightarrow> handleEmailVerified env mailer (aj_userId j) (aj_email j) s
      | PASSWORD_RESET \<Rightarrow> handlePasswordReset env mailer (aj_userId j) (aj_email j) s
      | PASSWORD_CHANGED \<Rightarrow> handlePasswordChanged env mailer (aj_userId j) (aj_email j) s
      | KYC_STATUS_CHANGED approved reason \<Rightarrow>
          handleKycStatusChanged env mailer (aj_userId j) (aj_email j) approved reason s
      | WALLET_TRANSACTION_COMPLETED side amount currency reference \<Rightarrow>
          handleTransactionCompleted env mailer loc (aj_userId j) (aj_email j) side amount currency
            reference s)"

text \<open>
  The queue has a second worker, the one of KYC. The queue gives a job to one of them, which completes
  it, also when the job is not for it.
\<close>

datatype eventWorker = NOTIFICATION_WORKER | KYC_WORKER

definition kycEvent :: "accountJob \<Rightarrow> authEvent" where
  "kycEvent j =
     (case aj_kind j of
        EMAIL_VERIFIED \<Rightarrow> EmailVerified (aj_userId j)
      | _ \<Rightarrow> UserRegistered (aj_userId j))"

definition takeJob ::
  "env \<Rightarrow> mailer \<Rightarrow> (rat \<Rightarrow> string) \<Rightarrow> eventWorker \<Rightarrow> accountJob \<Rightarrow> db \<times> noticeDb \<Rightarrow> db \<times> noticeDb" where
  "takeJob env mailer loc w j p =
     (case w of
        NOTIFICATION_WORKER \<Rightarrow> (fst p, snd (processNotice env mailer loc j (snd p)))
      | KYC_WORKER \<Rightarrow> (processAuthEvent (kycEvent j) (fst p), snd p))"

section \<open>Every record says what became of its mail\<close>

inductive noticeRun :: "noticeDb \<Rightarrow> bool" where
  none: "noticeRun \<lparr>notifications = [], mailed = [], pushed = []\<rparr>"
| mail: "noticeRun s \<Longrightarrow> noticeRun (snd (emailNotice env mailer k uid email title body subject s))"
| app: "noticeRun s \<Longrightarrow> createInAppNotification env k uid title body url s = Inr (n, s') \<Longrightarrow> noticeRun s'"
| read: "noticeRun s \<Longrightarrow> noticeRun (markAsRead env uid i s)"
| readAll: "noticeRun s \<Longrightarrow> noticeRun (markAllAsRead env uid s)"

definition noticeSound :: "notification \<Rightarrow> bool" where
  "noticeSound n \<longleftrightarrow>
     (case nt_type n of
        NT_IN_APP \<Rightarrow> nt_status n = NS_PENDING \<and> nt_sentAt n = None \<and> nt_error n = None
      | NT_EMAIL \<Rightarrow>
          (nt_status n = NS_SENT \<and> nt_sentAt n \<noteq> None \<and> nt_error n = None) \<or>
          (nt_status n = NS_FAILED \<and> nt_sentAt n = None \<and> nt_error n \<noteq> None)) \<and>
     (nt_isRead n \<longleftrightarrow> nt_readAt n \<noteq> None)"

definition mailsSent :: "noticeDb \<Rightarrow> nat" where
  "mailsSent s = length (filter (\<lambda>n. nt_status n = NS_SENT) (notifications s))"

definition noticesOk :: "noticeDb \<Rightarrow> bool" where
  "noticesOk s \<longleftrightarrow> distinct (map nt_id (notifications s)) \<and> list_all noticeSound (notifications s) \<and>
     length (mailed s) = mailsSent s"

lemma updateRow_last:
  "i \<notin> nt_id ` set ns \<Longrightarrow> nt_id n = i \<Longrightarrow> updateRow (\<lambda>x. nt_id x = i) f (ns @ [n]) = ns @ [f n]"
  by (induction ns) auto

lemma createRecord_Inr:
  "createRecord env k uid ty title body url s = Inr (n, s') \<longleftrightarrow>
     rnd env k \<notin> nt_id ` set (notifications s) \<and>
     n = \<lparr>nt_id = rnd env k, nt_userId = uid, nt_type = ty, nt_title = title, nt_body = body,
          nt_actionUrl = url, nt_status = NS_PENDING, nt_sentAt = None, nt_error = None,
          nt_isRead = False, nt_readAt = None, nt_createdAt = now env\<rparr> \<and>
     s' = s\<lparr>notifications := notifications s @ [n]\<rparr>"
proof -
  have "list_ex (\<lambda>n. nt_id n = rnd env k) (notifications s) \<longleftrightarrow> rnd env k \<in> nt_id ` set (notifications s)"
    unfolding list_ex_iff image_iff by (metis (full_types))
  then show ?thesis by (auto simp: createRecord_def Let_def)
qed

text \<open>A mail adds one record, sent or failed, or the state is unchanged.\<close>

lemma emailNotice_cases:
  obtains "snd (emailNotice env mailer k uid email title body subject s) = s"
    | n where "notifications (snd (emailNotice env mailer k uid email title body subject s)) =
          notifications s @ [n]"
        and "nt_id n \<notin> nt_id ` set (notifications s)" and "noticeSound n" and "nt_type n = NT_EMAIL"
        and "nt_userId n = uid"
        and "mailed (snd (emailNotice env mailer k uid email title body subject s)) =
          (if nt_status n = NS_SENT then (email, subject) # mailed s else mailed s)"
        and "nt_status n = NS_SENT \<longleftrightarrow> mailer email subject = None"
proof (cases "createRecord env k uid NT_EMAIL title body None s")
  case (Inl e)
  then show thesis using that(1) by (simp add: emailNotice_def)
next
  case (Inr x)
  obtain n s1 where x: "x = (n, s1)" by fastforce
  note rec = Inr [unfolded x createRecord_Inr]
  show thesis
  proof (cases "mailer email subject")
    case None
    show thesis
      by (rule that(2) [of "n\<lparr>nt_status := NS_SENT, nt_sentAt := Some (now env)\<rparr>"])
        (use rec Inr x None in \<open>simp_all add: emailNotice_def markSent_def updateNotice_def updateRow_last noticeSound_def\<close>)
  next
    case (Some msg)
    show thesis
      by (rule that(2) [of "n\<lparr>nt_status := NS_FAILED, nt_error := Some msg\<rparr>"])
        (use rec Inr x Some in \<open>simp_all add: emailNotice_def markNoticeFailed_def updateNotice_def updateRow_last noticeSound_def\<close>)
  qed
qed

lemma emailNotice_ok:
  assumes "noticesOk s"
  shows "noticesOk (snd (emailNotice env mailer k uid email title body subject s))"
  by (rule emailNotice_cases [where s = s and env = env and mailer = mailer and k = k and uid = uid
        and email = email and title = title and body = body and subject = subject])
    (use assms in \<open>simp_all add: noticesOk_def mailsSent_def\<close>)

lemma createInApp_ok:
  assumes "noticesOk s" and "createInAppNotification env k uid title body url s = Inr (n, s')"
  shows "noticesOk s'"
  using assms by (auto simp: createInAppNotification_def bindE_Inr_iff createRecord_Inr noticesOk_def
      mailsSent_def noticeSound_def)

lemma reading_ok:
  assumes "noticesOk s" and "\<And>n. f n = n \<or> f n = readNow env n"
  shows "noticesOk (s\<lparr>notifications := map f (notifications s)\<rparr>)"
proof -
  have kept: "nt_id (f n) = nt_id n" "nt_status (f n) = nt_status n" "noticeSound n \<Longrightarrow> noticeSound (f n)" for n
    using assms(2) [of n] by (auto simp: readNow_def noticeSound_def split: noticeType.splits)
  have "nt_id \<circ> f = nt_id" "(\<lambda>n. nt_status n = NS_SENT) \<circ> f = (\<lambda>n. nt_status n = NS_SENT)"
    by (rule ext, simp add: kept)+
  then show ?thesis
    using assms(1) kept(3) by (simp add: noticesOk_def mailsSent_def list_all_iff filter_map)
qed

lemma noticeRun_ok: "noticeRun s \<Longrightarrow> noticesOk s"
proof (induction rule: noticeRun.induct)
  case none
  then show ?case by (simp add: noticesOk_def mailsSent_def)
next
  case mail
  show ?case by (rule emailNotice_ok [OF mail.IH])
next
  case app
  show ?case by (rule createInApp_ok [OF app.IH app.hyps(2)])
next
  case (read s env uid i)
  show ?case unfolding markAsRead_def by (rule reading_ok [OF read.IH, where env = env]) simp
next
  case (readAll s env uid)
  show ?case unfolding markAllAsRead_def by (rule reading_ok [OF readAll.IH, where env = env]) simp
qed

text \<open>Every operation of the service and of the worker is such a run.\<close>

lemma announce_run: "noticeRun s \<Longrightarrow> noticeRun (snd (announce env mailer uid email title body s))"
  unfolding announce_def
  by (rule noticeRun.mail) (auto split: sum.splits intro: noticeRun.app)

lemma alongside_run: "noticeRun (snd r) \<Longrightarrow> noticeRun (snd (alongside r env uid title body))"
  by (auto simp: alongside_def split: sum.splits intro: noticeRun.app)

lemmas accountMails = sendWelcomeEmail_def sendAccountActivationEmail_def
  sendPasswordResetConfirmationEmail_def sendPasswordChangedEmail_def sendKycStatusEmail_def
  sendTransactionEmail_def

lemmas circleNotices = sendMemberApprovedNotification_def sendMemberRejectedNotification_def
  sendCircleStartedNotification_def sendTopUpReminderNotification_def sendContributionReminder_def
  sendAdminReminder_def sendPayoutPositionNotification_def sendCircleFullNotification_def

lemmas noticeHandlers = handleUserRegistered_def handleEmailVerified_def handlePasswordReset_def
  handlePasswordChanged_def handleKycStatusChanged_def handleTransactionCompleted_def

lemma circleNotices_run:
  assumes "noticeRun s"
  shows "noticeRun (snd (sendMemberApprovedNotification env mailer uid email cn p s))"
    "noticeRun (snd (sendMemberRejectedNotification env mailer uid email cn s))"
    "noticeRun (snd (sendCircleStartedNotification env mailer uid email cn d a p s))"
    "noticeRun (snd (sendTopUpReminderNotification env mailer uid email cn a b s))"
    "noticeRun (snd (sendContributionReminder env mailer uid email cn p d s))"
    "noticeRun (snd (sendAdminReminder env mailer uid email cn d s))"
    "noticeRun (snd (sendPayoutPositionNotification env mailer uid email cn p b' s))"
    "noticeRun (snd (sendCircleFullNotification env mailer uid email cn p b' s))"
  unfolding circleNotices by (rule announce_run [OF assms])+

lemma processNotice_run: "noticeRun s \<Longrightarrow> noticeRun (snd (processNotice env mailer loc j s))"
  by (simp add: processNotice_def noticeHandlers accountMails Let_def alongside_run noticeRun.mail
      split: accountKind.split)

section \<open>Reading\<close>

lemma filter_inApp_map:
  assumes "\<And>n. nt_userId (f n) = nt_userId n" and "\<And>n. nt_type (f n) = nt_type n"
  shows "inApp uid (s\<lparr>notifications := map f (notifications s)\<rparr>) = map f (inApp uid s)"
proof -
  have "(\<lambda>n. nt_userId n = uid \<and> nt_type n = NT_IN_APP) \<circ> f = (\<lambda>n. nt_userId n = uid \<and> nt_type n = NT_IN_APP)"
    using assms by auto
  then show ?thesis by (simp add: inApp_def filter_map)
qed

lemma readNow_kept [simp]: "nt_id (readNow env n) = nt_id n" "nt_userId (readNow env n) = nt_userId n"
  "nt_type (readNow env n) = nt_type n" "nt_isRead (readNow env n)"
  by (simp_all add: readNow_def)

lemma inApp_markAll:
  "inApp v (markAllAsRead env uid s) =
     map (\<lambda>n. if nt_userId n = uid \<and> \<not> nt_isRead n then readNow env n else n) (inApp v s)"
  unfolding markAllAsRead_def by (rule filter_inApp_map) simp_all

lemma inApp_mark:
  "inApp v (markAsRead env uid i s) =
     map (\<lambda>n. if nt_id n = i \<and> nt_userId n = uid then readNow env n else n) (inApp v s)"
  unfolding markAsRead_def by (rule filter_inApp_map) simp_all

lemma inApp_user: "n \<in> set (inApp uid s) \<Longrightarrow> nt_userId n = uid"
  by (simp add: inApp_def)

lemma markAll_unread: "getUnreadCount uid (markAllAsRead env uid s) = 0"
  using inApp_user by (fastforce simp: getUnreadCount_def inApp_markAll filter_empty_conv)

text \<open>What one user reads stays the same for every other user.\<close>

lemma mark_others: "v \<noteq> uid \<Longrightarrow> inApp v (markAsRead env uid i s) = inApp v s"
  unfolding inApp_mark using inApp_user by (intro map_idI) auto

lemma markAll_others: "v \<noteq> uid \<Longrightarrow> inApp v (markAllAsRead env uid s) = inApp v s"
  unfolding inApp_markAll using inApp_user by (intro map_idI) auto

section \<open>Two workers for one queue\<close>

text \<open>A verified address is to open the KYC record and to be confirmed by mail; each worker does one half.\<close>

lemma takeJob_half:
  assumes "aj_kind j = EMAIL_VERIFIED" and "kycOfUser (aj_userId j) s = None"
  shows "kycOfUser (aj_userId j) (fst (takeJob env mailer loc NOTIFICATION_WORKER j (s, m))) = None"
    and "kycOfUser (aj_userId j) (fst (takeJob env mailer loc KYC_WORKER j (s, m))) = Some (newKyc (aj_userId j))"
    and "snd (takeJob env mailer loc KYC_WORKER j (s, m)) = m"
  using assms
  by (auto simp: takeJob_def kycEvent_def processAuthEvent_def initializeKyc_def kycOfUser_def find_append newKyc_def)

lemma takeJob_dropped:
  assumes "aj_kind j \<noteq> EMAIL_VERIFIED"
  shows "takeJob env mailer loc KYC_WORKER j p = p"
  using assms by (cases p) (simp add: takeJob_def kycEvent_def processAuthEvent_def split: accountKind.split)

end
