(* ===== verification/Provider.thy ===== *)
theory Provider
  imports Funding VirtualAccounts
begin

text \<open>
  \<^verbatim>\<open>src/config/flutterwave.config.ts\<close>, \<^verbatim>\<open>src/modules/flutterwave/flutterwave.provider.ts\<close> and
  \<^verbatim>\<open>src/modules/banks\<close>: the client of the payment provider.  The HTTP calls are arguments, one per
  endpoint; \<open>environ\<close> gives the variables of the process.  In mock mode no call is made.
\<close>

section \<open>Configuration\<close>

record flwConfig =
  fc_isLive :: bool
  fc_env :: string
  fc_secretKey :: string
  fc_publicKey :: string
  fc_webhookHash :: string
  fc_baseUrl :: string
  fc_bypassWebhookVerification :: bool
  fc_mockMode :: bool
  fc_testBvn :: string

type_synonym environ = "string \<Rightarrow> string option"

definition flwLive :: "environ \<Rightarrow> bool" where
  "flwLive environ \<longleftrightarrow>
     (let explicitEnv = map_option toLowerCase (environ ''FLW_ENV'') in
      explicitEnv = Some ''live'' \<or>
      (explicitEnv \<noteq> Some ''test'' \<and> environ ''NODE_ENV'' = Some ''production''))"

text \<open>A missing or an empty credential stops a process in production.\<close>

definition flutterwaveConfig :: "environ \<Rightarrow> flwConfig result" where
  "flutterwaveConfig environ =
     (let isLive = flwLive environ;
          bypassRequested = (environ ''BYPASS_WEBHOOK_VERIFICATION'' = Some ''true'');
          secretKey = environ (if isLive then ''FLW_SECRET_KEY_LIVE'' else ''FLW_SECRET_KEY_TEST'');
          publicKey = environ (if isLive then ''FLW_PUBLIC_KEY_LIVE'' else ''FLW_PUBLIC_KEY_TEST'');
          webhookHash = environ (if isLive then ''FLW_WEBHOOK_HASH_LIVE'' else ''FLW_WEBHOOK_HASH_TEST'');
          production = (environ ''NODE_ENV'' = Some ''production'')
      in
      bindE (ensure (\<not> (production \<and> (\<not> present secretKey \<or> \<not> present webhookHash)))
        (PlainError ''Missing Flutterwave credentials'')) (\<lambda>_.
      bindE (ensure (\<not> (production \<and> bypassRequested))
        (PlainError ''BYPASS_WEBHOOK_VERIFICATION must be false in production.'')) (\<lambda>_.
      Inr \<lparr>fc_isLive = isLive, fc_env = (if isLive then ''live'' else ''test''),
           fc_secretKey = orOld secretKey '''', fc_publicKey = orOld publicKey '''',
           fc_webhookHash = orOld webhookHash '''',
           fc_baseUrl = orOld (environ ''FLW_BASE_URL'') ''https://api.flutterwave.com/v3'',
           fc_bypassWebhookVerification = (\<not> production \<and> bypassRequested),
           fc_mockMode = (environ ''MOCK_FLUTTERWAVE'' = Some ''true''),
           fc_testBvn = ''22222222222''\<rparr>)))"

section \<open>Webhooks\<close>

text \<open>\<^verbatim>\<open>crypto.timingSafeEqual\<close> compares buffers of the same length.\<close>

definition verifyWebhookSignature :: "flwConfig \<Rightarrow> string \<Rightarrow> bool" where
  "verifyWebhookSignature cfg signatureHeader =
     (if fc_bypassWebhookVerification cfg then True
      else if signatureHeader = '''' \<or> fc_webhookHash cfg = '''' then False
      else if length signatureHeader \<noteq> length (fc_webhookHash cfg) then False
      else signatureHeader = fc_webhookHash cfg)"

section \<open>Payments and transfers\<close>

definition initiatePayment :: "flwConfig \<Rightarrow> paymentProvider \<Rightarrow> paymentProvider" where
  "initiatePayment cfg http payload =
     (if fc_mockMode cfg
      then Inr \<lparr>cr_status = ''success'', cr_message = Some ''Mock payment initiated'',
                cr_link = Some (''https://mock.flutterwave.com/pay/'' @ cp_tx_ref payload)\<rparr>
      else http payload)"

definition verifyTransaction :: "flwConfig \<Rightarrow> (int \<Rightarrow> string + providerTx) \<Rightarrow> chargeVerifier" where
  "verifyTransaction cfg http transactionId expectedTxRef =
     (if fc_mockMode cfg
      then Inr \<lparr>pv_id = transactionId, pv_tx_ref = expectedTxRef,
                pv_flw_ref = Some (''FLW-MOCK-'' @ showInt transactionId), pv_amount = 1000,
                pv_charged_amount = 1000, pv_currency = ''NGN'', pv_status = ''successful'',
                pv_payment_type = Some ''card''\<rparr>
      else http transactionId)"

text \<open>\<open>draw\<close> is the number \<^verbatim>\<open>Math.random()\<close> gives for the identifier.\<close>

definition verifyTransactionByReference :: "flwConfig \<Rightarrow> int \<Rightarrow> paymentVerifier \<Rightarrow> paymentVerifier" where
  "verifyTransactionByReference cfg draw http txRef =
     (if fc_mockMode cfg
      then Inr \<lparr>vf_status = ''success'', vf_message = Some ''Mock verification by reference'',
                vf_data = Some \<lparr>pv_id = draw, pv_tx_ref = txRef,
                  pv_flw_ref = Some (''FLW-MOCK-'' @ txRef), pv_amount = 1000,
                  pv_charged_amount = 1000, pv_currency = ''NGN'', pv_status = ''successful'',
                  pv_payment_type = None\<rparr>\<rparr>
      else http txRef)"

definition initiateTransfer :: "flwConfig \<Rightarrow> int \<Rightarrow> transferProvider \<Rightarrow> transferProvider" where
  "initiateTransfer cfg draw http payload =
     (if fc_mockMode cfg
      then Inr \<lparr>tr_status = ''success'', tr_message = ''Mock transfer initiated'', tr_id = Some draw,
                tr_dataStatus = Some ''NEW''\<rparr>
      else http payload)"

section \<open>Accounts\<close>

text \<open>\<^verbatim>\<open>padStart(4, '0')\<close> of a number below 10000\<close>

definition padStart4 :: "nat \<Rightarrow> string" where
  "padStart4 n = replicate (4 - length (showNat n)) (CHR ''0'') @ showNat n"

definition createVirtualAccount ::
  "flwConfig \<Rightarrow> env \<Rightarrow> nat \<Rightarrow> (vaRequest \<Rightarrow> string + vaResponse) \<Rightarrow> vaRequest \<Rightarrow> string + vaResponse" where
  "createVirtualAccount cfg env draw http payload =
     (if fc_mockMode cfg
      then Inr \<lparr>vs_status = ''success'', vs_message = ''Mock virtual account created'',
                vs_data = Some \<lparr>vd_account_number = Some (''990000'' @ padStart4 draw),
                  vd_bank_name = Some ''WEMA BANK'',
                  vd_account_name = Some (vq_firstname payload @ '' '' @ vq_lastname payload),
                  vd_flw_ref = Some (''FLW-MOCK-VA-'' @ showInt (now env)),
                  vd_order_ref = Some (''URF_MOCK_'' @ showInt (now env)),
                  vd_is_active = Some True,
                  vd_response_message = Some ''Transaction in progress''\<rparr>\<rparr>
      else http payload)"

definition updateVirtualAccountBvn ::
  "flwConfig \<Rightarrow> env \<Rightarrow> nat \<Rightarrow> (string \<Rightarrow> string \<Rightarrow> string + vaResponse) \<Rightarrow> string \<Rightarrow> string \<Rightarrow> string + vaResponse" where
  "updateVirtualAccountBvn cfg env draw http orderRef bvn =
     (if fc_mockMode cfg
      then Inr \<lparr>vs_status = ''success'', vs_message = ''Mock BVN updated'',
                vs_data = Some \<lparr>vd_account_number = Some (''990000'' @ padStart4 draw),
                  vd_bank_name = Some ''WEMA BANK'', vd_account_name = None,
                  vd_flw_ref = Some (''FLW-MOCK-VA-'' @ showInt (now env)),
                  vd_order_ref = Some orderRef, vd_is_active = Some True,
                  vd_response_message = Some ''BVN updated''\<rparr>\<rparr>
      else http orderRef bvn)"

record accountResolve =
  ar_status :: string
  ar_message :: "string option"
  ar_data :: "(string \<times> string) option"

text \<open>An error that carries a response becomes an answer, with the message of its body.\<close>

definition resolveAccountName ::
  "(string \<Rightarrow> string \<Rightarrow> thrown + accountResolve) \<Rightarrow> string \<Rightarrow> string \<Rightarrow> thrown + accountResolve" where
  "resolveAccountName http accountNumber accountBank =
     (case http accountNumber accountBank of
        Inl (AxiosFailure (Some body) message) \<Rightarrow>
          Inr \<lparr>ar_status = ''error'',
               ar_message = Some (orOld (eb_message body) ''Account resolution failed''), ar_data = None\<rparr>
      | answer \<Rightarrow> answer)"

section \<open>Banks\<close>

record bank =
  bk_id :: int
  bk_code :: string
  bk_name :: string

record bankCache =
  bc_banks :: "bank list option"
  bc_expiry :: int

record bankListResponse =
  bl_status :: string
  bl_data :: "bank list option"

definition CACHE_TTL_MS :: int where "CACHE_TTL_MS = 6 * 60 * 60 * 1000"

definition getBanks ::
  "env \<Rightarrow> (string + bankListResponse) \<Rightarrow> bankCache \<Rightarrow> bank list result \<times> bankCache" where
  "getBanks env answer s =
     (case (if bc_banks s \<noteq> None \<and> now env < bc_expiry s then bc_banks s else None) of
        Some banks \<Rightarrow> (Inr banks, s)
      | None \<Rightarrow>
          (case answer of
             Inl message \<Rightarrow> (Inl (PlainError message), s)
           | Inr r \<Rightarrow>
               (case (if bl_status r = ''success'' then bl_data r else None) of
                  None \<Rightarrow> (Inl (BadRequest ''Unable to fetch bank list at this time''), s)
                | Some banks \<Rightarrow>
                    (Inr banks, \<lparr>bc_banks = Some banks, bc_expiry = now env + CACHE_TTL_MS\<rparr>))))"

definition verifyBankAccount ::
  "(string \<Rightarrow> string \<Rightarrow> thrown + accountResolve) \<Rightarrow> string \<Rightarrow> string \<Rightarrow> (string \<times> string) result" where
  "verifyBankAccount http accountNumber bankCode =
     (case resolveAccountName http accountNumber bankCode of
        Inl _ \<Rightarrow> Inl (PlainError ''Account verification failed'')
      | Inr r \<Rightarrow>
          (case (if ar_status r = ''success'' then ar_data r else None) of
             None \<Rightarrow> Inl (BadRequest (orOld (ar_message r) ''Account verification failed''))
           | Some d \<Rightarrow> Inr d))"

section \<open>What production checks\<close>

lemma flutterwaveConfig_Inr:
  assumes "flutterwaveConfig environ = Inr cfg"
  shows "environ ''NODE_ENV'' = Some ''production'' \<Longrightarrow> fc_webhookHash cfg \<noteq> '''' \<and>
      fc_secretKey cfg \<noteq> '''' \<and> \<not> fc_bypassWebhookVerification cfg"
    and "fc_mockMode cfg \<longleftrightarrow> environ ''MOCK_FLUTTERWAVE'' = Some ''true''"
    and "fc_isLive cfg \<longleftrightarrow> flwLive environ"
  using assms
  by (auto simp: flutterwaveConfig_def Let_def result_simps present_def orOld_def split: option.splits)

lemma verifyWebhookSignature_iff:
  "\<not> fc_bypassWebhookVerification cfg \<Longrightarrow>
   verifyWebhookSignature cfg h \<longleftrightarrow> h = fc_webhookHash cfg \<and> h \<noteq> ''''"
  by (auto simp: verifyWebhookSignature_def)

text \<open>In production only the hash of the configuration passes.\<close>

lemma production_signature:
  assumes "flutterwaveConfig environ = Inr cfg" and "environ ''NODE_ENV'' = Some ''production''"
  shows "verifyWebhookSignature cfg h \<longleftrightarrow> h = fc_webhookHash cfg"
  using flutterwaveConfig_Inr(1) [OF assms] by (auto simp: verifyWebhookSignature_iff)

text \<open>Mock mode is not checked: a process in production with the variable set asks nobody.\<close>

lemma mock_asks_nobody:
  assumes "fc_mockMode cfg"
  shows "initiatePayment cfg http1 = initiatePayment cfg http2"
    and "verifyTransaction cfg http3 = verifyTransaction cfg http4"
    and "verifyTransactionByReference cfg n http5 = verifyTransactionByReference cfg n http6"
    and "initiateTransfer cfg n http7 = initiateTransfer cfg n http8"
  using assms
  by (auto simp: fun_eq_iff initiatePayment_def verifyTransaction_def verifyTransactionByReference_def
      initiateTransfer_def)

section \<open>The cache of banks\<close>

lemma getBanks_fetched:
  assumes "getBanks env answer s = (Inr banks, s')"
  shows "bc_banks s' = Some banks \<and>
    (s' = s \<and> now env < bc_expiry s \<or> bc_expiry s' = now env + CACHE_TTL_MS)"
  using assms by (auto simp: getBanks_def split: option.splits sum.splits if_splits)

lemma getBanks_cached:
  assumes "getBanks env answer s = (Inr banks, s')" and "now env < bc_expiry s'"
    and "now env' < bc_expiry s'"
  shows "getBanks env' answer' s' = (Inr banks, s')"
  using getBanks_fetched [OF assms(1)] assms(3) by (simp add: getBanks_def)

lemma getBanks_failed: "getBanks env answer s = (Inl e, s') \<Longrightarrow> s' = s"
  by (auto simp: getBanks_def split: option.splits sum.splits if_splits)

end
