(* ===== verification/Reports.thy ===== *)
theory Reports
  imports Governance Resets Contribution "HOL-Library.List_Lexorder" "HOL-Library.Char_ord"
begin

text \<open>
  The reports of \<^verbatim>\<open>src/modules/superadmin\<close>: \<^verbatim>\<open>superadmin-analytics.service.ts\<close> and the queries of
  \<^verbatim>\<open>superadmin-audit.service.ts\<close>.  They read the columns \<^verbatim>\<open>createdAt\<close> of rows that leave it out;
  \<open>stamps\<close> gives them.
\<close>

record stamps =
  st_entry :: "ledgerEntry \<Rightarrow> int"
  st_circle :: "circle \<Rightarrow> int"
  st_wallet :: "wallet \<Rightarrow> int"
  st_audit :: "auditLog \<Rightarrow> int"

section \<open>Dates as text\<close>

definition padTo :: "nat \<Rightarrow> string \<Rightarrow> string" where
  "padTo n x = replicate (n - length x) (CHR ''0'') @ x"

text \<open>\<^verbatim>\<open>toISOString\<close>, of the years 0 to 9999, and its first ten characters\<close>

definition isoDay :: "int \<Rightarrow> string" where
  "isoDay t = padTo 4 (showInt (getFullYear 0 t)) @ ''-'' @ padTo 2 (showInt (getMonth 0 t + 1)) @ ''-'' @
     padTo 2 (showInt (getDate 0 t))"

definition isoString :: "int \<Rightarrow> string" where
  "isoString t =
     (let ms = localTime 0 t in
      isoDay t @ ''T'' @ padTo 2 (showInt (ms div 3600000)) @ '':'' @
      padTo 2 (showInt (ms div 60000 mod 60)) @ '':'' @ padTo 2 (showInt (ms div 1000 mod 60)) @ ''.'' @
      padTo 3 (showInt (ms mod 1000)) @ ''Z'')"

section \<open>Balances\<close>

text \<open>
  The query takes the newest \<^verbatim>\<open>balance_after\<close> of every wallet, nothing for a wallet without entries,
  and adds them up.
\<close>

definition totalBalanceKobo :: "db \<Rightarrow> int" where
  "totalBalanceKobo s = sum_list (map (\<lambda>w. computeTotalBalance s (w_id w)) (wallets s))"

definition platformPoolKobo :: "db \<Rightarrow> int" where
  "platformPoolKobo s =
     (case systemWalletOf PLATFORM_POOL s of None \<Rightarrow> 0 | Some sw \<Rightarrow> computeTotalBalance s (sw_walletId sw))"

definition toNaira :: "int \<Rightarrow> rat" where
  "toNaira kobo = toFixed2 (koboToNaira kobo)"

record superDashboard =
  sd_users :: "nat \<times> nat \<times> nat \<times> nat \<times> nat"
  sd_circles :: "nat \<times> nat \<times> nat \<times> nat \<times> nat"
  sd_kyc :: "nat \<times> nat \<times> nat"
  sd_totalUserBalanceKobo :: int
  sd_totalUserBalanceNaira :: rat
  sd_platformPoolKobo :: int
  sd_platformPoolNaira :: rat
  sd_totalWallets :: nat

definition countIf :: "('a \<Rightarrow> bool) \<Rightarrow> 'a list \<Rightarrow> nat" where
  "countIf P xs = length (filter P xs)"

definition weekMs :: int where "weekMs = 7 * 24 * 60 * 60 * 1000"

text \<open>No operation creates a missed-contribution debt, so their count is left out.\<close>

definition getSuperDashboard :: "env \<Rightarrow> stamps \<Rightarrow> db \<Rightarrow> superDashboard" where
  "getSuperDashboard env st s =
     (let weekAgo = now env - weekMs; users = users s; circles = circles s; kycs = kycs s in
      \<lparr>sd_users = (length users, countIf (\<lambda>u. u_status u = US_ACTIVE) users,
         countIf (\<lambda>u. u_status u = US_SUSPENDED) users, countIf (\<lambda>u. u_status u = US_BANNED) users,
         countIf (\<lambda>u. weekAgo \<le> u_createdAt u) users),
       sd_circles = (length circles, countIf (\<lambda>c. c_status c = CS_ACTIVE) circles,
         countIf (\<lambda>c. c_status c = CS_COMPLETED) circles, countIf (\<lambda>c. c_status c = CS_CANCELLED) circles,
         countIf (\<lambda>c. weekAgo \<le> st_circle st c) circles),
       sd_kyc = (countIf (\<lambda>k. k_status k = KS_PENDING) kycs, countIf (\<lambda>k. k_status k = KS_APPROVED) kycs,
         countIf (\<lambda>k. k_status k = KS_REJECTED) kycs),
       sd_totalUserBalanceKobo = totalBalanceKobo s,
       sd_totalUserBalanceNaira = toNaira (totalBalanceKobo s),
       sd_platformPoolKobo = platformPoolKobo s, sd_platformPoolNaira = toNaira (platformPoolKobo s),
       sd_totalWallets = length (wallets s)\<rparr>)"

record walletSummary =
  ws_totalUserBalanceKobo :: int
  ws_totalUserBalanceNaira :: rat
  ws_platformPoolKobo :: int
  ws_platformPoolNaira :: rat
  ws_active :: nat
  ws_frozen :: nat
  ws_suspended :: nat

definition getWalletSummary :: "db \<Rightarrow> walletSummary" where
  "getWalletSummary s =
     \<lparr>ws_totalUserBalanceKobo = totalBalanceKobo s, ws_totalUserBalanceNaira = toNaira (totalBalanceKobo s),
      ws_platformPoolKobo = platformPoolKobo s, ws_platformPoolNaira = toNaira (platformPoolKobo s),
      ws_active = countIf (\<lambda>w. w_status w = WS_ACTIVE) (wallets s),
      ws_frozen = countIf (\<lambda>w. w_status w = WS_RESTRICTED) (wallets s),
      ws_suspended = countIf (\<lambda>w. w_status w = WS_SUSPENDED) (wallets s)\<rparr>"

section \<open>Analytics\<close>

datatype period = SEVEN_DAYS | THIRTY_DAYS | NINETY_DAYS | CUSTOM

definition periodDays :: "period \<Rightarrow> int" where
  "periodDays p = (case p of SEVEN_DAYS \<Rightarrow> 7 | NINETY_DAYS \<Rightarrow> 90 | _ \<Rightarrow> 30)"

definition resolveDateRange :: "env \<Rightarrow> period \<Rightarrow> int option \<Rightarrow> int option \<Rightarrow> int \<times> int" where
  "resolveDateRange env p startDate endDate =
     (case (if p = CUSTOM then startDate else None, endDate) of
        (Some a, Some b) \<Rightarrow> (a, b)
      | _ \<Rightarrow> (now env - periodDays p * 86400000, now env))"

text \<open>\<^verbatim>\<open>map[day] = (map[day] ?? 0n) + e.amount\<close>, keys in the order they are first set\<close>

primrec addToDay :: "string \<Rightarrow> int \<Rightarrow> (string \<times> int) list \<Rightarrow> (string \<times> int) list" where
  "addToDay d a [] = [(d, a)]"
| "addToDay d a (p # ps) = (if fst p = d then (d, snd p + a) # ps else p # addToDay d a ps)"

definition bucketByDay :: "stamps \<Rightarrow> ledgerEntry list \<Rightarrow> (string \<times> int) list" where
  "bucketByDay st es =
     sort_key fst (foldl (\<lambda>m e. addToDay (isoDay (st_entry st e)) (le_amount e) m) [] es)"

record flow =
  fl_totalKobo :: int
  fl_totalNaira :: rat
  fl_count :: nat
  fl_byDay :: "(string \<times> int) list"

definition sumKobo :: "ledgerEntry list \<Rightarrow> int" where
  "sumKobo es = sum_list (map le_amount es)"

definition flowOf :: "stamps \<Rightarrow> ledgerEntry list \<Rightarrow> flow" where
  "flowOf st es = \<lparr>fl_totalKobo = sumKobo es, fl_totalNaira = toNaira (sumKobo es),
     fl_count = length es, fl_byDay = bucketByDay st es\<rparr>"

record transactionAnalytics =
  ta_start :: string
  ta_end :: string
  ta_inflow :: flow
  ta_outflow :: flow
  ta_platformFees :: flow

definition getTransactionAnalytics ::
  "env \<Rightarrow> stamps \<Rightarrow> period \<Rightarrow> int option \<Rightarrow> int option \<Rightarrow> db \<Rightarrow> transactionAnalytics" where
  "getTransactionAnalytics env st p startDate endDate s =
     (let (t0, t1) = resolveDateRange env p startDate endDate;
          inRange = (\<lambda>e. t0 \<le> st_entry st e \<and> st_entry st e \<le> t1) in
      \<lparr>ta_start = isoString t0, ta_end = isoString t1,
       ta_inflow = flowOf st (filter (\<lambda>e. le_entryType e = CREDIT \<and> le_movementType e = FUNDING \<and>
         le_sourceType e = ST_TRANSACTION \<and> inRange e) (ledgerEntries s)),
       ta_outflow = flowOf st (filter (\<lambda>e. le_entryType e = DEBIT \<and> le_movementType e = WITHDRAWAL \<and>
         inRange e) (ledgerEntries s)),
       ta_platformFees = flowOf st (filter (\<lambda>e. le_sourceType e = ST_PLATFORM_FEE \<and> inRange e)
         (ledgerEntries s))\<rparr>)"

section \<open>Growth\<close>

record growth =
  gr_current :: nat
  gr_previous :: nat
  gr_delta :: int
  gr_percentChange :: "rat option"
  gr_series :: "(string \<times> nat) list"

text \<open>\<^verbatim>\<open>toFixed(1)\<close>\<close>

definition toFixed1 :: "rat \<Rightarrow> rat" where
  "toFixed1 x = (if x < 0 then - (of_int \<lfloor>- x * 10 + 1 / 2\<rfloor> / 10) else of_int \<lfloor>x * 10 + 1 / 2\<rfloor> / 10)"

definition pctChange :: "nat \<Rightarrow> nat \<Rightarrow> rat option" where
  "pctChange n m =
     (if m = 0 then None else Some (toFixed1 ((of_nat n - of_nat m) / of_nat m * 100)))"

text \<open>\<^verbatim>\<open>GROUP BY day ORDER BY day\<close>\<close>

definition dailySeries :: "int list \<Rightarrow> (string \<times> nat) list" where
  "dailySeries moments =
     map (\<lambda>d. (isoDay (d * msPerDay), countIf (\<lambda>t. localDay 0 t = d) moments))
       (sort (remdups (map (localDay 0) moments)))"

definition growthOf :: "int \<Rightarrow> int \<Rightarrow> int list \<Rightarrow> growth" where
  "growthOf currentStart previousStart moments =
     (let current = countIf (\<lambda>t. currentStart \<le> t) moments;
          previous = countIf (\<lambda>t. previousStart \<le> t \<and> t < currentStart) moments in
      \<lparr>gr_current = current, gr_previous = previous, gr_delta = int current - int previous,
       gr_percentChange = pctChange current previous,
       gr_series = dailySeries (filter (\<lambda>t. currentStart \<le> t) moments)\<rparr>)"

definition getGrowthMetrics :: "env \<Rightarrow> stamps \<Rightarrow> period \<Rightarrow> db \<Rightarrow> growth \<times> growth" where
  "getGrowthMetrics env st p s =
     (let currentStart = now env - periodDays p * 86400000;
          previousStart = currentStart - periodDays p * 86400000 in
      (growthOf currentStart previousStart (map u_createdAt (users s)),
       growthOf currentStart previousStart (map (st_circle st) (circles s))))"

section \<open>Lists\<close>

record walletRow =
  wr_wallet :: wallet
  wr_createdAt :: int
  wr_balanceKobo :: int
  wr_balanceNaira :: rat
  wr_lastActivityAt :: "int option"
  wr_user :: "(string \<times> string \<times> string \<times> string) option"

definition walletRowOf :: "stamps \<Rightarrow> db \<Rightarrow> wallet \<Rightarrow> walletRow" where
  "walletRowOf st s w =
     (let latestEntry = findFirst (\<lambda>e. le_walletId e = w_id w) (ledgerEntries s);
          balanceKobo = (case latestEntry of None \<Rightarrow> 0 | Some e \<Rightarrow> le_balanceAfter e) in
      \<lparr>wr_wallet = w, wr_createdAt = st_wallet st w, wr_balanceKobo = balanceKobo,
       wr_balanceNaira = toNaira balanceKobo, wr_lastActivityAt = map_option (st_entry st) latestEntry,
       wr_user = map_option person (userById (w_userId w) s)\<rparr>)"

definition walletMatches :: "string option \<Rightarrow> walletStatus option \<Rightarrow> db \<Rightarrow> wallet \<Rightarrow> bool" where
  "walletMatches search status s w \<longleftrightarrow>
     (case status of None \<Rightarrow> True | Some x \<Rightarrow> w_status w = x) \<and>
     (if present search
      then (case userById (w_userId w) s of None \<Rightarrow> False
            | Some u \<Rightarrow> containsText (orOld search '''') (u_firstName u) \<or>
                containsText (orOld search '''') (u_lastName u) \<or> containsText (orOld search '''') (u_email u))
      else True)"

definition listWallets :: "stamps \<Rightarrow> paging \<Rightarrow> string option \<Rightarrow> walletStatus option \<Rightarrow> db \<Rightarrow> walletRow paged" where
  "listWallets st q search status s =
     paginate q (map (walletRowOf st s)
       (sort_key (\<lambda>w. - st_wallet st w) (filter (walletMatches search status s) (wallets s))))"

record ledgerQuery =
  lq_userId :: "string option"
  lq_reference :: "string option"
  lq_sourceType :: "ledgerSourceType option"
  lq_startDate :: "int option"
  lq_endDate :: "int option"
  lq_paging :: paging

definition between :: "int option \<Rightarrow> int option \<Rightarrow> int \<Rightarrow> bool" where
  "between a b t \<longleftrightarrow> (case a of None \<Rightarrow> True | Some x \<Rightarrow> x \<le> t) \<and> (case b of None \<Rightarrow> True | Some y \<Rightarrow> t \<le> y)"

definition ledgerMatches :: "stamps \<Rightarrow> ledgerQuery \<Rightarrow> db \<Rightarrow> ledgerEntry \<Rightarrow> bool" where
  "ledgerMatches st q s e \<longleftrightarrow>
     (if present (lq_userId q)
      then le_walletId e = (case walletOfUser (orOld (lq_userId q) '''') s of
             None \<Rightarrow> ''none'' | Some w \<Rightarrow> w_id w)
      else True) \<and>
     (if present (lq_reference q) then containsText (orOld (lq_reference q) '''') (le_reference e) else True) \<and>
     (case lq_sourceType q of None \<Rightarrow> True | Some x \<Rightarrow> le_sourceType e = x) \<and>
     between (lq_startDate q) (lq_endDate q) (st_entry st e)"

text \<open>Each entry with the user of its wallet; the ledger has its newest entry first.\<close>

definition getLedgerEntries ::
  "stamps \<Rightarrow> ledgerQuery \<Rightarrow> db \<Rightarrow> (ledgerEntry \<times> (string \<times> string \<times> string \<times> string) option) paged" where
  "getLedgerEntries st q s =
     paginate (lq_paging q)
       (map (\<lambda>e. (e, case walletById (le_walletId e) s of None \<Rightarrow> None
                   | Some w \<Rightarrow> map_option person (userById (w_userId w) s)))
         (filter (ledgerMatches st q s) (ledgerEntries s)))"

record auditQuery =
  aq_actorId :: "string option"
  aq_entityType :: "string option"
  aq_action :: "string option"
  aq_startDate :: "int option"
  aq_endDate :: "int option"
  aq_paging :: paging

definition auditMatches :: "stamps \<Rightarrow> auditQuery \<Rightarrow> auditLog \<Rightarrow> bool" where
  "auditMatches st q a \<longleftrightarrow>
     (if present (aq_actorId q) then Some (al_actorId a) = aq_actorId q else True) \<and>
     (if present (aq_entityType q) then Some (al_entityType a) = aq_entityType q else True) \<and>
     (if present (aq_action q) then containsText (orOld (aq_action q) '''') (al_action a) else True) \<and>
     between (aq_startDate q) (aq_endDate q) (st_audit st a)"

definition getAuditLogs :: "stamps \<Rightarrow> auditQuery \<Rightarrow> db \<Rightarrow> auditLog paged" where
  "getAuditLogs st q s = paginate (aq_paging q) (rev (filter (auditMatches st q) (auditLogs s)))"

section \<open>The days add up\<close>

lemma addToDay_sum: "sum_list (map snd (addToDay d a ps)) = a + sum_list (map snd ps)"
  by (induction ps) auto

lemma addToDay_keys: "fst ` set (addToDay d a ps) = insert d (fst ` set ps)"
  by (induction ps) auto

lemma addToDay_distinct: "distinct (map fst ps) \<Longrightarrow> distinct (map fst (addToDay d a ps))"
proof (induction ps)
  case (Cons p ps)
  then show ?case using addToDay_keys [of d a ps] by (auto simp: image_iff)
qed simp

lemma addToDay_lookup:
  "map_of (addToDay d a ps) x =
     (if x = d then Some (a + (case map_of ps d of None \<Rightarrow> 0 | Some b \<Rightarrow> b)) else map_of ps x)"
  by (induction ps) auto

lemma sum_list_sort_key: "sum_list (map g (sort_key f xs)) = (sum_list (map g xs) :: int)"
  by (metis mset_map mset_sort sum_mset_sum_list)

lemma buckets_fold:
  "sum_list (map snd (foldl (\<lambda>m e. addToDay (k e) (g e) m) ps es)) =
     sum_list (map snd ps) + sum_list (map g es)"
  by (induction es arbitrary: ps) (simp_all add: addToDay_sum)

lemma bucketByDay_total: "sum_list (map snd (bucketByDay st es)) = sumKobo es"
  by (simp add: bucketByDay_def sum_list_sort_key buckets_fold sumKobo_def)

lemma buckets_distinct:
  "distinct (map fst ps) \<Longrightarrow> distinct (map fst (foldl (\<lambda>m e. addToDay (k e) (g e) m) ps es))"
  by (induction es arbitrary: ps) (simp_all add: addToDay_distinct)

lemma buckets_lookup:
  "map_of (foldl (\<lambda>m e. addToDay (k e) (g e) m) [] es) d =
     (let own = filter (\<lambda>e. k e = d) es in if own = [] then None else Some (sum_list (map g own)))"
  by (induction es rule: rev_induct) (auto simp: addToDay_lookup Let_def split: if_splits)

text \<open>Each day once, in order, with what was moved that day.\<close>

lemma bucketByDay_days:
  "sorted (map fst (bucketByDay st es)) \<and> distinct (map fst (bucketByDay st es)) \<and>
   map_of (bucketByDay st es) d =
     (let own = filter (\<lambda>e. isoDay (st_entry st e) = d) es in if own = [] then None else Some (sumKobo own))"
proof -
  let ?b = "foldl (\<lambda>m e. addToDay (isoDay (st_entry st e)) (le_amount e) m) [] es"
  have d: "distinct (map fst ?b)" by (rule buckets_distinct) simp
  have "mset (map fst (sort_key fst ?b)) = mset (map fst ?b)" by simp
  from mset_eq_imp_distinct_iff [OF this] d have d': "distinct (map fst (sort_key fst ?b))" by blast
  have "map_of (sort_key fst ?b) = map_of ?b"
    by (rule map_of_inject_set [OF d' d, THEN iffD2]) simp
  then show ?thesis
    using d' by (simp add: bucketByDay_def buckets_lookup sumKobo_def Let_def)
qed

section \<open>The total of the balances\<close>

lemma totalBalance_money:
  assumes "distinct (map w_id (wallets s))"
  shows "totalBalanceKobo s = moneyOf (w_id ` set (wallets s)) s"
proof -
  have "sum_list (map (\<lambda>w. computeTotalBalance s (w_id w)) ws) = (\<Sum>w\<in>w_id ` set ws. computeTotalBalance s w)"
    if "distinct (map w_id ws)" for ws
    using that by (induction ws) (auto simp: image_iff)
  then show ?thesis using assms by (simp add: totalBalanceKobo_def moneyOf_def)
qed

text \<open>
  What moves between wallets of the platform does not change the total, whose wallets include the
  platform's own.
\<close>

lemma totalBalance_posts:
  assumes "posts s ps s'" and "wallets s' = wallets s" and "distinct (map w_id (wallets s))"
    and "\<forall>p \<in> set ps. pg_wallet p \<in> w_id ` set (wallets s)"
  shows "totalBalanceKobo s' = totalBalanceKobo s + sum_list (map effectOf ps)"
  using posts_money [OF assms(1) _ assms(4)] totalBalance_money assms(2,3) by simp

lemma pool_in_total:
  assumes "distinct (map w_id (wallets s))" and "systemWalletOf PLATFORM_POOL s = Some sw"
    and "w \<in> set (wallets s)" and "w_id w = sw_walletId sw"
  shows "totalBalanceKobo s = platformPoolKobo s +
    sum_list (map (\<lambda>v. computeTotalBalance s (w_id v)) (filter (\<lambda>v. w_id v \<noteq> sw_walletId sw) (wallets s)))"
proof -
  have "sum_list (map f ws) = f w + sum_list (map f (filter (\<lambda>v. w_id v \<noteq> w_id w) ws))"
    if "distinct (map w_id ws)" and "w \<in> set ws" for f :: "wallet \<Rightarrow> int" and ws
    using that
  proof (induction ws)
    case (Cons v ws)
    show ?case
    proof (cases "w_id v = w_id w")
      case True
      then have "v = w" using Cons.prems by (auto simp: image_iff)
      moreover have "filter (\<lambda>x. w_id x \<noteq> w_id w) ws = ws"
        using Cons.prems True by (auto simp: filter_id_conv image_iff)
      ultimately show ?thesis by simp
    qed (use Cons in auto)
  qed simp
  from this [OF assms(1,3)] show ?thesis
    using assms(2,4) by (simp add: totalBalanceKobo_def platformPoolKobo_def)
qed

end
