(* ===== verification/Exports.thy ===== *)
theory Exports
  imports Reports
begin

text \<open>
  The exports of \<^verbatim>\<open>superadmin-audit.service.ts\<close>, and whether a reader of CSV gets the columns back.
  Only the names of circles are quoted.
\<close>

section \<open>Lines\<close>

definition comma :: char where "comma = CHR '',''"
definition quote :: char where "quote = CHR 0x22"
definition newline :: char where "newline = CHR 0x0A"

fun joinWith :: "string \<Rightarrow> string list \<Rightarrow> string" where
  "joinWith sep [] = ''''"
| "joinWith sep [x] = x"
| "joinWith sep (x # y # xs) = x @ sep @ joinWith sep (y # xs)"

text \<open>\<^verbatim>\<open>r.name.replace(/"/g, '""')\<close> in quotes\<close>

primrec doubleQuotes :: "string \<Rightarrow> string" where
  "doubleQuotes [] = []"
| "doubleQuotes (c # cs) = (if c = quote then quote # quote # doubleQuotes cs else c # doubleQuotes cs)"

definition quoted :: "string \<Rightarrow> string" where
  "quoted x = [quote] @ doubleQuotes x @ [quote]"

definition csv :: "string \<Rightarrow> string list list \<Rightarrow> string" where
  "csv header rows = joinWith [newline] (header # map (joinWith [comma]) rows)"

section \<open>The names of the enumerations\<close>

definition entryTypeName :: "entryType \<Rightarrow> string" where
  "entryTypeName t = (case t of CREDIT \<Rightarrow> ''CREDIT'' | DEBIT \<Rightarrow> ''DEBIT'' | RESERVE \<Rightarrow> ''RESERVE''
     | RELEASE \<Rightarrow> ''RELEASE'')"

definition movementTypeName :: "movementType \<Rightarrow> string" where
  "movementTypeName t = (case t of FUNDING \<Rightarrow> ''FUNDING'' | WITHDRAWAL \<Rightarrow> ''WITHDRAWAL''
     | TRANSFER \<Rightarrow> ''TRANSFER'')"

fun sourceTypeName :: "ledgerSourceType \<Rightarrow> string" where
  "sourceTypeName ST_TRANSACTION = ''TRANSACTION''"
| "sourceTypeName ST_ROSCA_CIRCLE = ''ROSCA_CIRCLE''"
| "sourceTypeName ST_CONTRIBUTION = ''CONTRIBUTION''"
| "sourceTypeName ST_COLLATERAL_RESERVE = ''COLLATERAL_RESERVE''"
| "sourceTypeName ST_COLLATERAL_RELEASE = ''COLLATERAL_RELEASE''"
| "sourceTypeName ST_COLLATERAL_SEIZURE = ''COLLATERAL_SEIZURE''"
| "sourceTypeName ST_PENALTY = ''PENALTY''"
| "sourceTypeName ST_EXIT_PENALTY = ''EXIT_PENALTY''"
| "sourceTypeName ST_LIQUIDITY_BRIDGE = ''LIQUIDITY_BRIDGE''"
| "sourceTypeName ST_BRIDGE_REPAYMENT = ''BRIDGE_REPAYMENT''"
| "sourceTypeName ST_DEBT_REPAYMENT = ''DEBT_REPAYMENT''"
| "sourceTypeName ST_HELD_PAYOUT_DEPOSIT = ''HELD_PAYOUT_DEPOSIT''"
| "sourceTypeName ST_HELD_PAYOUT_RELEASE = ''HELD_PAYOUT_RELEASE''"
| "sourceTypeName ST_TRUST_ADJUSTMENT = ''TRUST_ADJUSTMENT''"
| "sourceTypeName ST_ADMIN_ADJUSTMENT = ''ADMIN_ADJUSTMENT''"
| "sourceTypeName ST_REVERSAL = ''REVERSAL''"
| "sourceTypeName ST_SYSTEM = ''SYSTEM''"
| "sourceTypeName ST_LOAN = ''LOAN''"
| "sourceTypeName ST_PLATFORM_FEE = ''PLATFORM_FEE''"

definition roleName :: "role \<Rightarrow> string" where
  "roleName r = (case r of MEMBER \<Rightarrow> ''MEMBER'' | ADMIN \<Rightarrow> ''ADMIN'' | SUPERADMIN \<Rightarrow> ''SUPERADMIN'')"

definition userStatusName :: "userStatus \<Rightarrow> string" where
  "userStatusName x = (case x of US_ACTIVE \<Rightarrow> ''ACTIVE'' | US_SUSPENDED \<Rightarrow> ''SUSPENDED''
     | US_BANNED \<Rightarrow> ''BANNED'')"

definition kycStatusName :: "kycStatus \<Rightarrow> string" where
  "kycStatusName x = (case x of KS_NOT_SUBMITTED \<Rightarrow> ''NOT_SUBMITTED'' | KS_PENDING \<Rightarrow> ''PENDING''
     | KS_APPROVED \<Rightarrow> ''APPROVED'' | KS_REJECTED \<Rightarrow> ''REJECTED'')"

definition circleStatusName :: "circleStatus \<Rightarrow> string" where
  "circleStatusName x = (case x of CS_DRAFT \<Rightarrow> ''DRAFT'' | CS_ACTIVE \<Rightarrow> ''ACTIVE''
     | CS_COMPLETED \<Rightarrow> ''COMPLETED'' | CS_CANCELLED \<Rightarrow> ''CANCELLED'')"

definition frequencyName :: "cycleFrequency \<Rightarrow> string" where
  "frequencyName x = (case x of WEEKLY \<Rightarrow> ''WEEKLY'' | BI_WEEKLY \<Rightarrow> ''BI_WEEKLY'' | MONTHLY \<Rightarrow> ''MONTHLY'')"

section \<open>The exports\<close>

datatype exportType = EXPORT_TRANSACTIONS | EXPORT_USERS | EXPORT_LEDGER | EXPORT_CIRCLES

definition transactionColumns :: "stamps \<Rightarrow> db \<Rightarrow> ledgerEntry \<Rightarrow> string list" where
  "transactionColumns st s e =
     (let u = (case walletById (le_walletId e) s of None \<Rightarrow> None | Some w \<Rightarrow> userById (w_userId w) s) in
      [le_id e, (case u of None \<Rightarrow> '''' | Some x \<Rightarrow> u_id x), (case u of None \<Rightarrow> '''' | Some x \<Rightarrow> u_email x),
       entryTypeName (le_entryType e), movementTypeName (le_movementType e),
       sourceTypeName (le_sourceType e), showInt (le_amount e), le_reference e,
       isoString (st_entry st e)])"

definition userColumns :: "db \<Rightarrow> user \<Rightarrow> string list" where
  "userColumns s u =
     [u_id u, u_firstName u, u_lastName u, u_email u, u_phone u, roleName (u_role u),
      userStatusName (u_status u), (if u_isVerified u then ''true'' else ''false''),
      (case kycOfUser (u_id u) s of None \<Rightarrow> '''' | Some k \<Rightarrow> kycStatusName (k_status k)),
      isoString (u_createdAt u)]"

definition ledgerColumns :: "stamps \<Rightarrow> ledgerEntry \<Rightarrow> string list" where
  "ledgerColumns st e =
     [le_id e, le_walletId e, entryTypeName (le_entryType e), movementTypeName (le_movementType e),
      sourceTypeName (le_sourceType e), showInt (le_amount e), showInt (le_balanceAfter e),
      le_reference e, isoString (st_entry st e)]"

definition circleColumns :: "stamps \<Rightarrow> db \<Rightarrow> circle \<Rightarrow> string list" where
  "circleColumns st s c =
     [c_id c, quoted (c_name c), circleStatusName (c_status c), showInt (c_contributionAmount c),
      frequencyName (c_frequency c), showInt (c_durationCycles c), showInt (c_currentCycle c),
      showInt (c_maxSlots c), showInt (int (countIf (\<lambda>m. m_circleId m = c_id c) (memberships s))),
      isoString (st_circle st c)]"

definition exportTransactions :: "stamps \<Rightarrow> int \<Rightarrow> int \<Rightarrow> db \<Rightarrow> string" where
  "exportTransactions st t0 t1 s =
     csv ''id,userId,email,entryType,movementType,sourceType,amountKobo,reference,createdAt''
       (map (transactionColumns st s) (rev (filter (\<lambda>e. t0 \<le> st_entry st e \<and> st_entry st e \<le> t1)
         (ledgerEntries s))))"

definition exportUsers :: "int \<Rightarrow> int \<Rightarrow> db \<Rightarrow> string" where
  "exportUsers t0 t1 s =
     csv ''id,firstName,lastName,email,phone,role,status,isVerified,kycStatus,createdAt''
       (map (userColumns s) (sort_key u_createdAt
         (filter (\<lambda>u. t0 \<le> u_createdAt u \<and> u_createdAt u \<le> t1) (users s))))"

definition exportLedger :: "stamps \<Rightarrow> int \<Rightarrow> int \<Rightarrow> db \<Rightarrow> string" where
  "exportLedger st t0 t1 s =
     csv ''id,walletId,entryType,movementType,sourceType,amountKobo,balanceAfterKobo,reference,createdAt''
       (map (ledgerColumns st) (rev (filter (\<lambda>e. t0 \<le> st_entry st e \<and> st_entry st e \<le> t1)
         (ledgerEntries s))))"

definition exportCircles :: "stamps \<Rightarrow> int \<Rightarrow> int \<Rightarrow> db \<Rightarrow> string" where
  "exportCircles st t0 t1 s =
     csv ''id,name,status,contributionAmountKobo,frequency,durationCycles,currentCycle,maxSlots,memberCount,createdAt''
       (map (circleColumns st s) (sort_key (st_circle st)
         (filter (\<lambda>c. t0 \<le> st_circle st c \<and> st_circle st c \<le> t1) (circles s))))"

definition exportCsv :: "stamps \<Rightarrow> exportType \<Rightarrow> int \<Rightarrow> int \<Rightarrow> db \<Rightarrow> string" where
  "exportCsv st ty t0 t1 s =
     (case ty of
        EXPORT_TRANSACTIONS \<Rightarrow> exportTransactions st t0 t1 s
      | EXPORT_USERS \<Rightarrow> exportUsers t0 t1 s
      | EXPORT_LEDGER \<Rightarrow> exportLedger st t0 t1 s
      | EXPORT_CIRCLES \<Rightarrow> exportCircles st t0 t1 s)"

section \<open>A reader of CSV\<close>

text \<open>
  What a line means by RFC 4180: a field that starts with a quote ends at the next single one, a pair
  of quotes in it is one; any other field ends at the next comma.
\<close>

fun fieldStart :: "string \<Rightarrow> string list" and
    plainField :: "string \<Rightarrow> string \<Rightarrow> string list" and
    quotedField :: "string \<Rightarrow> string \<Rightarrow> string list" where
  "fieldStart [] = [[]]"
| "fieldStart (c # cs) =
     (if c = quote then quotedField [] cs else if c = comma then [] # fieldStart cs else plainField [c] cs)"
| "plainField acc [] = [rev acc]"
| "plainField acc (c # cs) = (if c = comma then rev acc # fieldStart cs else plainField (c # acc) cs)"
| "quotedField acc [] = [rev acc]"
| "quotedField acc (c # cs) =
     (if c \<noteq> quote then quotedField (c # acc) cs
      else case cs of
             [] \<Rightarrow> plainField acc []
           | d # ds \<Rightarrow> if d = quote then quotedField (quote # acc) ds else plainField acc (d # ds))"

text \<open>The lines of a file: a new line inside quotes does not end one. A file is its lines read.\<close>

fun linesOf :: "bool \<Rightarrow> string \<Rightarrow> string \<Rightarrow> string list" where
  "linesOf q acc [] = [rev acc]"
| "linesOf q acc (c # cs) =
     (if c = newline \<and> \<not> q then rev acc # linesOf False [] cs
      else linesOf (if c = quote then \<not> q else q) (c # acc) cs)"

definition readCsv :: "string \<Rightarrow> string list list" where
  "readCsv x = map fieldStart (linesOf False [] x)"

definition plain :: "string \<Rightarrow> bool" where
  "plain x \<longleftrightarrow> comma \<notin> set x \<and> quote \<notin> set x \<and> newline \<notin> set x"

lemma comma_quote [simp]:
  "comma \<noteq> quote" "quote \<noteq> comma" "comma \<noteq> newline" "newline \<noteq> comma" "quote \<noteq> newline" "newline \<noteq> quote"
  by (simp_all add: comma_def quote_def newline_def)

lemma plainField_end: "comma \<notin> set x \<Longrightarrow> plainField acc x = [rev acc @ x]"
  by (induction x arbitrary: acc) auto

lemma plainField_comma: "comma \<notin> set x \<Longrightarrow> plainField acc (x @ comma # rest) = (rev acc @ x) # fieldStart rest"
  by (induction x arbitrary: acc) auto

lemma fieldStart_end: "plain x \<Longrightarrow> fieldStart x = [x]"
  by (cases x) (auto simp: plain_def plainField_end)

lemma fieldStart_comma: "plain x \<Longrightarrow> fieldStart (x @ comma # rest) = x # fieldStart rest"
  by (cases x) (auto simp: plain_def plainField_comma)

lemma quotedField_end:
  "quotedField acc (doubleQuotes x @ quote # comma # rest) = (rev acc @ x) # fieldStart rest"
  by (induction x arbitrary: acc) auto

lemma fieldStart_quoted: "fieldStart (quoted x @ comma # rest) = x # fieldStart rest"
  using quotedField_end [of "[]" x rest] by (simp add: quoted_def)

text \<open>Columns without commas and quotes are read back.\<close>

lemma columns_read: "fs \<noteq> [] \<Longrightarrow> list_all plain fs \<Longrightarrow> fieldStart (joinWith [comma] fs) = fs"
proof (induction fs)
  case (Cons f fs)
  then show ?case
    by (cases fs) (simp_all add: fieldStart_end fieldStart_comma)
qed simp

text \<open>A line is kept together when its quotes close and every new line in it is between quotes.\<close>

fun quoteAfter :: "bool \<Rightarrow> string \<Rightarrow> bool option" where
  "quoteAfter q [] = Some q"
| "quoteAfter q (c # cs) =
     (if c = newline \<and> \<not> q then None else quoteAfter (if c = quote then \<not> q else q) cs)"

lemma linesOf_end: "quoteAfter q x = Some False \<Longrightarrow> linesOf q acc x = [rev acc @ x]"
  by (induction x arbitrary: q acc) (auto split: if_splits)

lemma linesOf_newline:
  "quoteAfter q x = Some False \<Longrightarrow> linesOf q acc (x @ newline # rest) = (rev acc @ x) # linesOf False [] rest"
  by (induction x arbitrary: q acc) (auto split: if_splits)

lemma linesOf_join:
  "xs \<noteq> [] \<Longrightarrow> list_all (\<lambda>x. quoteAfter False x = Some False) xs \<Longrightarrow> linesOf False [] (joinWith [newline] xs) = xs"
proof (induction xs)
  case (Cons x xs)
  then show ?case by (cases xs) (simp_all add: linesOf_end linesOf_newline)
qed simp

lemma quoteAfter_append: "quoteAfter q x = Some q' \<Longrightarrow> quoteAfter q (x @ y) = quoteAfter q' y"
  by (induction x arbitrary: q) (auto split: if_splits)

lemma quoteAfter_plain: "plain x \<Longrightarrow> quoteAfter q x = Some q"
  by (induction x) (auto simp: plain_def)

lemma quoteAfter_quoted: "quoteAfter False (quoted x) = Some False"
proof -
  have "quoteAfter True (doubleQuotes x) = Some True" by (induction x) auto
  then show ?thesis by (simp add: quoted_def quoteAfter_append)
qed

lemma quoteAfter_join:
  "list_all (\<lambda>x. quoteAfter False x = Some False) fs \<Longrightarrow>
    quoteAfter False (joinWith [comma] fs) = Some False"
proof (induction fs)
  case (Cons f fs)
  then have "quoteAfter False (f @ y) = quoteAfter False y" for y
    by (simp add: quoteAfter_append [of False f False])
  with Cons show ?case by (cases fs) simp_all
qed simp

text \<open>Unquoted text with a comma is one column more.\<close>

lemma fieldStart_count:
  assumes "quote \<notin> set x"
  shows "length (fieldStart x) = Suc (length (filter (\<lambda>c. c = comma) x))"
proof -
  have "quote \<notin> set x \<Longrightarrow> length (plainField acc x) = Suc (length (filter (\<lambda>c. c = comma) x)) \<and>
      length (fieldStart x) = Suc (length (filter (\<lambda>c. c = comma) x))" for acc
    by (induction x arbitrary: acc) auto
  then show ?thesis using assms by blast
qed

lemma commas_join:
  "fs \<noteq> [] \<Longrightarrow> Suc (length (filter (\<lambda>c. c = comma) (joinWith [comma] fs))) =
     length fs + sum_list (map (\<lambda>f. length (filter (\<lambda>c. c = comma) f)) fs)"
proof (induction fs)
  case (Cons f fs)
  then show ?case by (cases fs) simp_all
qed simp

section \<open>Which columns are plain\<close>

lemma digit_plain:
  assumes "n < 10"
  shows "char_of (48 + n :: nat) \<noteq> comma" and "char_of (48 + n :: nat) \<noteq> quote"
    and "char_of (48 + n :: nat) \<noteq> newline"
proof -
  have d: "(of_char (char_of (48 + n :: nat)) :: nat) = 48 + n" using assms by (simp add: take_bit_eq_mod)
  have c: "(of_char comma :: nat) = 44" "(of_char quote :: nat) = 34" "(of_char newline :: nat) = 10"
    by (simp_all add: comma_def quote_def newline_def)
  show "char_of (48 + n :: nat) \<noteq> comma"
  proof
    assume "char_of (48 + n) = comma"
    with d c(1) have "48 + n = 44" by metis
    then show False by simp
  qed
  show "char_of (48 + n :: nat) \<noteq> quote"
  proof
    assume "char_of (48 + n) = quote"
    with d c(2) have "48 + n = 34" by metis
    then show False by simp
  qed
  show "char_of (48 + n :: nat) \<noteq> newline"
  proof
    assume "char_of (48 + n) = newline"
    with d c(3) have "48 + n = 10" by metis
    then show False by simp
  qed
qed

lemma plain_append [simp]: "plain (x @ y) \<longleftrightarrow> plain x \<and> plain y"
  by (auto simp: plain_def)

lemma plain_Cons: "plain (c # x) \<longleftrightarrow> c \<noteq> comma \<and> c \<noteq> quote \<and> c \<noteq> newline \<and> plain x"
  by (auto simp: plain_def)

lemma plain_Nil [simp]: "plain []"
  by (simp add: plain_def)

lemma plain_showNat [simp]: "plain (showNat n)"
proof (induction n rule: showNat.induct)
  case (1 n)
  show ?case
  proof (cases "n < 10")
    case True
    then show ?thesis using digit_plain [of n] by (simp add: showNat.simps [of n] plain_Cons)
  next
    case False
    then show ?thesis using 1 digit_plain [of "n mod 10"] by (simp add: showNat.simps [of n] plain_Cons)
  qed
qed

lemma literal_plain: "plain ''-''" "plain '':''" "plain ''.''" "plain ''T''" "plain ''Z''"
  by (simp_all add: plain_def comma_def quote_def newline_def)

lemma plain_showInt [simp]: "plain (showInt n)"
  using literal_plain(1) plain_append [of "''-''" "showNat (nat (- n))"] by (simp add: showInt_def)

lemma plain_padTo: "plain x \<Longrightarrow> plain (padTo n x)"
  by (auto simp: padTo_def plain_def comma_def quote_def newline_def)

lemma plain_isoDay: "plain (isoDay t)"
  unfolding isoDay_def by (intro plain_append [THEN iffD2] conjI plain_padTo plain_showInt literal_plain)

lemma plain_isoString: "plain (isoString t)"
  unfolding isoString_def Let_def
  by (intro plain_append [THEN iffD2] conjI plain_isoDay plain_padTo plain_showInt literal_plain)

lemma plain_names:
  "plain (entryTypeName a)" "plain (movementTypeName b)" "plain (roleName d)" "plain (userStatusName x)"
  "plain (kycStatusName k)" "plain (circleStatusName c)" "plain (frequencyName f)"
  by (simp_all add: entryTypeName_def movementTypeName_def roleName_def userStatusName_def
      kycStatusName_def circleStatusName_def frequencyName_def plain_def comma_def quote_def newline_def
      split: entryType.split movementType.split role.split userStatus.split kycStatus.split
        circleStatus.split cycleFrequency.split)

lemma plain_sourceType: "plain (sourceTypeName x)"
  by (cases x) (simp_all add: plain_def comma_def quote_def newline_def)

lemmas plain_columns = plain_showInt plain_isoString plain_names plain_sourceType

text \<open>The lines of the exports of the ledger and of circles are read back, the latter whatever the name.\<close>

lemma ledger_line_read:
  assumes "plain (le_id e)" and "plain (le_walletId e)" and "plain (le_reference e)"
  shows "fieldStart (joinWith [comma] (ledgerColumns st e)) = ledgerColumns st e"
  using assms by (intro columns_read) (simp_all add: ledgerColumns_def plain_columns)

lemma circle_line_read:
  assumes "plain (c_id c)"
  shows "fieldStart (joinWith [comma] (circleColumns st s c)) = (circleColumns st s c)[1 := c_name c]"
proof -
  obtain cols where cols: "circleColumns st s c = c_id c # quoted (c_name c) # cols" "cols \<noteq> []"
    "list_all plain cols"
    by (simp add: circleColumns_def plain_columns)
  have "joinWith [comma] (circleColumns st s c) = c_id c @ comma # quoted (c_name c) @ comma # joinWith [comma] cols"
    using cols(1,2) by (cases cols) simp_all
  then show ?thesis
    using fieldStart_comma [OF assms] fieldStart_quoted columns_read [OF cols(2,3)] cols(1) by simp
qed

text \<open>The whole export of circles.\<close>

lemma circle_line_closed:
  assumes "plain (c_id c)"
  shows "quoteAfter False (joinWith [comma] (circleColumns st s c)) = Some False"
  using assms by (intro quoteAfter_join) (simp add: circleColumns_def plain_columns quoteAfter_plain quoteAfter_quoted)

lemma exportCircles_read:
  assumes "list_all (\<lambda>c. plain (c_id c)) (circles s)"
  shows "tl (readCsv (exportCircles st t0 t1 s)) =
    map (\<lambda>c. (circleColumns st s c)[1 := c_name c])
      (sort_key (st_circle st) (filter (\<lambda>c. t0 \<le> st_circle st c \<and> st_circle st c \<le> t1) (circles s)))"
proof -
  define cs where "cs = sort_key (st_circle st) (filter (\<lambda>c. t0 \<le> st_circle st c \<and> st_circle st c \<le> t1) (circles s))"
  have ids: "list_all (\<lambda>c. plain (c_id c)) cs" using assms by (auto simp: cs_def list_all_iff)
  obtain header where e: "exportCircles st t0 t1 s = csv header (map (circleColumns st s) cs)"
    and h: "quoteAfter False header = Some False"
    by (simp add: exportCircles_def cs_def newline_def quote_def)
  have "linesOf False [] (exportCircles st t0 t1 s) = header # map (\<lambda>c. joinWith [comma] (circleColumns st s c)) cs"
    unfolding e csv_def using ids h
    by (subst linesOf_join) (auto simp: list_all_iff circle_line_closed)
  then show ?thesis
    using ids by (auto simp: readCsv_def cs_def [symmetric] list_all_iff circle_line_read)
qed

text \<open>A user's line has a column too many for every comma in a name.\<close>

lemma commas_plain: "plain x \<Longrightarrow> filter (\<lambda>c. c = comma) x = []"
  by (auto simp: plain_def filter_empty_conv)

lemma user_line_columns:
  assumes "plain (u_id u)" and "plain (u_email u)" and "plain (u_phone u)"
    and "quote \<notin> set (u_firstName u)" and "quote \<notin> set (u_lastName u)"
  shows "length (fieldStart (joinWith [comma] (userColumns s u))) =
    10 + length (filter (\<lambda>c. c = comma) (u_firstName u)) + length (filter (\<lambda>c. c = comma) (u_lastName u))"
proof -
  have v: "plain (if u_isVerified u then ''true'' else ''false'')"
    by (simp add: plain_def comma_def quote_def newline_def)
  have k: "plain (case kycOfUser (u_id u) s of None \<Rightarrow> '''' | Some k \<Rightarrow> kycStatusName (k_status k))"
    by (simp add: plain_names split: option.splits)
  have q: "quote \<notin> set x" if "plain x" for x using that by (simp add: plain_def)
  note quiet = q [OF assms(1)] assms(4,5) q [OF assms(2)] q [OF assms(3)] q [OF plain_names(3)]
    q [OF plain_names(4)] q [OF v] q [OF k] q [OF plain_isoString]
  note none = commas_plain [OF assms(1)] commas_plain [OF assms(2)] commas_plain [OF assms(3)]
    commas_plain [OF plain_names(3)] commas_plain [OF plain_names(4)] commas_plain [OF v] commas_plain [OF k]
    commas_plain [OF plain_isoString]
  have "quote \<notin> set (joinWith [comma] (userColumns s u))"
    unfolding userColumns_def joinWith.simps set_append Un_iff de_Morgan_disj
    by (intro conjI quiet) simp_all
  from fieldStart_count [OF this] commas_join [of "userColumns s u"] show ?thesis
    unfolding userColumns_def by (simp only: list.simps none) simp
qed

end
