(* ===== verification/ServiceClaims.thy ===== *)
theory ServiceClaims
  imports RoscaClaims Mail Notifications Provider Exports
begin

text \<open>
  Properties of the services around the money: mails and notices, the client of the payment provider,
  reports and exports.
\<close>

section \<open>Mails\<close>







section \<open>Notices\<close>

definition job1 :: accountJob where
  "job1 = \<lparr>aj_userId = ''ada'', aj_email = ''ada@ajoti.com'', aj_kind = EMAIL_VERIFIED\<rparr>"

definition notices1 :: noticeDb where
  "notices1 = snd (processNotice env0 (\<lambda>a b. None) (\<lambda>x. '''') job1
     \<lparr>notifications = [], mailed = [], pushed = []\<rparr>)"

lemma notices1_run: "noticeRun notices1"
  unfolding notices1_def by (intro processNotice_run noticeRun.none)

text \<open>
  C34: every mail of the notification service has one record that says what became of it. After any
  sequence of mails, notices and readings, identifiers are distinct, the record of a mail is sent with
  its time or failed with its error, as many are sent as the transport has accepted, and a record is
  read exactly when it has a time of reading.
\<close>

theorem notices_accounted:
  assumes "noticeRun s"
  shows "distinct (map nt_id (notifications s)) \<and> list_all noticeSound (notifications s) \<and>
    length (mailed s) = length (filter (\<lambda>n. nt_status n = NS_SENT) (notifications s))"
  using noticeRun_ok [OF assms] by (simp add: noticesOk_def mailsSent_def)

lemma notices1_value: "mailed notices1 = [(''ada@ajoti.com'', ''Your Ajoti Account is Now Activated!'')]"
  by code_simp

theorem notices_accounted_witness:
  "length (filter (\<lambda>n. nt_status n = NS_SENT) (notifications notices1)) = 1"
  using notices_accounted [OF notices1_run] notices1_value by simp

text \<open>
  A verified mail address does half of what it should. The job is given to one of two workers: the
  one of notices confirms the address and opens no KYC record, the one of KYC opens the record and
  confirms nothing. Every other job is lost when the worker of KYC takes it.
\<close>

lemma job_half_done:
  assumes "kycOfUser (aj_userId j) s = None"
  shows "kycOfUser (aj_userId j) (fst (takeJob env mailer loc NOTIFICATION_WORKER j (s, m))) = None \<and>
    snd (takeJob env mailer loc KYC_WORKER j (s, m)) = m \<and>
    (aj_kind j = EMAIL_VERIFIED \<or> fst (takeJob env mailer loc KYC_WORKER j (s, m)) = s)"
  using assms takeJob_half [of j s env mailer loc m] takeJob_dropped [of j env mailer loc "(s, m)"]
  by (cases "aj_kind j = EMAIL_VERIFIED") (simp_all add: takeJob_def)

lemma emptyDb_kyc: "kycOfUser (aj_userId job1) emptyDb = None"
  by (simp add: kycOfUser_def emptyDb_def)

lemma job_half_done_witness:
  "kycOfUser ''ada'' (fst (takeJob env0 (\<lambda>a b. None) (\<lambda>x. '''') NOTIFICATION_WORKER job1 (emptyDb, notices1))) = None \<and>
   snd (takeJob env0 (\<lambda>a b. None) (\<lambda>x. '''') KYC_WORKER job1 (emptyDb, notices1)) = notices1"
  using job_half_done [OF emptyDb_kyc, of env0 "\<lambda>a b. None" "\<lambda>x. ''''" notices1] by (simp add: job1_def)

section \<open>Webhooks in production\<close>

definition environ1 :: environ where
  "environ1 = (\<lambda>v. if v = ''NODE_ENV'' then Some ''production''
     else if v = ''FLW_SECRET_KEY_LIVE'' then Some ''sk'' else if v = ''FLW_WEBHOOK_HASH_LIVE'' then Some ''hash''
     else if v = ''MOCK_FLUTTERWAVE'' then Some ''true'' else None)"

text \<open>
  C35: in production a webhook is the provider's. A configuration that loads has a secret hash, and a
  webhook with any other signature is refused and changes nothing; with the hash it gets past the check.
\<close>

theorem production_webhooks:
  assumes "flutterwaveConfig environ = Inr cfg" and "environ ''NODE_ENV'' = Some ''production''"
  shows "fc_webhookHash cfg \<noteq> '''' \<and>
    (if hdr = fc_webhookHash cfg then verifyWebhookSignature cfg hdr
     else isl (fst (handleWebhook env (verifyWebhookSignature cfg) verify payload hdr s)) \<and>
       snd (handleWebhook env (verifyWebhookSignature cfg) verify payload hdr s) = s)"
  using flutterwaveConfig_Inr(1) [OF assms] production_signature [OF assms]
  by (simp add: handleWebhook_def)

lemma environ1_ok: "flutterwaveConfig environ1 = Inr (projr (flutterwaveConfig environ1))"
    "environ1 ''NODE_ENV'' = Some ''production''"
  by (simp_all add: flutterwaveConfig_def environ1_def flwLive_def present_def Let_def)

theorem production_webhooks_witness:
  "fc_webhookHash (projr (flutterwaveConfig environ1)) \<noteq> ''''"
  using production_webhooks [OF environ1_ok] by blast

section \<open>Reports\<close>

lemma keyed_list_unique:
  assumes "sorted (map fst ps)" and "distinct (map fst ps)" and "fst ` set ps = K"
    and "\<And>d v. map_of ps d = Some v \<Longrightarrow> v = f d"
  shows "ps = map (\<lambda>d. (d, f d)) (sorted_list_of_set K)"
proof -
  have "map fst ps = sorted_list_of_set K"
    using assms(1-3) sorted_list_of_set.idem_if_sorted_distinct [of "map fst ps"] by simp
  moreover have "map (\<lambda>p. (fst p, f (fst p))) ps = ps"
  proof (rule map_idI)
    fix p assume "p \<in> set ps"
    then have "map_of ps (fst p) = Some (snd p)" using assms(2) by (simp add: map_of_is_SomeI)
    from assms(4) [OF this] show "(fst p, f (fst p)) = p" by (simp add: prod_eq_iff)
  qed
  then have "ps = map (\<lambda>d. (d, f d)) (map fst ps)" by (simp add: comp_def)
  ultimately show ?thesis by metis
qed

text \<open>
  C36: the days of the analytics are those of a plain definition. The entries of a flow, put one by one
  into a table of days that is sorted in the end, give every day with an entry once and in order, with
  the sum of that day's entries; together the days are the total of the period.
\<close>

theorem days_add_up:
  "fl_byDay (flowOf st es) =
     map (\<lambda>d. (d, sumKobo (filter (\<lambda>e. isoDay (st_entry st e) = d) es)))
       (sorted_list_of_set ((\<lambda>e. isoDay (st_entry st e)) ` set es)) \<and>
   sum_list (map snd (fl_byDay (flowOf st es))) = fl_totalKobo (flowOf st es)"
proof -
  have m: "map_of (bucketByDay st es) d =
      (let own = filter (\<lambda>e. isoDay (st_entry st e) = d) es in if own = [] then None else Some (sumKobo own))" for d
    using bucketByDay_days by blast
  have "d \<in> fst ` set (bucketByDay st es) \<longleftrightarrow> d \<in> (\<lambda>e. isoDay (st_entry st e)) ` set es" for d
    using m [of d] map_of_eq_None_iff [of "bucketByDay st es" d] by (auto simp: Let_def filter_empty_conv split: if_splits)
  then have "fst ` set (bucketByDay st es) = (\<lambda>e. isoDay (st_entry st e)) ` set es"
    by blast
  then have "bucketByDay st es = map (\<lambda>d. (d, sumKobo (filter (\<lambda>e. isoDay (st_entry st e) = d) es)))
      (sorted_list_of_set ((\<lambda>e. isoDay (st_entry st e)) ` set es))"
    using bucketByDay_days [of st es]
    by (intro keyed_list_unique) (auto simp: m Let_def split: if_splits)
  then show ?thesis
    unfolding flowOf_def flow.simps using bucketByDay_total by (rule conjI)
qed

lemma makeContribution_wallets:
  assumes "makeContribution env uid cid n s = Inr (k, s')"
  shows "wallets s' = wallets s"
  using assms
  by (auto simp: makeContribution_def penaltyEntries_def insertContribution_def updateTrustScore_Inr
      Let_def result_simps split: if_splits dest!: writeEntry_frame(1))

text \<open>
  A contribution moves money within the platform. The total over all wallets that the analytics
  report, the pool's included, is the same before and after, penalty or not.
\<close>

lemma contribution_keeps_total:
  assumes "makeContribution env uid cid n s = Inr (k, s')" and "distinct (map w_id (wallets s))"
    and "systemWalletOf PLATFORM_POOL s = Some sw" and "sw_walletId sw \<in> w_id ` set (wallets s)"
  shows "totalBalanceKobo s' = totalBalanceKobo s"
proof -
  obtain w where w: "walletOfUser uid s = Some w"
    and p: "posts s (contributionPostings (w_id w) (sw_walletId sw) (co_amount k) (co_penaltyAmount k)) s'"
    using makeContribution_posts [OF assms(1)] assms(3) by (metis option.inject)
  have "w \<in> set (wallets s)" using w by (auto simp: walletOfUser_def dest: find_SomeD)
  then have "totalBalanceKobo s' = totalBalanceKobo s +
      sum_list (map effectOf (contributionPostings (w_id w) (sw_walletId sw) (co_amount k) (co_penaltyAmount k)))"
    using assms(4) by (intro totalBalance_posts [OF p makeContribution_wallets [OF assms(1)] assms(2)])
      (auto simp: contributionPostings_def)
  then show ?thesis by (simp add: contributionPostings_def)
qed

lemma running_wallets: "distinct (map w_id (wallets running))"
    "systemWalletOf PLATFORM_POOL running = Some \<lparr>sw_type = PLATFORM_POOL, sw_walletId = ''wp''\<rparr>"
    "sw_walletId \<lparr>sw_type = PLATFORM_POOL, sw_walletId = ''wp''\<rparr> \<in> w_id ` set (wallets running)"
  by code_simp+

lemma contribution_keeps_total_witness:
  "totalBalanceKobo (stateOf (makeContribution env0 ''ada'' ''c1'' 2 running)) = totalBalanceKobo running"
  by (rule contribution_keeps_total [OF succeeds [OF contribution_runs] running_wallets])

section \<open>Exports\<close>

text \<open>
  C37: the export of circles can be read back. Whatever the names hold, commas, quotes and new lines
  included, a reader of CSV finds after the header one line for each circle created in the period, in
  order of creation, with its columns and its name as it is.
\<close>

theorem circle_export_read:
  assumes "list_all (\<lambda>c. plain (c_id c)) (circles s)"
  shows "tl (readCsv (exportCsv st EXPORT_CIRCLES t0 t1 s)) =
    map (\<lambda>c. (circleColumns st s c)[1 := c_name c])
      (sort_key (st_circle st) (filter (\<lambda>c. t0 \<le> st_circle st c \<and> st_circle st c \<le> t1) (circles s)))"
  using exportCircles_read [OF assms] by (simp add: exportCsv_def)

definition renamed :: db where
  "renamed = running\<lparr>circles := map (\<lambda>c. c\<lparr>c_name := [newline, comma, quote]\<rparr>) (circles running)\<rparr>"

definition stamps0 :: stamps where
  "stamps0 = \<lparr>st_entry = \<lambda>e. 0, st_circle = \<lambda>c. 0, st_wallet = \<lambda>w. 0, st_audit = \<lambda>a. 0\<rparr>"

lemma renamed_plain: "list_all (\<lambda>c. plain (c_id c)) (circles renamed)"
  by code_simp

lemma renamed_names:
  "map (\<lambda>c. (circleColumns stamps0 renamed c)[1 := c_name c] ! 1)
     (sort_key (st_circle stamps0) (filter (\<lambda>c. 0 \<le> st_circle stamps0 c \<and> st_circle stamps0 c \<le> 0) (circles renamed)))
   = [[newline, comma, quote]]"
  by (simp add: circleColumns_def stamps0_def renamed_def running_def circleOf_def)

theorem circle_export_read_witness:
  "map (\<lambda>r. r ! 1) (tl (readCsv (exportCsv stamps0 EXPORT_CIRCLES 0 0 renamed))) = [[newline, comma, quote]]"
  unfolding circle_export_read [OF renamed_plain] using renamed_names by (simp add: comp_def)

end
