(* ===== verification/Programs.thy ===== *)
theory Programs
  imports Platform
begin

text \<open>
  Handlers that call several services one after another: each call commits on its own, an error ends
  the handler and leaves what was committed before.  A program is a function of a state; \<open>call\<close> gives
  every call its own environment, from a sequence of them.
\<close>

section \<open>Sequences of calls\<close>

type_synonym ('s, 'a) prog = "'s \<Rightarrow> 'a result \<times> 's"

definition give :: "'a \<Rightarrow> ('s, 'a) prog" where
  "give x s = (Inr x, s)"

definition andThen :: "('s, 'a) prog \<Rightarrow> ('a \<Rightarrow> ('s, 'b) prog) \<Rightarrow> ('s, 'b) prog" where
  "andThen m f s = (case m s of (Inl e, s1) \<Rightarrow> (Inl e, s1) | (Inr x, s1) \<Rightarrow> f x s1)"

text \<open>\<^verbatim>\<open>for (const x of xs) await \<dots>\<close>\<close>

primrec each :: "('a \<Rightarrow> ('s, 'b) prog) \<Rightarrow> 'a list \<Rightarrow> ('s, 'b list) prog" where
  "each f [] = give []"
| "each f (x # xs) = andThen (f x) (\<lambda>y. andThen (each f xs) (\<lambda>ys. give (y # ys)))"

definition onlyIf :: "bool \<Rightarrow> ('s, 'a) prog \<Rightarrow> ('s, unit) prog" where
  "onlyIf b m = (if b then andThen m (\<lambda>_. give ()) else give ())"

text \<open>\<^verbatim>\<open>try { m } finally { c }\<close>: the error of \<open>c\<close> replaces the answer of \<open>m\<close>.\<close>

definition lastly :: "('s, 'a) prog \<Rightarrow> ('s, 'b) prog \<Rightarrow> ('s, 'a) prog" where
  "lastly m c s = (case c (snd (m s)) of (Inl e, s2) \<Rightarrow> (Inl e, s2) | (Inr _, s2) \<Rightarrow> (fst (m s), s2))"

text \<open>The number of calls so far, and the database.\<close>

type_synonym bench = "nat \<times> db"

definition call :: "(nat \<Rightarrow> env) \<Rightarrow> (env \<Rightarrow> (db, 'a) prog) \<Rightarrow> (bench, 'a) prog" where
  "call envs f b = (case f (envs (fst b)) (snd b) of (r, s) \<Rightarrow> (r, (Suc (fst b), s)))"

definition peek :: "(db \<Rightarrow> 'a result) \<Rightarrow> (bench, 'a) prog" where
  "peek f b = (f (snd b), b)"

section \<open>What a program preserves\<close>

text \<open>\<open>I\<close> holds after the program, whatever its answer, when it held before.\<close>

definition preserves :: "('s \<Rightarrow> bool) \<Rightarrow> ('s, 'a) prog \<Rightarrow> bool" where
  "preserves I m \<longleftrightarrow> (\<forall>s. I s \<longrightarrow> I (snd (m s)))"

named_theorems preserving \<open>programs keep an invariant when their parts do\<close>

lemma preservesD: "preserves I m \<Longrightarrow> I s \<Longrightarrow> I (snd (m s))"
  by (simp add: preserves_def)

lemma preserves_give [preserving, simp]: "preserves I (give x)"
  by (simp add: preserves_def give_def)

lemma preserves_andThen [preserving]:
  assumes "preserves I m" and "\<And>x. preserves I (f x)"
  shows "preserves I (andThen m f)"
  unfolding preserves_def
proof (intro allI impI)
  fix s assume "I s"
  then have "I (snd (m s))" using assms(1) by (simp add: preserves_def)
  then show "I (snd (andThen m f s))"
    using assms(2) by (cases "m s"; cases "fst (m s)") (simp_all add: andThen_def preserves_def)
qed

lemma preserves_each [preserving]: "(\<And>x. x \<in> set xs \<Longrightarrow> preserves I (f x)) \<Longrightarrow> preserves I (each f xs)"
  by (induction xs) (auto intro!: preserves_andThen)

lemma preserves_onlyIf [preserving]: "preserves I m \<Longrightarrow> preserves I (onlyIf b m)"
  by (simp add: onlyIf_def preserves_andThen)

lemma preserves_lastly [preserving]:
  assumes "preserves I m" and "preserves I c"
  shows "preserves I (lastly m c)"
  unfolding preserves_def
proof (intro allI impI)
  fix s assume "I s"
  then have "I (snd (c (snd (m s))))" using assms by (simp add: preserves_def)
  then show "I (snd (lastly m c s))"
    by (cases "c (snd (m s))"; cases "fst (c (snd (m s)))") (simp_all add: lastly_def)
qed

definition onDb :: "(db \<Rightarrow> bool) \<Rightarrow> bench \<Rightarrow> bool" where
  "onDb I b = I (snd b)"

lemma preserves_call [preserving]:
  assumes "\<And>env. preserves I (f env)"
  shows "preserves (onDb I) (call envs f)"
  unfolding preserves_def onDb_def
proof (intro allI impI)
  fix b :: bench assume "I (snd b)"
  then have "I (snd (f (envs (fst b)) (snd b)))" using assms by (simp add: preserves_def)
  then show "I (snd (snd (call envs f b)))"
    by (cases "f (envs (fst b)) (snd b)") (simp add: call_def)
qed

lemma preserves_peek [preserving, simp]: "preserves I (peek f)"
  by (simp add: preserves_def peek_def)

lemma preserves_transaction [preserving]:
  "(\<And>s x s'. I s \<Longrightarrow> m s = Inr (x, s') \<Longrightarrow> I s') \<Longrightarrow> preserves I (transaction m)"
  by (auto simp: preserves_def transaction_def split: sum.split)

section \<open>Inversion\<close>

lemma andThen_Inr: "andThen m f s = (Inr y, s') \<longleftrightarrow> (\<exists>x s1. m s = (Inr x, s1) \<and> f x s1 = (Inr y, s'))"
  by (auto simp: andThen_def split: prod.split sum.split)

lemma give_Inr: "give x s = (Inr y, s') \<longleftrightarrow> y = x \<and> s' = s"
  by (auto simp: give_def)

lemma peek_Inr: "peek f b = (Inr y, b') \<longleftrightarrow> f (snd b) = Inr y \<and> b' = b"
  by (auto simp: peek_def)

lemma call_Inr: "call envs f b = (Inr y, b') \<longleftrightarrow> (\<exists>s. f (envs (fst b)) (snd b) = (Inr y, s) \<and> b' = (Suc (fst b), s))"
  by (auto simp: call_def split: prod.split)

lemmas prog_simps = andThen_Inr give_Inr peek_Inr call_Inr transaction_Inr

lemma andThen_error: "m s = (Inl e, s1) \<Longrightarrow> andThen m f s = (Inl e, s1)"
  by (simp add: andThen_def)

end
