(* ===== verification/Sandbox.thy ===== *)
theory Sandbox
  imports Programs Auth
begin

text \<open>
  \<^verbatim>\<open>src/modules/simulation/sandbox.service.ts\<close>: a bench on a database of its own, for superadmins. It
  creates users with funded wallets, takes them through circles with the services of the platform,
  replays ledgers, and deletes everything a run has created.  The telephone numbers it draws are
  identifiers of the environment.
\<close>

section \<open>Users\<close>

definition DEFAULT_FUND_AMOUNT :: int where "DEFAULT_FUND_AMOUNT = 5000000"

record simUser =
  su_id :: string
  su_label :: string
  su_email :: string
  su_walletId :: string

definition simEmail :: "string \<Rightarrow> string \<Rightarrow> string" where
  "simEmail runId label = runId @ ''_'' @ toLowerCase label @ ''@sim.test''"

definition simUserRow :: "env \<Rightarrow> string \<Rightarrow> string \<Rightarrow> role \<Rightarrow> user" where
  "simUserRow env email label r =
     \<lparr>u_id = rnd env 0, u_email = email, u_firstName = ''Sim'', u_lastName = label,
      u_transactionPin = None, u_role = r, u_createdAt = now env, u_password = ''SIM_LOCKED'',
      u_pendingEmail = None, u_phone = ''+234'' @ rnd env 4, u_dob = 631152000000, u_isVerified = True,
      u_status = US_ACTIVE, u_suspendedAt = None, u_suspensionReason = None, u_adminRequestedAt = None\<rparr>"

text \<open>\<^verbatim>\<open>userTrustStats.upsert\<close> with an empty update\<close>

definition ensureTrustStats :: "env \<Rightarrow> string \<Rightarrow> db \<Rightarrow> db" where
  "ensureTrustStats env uid s =
     (if list_ex (\<lambda>t. ts_userId t = uid) (allTrustStats s) then s
      else s\<lparr>allTrustStats := allTrustStats s @ [newTrustStats env uid]\<rparr>)"

definition simFundEntry :: "env \<Rightarrow> string \<Rightarrow> string \<Rightarrow> int \<Rightarrow> entryParams" where
  "simFundEntry env uid wid amount =
     \<lparr>wp_walletId = wid, wp_entryType = CREDIT, wp_movementType = FUNDING, wp_bucketType = None,
      wp_amount = amount, wp_reference = ''SIM-FUND-'' @ rnd env 2, wp_sourceType = ST_TRANSACTION,
      wp_sourceId = ''sim-fund-'' @ uid @ ''-'' @ showInt (now env)\<rparr>"

text \<open>Four statements without a transaction, for a user with the given mail address.\<close>

definition createFundedUser ::
  "string \<Rightarrow> string \<Rightarrow> role \<Rightarrow> int \<Rightarrow> env \<Rightarrow> (db, simUser) prog" where
  "createFundedUser email label r fundAmount env =
     (let uid = rnd env 0; wid = rnd env 1 in
      andThen (transaction (\<lambda>s. bindE (insertUser (simUserRow env email label r) s) (\<lambda>s1. Inr ((), s1)))) (\<lambda>_.
      andThen (transaction (\<lambda>s. bindE (insertWallet
        \<lparr>w_id = wid, w_userId = uid, w_currency = ''NGN'', w_status = WS_ACTIVE\<rparr> s) (\<lambda>s1. Inr ((), s1)))) (\<lambda>_.
      andThen (transaction (\<lambda>s. Inr ((), ensureTrustStats env uid s))) (\<lambda>_.
      andThen (transaction (writeEntry (rnd env 3) (simFundEntry env uid wid fundAmount))) (\<lambda>_.
      give \<lparr>su_id = uid, su_label = label, su_email = email, su_walletId = wid\<rparr>)))))"

definition createSimUser ::
  "string \<Rightarrow> string \<Rightarrow> role \<Rightarrow> int \<Rightarrow> env \<Rightarrow> (db, simUser) prog" where
  "createSimUser runId label r fundAmount = createFundedUser (simEmail runId label) label r fundAmount"

record sandboxUsersDto =
  sx_runId :: "string option"
  sx_count :: nat
  sx_fundAmountKobo :: "rat option"

text \<open>\<^verbatim>\<open>dto.runId ?? `sim_${Date.now()}`\<close>\<close>

definition runOf :: "env \<Rightarrow> string option \<Rightarrow> string" where
  "runOf env r = (case r of Some i \<Rightarrow> i | None \<Rightarrow> ''sim_'' @ showInt (now env))"

definition fundAmountOf :: "rat option \<Rightarrow> int result" where
  "fundAmountOf a =
     (case a of
        None \<Rightarrow> Inr DEFAULT_FUND_AMOUNT
      | Some x \<Rightarrow> if x = 0 then Inr DEFAULT_FUND_AMOUNT else bigIntOfNumber x)"

definition createUsers ::
  "(nat \<Rightarrow> env) \<Rightarrow> sandboxUsersDto \<Rightarrow> (bench, string \<times> simUser list) prog" where
  "createUsers envs d b =
     (let runId = runOf (envs (fst b)) (sx_runId d) in
      andThen (peek (\<lambda>s. fundAmountOf (sx_fundAmountKobo d))) (\<lambda>fundAmount.
      andThen (each (\<lambda>i. call envs (createSimUser runId (''M'' @ showNat i) MEMBER fundAmount))
        [1..<sx_count d + 1]) (\<lambda>us.
      give (runId, us))) b)"

section \<open>Circles\<close>

record sandboxCircleDto =
  sd_runId :: string
  sd_memberIds :: "string list"
  sd_adminId :: "string option"
  sd_name :: string
  sd_contributionAmountKobo :: int
  sd_frequency :: cycleFrequency
  sd_payoutLogic :: payoutLogic
  sd_assignments :: "assignment list"

text \<open>The calls of services, each with what it answers.\<close>

definition joining :: "string \<Rightarrow> string \<Rightarrow> env \<Rightarrow> (db, membership) prog" where
  "joining uid cid env = transaction (requestToJoin env uid cid)"

definition approving :: "string \<Rightarrow> string \<Rightarrow> string \<Rightarrow> env \<Rightarrow> (db, approval) prog" where
  "approving cid adminId uid env = transaction (approveMember env cid adminId uid)"

definition contributing :: "string \<Rightarrow> string \<Rightarrow> int \<Rightarrow> env \<Rightarrow> (db, contribution) prog" where
  "contributing uid cid n env = transaction (makeContribution env uid cid n)"

definition activating :: "world \<Rightarrow> string \<Rightarrow> env \<Rightarrow> (db, circle) prog" where
  "activating w cid env = transaction (activateCircle env (wo_random w) cid (now env + 30 * 60 * 1000))"

definition enrol :: "(nat \<Rightarrow> env) \<Rightarrow> string \<Rightarrow> string \<Rightarrow> string \<Rightarrow> (bench, approval) prog" where
  "enrol envs cid adminId uid =
     andThen (call envs (joining uid cid)) (\<lambda>_. call envs (approving cid adminId uid))"

text \<open>The administrator of the request, or one made for the circle.\<close>

definition sandboxAdmin :: "(nat \<Rightarrow> env) \<Rightarrow> sandboxCircleDto \<Rightarrow> (bench, string) prog" where
  "sandboxAdmin envs d =
     (case sd_adminId d of
        Some a \<Rightarrow>
          if a = '''' then andThen (call envs (createSimUser (sd_runId d) ''Admin'' ADMIN DEFAULT_FUND_AMOUNT))
            (\<lambda>u. give (su_id u))
          else peek (\<lambda>s. bindE (orThrow (NotFound ''adminId not found in the simulation database'')
            (userById a s)) (\<lambda>_. Inr a))
      | None \<Rightarrow> andThen (call envs (createSimUser (sd_runId d) ''Admin'' ADMIN DEFAULT_FUND_AMOUNT))
            (\<lambda>u. give (su_id u)))"

definition sandboxCircle ::
  "world \<Rightarrow> (nat \<Rightarrow> env) \<Rightarrow> sandboxCircleDto \<Rightarrow> (bench, string \<times> string) prog" where
  "sandboxCircle w envs d =
     andThen (peek (\<lambda>s. ensure
       (length (filter (\<lambda>u. u_id u \<in> set (sd_memberIds d)) (users s)) = length (sd_memberIds d))
       (BadRequest ''One or more memberIds not found in the simulation database''))) (\<lambda>_.
     andThen (sandboxAdmin envs d) (\<lambda>adminId.
     andThen (call envs (\<lambda>env. transaction (createCircle env adminId
       \<lparr>cd_name = sd_runId d @ ''_'' @ sd_name d,
        cd_contributionAmount = showInt (sd_contributionAmountKobo d), cd_frequency = sd_frequency d,
        cd_durationCycles = int (length (sd_memberIds d)), cd_maxSlots = int (length (sd_memberIds d)),
        cd_payoutLogic = sd_payoutLogic d, cd_visibility = Some VIS_PUBLIC\<rparr>))) (\<lambda>c.
     andThen (each (enrol envs (c_id c) adminId) (sd_memberIds d)) (\<lambda>_.
     andThen (onlyIf (sd_payoutLogic d = ADMIN_ASSIGNED \<and> sd_assignments d \<noteq> [])
       (call envs (\<lambda>env. transaction (updatePayoutConfiguration (c_id c) adminId
         \<lparr>pc_payoutLogic = Some ADMIN_ASSIGNED, pc_assignments = sd_assignments d\<rparr>)))) (\<lambda>_.
     andThen (call envs (activating w (c_id c))) (\<lambda>_.
     give (c_id c, adminId)))))))"

section \<open>Cycles\<close>

datatype timing = ON_TIME | LATE | SKIP

text \<open>The deadline an hour ahead or half an hour ago, the payout in 25 hours.\<close>

definition setScheduleMode :: "string \<Rightarrow> int \<Rightarrow> timing \<Rightarrow> env \<Rightarrow> (db, unit) prog" where
  "setScheduleMode cid n mode env s =
     (Inr (), s\<lparr>schedules := map (\<lambda>x.
        if cs_circleId x = cid \<and> cs_cycleNumber x = n \<and> cs_obsoletedAt x = None
        then x\<lparr>cs_contributionDeadline :=
                 (if mode = ON_TIME then now env + 60 * 60 * 1000 else now env - 30 * 60 * 1000),
               cs_payoutDate := now env + 25 * 60 * 60 * 1000\<rparr>
        else x) (schedules s)\<rparr>)"

record runCycleDto =
  rc_circleId :: string
  rc_cycleNumber :: int
  rc_contributions :: "(string \<times> timing) list"

definition contributors :: "timing \<Rightarrow> runCycleDto \<Rightarrow> string list" where
  "contributors t d = map fst (filter (\<lambda>c. snd c = t) (rc_contributions d))"

definition contributeAll :: "(nat \<Rightarrow> env) \<Rightarrow> string \<Rightarrow> int \<Rightarrow> timing \<Rightarrow> string list \<Rightarrow> (bench, unit) prog" where
  "contributeAll envs cid n mode uids =
     onlyIf (uids \<noteq> [])
       (andThen (call envs (setScheduleMode cid n mode)) (\<lambda>_.
        each (\<lambda>uid. call envs (contributing uid cid n)) uids))"

record cycleMember =
  ck_userId :: string
  ck_contributed :: bool
  ck_timing :: timing
  ck_trustScore :: int

definition cycleMemberOf :: "db \<Rightarrow> string \<times> timing \<Rightarrow> cycleMember" where
  "cycleMemberOf s c =
     \<lparr>ck_userId = fst c, ck_contributed = (snd c \<noteq> SKIP), ck_timing = snd c,
      ck_trustScore = (case findFirst (\<lambda>t. ts_userId t = fst c) (allTrustStats s) of
        None \<Rightarrow> 50 | Some t \<Rightarrow> ts_trustScore t)\<rparr>"

definition runCycle ::
  "(nat \<Rightarrow> env) \<Rightarrow> runCycleDto \<Rightarrow> (bench, cycleMember list \<times> payoutResult) prog" where
  "runCycle envs d =
     (let cid = rc_circleId d; n = rc_cycleNumber d in
      andThen (peek (\<lambda>s. orThrow (NotFound ''Circle not found in simulation database'') (circleById cid s))) (\<lambda>_.
      andThen (contributeAll envs cid n ON_TIME (contributors ON_TIME d)) (\<lambda>_.
      andThen (contributeAll envs cid n LATE (contributors LATE d)) (\<lambda>_.
      andThen (call envs (setScheduleMode cid n ON_TIME)) (\<lambda>_.
      andThen (call envs (\<lambda>env. processPayout env cid n)) (\<lambda>r.
      peek (\<lambda>s. Inr (map (cycleMemberOf s) (rc_contributions d), r))))))))"

definition sandboxLoan :: "world \<Rightarrow> (nat \<Rightarrow> env) \<Rightarrow> string \<Rightarrow> string \<Rightarrow> (bench, loan) prog" where
  "sandboxLoan w envs uid cid =
     andThen (peek (\<lambda>s. orThrow (NotFound ''User not found in simulation database'') (userById uid s))) (\<lambda>_.
     andThen (peek (\<lambda>s. orThrow (NotFound ''Circle not found in simulation database'') (circleById cid s))) (\<lambda>_.
     call envs (\<lambda>env. applyLoan env (wo_bureau w) uid cid)))"

section \<open>Replays of the ledger\<close>

text \<open>The entries of a wallet from the oldest, and their sum.\<close>

definition oldestFirst :: "string \<Rightarrow> db \<Rightarrow> ledgerEntry list" where
  "oldestFirst wid s = rev (entriesOf wid s)"

definition replayStep :: "int \<Rightarrow> ledgerEntry \<Rightarrow> int" where
  "replayStep acc e =
     (if le_entryType e = CREDIT then acc + le_amount e
      else if le_entryType e = DEBIT then acc - le_amount e else acc)"

definition replay :: "ledgerEntry list \<Rightarrow> int" where
  "replay es = foldl replayStep 0 es"

text \<open>\<^verbatim>\<open>entries.at(-1)?.balanceAfter ?? 0n\<close>\<close>

definition reportedBalance :: "ledgerEntry list \<Rightarrow> int" where
  "reportedBalance es = (if es = [] then 0 else le_balanceAfter (last es))"

record ledgerInspection =
  li_entryCount :: nat
  li_reportedBalance :: int
  li_computedBalance :: int
  li_isReconciled :: bool
  li_discrepancy :: int
  li_entries :: "ledgerEntry list"

definition inspectLedger :: "string \<Rightarrow> db \<Rightarrow> ledgerInspection result" where
  "inspectLedger walletId s =
     bindE (orThrow (NotFound ''Wallet not found in simulation database'') (walletById walletId s)) (\<lambda>_.
     let entries = oldestFirst walletId s; discrepancy = replay entries - reportedBalance entries in
     Inr \<lparr>li_entryCount = length entries, li_reportedBalance = reportedBalance entries,
          li_computedBalance = replay entries, li_isReconciled = (discrepancy = 0),
          li_discrepancy = discrepancy,
          li_entries = map (\<lambda>e. e\<lparr>le_bucketType :=
            Some (case le_bucketType e of None \<Rightarrow> BT_MAIN | Some t \<Rightarrow> t)\<rparr>) entries\<rparr>)"

record reconcileRow =
  rr_walletId :: string
  rr_userId :: string
  rr_isReconciled :: bool
  rr_reportedBalance :: int
  rr_computedBalance :: int
  rr_discrepancy :: int
  rr_entryCount :: nat

definition reconcileRowOf :: "db \<Rightarrow> string \<Rightarrow> string \<Rightarrow> reconcileRow" where
  "reconcileRowOf s wid owner =
     (let entries = oldestFirst wid s; discrepancy = replay entries - reportedBalance entries in
      \<lparr>rr_walletId = wid, rr_userId = owner, rr_isReconciled = (discrepancy = 0),
       rr_reportedBalance = reportedBalance entries, rr_computedBalance = replay entries,
       rr_discrepancy = discrepancy, rr_entryCount = length entries\<rparr>)"

definition systemTypeName :: "systemWalletType \<Rightarrow> string" where
  "systemTypeName t = (case t of PLATFORM_POOL \<Rightarrow> ''PLATFORM_POOL'' | RECIPIENT_BASE \<Rightarrow> ''RECIPIENT_BASE'')"

text \<open>The users of a run: \<^verbatim>\<open>email: { startsWith: runId }\<close>.\<close>

definition simUsers :: "string \<Rightarrow> db \<Rightarrow> user list" where
  "simUsers runId s = filter (\<lambda>u. startsWith runId (u_email u)) (users s)"

definition runUserIds :: "string \<Rightarrow> db \<Rightarrow> string list" where
  "runUserIds runId s = map u_id (simUsers runId s)"

definition reconcileRun :: "string \<Rightarrow> db \<Rightarrow> (bool \<times> reconcileRow list) result" where
  "reconcileRun runId s =
     bindE (ensure (simUsers runId s \<noteq> []) (NotFound ''No sim users found for runId'')) (\<lambda>_.
     let rows = map (\<lambda>w. reconcileRowOf s (w_id w) (w_userId w))
           (filter (\<lambda>w. w_userId w \<in> set (runUserIds runId s)) (wallets s))
         @ map (\<lambda>sw. reconcileRowOf s (sw_walletId sw) (''SYSTEM:'' @ systemTypeName (sw_type sw)))
           (filter (\<lambda>sw. oldestFirst (sw_walletId sw) s \<noteq> []) (systemWallets s))
     in Inr (list_all rr_isReconciled rows, rows))"

section \<open>Deleting a run\<close>

text \<open>
  \<^verbatim>\<open>deleteMany\<close> of rows others may refer to: refused with \<^verbatim>\<open>P2003\<close> when one does.  The relations are
  those of the schema, restrictive unless it says otherwise.
\<close>

definition deleteUnless :: "(db \<Rightarrow> bool) \<Rightarrow> (db \<Rightarrow> db) \<Rightarrow> (db, unit) prog" where
  "deleteUnless referred f s = (if referred s then (Inl (PrismaError ''P2003''), s) else (Inr (), f s))"

definition deleteRows :: "(db \<Rightarrow> db) \<Rightarrow> (db, unit) prog" where
  "deleteRows f s = (Inr (), f s)"

text \<open>What refers to schedules, memberships, circles, wallets and users.\<close>

definition schedulesReferred :: "string set \<Rightarrow> db \<Rightarrow> bool" where
  "schedulesReferred C s =
     list_ex (\<lambda>x. cs_circleId x \<in> C \<and> list_ex (\<lambda>p. po_scheduleId p = cs_id x) (payouts s)) (schedules s)"

definition membershipsReferred :: "string set \<Rightarrow> db \<Rightarrow> bool" where
  "membershipsReferred C s =
     list_ex (\<lambda>m. m_circleId m \<in> C \<and> list_ex (\<lambda>k. co_membershipId k = m_id m) (contributions s)) (memberships s)"

definition circlesReferred :: "string set \<Rightarrow> db \<Rightarrow> bool" where
  "circlesReferred C s =
     list_ex (\<lambda>c. c_id c \<in> C \<and>
       (list_ex (\<lambda>i. iv_circleId i = c_id c) (invites s) \<or> list_ex (\<lambda>m. m_circleId m = c_id c) (memberships s) \<or>
        list_ex (\<lambda>x. cs_circleId x = c_id c) (schedules s) \<or> list_ex (\<lambda>k. co_circleId k = c_id c) (contributions s) \<or>
        list_ex (\<lambda>p. po_circleId p = c_id c) (payouts s) \<or> list_ex (\<lambda>l. ln_circleId l = c_id c) (loans s) \<or>
        list_ex (\<lambda>r. pr_circleId r = c_id c) (peerReviews s))) (circles s)"

definition walletsReferred :: "string set \<Rightarrow> db \<Rightarrow> bool" where
  "walletsReferred U s =
     list_ex (\<lambda>w. w_userId w \<in> U \<and>
       (list_ex (\<lambda>e. le_walletId e = w_id w) (ledgerEntries s) \<or>
        list_ex (\<lambda>b. wb_walletId b = w_id w) (walletBuckets s) \<or>
        list_ex (\<lambda>t. t_walletId t = w_id w) (transactions s) \<or>
        list_ex (\<lambda>v. va_walletId v = w_id w) (virtualAccounts s) \<or>
        list_ex (\<lambda>x. sw_walletId x = w_id w) (systemWallets s))) (wallets s)"

definition usersReferred :: "string set \<Rightarrow> db \<Rightarrow> bool" where
  "usersReferred U s \<longleftrightarrow>
     list_ex (\<lambda>u. u_id u \<in> U \<and>
       (list_ex (\<lambda>w. w_userId w = u_id u) (wallets s) \<or> list_ex (\<lambda>c. c_adminId c = u_id u) (circles s) \<or>
        list_ex (\<lambda>m. m_userId m = u_id u) (memberships s) \<or> list_ex (\<lambda>k. co_userId k = u_id u) (contributions s) \<or>
        list_ex (\<lambda>p. po_recipientId p = u_id u) (payouts s) \<or> list_ex (\<lambda>t. ts_userId t = u_id u) (allTrustStats s) \<or>
        list_ex (\<lambda>x. cr_userId x = u_id u) (creditScores s) \<or> list_ex (\<lambda>l. ln_userId l = u_id u) (loans s) \<or>
        list_ex (\<lambda>r. pr_reviewerId r = u_id u \<or> pr_revieweeId r = u_id u) (peerReviews s))) (users s)"

text \<open>The rows that go with a user, and the recipient that is set to null.\<close>

definition dropUsers :: "string set \<Rightarrow> db \<Rightarrow> db" where
  "dropUsers U s =
     s\<lparr>users := filter (\<lambda>u. u_id u \<notin> U) (users s),
       virtualAccounts := filter (\<lambda>v. va_userId v \<notin> U) (virtualAccounts s),
       userProfiles := filter (\<lambda>i. i \<notin> U) (userProfiles s), kycs := filter (\<lambda>k. k_userId k \<notin> U) (kycs s),
       otpCodes := filter (\<lambda>c. oc_userId c \<notin> U) (otpCodes s),
       refreshTokens := filter (\<lambda>t. rt_userId t \<notin> U) (refreshTokens s),
       savedBankAccounts := filter (\<lambda>b. sb_userId b \<notin> U) (savedBankAccounts s),
       schedules := map (\<lambda>x. if (case cs_recipientId x of None \<Rightarrow> False | Some u \<Rightarrow> u \<in> U) then x\<lparr>cs_recipientId := None\<rparr> else x)
         (schedules s)\<rparr>"

definition deleteCircles :: "string set \<Rightarrow> (db, unit) prog" where
  "deleteCircles C =
     andThen (deleteRows (\<lambda>s. s\<lparr>peerReviews := filter (\<lambda>r. pr_circleId r \<notin> C) (peerReviews s)\<rparr>)) (\<lambda>_.
     andThen (deleteRows (\<lambda>s. s\<lparr>payouts := filter (\<lambda>p. po_circleId p \<notin> C) (payouts s)\<rparr>)) (\<lambda>_.
     andThen (deleteRows (\<lambda>s. s\<lparr>contributions := filter (\<lambda>k. co_circleId k \<notin> C) (contributions s)\<rparr>)) (\<lambda>_.
     andThen (deleteUnless (schedulesReferred C)
       (\<lambda>s. s\<lparr>schedules := filter (\<lambda>x. cs_circleId x \<notin> C) (schedules s)\<rparr>)) (\<lambda>_.
     andThen (deleteRows (\<lambda>s. s\<lparr>loans := filter (\<lambda>l. ln_circleId l \<notin> C) (loans s)\<rparr>)) (\<lambda>_.
     andThen (deleteRows (\<lambda>s. s\<lparr>invites := filter (\<lambda>i. iv_circleId i \<notin> C) (invites s)\<rparr>)) (\<lambda>_.
     andThen (deleteUnless (membershipsReferred C)
       (\<lambda>s. s\<lparr>memberships := filter (\<lambda>m. m_circleId m \<notin> C) (memberships s)\<rparr>)) (\<lambda>_.
     andThen (deleteUnless (circlesReferred C)
       (\<lambda>s. s\<lparr>circles := filter (\<lambda>c. c_id c \<notin> C) (circles s)\<rparr>)) (\<lambda>_.
     deleteRows (\<lambda>s. s\<lparr>auditLogs := filter (\<lambda>a. \<not> (al_actorId a = ''SYSTEM'' \<and> al_entityId a \<in> C))
       (auditLogs s)\<rparr>)))))))))"

definition deleteUsers :: "string set \<Rightarrow> string set \<Rightarrow> (db, unit) prog" where
  "deleteUsers U W =
     andThen (deleteRows (\<lambda>s. s\<lparr>auditLogs := filter (\<lambda>a. al_actorId a \<notin> U) (auditLogs s)\<rparr>)) (\<lambda>_.
     andThen (deleteRows (\<lambda>s. s\<lparr>creditScores := filter (\<lambda>x. cr_userId x \<notin> U) (creditScores s)\<rparr>)) (\<lambda>_.
     andThen (deleteRows (\<lambda>s. s\<lparr>allTrustStats := filter (\<lambda>t. ts_userId t \<notin> U) (allTrustStats s)\<rparr>)) (\<lambda>_.
     andThen (deleteRows (\<lambda>s. s\<lparr>ledgerEntries := filter (\<lambda>e. le_walletId e \<notin> W) (ledgerEntries s)\<rparr>)) (\<lambda>_.
     andThen (deleteRows (\<lambda>s. s\<lparr>walletBuckets := filter (\<lambda>b. wb_walletId b \<notin> W) (walletBuckets s)\<rparr>)) (\<lambda>_.
     andThen (deleteUnless (walletsReferred U)
       (\<lambda>s. s\<lparr>wallets := filter (\<lambda>w. w_userId w \<notin> U) (wallets s)\<rparr>)) (\<lambda>_.
     deleteUnless (usersReferred U) (dropUsers U)))))))"

definition walletIdsOf :: "string set \<Rightarrow> db \<Rightarrow> string list" where
  "walletIdsOf U s = map w_id (filter (\<lambda>w. w_userId w \<in> U) (wallets s))"

definition circleIdsOf :: "string set \<Rightarrow> db \<Rightarrow> string list" where
  "circleIdsOf U s = map c_id (filter (\<lambda>c. c_adminId c \<in> U) (circles s))"

definition resetRun :: "string \<Rightarrow> (db, nat) prog" where
  "resetRun runId s =
     (let uids = runUserIds runId s; U = set uids; W = set (walletIdsOf U s); cids = circleIdsOf U s in
      if uids = [] then (Inl (NotFound ''No sim users found for runId''), s)
      else andThen (onlyIf (cids \<noteq> []) (deleteCircles (set cids))) (\<lambda>_.
           andThen (deleteUsers U W) (\<lambda>_.
           give (length uids))) s)"


section \<open>What a replay computes\<close>

lemma foldl_replay:
  "foldl replayStep acc es = acc + sumBy (\<lambda>e. le_entryType e = CREDIT) le_amount es
     - sumBy (\<lambda>e. le_entryType e = DEBIT) le_amount es"
  by (induction es arbitrary: acc) (simp_all add: replayStep_def)

lemma sumBy_rev: "sumBy P g (rev es) = sumBy P g es"
  by (induction es) simp_all

lemma replay_calculated: "replay (oldestFirst wid s) = calculatedTotal wid s"
  by (simp add: replay_def foldl_replay oldestFirst_def sumBy_rev calculatedTotal_def)

lemma reported_total: "reportedBalance (oldestFirst wid s) = computeTotalBalance s wid"
  by (cases "entriesOf wid s")
    (simp_all add: reportedBalance_def oldestFirst_def computeTotalBalance_top topBalance_def)

text \<open>The replay is the ledger half of the audit of \<open>Reconciliation\<close>.\<close>

lemma reconcileRowOf_fields:
  "rr_walletId (reconcileRowOf s wid owner) = wid" "rr_userId (reconcileRowOf s wid owner) = owner"
  "rr_reportedBalance (reconcileRowOf s wid owner) = computeTotalBalance s wid"
  "rr_computedBalance (reconcileRowOf s wid owner) = calculatedTotal wid s"
  "rr_isReconciled (reconcileRowOf s wid owner) \<longleftrightarrow> ir_ledgerValid (verifyWalletIntegrity wid s)"
  by (auto simp: reconcileRowOf_def Let_def replay_calculated reported_total verifyWalletIntegrity_fields)

definition reconcileRows :: "string \<Rightarrow> db \<Rightarrow> reconcileRow list" where
  "reconcileRows runId s =
     map (\<lambda>w. reconcileRowOf s (w_id w) (w_userId w))
       (filter (\<lambda>w. w_userId w \<in> set (runUserIds runId s)) (wallets s))
     @ map (\<lambda>sw. reconcileRowOf s (sw_walletId sw) (''SYSTEM:'' @ systemTypeName (sw_type sw)))
       (filter (\<lambda>sw. oldestFirst (sw_walletId sw) s \<noteq> []) (systemWallets s))"

lemma reconcileRun_rows:
  "reconcileRun runId s = Inr (ok, rows) \<longleftrightarrow>
     simUsers runId s \<noteq> [] \<and> rows = reconcileRows runId s \<and> ok = list_all rr_isReconciled rows"
  by (auto simp: reconcileRun_def reconcileRows_def result_simps Let_def)

lemma reconcileRows_fields:
  "r \<in> set (reconcileRows runId s) \<Longrightarrow>
     (rr_isReconciled r \<longleftrightarrow> ir_ledgerValid (verifyWalletIntegrity (rr_walletId r) s)) \<and>
     rr_computedBalance r = calculatedTotal (rr_walletId r) s \<and>
     rr_reportedBalance r = computeTotalBalance s (rr_walletId r)"
  unfolding reconcileRows_def using reconcileRowOf_fields by fastforce

lemma reconcileRows_wallets:
  "rr_walletId ` set (reconcileRows runId s) =
     w_id ` {w \<in> set (wallets s). w_userId w \<in> set (runUserIds runId s)}
     \<union> sw_walletId ` {sw \<in> set (systemWallets s). entriesOf (sw_walletId sw) s \<noteq> []}"
  by (simp add: reconcileRows_def image_Un image_image reconcileRowOf_fields oldestFirst_def)

lemma reconcileRun_passes:
  assumes "ledgerChained s" and "reconcileRun runId s = Inr (ok, rows)"
  shows ok
  using assms ledgerChained_audit reconcileRows_fields
  by (auto simp: reconcileRun_rows list_all_iff ledgerAuditPasses_def)

section \<open>What every operation preserves\<close>

lemma preserves_sound:
  assumes "\<And>s x s'. m s = Inr (x, s') \<Longrightarrow> moves s s'"
  shows "preserves sound (transaction m)"
  using assms keeps_moves keeps_sound by (intro preserves_transaction) blast

lemma preserves_moves: "(\<And>s. moves s (snd (m s))) \<Longrightarrow> preserves sound m"
  using keeps_moves keeps_sound unfolding preserves_def by blast

lemma setScheduleMode_sound [preserving]: "preserves sound (setScheduleMode cid n mode env)"
  by (rule preserves_moves) (simp add: setScheduleMode_def moves_same)

lemma services_sound [preserving]:
  "preserves sound (joining uid cid env)" "preserves sound (approving cid adminId uid env)"
  "preserves sound (contributing uid cid n env)" "preserves sound (activating w cid env)"
  "preserves sound (transaction (createCircle env adminId d))"
  "preserves sound (transaction (updatePayoutConfiguration cid adminId pc))"
  "preserves sound (processPayout env cid n)" "preserves sound (applyLoan env bureau uid cid)"
  unfolding joining_def approving_def contributing_def activating_def
  by (rule preserves_sound, erule moving)+ (rule preserves_moves, rule moving)+

lemma insertUser_moves: "insertUser u s = Inr s' \<Longrightarrow> moves s s'"
  by (auto simp: insertUser_def split: if_splits intro!: moves_same)

lemma insertWallet_moves: "insertWallet w s = Inr s' \<Longrightarrow> moves s s'"
  by (auto simp: insertWallet_def split: if_splits intro!: moves_same)

lemma createFundedUser_sound [preserving]: "preserves sound (createFundedUser email label r a env)"
  unfolding createFundedUser_def Let_def
  by (intro preserving preserves_sound)
    (auto simp: result_simps ensureTrustStats_def intro: insertUser_moves insertWallet_moves moves_write moves_same)

lemma createSimUser_sound [preserving]: "preserves sound (createSimUser runId label r a env)"
  by (simp add: createSimUser_def createFundedUser_sound)

lemma createUsers_sound: "preserves (onDb sound) (createUsers envs d)"
proof -
  have "preserves (onDb sound)
      (andThen (peek (\<lambda>s. fundAmountOf (sx_fundAmountKobo d))) (\<lambda>a.
       andThen (each (\<lambda>i. call envs (createSimUser r (''M'' @ showNat i) MEMBER a)) [1..<sx_count d + 1])
         (\<lambda>us. give (r, us))))" for r
    by (intro preserving)
  then show ?thesis
    by (simp add: createUsers_def preserves_def Let_def)
qed

lemma sandboxCircle_sound: "preserves (onDb sound) (sandboxCircle w envs d)"
  unfolding sandboxCircle_def sandboxAdmin_def enrol_def by (intro preserving) (auto split: option.split intro!: preserving)

lemma runCycle_sound: "preserves (onDb sound) (runCycle envs d)"
  unfolding runCycle_def contributeAll_def Let_def by (intro preserving)

lemma sandboxLoan_sound: "preserves (onDb sound) (sandboxLoan w envs uid cid)"
  unfolding sandboxLoan_def by (intro preserving)


section \<open>A run is made once\<close>

definition hasEmail :: "string \<Rightarrow> db \<Rightarrow> bool" where
  "hasEmail e s \<longleftrightarrow> e \<in> u_email ` set (users s)"

lemma createFundedUser_keeps: "preserves (hasEmail e) (createFundedUser email label r a env)"
proof -
  have w: "writeEntry i p s = Inr (x, s') \<Longrightarrow> users s' = users s" for i p s x s'
    by (rule writeEntry_frame(2))
  show ?thesis
    unfolding createFundedUser_def Let_def hasEmail_def
    by (intro preserving)
      (auto simp: result_simps ensureTrustStats_def insertUser_def insertWallet_def split: if_splits dest!: w)
qed

lemma createFundedUser_email:
  assumes "createFundedUser email label r a env s = (Inr u, s')"
  shows "hasEmail email s'" and "su_email u = email"
proof -
  have w: "writeEntry i p s = Inr (x, s') \<Longrightarrow> users s' = users s" for i p s x s'
    by (rule writeEntry_frame(2))
  show "hasEmail email s'" "su_email u = email"
    using assms unfolding createFundedUser_def Let_def hasEmail_def
    by (auto simp: prog_simps result_simps ensureTrustStats_def insertUser_def insertWallet_def simUserRow_def
        split: if_splits dest!: w)
qed

lemma createFundedUser_taken:
  assumes "hasEmail email s"
  shows "createFundedUser email label r a env s = (Inl (PrismaError ''P2002''), s)"
proof -
  have "insertUser (simUserRow env email label r) s = Inl (PrismaError ''P2002'')"
    using assms by (auto simp: insertUser_def hasEmail_def simUserRow_def list_ex_iff)
  then show ?thesis by (simp add: createFundedUser_def Let_def andThen_def)
qed

lemma createUsers_first:
  assumes "createUsers envs d b = (Inr (r, us), b')" and "1 \<le> sx_count d"
  shows "hasEmail (simEmail r (''M'' @ showNat 1)) (snd b')"
proof -
  let ?make = "\<lambda>a i. call envs (createSimUser r (''M'' @ showNat i) MEMBER a)"
  have p: "preserves (onDb (hasEmail e)) (each (?make a) xs)" for e a xs
    unfolding createSimUser_def by (intro preserving createFundedUser_keeps)
  obtain a where "each (?make a) [1..<sx_count d + 1] b = (Inr us, b')"
    using assms(1) by (auto simp: createUsers_def Let_def prog_simps)
  moreover have "[1..<sx_count d + 1] = 1 # [2..<sx_count d + 1]"
    using assms(2) by (simp add: upt_conv_Cons numeral_2_eq_2)
  ultimately have "each (?make a) (1 # [2..<sx_count d + 1]) b = (Inr us, b')"
    by (simp only:)
  then obtain u b1 us' where u: "?make a 1 b = (Inr u, b1)" and us: "each (?make a) [2..<sx_count d + 1] b1 = (Inr us', b')"
    by (auto simp: prog_simps)
  from u have "onDb (hasEmail (simEmail r (''M'' @ showNat 1))) b1"
    by (auto simp: call_Inr createSimUser_def onDb_def dest: createFundedUser_email(1))
  from preservesD [OF p this, of a "[2..<sx_count d + 1]"] show ?thesis
    by (simp only: us onDb_def snd_conv)
qed

lemma createUsers_again:
  assumes "hasEmail (simEmail r (''M'' @ showNat 1)) s" and "sx_runId d = Some r" and "1 \<le> sx_count d"
  shows "isl (fst (createUsers envs d (k, s))) \<and> snd (snd (createUsers envs d (k, s))) = s"
proof (cases "fundAmountOf (sx_fundAmountKobo d)")
  case (Inl e)
  then show ?thesis by (simp add: createUsers_def Let_def andThen_def peek_def)
next
  case (Inr a)
  have "[1..<sx_count d + 1] = 1 # [2..<sx_count d + 1]"
    using assms(3) by (simp add: upt_conv_Cons numeral_2_eq_2)
  with Inr assms show ?thesis
    by (simp add: createUsers_def Let_def andThen_def peek_def runOf_def call_def createSimUser_def
        createFundedUser_taken)
qed

section \<open>What a reset deletes\<close>

lemma sound_filtered:
  assumes "sound s" and "ledgerEntries s' = filter (\<lambda>e. le_walletId e \<notin> W) (ledgerEntries s)"
    and "transactions s' = transactions s"
  shows "sound s'"
proof -
  have "entriesOf w s' = (if w \<in> W then [] else entriesOf w s)" for w
    by (auto simp: entriesOf_def assms(2) filter_empty_conv intro!: filter_cong)
  then have "ledgerChained s'" using assms(1) by (simp add: sound_def ledgerChained_def)
  moreover have "ledgerUnique s'"
    using assms(1,2) by (simp add: sound_def ledgerUnique_def distinct_map_filter)
  ultimately show ?thesis
    using assms(1,3) by (simp add: sound_def transactionsUnique_def amountsOk_def)
qed

lemma deleteRows_sound:
  "(\<And>s. ledgerEntries (f s) = ledgerEntries s) \<Longrightarrow> (\<And>s. transactions (f s) = transactions s) \<Longrightarrow>
   preserves sound (deleteRows f)"
  "(\<And>s. ledgerEntries (f s) = ledgerEntries s) \<Longrightarrow> (\<And>s. transactions (f s) = transactions s) \<Longrightarrow>
   preserves sound (deleteUnless P f)"
  using sound_filtered [where W = "{}"] by (auto simp: preserves_def deleteRows_def deleteUnless_def)

lemma deleteCircles_sound [preserving]: "preserves sound (deleteCircles C)"
  unfolding deleteCircles_def by (intro preserving deleteRows_sound) simp_all

lemma deleteEntries_sound:
  "preserves sound (deleteRows (\<lambda>s. s\<lparr>ledgerEntries := filter (\<lambda>e. le_walletId e \<notin> W) (ledgerEntries s)\<rparr>))"
  unfolding preserves_def deleteRows_def by (auto intro: sound_filtered)

lemma deleteUsers_sound [preserving]: "preserves sound (deleteUsers U W)"
  unfolding deleteUsers_def
  by (intro preserves_andThen deleteEntries_sound) (rule deleteRows_sound; simp add: dropUsers_def)+

lemma resetRun_sound: "preserves sound (resetRun runId)"
proof -
  have "preserves sound (andThen (onlyIf b (deleteCircles C)) (\<lambda>_. andThen (deleteUsers U W) (\<lambda>_. give n)))"
    for b C U W and n :: nat
    by (intro preserving)
  from preservesD [OF this] show ?thesis
    unfolding preserves_def resetRun_def Let_def by simp
qed


lemma delete_Inr:
  "deleteRows f s = (Inr x, s') \<longleftrightarrow> s' = f s"
  "deleteUnless P f s = (Inr x, s') \<longleftrightarrow> \<not> P s \<and> s' = f s"
  by (auto simp: deleteRows_def deleteUnless_def)

definition withoutCircles :: "string set \<Rightarrow> db \<Rightarrow> db" where
  "withoutCircles C s =
     s\<lparr>peerReviews := filter (\<lambda>r. pr_circleId r \<notin> C) (peerReviews s),
       payouts := filter (\<lambda>p. po_circleId p \<notin> C) (payouts s),
       contributions := filter (\<lambda>k. co_circleId k \<notin> C) (contributions s),
       schedules := filter (\<lambda>x. cs_circleId x \<notin> C) (schedules s),
       loans := filter (\<lambda>l. ln_circleId l \<notin> C) (loans s),
       invites := filter (\<lambda>i. iv_circleId i \<notin> C) (invites s),
       memberships := filter (\<lambda>m. m_circleId m \<notin> C) (memberships s),
       circles := filter (\<lambda>c. c_id c \<notin> C) (circles s),
       auditLogs := filter (\<lambda>a. \<not> (al_actorId a = ''SYSTEM'' \<and> al_entityId a \<in> C)) (auditLogs s)\<rparr>"

lemma deleteCircles_Inr: "deleteCircles C s = (Inr x, s') \<Longrightarrow> s' = withoutCircles C s"
  by (auto simp: deleteCircles_def withoutCircles_def prog_simps delete_Inr)

definition withoutMoney :: "string set \<Rightarrow> string set \<Rightarrow> db \<Rightarrow> db" where
  "withoutMoney U W s =
     s\<lparr>auditLogs := filter (\<lambda>a. al_actorId a \<notin> U) (auditLogs s),
       creditScores := filter (\<lambda>x. cr_userId x \<notin> U) (creditScores s),
       allTrustStats := filter (\<lambda>t. ts_userId t \<notin> U) (allTrustStats s),
       ledgerEntries := filter (\<lambda>e. le_walletId e \<notin> W) (ledgerEntries s),
       walletBuckets := filter (\<lambda>b. wb_walletId b \<notin> W) (walletBuckets s)\<rparr>"

definition withoutWallets :: "string set \<Rightarrow> db \<Rightarrow> db" where
  "withoutWallets U s = s\<lparr>wallets := filter (\<lambda>w. w_userId w \<notin> U) (wallets s)\<rparr>"

lemma deleteUsers_cases:
  "deleteUsers U W s =
     (if walletsReferred U (withoutMoney U W s) then (Inl (PrismaError ''P2003''), withoutMoney U W s)
      else if usersReferred U (withoutWallets U (withoutMoney U W s))
      then (Inl (PrismaError ''P2003''), withoutWallets U (withoutMoney U W s))
      else (Inr (), dropUsers U (withoutWallets U (withoutMoney U W s))))"
  by (simp add: deleteUsers_def andThen_def deleteRows_def deleteUnless_def withoutMoney_def withoutWallets_def)

text \<open>The state after a run was deleted, and that nothing refers to its users.\<close>

lemma resetRun_Inr:
  assumes "resetRun runId s = (Inr n, s')"
  obtains U W t where "U = set (runUserIds runId s)" and "W = set (walletIdsOf U s)" and "n = length (runUserIds runId s)"
    and "t = withoutCircles (set (circleIdsOf U s)) s \<or> t = s \<and> circleIdsOf U s = []"
    and "\<not> usersReferred U (withoutWallets U (withoutMoney U W t))"
    and "s' = dropUsers U (withoutWallets U (withoutMoney U W t))"
proof -
  define U where "U = set (runUserIds runId s)"
  define W where "W = set (walletIdsOf U s)"
  obtain t where t: "onlyIf (circleIdsOf U s \<noteq> []) (deleteCircles (set (circleIdsOf U s))) s = (Inr (), t)"
    and u: "deleteUsers U W t = (Inr (), s')" and n: "n = length (runUserIds runId s)"
    using assms by (auto simp: resetRun_def Let_def prog_simps U_def W_def split: if_splits)
  have "t = withoutCircles (set (circleIdsOf U s)) s \<or> t = s \<and> circleIdsOf U s = []"
    using t by (auto simp: onlyIf_def prog_simps split: if_splits dest: deleteCircles_Inr)
  with u n show thesis
    by (intro that [OF U_def W_def]) (auto simp: deleteUsers_cases split: if_splits)
qed

lemma resetRun_others:
  assumes "resetRun runId s = (Inr n, s')" and "distinct (map u_id (users s))"
  shows "users s' = filter (\<lambda>u. \<not> startsWith runId (u_email u)) (users s)"
    and "wallets s' = filter (\<lambda>w. w_userId w \<notin> set (runUserIds runId s)) (wallets s)"
    and "\<And>w. w \<notin> set (walletIdsOf (set (runUserIds runId s)) s) \<Longrightarrow>
      computeTotalBalance s' w = computeTotalBalance s w \<and> totalReserved s' w = totalReserved s w"
proof -
  obtain U W t where U: "U = set (runUserIds runId s)" and W: "W = set (walletIdsOf U s)"
    and t: "t = withoutCircles (set (circleIdsOf U s)) s \<or> t = s \<and> circleIdsOf U s = []"
    and s': "s' = dropUsers U (withoutWallets U (withoutMoney U W t))"
    by (rule resetRun_Inr [OF assms(1)]) (rule that)
  have tabs: "users t = users s" "wallets t = wallets s" "ledgerEntries t = ledgerEntries s"
    "walletBuckets t = walletBuckets s"
    using t by (auto simp: withoutCircles_def)
  have "u_id u \<notin> U \<longleftrightarrow> \<not> startsWith runId (u_email u)" if "u \<in> set (users s)" for u
    using that assms(2) unfolding U runUserIds_def simUsers_def
    by (auto dest: eq_key_imp_eq_value simp: distinct_map inj_on_def)
  then show "users s' = filter (\<lambda>u. \<not> startsWith runId (u_email u)) (users s)"
    by (simp add: s' dropUsers_def withoutWallets_def withoutMoney_def tabs cong: filter_cong)
  show "wallets s' = filter (\<lambda>w. w_userId w \<notin> set (runUserIds runId s)) (wallets s)"
    by (simp add: s' dropUsers_def withoutWallets_def withoutMoney_def tabs U)
  show "computeTotalBalance s' w = computeTotalBalance s w \<and> totalReserved s' w = totalReserved s w"
    if "w \<notin> set (walletIdsOf (set (runUserIds runId s)) s)" for w
  proof -
    have w: "w \<notin> W" using that by (simp add: W U)
    have "entriesOf w s' = entriesOf w s"
      using w by (auto simp: s' entriesOf_def dropUsers_def withoutWallets_def withoutMoney_def tabs intro!: filter_cong)
    moreover have "filter (\<lambda>b. wb_walletId b = w) (walletBuckets s') = filter (\<lambda>b. wb_walletId b = w) (walletBuckets s)"
      using w by (auto simp: s' dropUsers_def withoutWallets_def withoutMoney_def tabs intro!: filter_cong)
    ultimately show ?thesis
      by (simp add: computeTotalBalance_top totalReserved_def sumBy_def)
  qed
qed

text \<open>Nothing of the platform belongs to a user of the run any more.\<close>

definition belongsTo :: "string \<Rightarrow> db \<Rightarrow> bool" where
  "belongsTo uid s \<longleftrightarrow>
     list_ex (\<lambda>c. c_adminId c = uid) (circles s) \<or> list_ex (\<lambda>m. m_userId m = uid) (memberships s) \<or>
     list_ex (\<lambda>k. co_userId k = uid) (contributions s) \<or> list_ex (\<lambda>p. po_recipientId p = uid) (payouts s) \<or>
     list_ex (\<lambda>l. ln_userId l = uid) (loans s) \<or> list_ex (\<lambda>t. ts_userId t = uid) (allTrustStats s)"

lemma resetRun_clean:
  assumes "resetRun runId s = (Inr n, s')" and "uid \<in> set (runUserIds runId s)"
  shows "\<not> belongsTo uid s'"
proof -
  obtain U W t where U: "U = set (runUserIds runId s)"
    and t: "t = withoutCircles (set (circleIdsOf U s)) s \<or> t = s \<and> circleIdsOf U s = []"
    and ref: "\<not> usersReferred U (withoutWallets U (withoutMoney U W t))"
    and s': "s' = dropUsers U (withoutWallets U (withoutMoney U W t))"
    by (rule resetRun_Inr [OF assms(1)]) (rule that)
  obtain u where "u \<in> set (users s)" and "u_id u = uid"
    using assms(2) by (auto simp: runUserIds_def simUsers_def)
  moreover have "users (withoutWallets U (withoutMoney U W t)) = users s"
    using t by (auto simp: withoutCircles_def withoutWallets_def withoutMoney_def)
  ultimately have "\<not> belongsTo uid (withoutWallets U (withoutMoney U W t))"
    using ref assms(2) by (auto simp: usersReferred_def belongsTo_def list_ex_iff U)
  then show ?thesis
    by (simp add: s' belongsTo_def dropUsers_def)
qed

text \<open>
  A user of the run who is in a circle of somebody else stops the deletion at the last statement, when
  the ledger and the wallets are gone.
\<close>

lemma resetRun_stuck:
  assumes "circleIdsOf (set (runUserIds runId s)) s = []" and "uid \<in> set (runUserIds runId s)"
    and "list_ex (\<lambda>m. m_userId m = uid) (memberships s)"
    and "list_all (\<lambda>t. t_walletId t \<notin> set (walletIdsOf (set (runUserIds runId s)) s)) (transactions s)"
    and "list_all (\<lambda>v. va_walletId v \<notin> set (walletIdsOf (set (runUserIds runId s)) s)) (virtualAccounts s)"
    and "list_all (\<lambda>x. sw_walletId x \<notin> set (walletIdsOf (set (runUserIds runId s)) s)) (systemWallets s)"
  shows "resetRun runId s = (Inl (PrismaError ''P2003''),
    withoutWallets (set (runUserIds runId s))
      (withoutMoney (set (runUserIds runId s)) (set (walletIdsOf (set (runUserIds runId s)) s)) s))"
proof -
  define U where "U = set (runUserIds runId s)"
  define W where "W = set (walletIdsOf U s)"
  have "\<not> walletsReferred U (withoutMoney U W s)"
    using assms(4,5,6) by (auto simp: walletsReferred_def withoutMoney_def list_ex_iff list_all_iff W_def walletIdsOf_def U_def)
  moreover obtain u where "u \<in> set (users s)" and "u_id u = uid"
    using assms(2) by (auto simp: runUserIds_def simUsers_def)
  then have "usersReferred U (withoutWallets U (withoutMoney U W s))"
    using assms(2,3) by (auto simp: usersReferred_def withoutWallets_def withoutMoney_def list_ex_iff U_def)
  ultimately have "deleteUsers U W s = (Inl (PrismaError ''P2003''), withoutWallets U (withoutMoney U W s))"
    by (simp add: deleteUsers_cases)
  moreover have "runUserIds runId s \<noteq> []" using assms(2) by auto
  ultimately show ?thesis
    using assms(1) by (simp add: resetRun_def Let_def U_def [symmetric] W_def [symmetric] onlyIf_def give_def andThen_def)
qed

end
