(* ===== verification/Simulation.thy ===== *)
theory Simulation
  imports Sandbox PeerReview Exports
begin

text \<open>
  \<^verbatim>\<open>src/modules/simulation/simulation.service.ts\<close>: whole lives of circles on the bench's database, three
  fixed ones and those of a configuration, with a log of trust scores, and the deletion of what they
  made, whatever happens.  The tracker's snapshots are never read and left out.
\<close>

section \<open>The state of a simulation\<close>

text \<open>The bench, and the list the identifiers of circles are pushed on for the deletion.\<close>

type_synonym simState = "bench \<times> string list"

definition onBench :: "(bench, 'a) prog \<Rightarrow> (simState, 'a) prog" where
  "onBench m p = (case m (fst p) of (r, b) \<Rightarrow> (r, (b, snd p)))"

definition does :: "(nat \<Rightarrow> env) \<Rightarrow> (env \<Rightarrow> (db, 'a) prog) \<Rightarrow> (simState, 'a) prog" where
  "does envs f = onBench (call envs f)"

definition sees :: "(db \<Rightarrow> 'a result) \<Rightarrow> (simState, 'a) prog" where
  "sees f = onBench (peek f)"

definition pushCircle :: "string \<Rightarrow> (simState, unit) prog" where
  "pushCircle cid p = (Inr (), (fst p, snd p @ [cid]))"

section \<open>Users, scores and the log\<close>

definition WALLET_FUND_AMOUNT :: int where "WALLET_FUND_AMOUNT = 5000000"

text \<open>\<^verbatim>\<open>label.toLowerCase().replace(/\s/g, '_')\<close>\<close>

definition simulationEmail :: "string \<Rightarrow> string \<Rightarrow> string" where
  "simulationEmail runId label =
     runId @ ''_'' @ map (\<lambda>c. if isBlank c then CHR ''_'' else c) (toLowerCase label) @ ''@sim.test''"

definition simFundAmount :: "int \<Rightarrow> int" where
  "simFundAmount contributionAmount =
     (if contributionAmount * 20 > WALLET_FUND_AMOUNT then contributionAmount * 20 else WALLET_FUND_AMOUNT)"

definition simulationUser :: "string \<Rightarrow> string \<Rightarrow> role \<Rightarrow> int \<Rightarrow> env \<Rightarrow> (db, simUser) prog" where
  "simulationUser runId label r contributionAmount =
     createFundedUser (simulationEmail runId label) label r (simFundAmount contributionAmount)"

record simScore =
  sn_memberLabel :: string
  sn_raw :: int
  sn_display :: int

record simEvent =
  se_cycle :: string
  se_event :: string
  se_scores :: "simScore list"

record simResult =
  sr_runId :: string
  sr_events :: "simEvent list"
  sr_finalScores :: "simScore list"

definition readScore :: "db \<Rightarrow> simUser \<Rightarrow> simScore" where
  "readScore s u =
     (let raw = (case findFirst (\<lambda>t. ts_userId t = su_id u) (allTrustStats s) of
                   None \<Rightarrow> 50 | Some t \<Rightarrow> ts_trustScore t)
      in \<lparr>sn_memberLabel = su_label u, sn_raw = raw, sn_display = math_round (of_int raw)\<rparr>)"

definition recordEvent :: "simUser list \<Rightarrow> string \<Rightarrow> string \<Rightarrow> (simState, simEvent) prog" where
  "recordEvent us cycle event =
     sees (\<lambda>s. Inr \<lparr>se_cycle = cycle, se_event = event, se_scores = map (readScore s) us\<rparr>)"

definition toResult :: "string \<Rightarrow> simUser list \<Rightarrow> simEvent list \<Rightarrow> (simState, simResult) prog" where
  "toResult runId us events =
     sees (\<lambda>s. Inr \<lparr>sr_runId = runId, sr_events = events, sr_finalScores = map (readScore s) us\<rparr>)"

section \<open>A circle from its creation to its last cycle\<close>

text \<open>The circle, its members joining and being approved.\<close>

definition openCircle ::
  "(nat \<Rightarrow> env) \<Rightarrow> string \<Rightarrow> createCircleDto \<Rightarrow> string list \<Rightarrow> (simState, string) prog" where
  "openCircle envs adminId dto uids =
     andThen (does envs (\<lambda>env. transaction (createCircle env adminId dto))) (\<lambda>c.
     andThen (pushCircle (c_id c)) (\<lambda>_.
     andThen (each (\<lambda>uid. onBench (enrol envs (c_id c) adminId uid)) uids) (\<lambda>_.
     give (c_id c))))"

definition dueMode :: "(nat \<Rightarrow> env) \<Rightarrow> string \<Rightarrow> int \<Rightarrow> timing \<Rightarrow> (simState, unit) prog" where
  "dueMode envs cid n mode = does envs (setScheduleMode cid n mode)"

definition contributeEach :: "(nat \<Rightarrow> env) \<Rightarrow> string \<Rightarrow> int \<Rightarrow> string list \<Rightarrow> (simState, contribution list) prog" where
  "contributeEach envs cid n uids = each (\<lambda>uid. does envs (contributing uid cid n)) uids"

definition payCycle :: "(nat \<Rightarrow> env) \<Rightarrow> string \<Rightarrow> int \<Rightarrow> simUser list \<Rightarrow> (simState, simEvent) prog" where
  "payCycle envs cid n us =
     andThen (does envs (\<lambda>env. processPayout env cid n)) (\<lambda>_. recordEvent us (showInt n) ''after payout'')"

text \<open>Every member reviews every other.\<close>

definition reviewAll ::
  "(nat \<Rightarrow> env) \<Rightarrow> string \<Rightarrow> simUser list \<Rightarrow> (simUser \<Rightarrow> simUser \<Rightarrow> int) \<Rightarrow> string option \<Rightarrow>
     (simState, reviewItem list) prog" where
  "reviewAll envs cid us rating comment =
     each (\<lambda>(a, b). does envs (\<lambda>env. transaction (submitReview env cid (su_id a)
         \<lparr>srd_revieweeId = su_id b, srd_rating = rating a b, srd_comment = comment\<rparr>)))
       (filter (\<lambda>(a, b). su_id a \<noteq> su_id b) (List.product us us))"

section \<open>The three fixed circles\<close>

definition autoDto :: "string \<Rightarrow> string \<Rightarrow> payoutLogic \<Rightarrow> createCircleDto" where
  "autoDto runId name logic =
     \<lparr>cd_name = runId @ name, cd_contributionAmount = ''100000'', cd_frequency = WEEKLY,
      cd_durationCycles = 4, cd_maxSlots = 4, cd_payoutLogic = logic, cd_visibility = Some VIS_PUBLIC\<rparr>"

definition makeUsers :: "(nat \<Rightarrow> env) \<Rightarrow> string \<Rightarrow> string list \<Rightarrow> int \<Rightarrow> (simState, simUser list) prog" where
  "makeUsers envs runId labels a = each (\<lambda>l. does envs (simulationUser runId l MEMBER a)) labels"

definition enDash :: string where "enDash = [CHR 0xE2, CHR 0x80, CHR 0x93]"

text \<open>Circle A: everybody pays on time, fair ratings.\<close>

definition ratingA :: "string \<Rightarrow> int" where
  "ratingA label = (if label = ''A1'' \<or> label = ''A4'' then 5 else 4)"

definition runCircleA :: "world \<Rightarrow> (nat \<Rightarrow> env) \<Rightarrow> string \<Rightarrow> (simState, simResult) prog" where
  "runCircleA w envs runId =
     andThen (does envs (simulationUser runId ''AdminA'' ADMIN 100000)) (\<lambda>adm.
     andThen (makeUsers envs runId [''A1'', ''A2'', ''A3'', ''A4''] 100000) (\<lambda>us.
     andThen (openCircle envs (su_id adm) (autoDto runId ''_CircleA'' SEQUENTIAL) (map su_id us)) (\<lambda>cid.
     andThen (does envs (activating w cid)) (\<lambda>_.
     andThen (each (\<lambda>n.
         andThen (dueMode envs cid n ON_TIME) (\<lambda>_.
         andThen (contributeEach envs cid n (map su_id us)) (\<lambda>_.
         andThen (recordEvent us (showInt n) ''all on-time'') (\<lambda>e1.
         andThen (payCycle envs cid n us) (\<lambda>e2. give [e1, e2]))))) [1, 2, 3, 4]) (\<lambda>es.
     andThen (reviewAll envs cid us (\<lambda>_ b. ratingA (su_label b)) (Some ''Good contributor'')) (\<lambda>_.
     andThen (recordEvent us ''post'' (''peer reviews (fair 4'' @ enDash @ ''5)'')) (\<lambda>e.
     toResult runId us (concat es @ [e]))))))))"

text \<open>Circle B: one pays late in the second cycle, one misses the third, one rates everybody with 1.\<close>

definition cycleB :: "(nat \<Rightarrow> env) \<Rightarrow> string \<Rightarrow> simUser list \<Rightarrow> int \<Rightarrow> (simState, simEvent) prog" where
  "cycleB envs cid us n =
     (let b = (\<lambda>i. su_id (us ! i)) in
      if n = 2 then
        andThen (dueMode envs cid n ON_TIME) (\<lambda>_.
        andThen (contributeEach envs cid n [b 0, b 2, b 3]) (\<lambda>_.
        andThen (dueMode envs cid n LATE) (\<lambda>_.
        andThen (contributeEach envs cid n [b 1]) (\<lambda>_.
        recordEvent us (showInt n) ''B2 late, rest on-time''))))
      else if n = 3 then
        andThen (dueMode envs cid n ON_TIME) (\<lambda>_.
        andThen (contributeEach envs cid n [b 0, b 1, b 2]) (\<lambda>_.
        recordEvent us (showInt n) ''B4 missed''))
      else
        andThen (dueMode envs cid n ON_TIME) (\<lambda>_.
        andThen (contributeEach envs cid n (map su_id us)) (\<lambda>_.
        recordEvent us (showInt n) ''all on-time'')))"

definition ratingB :: "simUser list \<Rightarrow> simUser \<Rightarrow> simUser \<Rightarrow> int" where
  "ratingB us reviewer reviewee =
     (if su_id reviewer = su_id (us ! 2) then 1 else if su_id reviewee = su_id (us ! 2) then 3 else 4)"

definition runCircleB :: "world \<Rightarrow> (nat \<Rightarrow> env) \<Rightarrow> string \<Rightarrow> (simState, simResult) prog" where
  "runCircleB w envs runId =
     andThen (does envs (simulationUser runId ''AdminB'' ADMIN 100000)) (\<lambda>adm.
     andThen (makeUsers envs runId [''B1'', ''B2'', ''B3'', ''B4''] 100000) (\<lambda>us.
     andThen (openCircle envs (su_id adm) (autoDto runId ''_CircleB'' SEQUENTIAL) (map su_id us)) (\<lambda>cid.
     andThen (does envs (activating w cid)) (\<lambda>_.
     andThen (each (\<lambda>n. andThen (cycleB envs cid us n) (\<lambda>e1.
         andThen (payCycle envs cid n us) (\<lambda>e2. give [e1, e2]))) [1, 2, 3, 4]) (\<lambda>es.
     andThen (reviewAll envs cid us (ratingB us) None) (\<lambda>_.
     andThen (recordEvent us ''post'' ''peer reviews (B3 malicious 1s)'') (\<lambda>e.
     toResult runId us (concat es @ [e]))))))))"

text \<open>Circle C: positions set by hand, a loan, members who stop paying, one of them after the payout.\<close>

definition cycleC :: "(nat \<Rightarrow> env) \<Rightarrow> string \<Rightarrow> simUser list \<Rightarrow> int \<Rightarrow> (simState, simEvent) prog" where
  "cycleC envs cid us n =
     (let c = (\<lambda>i. su_id (us ! i));
          paying = (if n = 1 \<or> n = 2 then [c 1, c 2, c 3] else [c 2, c 3]);
          event = (if n = 1 then ''C1 missed'' else if n = 2 then ''C1 missed again''
                   else if n = 3 then ''C1+C2 missed'' else ''C1+C2 missed (C1 post-payout)'') in
      andThen (dueMode envs cid n ON_TIME) (\<lambda>_.
      andThen (contributeEach envs cid n paying) (\<lambda>_.
      recordEvent us (showInt n) event)))"

definition escalate :: "(nat \<Rightarrow> env) \<Rightarrow> simUser \<Rightarrow> int \<Rightarrow> (simState, simEvent list) prog" where
  "escalate envs u n =
     (if n = 4 then
        andThen (does envs (\<lambda>env. transaction (\<lambda>s. bindE
          (updateTrustScore env (su_id u) MissedPaymentPostPayoutDefault s) (\<lambda>s1. Inr ((), s1))))) (\<lambda>_.
        andThen (recordEvent [u] (showInt n) ''C1 post-payout-default escalation'') (\<lambda>e. give [e]))
      else give [])"

definition ratingC :: "simUser list \<Rightarrow> simUser \<Rightarrow> simUser \<Rightarrow> int" where
  "ratingC us reviewer reviewee =
     (if su_id reviewee = su_id (us ! 0) then 1 else if su_id reviewee = su_id (us ! 1) then 2 else 4)"

definition assignmentsC :: "simUser list \<Rightarrow> assignment list" where
  "assignmentsC us =
     [\<lparr>as_userId = su_id (us ! 1), as_position = 1\<rparr>, \<lparr>as_userId = su_id (us ! 2), as_position = 2\<rparr>,
      \<lparr>as_userId = su_id (us ! 0), as_position = 3\<rparr>, \<lparr>as_userId = su_id (us ! 3), as_position = 4\<rparr>]"

definition configuring :: "string \<Rightarrow> string \<Rightarrow> assignment list \<Rightarrow> env \<Rightarrow> (db, (string \<times> int) list) prog" where
  "configuring cid adminId as env =
     transaction (updatePayoutConfiguration cid adminId
       \<lparr>pc_payoutLogic = Some ADMIN_ASSIGNED, pc_assignments = as\<rparr>)"

definition runCircleC :: "world \<Rightarrow> (nat \<Rightarrow> env) \<Rightarrow> string \<Rightarrow> (simState, simResult) prog" where
  "runCircleC w envs runId =
     andThen (does envs (simulationUser runId ''AdminC'' ADMIN 100000)) (\<lambda>adm.
     andThen (makeUsers envs runId [''C1'', ''C2'', ''C3'', ''C4''] 100000) (\<lambda>us.
     andThen (openCircle envs (su_id adm) (autoDto runId ''_CircleC'' ADMIN_ASSIGNED) (map su_id us)) (\<lambda>cid.
     andThen (does envs (configuring cid (su_id adm) (assignmentsC us))) (\<lambda>_.
     andThen (does envs (activating w cid)) (\<lambda>_.
     andThen (does envs (\<lambda>env. applyLoan env (wo_bureau w) (su_id (us ! 2)) cid)) (\<lambda>_.
     andThen (each (\<lambda>n. andThen (cycleC envs cid us n) (\<lambda>e1.
         andThen (payCycle envs cid n us) (\<lambda>e2.
         andThen (escalate envs (us ! 0) n) (\<lambda>e3. give ([e1, e2] @ e3))))) [1, 2, 3, 4]) (\<lambda>es.
     andThen (reviewAll envs cid us (ratingC us) None) (\<lambda>_.
     andThen (recordEvent us ''post'' ''peer reviews (C1/C2 low, C3/C4 fair)'') (\<lambda>e.
     toResult runId us (concat es @ [e]))))))))))"

section \<open>A configured circle\<close>

datatype simTiming = SIM_ON_TIME | SIM_LATE | SIM_MISSED

definition simTimingName :: "simTiming \<Rightarrow> string" where
  "simTimingName t = (case t of SIM_ON_TIME \<Rightarrow> ''on_time'' | SIM_LATE \<Rightarrow> ''late'' | SIM_MISSED \<Rightarrow> ''missed'')"

datatype extraType =
    EX_CONTRIBUTION_ON_TIME | EX_CONTRIBUTION_LATE | EX_MISSED_PAYMENT | EX_MISSED_POST_PAYOUT
  | EX_MISSED_POST_PAYOUT_DEFAULT | EX_PEER_RATING | EX_CYCLE_RESET

definition extraTypeName :: "extraType \<Rightarrow> string" where
  "extraTypeName t =
     (case t of EX_CONTRIBUTION_ON_TIME \<Rightarrow> ''contribution_on_time'' | EX_CONTRIBUTION_LATE \<Rightarrow> ''contribution_late''
      | EX_MISSED_PAYMENT \<Rightarrow> ''missed_payment'' | EX_MISSED_POST_PAYOUT \<Rightarrow> ''missed_payment_post_payout''
      | EX_MISSED_POST_PAYOUT_DEFAULT \<Rightarrow> ''missed_payment_post_payout_default''
      | EX_PEER_RATING \<Rightarrow> ''peer_rating'' | EX_CYCLE_RESET \<Rightarrow> ''cycle_reset'')"

record extraEvent =
  xe_member :: string
  xe_event :: extraType
  xe_rating :: "rat option"
  xe_isPostPayout :: "bool option"
  xe_note :: "string option"

record cycleConfig =
  cy_cycleNumber :: int
  cy_contributions :: "(string \<times> simTiming) list"
  cy_extraTrustEvents :: "extraEvent list"

record reviewConfig =
  rv_reviewer :: string
  rv_reviewee :: string
  rv_rating :: int
  rv_comment :: "string option"

record manualConfig =
  mc_circleName :: string
  mc_contributionAmountKobo :: int
  mc_maxSlots :: int
  mc_frequency :: cycleFrequency
  mc_payoutLogic :: payoutLogic
  mc_members :: "(string \<times> int) list"
  mc_cycles :: "cycleConfig list"
  mc_peerReviews :: "reviewConfig list"

text \<open>
  The event of a configuration. A rating that is missing makes an average that is not a number, which
  the client of the database refuses.
\<close>

definition mapExtraTrustEvent :: "extraEvent \<Rightarrow> trustScoreEvent result" where
  "mapExtraTrustEvent e =
     (let post = (case xe_isPostPayout e of None \<Rightarrow> False | Some b \<Rightarrow> b) in
      case xe_event e of
        EX_CONTRIBUTION_ON_TIME \<Rightarrow> Inr (ContributionEv True post)
      | EX_CONTRIBUTION_LATE \<Rightarrow> Inr (ContributionEv False post)
      | EX_MISSED_PAYMENT \<Rightarrow> Inr (MissedPayment False)
      | EX_MISSED_POST_PAYOUT \<Rightarrow> Inr (MissedPayment True)
      | EX_MISSED_POST_PAYOUT_DEFAULT \<Rightarrow> Inr MissedPaymentPostPayoutDefault
      | EX_PEER_RATING \<Rightarrow> (case xe_rating e of
          None \<Rightarrow> Inl (PrismaError ''PrismaClientValidationError'') | Some r \<Rightarrow> Inr (PeerRating r))
      | EX_CYCLE_RESET \<Rightarrow> Inr CycleReset)"

text \<open>\<^verbatim>\<open>memberMap\<close>: the last user made for a label. \<^verbatim>\<open>.id\<close> of a missing one throws.\<close>

type_synonym memberMap = "string \<Rightarrow> simUser option"

definition memberMapOf :: "simUser list \<Rightarrow> memberMap" where
  "memberMapOf us = map_of (rev (map (\<lambda>u. (su_label u, u)) us))"

definition idOf :: "memberMap \<Rightarrow> string \<Rightarrow> string result" where
  "idOf mm label = orThrow (PlainError ''TypeError'') (map_option su_id (mm label))"

definition contributeLabels ::
  "(nat \<Rightarrow> env) \<Rightarrow> string \<Rightarrow> int \<Rightarrow> memberMap \<Rightarrow> string list \<Rightarrow> (simState, contribution list) prog" where
  "contributeLabels envs cid n mm labels =
     each (\<lambda>l. andThen (sees (\<lambda>_. idOf mm l)) (\<lambda>uid. does envs (contributing uid cid n))) labels"

definition labelsOf :: "simTiming \<Rightarrow> cycleConfig \<Rightarrow> string list" where
  "labelsOf t c = map fst (filter (\<lambda>p. snd p = t) (cy_contributions c))"

definition eventLabel :: "cycleConfig \<Rightarrow> string" where
  "eventLabel c = joinWith '', '' (map (\<lambda>p. fst p @ '':'' @ simTimingName (snd p)) (cy_contributions c))"

definition fireExtra ::
  "(nat \<Rightarrow> env) \<Rightarrow> memberMap \<Rightarrow> int \<Rightarrow> extraEvent \<Rightarrow> (simState, simEvent list) prog" where
  "fireExtra envs mm n e =
     (case mm (xe_member e) of
        None \<Rightarrow> give []
      | Some u \<Rightarrow>
          andThen (sees (\<lambda>_. mapExtraTrustEvent e)) (\<lambda>ev.
          andThen (does envs (\<lambda>env. transaction (\<lambda>s. bindE (updateTrustScore env (su_id u) ev s)
            (\<lambda>s1. Inr ((), s1))))) (\<lambda>_.
          andThen (recordEvent [u] (showInt n) (''extra: '' @ extraTypeName (xe_event e) @
            (if present (xe_note e) then '' ('' @ orOld (xe_note e) '''' @ '')'' else ''''))) (\<lambda>r.
          give [r]))))"

definition runConfigured ::
  "(nat \<Rightarrow> env) \<Rightarrow> string \<Rightarrow> memberMap \<Rightarrow> simUser list \<Rightarrow> cycleConfig \<Rightarrow> (simState, simEvent list) prog" where
  "runConfigured envs cid mm us c =
     (let n = cy_cycleNumber c; onTimers = labelsOf SIM_ON_TIME c; lateOnes = labelsOf SIM_LATE c in
      andThen (onlyIf (onTimers \<noteq> []) (andThen (dueMode envs cid n ON_TIME)
        (\<lambda>_. contributeLabels envs cid n mm onTimers))) (\<lambda>_.
      andThen (onlyIf (lateOnes \<noteq> []) (andThen (dueMode envs cid n LATE)
        (\<lambda>_. andThen (contributeLabels envs cid n mm lateOnes) (\<lambda>_. dueMode envs cid n ON_TIME)))) (\<lambda>_.
      andThen (recordEvent us (showInt n) (eventLabel c)) (\<lambda>e1.
      andThen (payCycle envs cid n us) (\<lambda>e2.
      andThen (each (fireExtra envs mm n) (cy_extraTrustEvents c)) (\<lambda>es.
      give ([e1, e2] @ concat es)))))))"

definition reviewConfigured ::
  "(nat \<Rightarrow> env) \<Rightarrow> string \<Rightarrow> memberMap \<Rightarrow> reviewConfig \<Rightarrow> (simState, unit) prog" where
  "reviewConfigured envs cid mm r =
     (case (mm (rv_reviewer r), mm (rv_reviewee r)) of
        (Some a, Some b) \<Rightarrow> andThen (does envs (\<lambda>env. transaction (submitReview env cid (su_id a)
          \<lparr>srd_revieweeId = su_id b, srd_rating = rv_rating r, srd_comment = rv_comment r\<rparr>))) (\<lambda>_. give ())
      | _ \<Rightarrow> give ())"

definition executeManualSim ::
  "world \<Rightarrow> (nat \<Rightarrow> env) \<Rightarrow> string \<Rightarrow> manualConfig \<Rightarrow> (simState, simResult) prog" where
  "executeManualSim w envs runId c =
     (let a = mc_contributionAmountKobo c in
      andThen (does envs (simulationUser runId ''Admin'' ADMIN a)) (\<lambda>adm.
      andThen (makeUsers envs runId (map fst (mc_members c)) a) (\<lambda>made.
      let mm = memberMapOf made; us = List.map_filter (\<lambda>m. mm (fst m)) (mc_members c) in
      andThen (openCircle envs (su_id adm)
        \<lparr>cd_name = runId @ ''_'' @ mc_circleName c, cd_contributionAmount = showInt a,
         cd_frequency = mc_frequency c, cd_durationCycles = int (length (mc_members c)),
         cd_maxSlots = mc_maxSlots c, cd_payoutLogic = mc_payoutLogic c,
         cd_visibility = Some VIS_PUBLIC\<rparr> (map su_id us)) (\<lambda>cid.
      andThen (onlyIf (mc_payoutLogic c = ADMIN_ASSIGNED) (does envs (configuring cid (su_id adm)
        (List.map_filter (\<lambda>m. map_option (\<lambda>u. \<lparr>as_userId = su_id u, as_position = snd m\<rparr>) (mm (fst m)))
          (mc_members c))))) (\<lambda>_.
      andThen (does envs (activating w cid)) (\<lambda>_.
      andThen (each (runConfigured envs cid mm us) (mc_cycles c)) (\<lambda>es.
      andThen (each (reviewConfigured envs cid mm) (mc_peerReviews c)) (\<lambda>_.
      andThen (if mc_peerReviews c = [] then give []
        else andThen (recordEvent us ''post'' ''peer reviews applied'') (\<lambda>e. give [e])) (\<lambda>e.
      toResult runId us (concat es @ e))))))))))"

section \<open>The deletion, and the simulations\<close>

definition cleanupSimRecords :: "string \<Rightarrow> string list \<Rightarrow> (db, unit) prog" where
  "cleanupSimRecords runId cids =
     andThen (onlyIf (cids \<noteq> []) (deleteCircles (set cids))) (\<lambda>_ s.
     let uids = runUserIds runId s; U = set uids in
     if uids = [] then (Inr (), s) else deleteUsers U (set (walletIdsOf U s)) s)"

definition cleaningUp :: "string \<Rightarrow> (simState, unit) prog" where
  "cleaningUp runId p =
     (case cleanupSimRecords runId (snd p) (snd (fst p)) of (r, s) \<Rightarrow> (r, ((fst (fst p), s), snd p)))"

text \<open>A request starts with an empty list of circles, which is forgotten after it.\<close>

definition simulating :: "(string \<Rightarrow> (simState, 'a) prog) \<Rightarrow> (nat \<Rightarrow> env) \<Rightarrow> (bench, 'a) prog" where
  "simulating m envs b =
     (let runId = ''sim_'' @ showInt (now (envs (fst b))) in
      case lastly (m runId) (cleaningUp runId) (b, []) of (r, p) \<Rightarrow> (r, fst p))"

definition runManualSimulation :: "world \<Rightarrow> (nat \<Rightarrow> env) \<Rightarrow> manualConfig \<Rightarrow> (bench, simResult) prog" where
  "runManualSimulation w envs c = simulating (\<lambda>runId. executeManualSim w envs runId c) envs"

definition runAutoSimulation ::
  "world \<Rightarrow> (nat \<Rightarrow> env) \<Rightarrow> (bench, simResult \<times> simResult \<times> simResult) prog" where
  "runAutoSimulation w envs =
     simulating (\<lambda>runId.
       andThen (runCircleA w envs runId) (\<lambda>a.
       andThen (runCircleB w envs runId) (\<lambda>b.
       andThen (runCircleC w envs runId) (\<lambda>c. give (a, b, c))))) envs"


section \<open>What a simulation preserves\<close>

definition onSim :: "(db \<Rightarrow> bool) \<Rightarrow> simState \<Rightarrow> bool" where
  "onSim I p = I (snd (fst p))"

lemma preserves_onBench [preserving]: "preserves (onDb I) m \<Longrightarrow> preserves (onSim I) (onBench m)"
  by (auto simp: preserves_def onBench_def onSim_def onDb_def split: prod.split) (metis snd_conv)+

lemma preserves_does [preserving]: "(\<And>env. preserves I (f env)) \<Longrightarrow> preserves (onSim I) (does envs f)"
  unfolding does_def by (intro preserving)

lemma preserves_sees [preserving]: "preserves (onSim I) (sees f)"
  unfolding sees_def by (intro preserving)

lemma preserves_pushCircle [preserving]: "preserves (onSim I) (pushCircle cid)"
  by (simp add: preserves_def pushCircle_def onSim_def)

lemma preserves_branch [preserving]:
  "preserves I a \<Longrightarrow> preserves I b \<Longrightarrow> preserves I (if c then a else b)"
  "preserves I a \<Longrightarrow> (\<And>x. preserves I (f x)) \<Longrightarrow> preserves I (case v of None \<Rightarrow> a | Some x \<Rightarrow> f x)"
  "(\<And>x y. preserves I (g x y)) \<Longrightarrow> preserves I (case q of (x, y) \<Rightarrow> g x y)"
  by (simp_all split: option.split prod.split)

lemma recording_sound [preserving]:
  "preserves (onSim I) (recordEvent us cycle event)" "preserves (onSim I) (toResult runId us es)"
  unfolding recordEvent_def toResult_def by (intro preserving)+

lemma simulationUser_sound [preserving]: "preserves sound (simulationUser runId label r a env)"
  unfolding simulationUser_def by (intro preserving)

lemma submitReview_moves: "submitReview env cid uid d s = Inr (x, s') \<Longrightarrow> moves s s'"
proof -
  have "moves s s'" if "moves (s\<lparr>peerReviews := rs\<rparr>) s'" for rs
    using moves_trans [OF moves_same that] by simp
  moreover assume "submitReview env cid uid d s = Inr (x, s')"
  ultimately show ?thesis
    by (auto simp: submitReview_def insertReview_def Let_def result_simps split: if_splits
        dest!: updateTrustScore_moves intro: moves_same)
qed

lemma reviewing_sound [preserving]: "preserves sound (transaction (submitReview env cid uid d))"
  by (rule preserves_sound, erule submitReview_moves)

lemma scoring_sound [preserving]:
  "preserves sound (transaction (\<lambda>s. bindE (updateTrustScore env uid ev s) (\<lambda>s1. Inr ((), s1))))"
  by (rule preserves_sound) (auto simp: result_simps intro: updateTrustScore_moves)

lemma configuring_sound [preserving]: "preserves sound (configuring cid adminId as env)"
  unfolding configuring_def by (intro preserving)

lemma circle_sound [preserving]:
  "preserves (onSim sound) (openCircle envs adminId dto uids)"
  "preserves (onSim sound) (dueMode envs cid n mode)"
  "preserves (onSim sound) (contributeEach envs cid n uids)"
  "preserves (onSim sound) (payCycle envs cid n us)"
  "preserves (onSim sound) (reviewAll envs cid us rating comment)"
  "preserves (onSim sound) (makeUsers envs runId labels a)"
  unfolding openCircle_def dueMode_def contributeEach_def payCycle_def reviewAll_def makeUsers_def enrol_def
  by (intro preserving)+

lemma fixed_sound [preserving]:
  "preserves (onSim sound) (runCircleA w envs runId)"
  "preserves (onSim sound) (runCircleB w envs runId)"
  "preserves (onSim sound) (runCircleC w envs runId)"
  unfolding runCircleA_def runCircleB_def runCircleC_def cycleB_def cycleC_def escalate_def Let_def
  by (intro preserving)+

lemma executeManualSim_sound [preserving]: "preserves (onSim sound) (executeManualSim w envs runId c)"
  unfolding executeManualSim_def runConfigured_def reviewConfigured_def contributeLabels_def fireExtra_def Let_def
  by (intro preserving)

lemma cleanupSimRecords_sound: "preserves sound (cleanupSimRecords runId cids)"
proof -
  have "preserves sound (\<lambda>s. let uids = runUserIds runId s; U = set uids in
      if uids = [] then (Inr (), s) else deleteUsers U (set (walletIdsOf U s)) s)"
    using preservesD [OF deleteUsers_sound] by (simp add: preserves_def Let_def)
  then show ?thesis unfolding cleanupSimRecords_def by (intro preserving)
qed

lemma cleaningUp_sound [preserving]: "preserves (onSim sound) (cleaningUp runId)"
  unfolding preserves_def
proof (intro allI impI)
  fix p :: simState assume "onSim sound p"
  then have "sound (snd (cleanupSimRecords runId (snd p) (snd (fst p))))"
    using preservesD [OF cleanupSimRecords_sound] by (simp add: onSim_def)
  then show "onSim sound (snd (cleaningUp runId p))"
    by (simp add: cleaningUp_def onSim_def case_prod_beta)
qed

lemma simulating_sound:
  assumes "\<And>runId. preserves (onSim sound) (m runId)"
  shows "preserves (onDb sound) (simulating m envs)"
  unfolding preserves_def
proof (intro allI impI)
  fix b :: bench assume "onDb sound b"
  then have "onSim sound (b, [])" by (simp add: onSim_def onDb_def)
  then have "onSim sound (snd (lastly (m r) (cleaningUp r) (b, [])))" for r
    by (rule preservesD [rotated]) (intro preserving assms)
  then show "onDb sound (snd (simulating m envs b))"
    by (simp add: simulating_def Let_def onSim_def onDb_def case_prod_beta)
qed

lemma simulations_sound:
  "preserves (onDb sound) (runManualSimulation w envs c)" "preserves (onDb sound) (runAutoSimulation w envs)"
  unfolding runManualSimulation_def runAutoSimulation_def by (intro simulating_sound preserving)+

end
