(* ===== verification/BenchClaims.thy ===== *)
theory BenchClaims
  imports Simulation PlatformClaims
begin

text \<open>
  Properties of the bench of \<^verbatim>\<open>src/modules/simulation\<close>: its requests as steps of a machine, the check
  of the books it offers, and the deletion of a run.
\<close>

section \<open>The requests of the bench\<close>

datatype benchRequest =
    MakeUsers sandboxUsersDto
  | MakeCircle sandboxCircleDto
  | RunOneCycle runCycleDto
  | TakeLoan string string
  | DeleteRun string
  | SimulateManual manualConfig
  | SimulateAuto

text \<open>An error is answered, and what was committed before it stays.\<close>

fun benchStep :: "world \<Rightarrow> (nat \<Rightarrow> env) \<Rightarrow> benchRequest \<Rightarrow> bench \<Rightarrow> bench" where
  "benchStep w envs (MakeUsers d) b = snd (createUsers envs d b)"
| "benchStep w envs (MakeCircle d) b = snd (sandboxCircle w envs d b)"
| "benchStep w envs (RunOneCycle d) b = snd (runCycle envs d b)"
| "benchStep w envs (TakeLoan uid cid) b = snd (sandboxLoan w envs uid cid b)"
| "benchStep w envs (DeleteRun runId) b = snd (call envs (\<lambda>env. resetRun runId) b)"
| "benchStep w envs (SimulateManual c) b = snd (runManualSimulation w envs c b)"
| "benchStep w envs SimulateAuto b = snd (runAutoSimulation w envs b)"

definition benchRun :: "world \<Rightarrow> (nat \<Rightarrow> env) \<Rightarrow> benchRequest list \<Rightarrow> bench \<Rightarrow> bench" where
  "benchRun w envs rs b = foldl (\<lambda>b r. benchStep w envs r b) b rs"

lemma benchStep_sound: "onDb sound b \<Longrightarrow> onDb sound (benchStep w envs r b)"
  using preservesD [OF createUsers_sound] preservesD [OF sandboxCircle_sound] preservesD [OF runCycle_sound]
    preservesD [OF sandboxLoan_sound] preservesD [OF preserves_call [OF resetRun_sound]]
    preservesD [OF simulations_sound(1)] preservesD [OF simulations_sound(2)]
  by (cases r) simp_all

lemma benchRun_sound: "onDb sound b \<Longrightarrow> onDb sound (benchRun w envs rs b)"
  unfolding benchRun_def by (induction rs arbitrary: b) (simp_all add: benchStep_sound)

section \<open>A bench in use\<close>

definition benchEnv :: "nat \<Rightarrow> env" where
  "benchEnv k = \<lparr>now = 1000000000000, tz = 3600000, rnd = (\<lambda>i. replicate k CHR ''e'' @ replicate i CHR ''i'')\<rparr>"

definition twoUsers :: sandboxUsersDto where
  "twoUsers = \<lparr>sx_runId = Some ''sim_1'', sx_count = 2, sx_fundAmountKobo = None\<rparr>"

definition benched :: db where
  "benched = snd (benchRun world1 benchEnv [DeleteRun ''ada'', MakeUsers twoUsers] (0, running))"

lemmas bench_simps = benchRun_def fundAmountOf_def DEFAULT_FUND_AMOUNT_def runOf_def andThen_def peek_def call_def
  onlyIf_def give_def createUsers_def twoUsers_def createSimUser_def createFundedUser_def upt_rec transaction_def
  simUserRow_def insertUser_def insertWallet_def simFundEntry_def benchEnv_def simEmail_def ensureTrustStats_def
  newTrustStats_def showNat.simps toLowerCase_def lowerChar_def resetRun_def deleteUsers_def deleteCircles_def
  deleteRows_def deleteUnless_def runUserIds_def simUsers_def walletIdsOf_def circleIdsOf_def usersReferred_def
  walletsReferred_def dropUsers_def schedulesReferred_def membershipsReferred_def circlesReferred_def

lemma benched_users: "map u_email (users benched) = [''bob@ajoti.com'', ''sim_1_m1@sim.test'', ''sim_1_m2@sim.test'']"
  by (simp add: benched_def bench_simps fixture lookups writing) code_simp

lemma benched_run: "simUsers ''sim_1'' benched \<noteq> []"
proof -
  have "''sim_1_m1@sim.test'' \<in> set (map u_email (users benched))"
    unfolding benched_users by simp
  then obtain u where u: "u \<in> set (users benched)" "u_email u = ''sim_1_m1@sim.test''"
    unfolding set_map by (elim imageE) simp
  moreover have "startsWith ''sim_1'' (u_email u)" unfolding u(2) by simp
  ultimately show ?thesis unfolding simUsers_def filter_empty_conv by blast
qed

lemma running_sound: "sound running"
  by (auto simp: sound_def ledgerChained_def ledgerUnique_def transactionsUnique_def amountsOk_def entriesOf_def
      topBalance_def le_key_def fixture)

lemma reset_running:
  "resetRun ''ada'' running = (Inr 1, dropUsers {''ada''} (withoutWallets {''ada''} (withoutMoney {''ada''} {''wa''} (withoutCircles {''c1''} running))))"
  by (simp add: bench_simps withoutWallets_def withoutMoney_def withoutCircles_def fixture lookups)

section \<open>The properties\<close>

text \<open>
  C38: the bench's check of the books always passes. In whatever order users are made, circles opened,
  cycles run, loans taken, runs deleted and whole simulations gone through, with whatever of them
  failing halfway, the check of a run answers that all is reconciled: it replays every wallet of the
  users of the run and every system wallet with entries, and each replay gives the reported balance.
\<close>

theorem bench_always_reconciles:
  assumes "sound s" and "t = snd (benchRun w envs rs (k, s))" and "reconcileRun r t = Inr (ok, rows)"
  shows "ok \<and> list_all (\<lambda>x. rr_computedBalance x = computeTotalBalance t (rr_walletId x)) rows \<and>
    rr_walletId ` set rows = w_id ` {v. v \<in> set (wallets t) \<and> w_userId v \<in> set (runUserIds r t)}
      \<union> sw_walletId ` {sw. sw \<in> set (systemWallets t) \<and> entriesOf (sw_walletId sw) t \<noteq> []}"
proof -
  have "onDb sound (benchRun w envs rs (k, s))"
    using assms(1) by (intro benchRun_sound) (simp add: onDb_def)
  then have "ledgerChained t" by (simp add: onDb_def assms(2) sound_def)
  then show ?thesis
    using assms(3) reconcileRun_passes [OF _ assms(3)] reconcileRows_fields reconcileRows_wallets [of r t]
      ledgerChained_calculated
    by (auto simp: reconcileRun_rows list_all_iff)
qed

theorem bench_always_reconciles_witness:
  "\<exists>rows. reconcileRun ''sim_1'' benched = Inr (True, rows) \<and>
     list_all (\<lambda>x. rr_computedBalance x = computeTotalBalance benched (rr_walletId x)) rows"
proof -
  obtain ok rows where "reconcileRun ''sim_1'' benched = Inr (ok, rows)"
    using benched_run reconcileRun_rows by blast
  with bench_always_reconciles [OF running_sound benched_def this] show ?thesis by auto
qed

text \<open>
  C39: a run that was deleted is gone, and nobody else's money with it. The users whose mail address
  starts with the identifier of the run are the ones that go, with their wallets; no circle, membership,
  contribution, payout, loan or score is theirs any more, and the check of the run finds no user. Every
  wallet of somebody else, and the pool, keeps its balance, and also what it holds reserved for a
  circle that went with the run.
\<close>

theorem run_deleted:
  assumes "resetRun r s = (Inr n, s')" and "distinct (map u_id (users s))"
    and "uid \<in> set (runUserIds r s)" and "wid \<notin> set (walletIdsOf (set (runUserIds r s)) s)"
  shows "users s' = filter (\<lambda>u. \<not> startsWith r (u_email u)) (users s) \<and>
    wallets s' = filter (\<lambda>w. w_userId w \<notin> set (runUserIds r s)) (wallets s) \<and>
    \<not> belongsTo uid s' \<and> reconcileRun r s' = Inl (NotFound ''No sim users found for runId'') \<and>
    computeTotalBalance s' wid = computeTotalBalance s wid \<and> totalReserved s' wid = totalReserved s wid"
proof -
  have users: "users s' = filter (\<lambda>u. \<not> startsWith r (u_email u)) (users s)"
    by (rule resetRun_others(1) [OF assms(1,2)])
  then have "simUsers r s' = []" by (auto simp: simUsers_def filter_empty_conv)
  with users resetRun_others(2,3) [OF assms(1,2)] resetRun_clean [OF assms(1,3)] assms(4) show ?thesis
    by (simp add: reconcileRun_def ensure_def bindE_def)
qed

theorem run_deleted_witness:
  "\<not> belongsTo ''ada'' (snd (resetRun ''ada'' running)) \<and> memberships (snd (resetRun ''ada'' running)) = [] \<and>
   totalReserved (snd (resetRun ''ada'' running)) ''wb'' = 10000"
proof -
  let ?s = "snd (resetRun ''ada'' running)"
  have "resetRun ''ada'' running = (Inr 1, ?s)" by (simp add: reset_running)
  from run_deleted [OF this, of "''ada''" "''wb''"]
  have "\<not> belongsTo ''ada'' ?s" "totalReserved ?s ''wb'' = totalReserved running ''wb''"
    by (simp_all add: runUserIds_def simUsers_def walletIdsOf_def fixture)
  moreover have "memberships ?s = []"
    unfolding reset_running
    by (simp add: fixture dropUsers_def withoutWallets_def withoutMoney_def withoutCircles_def)
  ultimately show ?thesis by (simp add: totalReserved_def fixture)
qed



end
