(* ===== verification/Spec2Isabelle.thy ===== *)
theory Spec2Isabelle
  imports LedgerClaims PaymentClaims FundingClaims RoscaClaims ScoreClaims PlatformClaims AccountClaims
    IdentityClaims AdminClaims ServiceClaims BenchClaims
begin

text \<open>
  Ajoti's backend: a NestJS service over PostgreSQL for rotating savings circles (ROSCAs). Users hold
  wallets backed by an append-only ledger, fund and empty them through a payment provider, join circles
  with a collateral, contribute to each cycle and receive the pot of one; a trust score and loans
  hang on the history. All state is in the database; a request handler is a function of the request
  that reads and writes it. This development models the handlers that move money or decide who may.

  \<^bold>\<open>Parts.\<close> Sources are under src/src/modules/ unless said otherwise.

  \<^item> \<open>Prelude\<close>: errors as values, list tables, JavaScript's rounding, strings.
  \<^item> \<open>Schema\<close>: the tables of src/prisma/schema.prisma as records, the database \<open>db\<close>, the environment.
  \<^item> \<open>Ledger\<close>: ledger/ledger.service.ts. \<open>Posting\<close>: the abstract ledger, a sequence of postings;
    \<open>Reconciliation\<close>: reconcilation/reconcilation.service.ts; \<open>Wallet\<close>: wallet/ and buckets/.
  \<^item> \<open>Dates\<close>: the Date methods of JavaScript on milliseconds, used by circles and trust.
  \<^item> \<open>Trust\<close>: trust/. \<open>Credit\<close>: credit/. \<open>Loans\<close>: loans/loans.service.ts.
  \<^item> \<open>Contribution\<close>, \<open>Payout\<close>: contribution/ and payout/. \<open>PayoutSorter\<close>, \<open>Circle\<close>, \<open>Membership\<close>:
    rosca/payout-sorter.util.ts, rosca/services/circle.service.ts, membership.service.ts and
    invite.service.ts.
  \<^item> \<open>Transactions\<close>, \<open>Withdrawal\<close>, \<open>Webhooks\<close>: transactions/, withdrawal/ and webhooks/.
  \<^item> \<open>Funding\<close>: funding/, the checkout, the reconciliation of payments that stay pending and its queue.
  \<^item> \<open>PeerReview\<close>: peer-review/. \<open>Otp\<close>: otp/ and src/src/common/security; \<open>Auth\<close>: auth/, and \<open>Sessions\<close>
    its facts over time.
  \<^item> \<open>Encryption\<close>: src/src/common/encryption; \<open>Identity\<close>: kyc/identity-verification.service.ts;
    \<open>VirtualAccounts\<close>: virtual-accounts/; \<open>Kyc\<close>: kyc/kyc.service.ts and kyc.processor.ts, and \<open>Levels\<close> its
    facts over time.
  \<^item> \<open>Users\<close>: users/users.service.ts, and \<open>Closing\<close> what a closed account leaves; \<open>Governance\<close>: superadmin/.
  \<^item> \<open>Resets\<close>, \<open>Reports\<close>, \<open>Exports\<close>: the superadmin's reset of a wallet, analytics, lists and exports
    (superadmin-analytics.service.ts, superadmin-audit.service.ts).
  \<^item> \<open>Oversight\<close>: rosca/services/admin-oversight.service.ts; \<open>Routes\<close>: rosca/controllers with the guards
    and the formats of the answers.
  \<^item> \<open>Mail\<close>: mail/, the outbox; \<open>Notifications\<close>: notification/, the records of notices and the worker
    of the event queue, which it shares with the worker of KYC.
  \<^item> \<open>Provider\<close>: flutterwave/, src/src/config/flutterwave.config.ts and banks/.
  \<^item> \<open>Platform\<close>: the services that move money as one state machine, whose steps are the requests they take.
  \<^item> \<open>Programs\<close>: sequences of calls that commit one by one; \<open>Sandbox\<close>, \<open>Simulation\<close>: simulation/, the
    bench that drives the services on a database of its own.
  \<^item> \<open>Scenario\<close>: a concrete platform the witnesses run the operations on.
  \<^item> \<open>LedgerClaims\<close>, \<open>ScoreClaims\<close>, \<open>RoscaClaims\<close>, \<open>PaymentClaims\<close>, \<open>FundingClaims\<close>,
    \<open>PlatformClaims\<close>, \<open>AccountClaims\<close>, \<open>IdentityClaims\<close>, \<open>AdminClaims\<close>, \<open>ServiceClaims\<close>,
    \<open>BenchClaims\<close>: the properties.

  \<^bold>\<open>How state and operations correspond.\<close> A table is a list of rows in the record \<open>db\<close>; the ledger's
  newest entry is first, the order of its \<open>createdAt\<close>. An operation that runs in one database
  transaction is a function to \<open>(result \<times> db) result\<close>: an error (\<open>Inl\<close>, one of \<open>http_error\<close>)
  carries no state since the transaction is rolled back. One that spans several transactions
  returns \<open>'a result \<times> db\<close>, with the state an error leaves behind. Unique constraints are checked by
  the definition that inserts. Amounts are kobo, JavaScript's bigint, so \<open>int\<close> without
  wrap-around; doubles are rationals, and where the code rounds, \<open>math_round\<close> rounds. Division of
  bigints truncates (\<open>bigint_div\<close>). The environment \<open>env\<close> gives a request its time, its time zone and
  its fresh identifiers \<open>rnd env 0, rnd env 1, \<dots>\<close>, a different index for each one the code draws.

  \<^bold>\<open>Interfaces.\<close> \<open>keyed_table\<close> is the contract of a table with a unique key, interpreted for the
  ledger, the wallets, contributions, memberships, transactions, webhook events, peer reviews and virtual
  accounts; the laws give that
  inserting keeps keys distinct and that a taken key is refused. \<open>posts s ps s'\<close> is what the services
  rely on of the ledger: from \<open>s\<close> to \<open>s'\<close> exactly the postings \<open>ps\<close> were made; totals, reservations and
  audits follow from the list \<open>ps\<close> alone, and every operation that moves money has a lemma with its
  postings.

  \<^bold>\<open>What is shown.\<close> The ledger refines the abstract one, stays chained, audited and without overdraft;
  contributions, payouts, withdrawals, settlements and webhooks make exactly the postings they should, once,
  whether a payment is reported by the provider's webhook, by a reconciliation, or by both; in every state
  that any sequence of requests reaches the books balance and history is unchanged; scores, schedules,
  orders and loans follow their rules. A one-time code is accepted once, a user has one session and one
  virtual account, a level of verification is earned step by step and no money moves without one.
  On every route of a circle but one the circle is its administrator's, and what the administrator sees
  follows the payments; a wallet that was reset gets its money back once; a mail is accepted once and its
  record says what became of it; in production a webhook carries the secret; the analytics add up and an
  export of circles can be read back. On the bench every check of a run passes, whatever was done, and a run
  that was deleted is gone without touching anybody else's money. Where the code departs from its intention
  the departure is a theorem (a released bucket that was never reserved, a rejected member released
  twice, a reversed payout that cannot be retried, a loan without a debit, a late success that is
  ignored, an account taken over by registering an administrator, a ban nobody checks, interventions
  without an audit entry, a circle anyone activates, jobs the wrong worker takes, collateral stranded by a
  cancelled circle, a ciphertext sent for a BVN, a level lost by sending a photo, a run deleted halfway).

  \<^bold>\<open>Bounds and fuel.\<close> No definition uses fuel. Loops over tables are structural recursions; the retries
  of the bureau and of the registry count down from \<open>RETRY_ATTEMPTS\<close> and \<open>MAX_RETRIES\<close>; the calendar is
  arithmetic on days.

  \<^bold>\<open>Not modelled.\<close> Isolation: handlers run one after another, as the serialisable transactions and row
  locks of the code make them appear; where a handler spans transactions the properties interleave its
  parts. Notices and mails are states of their own; that a handler sends them is not part of it, and
  logging and metrics are left out. The payment provider, the
  bureau, the registry, the cipher, password hashes and signatures are parameters; \<open>securityOk\<close> and
  \<open>cipherOk\<close> say what is relied on of them. The upload of files is its URL. The templates of mails and
  the socket gateway are output only. The details of one user, the review queue of KYC for superadmins
  and the list of debts (which no operation creates) are queries that are not modelled; the scripts
  repeat the simulations from the command line.
\<close>

end
